(* ===== verification/KP_Prelude.thy ===== *)
theory KP_Prelude
  imports Main "HOL-Library.AList"
begin

text \<open>
  Shared vocabulary of the development: the collections of simplification rules the
  components use, the string operations of the JavaScript standard library that the
  TypeScript sources call (\<^verbatim>\<open>split\<close>, \<^verbatim>\<open>join\<close>, \<^verbatim>\<open>replace\<close> with a global pattern,
  \<^verbatim>\<open>includes\<close>, \<^verbatim>\<open>startsWith\<close>, \<^verbatim>\<open>slice\<close>), decimal rendering of integers, and generic
  facts on association lists. A string is the list of its UTF-8 bytes; every delimiter the
  sources split at or search for is ASCII, so these operations act on bytes exactly as they
  act on JavaScript's code units.
\<close>

named_theorems assoc_simps "reading and writing association lists"
named_theorems text_simps "splitting, joining and replacing in strings"

section \<open>Strings\<close>

text \<open>\<^verbatim>\<open>s.split(d)\<close> for a delimiter of one character.\<close>

fun split_on :: "char \<Rightarrow> string \<Rightarrow> string list" where
  "split_on d [] = [[]]"
| "split_on d (c # s) =
     (if c = d then [] # split_on d s
      else (case split_on d s of [] \<Rightarrow> [[c]] | w # ws \<Rightarrow> (c # w) # ws))"

text \<open>\<^verbatim>\<open>ws.join(sep)\<close>.\<close>

fun join :: "string \<Rightarrow> string list \<Rightarrow> string" where
  "join sep [] = []"
| "join sep [w] = w"
| "join sep (w # v # ws) = w @ sep @ join sep (v # ws)"

text \<open>\<^verbatim>\<open>s.replace(/c/g, r)\<close> for a pattern of one character.\<close>

definition replace1 :: "char \<Rightarrow> string \<Rightarrow> string \<Rightarrow> string" where
  "replace1 c r s = concat (map (\<lambda>x. if x = c then r else [x]) s)"

text \<open>\<^verbatim>\<open>s.replace(/ab/g, r)\<close> for a pattern of two characters: leftmost matches, not overlapping.\<close>

fun replace2 :: "char \<Rightarrow> char \<Rightarrow> string \<Rightarrow> string \<Rightarrow> string" where
  "replace2 a b r (x # y # s) =
     (if x = a \<and> y = b then r @ replace2 a b r s else x # replace2 a b r (y # s))"
| "replace2 a b r s = s"

text \<open>\<^verbatim>\<open>s.startsWith(p)\<close> and \<^verbatim>\<open>s.includes(p)\<close>.\<close>

fun starts_with :: "string \<Rightarrow> string \<Rightarrow> bool" where
  "starts_with s [] = True"
| "starts_with [] (p # ps) = False"
| "starts_with (c # s) (p # ps) = (c = p \<and> starts_with s ps)"

fun includes_str :: "string \<Rightarrow> string \<Rightarrow> bool" where
  "includes_str [] p = (p = [])"
| "includes_str (c # s) p = (starts_with (c # s) p \<or> includes_str s p)"

text \<open>A natural number and an integer as JavaScript prints them.\<close>

fun nat_str :: "nat \<Rightarrow> string" where
  "nat_str n =
     (if n < 10 then [''0123456789'' ! n] else nat_str (n div 10) @ [''0123456789'' ! (n mod 10)])"

declare nat_str.simps [simp del]

definition int_str :: "int \<Rightarrow> string" where
  "int_str i = (if i < 0 then CHR ''-'' # nat_str (nat (- i)) else nat_str (nat i))"

text \<open>The decimal digits a string starts with or consists of.\<close>

definition is_digit :: "char \<Rightarrow> bool" where
  "is_digit c = (c \<in> set ''0123456789'')"

definition digit_value :: "char \<Rightarrow> nat" where
  "digit_value c = of_char c - 48"

definition digits_value :: "string \<Rightarrow> nat" where
  "digits_value s = foldl (\<lambda>n c. 10 * n + digit_value c) 0 s"

section \<open>Lemmas on strings\<close>

lemma split_on_ne [simp]: "split_on d s \<noteq> []"
  by (induction s) (auto split: list.splits)

lemma split_on_no_delim: "d \<notin> set s \<Longrightarrow> split_on d s = [s]"
  by (induction s) auto

lemma split_on_append:
  "d \<notin> set w \<Longrightarrow> split_on d (w @ d # s) = w # split_on d s"
  by (induction w) auto

lemma split_on_join [text_simps]:
  assumes "ws \<noteq> []" and "\<forall>w \<in> set ws. d \<notin> set w"
  shows "split_on d (join [d] ws) = ws"
  using assms
proof (induction "[d]" ws rule: join.induct)
  case 1
  then show ?case by simp
next
  case (2 w)
  then show ?case by (simp add: split_on_no_delim)
next
  case (3 w v ws)
  then show ?case by (simp add: split_on_append)
qed

lemma split_on_no_delim_in: "w \<in> set (split_on d s) \<Longrightarrow> d \<notin> set w"
  by (induction s arbitrary: w) (auto split: list.splits if_splits)

lemma join_split_on [text_simps]: "join [d] (split_on d s) = s"
proof (induction s)
  case Nil
  show ?case by simp
next
  case (Cons c s)
  obtain w ws where sp: "split_on d s = w # ws"
    by (cases "split_on d s") auto
  have IH: "join [d] (w # ws) = s" using Cons sp by simp
  show ?case
  proof (cases "c = d")
    case True
    then show ?thesis using sp IH by simp
  next
    case False
    then show ?thesis using sp IH by (cases ws) auto
  qed
qed

lemma replace1_Nil [simp]: "replace1 c r [] = []"
  by (simp add: replace1_def)

lemma replace1_Cons [simp]:
  "replace1 c r (x # s) = (if x = c then r else [x]) @ replace1 c r s"
  by (simp add: replace1_def)

lemma replace1_absent [text_simps]: "c \<notin> set s \<Longrightarrow> replace1 c r s = s"
  by (induction s) auto

lemma replace1_removes: "c \<notin> set r \<Longrightarrow> c \<notin> set (replace1 c r s)"
  by (induction s) auto

lemma starts_with_append [simp]: "starts_with (p @ s) p"
  by (induction p) auto

lemma starts_with_iff: "starts_with s p \<longleftrightarrow> (\<exists>t. s = p @ t)"
  by (induction s p rule: starts_with.induct) auto

lemma nat_str_ne [simp]: "nat_str n \<noteq> []"
  by (subst nat_str.simps) simp

lemma nat_str_digits: "set (nat_str n) \<subseteq> set ''0123456789''"
proof (induction n rule: nat_str.induct)
  case (1 n)
  have dig: "''0123456789'' ! m \<in> set ''0123456789''" if "m < 10" for m :: nat
    using that by (intro nth_mem) simp
  show ?case
    using 1 dig [of n] dig [of "n mod 10"] by (subst nat_str.simps) auto
qed

section \<open>Association lists\<close>

lemmas map_of_update [assoc_simps] = update_conv'
lemmas map_of_delete [assoc_simps] = delete_conv'

lemma map_of_mapped [assoc_simps]:
  "map_of (map (\<lambda>(k, v). (k, f v)) kvs) k = map_option f (map_of kvs k)"
  by (induction kvs) auto

lemma keys_mapped [assoc_simps]: "map fst (map (\<lambda>(k, v). (k, f k v)) kvs) = map fst kvs"
  by (induction kvs) auto

lemma update_absent: "k \<notin> fst ` set kvs \<Longrightarrow> AList.update k v kvs = kvs @ [(k, v)]"
  by (induction kvs) auto

lemma map_of_Some_in_keys: "map_of kvs k = Some v \<Longrightarrow> k \<in> fst ` set kvs"
  by (metis map_of_SomeD image_eqI fst_conv)

lemma map_of_None_keys: "map_of kvs k = None \<longleftrightarrow> k \<notin> fst ` set kvs"
  by (simp add: map_of_eq_None_iff)

lemma set_update_subset: "set (AList.update k v kvs) \<subseteq> insert (k, v) (set kvs)"
  by (induction kvs) auto

lemma update_same: "map_of kvs k = Some v \<Longrightarrow> AList.update k v kvs = kvs"
  by (induction kvs) auto

end
