(* ===== verification/JS_Value.thy ===== *)
theory JS_Value
  imports KP_Prelude
begin

text \<open>
  JavaScript values as the modelled TypeScript handles them: JSON trees with \<^verbatim>\<open>undefined\<close>
  and \<^verbatim>\<open>NaN\<close>. Numbers are integers (every number the modelled code computes with is a
  count, an index, a size or a second); an object is the association list of its own
  enumerable properties in enumeration order. Members inherited from
  \<^verbatim>\<open>Object.prototype\<close> and the early enumeration of integer-like keys are outside the model.
  The second part is the \<^verbatim>\<open>lodash\<close> interface: lodash is a package, so the
  definitions of the model that call it take its operations as a record argument, and what
  they rely on is the predicate \<open>lodash_ok\<close>, which states its documented behaviour.
\<close>

datatype js =
    Undef
  | Null
  | Bool bool
  | NaN
  | Num int
  | Str string
  | Arr "js list"
  | Obj "(string \<times> js) list"

type_synonym obj = "(string \<times> js) list"

section \<open>Termination of recursions through objects and arrays\<close>

lemma size_member_obj [termination_simp]:
  "(k, v) \<in> set kvs \<Longrightarrow> size v < Suc (size_list (\<lambda>p. Suc (size (snd p))) kvs)"
  by (induction kvs) auto

lemma size_map_of_obj [termination_simp]:
  "map_of kvs k = Some v \<Longrightarrow> size v < Suc (size_list (\<lambda>p. Suc (size (snd p))) kvs)"
  by (auto dest: map_of_SomeD size_member_obj)

lemma size_zip_left [termination_simp]:
  "(a, b) \<in> set (zip xs ys) \<Longrightarrow> size a < Suc (size_list size xs)"
  using size_list_estimation' [of a xs "size a" size] by (auto dest: set_zip_leftD)

lemma size_zip_right [termination_simp]:
  "(a, b) \<in> set (zip xs ys) \<Longrightarrow> size b < Suc (size_list size ys)"
  using size_list_estimation' [of b ys "size b" size] by (auto dest: set_zip_rightD)

section \<open>Type tests, truth, conversion\<close>

definition is_undefined :: "js \<Rightarrow> bool" where
  "is_undefined v = (v = Undef)"

fun is_string :: "js \<Rightarrow> bool" where
  "is_string (Str s) = True"
| "is_string v = False"

fun is_array :: "js \<Rightarrow> bool" where
  "is_array (Arr xs) = True"
| "is_array v = False"

fun is_plain_object :: "js \<Rightarrow> bool" where
  "is_plain_object (Obj kvs) = True"
| "is_plain_object v = False"

text \<open>\<^verbatim>\<open>isObject\<close>: objects and arrays.\<close>

fun is_object :: "js \<Rightarrow> bool" where
  "is_object (Obj kvs) = True"
| "is_object (Arr xs) = True"
| "is_object v = False"

fun is_number :: "js \<Rightarrow> bool" where
  "is_number (Num n) = True"
| "is_number NaN = True"
| "is_number v = False"

text \<open>\<^verbatim>\<open>!!v\<close>.\<close>

fun truthy :: "js \<Rightarrow> bool" where
  "truthy Undef = False"
| "truthy Null = False"
| "truthy NaN = False"
| "truthy (Bool b) = b"
| "truthy (Num n) = (n \<noteq> 0)"
| "truthy (Str s) = (s \<noteq> [])"
| "truthy (Arr xs) = True"
| "truthy (Obj kvs) = True"

text \<open>\<^verbatim>\<open>v ?? d\<close>.\<close>

definition nullish :: "js \<Rightarrow> bool" where
  "nullish v = (v = Undef \<or> v = Null)"

definition coalesce :: "js \<Rightarrow> js \<Rightarrow> js" where
  "coalesce v d = (if nullish v then d else v)"

text \<open>\<^verbatim>\<open>String(v)\<close>, also the conversion in a template literal.\<close>

fun to_str :: "js \<Rightarrow> string" where
  "to_str Undef = ''undefined''"
| "to_str Null = ''null''"
| "to_str NaN = ''NaN''"
| "to_str (Bool b) = (if b then ''true'' else ''false'')"
| "to_str (Num n) = int_str n"
| "to_str (Str s) = s"
| "to_str (Arr xs) = join '','' (map (\<lambda>x. if nullish x then '''' else to_str x) xs)"
| "to_str (Obj kvs) = ''[object Object]''"

section \<open>Properties\<close>

definition obj_get :: "obj \<Rightarrow> string \<Rightarrow> js" where
  "obj_get kvs k = (case map_of kvs k of None \<Rightarrow> Undef | Some v \<Rightarrow> v)"

definition obj_has :: "obj \<Rightarrow> string \<Rightarrow> bool" where
  "obj_has kvs k = (k \<in> fst ` set kvs)"

text \<open>An array index written as a property key, \<^verbatim>\<open>"0"\<close>, \<^verbatim>\<open>"1"\<close>, \<^verbatim>\<open>"10"\<close>, without leading zeros.\<close>

definition array_index :: "string \<Rightarrow> nat option" where
  "array_index s =
     (if s \<noteq> [] \<and> list_all is_digit s \<and> (length s = 1 \<or> hd s \<noteq> CHR ''0'')
      then Some (digits_value s) else None)"

text \<open>
  \<^verbatim>\<open>v?.[k]\<close>: the property of a value, \<^verbatim>\<open>undefined\<close> when there is none. A string has its
  characters and its length as properties; no modelled code reads them this way, so only
  objects and arrays have members here.
\<close>

fun member :: "js \<Rightarrow> string \<Rightarrow> js" where
  "member (Obj kvs) k = obj_get kvs k"
| "member (Arr xs) k =
     (if k = ''length'' then Num (int (length xs))
      else (case array_index k of
              None \<Rightarrow> Undef
            | Some i \<Rightarrow> if i < length xs then xs ! i else Undef))"
| "member v k = Undef"

text \<open>An own property, as \<^verbatim>\<open>Object.hasOwn\<close> tells it.\<close>

fun has_own :: "js \<Rightarrow> string \<Rightarrow> bool" where
  "has_own (Obj kvs) k = obj_has kvs k"
| "has_own (Arr xs) k =
     (k = ''length'' \<or> (case array_index k of None \<Rightarrow> False | Some i \<Rightarrow> i < length xs))"
| "has_own v k = False"

text \<open>The properties a spread \<^verbatim>\<open>{...v}\<close> copies, and the spread of one object over another.\<close>

fun own_props :: "js \<Rightarrow> obj" where
  "own_props (Obj kvs) = kvs"
| "own_props (Arr xs) = zip (map nat_str [0..<length xs]) xs"
| "own_props v = []"

definition spread :: "obj \<Rightarrow> obj \<Rightarrow> obj" where
  "spread base over = foldl (\<lambda>acc (k, v). AList.update k v acc) base over"

section \<open>Well-formed and JSON values\<close>

text \<open>Every object lists each key once.\<close>

fun wf_js :: "js \<Rightarrow> bool" where
  "wf_js (Obj kvs) = (distinct (map fst kvs) \<and> (\<forall>p \<in> set kvs. wf_js (snd p)))"
| "wf_js (Arr xs) = (\<forall>x \<in> set xs. wf_js x)"
| "wf_js v = True"

text \<open>What \<^verbatim>\<open>JSON.parse\<close> can return: no \<^verbatim>\<open>undefined\<close>, no \<^verbatim>\<open>NaN\<close>, at any depth.\<close>

fun json :: "js \<Rightarrow> bool" where
  "json Undef = False"
| "json NaN = False"
| "json (Obj kvs) = (distinct (map fst kvs) \<and> (\<forall>p \<in> set kvs. json (snd p)))"
| "json (Arr xs) = (\<forall>x \<in> set xs. json x)"
| "json v = True"

section \<open>lodash\<close>

text \<open>\<^verbatim>\<open>isEqual\<close>: deep equality that ignores the order of keys; \<^verbatim>\<open>NaN\<close> equals \<^verbatim>\<open>NaN\<close>.\<close>

fun ref_is_equal :: "js \<Rightarrow> js \<Rightarrow> bool" where
  "ref_is_equal (Obj as) b =
     (case b of
        Obj bs \<Rightarrow>
          length as = length bs \<and>
          (\<forall>p \<in> set as. case map_of bs (fst p) of None \<Rightarrow> False | Some w \<Rightarrow> ref_is_equal (snd p) w)
      | _ \<Rightarrow> False)"
| "ref_is_equal (Arr xs) b =
     (case b of
        Arr ys \<Rightarrow> length xs = length ys \<and> (\<forall>p \<in> set (zip xs ys). ref_is_equal (fst p) (snd p))
      | _ \<Rightarrow> False)"
| "ref_is_equal a b = (a = b)"

text \<open>\<^verbatim>\<open>get(v, path, d)\<close> with an array path; an empty path reads nothing.\<close>

fun walk_path :: "js \<Rightarrow> string list \<Rightarrow> js" where
  "walk_path v [] = v"
| "walk_path v (k # ks) = walk_path (member v k) ks"

definition ref_get :: "js \<Rightarrow> string list \<Rightarrow> js \<Rightarrow> js" where
  "ref_get v path d =
     (if path = [] then d else (let r = walk_path v path in if r = Undef then d else r))"

text \<open>\<^verbatim>\<open>has(v, path)\<close> with an array path: every step is an own property.\<close>

fun ref_has :: "js \<Rightarrow> string list \<Rightarrow> bool" where
  "ref_has v [] = False"
| "ref_has v [k] = has_own v k"
| "ref_has v (k # k' # ks) = (has_own v k \<and> ref_has (member v k) (k' # ks))"

text \<open>
  The path a string denotes for an object: the string itself when it is one of its keys or
  has no dot, otherwise its dotted parts. (Bracket syntax is not used by the modelled code.)
\<close>

definition key_path :: "js \<Rightarrow> string \<Rightarrow> string list" where
  "key_path v s = (if has_own v s then [s] else split_on (CHR ''.'') s)"

definition no_brackets :: "string \<Rightarrow> bool" where
  "no_brackets s = (CHR ''['' \<notin> set s \<and> CHR '']'' \<notin> set s)"

text \<open>
  \<^verbatim>\<open>set(v, path, x)\<close>: assigns along the path, in place in the source, as a new tree here.
  A missing or non-object step becomes an array when the next key is an array index and an
  object otherwise.
\<close>

definition fresh_container :: "string list \<Rightarrow> js" where
  "fresh_container ks =
     (case ks of [] \<Rightarrow> Obj [] | k # _ \<Rightarrow> if array_index k = None then Obj [] else Arr [])"

definition arr_set :: "js list \<Rightarrow> nat \<Rightarrow> js \<Rightarrow> js list" where
  "arr_set xs i x =
     (if i < length xs then xs[i := x] else xs @ replicate (i - length xs) Undef @ [x])"

fun assign :: "js \<Rightarrow> string \<Rightarrow> js \<Rightarrow> js" where
  "assign (Obj kvs) k x = Obj (AList.update k x kvs)"
| "assign (Arr xs) k x = (case array_index k of None \<Rightarrow> Arr xs | Some i \<Rightarrow> Arr (arr_set xs i x))"
| "assign v k x = v"

fun ref_set :: "js \<Rightarrow> string list \<Rightarrow> js \<Rightarrow> js" where
  "ref_set v [] x = v"
| "ref_set v [k] x = assign v k x"
| "ref_set v (k # k' # ks) x =
     (let sub = member v k;
          sub' = (if is_object sub then sub else fresh_container (k' # ks))
      in assign v k (ref_set sub' (k' # ks) x))"

text \<open>
  \<^verbatim>\<open>merge(dst, src)\<close> for two values: objects key by key, arrays index by index (a shorter
  source leaves the tail of the destination), an \<^verbatim>\<open>undefined\<close> source keeps the destination,
  anything else replaces it.
\<close>

fun ref_merge :: "js \<Rightarrow> js \<Rightarrow> js"
  and merge_props :: "obj \<Rightarrow> obj \<Rightarrow> obj"
  and merge_elems :: "js list \<Rightarrow> js list \<Rightarrow> js list" where
  "ref_merge d (Obj ss) = Obj (merge_props (case d of Obj ds \<Rightarrow> ds | _ \<Rightarrow> []) ss)"
| "ref_merge d (Arr ys) = Arr (merge_elems (case d of Arr xs \<Rightarrow> xs | _ \<Rightarrow> []) ys)"
| "ref_merge d Undef = d"
| "ref_merge d s = s"
| "merge_props ds [] = ds"
| "merge_props ds ((k, s) # ss) =
     (if s = Undef \<and> obj_has ds k then merge_props ds ss
      else merge_props (AList.update k (ref_merge (obj_get ds k) s) ds) ss)"
| "merge_elems xs [] = xs"
| "merge_elems [] (y # ys) = ref_merge Undef y # merge_elems [] ys"
| "merge_elems (x # xs) (y # ys) = ref_merge x y # merge_elems xs ys"

text \<open>
  Merging an object into an array would add named properties to the array, which no value of
  \<open>js\<close> represents; the documented behaviour is stated for the other cases.
\<close>

fun mergeable :: "js \<Rightarrow> js \<Rightarrow> bool" where
  "mergeable d (Obj ss) =
     (\<not> is_array d \<and> (\<forall>p \<in> set ss. mergeable (member d (fst p)) (snd p)))"
| "mergeable d (Arr ys) =
     (case d of Arr xs \<Rightarrow> (\<forall>p \<in> set (zip xs ys). mergeable (fst p) (snd p)) | _ \<Rightarrow> True)"
| "mergeable d s = True"

record lodash =
  lo_get :: "js \<Rightarrow> string list \<Rightarrow> js \<Rightarrow> js"
  lo_get_str :: "js \<Rightarrow> string \<Rightarrow> js \<Rightarrow> js"
  lo_has :: "js \<Rightarrow> string list \<Rightarrow> bool"
  lo_has_str :: "js \<Rightarrow> string \<Rightarrow> bool"
  lo_is_equal :: "js \<Rightarrow> js \<Rightarrow> bool"
  lo_set :: "js \<Rightarrow> string list \<Rightarrow> js \<Rightarrow> js"
  lo_merge :: "js \<Rightarrow> js \<Rightarrow> js"

definition lodash_ok :: "lodash \<Rightarrow> bool" where
  "lodash_ok L \<longleftrightarrow>
     (\<forall>v p d. lo_get L v p d = ref_get v p d) \<and>
     (\<forall>v s d. no_brackets s \<longrightarrow> lo_get_str L v s d = ref_get v (key_path v s) d) \<and>
     (\<forall>v p. lo_has L v p = ref_has v p) \<and>
     (\<forall>v s. no_brackets s \<longrightarrow> lo_has_str L v s = ref_has v (key_path v s)) \<and>
     (\<forall>a b. wf_js a \<longrightarrow> wf_js b \<longrightarrow> lo_is_equal L a b = ref_is_equal a b) \<and>
     (\<forall>v p x. lo_set L v p x = ref_set v p x) \<and>
     (\<forall>d s. mergeable d s \<longrightarrow> lo_merge L d s = ref_merge d s)"

text \<open>An instance of the interface: the documented behaviour itself.\<close>

definition lodash_ref :: lodash where
  "lodash_ref =
     \<lparr>lo_get = ref_get,
      lo_get_str = (\<lambda>v s. ref_get v (key_path v s)),
      lo_has = ref_has,
      lo_has_str = (\<lambda>v s. ref_has v (key_path v s)),
      lo_is_equal = ref_is_equal,
      lo_set = ref_set,
      lo_merge = ref_merge\<rparr>"

lemma lodash_ref_ok [simp]: "lodash_ok lodash_ref"
  by (simp add: lodash_ok_def lodash_ref_def)

text \<open>
  The interface as a locale: what a client of lodash may use. The components prove their
  lemmas inside it; \<open>std\<close> is its instance.
\<close>

locale lodash_api =
  fixes L :: lodash
  assumes L_ok: "lodash_ok L"
begin

lemma get_eq: "lo_get L v p d = ref_get v p d"
  using L_ok by (simp add: lodash_ok_def)

lemma get_str_eq: "no_brackets s \<Longrightarrow> lo_get_str L v s d = ref_get v (key_path v s) d"
  using L_ok by (simp add: lodash_ok_def)

lemma has_eq: "lo_has L v p = ref_has v p"
  using L_ok by (simp add: lodash_ok_def)

lemma has_str_eq: "no_brackets s \<Longrightarrow> lo_has_str L v s = ref_has v (key_path v s)"
  using L_ok by (simp add: lodash_ok_def)

lemma is_equal_eq: "wf_js a \<Longrightarrow> wf_js b \<Longrightarrow> lo_is_equal L a b = ref_is_equal a b"
  using L_ok by (simp add: lodash_ok_def)

lemma set_eq: "lo_set L v p x = ref_set v p x"
  using L_ok by (simp add: lodash_ok_def)

lemma merge_eq: "mergeable d s \<Longrightarrow> lo_merge L d s = ref_merge d s"
  using L_ok by (simp add: lodash_ok_def)

lemmas lodash_eqs = get_eq has_eq set_eq

end

interpretation std: lodash_api lodash_ref
  by unfold_locales simp

lemma lodash_apiI: "lodash_ok L \<Longrightarrow> lodash_api L"
  by (simp add: lodash_api_def)

section \<open>Lemmas on values\<close>

lemma obj_get_update [assoc_simps]:
  "obj_get (AList.update k v kvs) k' = (if k' = k then v else obj_get kvs k')"
  by (simp add: obj_get_def update_conv')

lemma obj_has_update [assoc_simps]:
  "obj_has (AList.update k v kvs) k' \<longleftrightarrow> k' = k \<or> obj_has kvs k'"
  by (induction kvs) (auto simp: obj_has_def)

lemma obj_get_absent: "\<not> obj_has kvs k \<Longrightarrow> obj_get kvs k = Undef"
  by (simp add: obj_get_def obj_has_def flip: map_of_None_keys)

lemma obj_has_in [simp, intro]: "(k, v) \<in> set kvs \<Longrightarrow> obj_has kvs k"
  by (force simp: obj_has_def)

lemma obj_has_map_of: "obj_has kvs k \<longleftrightarrow> (\<exists>v. map_of kvs k = Some v)"
  using map_of_None_keys [of kvs k] by (auto simp: obj_has_def)

lemma obj_get_in: "distinct (map fst kvs) \<Longrightarrow> (k, v) \<in> set kvs \<Longrightarrow> obj_get kvs k = v"
  by (simp add: obj_get_def)

lemma json_wf: "json v \<Longrightarrow> wf_js v"
  by (induction v rule: wf_js.induct) auto

lemma json_not_undef: "json v \<Longrightarrow> v \<noteq> Undef"
  by auto

lemma json_obj_get: "json (Obj kvs) \<Longrightarrow> obj_has kvs k \<Longrightarrow> json (obj_get kvs k)"
  by (auto simp: obj_get_def obj_has_def)

lemma wf_obj_get: "wf_js (Obj kvs) \<Longrightarrow> wf_js (obj_get kvs k)"
  by (auto simp: obj_get_def split: option.split dest: map_of_SomeD)

lemma json_obj_get_undef: "json (Obj kvs) \<Longrightarrow> obj_get kvs k = Undef \<longleftrightarrow> \<not> obj_has kvs k"
  using json_obj_get json_not_undef obj_get_absent by blast

lemma ref_is_equal_refl: "wf_js v \<Longrightarrow> ref_is_equal v v"
proof (induction v)
  case (Arr xs)
  then show ?case by (auto simp: in_set_zip)
next
  case (Obj kvs)
  then show ?case by fastforce
qed auto

lemma ref_is_equal_objI:
  assumes "distinct (map fst as)" and "distinct (map fst bs)"
    and "\<And>k. obj_has as k \<longleftrightarrow> obj_has bs k"
    and "\<And>k. obj_has as k \<Longrightarrow> ref_is_equal (obj_get as k) (obj_get bs k)"
  shows "ref_is_equal (Obj as) (Obj bs)"
proof -
  have "fst ` set as = fst ` set bs" using assms(3) by (auto simp: obj_has_def)
  then have "card (set (map fst as)) = card (set (map fst bs))" by simp
  then have "length as = length bs"
    using assms(1,2) by (metis distinct_card length_map)
  moreover have "case map_of bs (fst p) of None \<Rightarrow> False | Some w \<Rightarrow> ref_is_equal (snd p) w"
    if p: "p \<in> set as" for p
  proof -
    have has: "obj_has as (fst p)" using p by (simp add: obj_has_def)
    moreover have "obj_get as (fst p) = snd p"
      using p assms(1) obj_get_in [of as "fst p" "snd p"] by simp
    ultimately have "ref_is_equal (snd p) (obj_get bs (fst p))" and "obj_has bs (fst p)"
      using assms(3,4) by metis+
    then show ?thesis
      by (auto simp: obj_get_def obj_has_def split: option.splits dest: map_of_None_keys [THEN iffD1])
  qed
  ultimately show ?thesis by simp
qed

lemma ref_is_equal_objD:
  assumes "ref_is_equal (Obj as) (Obj bs)" and "distinct (map fst as)" and "distinct (map fst bs)"
  shows "obj_has as k \<longleftrightarrow> obj_has bs k"
    and "obj_has as k \<Longrightarrow> ref_is_equal (obj_get as k) (obj_get bs k)"
proof -
  have sub: "\<exists>w. map_of bs k = Some w \<and> ref_is_equal (obj_get as k) w" if "obj_has as k" for k
    using that assms(1,2)
    by (fastforce simp: obj_has_def obj_get_def split: option.splits)
  have "fst ` set as \<subseteq> fst ` set bs"
    using sub map_of_Some_in_keys by (force simp: obj_has_def)
  moreover have "card (fst ` set as) = card (fst ` set bs)"
  proof -
    have "length as = length bs" using assms(1) by simp
    then show ?thesis
      using distinct_card [OF assms(2)] distinct_card [OF assms(3)] by simp
  qed
  ultimately have "fst ` set as = fst ` set bs"
    by (simp add: card_subset_eq)
  then show "obj_has as k \<longleftrightarrow> obj_has bs k" by (simp add: obj_has_def)
  show "obj_has as k \<Longrightarrow> ref_is_equal (obj_get as k) (obj_get bs k)"
    using sub [of k] by (auto simp: obj_get_def)
qed

end
