(* ===== verification/Expression.thy ===== *)
theory Expression
  imports JS_Value
begin

text \<open>
  \<^verbatim>\<open>nodepkg/runtime/src/expression\<close>: expressions written as JSON arrays
  \<^verbatim>\<open>[name, ...args]\<close>, the factory that builds functions of them, and the functions. An
  expression goes through three stages, as in the code: the factory resolves names and
  arguments (\<open>create\<close>), the built expression is given its context (\<open>instantiate\<close>), and the
  function is called on a value (\<open>run\<close>). Raised exceptions are the left results.
  The message \<^verbatim>\<open>errMsg\<close> a function carries for forms is in \<open>Expression_Messages\<close>.
\<close>

datatype expr_error =
    InvalidExpression
  | UnknownExpression string
  | ExprTypeError

section \<open>Building\<close>

text \<open>\<^verbatim>\<open>isExpression\<close>: a non-empty array whose first element is a string.\<close>

fun isExpression :: "js \<Rightarrow> bool" where
  "isExpression (Arr (Str name # args)) = True"
| "isExpression v = False"

text \<open>
  The names the default factory registers its builders under: each builder of \<^verbatim>\<open>index.ts\<close>
  with the name of its \<^verbatim>\<open>defineExpression\<close>, which for \<^verbatim>\<open>lte\<close> is \<^verbatim>\<open>"max"\<close>.
\<close>

datatype builder =
    B_allOf | B_anyOf | B_charCount | B_eq | B_get | B_gt | B_gte | B_lt | B_lte | B_match
  | B_oneOf | B_pipe | B_required | B_select | B_when

definition registered_name :: "builder \<Rightarrow> string" where
  "registered_name b =
     (case b of
        B_allOf \<Rightarrow> ''allOf'' | B_anyOf \<Rightarrow> ''anyOf'' | B_charCount \<Rightarrow> ''charCount'' | B_eq \<Rightarrow> ''eq''
      | B_get \<Rightarrow> ''get'' | B_gt \<Rightarrow> ''gt'' | B_gte \<Rightarrow> ''gte'' | B_lt \<Rightarrow> ''lt'' | B_lte \<Rightarrow> ''max''
      | B_match \<Rightarrow> ''match'' | B_oneOf \<Rightarrow> ''oneOf'' | B_pipe \<Rightarrow> ''pipe'' | B_required \<Rightarrow> ''required''
      | B_select \<Rightarrow> ''select'' | B_when \<Rightarrow> ''when'')"

definition default_builders :: "(string \<times> builder) list" where
  "default_builders =
     map (\<lambda>b. (registered_name b, b))
       [B_allOf, B_anyOf, B_charCount, B_eq, B_get, B_gt, B_gte, B_lt, B_lte, B_match,
        B_oneOf, B_pipe, B_required, B_select, B_when]"

text \<open>
  A built expression: a builder with its arguments, each an expression built in turn or a
  plain value.
\<close>

datatype built = Built builder "built_arg list"
  and built_arg = ArgExpr built | ArgVal js

text \<open>
  What the destructuring \<^verbatim>\<open>const [name, ...args] = expr\<close> iterates over.
\<close>

fun iterate :: "js \<Rightarrow> js list option" where
  "iterate (Arr xs) = Some xs"
| "iterate (Str s) = Some (map (\<lambda>c. Str [c]) s)"
| "iterate v = None"

fun create :: "js \<Rightarrow> expr_error + built"
  and create_args :: "js list \<Rightarrow> expr_error + built_arg list"
  and create_arg :: "js \<Rightarrow> expr_error + built_arg" where
  "create (Arr (Str name # args)) =
     (case map_of default_builders name of
        None \<Rightarrow> Inl (UnknownExpression name)
      | Some b \<Rightarrow> (case create_args args of Inl e \<Rightarrow> Inl e | Inr as \<Rightarrow> Inr (Built b as)))"
| "create (Arr xs) = Inl InvalidExpression"
| "create (Str s) = (case s of [] \<Rightarrow> Inl InvalidExpression | c # _ \<Rightarrow> Inl (UnknownExpression [c]))"
| "create v = Inl ExprTypeError"
| "create_args [] = Inr []"
| "create_args (x # xs) =
     (case create_arg x of
        Inl e \<Rightarrow> Inl e
      | Inr a \<Rightarrow> (case create_args xs of Inl e \<Rightarrow> Inl e | Inr as \<Rightarrow> Inr (a # as)))"
| "create_arg (Arr (Str name # args)) =
     (case create (Arr (Str name # args)) of Inl e \<Rightarrow> Inl e | Inr b \<Rightarrow> Inr (ArgExpr b))"
| "create_arg v = Inr (ArgVal v)"

section \<open>Operators of the language\<close>

text \<open>
  A string converted to a number: decimal integers with white space around them, and the
  empty string for 0. (Other numeric literals denote numbers that \<open>js\<close> does not have.)
\<close>

definition is_space :: "char \<Rightarrow> bool" where
  "is_space c = (c = CHR '' '' \<or> of_char c \<in> {9 :: nat, 10, 11, 12, 13})"

definition trim :: "string \<Rightarrow> string" where
  "trim s = rev (dropWhile is_space (rev (dropWhile is_space s)))"

definition str_to_number :: "string \<Rightarrow> js" where
  "str_to_number s =
     (let t = trim s;
          neg = starts_with t ''-'';
          ds = (if neg \<or> starts_with t ''+'' then drop 1 t else t)
      in if t = [] then Num 0
         else if ds \<noteq> [] \<and> list_all is_digit ds
           then Num (if neg then - int (digits_value ds) else int (digits_value ds))
         else NaN)"

fun to_primitive :: "js \<Rightarrow> js" where
  "to_primitive (Arr xs) = Str (to_str (Arr xs))"
| "to_primitive (Obj kvs) = Str (to_str (Obj kvs))"
| "to_primitive v = v"

fun to_number :: "js \<Rightarrow> js" where
  "to_number Undef = NaN"
| "to_number Null = Num 0"
| "to_number (Bool b) = Num (if b then 1 else 0)"
| "to_number (Str s) = str_to_number s"
| "to_number (Num n) = Num n"
| "to_number v = NaN"

text \<open>
  \<^verbatim>\<open>a == b\<close>, \<^verbatim>\<open>a < b\<close>, \<^verbatim>\<open>a <= b\<close>. Two objects are never the same one: one operand comes from
  the expression, the other from the value it is applied to.
\<close>

definition loose_eq :: "js \<Rightarrow> js \<Rightarrow> bool" where
  "loose_eq a b =
     (if nullish a \<or> nullish b then nullish a \<and> nullish b
      else if is_object a \<and> is_object b then False
      else (case (to_primitive a, to_primitive b) of
              (Str s, Str t) \<Rightarrow> s = t
            | (a', b') \<Rightarrow> to_number a' \<noteq> NaN \<and> to_number a' = to_number b'))"

fun str_less :: "string \<Rightarrow> string \<Rightarrow> bool" where
  "str_less s [] = False"
| "str_less [] (d # t) = True"
| "str_less (c # s) (d # t) =
     ((of_char c :: nat) < of_char d \<or> (c = d \<and> str_less s t))"

fun num_cmp :: "(int \<Rightarrow> int \<Rightarrow> bool) \<Rightarrow> js \<Rightarrow> js \<Rightarrow> bool" where
  "num_cmp r (Num m) (Num n) = r m n"
| "num_cmp r a b = False"

definition less_than :: "js \<Rightarrow> js \<Rightarrow> bool" where
  "less_than a b =
     (case (to_primitive a, to_primitive b) of
        (Str s, Str t) \<Rightarrow> str_less s t
      | (a', b') \<Rightarrow> num_cmp (<) (to_number a') (to_number b'))"

definition less_eq :: "js \<Rightarrow> js \<Rightarrow> bool" where
  "less_eq a b =
     (case (to_primitive a, to_primitive b) of
        (Str s, Str t) \<Rightarrow> \<not> str_less t s
      | (a', b') \<Rightarrow> num_cmp (\<le>) (to_number a') (to_number b'))"

text \<open>The equality of lodash's \<^verbatim>\<open>includes\<close>: identity, where \<^verbatim>\<open>NaN\<close> is itself.\<close>

definition same_value :: "js \<Rightarrow> js \<Rightarrow> bool" where
  "same_value a b = (\<not> is_object a \<and> a = b)"

text \<open>
  \<^verbatim>\<open>v.match(/./gu)?.length ?? 0\<close>: the code points of a string that are not line terminators,
  which in UTF-8 are the bytes that do not continue a sequence, less LF, CR, and the three
  bytes of U+2028 and U+2029.
\<close>

fun char_count :: "string \<Rightarrow> nat" where
  "char_count (a # b # c # s) =
     (if (of_char a :: nat) = 226 \<and> (of_char b :: nat) = 128 \<and> (of_char c :: nat) \<in> {168, 169}
      then char_count s
      else (if of_char a \<in> {10, 13 :: nat} \<or> of_char a \<in> {128 .. 191 :: nat} then 0 else 1)
             + char_count (b # c # s))"
| "char_count (a # s) =
     (if of_char a \<in> {10, 13 :: nat} \<or> of_char a \<in> {128 .. 191 :: nat} then 0 else 1) + char_count s"
| "char_count [] = 0"

section \<open>Reading the context\<close>

text \<open>\<^verbatim>\<open>s.replace(/\[[0-9]+]/g, ".items")\<close>.\<close>

lemma length_drop_dropWhile: "length (dropWhile P s) - Suc 0 < Suc (length s)"
  using length_dropWhile_le [of P s] by linarith

function replace_indices :: "string \<Rightarrow> string" where
  "replace_indices [] = []"
| "replace_indices (c # s) =
     (let r = dropWhile is_digit s
      in if c = CHR ''['' \<and> takeWhile is_digit s \<noteq> [] \<and> starts_with r '']''
         then ''.items'' @ replace_indices (drop 1 r)
         else c # replace_indices s)"
  by pat_completeness auto
termination
  by (relation "measure length") (auto simp: length_drop_dropWhile)

definition keyPathToSchemaKeyPath :: "string \<Rightarrow> string" where
  "keyPathToSchemaKeyPath ref =
     replace_indices (replace1 (CHR ''.'') ''.properties.''
       (''rootSchema'' @ (if starts_with ref ''['' then ref else ''.'' @ ref)))"

text \<open>
  The context \<^verbatim>\<open>get\<close> switches to. \<^verbatim>\<open>ctx\<close> is the one the function was built in, \<^verbatim>\<open>c\<close> the one
  it is called with.
\<close>

definition switched :: "lodash \<Rightarrow> js \<Rightarrow> js \<Rightarrow> js \<Rightarrow> js" where
  "switched L ctx c ref =
     Obj (spread (own_props c)
       [(''path'', ref),
        (''schema'', lo_get_str L ctx (keyPathToSchemaKeyPath (to_str ref)) Undef)])"

section \<open>Functions\<close>

text \<open>
  What a built expression becomes in a context: the function each builder returns, with the
  variables it closes over. \<open>F_noop\<close> is \<^verbatim>\<open>noop\<close>, which stands for a builder that returns null.
  An argument that is itself an expression where a builder takes a plain value is a function,
  which equals and compares with no value, and names no property.
\<close>

datatype efn =
    F_noop
  | F_allOf js "efn list"
  | F_anyOf js "efn list"
  | F_charCount
  | F_eq built_arg
  | F_get js built_arg
  | F_gt built_arg
  | F_gte built_arg
  | F_lt built_arg
  | F_lte built_arg
  | F_match built_arg
  | F_oneOfEnum "built_arg list"
  | F_oneOf js "efn list"
  | F_pipe js "efn list"
  | F_required

text \<open>The \<^verbatim>\<open>type\<close> property: the name the expression was created with.\<close>

fun efn_type :: "efn \<Rightarrow> string" where
  "efn_type F_noop = ''noop''"
| "efn_type (F_allOf ctx fs) = ''allOf''"
| "efn_type (F_anyOf ctx fs) = ''anyOf''"
| "efn_type F_charCount = ''charCount''"
| "efn_type (F_eq a) = ''eq''"
| "efn_type (F_get ctx a) = ''get''"
| "efn_type (F_gt a) = ''gt''"
| "efn_type (F_gte a) = ''gte''"
| "efn_type (F_lt a) = ''lt''"
| "efn_type (F_lte a) = ''max''"
| "efn_type (F_match a) = ''match''"
| "efn_type (F_oneOfEnum as) = ''oneOf''"
| "efn_type (F_oneOf ctx fs) = ''oneOf''"
| "efn_type (F_pipe ctx fs) = ''pipe''"
| "efn_type F_required = ''required''"

definition isValidBuildExprFn :: "efn \<Rightarrow> bool" where
  "isValidBuildExprFn f = (efn_type f \<noteq> ''noop'')"

fun with_value :: "(js \<Rightarrow> bool) \<Rightarrow> built_arg \<Rightarrow> bool" where
  "with_value p (ArgVal x) = p x"
| "with_value p (ArgExpr b) = False"

definition required_ok :: "js \<Rightarrow> bool" where
  "required_ok v =
     (if nullish v then False
      else if v = Str '''' then False
      else if v = NaN then False
      else truthy v)"

section \<open>Running\<close>

text \<open>
  \<open>run L f v c sw w\<close> calls \<open>f\<close> on \<open>v\<close> with context \<open>c\<close> (\<open>None\<close> when the caller gives none: the
  function then uses the one it was built in); \<open>sw\<close> tells whether that context has a
  \<^verbatim>\<open>__switch\<close>, and \<open>w\<close> is the context it was last called with. The result is the value and
  the new \<open>w\<close>. The loops of \<^verbatim>\<open>allOf\<close>, \<^verbatim>\<open>anyOf\<close>, \<^verbatim>\<open>oneOf\<close> and \<^verbatim>\<open>pipe\<close> are functions of their own.
\<close>

type_synonym outcome = "expr_error + js \<times> js option"

definition use_ctx :: "js option \<Rightarrow> js \<Rightarrow> js" where
  "use_ctx c ctx = (case c of None \<Rightarrow> ctx | Some c' \<Rightarrow> c')"

definition has_switch :: "js option \<Rightarrow> bool \<Rightarrow> bool" where
  "has_switch c sw = (c \<noteq> None \<and> sw)"

function run :: "lodash \<Rightarrow> efn \<Rightarrow> js \<Rightarrow> js option \<Rightarrow> bool \<Rightarrow> js option \<Rightarrow> outcome"
  and run_all :: "lodash \<Rightarrow> efn list \<Rightarrow> js \<Rightarrow> js \<Rightarrow> bool \<Rightarrow> js option \<Rightarrow> outcome"
  and run_any :: "lodash \<Rightarrow> efn list \<Rightarrow> js \<Rightarrow> js \<Rightarrow> bool \<Rightarrow> js option \<Rightarrow> outcome"
  and run_count :: "lodash \<Rightarrow> efn list \<Rightarrow> nat \<Rightarrow> js \<Rightarrow> js \<Rightarrow> bool \<Rightarrow> js option \<Rightarrow> outcome"
  and run_pipe :: "lodash \<Rightarrow> efn list \<Rightarrow> js \<Rightarrow> js \<Rightarrow> expr_error + js" where
  "run L F_noop v c sw w = Inr (Null, w)"
| "run L F_charCount v c sw w =
     Inr (Num (case v of Str s \<Rightarrow> int (char_count s) | _ \<Rightarrow> 0), w)"
| "run L (F_eq a) v c sw w = Inr (Bool (with_value (loose_eq v) a), w)"
| "run L (F_gt a) v c sw w = Inr (Bool (with_value (\<lambda>m. less_than m v) a), w)"
| "run L (F_gte a) v c sw w = Inr (Bool (with_value (\<lambda>m. less_eq m v) a), w)"
| "run L (F_lt a) v c sw w = Inr (Bool (with_value (less_than v) a), w)"
| "run L (F_lte a) v c sw w = Inr (Bool (with_value (less_eq v) a), w)"
| "run L (F_match a) v c sw w = Inl ExprTypeError"
| "run L F_required v c sw w = Inr (Bool (required_ok v), w)"
| "run L (F_oneOfEnum as) v c sw w = Inr (Bool (\<exists>a \<in> set as. with_value (same_value v) a), w)"
| "run L (F_get ctx (ArgExpr b)) v c sw w = Inr (Undef, w)"
| "run L (F_get ctx (ArgVal ref)) v c sw w =
     (let c' = use_ctx c ctx;
          out = lo_get_str L c' (''root.'' @ to_str ref) Undef
      in if has_switch c sw then
           (if nullish ref then Inl ExprTypeError else Inr (out, Some (switched L ctx c' ref)))
         else Inr (out, w))"
| "run L (F_allOf ctx fs) v c sw w = run_all L fs v (use_ctx c ctx) (has_switch c sw) w"
| "run L (F_anyOf ctx fs) v c sw w = run_any L fs v (use_ctx c ctx) (has_switch c sw) w"
| "run L (F_oneOf ctx fs) v c sw w = run_count L fs 0 v (use_ctx c ctx) (has_switch c sw) w"
| "run L (F_pipe ctx fs) v c sw w =
     (case run_pipe L fs v (use_ctx c ctx) of Inl e \<Rightarrow> Inl e | Inr out \<Rightarrow> Inr (out, w))"
| "run_all L [] v c sw w = Inr (Bool True, w)"
| "run_all L (f # fs) v c sw w =
     (if is_undefined v \<and> efn_type f \<noteq> ''required'' then run_all L fs v c sw w
      else (case run L f v (Some c) sw w of
              Inl e \<Rightarrow> Inl e
            | Inr (r, w') \<Rightarrow> if truthy r then run_all L fs v c sw w' else Inr (Bool False, w')))"
| "run_any L [] v c sw w = Inr (Bool False, w)"
| "run_any L (f # fs) v c sw w =
     (if is_undefined v \<and> efn_type f \<noteq> ''required'' then run_any L fs v c sw w
      else (case run L f v (Some c) sw w of
              Inl e \<Rightarrow> Inl e
            | Inr (r, w') \<Rightarrow> if truthy r then Inr (Bool True, w') else run_any L fs v c sw w'))"
| "run_count L [] n v c sw w = Inr (Bool (n = 1), w)"
| "run_count L (f # fs) n v c sw w =
     (case run L f v (Some c) sw w of
        Inl e \<Rightarrow> Inl e
      | Inr (r, w') \<Rightarrow>
          (let n' = (if truthy r then Suc n else n) in
           if n' > 1 then Inr (Bool False, w') else run_count L fs n' v c sw w'))"
| "run_pipe L [] out c = Inr out"
| "run_pipe L (f # fs) out c =
     (case run L f out (Some c) True None of
        Inl e \<Rightarrow> Inl e
      | Inr (out', w') \<Rightarrow> run_pipe L fs out' (use_ctx w' c))"
  by pat_completeness auto
termination
  by (relation "measure (\<lambda>x. case x of
        Inl (Inl (_, f, _)) \<Rightarrow> size f
      | Inl (Inr (_, fs, _)) \<Rightarrow> size_list size fs
      | Inr (Inl (_, fs, _)) \<Rightarrow> size_list size fs
      | Inr (Inr (Inl (_, fs, _))) \<Rightarrow> size_list size fs
      | Inr (Inr (Inr (_, fs, _))) \<Rightarrow> size_list size fs)") simp_all

section \<open>Giving a built expression its context\<close>

definition arg_value :: "built_arg list \<Rightarrow> built_arg" where
  "arg_value as = (case as of [] \<Rightarrow> ArgVal Undef | a # _ \<Rightarrow> a)"

definition is_string_arg :: "built_arg \<Rightarrow> bool" where
  "is_string_arg a = (case a of ArgVal v \<Rightarrow> is_string v | ArgExpr b \<Rightarrow> False)"

fun instantiate :: "lodash \<Rightarrow> built \<Rightarrow> js \<Rightarrow> expr_error + efn"
  and instantiate_arg :: "lodash \<Rightarrow> built_arg \<Rightarrow> js \<Rightarrow> expr_error + efn"
  and instantiate_list :: "lodash \<Rightarrow> built_arg list \<Rightarrow> js \<Rightarrow> expr_error + efn list"
  and instantiate_select :: "lodash \<Rightarrow> built_arg list \<Rightarrow> js \<Rightarrow> expr_error + efn" where
  "instantiate L (Built b as) ctx =
     (case b of
        B_allOf \<Rightarrow>
          (case instantiate_list L as ctx of
             Inl e \<Rightarrow> Inl e | Inr fs \<Rightarrow> Inr (F_allOf ctx (filter isValidBuildExprFn fs)))
      | B_anyOf \<Rightarrow>
          (case instantiate_list L as ctx of
             Inl e \<Rightarrow> Inl e | Inr fs \<Rightarrow> Inr (F_anyOf ctx (filter isValidBuildExprFn fs)))
      | B_charCount \<Rightarrow> Inr F_charCount
      | B_eq \<Rightarrow> Inr (F_eq (arg_value as))
      | B_get \<Rightarrow> Inr (F_get ctx (arg_value as))
      | B_gt \<Rightarrow> Inr (F_gt (arg_value as))
      | B_gte \<Rightarrow> Inr (F_gte (arg_value as))
      | B_lt \<Rightarrow> Inr (F_lt (arg_value as))
      | B_lte \<Rightarrow> Inr (F_lte (arg_value as))
      | B_match \<Rightarrow> Inr (F_match (arg_value as))
      | B_oneOf \<Rightarrow>
          if list_ex is_string_arg as then Inr (F_oneOfEnum as)
          else (case instantiate_list L as ctx of Inl e \<Rightarrow> Inl e | Inr fs \<Rightarrow> Inr (F_oneOf ctx fs))
      | B_pipe \<Rightarrow>
          (case instantiate_list L as ctx of Inl e \<Rightarrow> Inl e | Inr fs \<Rightarrow> Inr (F_pipe ctx fs))
      | B_required \<Rightarrow> Inr F_required
      | B_select \<Rightarrow> instantiate_select L as ctx
      | B_when \<Rightarrow>
          (case as of
             [] \<Rightarrow> Inl ExprTypeError
           | cond # rest \<Rightarrow>
               (case instantiate_arg L cond ctx of
                  Inl e \<Rightarrow> Inl e
                | Inr f \<Rightarrow>
                    (case run L f (lo_get_str L ctx ''root'' Undef) None False None of
                       Inl e \<Rightarrow> Inl e
                     | Inr (r, _) \<Rightarrow>
                         if truthy r then
                           (case rest of [] \<Rightarrow> Inl ExprTypeError | a # _ \<Rightarrow> instantiate_arg L a ctx)
                         else Inr F_noop))))"
| "instantiate_arg L (ArgExpr b) ctx = instantiate L b ctx"
| "instantiate_arg L (ArgVal v) ctx = Inl ExprTypeError"
| "instantiate_list L [] ctx = Inr []"
| "instantiate_list L (a # as) ctx =
     (case instantiate_arg L a ctx of
        Inl e \<Rightarrow> Inl e
      | Inr f \<Rightarrow> (case instantiate_list L as ctx of Inl e \<Rightarrow> Inl e | Inr fs \<Rightarrow> Inr (f # fs)))"
| "instantiate_select L [] ctx = Inr F_noop"
| "instantiate_select L (a # as) ctx =
     (case instantiate_arg L a ctx of
        Inl e \<Rightarrow> Inl e
      | Inr f \<Rightarrow> if isValidBuildExprFn f then Inr f else instantiate_select L as ctx)"

text \<open>\<^verbatim>\<open>walkExpression(expr, cb)\<close>: the calls of \<^verbatim>\<open>cb\<close>, in order.\<close>

fun walkExpression :: "js \<Rightarrow> (string \<times> js list) list" where
  "walkExpression (Arr (Str name # args)) = (name, args) # concat (map walkExpression args)"
| "walkExpression v = []"

text \<open>Creating, instantiating and calling without a context, as the callers do.\<close>

definition exec :: "lodash \<Rightarrow> js \<Rightarrow> js \<Rightarrow> js \<Rightarrow> expr_error + js" where
  "exec L expr ctx v =
     (case create expr of
        Inl e \<Rightarrow> Inl e
      | Inr b \<Rightarrow>
          (case instantiate L b ctx of
             Inl e \<Rightarrow> Inl e
           | Inr f \<Rightarrow> (case run L f v None False None of Inl e \<Rightarrow> Inl e | Inr (r, _) \<Rightarrow> Inr r)))"

section \<open>Creation succeeds on known names\<close>

definition known_names :: "js \<Rightarrow> bool" where
  "known_names e = (\<forall>(name, args) \<in> set (walkExpression e). \<exists>b. map_of default_builders name = Some b)"

lemma known_names_Cons:
  "known_names (Arr (Str name # args)) \<longleftrightarrow>
     (\<exists>b. map_of default_builders name = Some b) \<and> (\<forall>a \<in> set args. known_names a)"
  by (fastforce simp: known_names_def)

lemma walk_not_expression: "\<not> isExpression v \<Longrightarrow> walkExpression v = []"
  by (cases v rule: walkExpression.cases) auto

lemma create_known:
  shows "(\<exists>b. create e = Inr b) \<longleftrightarrow> isExpression e \<and> known_names e"
    and "(\<exists>as. create_args es = Inr as) \<longleftrightarrow> (\<forall>e \<in> set es. known_names e)"
    and "(\<exists>a. create_arg e' = Inr a) \<longleftrightarrow> known_names e'"
proof (induction e and es and e' rule: create_create_args_create_arg.induct)
  case (1 name args)
  show ?case
  proof (cases "map_of default_builders name")
    case None
    then show ?thesis by (simp add: known_names_Cons)
  next
    case (Some b)
    with "1.IH" [OF Some] show ?thesis
      by (cases "create_args args") (auto simp: known_names_Cons simp del: walkExpression.simps)
  qed
next
  case (3 s)
  show ?case by (cases s) auto
next
  case (6 x xs)
  then show ?case by (auto split: sum.splits)
next
  case (7 name args)
  then show ?case
    by (cases "create (Arr (Str name # args))") (simp_all del: create.simps)
qed (auto simp: known_names_def split: sum.splits list.splits)

section \<open>What functions compute\<close>

text \<open>
  The meaning of a function, without contexts being switched: conjunction, disjunction,
  exactly one, composition.
\<close>

fun eval :: "lodash \<Rightarrow> efn \<Rightarrow> js \<Rightarrow> js \<Rightarrow> js" where
  "eval L F_noop c v = Null"
| "eval L F_charCount c v = Num (case v of Str s \<Rightarrow> int (char_count s) | _ \<Rightarrow> 0)"
| "eval L (F_eq a) c v = Bool (with_value (loose_eq v) a)"
| "eval L (F_gt a) c v = Bool (with_value (\<lambda>m. less_than m v) a)"
| "eval L (F_gte a) c v = Bool (with_value (\<lambda>m. less_eq m v) a)"
| "eval L (F_lt a) c v = Bool (with_value (less_than v) a)"
| "eval L (F_lte a) c v = Bool (with_value (less_eq v) a)"
| "eval L (F_match a) c v = Undef"
| "eval L F_required c v = Bool (required_ok v)"
| "eval L (F_oneOfEnum as) c v = Bool (\<exists>a \<in> set as. with_value (same_value v) a)"
| "eval L (F_get ctx a) c v =
     (case a of ArgExpr b \<Rightarrow> Undef | ArgVal ref \<Rightarrow> lo_get_str L c (''root.'' @ to_str ref) Undef)"
| "eval L (F_allOf ctx fs) c v =
     Bool (\<forall>f \<in> set fs. v \<noteq> Undef \<or> efn_type f = ''required'' \<longrightarrow> truthy (eval L f c v))"
| "eval L (F_anyOf ctx fs) c v =
     Bool (\<exists>f \<in> set fs. (v \<noteq> Undef \<or> efn_type f = ''required'') \<and> truthy (eval L f c v))"
| "eval L (F_oneOf ctx fs) c v = Bool (length (filter (\<lambda>f. truthy (eval L f c v)) fs) = 1)"
| "eval L (F_pipe ctx fs) c v = fold (\<lambda>f out. eval L f c out) fs v"

text \<open>Functions that raise nothing: no \<^verbatim>\<open>match\<close>, whose pattern is never a regular expression in
  JSON, and property names without brackets.\<close>

fun plain_fn :: "efn \<Rightarrow> bool" where
  "plain_fn (F_match a) = False"
| "plain_fn (F_get ctx a) =
     (case a of ArgExpr b \<Rightarrow> True | ArgVal ref \<Rightarrow> (case ref of Str s \<Rightarrow> no_brackets s | _ \<Rightarrow> False))"
| "plain_fn (F_allOf ctx fs) = list_all plain_fn fs"
| "plain_fn (F_anyOf ctx fs) = list_all plain_fn fs"
| "plain_fn (F_oneOf ctx fs) = list_all plain_fn fs"
| "plain_fn (F_pipe ctx fs) = list_all plain_fn fs"
| "plain_fn f = True"

text \<open>Two contexts in which every property of the root reads the same.\<close>

definition same_root :: "lodash \<Rightarrow> js \<Rightarrow> js \<Rightarrow> bool" where
  "same_root L c c' =
     (\<forall>s. no_brackets s \<longrightarrow> lo_get_str L c (''root.'' @ s) Undef = lo_get_str L c' (''root.'' @ s) Undef)"

lemma same_root_refl [simp]: "same_root L c c"
  by (simp add: same_root_def)

lemma same_root_trans: "same_root L a b \<Longrightarrow> same_root L b c \<Longrightarrow> same_root L a c"
  by (simp add: same_root_def)

lemma eval_same_root: "same_root L c c' \<Longrightarrow> plain_fn f \<Longrightarrow> eval L f c v = eval L f c' v"
proof (induction f arbitrary: v)
  case (F_get ctx a)
  then show ?case by (auto simp: same_root_def split: built_arg.splits js.splits)
next
  case (F_allOf ctx fs)
  then show ?case by (auto simp: list_all_iff)
next
  case (F_anyOf ctx fs)
  then show ?case by (auto simp: list_all_iff)
next
  case (F_oneOf ctx fs)
  then have "filter (\<lambda>f. truthy (eval L f c v)) fs = filter (\<lambda>f. truthy (eval L f c' v)) fs"
    by (intro filter_cong) (auto simp: list_all_iff)
  then show ?case by simp
next
  case (F_pipe ctx fs)
  then show ?case by (auto simp: list_all_iff intro!: fold_cong)
qed auto

context lodash_api begin

text \<open>A switch changes \<^verbatim>\<open>path\<close> and \<^verbatim>\<open>schema\<close>, so the root reads the same.\<close>

lemma switched_same_root:
  assumes "is_plain_object c"
  shows "same_root L c (switched L ctx c ref)"
proof -
  obtain kvs where c: "c = Obj kvs" using assms by (cases c) auto
  let ?kvs = "spread kvs [(''path'', ref), (''schema'', lo_get_str L ctx (keyPathToSchemaKeyPath (to_str ref)) Undef)]"
  have get: "obj_get ?kvs ''root'' = obj_get kvs ''root''"
    and has: "obj_has ?kvs (''root.'' @ s) = obj_has kvs (''root.'' @ s)"
    and get': "obj_get ?kvs (''root.'' @ s) = obj_get kvs (''root.'' @ s)" for s
    by (simp_all add: spread_def obj_get_update obj_has_update)
  have split: "split_on (CHR ''.'') (''root.'' @ s) = ''root'' # split_on (CHR ''.'') s" for s
    by simp
  show ?thesis
    using get has get' by (auto simp: same_root_def no_brackets_def get_str_eq key_path_def c
        switched_def ref_get_def split simp del: split_on.simps append.simps)
qed

end

section \<open>Running computes the meaning\<close>

context lodash_api begin

lemma same_root_object:
  "is_plain_object (switched L ctx c ref)"
  by (simp add: switched_def)

definition switches :: "js \<Rightarrow> js option \<Rightarrow> js option \<Rightarrow> bool" where
  "switches c w w' \<longleftrightarrow> w' = w \<or> (\<exists>c'. w' = Some c' \<and> is_plain_object c' \<and> same_root L c c')"

lemma switches_refl [simp]: "switches c w w"
  by (simp add: switches_def)

lemma switches_trans: "switches c w w1 \<Longrightarrow> switches c w1 w2 \<Longrightarrow> switches c w w2"
  by (auto simp: switches_def)

lemma run_pipe_eval:
  assumes "\<And>f v c sw w. f \<in> set fs \<Longrightarrow> is_plain_object c \<Longrightarrow>
      \<exists>w'. run L f v (Some c) sw w = Inr (eval L f c v, w')
        \<and> switches c w w'"
    and "\<forall>f \<in> set fs. plain_fn f" and "is_plain_object c"
  shows "run_pipe L fs v c = Inr (fold (\<lambda>f out. eval L f c out) fs v)"
  using assms
proof (induction fs arbitrary: v c)
  case (Cons f fs)
  obtain w' where run: "run L f v (Some c) True None = Inr (eval L f c v, w')"
    and w': "switches c None w'"
    using Cons.prems(1) [of f c v True None] Cons.prems(3) by auto
  define c' where "c' = use_ctx w' c"
  have c': "is_plain_object c'" "same_root L c c'"
    using w' Cons.prems(3) by (auto simp: c'_def use_ctx_def switches_def)
  have "run_pipe L fs (eval L f c v) c' = Inr (fold (\<lambda>f out. eval L f c' out) fs (eval L f c v))"
    using Cons.prems c' by (intro Cons.IH) auto
  moreover have "fold (\<lambda>f out. eval L f c' out) fs x = fold (\<lambda>f out. eval L f c out) fs x" for x
    using Cons.prems(2) eval_same_root [OF c'(2)] by (intro fold_cong) auto
  ultimately show ?case using run by (simp add: c'_def)
qed simp

definition runs :: "efn \<Rightarrow> bool" where
  "runs f \<longleftrightarrow> (\<forall>v c sw w. is_plain_object c \<longrightarrow>
     (\<exists>w'. run L f v (Some c) sw w = Inr (eval L f c v, w')
        \<and> switches c w w'))"

lemma runsD:
  assumes "runs f" and "is_plain_object c"
  obtains w' where "run L f v (Some c) sw w = Inr (eval L f c v, w')"
    and "switches c w w'"
  using assms unfolding runs_def by metis

lemma run_all_eval:
  assumes "\<forall>f \<in> set fs. runs f" and "is_plain_object c"
  shows "\<exists>w'. run_all L fs v c sw w = Inr (eval L (F_allOf ctx fs) c v, w')
     \<and> switches c w w'"
  using assms(1)
proof (induction fs arbitrary: w)
  case (Cons f fs)
  obtain w1 where "run L f v (Some c) sw w = Inr (eval L f c v, w1)"
    and "switches c w w1"
    using runsD [of f c v sw w] Cons.prems assms(2) by (metis list.set_intros(1))
  moreover from Cons.IH [of w] Cons.IH [of w1] Cons.prems
  have "\<exists>w'. run_all L fs v c sw w = Inr (eval L (F_allOf ctx fs) c v, w')
     \<and> switches c w w'"
    and "\<exists>w'. run_all L fs v c sw w1 = Inr (eval L (F_allOf ctx fs) c v, w')
     \<and> switches c w1 w'"
    by auto
  ultimately show ?case by (auto simp: is_undefined_def intro: switches_trans)
qed simp

lemma run_any_eval:
  assumes "\<forall>f \<in> set fs. runs f" and "is_plain_object c"
  shows "\<exists>w'. run_any L fs v c sw w = Inr (eval L (F_anyOf ctx fs) c v, w')
     \<and> switches c w w'"
  using assms(1)
proof (induction fs arbitrary: w)
  case (Cons f fs)
  obtain w1 where "run L f v (Some c) sw w = Inr (eval L f c v, w1)"
    and "switches c w w1"
    using runsD [of f c v sw w] Cons.prems assms(2) by (metis list.set_intros(1))
  moreover from Cons.IH [of w] Cons.IH [of w1] Cons.prems
  have "\<exists>w'. run_any L fs v c sw w = Inr (eval L (F_anyOf ctx fs) c v, w')
     \<and> switches c w w'"
    and "\<exists>w'. run_any L fs v c sw w1 = Inr (eval L (F_anyOf ctx fs) c v, w')
     \<and> switches c w1 w'"
    by auto
  ultimately show ?case by (auto simp: is_undefined_def intro: switches_trans)
qed simp

lemma run_count_eval:
  assumes "\<forall>f \<in> set fs. runs f" and "is_plain_object c" and "n \<le> 1"
  shows "\<exists>w'. run_count L fs n v c sw w
       = Inr (Bool (n + length (filter (\<lambda>f. truthy (eval L f c v)) fs) = 1), w')
     \<and> switches c w w'"
  using assms(1,3)
proof (induction fs arbitrary: w n)
  case (Cons f fs)
  obtain w1 where w1: "run L f v (Some c) sw w = Inr (eval L f c v, w1)"
    "switches c w w1"
    using runsD [of f c v sw w] Cons.prems assms(2) by (metis list.set_intros(1))
  show ?case
  proof (cases "truthy (eval L f c v) \<and> n = 1")
    case True
    with w1 show ?thesis by (auto simp: Let_def)
  next
    case False
    define n' where "n' = (if truthy (eval L f c v) then Suc n else n)"
    have "n' \<le> 1" using False Cons.prems(2) by (auto simp: n'_def)
    with Cons.IH [of n' w1] Cons.prems(1) w1 show ?thesis by (auto simp: n'_def Let_def intro: switches_trans)
  qed
qed simp

lemma run_eval: "plain_fn f \<Longrightarrow> runs f"
proof (induction f)
  case (F_get ctx a)
  then show ?case
    using switched_same_root same_root_object
    by (auto simp: runs_def switches_def use_ctx_def has_switch_def nullish_def Let_def
        split: built_arg.splits js.splits)
next
  case (F_allOf ctx fs)
  then have "\<forall>f \<in> set fs. runs f" by (auto simp: list_all_iff)
  from run_all_eval [OF this, of _ _ _ _ ctx] show ?case
    by (simp add: runs_def use_ctx_def has_switch_def del: eval.simps)
next
  case (F_anyOf ctx fs)
  then have "\<forall>f \<in> set fs. runs f" by (auto simp: list_all_iff)
  from run_any_eval [OF this, of _ _ _ _ ctx] show ?case
    by (simp add: runs_def use_ctx_def has_switch_def del: eval.simps)
next
  case (F_oneOf ctx fs)
  then have "\<forall>f \<in> set fs. runs f" by (auto simp: list_all_iff)
  from run_count_eval [OF this, of _ 0] show ?case
    by (simp add: runs_def use_ctx_def has_switch_def)
next
  case (F_pipe ctx fs)
  then have "\<forall>f \<in> set fs. runs f \<and> plain_fn f" by (auto simp: list_all_iff)
  then have "run_pipe L fs v c = Inr (eval L (F_pipe ctx fs) c v)" if "is_plain_object c" for v c
    using that run_pipe_eval [of fs c v] unfolding runs_def by auto
  then show ?case by (simp add: runs_def use_ctx_def del: eval.simps)
qed (auto simp: runs_def)

end
section \<open>Properties\<close>



text \<open>\<^verbatim>\<open>lte\<close> is registered under another name, so an expression that uses it is unknown.\<close>

lemma lte_unknown:
  "create (Arr [Str ''lte'', Num 3]) = Inl (UnknownExpression ''lte'')"
  "exec L (Arr [Str ''max'', Num 3]) ctx (Num 4) = Inr (Bool False)"
  by (simp_all add: default_builders_def registered_name_def exec_def arg_value_def
      less_eq_def)

text \<open>
  C9. Called in a context, a function computes its meaning: \<^verbatim>\<open>allOf\<close> a conjunction, \<^verbatim>\<open>anyOf\<close> a
  disjunction (both over \<^verbatim>\<open>required\<close> alone when the value is undefined), \<^verbatim>\<open>oneOf\<close> that exactly
  one holds, \<^verbatim>\<open>pipe\<close> a composition. The contexts \<^verbatim>\<open>pipe\<close> switches behind its functions never
  show in the result, and nothing is raised.
\<close>

theorem run_computes_eval:
  assumes "lodash_ok L" and "plain_fn f" and "is_plain_object c"
  shows "\<exists>w'. run L f v (Some c) sw w = Inr (eval L f c v, w')"
  using lodash_api.run_eval [OF lodash_apiI [OF assms(1)] assms(2)] assms(3)
  unfolding lodash_api.runs_def [OF lodash_apiI [OF assms(1)]] by blast

theorem run_computes_eval_witness:
  "\<exists>w'. run lodash_ref
      (F_pipe (Obj []) [F_get (Obj []) (ArgVal (Str ''age'')), F_allOf (Obj []) [F_required, F_gt (ArgVal (Num 17))]])
      Undef (Some (Obj [(''root'', Obj [(''age'', Num 18)])])) True None = Inr (Bool True, w')"
  using run_computes_eval [OF lodash_ref_ok, where sw = True and w = None and v = Undef
      and c = "Obj [(''root'', Obj [(''age'', Num 18)])]"
      and f = "F_pipe (Obj []) [F_get (Obj []) (ArgVal (Str ''age'')), F_allOf (Obj []) [F_required, F_gt (ArgVal (Num 17))]]"]
  by (simp add: no_brackets_def lodash_ref_def ref_get_def key_path_def obj_has_def obj_get_def
      required_ok_def nullish_def less_than_def)

end
