(* ===== verification/Schema_Type.thy ===== *)
theory Schema_Type
  imports Expression
begin

text \<open>
  \<^verbatim>\<open>nodepkg/jsonschema/src/SchemaType.ts\<close> and \<^verbatim>\<open>LSP.ts\<close>: the schema types an editor looks
  up while the user types. \<^verbatim>\<open>SchemaTypeContext.of\<close> builds them of a JSON schema; references
  stay references until asked for, except in an \<^verbatim>\<open>allOf\<close>, whose members are looked through.
  Building, looking through references and walking along a key path can recur without end
  when a schema refers to itself, which overflows the stack: every such function has a fuel,
  and \<open>Overflow\<close> is its exhaustion. What a reference resolves to is a parameter.
\<close>

datatype schema_error = Overflow | SchemaTypeError

type_synonym 'a sres = "schema_error + 'a"

fun bindS :: "'a sres \<Rightarrow> ('a \<Rightarrow> 'b sres) \<Rightarrow> 'b sres" where
  "bindS (Inl e) f = Inl e"
| "bindS (Inr x) f = f x"

fun mapS :: "('a \<Rightarrow> 'b sres) \<Rightarrow> 'a list \<Rightarrow> 'b list sres" where
  "mapS f [] = Inr []"
| "mapS f (x # xs) = bindS (f x) (\<lambda>y. bindS (mapS f xs) (\<lambda>ys. Inr (y # ys)))"

section \<open>Schema types\<close>

text \<open>
  One constructor per class; \<open>T_extended\<close> is a \<^verbatim>\<open>SchemaObjectType\<close> with \<^verbatim>\<open>extends\<close>,
  \<open>T_object\<close> one with its properties, required names and additional properties. Each keeps
  its \<^verbatim>\<open>schema\<close>.
\<close>

datatype sty =
    T_any js
  | T_array js "sty option"
  | T_object js "(string \<times> sty) list" js "sty option"
  | T_extended js "sty list"
  | T_number js
  | T_string js
  | T_boolean js
  | T_ref js
  | T_intersection js "sty list"
  | T_union js "sty list"

fun schema_of :: "sty \<Rightarrow> js" where
  "schema_of (T_any s) = s"
| "schema_of (T_array s i) = s"
| "schema_of (T_object s ps r a) = s"
| "schema_of (T_extended s es) = s"
| "schema_of (T_number s) = s"
| "schema_of (T_string s) = s"
| "schema_of (T_boolean s) = s"
| "schema_of (T_ref s) = s"
| "schema_of (T_intersection s ts) = s"
| "schema_of (T_union s ts) = s"

fun is_object_type :: "sty \<Rightarrow> bool" where
  "is_object_type (T_object s ps r a) = True"
| "is_object_type (T_extended s es) = True"
| "is_object_type t = False"

text \<open>\<^verbatim>\<open>schema.$ref\<close>, a string; other methods of a reference call \<^verbatim>\<open>split\<close> on it.\<close>

definition ref_of :: "js \<Rightarrow> string sres" where
  "ref_of schema = (case member schema ''$ref'' of Str r \<Rightarrow> Inr r | _ \<Rightarrow> Inl SchemaTypeError)"

fun array_elems :: "js \<Rightarrow> js list sres" where
  "array_elems (Arr xs) = Inr xs"
| "array_elems v = Inl SchemaTypeError"

text \<open>\<^verbatim>\<open>[...v]\<close>.\<close>

definition spread_elems :: "js \<Rightarrow> js list sres" where
  "spread_elems v = (case iterate v of None \<Rightarrow> Inl SchemaTypeError | Some xs \<Rightarrow> Inr xs)"

text \<open>\<^verbatim>\<open>isObject(s) ? s : {}\<close>.\<close>

definition object_or_empty :: "js \<Rightarrow> js" where
  "object_or_empty v = (if is_object v then v else Obj [])"

text \<open>
  What a member of an \<^verbatim>\<open>allOf\<close> or a \<^verbatim>\<open>oneOf\<close> inherits of the schema around it: its type, and its
  required names.
\<close>

definition inherit :: "lodash \<Rightarrow> js \<Rightarrow> js \<Rightarrow> js sres" where
  "inherit L schema sub =
     (let base = spread (own_props sub)
            [(''type'', lo_get_str L sub ''type'' (lo_get_str L schema ''type'' Undef))]
      in if truthy (lo_get_str L schema ''required'' Undef) then
           bindS (spread_elems (lo_get_str L schema ''required'' (Arr []))) (\<lambda>rs.
             bindS (spread_elems (lo_get_str L sub ''required'' (Arr []))) (\<lambda>rs'.
               Inr (Obj (spread base [(''required'', Arr (rs @ rs'))]))))
         else Inr (Obj base))"

section \<open>Building\<close>

text \<open>\<^verbatim>\<open>of(schema)\<close> of a schema without \<^verbatim>\<open>$ref\<close>, \<^verbatim>\<open>oneOf\<close>, \<^verbatim>\<open>allOf\<close>, and not an array or an object.\<close>

definition of_plain :: "lodash \<Rightarrow> js \<Rightarrow> sty" where
  "of_plain L schema =
     (let type = lo_get_str L schema ''type'' (Str '''') in
      if type = Str ''boolean'' then T_boolean schema
      else if type = Str ''number'' \<or> type = Str ''integer'' then T_number schema
      else if type = Str ''string'' then T_string schema
      else if lo_has_str L schema ''enum'' \<and> is_string (lo_get L schema [''enum'', ''0''] Undef)
        then T_string schema
      else if lo_has_str L schema ''enum'' \<and> is_number (lo_get L schema [''enum'', ''0''] Undef)
        then T_number schema
      else T_any (Obj []))"

text \<open>\<^verbatim>\<open>SchemaType.indirect\<close>: looking through a reference, with \<open>rec\<close> for building.\<close>

definition look_through :: "(string \<Rightarrow> js) \<Rightarrow> (js \<Rightarrow> sty sres) \<Rightarrow> sty \<Rightarrow> sty sres" where
  "look_through resolve rec t =
     (case t of T_ref schema \<Rightarrow> bindS (ref_of schema) (\<lambda>r. rec (resolve r)) | _ \<Rightarrow> Inr t)"

definition of_step :: "lodash \<Rightarrow> (string \<Rightarrow> js) \<Rightarrow> (js \<Rightarrow> sty sres) \<Rightarrow> js \<Rightarrow> sty sres" where
  "of_step L resolve rec schema =
     (if lo_has_str L schema ''$ref'' then Inr (T_ref schema)
      else if lo_has_str L schema ''oneOf'' then
        bindS (array_elems (member schema ''oneOf'')) (\<lambda>subs.
          bindS (mapS (\<lambda>sub. bindS (inherit L schema sub) rec) subs) (\<lambda>ts.
            Inr (T_union schema ts)))
      else if lo_has_str L schema ''allOf'' then
        bindS (array_elems (lo_get_str L schema ''allOf'' (Arr []))) (\<lambda>subs.
          bindS (mapS rec subs) (\<lambda>ts.
            bindS (mapS (look_through resolve rec) ts) (\<lambda>us.
              if length (filter is_object_type us) > 1 then Inr (T_extended schema ts)
              else bindS (mapS (\<lambda>sub. bindS (inherit L schema sub) rec) subs) (\<lambda>ts'.
                Inr (T_intersection schema ts')))))
      else if lo_get_str L schema ''type'' (Str '''') = Str ''array'' then
        (if truthy (member schema ''items'') then
           bindS (rec (object_or_empty (member schema ''items''))) (\<lambda>t. Inr (T_array schema (Some t)))
         else Inr (T_array schema None))
      else if lo_get_str L schema ''type'' (Str '''') = Str ''object'' then
        bindS (mapS (\<lambda>(k, s). bindS (rec s) (\<lambda>t. Inr (k, t)))
                 (own_props (member schema ''properties''))) (\<lambda>ps.
          let required = (if truthy (member schema ''required'') then member schema ''required'' else Arr [])
          in if truthy (member schema ''additionalProperties'') then
               bindS (rec (object_or_empty (member schema ''additionalProperties''))) (\<lambda>t.
                 Inr (T_object schema ps required (Some t)))
             else Inr (T_object schema ps required None))
      else Inr (of_plain L schema))"

primrec of_schema :: "lodash \<Rightarrow> (string \<Rightarrow> js) \<Rightarrow> nat \<Rightarrow> js \<Rightarrow> sty sres" where
  "of_schema L resolve 0 = (\<lambda>schema. Inl Overflow)"
| "of_schema L resolve (Suc n) = of_step L resolve (of_schema L resolve n)"

definition underlying :: "lodash \<Rightarrow> (string \<Rightarrow> js) \<Rightarrow> nat \<Rightarrow> sty \<Rightarrow> sty sres" where
  "underlying L resolve n = look_through resolve (of_schema L resolve n)"

section \<open>Members of types\<close>

text \<open>\<^verbatim>\<open>SchemaType.contains\<close>: a value of the enumeration of a string, number or boolean.\<close>

fun enum_of :: "sty \<Rightarrow> js" where
  "enum_of (T_string s) = member s ''enum''"
| "enum_of (T_number s) = member s ''enum''"
| "enum_of (T_boolean s) = member s ''enum''"
| "enum_of t = Undef"

definition contains :: "sty \<Rightarrow> js \<Rightarrow> bool sres" where
  "contains t v =
     (case enum_of t of
        Arr vs \<Rightarrow> Inr (\<exists>x \<in> set vs. same_value x v)
      | Str s \<Rightarrow> Inr (includes_str s (to_str v))
      | Undef \<Rightarrow> Inr False
      | Null \<Rightarrow> Inr False
      | _ \<Rightarrow> Inl SchemaTypeError)"

text \<open>\<^verbatim>\<open>prop\<close> and \<^verbatim>\<open>propNames\<close> of an object type.\<close>

text \<open>The last member of \<^verbatim>\<open>extends\<close> that has the property wins.\<close>

fun prop_extends ::
    "(sty \<Rightarrow> sty sres) \<Rightarrow> (sty \<Rightarrow> sty option sres) \<Rightarrow> sty list \<Rightarrow> sty option \<Rightarrow> sty option sres" where
  "prop_extends look rec [] final = Inr final"
| "prop_extends look rec (e # es) final =
     bindS (look e) (\<lambda>u.
       if is_object_type u then
         bindS (rec u) (\<lambda>p. prop_extends look rec es (case p of None \<Rightarrow> final | Some t \<Rightarrow> Some t))
       else prop_extends look rec es final)"

primrec obj_prop :: "lodash \<Rightarrow> (string \<Rightarrow> js) \<Rightarrow> nat \<Rightarrow> string \<Rightarrow> sty \<Rightarrow> sty option sres" where
  "obj_prop L resolve 0 name = (\<lambda>t. Inl Overflow)"
| "obj_prop L resolve (Suc n) name = (\<lambda>t.
     case t of
       T_object s ps r a \<Rightarrow> Inr (case map_of ps name of Some t \<Rightarrow> Some t | None \<Rightarrow> a)
     | T_extended s es \<Rightarrow>
         prop_extends (underlying L resolve n) (obj_prop L resolve n name) es None
     | _ \<Rightarrow> Inr None)"

fun names_extends ::
    "(sty \<Rightarrow> sty sres) \<Rightarrow> (sty \<Rightarrow> string list sres) \<Rightarrow> sty list \<Rightarrow> string list sres" where
  "names_extends look rec [] = Inr []"
| "names_extends look rec (e # es) =
     bindS (look e) (\<lambda>u.
       bindS (if is_object_type u then rec u else Inr []) (\<lambda>names.
         bindS (names_extends look rec es) (\<lambda>rest. Inr (names @ rest))))"

primrec propNames :: "lodash \<Rightarrow> (string \<Rightarrow> js) \<Rightarrow> nat \<Rightarrow> sty \<Rightarrow> string list sres" where
  "propNames L resolve 0 = (\<lambda>t. Inl Overflow)"
| "propNames L resolve (Suc n) = (\<lambda>t.
     case t of
       T_object s ps r a \<Rightarrow> Inr (map fst ps)
     | T_extended s es \<Rightarrow> names_extends (underlying L resolve n) (propNames L resolve n) es
     | _ \<Rightarrow> Inr [])"

text \<open>The discriminator of a union, its values, and the member a value selects.\<close>

definition discriminator :: "sty \<Rightarrow> js" where
  "discriminator t = member (member (schema_of t) ''discriminator'') ''propertyName''"

fun flat1 :: "js list \<Rightarrow> js list" where
  "flat1 [] = []"
| "flat1 (v # vs) = (case v of Arr xs \<Rightarrow> xs | _ \<Rightarrow> [v]) @ flat1 vs"

definition discriminatorEnum ::
    "lodash \<Rightarrow> (string \<Rightarrow> js) \<Rightarrow> nat \<Rightarrow> js \<Rightarrow> sty list \<Rightarrow> js list sres" where
  "discriminatorEnum L resolve n disc oneOf =
     (if \<not> truthy disc then Inr []
      else bindS (mapS (\<lambda>e. bindS (obj_prop L resolve n (to_str disc) e) (\<lambda>p.
                     Inr (case p of
                            None \<Rightarrow> Arr []
                          | Some t \<Rightarrow> if enum_of t = Undef then Arr [] else enum_of t)))
                   (filter is_object_type oneOf))
             (\<lambda>vs. Inr (flat1 vs)))"

fun mapping_in ::
    "lodash \<Rightarrow> (string \<Rightarrow> js) \<Rightarrow> nat \<Rightarrow> js \<Rightarrow> js \<Rightarrow> sty list \<Rightarrow> sty option sres" where
  "mapping_in L resolve n disc v [] = Inr None"
| "mapping_in L resolve n disc v (t # ts) =
     (if is_object_type t then
        bindS (obj_prop L resolve n (to_str disc) t) (\<lambda>p.
          case p of
            None \<Rightarrow> mapping_in L resolve n disc v ts
          | Some d \<Rightarrow> bindS (contains d v) (\<lambda>hit.
              if hit then Inr (Some t) else mapping_in L resolve n disc v ts))
      else mapping_in L resolve n disc v ts)"

definition mapping ::
    "lodash \<Rightarrow> (string \<Rightarrow> js) \<Rightarrow> nat \<Rightarrow> js \<Rightarrow> sty list \<Rightarrow> js \<Rightarrow> sty option sres" where
  "mapping L resolve n disc oneOf v =
     (if truthy disc then mapping_in L resolve n disc v oneOf else Inr None)"

section \<open>Walking a key path\<close>

text \<open>
  \<^verbatim>\<open>SchemaTypeNode\<close>: a schema type with the node it was reached from.
\<close>

datatype snode = Node sty "snode option"

fun node_type :: "snode \<Rightarrow> sty" where
  "node_type (Node t p) = t"

text \<open>\<^verbatim>\<open>parents\<close>: the nodes from the root to this one.\<close>

fun parents :: "snode \<Rightarrow> snode list" where
  "parents (Node t None) = [Node t None]"
| "parents (Node t (Some p)) = parents p @ [Node t (Some p)]"

text \<open>
  A key of a path is a name or an index, or a pair of one with the values of the object around
  it: \<^verbatim>\<open>propAndValues\<close>.
\<close>

fun propAndValues :: "js \<Rightarrow> js \<times> js" where
  "propAndValues (Arr xs) = (member (Arr xs) ''0'', member (Arr xs) ''1'')"
| "propAndValues key = (key, Obj [])"

type_synonym walker = "sty \<Rightarrow> js list \<Rightarrow> snode option \<Rightarrow> snode option sres"

text \<open>An intersection resolves when all its members do, a union to the first that does.\<close>

fun resolve_all :: "walker \<Rightarrow> sty list \<Rightarrow> js list \<Rightarrow> snode option \<Rightarrow> bool sres" where
  "resolve_all rec [] path parent = Inr True"
| "resolve_all rec (t # ts) path parent =
     bindS (rec t path parent) (\<lambda>ret.
       if ret = None then Inr False else resolve_all rec ts path parent)"

fun resolve_first :: "walker \<Rightarrow> sty list \<Rightarrow> js list \<Rightarrow> snode option \<Rightarrow> snode option sres" where
  "resolve_first rec [] path parent = Inr None"
| "resolve_first rec (t # ts) path parent =
     bindS (rec t path parent) (\<lambda>ret.
       case ret of Some node \<Rightarrow> Inr (Some node) | None \<Rightarrow> resolve_first rec ts path parent)"

text \<open>The property \<open>key\<close> of an object, then the rest of the path.\<close>

definition resolve_prop ::
    "lodash \<Rightarrow> (string \<Rightarrow> js) \<Rightarrow> nat \<Rightarrow> walker \<Rightarrow> sty \<Rightarrow> js \<Rightarrow> js list \<Rightarrow> snode option \<Rightarrow> snode option sres" where
  "resolve_prop L resolve n rec t key others parent =
     bindS (obj_prop L resolve n (to_str (fst (propAndValues key))) t) (\<lambda>p.
       case p of
         None \<Rightarrow> Inr None
       | Some u \<Rightarrow> rec u others (Some (Node t parent)))"

text \<open>
  A union with a discriminator: the member its value selects, else the discriminator itself
  when that is the key.
\<close>

definition resolve_union ::
    "lodash \<Rightarrow> (string \<Rightarrow> js) \<Rightarrow> nat \<Rightarrow> walker \<Rightarrow> js \<Rightarrow> sty list \<Rightarrow> js \<Rightarrow> js list \<Rightarrow> snode option \<Rightarrow> snode option sres" where
  "resolve_union L resolve n rec disc ts key others parent =
     (let v = lo_get_str L (snd (propAndValues key)) (to_str disc) (Str '''');
          fallback =
            (if loose_eq (fst (propAndValues key)) disc then
               bindS (discriminatorEnum L resolve n disc ts) (\<lambda>vs.
                 Inr (Some (Node (T_string
                   (Obj [(''type'', Str ''string''), (''enum'', Arr vs)])) parent)))
             else Inr None)
      in if truthy v then
           bindS (mapping L resolve n disc ts v) (\<lambda>m.
             case m of
               None \<Rightarrow> fallback
             | Some u \<Rightarrow>
                 bindS (rec u (key # others) parent) (\<lambda>ret.
                   case ret of None \<Rightarrow> fallback | Some node \<Rightarrow> Inr (Some node)))
         else fallback)"

text \<open>
  \<^verbatim>\<open>resolve(keyPath, parent)\<close>: a reference resolves as what it refers to; every other type
  resolves the empty path to itself.
\<close>

definition resolve_key ::
    "lodash \<Rightarrow> (string \<Rightarrow> js) \<Rightarrow> nat \<Rightarrow> walker \<Rightarrow> sty \<Rightarrow> js \<Rightarrow> js list \<Rightarrow> snode option \<Rightarrow> snode option sres" where
  "resolve_key L resolve n rec t key others parent =
     (case t of
        T_array s items \<Rightarrow>
          (if truthy key then
             (case items of
                None \<Rightarrow> Inr None
              | Some u \<Rightarrow> rec u others (Some (Node t parent)))
           else Inr None)
      | T_object s ps r a \<Rightarrow> resolve_prop L resolve n rec t key others parent
      | T_extended s es \<Rightarrow> resolve_prop L resolve n rec t key others parent
      | T_intersection s ts \<Rightarrow>
          bindS (resolve_all rec ts (key # others) parent) (\<lambda>ok.
            Inr (if ok then Some (Node t parent) else None))
      | T_union s ts \<Rightarrow>
          (if truthy (discriminator t)
           then resolve_union L resolve n rec (discriminator t) ts key others parent
           else resolve_first rec ts (key # others) parent)
      | _ \<Rightarrow> Inr None)"

definition resolve_step :: "lodash \<Rightarrow> (string \<Rightarrow> js) \<Rightarrow> nat \<Rightarrow> walker \<Rightarrow> walker" where
  "resolve_step L resolve n rec t path parent =
     (case t of
        T_ref s \<Rightarrow> bindS (underlying L resolve n t) (\<lambda>u. rec u path parent)
      | _ \<Rightarrow>
          (case path of
             [] \<Rightarrow> Inr (Some (Node t parent))
           | key # others \<Rightarrow> resolve_key L resolve n rec t key others parent))"

primrec resolve_path :: "lodash \<Rightarrow> (string \<Rightarrow> js) \<Rightarrow> nat \<Rightarrow> walker" where
  "resolve_path L resolve 0 = (\<lambda>t path parent. Inl Overflow)"
| "resolve_path L resolve (Suc n) = resolve_step L resolve n (resolve_path L resolve n)"

section \<open>Type definitions as text\<close>

text \<open>\<^verbatim>\<open>typedef\<close>. A property is marked optional unless its name is required.\<close>

definition elems_or_none :: "js \<Rightarrow> js list" where
  "elems_or_none v = (case v of Arr xs \<Rightarrow> xs | _ \<Rightarrow> [])"

definition required_name :: "js \<Rightarrow> string \<Rightarrow> bool" where
  "required_name required name =
     (case required of
        Arr xs \<Rightarrow> \<exists>x \<in> set xs. same_value x (Str name)
      | Str s \<Rightarrow> includes_str s name
      | Obj kvs \<Rightarrow> \<exists>p \<in> set kvs. same_value (snd p) (Str name)
      | _ \<Rightarrow> False)"

definition ref_name :: "js \<Rightarrow> string" where
  "ref_name schema =
     (case member schema ''$ref'' of
        Str r \<Rightarrow> (let w = last (split_on (CHR ''/'') r) in if w = [] then ''undefined'' else w)
      | _ \<Rightarrow> ''undefined'')"

fun typedef_of :: "sty \<Rightarrow> string" where
  "typedef_of (T_any s) = ''any''"
| "typedef_of (T_array s items) =
     ''Array<'' @ (case items of None \<Rightarrow> ''undefined'' | Some t \<Rightarrow> typedef_of t) @ ''>''"
| "typedef_of (T_object s ps required additional) =
     (let props = join '', '' (map (\<lambda>(name, t).
            name @ (if required_name required name then '''' else ''?'') @ '': '' @ typedef_of t) ps);
          extra = (case additional of None \<Rightarrow> '''' | Some t \<Rightarrow> ''[k: string]: '' @ typedef_of t)
      in ''{ '' @ join '', '' (filter (\<lambda>w. w \<noteq> []) [props, extra]) @ '' }'')"
| "typedef_of (T_extended s es) = join '' & '' (map typedef_of es)"
| "typedef_of (T_number s) =
     (if truthy (member s ''enum'') then join '' | '' (map to_str (elems_or_none (member s ''enum'')))
      else if truthy (member s ''type'') then to_str (member s ''type'') else ''number'')"
| "typedef_of (T_string s) =
     (if truthy (member s ''enum'') then
        join '' | '' (map (\<lambda>v. [CHR 0x22] @ to_str v @ [CHR 0x22]) (elems_or_none (member s ''enum'')))
      else ''string'')"
| "typedef_of (T_boolean s) = ''boolean''"
| "typedef_of (T_ref s) = ref_name s"
| "typedef_of (T_intersection s ts) = join '' & '' (map typedef_of ts)"
| "typedef_of (T_union s ts) = join '' | '' (map typedef_of ts)"

fun node_typedef :: "snode \<Rightarrow> string" where
  "node_typedef (Node t None) = typedef_of t"
| "node_typedef (Node t (Some p)) =
     node_typedef p @ [CHR 0x0A] @ ''  -> '' @ typedef_of t"

definition meta :: "lodash \<Rightarrow> snode \<Rightarrow> string \<Rightarrow> js" where
  "meta L node key = lo_get_str L (schema_of (node_type node)) key Undef"

section \<open>The language service\<close>

text \<open>
  \<^verbatim>\<open>LSP\<close>: by default a reference \<^verbatim>\<open>#/definitions/X\<close> is the value at that path of the schema.
\<close>

definition default_resolve :: "lodash \<Rightarrow> js \<Rightarrow> string \<Rightarrow> js" where
  "default_resolve L schema ref = lo_get L schema (split_on (CHR ''/'') (drop 2 ref)) (Obj [])"

definition schemaAt :: "lodash \<Rightarrow> (string \<Rightarrow> js) \<Rightarrow> nat \<Rightarrow> js \<Rightarrow> js list \<Rightarrow> snode option sres" where
  "schemaAt L resolve n schema keyPath =
     bindS (of_schema L resolve n schema) (\<lambda>t. resolve_path L resolve n t keyPath None)"

section \<open>Building ends\<close>

text \<open>
  The schemas inside a schema, at the places \<^verbatim>\<open>of\<close> builds types of, and the references among
  the members of its \<^verbatim>\<open>allOf\<close>, which are looked through at once.
\<close>

fun parts :: "string \<times> js \<Rightarrow> js list" where
  "parts (k, v) =
     (if k = ''oneOf'' \<or> k = ''allOf'' then elems_or_none v
      else if k = ''items'' \<or> k = ''additionalProperties'' then (if is_object v then [v] else [])
      else if k = ''properties'' then map snd (own_props v)
      else [])"

definition sub_schemas :: "js \<Rightarrow> js list" where
  "sub_schemas s = (case s of Obj kvs \<Rightarrow> concat (map parts kvs) | _ \<Rightarrow> [])"

definition allOf_refs :: "js \<Rightarrow> string set" where
  "allOf_refs s =
     {r. \<exists>kvs v sub. s = Obj kvs \<and> (''allOf'', v) \<in> set kvs \<and> sub \<in> set (elems_or_none v)
       \<and> member sub ''$ref'' = Str r}"

lemma size_elems: "c \<in> set xs \<Longrightarrow> size c < Suc (size_list size xs)"
  using size_list_estimation' [of c xs "size c" size] by simp

lemma size_member_js: "(k, v) \<in> set kvs \<Longrightarrow> size v < size (Obj kvs)"
  by (induction kvs) auto

lemma parts_size: "c \<in> set (parts (k, v)) \<Longrightarrow> size c \<le> size v"
proof (cases v)
  case (Arr xs)
  assume "c \<in> set (parts (k, v))"
  then show ?thesis
    using Arr by (auto simp: elems_or_none_def dest: size_elems set_zip_rightD split: if_splits)
next
  case (Obj kvs)
  assume "c \<in> set (parts (k, v))"
  then show ?thesis
    using Obj by (auto simp: elems_or_none_def dest: size_member_js split: if_splits)
qed (auto simp: elems_or_none_def split: if_splits)

lemma sub_schemas_size [termination_simp]: "c \<in> set (sub_schemas s) \<Longrightarrow> size c < size s"
proof -
  assume "c \<in> set (sub_schemas s)"
  then obtain kvs k v where s: "s = Obj kvs" "(k, v) \<in> set kvs" "c \<in> set (parts (k, v))"
    by (cases s) (auto simp: sub_schemas_def simp del: parts.simps)
  then show "size c < size s"
    using parts_size [OF s(3)] size_member_js [OF s(2)] by (simp only:)
qed

fun sdepth :: "js \<Rightarrow> nat" where
  "sdepth s = Suc (foldr max (map sdepth (sub_schemas s)) 0)"

fun refs_below :: "(string \<Rightarrow> nat) \<Rightarrow> nat \<Rightarrow> js \<Rightarrow> bool" where
  "refs_below rk m s \<longleftrightarrow>
     (\<forall>r \<in> allOf_refs s. rk r < m) \<and> (\<forall>c \<in> set (sub_schemas s). refs_below rk m c)"

declare sdepth.simps [simp del] refs_below.simps [simp del]

lemma foldr_max_le: "foldr max xs 0 \<le> (d :: nat) \<longleftrightarrow> (\<forall>x \<in> set xs. x \<le> d)"
  by (induction xs) auto

lemma sdepth_le: "sdepth s \<le> Suc d \<longleftrightarrow> (\<forall>c \<in> set (sub_schemas s). sdepth c \<le> d)"
  by (subst sdepth.simps) (simp add: foldr_max_le)

lemma sdepth_pos: "\<not> sdepth s \<le> 0"
  by (subst sdepth.simps) simp

text \<open>What a member inherits changes neither.\<close>

lemma parts_inherited [simp]: "parts (''type'', v) = []" "parts (''required'', v) = []"
  by simp_all

declare parts.simps [simp del]

lemma inherit_props:
  assumes "inherit L schema sub = Inr s"
  obtains kvs where "s = Obj kvs"
    and "\<And>k v. (k, v) \<in> set kvs \<Longrightarrow> k = ''type'' \<or> k = ''required'' \<or> (k, v) \<in> set (own_props sub)"
proof -
  have upd: "(k, v) \<in> set (spread xs [(a, b)]) \<Longrightarrow> k = a \<or> (k, v) \<in> set xs" for k v a b and xs :: obj
    using set_update_subset [of a b xs] by (auto simp: spread_def)
  define base where "base = spread (own_props sub)
    [(''type'', lo_get_str L sub ''type'' (lo_get_str L schema ''type'' Undef))]"
  have "s = Obj base \<or> (\<exists>rs. s = Obj (spread base [(''required'', Arr rs)]))"
    using assms
    by (cases "spread_elems (lo_get_str L schema ''required'' (Arr []))";
        cases "spread_elems (lo_get_str L sub ''required'' (Arr []))")
      (auto simp: inherit_def Let_def base_def split: if_splits)
  then show thesis
    using that upd unfolding base_def by metis
qed

lemma index_keys_have_no_parts:
  assumes "(k, v) \<in> set (own_props (Arr xs))"
  shows "parts (k, v) = []" and "k \<noteq> ''allOf''"
proof -
  have "k \<in> set (map nat_str [0..<length xs])"
    using assms by (auto dest: set_zip_leftD)
  then have digits: "set k \<subseteq> set ''0123456789''" using nat_str_digits by auto
  have "CHR ''e'' \<notin> set k"
    by (rule contra_subsetD [OF digits]) simp
  then have "k \<noteq> ''oneOf''" "k \<noteq> ''items''" "k \<noteq> ''additionalProperties''" "k \<noteq> ''properties''"
    by (intro notI; simp)+
  moreover have "CHR ''l'' \<notin> set k"
    by (rule contra_subsetD [OF digits]) simp
  then show a: "k \<noteq> ''allOf''" by (intro notI) simp
  ultimately show "parts (k, v) = []" by (simp only: parts.simps simp_thms if_False)
qed

lemma inherit_sub_schemas:
  assumes "inherit L schema sub = Inr s"
  shows "set (sub_schemas s) \<subseteq> set (sub_schemas sub)" and "allOf_refs s \<subseteq> allOf_refs sub"
proof -
  obtain kvs where s: "s = Obj kvs"
    and kvs: "\<And>k v. (k, v) \<in> set kvs \<Longrightarrow> k = ''type'' \<or> k = ''required'' \<or> (k, v) \<in> set (own_props sub)"
    using inherit_props [OF assms] by blast
  have own: "\<exists>kvs'. sub = Obj kvs' \<and> (k, v) \<in> set kvs'"
    if "(k, v) \<in> set kvs" and "parts (k, v) \<noteq> [] \<or> k = ''allOf''" for k v
  proof (cases sub)
    case (Arr xs)
    then show ?thesis
      using that kvs [OF that(1)] index_keys_have_no_parts [of k v xs] by auto
  qed (use that kvs [OF that(1)] in auto)
  show "set (sub_schemas s) \<subseteq> set (sub_schemas sub)"
    using own by (fastforce simp: sub_schemas_def s)
  show "allOf_refs s \<subseteq> allOf_refs sub"
    using own by (fastforce simp: allOf_refs_def s)
qed

lemma refs_below_inherit:
  "inherit L schema sub = Inr s \<Longrightarrow> refs_below rk m sub \<Longrightarrow> refs_below rk m s"
  using inherit_sub_schemas [of L schema sub s] by (subst (asm) refs_below.simps, subst refs_below.simps) blast

lemma sdepth_inherit: "inherit L schema sub = Inr s \<Longrightarrow> sdepth sub \<le> d \<Longrightarrow> sdepth s \<le> d"
  using inherit_sub_schemas(1) [of L schema sub s] sdepth_pos [of sub]
  by (cases d) (auto simp: sdepth_le)

lemma mapS_overflow:
  "mapS f xs = Inl Overflow \<Longrightarrow> \<exists>x \<in> set xs. f x = Inl Overflow"
proof (induction xs)
  case (Cons x xs)
  then show ?case by (cases "f x"; cases "mapS f xs") auto
qed simp

lemma bindS_overflow:
  "bindS a f = Inl Overflow \<Longrightarrow> a = Inl Overflow \<or> (\<exists>x. a = Inr x \<and> f x = Inl Overflow)"
  by (cases a) auto

lemma array_elems_overflow [simp]: "array_elems v \<noteq> Inl Overflow"
  by (cases v) simp_all

lemma spread_elems_overflow [simp]: "spread_elems v \<noteq> Inl Overflow"
  by (simp add: spread_elems_def split: option.splits)

lemma inherit_overflow [simp]: "inherit L schema sub \<noteq> Inl Overflow"
proof
  assume "inherit L schema sub = Inl Overflow"
  then show False
    by (cases "spread_elems (lo_get_str L schema ''required'' (Arr []))";
        cases "spread_elems (lo_get_str L sub ''required'' (Arr []))")
      (auto simp: inherit_def Let_def split: if_splits dest: sym [of "Inl Overflow"])
qed

lemma mapS_results: "mapS f xs = Inr ys \<Longrightarrow> y \<in> set ys \<Longrightarrow> \<exists>x \<in> set xs. f x = Inr y"
proof (induction xs arbitrary: ys)
  case (Cons x xs)
  then show ?case by (cases "f x"; cases "mapS f xs") auto
qed simp

context lodash_api begin

lemma get_key:
  "no_brackets k \<Longrightarrow> CHR ''.'' \<notin> set k \<Longrightarrow>
   lo_get_str L v k d = (if member v k = Undef then d else member v k)"
  by (auto simp: get_str_eq key_path_def split_on_no_delim ref_get_def Let_def)

lemma has_key:
  "no_brackets k \<Longrightarrow> CHR ''.'' \<notin> set k \<Longrightarrow> lo_has_str L v k = has_own v k"
  by (auto simp: has_str_eq key_path_def split_on_no_delim)

lemma schema_keys:
  "lo_has_str L v ''$ref'' = has_own v ''$ref''"
  "lo_has_str L v ''oneOf'' = has_own v ''oneOf''"
  "lo_has_str L v ''allOf'' = has_own v ''allOf''"
  "lo_has_str L v ''enum'' = has_own v ''enum''"
  "lo_get_str L v ''allOf'' d = (if member v ''allOf'' = Undef then d else member v ''allOf'')"
  "lo_get_str L v ''type'' d = (if member v ''type'' = Undef then d else member v ''type'')"
  "lo_get_str L v ''required'' d = (if member v ''required'' = Undef then d else member v ''required'')"
  by (rule has_key get_key; simp add: no_brackets_def)+

end

lemma obj_get_SomeD: "obj_get kvs k = v \<Longrightarrow> v \<noteq> Undef \<Longrightarrow> (k, v) \<in> set kvs"
  by (auto simp: obj_get_def split: option.splits dest: map_of_SomeD)

lemma member_sub_schema:
  assumes "member s k = v" and "v \<noteq> Undef" and "c \<in> set (parts (k, v))"
    and "array_index k = None" and "k \<noteq> ''length''"
  shows "c \<in> set (sub_schemas s)"
proof (cases s)
  case (Obj kvs)
  then have "(k, v) \<in> set kvs" using assms obj_get_SomeD by auto
  with Obj assms(3) show ?thesis by (auto simp: sub_schemas_def)
qed (use assms in auto)

lemma schema_key_facts [simp]:
  "array_index ''oneOf'' = None" "array_index ''allOf'' = None" "array_index ''items'' = None"
  "array_index ''properties'' = None" "array_index ''additionalProperties'' = None"
  "array_index ''$ref'' = None"
  by (simp_all add: array_index_def is_digit_def)

lemma bindS_Inr: "bindS a f = Inr y \<longleftrightarrow> (\<exists>x. a = Inr x \<and> f x = Inr y)"
  by (cases a) auto

lemma of_schema_ref: "of_schema L resolve n c = Inr (T_ref s) \<Longrightarrow> s = c"
  by (cases n) (auto simp: of_step_def of_plain_def Let_def bindS_Inr split: if_splits)

text \<open>
  One step of building, given that building the schemas inside, and the references looked
  through, does not overflow.
\<close>

context lodash_api begin

lemma of_step_ends:
  assumes refs: "refs_below rk m s" and depth: "sdepth s \<le> Suc d"
    and rec: "\<And>c. refs_below rk m c \<Longrightarrow> sdepth c \<le> d \<Longrightarrow> rec c \<noteq> Inl Overflow"
    and empty: "rec (Obj []) \<noteq> Inl Overflow"
    and jump: "\<And>r. rk r < m \<Longrightarrow> rec (resolve r) \<noteq> Inl Overflow"
    and is_ref: "\<And>c s'. rec c = Inr (T_ref s') \<Longrightarrow> s' = c"
  shows "of_step L resolve rec s \<noteq> Inl Overflow"
proof
  assume overflow: "of_step L resolve rec s = Inl Overflow"
  have inner: "rec c \<noteq> Inl Overflow" if "c \<in> set (sub_schemas s)" for c
    using that refs depth by (intro rec) (auto simp: refs_below.simps [of rk m s] sdepth_le)
  have inherited: "bindS (inherit L s c) rec \<noteq> Inl Overflow" if "c \<in> set (sub_schemas s)" for c
  proof
    assume "bindS (inherit L s c) rec = Inl Overflow"
    then obtain c' where c': "inherit L s c = Inr c'" "rec c' = Inl Overflow"
      by (auto dest!: bindS_overflow)
    have "refs_below rk m c" and "sdepth c \<le> d"
      using that refs depth by (auto simp: refs_below.simps [of rk m s] sdepth_le)
    with c' rec refs_below_inherit sdepth_inherit show False by blast
  qed
  have members: "c \<in> set (sub_schemas s)"
    if "array_elems (member s k) = Inr cs" "c \<in> set cs" "k = ''oneOf'' \<or> k = ''allOf''" for c cs k
    using that by (intro member_sub_schema [of s k _ c, OF refl])
      (auto simp: parts.simps elems_or_none_def elim!: array_elems.elims)
  have props: "c \<in> set (sub_schemas s)" if "(k, c) \<in> set (own_props (member s ''properties''))" for k c
    using that by (intro member_sub_schema [of s "''properties''" _ c, OF refl])
      (auto simp: parts.simps rev_image_eqI)
  have one: "rec (object_or_empty (member s k)) \<noteq> Inl Overflow"
    if "truthy (member s k)" "k = ''items'' \<or> k = ''additionalProperties''" for k
  proof (cases "is_object (member s k)")
    case True
    have "member s k \<in> set (sub_schemas s)"
      using that True by (intro member_sub_schema [of s k _ "member s k", OF refl]) (auto simp: parts.simps)
    with inner True show ?thesis by (simp add: object_or_empty_def)
  qed (use empty in \<open>simp add: object_or_empty_def\<close>)
  have allOf: "\<exists>cs'. array_elems (member s ''allOf'') = Inr cs' \<and> set cs = set cs'"
    if "array_elems (lo_get_str L s ''allOf'' (Arr [])) = Inr cs" "cs \<noteq> []" for cs
    using that by (auto simp: schema_keys split: if_splits)
  have looked: "look_through resolve rec t \<noteq> Inl Overflow"
    if cs: "array_elems (lo_get_str L s ''allOf'' (Arr [])) = Inr cs" and ts: "mapS rec cs = Inr ts"
      and t: "t \<in> set ts" for cs ts t
  proof
    assume "look_through resolve rec t = Inl Overflow"
    then obtain s' r where s': "t = T_ref s'" "ref_of s' = Inr r" "rec (resolve r) = Inl Overflow"
      by (cases t) (auto simp: look_through_def ref_of_def dest!: bindS_overflow split: js.splits)
    obtain c where c: "c \<in> set cs" "rec c = Inr t" using mapS_results [OF ts t] by blast
    then have "c = s'" using is_ref s' by auto
    moreover obtain kvs v where "s = Obj kvs" "(''allOf'', v) \<in> set kvs" "c \<in> set (elems_or_none v)"
    proof -
      have "array_elems (member s ''allOf'') = Inr cs"
        using cs c(1) by (cases "member s ''allOf'' = Undef") (auto simp: schema_keys)
      then have arr: "member s ''allOf'' = Arr cs" by (cases "member s ''allOf''") auto
      then obtain kvs where "s = Obj kvs" by (cases s) auto
      with arr c(1) that obj_get_SomeD [of kvs "''allOf''" "Arr cs"] show thesis
        by (auto simp: elems_or_none_def)
    qed
    ultimately have "r \<in> allOf_refs s"
      using s'(2) by (auto simp: allOf_refs_def ref_of_def split: js.splits)
    then have "rk r < m" using refs by (auto simp: refs_below.simps [of rk m s])
    with jump s'(3) show False by blast
  qed
  consider (union) "lo_has_str L s ''oneOf''" "\<not> lo_has_str L s ''$ref''"
    | (all) "lo_has_str L s ''allOf''" "\<not> lo_has_str L s ''oneOf''" "\<not> lo_has_str L s ''$ref''"
    | (other) "\<not> lo_has_str L s ''allOf''" "\<not> lo_has_str L s ''oneOf''" "\<not> lo_has_str L s ''$ref''"
    | (ref) "lo_has_str L s ''$ref''" by blast
  then show False
  proof cases
    case union
    with overflow obtain cs where "array_elems (member s ''oneOf'') = Inr cs"
      "mapS (\<lambda>sub. bindS (inherit L s sub) rec) cs = Inl Overflow"
      by (auto simp: of_step_def dest!: bindS_overflow)
    with mapS_overflow members inherited show False by blast
  next
    case all
    with overflow obtain cs where cs: "array_elems (lo_get_str L s ''allOf'' (Arr [])) = Inr cs"
      and "mapS rec cs = Inl Overflow
        \<or> (\<exists>ts. mapS rec cs = Inr ts \<and> mapS (look_through resolve rec) ts = Inl Overflow)
        \<or> mapS (\<lambda>sub. bindS (inherit L s sub) rec) cs = Inl Overflow"
      by (auto simp: of_step_def dest!: bindS_overflow split: if_splits)
    moreover have "c \<in> set (sub_schemas s)" if "c \<in> set cs" for c
      using that cs members [of "''allOf''"] by (cases "member s ''allOf'' = Undef") (auto simp: schema_keys)
    ultimately show False
      using mapS_overflow inner inherited looked [OF cs] by (metis (no_types, lifting))
  next
    case other
    show False
    proof (cases "lo_get_str L s ''type'' (Str []) = Str ''array''")
      case True
      with overflow other one show False
        by (auto simp: of_step_def dest!: bindS_overflow split: if_splits)
    next
      case False
      with overflow other have obj: "lo_get_str L s ''type'' (Str []) = Str ''object''"
        by (auto simp: of_step_def split: if_splits)
      with False overflow other one have "mapS (\<lambda>(k, c). bindS (rec c) (\<lambda>t. Inr (k, t)))
          (own_props (member s ''properties'')) = Inl Overflow"
        by (auto simp: of_step_def Let_def dest!: bindS_overflow split: if_splits)
      with mapS_overflow obtain k c where "(k, c) \<in> set (own_props (member s ''properties''))"
        "bindS (rec c) (\<lambda>t. Inr (k, t)) = Inl Overflow" by fastforce
      with props inner show False by (auto dest!: bindS_overflow)
    qed
  next
    case ref
    with overflow show False by (simp add: of_step_def)
  qed
qed


lemma of_schema_ends:
  assumes depth: "\<And>r. sdepth (resolve r) \<le> D"
    and acyclic: "\<And>r. refs_below rk (rk r) (resolve r)"
  shows "refs_below rk m s \<Longrightarrow> sdepth s \<le> d \<Longrightarrow> m * Suc D + d < n \<Longrightarrow>
    of_schema L resolve n s \<noteq> Inl Overflow"
proof (induction n arbitrary: m d s)
  case (Suc n)
  obtain d' where d': "d = Suc d'" using Suc.prems(2) sdepth_pos [of s] by (cases d) auto
  have fuel: "m * Suc D + d' < n" using Suc.prems(3) d' by simp
  show ?case
    unfolding of_schema.simps
  proof (rule of_step_ends [OF Suc.prems(1)])
    show "sdepth s \<le> Suc d'" using Suc.prems(2) d' by simp
    show "of_schema L resolve n c \<noteq> Inl Overflow" if "refs_below rk m c" "sdepth c \<le> d'" for c
      using that fuel by (rule Suc.IH)
    show "of_schema L resolve n (Obj []) \<noteq> Inl Overflow"
    proof -
      obtain n' where "n = Suc n'" using fuel by (cases n) auto
      then show ?thesis by (simp add: of_step_def schema_keys obj_has_def obj_get_def)
    qed
    show "of_schema L resolve n (resolve r) \<noteq> Inl Overflow" if "rk r < m" for r
    proof (rule Suc.IH [OF acyclic depth])
      have "Suc (rk r) * Suc D \<le> m * Suc D" using that by (intro mult_le_mono) simp_all
      then show "rk r * Suc D + D < n" using fuel by simp
    qed
    show "s' = c" if "of_schema L resolve n c = Inr (T_ref s')" for c s'
      using that by (rule of_schema_ref)
  qed
qed simp

end

section \<open>Walking\<close>

text \<open>The types from the root to a node.\<close>

fun chain :: "snode option \<Rightarrow> sty list" where
  "chain None = []"
| "chain (Some (Node t p)) = chain p @ [t]"

lemma map_parents: "map node_type (parents node) = chain (Some node)"
  by (induction node rule: parents.induct) auto

text \<open>
  What walking a path of \<open>k\<close> keys from a parent yields: a node below the parent, at most one
  node per key further down, none of them a reference.
\<close>

definition below_parent :: "snode option \<Rightarrow> nat \<Rightarrow> snode \<Rightarrow> bool" where
  "below_parent parent k node \<longleftrightarrow>
     (\<exists>ts. chain (Some node) = chain parent @ ts \<and> ts \<noteq> [] \<and> length ts \<le> Suc k
        \<and> (\<forall>t \<in> set ts. \<forall>s. t \<noteq> T_ref s))"

definition good_walker :: "walker \<Rightarrow> bool" where
  "good_walker rec \<longleftrightarrow>
     (\<forall>t path parent node. rec t path parent = Inr (Some node) \<longrightarrow> below_parent parent (length path) node)"

lemma below_parent_here: "(\<And>s. t \<noteq> T_ref s) \<Longrightarrow> below_parent parent k (Node t parent)"
  by (auto simp: below_parent_def)

lemma below_parent_down:
  assumes "below_parent (Some (Node t parent)) k node" and "\<And>s. t \<noteq> T_ref s"
  shows "below_parent parent (Suc k) node"
proof -
  obtain ts where "chain (Some node) = chain parent @ (t # ts)" "length ts \<le> Suc k"
    "\<forall>t \<in> set ts. \<forall>s. t \<noteq> T_ref s"
    using assms(1) by (auto simp: below_parent_def)
  with assms(2) show ?thesis unfolding below_parent_def by (intro exI [of _ "t # ts"]) auto
qed

lemma resolve_first_below:
  "good_walker rec \<Longrightarrow> resolve_first rec ts path parent = Inr (Some node) \<Longrightarrow>
   below_parent parent (length path) node"
  by (induction ts) (auto simp: bindS_Inr good_walker_def split: option.splits)

lemma resolve_key_below:
  assumes "good_walker rec" and "\<And>s. t \<noteq> T_ref s"
    and "resolve_key L resolve n rec t key others parent = Inr (Some node)"
  shows "below_parent parent (Suc (length others)) node"
proof -
  have down: "below_parent parent (Suc (length others)) node"
    if "rec u others (Some (Node t parent)) = Inr (Some node)" for u
    using that assms(1,2) by (intro below_parent_down) (auto simp: good_walker_def)
  have same: "below_parent parent (Suc (length others)) node"
    if "rec u (key # others) parent = Inr (Some node)" for u
    using that assms(1) by (fastforce simp: good_walker_def)
  have prp: "below_parent parent (Suc (length others)) node"
    if "resolve_prop L resolve n rec t key others parent = Inr (Some node)"
    using that down by (auto simp: resolve_prop_def bindS_Inr split: option.splits)
  have union: "below_parent parent (Suc (length others)) node"
    if "resolve_union L resolve n rec disc ts key others parent = Inr (Some node)" for disc ts
    using that same
    by (auto simp: resolve_union_def bindS_Inr Let_def below_parent_here split: if_splits option.splits)
  show ?thesis
    using assms(2,3) down prp union resolve_first_below [OF assms(1), of _ "key # others"]
    by (cases t) (auto simp: resolve_key_def bindS_Inr below_parent_here split: if_splits option.splits)
qed

lemma good_resolve_path: "good_walker (resolve_path L resolve n)"
proof (induction n)
  case 0
  show ?case by (simp add: good_walker_def)
next
  case (Suc n)
  have "below_parent parent (length path) node"
    if res: "resolve_step L resolve n (resolve_path L resolve n) t path parent = Inr (Some node)"
    for t path parent node
  proof (cases "\<exists>s. t = T_ref s")
    case True
    with res Suc show ?thesis
      by (auto simp: resolve_step_def bindS_Inr good_walker_def)
  next
    case False
    show ?thesis
    proof (cases path)
      case Nil
      with res False have "node = Node t parent" by (cases t) (auto simp: resolve_step_def)
      with False show ?thesis by (auto intro: below_parent_here)
    next
      case (Cons key others)
      with res False have "resolve_key L resolve n (resolve_path L resolve n) t key others parent = Inr (Some node)"
        by (cases t) (auto simp: resolve_step_def)
      from resolve_key_below [OF Suc _ this] False Cons show ?thesis by auto
    qed
  qed
  then show ?case by (auto simp: good_walker_def)
qed

section \<open>Properties of objects and unions\<close>

lemma prop_extends_final:
  "prop_extends look rec es (Some t) = Inr p \<Longrightarrow> p \<noteq> None"
proof (induction es arbitrary: t)
  case (Cons e es)
  then show ?case by (auto simp: bindS_Inr split: if_splits option.splits)
qed auto

lemma prop_extends_names:
  assumes "\<And>u names p. rec u = Inr p \<Longrightarrow> rec' u = Inr names \<Longrightarrow> name \<in> set names \<Longrightarrow> p \<noteq> None"
    and "prop_extends look rec es final = Inr p" and "names_extends look rec' es = Inr names"
    and "name \<in> set names"
  shows "p \<noteq> None"
  using assms(2-4)
proof (induction es arbitrary: final names)
  case (Cons e es)
  obtain u where u: "look e = Inr u" using Cons.prems(1) by (auto simp: bindS_Inr)
  show ?case
  proof (cases "is_object_type u")
    case True
    obtain q where q: "rec u = Inr q"
      "prop_extends look rec es (case q of None \<Rightarrow> final | Some t \<Rightarrow> Some t) = Inr p"
      using Cons.prems(1) u True by (auto simp: bindS_Inr)
    obtain ns rest where ns: "rec' u = Inr ns" "names_extends look rec' es = Inr rest" "names = ns @ rest"
      using Cons.prems(2) u True by (auto simp: bindS_Inr)
    show ?thesis
    proof (cases "name \<in> set ns")
      case True
      then obtain t where "q = Some t" using assms(1) [OF q(1) ns(1)] by auto
      with q(2) show ?thesis using prop_extends_final by auto
    next
      case False
      with Cons.IH [OF q(2) ns(2)] ns(3) Cons.prems(3) show ?thesis by auto
    qed
  next
    case False
    with Cons u show ?thesis by (auto simp: bindS_Inr)
  qed
qed simp

lemma mapping_in_selects:
  assumes "mapping_in L resolve n disc v ts = Inr (Some t)"
  shows "\<exists>before after. ts = before @ t # after \<and> is_object_type t
    \<and> (\<exists>d. obj_prop L resolve n (to_str disc) t = Inr (Some d) \<and> contains d v = Inr True)
    \<and> (\<forall>u \<in> set before. is_object_type u \<longrightarrow>
        (\<forall>d. obj_prop L resolve n (to_str disc) u = Inr (Some d) \<longrightarrow> contains d v = Inr False))"
  using assms
proof (induction ts)
  case (Cons u ts)
  let ?P = "\<lambda>t. is_object_type t
    \<and> (\<exists>d. obj_prop L resolve n (to_str disc) t = Inr (Some d) \<and> contains d v = Inr True)"
  let ?M = "\<lambda>u. is_object_type u \<longrightarrow>
    (\<forall>d. obj_prop L resolve n (to_str disc) u = Inr (Some d) \<longrightarrow> contains d v = Inr False)"
  have step: "(u = t \<and> ?P u) \<or> (?M u \<and> mapping_in L resolve n disc v ts = Inr (Some t))"
  proof (cases "is_object_type u")
    case True
    then obtain p where p: "obj_prop L resolve n (to_str disc) u = Inr p"
      using Cons.prems by (auto simp: bindS_Inr)
    show ?thesis
    proof (cases p)
      case (Some d)
      then obtain hit where "contains d v = Inr hit"
        using Cons.prems True p by (auto simp: bindS_Inr)
      with Some Cons.prems True p show ?thesis by (cases hit) auto
    qed (use Cons.prems True p in auto)
  qed (use Cons.prems in auto)
  then show ?case
  proof
    assume "u = t \<and> ?P u"
    then have "?P t" and ut: "u = t" by blast+
    moreover have "u # ts = [] @ t # ts" using ut by simp
    moreover have "\<forall>w \<in> set []. ?M w" by simp
    ultimately show ?case by blast
  next
    assume rest: "?M u \<and> mapping_in L resolve n disc v ts = Inr (Some t)"
    then obtain before after where "ts = before @ t # after" "?P t" "\<forall>w \<in> set before. ?M w"
      using Cons.IH by blast
    with rest have "u # ts = (u # before) @ t # after \<and> ?P t \<and> (\<forall>w \<in> set (u # before). ?M w)"
      by simp
    then show ?case by blast
  qed
qed simp

section \<open>Properties\<close>

text \<open>
  C14. Building the type of a schema ends, with fuel known in advance, unless references form a
  cycle among \<^verbatim>\<open>allOf\<close> members: it is enough that each reference has a rank below which the
  references inside the \<^verbatim>\<open>allOf\<close>s of its schema stay. Other references may be cyclic.
\<close>

theorem of_schema_terminates:
  assumes "lodash_ok L" and "\<forall>r. sdepth (resolve r) \<le> D" and "\<forall>r. refs_below rk (rk r) (resolve r)"
    and "refs_below rk m schema" and "m * Suc D + sdepth schema < n"
  shows "of_schema L resolve n schema \<noteq> Inl Overflow"
  using assms lodash_api.of_schema_ends [OF lodash_apiI, of L resolve D rk m schema "sdepth schema" n]
  by blast

definition demo_resolve :: "string \<Rightarrow> js" where
  "demo_resolve r =
     (if r = ''#/definitions/Pkg'' then
        Obj [(''allOf'', Arr [Obj [(''$ref'', Str ''#/definitions/Meta'')],
               Obj [(''type'', Str ''object''),
                    (''properties'', Obj [(''next'', Obj [(''$ref'', Str ''#/definitions/Pkg'')])])]])]
      else if r = ''#/definitions/Meta'' then
        Obj [(''type'', Str ''object''), (''properties'', Obj [(''name'', Obj [(''type'', Str ''string'')])])]
      else Obj [])"

definition demo_rank :: "string \<Rightarrow> nat" where
  "demo_rank r = (if r = ''#/definitions/Pkg'' then 1 else 0)"

lemma sdepth_Obj: "sdepth (Obj kvs) = Suc (foldr max (map sdepth (concat (map parts kvs))) 0)"
  by (subst sdepth.simps) (simp add: sub_schemas_def)

lemma refs_below_Obj:
  "refs_below rk m (Obj kvs) \<longleftrightarrow>
     (\<forall>r \<in> allOf_refs (Obj kvs). rk r < m) \<and> list_all (refs_below rk m) (concat (map parts kvs))"
  by (subst refs_below.simps) (simp add: sub_schemas_def list_all_iff)

lemma demo_depth: "sdepth (demo_resolve r) \<le> 3"
  by (simp add: demo_resolve_def sdepth_Obj parts.simps elems_or_none_def)

lemma demo_ranked: "refs_below demo_rank (demo_rank r) (demo_resolve r)"
  by (auto simp: demo_resolve_def demo_rank_def refs_below_Obj parts.simps
      elems_or_none_def allOf_refs_def obj_get_def)

theorem of_schema_terminates_witness:
  "of_schema lodash_ref demo_resolve 9 (demo_resolve ''#/definitions/Pkg'') \<noteq> Inl Overflow"
proof (rule of_schema_terminates [OF lodash_ref_ok])
  show "\<forall>r. sdepth (demo_resolve r) \<le> 3" using demo_depth by blast
  show "\<forall>r. refs_below demo_rank (demo_rank r) (demo_resolve r)" using demo_ranked by blast
  show "refs_below demo_rank 1 (demo_resolve ''#/definitions/Pkg'')"
    using demo_ranked [of "''#/definitions/Pkg''"] by (simp add: demo_rank_def)
  show "1 * Suc 3 + sdepth (demo_resolve ''#/definitions/Pkg'') < 9"
    using demo_depth [of "''#/definitions/Pkg''"] by simp
qed

text \<open>
  The node found for a key path knows where it is: its ancestors end at the root the search
  began with, there is at most one more of them per key of the path, and none is an
  unresolved reference.
\<close>

theorem schemaAt_parents:
  assumes "schemaAt L resolve n schema keyPath = Inr (Some node)"
  shows "length (parents node) \<le> Suc (length keyPath)
    \<and> (\<forall>a \<in> set (parents node). \<forall>s. node_type a \<noteq> T_ref s)
    \<and> last (parents node) = node"
proof -
  obtain t where "resolve_path L resolve n t keyPath None = Inr (Some node)"
    using assms by (auto simp: schemaAt_def bindS_Inr)
  then have "below_parent None (length keyPath) node"
    using good_resolve_path [of L resolve n] unfolding good_walker_def by blast
  then have "length (map node_type (parents node)) \<le> Suc (length keyPath)"
    and "\<forall>t \<in> set (map node_type (parents node)). \<forall>s. t \<noteq> T_ref s"
    unfolding map_parents by (auto simp: below_parent_def)
  moreover have "last (parents node) = node" by (cases node rule: parents.cases) simp_all
  ultimately show ?thesis by simp
qed

definition demo_list :: js where
  "demo_list = Obj [(''type'', Str ''array''), (''items'', Obj [(''type'', Str ''string'')])]"

lemma demo_list_item:
  "schemaAt lodash_ref demo_resolve 2 demo_list [Num 1]
     = Inr (Some (Node (T_string (Obj [(''type'', Str ''string'')]))
         (Some (Node (T_array demo_list (Some (T_string (Obj [(''type'', Str ''string'')])))) None))))"
  by code_simp

theorem schemaAt_parents_witness:
  "length (parents (Node (T_string (Obj [(''type'', Str ''string'')]))
     (Some (Node (T_array demo_list (Some (T_string (Obj [(''type'', Str ''string'')])))) None)))) \<le> 2"
  using schemaAt_parents [OF demo_list_item] by simp

text \<open>
  Every name an object type lists, its own or one of the types it extends, has a schema.
\<close>

theorem propNames_have_props:
  assumes "propNames L resolve n t = Inr names" and "name \<in> set names"
    and "obj_prop L resolve n name t = Inr p"
  shows "p \<noteq> None"
  using assms
proof (induction n arbitrary: t names p)
  case (Suc n)
  show ?case
  proof (cases t)
    case (T_object s ps r a)
    then have "map_of ps name \<noteq> None"
      using Suc.prems(1,2) by (auto simp: map_of_eq_None_iff)
    with T_object Suc.prems(3) show ?thesis by auto
  next
    case (T_extended s es)
    with Suc.prems have "prop_extends (underlying L resolve n) (obj_prop L resolve n name) es None = Inr p"
      and "names_extends (underlying L resolve n) (propNames L resolve n) es = Inr names" by simp_all
    with Suc.IH Suc.prems(2) show ?thesis
      using prop_extends_names [where rec = "obj_prop L resolve n name" and rec' = "propNames L resolve n"]
      by blast
  qed (use Suc.prems in auto)
qed simp

theorem propNames_have_props_witness:
  "obj_prop lodash_ref demo_resolve 3 ''a'' (T_object (Obj []) [(''a'', T_string (Obj []))] (Arr []) None) \<noteq> Inr None"
  using propNames_have_props [of lodash_ref demo_resolve 3
      "T_object (Obj []) [(''a'', T_string (Obj []))] (Arr []) None" "[''a'']" "''a''" None]
  by (auto simp: numeral_3_eq_3)


definition demo_member :: "string \<Rightarrow> sty" where
  "demo_member kind = T_object (Obj []) [(''kind'', T_string (Obj [(''enum'', Arr [Str kind])]))] (Arr []) None"


text \<open>
  The first item of an array has no schema: its index is 0, which the test of the index takes
  for a missing one. And an intersection answers a path inside it with itself, not with the
  schema of the key.
\<close>

lemma first_item_has_no_schema:
  "resolve_path L resolve 2 (T_array s (Some (T_string s'))) [Num 0] None = Inr None"
  "resolve_path L resolve 2 (T_array s (Some (T_string s'))) [Num 1] None
     = Inr (Some (Node (T_string s') (Some (Node (T_array s (Some (T_string s'))) None))))"
  by (simp_all add: numeral_2_eq_2 resolve_step_def resolve_key_def)

lemma intersection_answers_itself:
  "resolve_path L resolve 3 (T_intersection s [T_object s [(''a'', T_string s')] (Arr []) None]) [Str ''a''] None
     = Inr (Some (Node (T_intersection s [T_object s [(''a'', T_string s')] (Arr []) None]) None))"
  by (simp add: numeral_3_eq_3 resolve_step_def resolve_key_def resolve_prop_def)

end
