(* ===== verification/Lodash_Collections.thy ===== *)
theory Lodash_Collections
  imports Expression "HOL-Library.Multiset"
begin

text \<open>
  \<^verbatim>\<open>groupBy\<close> and \<^verbatim>\<open>orderBy\<close> of lodash, on which the lists of the dashboard are built. They are a
  package's; a definition that calls them takes them as a record argument, and what it relies
  on is \<open>lodash_coll_ok\<close>, their documented behaviour: \<^verbatim>\<open>groupBy\<close> files every element under the
  string of its key, keeping the order inside a group; \<^verbatim>\<open>orderBy\<close> permutes, and sorts ascending
  when the keys are strings.
\<close>

text \<open>\<^verbatim>\<open>split(s, sep)\<close> and \<^verbatim>\<open>s.split(sep)\<close> for a separator of several characters; the number is of characters to skip.\<close>

fun split_str :: "string \<Rightarrow> nat \<Rightarrow> string \<Rightarrow> string list" where
  "split_str sep n [] = [[]]"
| "split_str sep (Suc n) (c # s) = split_str sep n s"
| "split_str sep 0 (c # s) =
     (if starts_with (c # s) sep then [] # split_str sep (length sep - 1) s
      else (case split_str sep 0 s of [] \<Rightarrow> [[c]] | w # ws \<Rightarrow> (c # w) # ws))"

record lodash_coll =
  lc_group_by :: "(js \<Rightarrow> js) \<Rightarrow> js list \<Rightarrow> (string \<times> js list) list"
  lc_order_by :: "(js \<Rightarrow> js) \<Rightarrow> js list \<Rightarrow> js list"

definition groups_of :: "(js \<Rightarrow> js) \<Rightarrow> js list \<Rightarrow> string \<Rightarrow> js list" where
  "groups_of f xs k = filter (\<lambda>x. to_str (f x) = k) xs"

definition ascending :: "(js \<Rightarrow> js) \<Rightarrow> js list \<Rightarrow> bool" where
  "ascending f xs = sorted_wrt (\<lambda>x y. \<not> less_than (f y) (f x)) xs"

definition lodash_coll_ok :: "lodash_coll \<Rightarrow> bool" where
  "lodash_coll_ok C \<longleftrightarrow>
     (\<forall>f xs. distinct (map fst (lc_group_by C f xs))
        \<and> fst ` set (lc_group_by C f xs) = (\<lambda>x. to_str (f x)) ` set xs
        \<and> (\<forall>p \<in> set (lc_group_by C f xs). snd p = groups_of f xs (fst p)))
     \<and> (\<forall>f xs. mset (lc_order_by C f xs) = mset xs)
     \<and> (\<forall>f xs. (\<forall>x \<in> set xs. is_string (f x)) \<longrightarrow> ascending f (lc_order_by C f xs))"

text \<open>An implementation: groups in the order of their first elements, insertion sort.\<close>

definition ref_group_by :: "(js \<Rightarrow> js) \<Rightarrow> js list \<Rightarrow> (string \<times> js list) list" where
  "ref_group_by f xs = map (\<lambda>k. (k, groups_of f xs k)) (remdups (map (\<lambda>x. to_str (f x)) xs))"

fun insert_by :: "(js \<Rightarrow> js) \<Rightarrow> js \<Rightarrow> js list \<Rightarrow> js list" where
  "insert_by f x [] = [x]"
| "insert_by f x (y # ys) = (if less_than (f y) (f x) then y # insert_by f x ys else x # y # ys)"

definition ref_order_by :: "(js \<Rightarrow> js) \<Rightarrow> js list \<Rightarrow> js list" where
  "ref_order_by f xs = foldr (insert_by f) xs []"

definition lodash_coll_ref :: lodash_coll where
  "lodash_coll_ref = \<lparr>lc_group_by = ref_group_by, lc_order_by = ref_order_by\<rparr>"

lemma mset_insert_by [simp]: "mset (insert_by f x ys) = add_mset x (mset ys)"
  by (induction ys) auto

lemma mset_ref_order_by: "mset (ref_order_by f xs) = mset xs"
  by (induction xs) (simp_all add: ref_order_by_def)

lemma set_insert_by [simp]: "set (insert_by f x ys) = insert x (set ys)"
  by (metis mset_insert_by set_mset_add_mset_insert set_mset_mset)

section \<open>Ordering strings\<close>

lemma str_less_irrefl [simp]: "\<not> str_less s s"
  by (induction s) auto

lemma str_less_trans: "str_less r s \<Longrightarrow> str_less s t \<Longrightarrow> str_less r t"
proof (induction r arbitrary: s t)
  case Nil
  then show ?case by (cases s; cases t) auto
next
  case (Cons c r)
  then show ?case by (cases s; cases t) (auto dest: Cons.IH less_trans)
qed

lemma str_less_linear: "s \<noteq> t \<Longrightarrow> str_less s t \<or> str_less t s"
proof (induction s arbitrary: t)
  case Nil
  then show ?case by (cases t) auto
next
  case (Cons c s)
  show ?case
  proof (cases t)
    case (Cons d t')
    have "(of_char c :: nat) = of_char d \<Longrightarrow> c = d" by simp
    with Cons.IH [of t'] Cons.prems Cons show ?thesis by (auto simp: neq_iff)
  qed auto
qed

lemma less_than_Str [simp]: "less_than (Str s) (Str t) = str_less s t"
  by (simp add: less_than_def)

lemma not_str_less_trans: "\<not> str_less s r \<Longrightarrow> \<not> str_less t s \<Longrightarrow> \<not> str_less t r"
  using str_less_trans str_less_linear by metis

definition string_keys :: "(js \<Rightarrow> js) \<Rightarrow> js list \<Rightarrow> bool" where
  "string_keys f xs = (\<forall>x \<in> set xs. is_string (f x))"

lemma string_keysD: "string_keys f xs \<Longrightarrow> x \<in> set xs \<Longrightarrow> \<exists>s. f x = Str s"
  by (metis string_keys_def is_string.elims(2))

lemma ascending_insert_by:
  "ascending f ys \<Longrightarrow> string_keys f (x # ys) \<Longrightarrow> ascending f (insert_by f x ys)"
proof (induction ys)
  case (Cons y ys)
  obtain s where s: "f x = Str s" using string_keysD [OF Cons.prems(2)] by (metis list.set_intros(1))
  obtain t where t: "f y = Str t" using string_keysD [OF Cons.prems(2)] by (metis list.set_intros)
  have keys: "\<exists>u. f z = Str u" if "z \<in> set ys" for z
    using string_keysD [OF Cons.prems(2), of z] that by simp
  have tail: "\<not> less_than (f z) (f y)" if "z \<in> set ys" for z
    using Cons.prems(1) that by (simp add: ascending_def)
  show ?case
  proof (cases "str_less t s")
    case True
    have "ascending f (insert_by f x ys)"
      using Cons.IH Cons.prems by (simp add: ascending_def string_keys_def)
    moreover have "\<not> str_less s t" using True str_less_trans str_less_irrefl by blast
    ultimately show ?thesis using True tail s t by (simp add: ascending_def)
  next
    case False
    have "\<not> less_than (f z) (f x)" if "z \<in> set ys" for z
      using tail [OF that] keys [OF that] s t False not_str_less_trans by auto
    with False Cons.prems(1) s t show ?thesis by (simp add: ascending_def)
  qed
qed (simp add: ascending_def)

lemma ascending_ref_order_by: "string_keys f xs \<Longrightarrow> ascending f (ref_order_by f xs)"
proof (induction xs)
  case (Cons x xs)
  have "set (ref_order_by f xs) = set xs" by (metis mset_ref_order_by set_mset_mset)
  with Cons have "ascending f (ref_order_by f xs)" "string_keys f (x # ref_order_by f xs)"
    by (simp_all add: string_keys_def)
  then show ?case by (simp add: ref_order_by_def ascending_insert_by)
qed (simp add: ref_order_by_def ascending_def)

theorem lodash_coll_ref_ok [simp]: "lodash_coll_ok lodash_coll_ref"
  using ascending_ref_order_by
  by (simp add: lodash_coll_ok_def lodash_coll_ref_def ref_group_by_def mset_ref_order_by string_keys_def comp_def
      image_image)

section \<open>What the lists rely on\<close>

locale collections =
  fixes C :: lodash_coll
  assumes ok: "lodash_coll_ok C"
begin

lemma groups_distinct: "distinct (map fst (lc_group_by C f xs))"
  using ok by (simp add: lodash_coll_ok_def)

lemma groups_keys: "fst ` set (lc_group_by C f xs) = (\<lambda>x. to_str (f x)) ` set xs"
  using ok by (simp add: lodash_coll_ok_def)

lemma group_eq: "p \<in> set (lc_group_by C f xs) \<Longrightarrow> snd p = groups_of f xs (fst p)"
  using ok by (simp add: lodash_coll_ok_def)

lemma order_mset: "mset (lc_order_by C f xs) = mset xs"
  using ok by (simp add: lodash_coll_ok_def)

lemma order_set: "set (lc_order_by C f xs) = set xs"
  by (metis order_mset set_mset_mset)

lemma order_ascending: "string_keys f xs \<Longrightarrow> ascending f (lc_order_by C f xs)"
  using ok by (simp add: lodash_coll_ok_def string_keys_def)

lemma group_at:
  "k \<in> fst ` set (lc_group_by C f xs) \<Longrightarrow> map_of (lc_group_by C f xs) k = Some (groups_of f xs k)"
  using groups_distinct group_eq by (force simp: map_of_eq_Some_iff)

end

lemma collectionsI: "lodash_coll_ok C \<Longrightarrow> collections C"
  by (simp add: collections_def)

interpretation ref_collections: collections lodash_coll_ref
  by (rule collectionsI) simp

text \<open>Groups under distinct keys that cover a list have its elements, each once.\<close>

lemma mset_groups:
  "distinct ks \<Longrightarrow>
   mset (concat (map (groups_of f xs) ks)) = mset (filter (\<lambda>x. to_str (f x) \<in> set ks) xs)"
proof (induction ks)
  case (Cons k ks)
  have "mset (filter (\<lambda>x. to_str (f x) \<in> set (k # ks)) xs)
      = mset (groups_of f xs k) + mset (filter (\<lambda>x. to_str (f x) \<in> set ks) xs)"
    using Cons.prems unfolding groups_of_def by (induction xs) auto
  with Cons show ?case by simp
qed simp

lemma mset_groups_all:
  "distinct ks \<Longrightarrow> (\<lambda>x. to_str (f x)) ` set xs \<subseteq> set ks \<Longrightarrow>
   mset (concat (map (groups_of f xs) ks)) = mset xs"
  by (subst mset_groups) (auto intro!: arg_cong [of _ _ mset] filter_True simp del: mset_filter)

lemma mset_concat_map_cong:
  "(\<And>k. k \<in> set ks \<Longrightarrow> mset (f k) = mset (g k)) \<Longrightarrow> mset (concat (map f ks)) = mset (concat (map g ks))"
  by (induction ks) auto

end
