(* ===== verification/OpenAPI_Schema.thy ===== *)
theory OpenAPI_Schema
  imports Schema_Type Lodash_Collections
begin

text \<open>
  From an OpenAPI document to the schema of the requests one can write in the playground:
  \<^verbatim>\<open>patchOpenAPI\<close> (\<^verbatim>\<open>OpenAPI.tsx\<close>), \<^verbatim>\<open>convertToRequestSchema\<close> (\<^verbatim>\<open>RequestPlayground.tsx\<close>) and the
  \<^verbatim>\<open>SchemaVisitor\<close> it uses. The visitor and the resolver call each other and assign
  \<^verbatim>\<open>schema.definitions\<close> on the way: the definitions are a state passed through. A schema that
  contains itself is visited without end, which overflows the stack; so visiting has a fuel,
  whose exhaustion is \<open>Overflow\<close>. Parameters, operations and media types are taken to be
  objects, as the types of the document say.
\<close>

section \<open>The document\<close>

definition operationsIgnored :: "string list" where
  "operationsIgnored = [''OpenAPI'']"

text \<open>\<^verbatim>\<open>op.tags[0]\<close> raises when there are no tags; a missing first tag is split as the empty string.\<close>

definition group_of :: "js \<Rightarrow> js sres" where
  "group_of op =
     (if nullish (member op ''tags'') then Inl SchemaTypeError
      else let tag = member (member op ''tags'') ''0'' in
        Inr (Str (last (split_str ''/pkg/'' 0 (if nullish tag then [] else to_str tag)))))"

definition patch_operation :: "string \<Rightarrow> string \<Rightarrow> obj \<Rightarrow> string \<times> js \<Rightarrow> obj sres" where
  "patch_operation basePath path operations p =
     (case p of (method, op) \<Rightarrow>
        if nullish op then Inl SchemaTypeError
        else if member op ''operationId'' \<in> set (map Str operationsIgnored) then Inr operations
        else bindS (group_of op) (\<lambda>group.
          Inr (AList.update (to_str (member op ''operationId''))
            (Obj (spread (own_props op)
               [(''method'', Str method), (''path'', Str path), (''basePath'', Str basePath), (''group'', group)]))
            operations)))"

fun foldS :: "('b \<Rightarrow> 'a \<Rightarrow> 'b sres) \<Rightarrow> 'a list \<Rightarrow> 'b \<Rightarrow> 'b sres" where
  "foldS f [] acc = Inr acc"
| "foldS f (x # xs) acc = bindS (f acc x) (foldS f xs)"

definition patched_operations :: "js \<Rightarrow> string \<Rightarrow> obj sres" where
  "patched_operations openapi basePath =
     foldS (\<lambda>acc (path, methods). foldS (patch_operation basePath path) (own_props methods) acc)
       (own_props (member openapi ''paths'')) []"

definition patchOpenAPI :: "js \<Rightarrow> string \<Rightarrow> js sres" where
  "patchOpenAPI openapi basePath =
     bindS (patched_operations openapi basePath) (\<lambda>operations.
       Inr (assign (assign openapi ''servers'' (Arr [Obj [(''url'', Str basePath)]])) ''operations'' (Obj operations)))"

text \<open>What is shown of a document: an error, nothing, or the playground.\<close>

datatype openapi_view = VersionError | NoOperations | Playground js

definition openapi_shown :: "js \<Rightarrow> openapi_view" where
  "openapi_shown openapi =
     (if truthy (member openapi ''version'') \<and> \<not> starts_with (to_str (member openapi ''version'')) ''3'' then VersionError
      else if \<not> truthy (member openapi ''operations'') then NoOperations
      else Playground openapi)"

section \<open>Visiting\<close>

type_synonym 'a visit = "obj \<Rightarrow> ('a \<times> obj) sres"

definition returnV :: "'a \<Rightarrow> 'a visit" where
  "returnV x = (\<lambda>defs. Inr (x, defs))"

definition failV :: "schema_error \<Rightarrow> 'a visit" where
  "failV e = (\<lambda>defs. Inl e)"

definition bindV :: "'a visit \<Rightarrow> ('a \<Rightarrow> 'b visit) \<Rightarrow> 'b visit" where
  "bindV m f = (\<lambda>defs. bindS (m defs) (\<lambda>(x, defs'). f x defs'))"

fun mapV :: "('a \<Rightarrow> 'b visit) \<Rightarrow> 'a list \<Rightarrow> 'b list visit" where
  "mapV f [] = returnV []"
| "mapV f (x # xs) = bindV (f x) (\<lambda>y. bindV (mapV f xs) (\<lambda>ys. returnV (y # ys)))"

definition visitor_is_object :: "lodash \<Rightarrow> js \<Rightarrow> bool" where
  "visitor_is_object L schema \<longleftrightarrow> member schema ''type'' = Str ''object'' \<or> lo_has_str L schema ''properties''"

definition visitor_is_array :: "lodash \<Rightarrow> js \<Rightarrow> bool" where
  "visitor_is_array L schema \<longleftrightarrow> member schema ''type'' = Str ''array'' \<or> lo_has_str L schema ''items''"

text \<open>\<^verbatim>\<open>{...v, k: x}\<close>.\<close>

definition with_key :: "js \<Rightarrow> string \<Rightarrow> js \<Rightarrow> js" where
  "with_key v k x = Obj (AList.update k x (own_props v))"

definition visit_object :: "(js \<Rightarrow> js visit) \<Rightarrow> js \<Rightarrow> js visit" where
  "visit_object rec schema =
     bindV (mapV (\<lambda>(k, s). bindV (rec s) (\<lambda>s'. returnV (k, s'))) (own_props (member schema ''properties''))) (\<lambda>ps.
       bindV (rec (if truthy (member schema ''propertyNames'') then member schema ''propertyNames''
                   else Obj [(''type'', Str ''string'')])) (\<lambda>names.
         bindV (if truthy (member schema ''additionalProperties'')
                then rec (object_or_empty (member schema ''additionalProperties'')) else returnV (Bool False)) (\<lambda>more.
           returnV (with_key (with_key (with_key schema ''properties'' (Obj ps)) ''propertyNames'' names)
             ''additionalProperties'' more))))"

text \<open>
  \<^verbatim>\<open>process\<close> of a schema that is defined: assigning its \<^verbatim>\<open>nullable\<close> raises for what is not an
  object.
\<close>

definition visit_schema ::
    "lodash \<Rightarrow> ((js \<Rightarrow> js visit) \<Rightarrow> js \<Rightarrow> js visit) \<Rightarrow> (js \<Rightarrow> js visit) \<Rightarrow> js \<Rightarrow> js visit" where
  "visit_schema L resolve rec schema =
     (if \<not> is_object schema then failV SchemaTypeError
      else if lo_has_str L schema ''oneOf'' then
        bindV (mapV rec (map snd (own_props (member schema ''oneOf'')))) (\<lambda>ss.
          returnV (with_key schema ''oneOf'' (Arr ss)))
      else if lo_has_str L schema ''allOf'' then
        bindV (mapV rec (map snd (own_props (member schema ''allOf'')))) (\<lambda>ss.
          returnV (with_key schema ''allOf'' (Arr ss)))
      else if truthy (member schema ''$ref'') then
        bindV (resolve rec (member schema ''$ref'')) (\<lambda>ret.
          if truthy (member ret ''$ref'') then returnV ret else rec ret)
      else if visitor_is_object L schema then visit_object rec schema
      else if visitor_is_array L schema then
        bindV (rec (member schema ''items'')) (\<lambda>s. returnV (with_key schema ''items'' s))
      else returnV schema)"

definition visit_step ::
    "lodash \<Rightarrow> ((js \<Rightarrow> js visit) \<Rightarrow> js \<Rightarrow> js visit) \<Rightarrow> (js \<Rightarrow> js) list \<Rightarrow> (js \<Rightarrow> js visit) \<Rightarrow> js \<Rightarrow> js visit" where
  "visit_step L resolve transformers rec schema =
     (if schema = Undef then returnV (Obj [])
      else visit_schema L resolve rec (assign (fold (\<lambda>t s. t s) transformers schema) ''nullable'' Undef))"

primrec visit ::
    "lodash \<Rightarrow> ((js \<Rightarrow> js visit) \<Rightarrow> js \<Rightarrow> js visit) \<Rightarrow> (js \<Rightarrow> js) list \<Rightarrow> nat \<Rightarrow> js \<Rightarrow> js visit" where
  "visit L resolve transformers 0 = (\<lambda>schema. failV Overflow)"
| "visit L resolve transformers (Suc n) =
     visit_step L resolve transformers (visit L resolve transformers n)"

section \<open>The schema of requests\<close>

definition upper :: "string \<Rightarrow> string" where
  "upper s = map (\<lambda>c. if 97 \<le> (of_char c :: nat) \<and> (of_char c :: nat) \<le> 122 then char_of ((of_char c :: nat) - 32) else c) s"

definition definition_ref :: "string \<Rightarrow> string" where
  "definition_ref k = ''#/definitions/'' @ k"

definition operation_branch :: "string \<Rightarrow> js \<Rightarrow> js" where
  "operation_branch k operation =
     Obj [(''properties'', Obj [(k, Obj [(''$ref'', Str (definition_ref k)),
                                         (''description'', member operation ''summary'')])]),
          (''required'', Arr [Str k]), (''additionalProperties'', Bool False), (''type'', Str ''object'')]"

text \<open>\<^verbatim>\<open>(([ct, mt]) => ...)(toPairs(content)[0] || [])\<close>.\<close>

definition body_schema :: "js \<Rightarrow> js" where
  "body_schema content =
     (case own_props content of
        [] \<Rightarrow> Obj [(''x-content-type'', Undef)]
      | (ct, mt) # _ \<Rightarrow> with_key (member mt ''schema'') ''x-content-type'' (Str ct))"

definition operation_parameters :: "js \<Rightarrow> js list sres" where
  "operation_parameters operation =
     bindS (if truthy (member operation ''parameters'') then spread_elems (member operation ''parameters'') else Inr [])
       (\<lambda>ps. Inr (ps @
         (if truthy (member operation ''requestBody'')
          then [Obj [(''in'', Str ''body''), (''name'', Str ''body''),
                     (''required'', member (member operation ''requestBody'') ''required''),
                     (''schema'', body_schema (member (member operation ''requestBody'') ''content''))]]
          else [])))"

definition param_props :: "js list \<Rightarrow> obj" where
  "param_props ps =
     fold (\<lambda>p props. AList.update (to_str (member p ''name''))
              (with_key (member p ''schema'') ''x-param-in'' (member p ''in'')) props) ps []"

definition response_schema :: "js \<Rightarrow> js" where
  "response_schema response =
     (case own_props (member response ''content'') of
        [] \<Rightarrow> Obj []
      | (ct, mt) # _ \<Rightarrow> with_key (member mt ''schema'') ''x-content-type'' (Str ct))"

definition responses_description :: string where
  "responses_description =
     [CHR 0xE8, CHR 0xAF, CHR 0xB7, CHR 0xE6, CHR 0xB1, CHR 0x82,
      CHR 0xE8, CHR 0xBF, CHR 0x94, CHR 0xE5, CHR 0x9B, CHR 0x9E]"

definition newline2 :: string where
  "newline2 = [CHR 0x0A, CHR 0x0A]"

definition operation_schema :: "js \<Rightarrow> js sres" where
  "operation_schema operation =
     (case member operation ''method'' of
        Str method \<Rightarrow>
          bindS (operation_parameters operation) (\<lambda>ps.
            Inr (Obj
              [(''type'', Str ''object''),
               (''description'', Str (join newline2
                  (map to_str (filter truthy [member operation ''summary'', member operation ''description''])))),
               (''x-method'', Str (upper method)),
               (''x-path'', member operation ''path''),
               (''x-id'', member operation ''operationId''),
               (''required'', Arr (map (\<lambda>p. member p ''name'') (filter (\<lambda>p. truthy (member p ''required'')) ps))),
               (''additionalProperties'', Bool False),
               (''properties'', Obj (spread (param_props ps)
                  [(''__responses'', Obj
                     [(''type'', Str ''object''), (''description'', Str responses_description),
                      (''properties'', Obj (map (\<lambda>(k, r). (k, response_schema r))
                         (own_props (member operation ''responses''))))])]))]))
      | _ \<Rightarrow> Inl SchemaTypeError)"

text \<open>
  The resolver: a reference to a definition has the definition visited, any other has the
  visited schema stored as the definition of its last part.
\<close>

definition ref_id :: "string \<Rightarrow> string" where
  "ref_id r = last (split_on (CHR ''/'') (drop 2 r))"

definition ref_target :: "lodash \<Rightarrow> js \<Rightarrow> string \<Rightarrow> js" where
  "ref_target L openapi r = lo_get L openapi (split_on (CHR ''/'') (drop 2 r)) (Obj [])"

definition ref_object :: "string \<Rightarrow> js" where
  "ref_object r = Obj [(''$ref'', Str r)]"

definition define_as :: "string \<Rightarrow> js visit \<Rightarrow> js \<Rightarrow> js visit" where
  "define_as k m ret = (\<lambda>defs. bindS (m defs) (\<lambda>(v, defs'). Inr (ret, AList.update k v defs')))"

definition is_local :: "string \<Rightarrow> bool" where
  "is_local r = starts_with r ''#/definitions/''"

definition resolve_ref :: "lodash \<Rightarrow> js \<Rightarrow> (js \<Rightarrow> js visit) \<Rightarrow> js \<Rightarrow> js visit" where
  "resolve_ref L openapi rec ref =
     (case ref of
        Str r \<Rightarrow>
          if is_local r then define_as (ref_id r) (\<lambda>defs. rec (obj_get defs (ref_id r)) defs) (ref_object r)
          else define_as (ref_id r) (rec (ref_target L openapi r)) (ref_object (definition_ref (ref_id r)))
      | _ \<Rightarrow> failV SchemaTypeError)"

definition request_branches :: "js \<Rightarrow> js list" where
  "request_branches openapi = map (\<lambda>(k, op). operation_branch k op) (own_props (member openapi ''operations''))"

definition request_definitions :: "js \<Rightarrow> obj sres" where
  "request_definitions openapi =
     mapS (\<lambda>(k, op). bindS (operation_schema op) (\<lambda>s. Inr (k, s))) (own_props (member openapi ''operations''))"

text \<open>
  The visited schema keeps the very object of definitions it started with, which by then holds
  what was assigned to it.
\<close>

definition convertToRequestSchema :: "lodash \<Rightarrow> nat \<Rightarrow> js \<Rightarrow> js sres" where
  "convertToRequestSchema L n openapi =
     bindS (request_definitions openapi) (\<lambda>definitions.
       bindS (visit L (resolve_ref L openapi) [] n
                (Obj [(''oneOf'', Arr (request_branches openapi)), (''definitions'', Obj definitions)]) definitions)
         (\<lambda>(schema, definitions').
            Inr (Obj (AList.delete ''$ref'' (own_props (assign schema ''definitions'' (Obj definitions')))))))"

section \<open>References of the result\<close>

text \<open>
  The places of a schema the visitor visits, by the branch it takes, and what every reference
  at such a place satisfies.
\<close>

definition branch_ref :: "js \<Rightarrow> bool" where
  "branch_ref v \<longleftrightarrow> \<not> has_own v ''oneOf'' \<and> \<not> has_own v ''allOf'' \<and> truthy (member v ''$ref'')"

definition object_like :: "js \<Rightarrow> bool" where
  "object_like v \<longleftrightarrow> member v ''type'' = Str ''object'' \<or> has_own v ''properties''"

definition array_like :: "js \<Rightarrow> bool" where
  "array_like v \<longleftrightarrow> member v ''type'' = Str ''array'' \<or> has_own v ''items''"

definition branch_parts :: "js \<Rightarrow> js list" where
  "branch_parts v =
     (if \<not> is_plain_object v then []
      else if has_own v ''oneOf'' then map snd (own_props (member v ''oneOf''))
      else if has_own v ''allOf'' then map snd (own_props (member v ''allOf''))
      else if truthy (member v ''$ref'') then []
      else if object_like v then
        map snd (own_props (member v ''properties'')) @ [member v ''propertyNames'', member v ''additionalProperties'']
      else if array_like v then [member v ''items'']
      else [])"

lemma size_obj_member: "size (obj_get kvs k) < size (Obj kvs)"
  using size_member_js [of k _ kvs] by (auto simp: obj_get_def split: option.splits dest!: map_of_SomeD)

lemma size_own_props: "c \<in> snd ` set (own_props v) \<Longrightarrow> size c < size v"
proof (cases v)
  case (Arr xs)
  assume "c \<in> snd ` set (own_props v)"
  then show ?thesis using Arr size_elems [of c xs] by (auto dest: set_zip_rightD)
next
  case (Obj kvs)
  assume "c \<in> snd ` set (own_props v)"
  then show ?thesis using Obj size_member_js by force
qed auto

lemma branch_parts_size [termination_simp]: "c \<in> set (branch_parts v) \<Longrightarrow> size c < size v"
proof (cases v)
  case (Obj kvs)
  have sub: "size c < size v" if "c \<in> snd ` set (own_props (member v k))" for k
    using size_own_props [OF that] size_obj_member [of kvs k] Obj by simp
  assume "c \<in> set (branch_parts v)"
  then show ?thesis
    using Obj sub size_obj_member [of kvs] unfolding branch_parts_def by (auto split: if_splits)
qed (auto simp: branch_parts_def)

fun refs_ok :: "(string \<Rightarrow> bool) \<Rightarrow> js \<Rightarrow> bool" where
  "refs_ok P v \<longleftrightarrow>
     (is_plain_object v \<longrightarrow> branch_ref v \<longrightarrow> (\<exists>r. member v ''$ref'' = Str r \<and> P r))
     \<and> (\<forall>c \<in> set (branch_parts v). refs_ok P c)"

declare refs_ok.simps [simp del]

lemma refs_ok_mono: "refs_ok P v \<Longrightarrow> (\<And>r. P r \<Longrightarrow> Q r) \<Longrightarrow> refs_ok Q v"
proof (induction P v rule: refs_ok.induct)
  case (1 P v)
  have "refs_ok Q c" if "c \<in> set (branch_parts v)" for c
    using "1.IH" [OF that] "1.prems" that refs_ok.simps [of P v] by blast
  then show ?case using "1.prems" refs_ok.simps [of P v] refs_ok.simps [of Q v] by blast
qed

lemma refs_ok_plain: "\<not> is_plain_object v \<Longrightarrow> refs_ok P v"
  by (subst refs_ok.simps) (simp add: branch_parts_def)

text \<open>Defined in \<open>ds\<close>: a local reference whose last part is one of its names.\<close>

definition names_one_of :: "string set \<Rightarrow> string \<Rightarrow> bool" where
  "names_one_of P r \<longleftrightarrow> is_local r \<and> ref_id r \<in> P"

definition closed_under :: "string set \<Rightarrow> obj \<Rightarrow> bool" where
  "closed_under P defs \<longleftrightarrow> (\<forall>k \<in> P. obj_has defs k \<and> refs_ok (names_one_of P) (obj_get defs k))"

text \<open>
  What a visit guarantees of its result when it starts with at least the names \<open>P0\<close> done: it
  may do more of them, and the result is good for those.
\<close>

definition keeps :: "string set \<Rightarrow> (string set \<Rightarrow> 'a \<Rightarrow> bool) \<Rightarrow> 'a visit \<Rightarrow> bool" where
  "keeps P0 Q m \<longleftrightarrow>
     (\<forall>P defs v defs'. P0 \<subseteq> P \<longrightarrow> closed_under P defs \<longrightarrow> m defs = Inr (v, defs') \<longrightarrow>
        (\<exists>P'. P \<subseteq> P' \<and> closed_under P' defs' \<and> Q P' v))"

lemma keepsD:
  "keeps P0 Q m \<Longrightarrow> P0 \<subseteq> P \<Longrightarrow> closed_under P defs \<Longrightarrow> m defs = Inr (v, defs') \<Longrightarrow>
   \<exists>P'. P \<subseteq> P' \<and> closed_under P' defs' \<and> Q P' v"
  by (simp add: keeps_def)

lemma keeps_return: "(\<And>P. P0 \<subseteq> P \<Longrightarrow> Q P x) \<Longrightarrow> keeps P0 Q (returnV x)"
  by (auto simp: keeps_def returnV_def)

lemma keeps_fail: "keeps P0 Q (failV e)"
  by (simp add: keeps_def failV_def)

lemma bindV_Inr: "bindV m f defs = Inr (y, d) \<longleftrightarrow> (\<exists>x d'. m defs = Inr (x, d') \<and> f x d' = Inr (y, d))"
  by (auto simp: bindV_def bindS_Inr)

lemma keeps_bind:
  assumes m: "keeps P0 Q m" and f: "\<And>P x. P0 \<subseteq> P \<Longrightarrow> Q P x \<Longrightarrow> keeps P R (f x)"
  shows "keeps P0 R (bindV m f)"
  unfolding keeps_def
proof (intro allI impI)
  fix P defs v defs' assume P: "P0 \<subseteq> P" "closed_under P defs" "bindV m f defs = Inr (v, defs')"
  then obtain x d where x: "m defs = Inr (x, d)" "f x d = Inr (v, defs')" by (auto simp: bindV_Inr)
  obtain P1 where P1: "P \<subseteq> P1" "closed_under P1 d" "Q P1 x" using keepsD [OF m P(1,2) x(1)] by blast
  then obtain P2 where "P1 \<subseteq> P2 \<and> closed_under P2 defs' \<and> R P2 v"
    using keepsD [OF f [of P1 x] _ _ x(2), of P1] P(1) by blast
  with P1(1) show "\<exists>P'. P \<subseteq> P' \<and> closed_under P' defs' \<and> R P' v" by blast
qed

lemma keeps_weaken: "keeps P0 Q m \<Longrightarrow> P0 \<subseteq> P1 \<Longrightarrow> (\<And>P x. Q P x \<Longrightarrow> R P x) \<Longrightarrow> keeps P1 R m"
  unfolding keeps_def by (meson order_trans)

lemma keeps_map:
  assumes "\<And>x P. x \<in> set xs \<Longrightarrow> keeps P Q (f x)" and mono: "\<And>P P' y. P \<subseteq> P' \<Longrightarrow> Q P y \<Longrightarrow> Q P' y"
  shows "keeps P0 (\<lambda>P. list_all (Q P)) (mapV f xs)"
  using assms(1)
proof (induction xs arbitrary: P0)
  case Nil
  show ?case by (simp add: keeps_return)
next
  case (Cons x xs)
  have tail: "keeps P (\<lambda>P. list_all (Q P)) (mapV f xs)" for P using Cons by simp
  have "keeps P (\<lambda>P. list_all (Q P)) (bindV (mapV f xs) (\<lambda>ys. returnV (y # ys)))" if "Q P y" for P y
    by (rule keeps_bind [OF tail], rule keeps_return)
      (use that mono in \<open>auto simp: list_all_iff dest: subset_trans\<close>)
  moreover have "keeps P0 Q (f x)" using Cons.prems by simp
  ultimately show ?case by (simp add: keeps_bind [of P0 Q])
qed

lemma member_with_key: "member (with_key v k x) k' = (if k' = k then x else obj_get (own_props v) k')"
  by (simp add: with_key_def obj_get_update)

lemma has_own_with_key: "has_own (with_key v k x) k' \<longleftrightarrow> k' = k \<or> obj_has (own_props v) k'"
  by (simp add: with_key_def obj_has_update)

lemma plain_with_key [simp]: "is_plain_object (with_key v k x)"
  by (simp add: with_key_def)

lemma own_with_key: "own_props (with_key v k x) = AList.update k x (own_props v)"
  by (simp add: with_key_def)

lemma map_snd_Arr [simp]: "map snd (own_props (Arr xs)) = xs"
  by simp

lemma prefix_split: "d \<notin> set w \<Longrightarrow> last (split_on d (w @ d # s)) = last (split_on d s)"
  by (simp add: split_on_append)

lemma is_local_target: "is_local (definition_ref k)"
  by (simp add: is_local_def definition_ref_def)

lemma ref_id_target: "CHR ''/'' \<notin> set k \<Longrightarrow> ref_id (definition_ref k) = k"
  by (simp add: ref_id_def definition_ref_def split_on_no_delim)

lemma definition_ref_ne [simp]: "definition_ref k \<noteq> []"
  by (simp add: definition_ref_def)

lemma ref_id_no_slash: "CHR ''/'' \<notin> set (ref_id r)"
  unfolding ref_id_def by (rule split_on_no_delim_in [OF last_in_set]) simp

lemma ref_object_ok: "P r \<Longrightarrow> refs_ok P (ref_object r)"
  by (subst refs_ok.simps) (auto simp: ref_object_def branch_parts_def branch_ref_def obj_has_def obj_get_def
      object_like_def array_like_def)

lemma ref_object_truthy: "r \<noteq> [] \<Longrightarrow> truthy (member (ref_object r) ''$ref'')"
  by (simp add: ref_object_def obj_get_def)

abbreviation good_result :: "string set \<Rightarrow> js \<Rightarrow> bool" where
  "good_result P v \<equiv> refs_ok (names_one_of P) v"

lemma good_result_mono: "P \<subseteq> P' \<Longrightarrow> good_result P v \<Longrightarrow> good_result P' v"
  by (erule refs_ok_mono) (auto simp: names_one_of_def)

lemma closed_update:
  assumes "closed_under P defs" and "good_result P v"
  shows "closed_under (insert k P) (AList.update k v defs)"
  using assms good_result_mono [of P "insert k P"]
  by (auto simp: closed_under_def obj_has_update obj_get_update)

lemma keeps_define:
  assumes "keeps P0 good_result m"
  shows "keeps P0 (\<lambda>P v. v = ret \<and> k \<in> P) (define_as k m ret)"
  unfolding keeps_def
proof (intro allI impI)
  fix P defs v defs' assume P: "P0 \<subseteq> P" "closed_under P defs" "define_as k m ret defs = Inr (v, defs')"
  then obtain w d where w: "m defs = Inr (w, d)" "v = ret" "defs' = AList.update k w d"
    by (auto simp: define_as_def bindS_Inr)
  obtain P1 where "P \<subseteq> P1" "closed_under P1 d" "good_result P1 w" using keepsD [OF assms P(1,2) w(1)] by blast
  then have "P \<subseteq> insert k P1 \<and> closed_under (insert k P1) defs' \<and> v = ret \<and> k \<in> insert k P1"
    using w closed_update by auto
  then show "\<exists>P'. P \<subseteq> P' \<and> closed_under P' defs' \<and> v = ret \<and> k \<in> P'" by blast
qed

lemma keeps_read:
  assumes "\<And>s. keeps P0 Q (rec s)"
  shows "keeps P0 Q (\<lambda>defs. rec (g defs) defs)"
  unfolding keeps_def
proof (intro allI impI)
  fix P defs v defs' assume "P0 \<subseteq> P" "closed_under P defs" "rec (g defs) defs = Inr (v, defs')"
  then show "\<exists>P'. P \<subseteq> P' \<and> closed_under P' defs' \<and> Q P' v" by (rule keepsD [OF assms])
qed

lemma keeps_resolve:
  assumes "\<And>P s. keeps P good_result (rec s)"
  shows "keeps P0 (\<lambda>P v. good_result P v \<and> truthy (member v ''$ref'')) (resolve_ref L openapi rec ref)"
proof (cases ref)
  case (Str r)
  have read: "keeps P0 good_result (\<lambda>defs. rec (obj_get defs (ref_id r)) defs)"
    by (rule keeps_read) (rule assms)
  show ?thesis
  proof (cases "is_local r")
    case True
    then have "r \<noteq> []" by (auto simp: is_local_def)
    have "keeps P0 (\<lambda>P v. v = ref_object r \<and> ref_id r \<in> P) (resolve_ref L openapi rec ref)"
      using keeps_define [OF read] Str True by (simp add: resolve_ref_def)
    then show ?thesis
      by (rule keeps_weaken) (auto intro!: ref_object_ok ref_object_truthy simp: names_one_of_def True \<open>r \<noteq> []\<close>)
  next
    case False
    let ?t = "definition_ref (ref_id r)"
    have "keeps P0 (\<lambda>P v. v = ref_object ?t \<and> ref_id r \<in> P) (resolve_ref L openapi rec ref)"
      using keeps_define [OF assms] Str False by (simp add: resolve_ref_def)
    then show ?thesis
      by (rule keeps_weaken)
        (auto intro!: ref_object_ok ref_object_truthy simp: names_one_of_def is_local_target ref_id_target [OF ref_id_no_slash])
  qed
qed (simp_all add: resolve_ref_def keeps_fail)

section \<open>What a visit does to references\<close>

lemma branch_oneOf:
  "has_own v ''oneOf'' \<Longrightarrow> list_all (refs_ok P) (map snd (own_props (member v ''oneOf''))) \<Longrightarrow> refs_ok P v"
  by (subst refs_ok.simps) (auto simp: branch_ref_def branch_parts_def list_all_iff)

lemma branch_allOf:
  "\<not> has_own v ''oneOf'' \<Longrightarrow> has_own v ''allOf'' \<Longrightarrow>
   list_all (refs_ok P) (map snd (own_props (member v ''allOf''))) \<Longrightarrow> refs_ok P v"
  by (subst refs_ok.simps) (auto simp: branch_ref_def branch_parts_def list_all_iff)

lemma branch_object:
  assumes "\<not> has_own v ''oneOf''" "\<not> has_own v ''allOf''" "\<not> truthy (member v ''$ref'')" "object_like v"
    and "list_all (refs_ok P) (map snd (own_props (member v ''properties'')))"
    and "refs_ok P (member v ''propertyNames'')" "refs_ok P (member v ''additionalProperties'')"
  shows "refs_ok P v"
  using assms by (subst refs_ok.simps) (auto simp: branch_ref_def branch_parts_def list_all_iff)

lemma branch_array:
  assumes "\<not> has_own v ''oneOf''" "\<not> has_own v ''allOf''" "\<not> truthy (member v ''$ref'')" "\<not> object_like v"
    and "refs_ok P (member v ''items'')"
  shows "refs_ok P v"
  using assms by (subst refs_ok.simps) (auto simp: branch_ref_def branch_parts_def)

lemma branch_leaf:
  assumes "\<not> has_own v ''oneOf''" "\<not> has_own v ''allOf''" "\<not> truthy (member v ''$ref'')" "\<not> object_like v"
    "\<not> array_like v"
  shows "refs_ok P v"
  using assms by (subst refs_ok.simps) (auto simp: branch_ref_def branch_parts_def)

lemma obj_get_member: "is_plain_object s \<Longrightarrow> obj_get (own_props s) k = member s k"
  by (cases s) auto

lemma obj_has_own: "is_plain_object s \<Longrightarrow> obj_has (own_props s) k = has_own s k"
  by (cases s) auto

lemmas with_key_simps = member_with_key has_own_with_key obj_get_member obj_has_own own_with_key obj_get_update obj_has_update

context lodash_api begin

lemma has_visitor_key:
  "lo_has_str L v ''oneOf'' = has_own v ''oneOf''" "lo_has_str L v ''allOf'' = has_own v ''allOf''"
  "lo_has_str L v ''properties'' = has_own v ''properties''" "lo_has_str L v ''items'' = has_own v ''items''"
  by (rule has_key; simp add: no_brackets_def)+

lemma visitor_keys:
  "lo_has_str L v ''oneOf'' = has_own v ''oneOf''" "lo_has_str L v ''allOf'' = has_own v ''allOf''"
  "visitor_is_object L v = object_like v" "visitor_is_array L v = array_like v"
  unfolding visitor_is_object_def visitor_is_array_def object_like_def array_like_def has_visitor_key by (rule refl)+

lemma array_schema:
  "\<not> has_own (Arr xs) ''oneOf'' \<and> \<not> has_own (Arr xs) ''allOf'' \<and> \<not> truthy (member (Arr xs) ''$ref'')
   \<and> \<not> object_like (Arr xs) \<and> \<not> array_like (Arr xs)"
  by (simp add: object_like_def array_like_def array_index_def is_digit_def)

lemma keeps_visit_object:
  assumes rec: "\<And>P s. keeps P good_result (rec s)" and s: "is_plain_object s"
    and branch: "\<not> has_own s ''oneOf''" "\<not> has_own s ''allOf''" "\<not> truthy (member s ''$ref'')" "object_like s"
  shows "keeps P0 good_result (visit_object rec s)"
proof -
  let ?r = "\<lambda>ps names more. with_key (with_key (with_key s ''properties'' (Obj ps)) ''propertyNames'' names)
    ''additionalProperties'' more"
  have props: "keeps P0 (\<lambda>P. list_all (\<lambda>p. good_result P (snd p)))
      (mapV (\<lambda>(k, s). bindV (rec s) (\<lambda>s'. returnV (k, s'))) (own_props (member s ''properties'')))" for P0
  proof (rule keeps_map)
    fix x :: "string \<times> js" and P
    show "keeps P (\<lambda>P p. good_result P (snd p)) (case x of (k, s) \<Rightarrow> bindV (rec s) (\<lambda>s'. returnV (k, s')))"
      unfolding split_beta
      by (rule keeps_bind [OF rec], rule keeps_return) (simp add: good_result_mono)
  qed (rule good_result_mono)
  have result: "good_result P (?r ps names more)"
    if "list_all (\<lambda>p. good_result P (snd p)) ps" "good_result P names" "good_result P more" for P ps names more
    by (rule branch_object) (use that s branch in \<open>auto simp: with_key_simps object_like_def list_all_iff\<close>)
  show ?thesis
    unfolding visit_object_def
  proof (rule keeps_bind [OF props])
    fix P and ps :: obj assume ps: "list_all (\<lambda>p. good_result P (snd p)) ps"
    show "keeps P good_result (bindV (rec (if truthy (member s ''propertyNames'') then member s ''propertyNames''
        else Obj [(''type'', Str ''string'')])) (\<lambda>names.
       bindV (if truthy (member s ''additionalProperties'') then rec (object_or_empty (member s ''additionalProperties''))
          else returnV (Bool False)) (\<lambda>more. returnV (?r ps names more))))"
    proof (rule keeps_bind [OF rec])
      fix P1 names assume P1: "P \<subseteq> P1" "good_result P1 names"
      have more: "keeps P1 good_result (if truthy (member s ''additionalProperties'')
          then rec (object_or_empty (member s ''additionalProperties'')) else returnV (Bool False))"
        using rec by (simp add: keeps_return refs_ok_plain)
      show "keeps P1 good_result (bindV (if truthy (member s ''additionalProperties'')
          then rec (object_or_empty (member s ''additionalProperties'')) else returnV (Bool False))
          (\<lambda>more. returnV (?r ps names more)))"
      proof (rule keeps_bind [OF more])
        fix P2 more' assume P2: "P1 \<subseteq> P2" "good_result P2 more'"
        have "good_result P3 (?r ps names more')" if "P2 \<subseteq> P3" for P3
        proof (rule result)
          show "list_all (\<lambda>p. good_result P3 (snd p)) ps"
            using ps P1(1) P2(1) that good_result_mono [of P P3] by (auto simp: list_all_iff)
        qed (use P1 P2 that good_result_mono [of P1 P3] good_result_mono [of P2 P3] in auto)
        then show "keeps P2 good_result (returnV (?r ps names more'))" by (rule keeps_return)
      qed
    qed
  qed
qed

lemma keeps_visit_schema:
  assumes rec: "\<And>P s. keeps P good_result (rec s)"
  shows "keeps P0 good_result (visit_schema L (resolve_ref L openapi) rec s)"
proof (cases "is_object s")
  case object: True
  have elems: "keeps P (\<lambda>P. list_all (good_result P)) (mapV rec xs)" for P xs
    by (rule keeps_map) (rule rec, erule (1) good_result_mono)
  have mono: "list_all (good_result P) ss \<Longrightarrow> P \<subseteq> P' \<Longrightarrow> list_all (good_result P') ss" for P P' ss
    using good_result_mono [of P P'] by (auto simp: list_all_iff)
  consider (arr) xs where "s = Arr xs" | (plain) "is_plain_object s" using object by (cases s) auto
  then show ?thesis
  proof cases
    case arr
    then show ?thesis
      using array_schema [of xs]
      by (simp add: visit_schema_def visitor_keys keeps_return refs_ok_plain del: member.simps has_own.simps)
  next
    case plain
    consider (oneOf) "has_own s ''oneOf''" | (allOf) "\<not> has_own s ''oneOf''" "has_own s ''allOf''"
      | (ref) "\<not> has_own s ''oneOf''" "\<not> has_own s ''allOf''" "truthy (member s ''$ref'')"
      | (none) "\<not> has_own s ''oneOf''" "\<not> has_own s ''allOf''" "\<not> truthy (member s ''$ref'')"
      by blast
    then show ?thesis
    proof cases
      case oneOf
      have "good_result P (with_key s ''oneOf'' (Arr ss))" if "list_all (good_result P) ss" for P ss
        by (rule branch_oneOf) (use that in \<open>simp_all add: with_key_simps\<close>)
      then show ?thesis
        using oneOf object mono
        by (auto simp: visit_schema_def visitor_keys intro!: keeps_bind [OF elems] keeps_return)
    next
      case allOf
      have "good_result P (with_key s ''allOf'' (Arr ss))" if "list_all (good_result P) ss" for P ss
        by (rule branch_allOf) (use that allOf plain in \<open>simp_all add: with_key_simps\<close>)
      then show ?thesis
        using allOf object mono
        by (auto simp: visit_schema_def visitor_keys intro!: keeps_bind [OF elems] keeps_return)
    next
      case ref
      have "keeps P0 good_result (bindV (resolve_ref L openapi rec (member s ''$ref''))
          (\<lambda>ret. if truthy (member ret ''$ref'') then returnV ret else rec ret))"
        by (rule keeps_bind [OF keeps_resolve [OF rec]]) (simp add: keeps_return good_result_mono)
      then show ?thesis using ref object by (simp add: visit_schema_def visitor_keys)
    next
      case none
      have "good_result P (with_key s ''items'' i)" if "good_result P i" "\<not> object_like s" for P i
        by (rule branch_array) (use that none plain in \<open>simp_all add: with_key_simps object_like_def\<close>)
      then have "keeps P0 good_result (bindV (rec (member s ''items'')) (\<lambda>i. returnV (with_key s ''items'' i)))"
        if "\<not> object_like s"
        by (intro keeps_bind [OF rec] keeps_return) (simp add: that good_result_mono)
      moreover have "keeps P0 good_result (returnV s)" if "\<not> object_like s" "\<not> array_like s"
        by (rule keeps_return, rule branch_leaf) (use none that in auto)
      ultimately show ?thesis
        using none object keeps_visit_object [OF rec plain none] by (simp add: visit_schema_def visitor_keys)
    qed
  qed
qed (simp add: visit_schema_def keeps_fail)

lemma keeps_visit: "keeps P0 good_result (visit L (resolve_ref L openapi) [] n s)"
proof (induction n arbitrary: P0 s)
  case (Suc n)
  have "keeps P0 good_result (visit_schema L (resolve_ref L openapi) (visit L (resolve_ref L openapi) [] n) s')" for s'
    by (rule keeps_visit_schema) (rule Suc)
  moreover have "good_result P (Obj [])" for P
    by (rule branch_leaf) (simp_all add: obj_has_def obj_get_def object_like_def array_like_def)
  ultimately show ?case by (simp add: visit_step_def keeps_return)
qed (simp add: keeps_fail)

end

section \<open>Visiting ends\<close>

text \<open>All references at places that may be visited, whatever branch is taken.\<close>

fun vparts :: "string \<times> js \<Rightarrow> js list" where
  "vparts (k, v) =
     (if k = ''oneOf'' \<or> k = ''allOf'' \<or> k = ''properties'' then map snd (own_props v)
      else if k = ''items'' \<or> k = ''propertyNames'' then [v]
      else if k = ''additionalProperties'' then (if is_object v then [v] else [])
      else [])"

definition visited :: "js \<Rightarrow> js list" where
  "visited s = (case s of Obj kvs \<Rightarrow> concat (map vparts kvs) | _ \<Rightarrow> [])"

lemma visited_size [termination_simp]: "c \<in> set (visited s) \<Longrightarrow> size c < size s"
proof -
  assume "c \<in> set (visited s)"
  then obtain kvs k v where s: "s = Obj kvs" "(k, v) \<in> set kvs" "c \<in> set (vparts (k, v))"
    by (cases s) (auto simp: visited_def simp del: vparts.simps)
  have "size c \<le> size v" using s(3) size_own_props [of c v] by (auto split: if_splits)
  then show "size c < size s" using size_member_js [OF s(2)] s(1) by simp
qed

fun refs_all :: "(string \<Rightarrow> bool) \<Rightarrow> js \<Rightarrow> bool" where
  "refs_all P s \<longleftrightarrow> (\<forall>r. member s ''$ref'' = Str r \<longrightarrow> P r) \<and> (\<forall>c \<in> set (visited s). refs_all P c)"

declare refs_all.simps [simp del]

lemma visited_member:
  "s = Obj kvs \<Longrightarrow> obj_get kvs k \<noteq> Undef \<Longrightarrow> c \<in> set (vparts (k, obj_get kvs k)) \<Longrightarrow> c \<in> set (visited s)"
  using obj_get_SomeD [of kvs k] by (auto simp: visited_def simp del: vparts.simps intro!: bexI [of _ "(k, obj_get kvs k)"])

text \<open>A visit that ends, and leaves the definitions \<open>K\<close> as they are.\<close>

definition calm :: "string set \<Rightarrow> 'a visit \<Rightarrow> bool" where
  "calm K m \<longleftrightarrow> (\<forall>defs. case m defs of
       Inl e \<Rightarrow> e \<noteq> Overflow
     | Inr (v, defs') \<Rightarrow> \<forall>k \<in> K. obj_get defs' k = obj_get defs k)"

lemma calmD: "calm K m \<Longrightarrow> m defs \<noteq> Inl Overflow"
  by (auto simp: calm_def dest: spec [of _ defs])

lemma calm_keeps: "calm K m \<Longrightarrow> m defs = Inr (v, defs') \<Longrightarrow> k \<in> K \<Longrightarrow> obj_get defs' k = obj_get defs k"
  by (auto simp: calm_def dest: spec [of _ defs])

lemma calm_return [simp]: "calm K (returnV x)"
  by (simp add: calm_def returnV_def)

lemma calm_fail [simp]: "calm K (failV e) \<longleftrightarrow> e \<noteq> Overflow"
  by (simp add: calm_def failV_def)

lemma bindV_fail [simp]: "bindV (failV e) f = failV e"
  by (simp add: bindV_def failV_def)

lemma bindV_return [simp]: "bindV (returnV x) f = f x"
  by (simp add: bindV_def returnV_def)

lemma bindV_assoc: "bindV (bindV m f) g = bindV m (\<lambda>x. bindV (f x) g)"
proof
  fix defs show "bindV (bindV m f) g defs = bindV m (\<lambda>x. bindV (f x) g) defs"
    by (cases "m defs") (auto simp: bindV_def)
qed

lemma calm_bind:
  assumes "calm K m" and "\<And>x. calm K (f x)"
  shows "calm K (bindV m f)"
  unfolding calm_def
proof
  fix defs
  show "case bindV m f defs of Inl e \<Rightarrow> e \<noteq> Overflow | Inr (v, defs') \<Rightarrow> \<forall>k \<in> K. obj_get defs' k = obj_get defs k"
  proof (cases "m defs")
    case (Inl e)
    then show ?thesis using calmD [OF assms(1), of defs] by (auto simp: bindV_def)
  next
    case (Inr p)
    obtain x d where p: "p = (x, d)" by (cases p)
    show ?thesis
      using assms(2) [of x] calm_keeps [OF assms(1), of defs x d] Inr p
      by (auto simp: bindV_def calm_def dest!: spec [of _ d] split: sum.splits)
  qed
qed

lemma calm_map: "(\<And>x. x \<in> set xs \<Longrightarrow> calm K (f x)) \<Longrightarrow> calm K (mapV f xs)"
  by (induction xs) (auto intro!: calm_bind)

lemma calm_define: "calm K m \<Longrightarrow> k \<notin> K \<Longrightarrow> calm K (define_as k m ret)"
  unfolding calm_def
proof
  fix defs assume m: "\<forall>defs. case m defs of Inl e \<Rightarrow> e \<noteq> Overflow
      | Inr (v, defs') \<Rightarrow> \<forall>k \<in> K. obj_get defs' k = obj_get defs k" and k: "k \<notin> K"
  show "case define_as k m ret defs of Inl e \<Rightarrow> e \<noteq> Overflow
      | Inr (v, defs') \<Rightarrow> \<forall>k \<in> K. obj_get defs' k = obj_get defs k"
    using m [rule_format, of defs] k
    by (cases "m defs") (auto simp: define_as_def obj_get_update)
qed

text \<open>The smallest schemas are visited in one step.\<close>

context lodash_api begin

lemma calm_leaf:
  assumes "s = Obj [(''type'', Str ''string'')] \<or> s = Obj [] \<or> s = Undef" and "0 < n"
  shows "calm K (visit L resolve [] n s)"
proof -
  obtain n' where n: "n = Suc n'" using assms(2) by (cases n) auto
  have "visit_schema L resolve rec (Obj [(''type'', Str ''string''), (''nullable'', Undef)])
      = returnV (Obj [(''type'', Str ''string''), (''nullable'', Undef)])"
    "visit_schema L resolve rec (Obj [(''nullable'', Undef)]) = returnV (Obj [(''nullable'', Undef)])" for rec
    by (simp_all add: visit_schema_def visitor_keys object_like_def array_like_def obj_has_def obj_get_def)
  then show ?thesis using assms(1) by (auto simp: n visit_step_def)
qed

lemma calm_visit:
  assumes target: "\<And>r. ok r \<Longrightarrow> refs_all (\<lambda>r'. ok r' \<and> rk r' < rk r) (ref_target L openapi r)"
    and foreign: "\<And>r. ok r \<Longrightarrow> \<not> is_local r \<and> ref_id r \<notin> K"
    and bound: "\<And>r. size (ref_target L openapi r) \<le> size openapi + 1"
  shows "refs_all (\<lambda>r. ok r \<and> rk r < m) s \<Longrightarrow> m * (size openapi + 4) + size s + 3 \<le> n
    \<Longrightarrow> calm K (visit L (resolve_ref L openapi) [] n s)"
proof (induction n arbitrary: m s)
  case (Suc n)
  let ?rec = "visit L (resolve_ref L openapi) [] n"
  have leaf: "calm K (?rec c)" if "c = Obj [(''type'', Str ''string'')] \<or> c = Obj [] \<or> c = Undef" for c
    using calm_leaf [OF that] Suc.prems(2) by simp
  have part: "calm K (?rec c)" if "c \<in> set (visited s)" for c
  proof (rule Suc.IH)
    show "refs_all (\<lambda>r. ok r \<and> rk r < m) c" using Suc.prems(1) that refs_all.simps [of _ s] by blast
    show "m * (size openapi + 4) + size c + 3 \<le> n" using visited_size [OF that] Suc.prems(2) by simp
  qed
  have jump: "calm K (?rec (ref_target L openapi r))" if "ok r" "rk r < m" for r
  proof (rule Suc.IH)
    show "refs_all (\<lambda>r'. ok r' \<and> rk r' < rk r) (ref_target L openapi r)" by (rule target) fact
    have "Suc (rk r) * (size openapi + 4) \<le> m * (size openapi + 4)" using that(2) by (intro mult_right_mono) auto
    then show "rk r * (size openapi + 4) + size (ref_target L openapi r) + 3 \<le> n"
      using bound [of r] Suc.prems(2) by simp
  qed
  show ?case
  proof (cases s)
    case Undef
    then show ?thesis by (simp add: visit_step_def)
  next
    case (Arr xs)
    then show ?thesis
      using array_schema [of xs]
      by (simp add: visit_step_def visit_schema_def visitor_keys array_index_def is_digit_def
          del: member.simps has_own.simps)
  next
    case (Obj kvs)
    let ?s = "Obj (AList.update ''nullable'' Undef kvs)"
    have got: "member ?s k = obj_get kvs k" if "k \<noteq> ''nullable''" for k
      using that by (simp add: obj_get_update)
    have inner: "calm K (?rec c)"
      if "c \<in> set (vparts (k, obj_get kvs k))" for c k
    proof (cases "obj_get kvs k = Undef")
      case True
      then show ?thesis using that leaf by (auto split: if_splits)
    next
      case False
      then show ?thesis using that visited_member [OF Obj False] part by blast
    qed
    have elems: "calm K (mapV ?rec (map snd (own_props (obj_get kvs k))))" if "k = ''oneOf'' \<or> k = ''allOf''" for k
    proof (rule calm_map)
      fix c assume "c \<in> set (map snd (own_props (obj_get kvs k)))"
      then show "calm K (?rec c)" using inner [of c k] that by (elim disjE) simp_all
    qed
    have props: "calm K (mapV (\<lambda>(k, s). bindV (?rec s) (\<lambda>s'. returnV (k, s'))) (own_props (obj_get kvs ''properties'')))"
      by (rule calm_map) (use inner [of _ "''properties''"] in \<open>force intro!: calm_bind\<close>)
    have names: "calm K (?rec (if truthy (obj_get kvs ''propertyNames'') then obj_get kvs ''propertyNames''
        else Obj [(''type'', Str ''string'')]))"
      using inner [of _ "''propertyNames''"] leaf by auto
    have more: "calm K (?rec (object_or_empty (obj_get kvs ''additionalProperties'')))"
      using inner [of _ "''additionalProperties''"] leaf by (auto simp: object_or_empty_def)
    have items: "calm K (?rec (obj_get kvs ''items''))" using inner [of _ "''items''"] by simp
    have ref: "calm K (bindV (resolve_ref L openapi ?rec (obj_get kvs ''$ref''))
        (\<lambda>ret. if truthy (member ret ''$ref'') then returnV ret else ?rec ret))"
    proof (cases "obj_get kvs ''$ref''")
      case (Str r)
      have r: "ok r" "rk r < m" using Suc.prems(1) refs_all.simps [of _ s] Obj Str by auto
      have "calm K (bindV (define_as (ref_id r) (?rec (ref_target L openapi r)) (ref_object t))
          (\<lambda>ret. if truthy (member ret ''$ref'') then returnV ret else ?rec ret))" if "t \<noteq> []" for t
      proof -
        have "bindV (define_as (ref_id r) (?rec (ref_target L openapi r)) (ref_object t))
            (\<lambda>ret. if truthy (member ret ''$ref'') then returnV ret else ?rec ret)
          = define_as (ref_id r) (?rec (ref_target L openapi r)) (ref_object t)"
        proof
          fix defs
          show "bindV (define_as (ref_id r) (?rec (ref_target L openapi r)) (ref_object t))
              (\<lambda>ret. if truthy (member ret ''$ref'') then returnV ret else ?rec ret) defs
            = define_as (ref_id r) (?rec (ref_target L openapi r)) (ref_object t) defs"
            using that by (cases "?rec (ref_target L openapi r) defs")
              (auto simp: bindV_def define_as_def returnV_def ref_object_truthy)
        qed
        then show ?thesis using calm_define [OF jump [OF r]] foreign [OF r(1)] by simp
      qed
      then show ?thesis using Str foreign [OF r(1)] by (simp add: resolve_ref_def)
    qed (simp_all add: resolve_ref_def)
    have "calm K (visit_schema L (resolve_ref L openapi) ?rec ?s)"
      using elems [of "''oneOf''"] elems [of "''allOf''"] ref props names more items
      by (auto simp: visit_schema_def visit_object_def visitor_keys got simp del: member.simps intro!: calm_bind)
    then show ?thesis using Obj by (simp add: visit_step_def)
  qed (simp_all add: visit_step_def visit_schema_def)
qed simp

end

section \<open>The whole schema\<close>

lemma size_member_le: "size (member v k) \<le> size v"
proof (cases v)
  case (Arr xs)
  then show ?thesis using size_elems [OF nth_mem [of _ xs]] by (auto split: option.splits intro: less_imp_le)
next
  case (Obj kvs)
  then show ?thesis using size_obj_member [of kvs k] by simp
qed simp_all

lemma size_walk_path: "size (walk_path v ks) \<le> size v"
  by (induction ks arbitrary: v) (auto intro: order_trans size_member_le)

definition visited_branch :: "string \<Rightarrow> js \<Rightarrow> js \<Rightarrow> js" where
  "visited_branch k s names =
     Obj [(''properties'', Obj [(k, s)]), (''required'', Arr [Str k]), (''additionalProperties'', Bool False),
          (''type'', Str ''object''), (''nullable'', Undef), (''propertyNames'', names)]"

context lodash_api begin

lemma size_target: "size (ref_target L openapi r) \<le> size openapi + 1"
  using size_walk_path [of openapi "split_on (CHR ''/'') (drop 2 r)"]
  by (auto simp: ref_target_def get_eq ref_get_def Let_def)

lemma visit_root:
  "visit L resolve [] (Suc n) (Obj [(''oneOf'', Arr bs), (''definitions'', d)])
   = bindV (mapV (visit L resolve [] n) bs) (\<lambda>ss.
       returnV (Obj [(''oneOf'', Arr ss), (''definitions'', d), (''nullable'', Undef)]))"
proof -
  have "map snd (zip (map nat_str [0..<length bs]) bs) = bs" by simp
  then show ?thesis
    by (simp add: visit_step_def visit_schema_def visitor_keys obj_has_def obj_get_def with_key_def)
qed

lemma step_field:
  "visit_step L resolve [] rec (Obj [(''$ref'', Str r), (''description'', d)])
    = (if r = [] then returnV (Obj [(''$ref'', Str r), (''description'', d), (''nullable'', Undef)])
       else bindV (resolve rec (Str r)) (\<lambda>ret. if truthy (member ret ''$ref'') then returnV ret else rec ret))"
  by (simp add: visit_step_def visit_schema_def visitor_keys obj_has_def obj_get_def object_like_def array_like_def)

lemma step_leaf:
  "visit_step L resolve [] rec (Obj [(''type'', Str ''string'')])
    = returnV (Obj [(''type'', Str ''string''), (''nullable'', Undef)])"
  by (simp add: visit_step_def visit_schema_def visitor_keys object_like_def array_like_def obj_has_def obj_get_def)

lemma step_branch:
  "visit_step L resolve [] rec (operation_branch k op)
    = bindV (rec (Obj [(''$ref'', Str (definition_ref k)), (''description'', member op ''summary'')])) (\<lambda>s.
        bindV (rec (Obj [(''type'', Str ''string'')])) (\<lambda>names. returnV (visited_branch k s names)))"
  by (simp add: visit_step_def visit_schema_def visit_object_def visitor_keys operation_branch_def visited_branch_def
      object_like_def obj_has_def obj_get_def with_key_def bindV_assoc)

lemma visit_branch:
  assumes "CHR ''/'' \<notin> set k"
  shows "visit L (resolve_ref L openapi) [] (Suc (Suc (Suc n))) (operation_branch k op) defs
    = bindS (visit L (resolve_ref L openapi) [] (Suc n) (obj_get defs k) defs) (\<lambda>(v, d).
        Inr (visited_branch k (ref_object (definition_ref k)) (Obj [(''type'', Str ''string''), (''nullable'', Undef)]),
             AList.update k v d))"
proof -
  let ?visit = "visit L (resolve_ref L openapi) []"
  have "?visit (Suc (Suc n)) (Obj [(''$ref'', Str (definition_ref k)), (''description'', member op ''summary'')]) defs
    = bindS (?visit (Suc n) (obj_get defs k) defs) (\<lambda>(v, d). Inr (ref_object (definition_ref k), AList.update k v d))"
    unfolding visit.simps(2) [of _ _ _ "Suc n"] step_field
    by (cases "?visit (Suc n) (obj_get defs k) defs")
      (auto simp: bindV_def returnV_def resolve_ref_def define_as_def is_local_target ref_id_target [OF assms]
        ref_object_truthy simp del: visit.simps split: prod.splits)
  moreover have "?visit (Suc (Suc n)) (Obj [(''type'', Str ''string'')])
      = returnV (Obj [(''type'', Str ''string''), (''nullable'', Undef)])"
    unfolding visit.simps(2) [of _ _ _ "Suc n"] by (rule step_leaf)
  ultimately show ?thesis
    unfolding visit.simps(2) [of _ _ _ "Suc (Suc n)"] step_branch
    by (cases "?visit (Suc n) (obj_get defs k) defs") (auto simp: bindV_def returnV_def simp del: visit.simps)
qed

end

text \<open>
  The branches one after the other: each has its own operation visited, from the definition it
  began with, as long as no other one is called the same.
\<close>

context lodash_api begin

lemma branches_end:
  assumes calm: "\<And>k. k \<in> K \<Longrightarrow> calm K (visit L (resolve_ref L openapi) [] (Suc n) (obj_get defs0 k))"
    and slash: "\<And>k. k \<in> K \<Longrightarrow> CHR ''/'' \<notin> set k"
  shows "set (map fst ops) \<subseteq> K \<Longrightarrow> distinct (map fst ops) \<Longrightarrow>
    (\<And>k. k \<in> fst ` set ops \<Longrightarrow> obj_get defs k = obj_get defs0 k) \<Longrightarrow>
    mapV (visit L (resolve_ref L openapi) [] (Suc (Suc (Suc n)))) (map (\<lambda>(k, op). operation_branch k op) ops) defs
      \<noteq> Inl Overflow"
proof (induction ops arbitrary: defs)
  case Nil
  then show ?case by (simp add: returnV_def)
next
  case (Cons p ops)
  let ?visit = "visit L (resolve_ref L openapi) []"
  obtain k op where p: "p = (k, op)" by (cases p)
  have k: "k \<in> K" "obj_get defs k = obj_get defs0 k" using Cons.prems p by auto
  have branch: "?visit (Suc (Suc (Suc n))) (operation_branch k op) defs
    = bindS (?visit (Suc n) (obj_get defs0 k) defs) (\<lambda>(v, d).
        Inr (visited_branch k (ref_object (definition_ref k)) (Obj [(''type'', Str ''string''), (''nullable'', Undef)]),
             AList.update k v d))"
    using visit_branch [OF slash [OF k(1)]] k(2) by simp
  show ?case
  proof (cases "?visit (Suc n) (obj_get defs0 k) defs")
    case (Inl e)
    then show ?thesis
      using branch calmD [OF calm [OF k(1)], of defs] p
      by (auto simp: bindV_def simp del: visit.simps)
  next
    case (Inr q)
    then obtain v d where q: "?visit (Suc n) (obj_get defs0 k) defs = Inr (v, d)" by (cases q) auto
    have rest: "mapV (?visit (Suc (Suc (Suc n)))) (map (\<lambda>(k, op). operation_branch k op) ops) (AList.update k v d)
        \<noteq> Inl Overflow"
    proof (rule Cons.IH)
      fix k' assume k': "k' \<in> fst ` set ops"
      then have "k' \<noteq> k" "k' \<in> K" using Cons.prems(1,2) p by auto
      then show "obj_get (AList.update k v d) k' = obj_get defs0 k'"
        using calm_keeps [OF calm [OF k(1)] q] Cons.prems(3) [of k'] k' by (simp add: obj_get_update)
    qed (use Cons.prems p in auto)
    then show ?thesis
      using branch q p
      by (cases "mapV (?visit (Suc (Suc (Suc n)))) (map (\<lambda>(k, op). operation_branch k op) ops) (AList.update k v d)")
        (auto simp: bindV_def returnV_def simp del: visit.simps)
  qed
qed

end

lemma request_definitions_keys:
  "request_definitions openapi = Inr defs \<Longrightarrow> map fst defs = map fst (own_props (member openapi ''operations''))"
proof -
  have "mapS (\<lambda>(k, op). bindS (operation_schema op) (\<lambda>s. Inr (k, s))) ops = Inr ds \<Longrightarrow> map fst ds = map fst ops" for ops ds
    by (induction ops arbitrary: ds) (auto simp: bindS_Inr)
  then show "request_definitions openapi = Inr defs \<Longrightarrow> map fst defs = map fst (own_props (member openapi ''operations''))"
    by (simp add: request_definitions_def)
qed

lemma convert_result:
  assumes "lodash_ok L" and "convertToRequestSchema L (Suc n) openapi = Inr schema"
  obtains definitions ss defs where "request_definitions openapi = Inr definitions"
    and "mapV (visit L (resolve_ref L openapi) [] n) (request_branches openapi) definitions = Inr (ss, defs)"
    and "schema = Obj [(''oneOf'', Arr ss), (''definitions'', Obj defs), (''nullable'', Undef)]"
  using assms(2) lodash_api.visit_root [OF lodash_apiI [OF assms(1)]]
  by (auto simp: convertToRequestSchema_def bindS_Inr bindV_def returnV_def AList.delete_eq simp del: visit.simps)

section \<open>Properties\<close>

text \<open>
  C25. Every reference that can be followed from the schema of requests is local and names one of
  its definitions: what the document has elsewhere was copied.
\<close>

theorem request_schema_closed:
  assumes "lodash_ok L" and "convertToRequestSchema L n openapi = Inr schema"
  shows "\<exists>P defs. member schema ''definitions'' = Obj defs \<and> P \<subseteq> fst ` set defs
    \<and> refs_ok (names_one_of P) schema \<and> (\<forall>k \<in> P. refs_ok (names_one_of P) (obj_get defs k))"
proof -
  note api = lodash_apiI [OF assms(1)]
  obtain n' where n: "n = Suc n'"
    using assms(2) by (cases n) (auto simp: convertToRequestSchema_def failV_def bindS_Inr)
  obtain definitions ss defs where r: "request_definitions openapi = Inr definitions"
    "mapV (visit L (resolve_ref L openapi) [] n') (request_branches openapi) definitions = Inr (ss, defs)"
    "schema = Obj [(''oneOf'', Arr ss), (''definitions'', Obj defs), (''nullable'', Undef)]"
    using convert_result [OF assms(1)] assms(2) n by metis
  have visits: "keeps {} (\<lambda>P. list_all (good_result P)) (mapV (visit L (resolve_ref L openapi) [] n') (request_branches openapi))"
    by (rule keeps_map) (rule lodash_api.keeps_visit [OF api], erule (1) good_result_mono)
  have "closed_under {} definitions" by (simp add: closed_under_def)
  from keepsD [OF visits subset_refl this r(2)] obtain P where P: "closed_under P defs" "list_all (good_result P) ss"
    by blast
  have "P \<subseteq> fst ` set defs" using P(1) by (auto simp: closed_under_def obj_has_def)
  moreover have "good_result P schema"
    by (rule branch_oneOf) (use P(2) in \<open>simp_all add: r(3) obj_has_def obj_get_def\<close>)
  moreover have "member schema ''definitions'' = Obj defs" by (simp add: r(3) obj_get_def)
  ultimately show ?thesis using P(1) by (auto simp: closed_under_def)
qed

text \<open>
  C26. The conversion ends, with fuel known in advance, when the document's references are ranked:
  every referenced schema only refers to lower ones. No referenced schema may be called like an
  operation, as both become definitions.
\<close>

theorem request_schema_ends:
  assumes "lodash_ok L" and "request_definitions openapi = Inr definitions"
    and "distinct (map fst definitions)" and "\<forall>k \<in> fst ` set definitions. CHR ''/'' \<notin> set k"
    and "\<forall>r. ok r \<longrightarrow> \<not> is_local r \<and> ref_id r \<notin> fst ` set definitions
           \<and> refs_all (\<lambda>r'. ok r' \<and> rk r' < rk r) (ref_target L openapi r)"
    and "\<forall>(k, s) \<in> set definitions. refs_all (\<lambda>r. ok r \<and> rk r < m) s
           \<and> m * (size openapi + 4) + size s + 6 \<le> n"
    and "4 \<le> n"
  shows "convertToRequestSchema L n openapi \<noteq> Inl Overflow"
proof
  note api = lodash_apiI [OF assms(1)]
  assume overflow: "convertToRequestSchema L n openapi = Inl Overflow"
  let ?K = "fst ` set definitions"
  let ?ops = "own_props (member openapi ''operations'')"
  obtain j where n: "n = Suc (Suc (Suc (Suc j)))"
  proof
    show "n = Suc (Suc (Suc (Suc (n - 4))))" using assms(7) by simp
  qed
  have keys: "map fst ?ops = map fst definitions" using request_definitions_keys [OF assms(2)] by simp
  have calm: "calm ?K (visit L (resolve_ref L openapi) [] (Suc j) (obj_get definitions k))" if k: "k \<in> ?K" for k
  proof -
    obtain s where sd: "(k, s) \<in> set definitions" using k by auto
    note s = sd obj_get_in [OF assms(3) sd]
    then have "refs_all (\<lambda>r. ok r \<and> rk r < m) s" "m * (size openapi + 4) + size s + 3 \<le> Suc j"
      using assms(6) n by fastforce+
    then show ?thesis
      unfolding s(2)
      using lodash_api.calm_visit [OF api, of ok rk openapi ?K m s "Suc j"] assms(5) lodash_api.size_target [OF api]
      by blast
  qed
  have "mapV (visit L (resolve_ref L openapi) [] (Suc (Suc (Suc j)))) (map (\<lambda>(k, op). operation_branch k op) ?ops)
      definitions \<noteq> Inl Overflow"
  proof (rule lodash_api.branches_end [OF api calm])
    show "set (map fst ?ops) \<subseteq> ?K" "distinct (map fst ?ops)" using keys assms(3) by simp_all
  qed (use assms(4) in auto)
  then show False
    using overflow assms(2) n lodash_api.visit_root [OF api, of _ "Suc (Suc (Suc j))"]
    by (cases "mapV (visit L (resolve_ref L openapi) [] (Suc (Suc (Suc j)))) (request_branches openapi) definitions")
      (auto simp: convertToRequestSchema_def bindV_def returnV_def request_branches_def simp del: visit.simps)
qed

definition demo_id_schema :: js where
  "demo_id_schema = Obj [(''type'', Str ''string'')]"

definition demo_operation :: js where
  "demo_operation = Obj
     [(''operationId'', Str ''getPet''), (''summary'', Str ''a pet''), (''tags'', Arr [Str ''pet'']),
      (''parameters'', Arr [Obj [(''name'', Str ''id''), (''in'', Str ''path''), (''required'', Bool True),
         (''schema'', Obj [(''$ref'', Str ''#/components/schemas/Id'')])]])]"

definition demo_openapi :: js where
  "demo_openapi = Obj
     [(''paths'', Obj [(''/pets/{id}'', Obj [(''get'', demo_operation)])]),
      (''components'', Obj [(''schemas'', Obj [(''Id'', demo_id_schema)])])]"

definition demo_patched :: js where
  "demo_patched = Obj
     [(''paths'', Obj [(''/pets/{id}'', Obj [(''get'', demo_operation)])]),
      (''components'', Obj [(''schemas'', Obj [(''Id'', demo_id_schema)])]),
      (''servers'', Arr [Obj [(''url'', Str ''http://a'')]]),
      (''operations'', Obj [(''getPet'', Obj (own_props demo_operation @
         [(''method'', Str ''get''), (''path'', Str ''/pets/{id}''), (''basePath'', Str ''http://a''), (''group'', Str ''pet'')]))])]"

lemma demo_patch: "patchOpenAPI demo_openapi ''http://a'' = Inr demo_patched"
  by code_simp

definition demo_definition :: "js \<Rightarrow> js" where
  "demo_definition id_schema = Obj
     [(''type'', Str ''object''), (''description'', Str ''a pet''), (''x-method'', Str ''GET''),
      (''x-path'', Str ''/pets/{id}''), (''x-id'', Str ''getPet''), (''required'', Arr [Str ''id'']),
      (''additionalProperties'', Bool False),
      (''properties'', Obj [(''id'', id_schema),
         (''__responses'', Obj [(''type'', Str ''object''), (''description'', Str responses_description),
            (''properties'', Obj [])])])]"

definition demo_param :: js where
  "demo_param = Obj [(''$ref'', Str ''#/components/schemas/Id''), (''x-param-in'', Str ''path'')]"

lemma demo_definitions: "request_definitions demo_patched = Inr [(''getPet'', demo_definition demo_param)]"
  by code_simp

lemma demo_converted:
  "case convertToRequestSchema lodash_ref 10 demo_patched of
     Inl e \<Rightarrow> False
   | Inr schema \<Rightarrow> map fst (own_props (member schema ''definitions'')) = [''getPet'', ''Id'']
       \<and> member (member (member (member schema ''definitions'') ''getPet'') ''properties'') ''id''
           = Obj [(''$ref'', Str ''#/definitions/Id'')]"
  by code_simp

theorem request_schema_closed_witness:
  "\<exists>schema P defs. convertToRequestSchema lodash_ref 10 demo_patched = Inr schema
     \<and> member schema ''definitions'' = Obj defs \<and> P \<subseteq> fst ` set defs \<and> refs_ok (names_one_of P) schema"
proof -
  obtain schema where s: "convertToRequestSchema lodash_ref 10 demo_patched = Inr schema"
    using demo_converted by (auto split: sum.splits)
  from request_schema_closed [OF lodash_ref_ok s] show ?thesis using s by blast
qed

lemma demo_target:
  "ref_target lodash_ref demo_patched ''#/components/schemas/Id'' = demo_id_schema"
  by code_simp

lemma refs_all_Obj:
  "refs_all P (Obj kvs) \<longleftrightarrow> (\<forall>r. obj_get kvs ''$ref'' = Str r \<longrightarrow> P r) \<and> list_all (refs_all P) (concat (map vparts kvs))"
  by (subst refs_all.simps) (simp add: visited_def list_all_iff)

lemma refs_all_plain: "\<not> is_plain_object s \<Longrightarrow> \<not> is_array s \<Longrightarrow> refs_all P s"
  by (subst refs_all.simps) (cases s; simp add: visited_def)

theorem request_schema_ends_witness: "convertToRequestSchema lodash_ref 400 demo_patched \<noteq> Inl Overflow"
proof (rule request_schema_ends [OF lodash_ref_ok demo_definitions, where
      ok = "\<lambda>r. r = ''#/components/schemas/Id''" and rk = "\<lambda>r. 0" and m = 1])
  show "\<forall>r. r = ''#/components/schemas/Id'' \<longrightarrow> \<not> is_local r \<and> ref_id r \<notin> fst ` set [(''getPet'', demo_definition demo_param)]
      \<and> refs_all (\<lambda>r'. r' = ''#/components/schemas/Id'' \<and> (0 :: nat) < 0) (ref_target lodash_ref demo_patched r)"
    by (auto simp: demo_target demo_id_schema_def is_local_def ref_id_def refs_all_Obj obj_get_def)
  show "\<forall>(k, s) \<in> set [(''getPet'', demo_definition demo_param)].
      refs_all (\<lambda>r. r = ''#/components/schemas/Id'' \<and> (0 :: nat) < 1) s
      \<and> 1 * (size demo_patched + 4) + size s + 6 \<le> 400"
    by (simp add: demo_definition_def demo_param_def demo_patched_def demo_operation_def demo_id_schema_def
        refs_all_Obj refs_all_plain obj_get_def)
qed simp_all

section \<open>Where the conversion does not do what it means to\<close>

text \<open>A schema with a member of its own kind, such as a tree, is visited without end.\<close>

definition recursive_document :: js where
  "recursive_document = Obj [(''components'', Obj [(''schemas'', Obj [(''Tree'',
     Obj [(''type'', Str ''object''),
          (''properties'', Obj [(''next'', Obj [(''$ref'', Str ''#/components/schemas/Tree'')])])])])])]"

lemma recursive_target:
  "ref_target lodash_ref recursive_document ''#/components/schemas/Tree''
   = Obj [(''type'', Str ''object''), (''properties'', Obj [(''next'', Obj [(''$ref'', Str ''#/components/schemas/Tree'')])])]"
  by code_simp

lemma visit_tree_ref:
  "visit lodash_ref (resolve_ref lodash_ref recursive_document) [] (Suc n) (Obj [(''$ref'', Str ''#/components/schemas/Tree'')]) defs
   = bindS (visit lodash_ref (resolve_ref lodash_ref recursive_document) [] n
        (Obj [(''type'', Str ''object''), (''properties'', Obj [(''next'', Obj [(''$ref'', Str ''#/components/schemas/Tree'')])])]) defs)
       (\<lambda>(v, d). Inr (Obj [(''$ref'', Str ''#/definitions/Tree'')], AList.update ''Tree'' v d))"
proof -
  have "\<not> is_local ''#/components/schemas/Tree''" "ref_id ''#/components/schemas/Tree'' = ''Tree''"
    by (simp_all add: is_local_def ref_id_def)
  then show ?thesis
    by (cases "visit lodash_ref (resolve_ref lodash_ref recursive_document) [] n
        (Obj [(''type'', Str ''object''), (''properties'', Obj [(''next'', Obj [(''$ref'', Str ''#/components/schemas/Tree'')])])]) defs")
      (auto simp: visit_step_def visit_schema_def std.visitor_keys obj_has_def obj_get_def resolve_ref_def recursive_target
        define_as_def bindV_def returnV_def ref_object_def definition_ref_def)
qed

lemma visit_tree:
  "visit lodash_ref (resolve_ref lodash_ref recursive_document) [] n
     (Obj [(''$ref'', Str ''#/components/schemas/Tree'')]) defs = Inl Overflow \<Longrightarrow>
   visit lodash_ref (resolve_ref lodash_ref recursive_document) [] (Suc n)
     (Obj [(''type'', Str ''object''), (''properties'', Obj [(''next'', Obj [(''$ref'', Str ''#/components/schemas/Tree'')])])]) defs
   = Inl Overflow"
  by (simp add: visit_step_def visit_schema_def visit_object_def std.visitor_keys obj_has_def obj_get_def object_like_def
      bindV_def)

lemma recursive_schema_overflows:
  "visit lodash_ref (resolve_ref lodash_ref recursive_document) [] n
     (Obj [(''$ref'', Str ''#/components/schemas/Tree'')]) defs = Inl Overflow"
proof (induction n rule: less_induct)
  case (less n)
  show ?case
  proof (cases n)
    case (Suc n')
    show ?thesis
    proof (cases n')
      case (Suc n'')
      then show ?thesis
        using less [of n''] \<open>n = Suc n'\<close> visit_tree by (simp only: visit_tree_ref bindS.simps)
    qed (simp add: Suc visit_tree_ref failV_def del: visit.simps(2))
  qed (simp add: failV_def)
qed

text \<open>An operation without tags makes reading the whole document raise.\<close>

lemma untagged_operation_raises:
  "patchOpenAPI (Obj [(''paths'', Obj [(''/pets'', Obj [(''get'', Obj [(''operationId'', Str ''listPet'')])])])]) basePath
   = Inl SchemaTypeError"
  by (simp add: patchOpenAPI_def patched_operations_def patch_operation_def group_of_def operationsIgnored_def obj_get_def
      nullish_def)

text \<open>
  A parameter whose schema is a reference is left as that reference alone: where the parameter
  goes is lost (the first of these is what the visitor is given).
\<close>

lemma reference_loses_param_in:
  "request_definitions demo_patched = Inr [(''getPet'', demo_definition demo_param)] \<and>
   (case convertToRequestSchema lodash_ref 10 demo_patched of
      Inl e \<Rightarrow> False
    | Inr schema \<Rightarrow> map fst (own_props (member schema ''definitions'')) = [''getPet'', ''Id'']
       \<and> member (member (member (member schema ''definitions'') ''getPet'') ''properties'') ''id''
           = Obj [(''$ref'', Str ''#/definitions/Id'')])"
  by (rule conjI [OF demo_definitions demo_converted])

end
