(* ===== verification/Web_Encoding.thy ===== *)
theory Web_Encoding
  imports KP_Prelude
begin

text \<open>
  The encodings of the web platform the dashboard uses: \<^verbatim>\<open>encodeURIComponent\<close> and
  \<^verbatim>\<open>decodeURIComponent\<close>, the form encoding of \<^verbatim>\<open>URLSearchParams\<close>, and \<^verbatim>\<open>btoa\<close> and \<^verbatim>\<open>atob\<close>.
  A string is its UTF-8 bytes, so percent encoding acts on its elements; \<^verbatim>\<open>btoa\<close> reads code
  units, which are the bytes as long as the string is ASCII, and is undefined here otherwise.
\<close>

section \<open>Percent encoding\<close>

definition hex_digit :: "nat \<Rightarrow> char" where
  "hex_digit n = ''0123456789ABCDEF'' ! n"

definition hex_value :: "char \<Rightarrow> nat option" where
  "hex_value c =
     (let n = of_char c :: nat in
      if 48 \<le> n \<and> n \<le> 57 then Some (n - 48)
      else if 65 \<le> n \<and> n \<le> 70 then Some (n - 55)
      else if 97 \<le> n \<and> n \<le> 102 then Some (n - 87)
      else None)"

definition percent_byte :: "char \<Rightarrow> string" where
  "percent_byte c = [CHR ''%'', hex_digit (of_char c div 16), hex_digit (of_char c mod 16)]"

definition encode_with :: "(char \<Rightarrow> bool) \<Rightarrow> string \<Rightarrow> string" where
  "encode_with keep s = concat (map (\<lambda>c. if keep c then [c] else percent_byte c) s)"

fun percent_decode :: "string \<Rightarrow> string option" where
  "percent_decode [] = Some []"
| "percent_decode (c # s) =
     (if c = CHR ''%'' then
        (case s of
           h # l # s' \<Rightarrow>
             (case (hex_value h, hex_value l) of
                (Some a, Some b) \<Rightarrow> map_option ((#) (char_of (16 * a + b))) (percent_decode s')
              | _ \<Rightarrow> None)
         | _ \<Rightarrow> None)
      else map_option ((#) c) (percent_decode s))"

definition is_alnum :: "char \<Rightarrow> bool" where
  "is_alnum c =
     (let n = of_char c :: nat in 48 \<le> n \<and> n \<le> 57 \<or> 65 \<le> n \<and> n \<le> 90 \<or> 97 \<le> n \<and> n \<le> 122)"

definition unreserved :: "char \<Rightarrow> bool" where
  "unreserved c \<longleftrightarrow> is_alnum c \<or> c \<in> set ''-_.!~*()'' \<or> c = CHR 0x27"

text \<open>
  Bytes that are UTF-8, which is what \<^verbatim>\<open>decodeURIComponent\<close> requires of what it decodes:
  \<open>need\<close> more continuation bytes are due, the next between \<open>lo\<close> and \<open>hi\<close>.
\<close>

fun utf8_tail :: "nat \<Rightarrow> nat \<Rightarrow> nat \<Rightarrow> string \<Rightarrow> bool" where
  "utf8_tail 0 lo hi [] = True"
| "utf8_tail (Suc need) lo hi [] = False"
| "utf8_tail (Suc need) lo hi (c # s) =
     (lo \<le> of_char c \<and> (of_char c :: nat) \<le> hi \<and> utf8_tail need 128 191 s)"
| "utf8_tail 0 lo hi (c # s) =
     (let n = of_char c :: nat in
      if n < 128 then utf8_tail 0 128 191 s
      else if 194 \<le> n \<and> n \<le> 223 then utf8_tail 1 128 191 s
      else if n = 224 then utf8_tail 2 160 191 s
      else if 225 \<le> n \<and> n \<le> 239 then utf8_tail 2 128 (if n = 237 then 159 else 191) s
      else if n = 240 then utf8_tail 3 144 191 s
      else if 241 \<le> n \<and> n \<le> 243 then utf8_tail 3 128 191 s
      else if n = 244 then utf8_tail 3 128 143 s
      else False)"

definition utf8 :: "string \<Rightarrow> bool" where
  "utf8 s = utf8_tail 0 128 191 s"

definition encodeURIComponent :: "string \<Rightarrow> string" where
  "encodeURIComponent s = encode_with unreserved s"

text \<open>\<open>None\<close> is the \<^verbatim>\<open>URIError\<close>.\<close>

definition decodeURIComponent :: "string \<Rightarrow> string option" where
  "decodeURIComponent s =
     (case percent_decode s of None \<Rightarrow> None | Some t \<Rightarrow> if utf8 t then Some t else None)"

lemma hex_value_digit: "n < 16 \<Longrightarrow> hex_value (hex_digit n) = Some n"
proof -
  assume "n < 16"
  then have "n \<in> set [0..<16]" by simp
  moreover have "list_all (\<lambda>n. hex_value (hex_digit n) = Some n) [0..<16]" by code_simp
  ultimately show ?thesis unfolding list_all_iff by blast
qed

lemma percent_decode_byte: "percent_decode (percent_byte c @ s) = map_option ((#) c) (percent_decode s)"
proof -
  have "(of_char c :: nat) < 256" by simp
  then have "(of_char c :: nat) div 16 < 16" by linarith
  then show ?thesis by (simp add: percent_byte_def hex_value_digit)
qed

lemma percent_decode_encode: "\<not> keep (CHR ''%'') \<Longrightarrow> percent_decode (encode_with keep s) = Some s"
proof (induction s)
  case (Cons c s)
  then show ?case
    using percent_decode_byte [of c "encode_with keep s"] by (auto simp: encode_with_def)
qed (simp add: encode_with_def)

lemma decode_encode_component: "utf8 s \<Longrightarrow> decodeURIComponent (encodeURIComponent s) = Some s"
  by (simp add: decodeURIComponent_def encodeURIComponent_def percent_decode_encode unreserved_def is_alnum_def)

definition ascii :: "string \<Rightarrow> bool" where
  "ascii s = list_all (\<lambda>c. (of_char c :: nat) < 128) s"

lemma ascii_utf8: "ascii s \<Longrightarrow> utf8 s"
proof -
  have "ascii s \<Longrightarrow> utf8_tail 0 128 191 s"
    by (induction s) (auto simp: ascii_def Let_def)
  then show "ascii s \<Longrightarrow> utf8 s" by (simp add: utf8_def)
qed

section \<open>Query strings\<close>

text \<open>
  The serialization of one parameter by \<^verbatim>\<open>URLSearchParams\<close>, and the value a router reads back
  from a query string: \<^verbatim>\<open>+\<close> is a space, escapes are decoded, a value that does not decode is
  left as it is.
\<close>

definition form_keep :: "char \<Rightarrow> bool" where
  "form_keep c \<longleftrightarrow> is_alnum c \<or> c \<in> set ''*-._''"

definition form_encode :: "string \<Rightarrow> string" where
  "form_encode s = concat (map (\<lambda>c. if c = CHR '' '' then ''+'' else if form_keep c then [c] else percent_byte c) s)"

definition query_decode :: "string \<Rightarrow> string" where
  "query_decode s =
     (let t = replace1 (CHR ''+'') '' '' s in
      case decodeURIComponent t of None \<Rightarrow> t | Some u \<Rightarrow> u)"

lemma form_encode_plus: "replace1 (CHR ''+'') '' '' (form_encode s) = encode_with (\<lambda>c. c = CHR '' '' \<or> form_keep c) s"
proof (induction s)
  case (Cons c s)
  have "hex_digit n \<noteq> CHR ''+''" if "n < 16" for n
    using hex_value_digit [OF that] by (auto simp: hex_value_def)
  moreover have "(of_char c :: nat) < 256" by simp
  moreover from this have "(of_char c :: nat) div 16 < 16" by linarith
  moreover have "\<not> form_keep (CHR ''+'')" by (simp add: form_keep_def is_alnum_def)
  ultimately show ?case using Cons by (auto simp: form_encode_def encode_with_def percent_byte_def)
qed (simp add: form_encode_def encode_with_def)

lemma query_decode_form: "utf8 s \<Longrightarrow> query_decode (form_encode s) = s"
  by (simp add: query_decode_def form_encode_plus decodeURIComponent_def percent_decode_encode
      form_keep_def is_alnum_def)

section \<open>Base 64\<close>

definition b64_alphabet :: string where
  "b64_alphabet = ''ABCDEFGHIJKLMNOPQRSTUVWXYZabcdefghijklmnopqrstuvwxyz0123456789+/''"

definition b64_char :: "nat \<Rightarrow> char" where
  "b64_char n = b64_alphabet ! n"

definition b64_value :: "char \<Rightarrow> nat option" where
  "b64_value c =
     (let n = of_char c :: nat in
      if 65 \<le> n \<and> n \<le> 90 then Some (n - 65)
      else if 97 \<le> n \<and> n \<le> 122 then Some (n - 71)
      else if 48 \<le> n \<and> n \<le> 57 then Some (n + 4)
      else if n = 43 then Some 62
      else if n = 47 then Some 63
      else None)"

fun b64_encode :: "nat list \<Rightarrow> string" where
  "b64_encode [] = []"
| "b64_encode [a] = [b64_char (a div 4), b64_char (a mod 4 * 16), CHR ''='', CHR ''='']"
| "b64_encode [a, b] =
     [b64_char (a div 4), b64_char (a mod 4 * 16 + b div 16), b64_char (b mod 16 * 4), CHR ''='']"
| "b64_encode (a # b # c # bs) =
     [b64_char (a div 4), b64_char (a mod 4 * 16 + b div 16), b64_char (b mod 16 * 4 + c div 64),
      b64_char (c mod 64)] @ b64_encode bs"

text \<open>Groups of four digits, the last of two or three; the bits left over are dropped.\<close>

fun b64_bytes :: "nat list \<Rightarrow> nat list option" where
  "b64_bytes [] = Some []"
| "b64_bytes [a] = None"
| "b64_bytes [a, b] = Some [a * 4 + b div 16]"
| "b64_bytes [a, b, c] = Some [a * 4 + b div 16, b mod 16 * 16 + c div 4]"
| "b64_bytes (a # b # c # d # ds) =
     map_option (\<lambda>bs. [a * 4 + b div 16, b mod 16 * 16 + c div 4, c mod 4 * 64 + d] @ bs) (b64_bytes ds)"

fun values_of :: "string \<Rightarrow> nat list option" where
  "values_of [] = Some []"
| "values_of (c # s) =
     (case b64_value c of None \<Rightarrow> None | Some n \<Rightarrow> map_option ((#) n) (values_of s))"

definition is_ascii_space :: "char \<Rightarrow> bool" where
  "is_ascii_space c \<longleftrightarrow> of_char c \<in> {9 :: nat, 10, 12, 13, 32}"

text \<open>Up to two equals signs at the end of a text whose length is a multiple of four.\<close>

definition strip_padding :: "string \<Rightarrow> string" where
  "strip_padding s =
     (if length s mod 4 \<noteq> 0 then s
      else if s \<noteq> [] \<and> last s = CHR ''='' then
        (let t = butlast s in if t \<noteq> [] \<and> last t = CHR ''='' then butlast t else t)
      else s)"

text \<open>\<open>None\<close> is the \<^verbatim>\<open>InvalidCharacterError\<close>.\<close>

definition btoa :: "string \<Rightarrow> string option" where
  "btoa s = (if ascii s then Some (b64_encode (map of_char s)) else None)"

definition atob :: "string \<Rightarrow> string option" where
  "atob s =
     (case values_of (strip_padding (filter (\<lambda>c. \<not> is_ascii_space c) s)) of
        None \<Rightarrow> None
      | Some ds \<Rightarrow> map_option (map char_of) (b64_bytes ds))"

lemma b64_alphabet_values: "map b64_value b64_alphabet = map Some [0..<64]"
  by (simp add: b64_alphabet_def b64_value_def upt_rec)

lemma b64_alphabet_chars: "\<forall>c \<in> set b64_alphabet. \<not> is_ascii_space c \<and> c \<noteq> CHR ''=''"
  by (simp add: b64_alphabet_def is_ascii_space_def)

lemma b64_char_facts:
  assumes "n < 64"
  shows "b64_value (b64_char n) = Some n" and "\<not> is_ascii_space (b64_char n)" and "b64_char n \<noteq> CHR ''=''"
proof -
  have len: "length b64_alphabet = 64" by (simp add: b64_alphabet_def)
  then have "b64_value (b64_char n) = map b64_value b64_alphabet ! n" using assms by (simp add: b64_char_def)
  then show "b64_value (b64_char n) = Some n" using assms by (simp add: b64_alphabet_values)
  have "b64_char n \<in> set b64_alphabet" using assms len by (simp add: b64_char_def)
  then show "\<not> is_ascii_space (b64_char n)" and "b64_char n \<noteq> CHR ''=''"
    using b64_alphabet_chars by blast+
qed

text \<open>The text is digits, then padding that completes the last group.\<close>

fun b64_digits :: "nat list \<Rightarrow> nat list" where
  "b64_digits [] = []"
| "b64_digits [a] = [a div 4, a mod 4 * 16]"
| "b64_digits [a, b] = [a div 4, a mod 4 * 16 + b div 16, b mod 16 * 4]"
| "b64_digits (a # b # c # bs) =
     [a div 4, a mod 4 * 16 + b div 16, b mod 16 * 4 + c div 64, c mod 64] @ b64_digits bs"

fun b64_padding :: "nat list \<Rightarrow> string" where
  "b64_padding [] = []"
| "b64_padding [a] = ''==''"
| "b64_padding [a, b] = ''=''"
| "b64_padding (a # b # c # bs) = b64_padding bs"

lemma b64_encode_digits: "b64_encode bs = map b64_char (b64_digits bs) @ b64_padding bs"
  by (induction bs rule: b64_encode.induct) simp_all

lemma b64_digits_range: "\<forall>b \<in> set bs. b < 256 \<Longrightarrow> \<forall>d \<in> set (b64_digits bs). d < 64"
proof (induction bs rule: b64_digits.induct)
  case (4 a b c bs)
  then have "a < 256" "b < 256" "c < 256" by simp_all
  then have "a div 4 < 64" "a mod 4 * 16 + b div 16 < 64" "b mod 16 * 4 + c div 64 < 64" "c mod 64 < 64"
    by linarith+
  with 4 show ?case by simp
next
  case (3 a b)
  then have "a < 256" "b < 256" by simp_all
  then have "a div 4 < 64" "a mod 4 * 16 + b div 16 < 64" "b mod 16 * 4 < 64" by linarith+
  then show ?case by simp
qed auto

lemma b64_bytes_digits: "\<forall>b \<in> set bs. b < 256 \<Longrightarrow> b64_bytes (b64_digits bs) = Some bs"
  by (induction bs rule: b64_digits.induct) auto

lemma values_of_chars: "\<forall>d \<in> set ds. d < 64 \<Longrightarrow> values_of (map b64_char ds) = Some ds"
  by (induction ds) (auto simp: b64_char_facts)

lemma b64_encode_length: "length (b64_encode bs) mod 4 = 0"
  by (induction bs rule: b64_encode.induct) (simp_all add: mod_Suc)

lemma b64_padding_cases: "b64_padding bs \<in> {[], ''='', ''==''}"
  by (induction bs rule: b64_padding.induct) simp_all

lemma strip_padding_encode:
  assumes "\<forall>b \<in> set bs. b < 256"
  shows "strip_padding (b64_encode bs) = map b64_char (b64_digits bs)"
proof -
  let ?ds = "map b64_char (b64_digits bs)"
  have "\<forall>c \<in> set ?ds. c \<noteq> CHR ''=''" using b64_digits_range [OF assms] b64_char_facts(3) by auto
  then have last: "?ds \<noteq> [] \<Longrightarrow> last ?ds \<noteq> CHR ''=''" by (meson last_in_set)
  have two: "butlast (?ds @ ''=='') = ?ds @ ''=''" by (simp add: butlast_append)
  have "length (?ds @ b64_padding bs) mod 4 = 0" using b64_encode_length [of bs] by (simp add: b64_encode_digits)
  then show ?thesis
    using b64_padding_cases [of bs] last two by (auto simp: b64_encode_digits strip_padding_def Let_def)
qed

lemma atob_btoa: "btoa s = Some t \<Longrightarrow> atob t = Some s"
proof -
  assume "btoa s = Some t"
  then have t: "t = b64_encode (map of_char s)" by (simp add: btoa_def split: if_splits)
  have bytes: "\<forall>b \<in> set (map of_char s). b < (256 :: nat)" by auto
  have "filter (\<lambda>c. \<not> is_ascii_space c) t = t"
    using b64_digits_range [OF bytes] b64_padding_cases [of "map of_char s"] b64_char_facts(2)
    by (auto simp: t b64_encode_digits filter_id_conv is_ascii_space_def)
  then show ?thesis
    using strip_padding_encode [OF bytes] values_of_chars [OF b64_digits_range [OF bytes]] b64_bytes_digits [OF bytes]
    by (simp add: atob_def t comp_def)
qed

end
