(* ===== verification/OpenAPI_Request.thy ===== *)
theory OpenAPI_Request
  imports OpenAPI_Schema Lodash_Collections Web_Encoding
begin

text \<open>
  What the playground sends and shows of it: \<^verbatim>\<open>nodepkg/openapi-playground/src/http.ts\<close>, the
  request \<^verbatim>\<open>Playground\<close> makes of the edited document, its submission and its documents
  (\<^verbatim>\<open>RequestPlayground.tsx\<close>), and the views of request and response (\<^verbatim>\<open>HTTPViews.tsx\<close>).
  The serializer of parameters is the fetcher's and \<^verbatim>\<open>JSON.stringify\<close> the platform's: both
  are parameters. A body shown as multipart has JSON values only, no files.
\<close>

section \<open>Parameters\<close>

definition elements_js :: "js \<Rightarrow> js list" where
  "elements_js v = map snd (own_props v)"

definition pickParametersIn :: "string \<Rightarrow> js \<Rightarrow> js list" where
  "pickParametersIn place parameters = filter (\<lambda>p. member p ''in'' = Str place) (elements_js parameters)"

definition pickKeysIn :: "string \<Rightarrow> js \<Rightarrow> string list" where
  "pickKeysIn place parameters = map (\<lambda>p. to_str (member p ''name'')) (pickParametersIn place parameters)"

definition pickDefaults :: "string \<Rightarrow> js \<Rightarrow> obj" where
  "pickDefaults place parameters =
     foldl (\<lambda>defaults p. AList.update (to_str (member p ''name'')) (member p ''default'') defaults) []
       (pickParametersIn place parameters)"

text \<open>\<^verbatim>\<open>pick(v, ks)\<close> for names that are no paths.\<close>

definition pick_names :: "js \<Rightarrow> string list \<Rightarrow> obj" where
  "pick_names v ks = foldl (\<lambda>acc k. AList.update k (member v k) acc) [] (filter (has_own v) ks)"

definition pickValuesIn :: "string \<Rightarrow> js \<Rightarrow> js \<Rightarrow> obj" where
  "pickValuesIn place parameters values =
     spread (pickDefaults place parameters) (pick_names values (pickKeysIn place parameters))"

text \<open>\<^verbatim>\<open>isEmpty\<close>: also true of every number and boolean.\<close>

fun is_empty_js :: "js \<Rightarrow> bool" where
  "is_empty_js (Str s) = (s = [])"
| "is_empty_js (Arr xs) = (xs = [])"
| "is_empty_js (Obj kvs) = (kvs = [])"
| "is_empty_js v = True"

definition mayWithQuery :: "(js \<Rightarrow> string) \<Rightarrow> obj \<Rightarrow> string" where
  "mayWithQuery paramsSerializer queries =
     (let available = filter (\<lambda>(k, v). v \<noteq> Undef) queries in
      if available = [] then [] else CHR ''?'' # paramsSerializer (Obj available))"

definition buildOriginalUrl :: "(js \<Rightarrow> string) \<Rightarrow> string \<Rightarrow> obj \<Rightarrow> string" where
  "buildOriginalUrl paramsSerializer url queries =
     url @ mayWithQuery paramsSerializer (filter (\<lambda>(k, v). \<not> is_empty_js v) queries)"

section \<open>Paths\<close>

text \<open>
  \<^verbatim>\<open>replace(path, /{([\s\S]+?)}/g, f)\<close>: from a brace, at least one character up to the next
  closing brace.
\<close>

function replace_braces :: "(string \<Rightarrow> string) \<Rightarrow> string \<Rightarrow> string" where
  "replace_braces f [] = []"
| "replace_braces f [c] = [c]"
| "replace_braces f (c # d # s) =
     (if c = CHR 0x7B \<and> CHR 0x7D \<in> set s
      then f (d # takeWhile (\<lambda>x. x \<noteq> CHR 0x7D) s) @ replace_braces f (tl (dropWhile (\<lambda>x. x \<noteq> CHR 0x7D) s))
      else c # replace_braces f (d # s))"
  by pat_completeness auto

termination
  by (relation "measure (\<lambda>(f, s). length s)")
    (auto simp: less_Suc_eq_le intro!: le_SucI order_trans [OF diff_le_self length_dropWhile_le])

text \<open>\<^verbatim>\<open>[].concat(params[key] || target).join(",")\<close>.\<close>

definition path_value :: "obj \<Rightarrow> string \<Rightarrow> string" where
  "path_value params key =
     (let v = obj_get params key in
      if truthy v then to_str v else CHR 0x7B # key @ [CHR 0x7D])"

definition compilePath :: "string \<Rightarrow> obj \<Rightarrow> string" where
  "compilePath path params = replace_braces (path_value params) path"

section \<open>Content types\<close>

definition js_or :: "js \<Rightarrow> js \<Rightarrow> js" where
  "js_or a b = (if truthy a then a else b)"

definition getContentType :: "js \<Rightarrow> string" where
  "getContentType headers =
     to_str (js_or (member headers ''Content-Type'') (js_or (member headers ''content-type'') (Str '''')))"

definition isContentTypeMultipartFormData :: "js \<Rightarrow> bool" where
  "isContentTypeMultipartFormData headers = includes_str (getContentType headers) ''multipart/form-data''"

definition isContentTypeJSON :: "js \<Rightarrow> bool" where
  "isContentTypeJSON headers = includes_str (getContentType headers) ''application/json''"

definition isContentTypeFormURLEncoded :: "js \<Rightarrow> bool" where
  "isContentTypeFormURLEncoded headers = includes_str (getContentType headers) ''application/x-www-form-urlencoded''"

definition isContentTypeTextPlain :: "js \<Rightarrow> bool" where
  "isContentTypeTextPlain headers = includes_str (getContentType headers) ''text/plain''"

definition isContentTypeTextHTML :: "js \<Rightarrow> bool" where
  "isContentTypeTextHTML headers = includes_str (getContentType headers) ''text/html''"

definition getHeadContentType :: "js \<Rightarrow> js" where
  "getHeadContentType operation =
     (if truthy (member operation ''requestBody'')
      then (case own_props (member (member operation ''requestBody'') ''content'') of
              [] \<Rightarrow> Str '''' | (ct, _) # _ \<Rightarrow> Str ct)
      else (case elements_js (js_or (member operation ''produces'') (Arr [])) of
              [] \<Rightarrow> Str '''' | ct # _ \<Rightarrow> js_or ct (Str '''')))"

section \<open>The request of a document\<close>

record playground_request =
  pr_inputs :: js
  pr_method :: js
  pr_url :: string
  pr_params :: obj
  pr_headers :: obj
  pr_body :: js

definition playground_headers :: "js \<Rightarrow> js \<Rightarrow> obj" where
  "playground_headers operation inputs =
     (let headers = pickValuesIn ''header'' (member operation ''parameters'') inputs;
          contentType = to_str (js_or (getHeadContentType operation) (Str ''application/json''))
      in if truthy (member inputs ''body'')
         then AList.update ''Content-Type'' (Str (contentType @ ''; charset=UTF-8'')) headers else headers)"

definition playground_request :: "lodash \<Rightarrow> js \<Rightarrow> js \<Rightarrow> playground_request sres" where
  "playground_request L openapi doc =
     (case own_props doc of
        [] \<Rightarrow> Inl SchemaTypeError
      | (operationID, inputs) # _ \<Rightarrow>
          let operation = lo_get L openapi [''operations'', operationID] Undef in
          if nullish operation \<or> nullish inputs then Inl SchemaTypeError
          else Inr \<lparr>pr_inputs = inputs, pr_method = member operation ''method'',
            pr_url = to_str (js_or (member operation ''basePath'') (Str ''''))
              @ compilePath (to_str (member operation ''path''))
                  (pickValuesIn ''path'' (member operation ''parameters'') inputs),
            pr_params = pickValuesIn ''query'' (member operation ''parameters'') inputs,
            pr_headers = playground_headers operation inputs,
            pr_body = member inputs ''body''\<rparr>)"

text \<open>
  \<^verbatim>\<open>execute\<close>: linting is forced, and the document is sent only when it has no diagnostics; what
  is not JSON raises. \<open>None\<close> is that nothing is sent.
\<close>

definition submit :: "(string \<Rightarrow> js option) \<Rightarrow> nat \<Rightarrow> string \<Rightarrow> js sres option" where
  "submit json_parse diagnostics doc =
     (if diagnostics = 0 then Some (case json_parse doc of None \<Rightarrow> Inl SchemaTypeError | Some v \<Rightarrow> Inr v) else None)"

section \<open>Views\<close>

definition newline :: string where
  "newline = [CHR 0x0A]"

definition quote :: string where
  "quote = [CHR 0x22]"

definition first_line :: "(js \<Rightarrow> string) \<Rightarrow> playground_request \<Rightarrow> string" where
  "first_line paramsSerializer rq =
     upper (to_str (pr_method rq)) @ '' '' @ buildOriginalUrl paramsSerializer (pr_url rq) (pr_params rq) @ '' HTTP/1.1''"

definition sortObject :: "lodash_coll \<Rightarrow> obj \<Rightarrow> obj" where
  "sortObject C kvs =
     map (\<lambda>k. (to_str k, obj_get kvs (to_str k))) (lc_order_by C (\<lambda>k. k) (map (\<lambda>p. Str (fst p)) kvs))"

definition header_rows :: "lodash_coll \<Rightarrow> obj \<Rightarrow> playground_request \<Rightarrow> (string \<times> string) list" where
  "header_rows C defaultHeads rq =
     map (\<lambda>(k, v). (k, to_str v)) (sortObject C (spread defaultHeads (pr_headers rq)))"

fun get_part :: "(js \<Rightarrow> string) \<Rightarrow> string \<Rightarrow> string \<Rightarrow> js \<Rightarrow> string" where
  "get_part json_stringify boundary k (Arr xs) =
     join newline (map (get_part json_stringify boundary k) xs)"
| "get_part json_stringify boundary k v =
     boundary @ newline @ ''Content-Disposition: form-data; name='' @ quote @ k @ quote @ newline @ newline
     @ (if is_object v then json_stringify v else to_str v) @ newline"

definition displayMultipart :: "(js \<Rightarrow> string) \<Rightarrow> string \<Rightarrow> js \<Rightarrow> string" where
  "displayMultipart json_stringify boundary data =
     join newline (map (\<lambda>(k, v). get_part json_stringify boundary k v) (own_props data)) @ boundary @ ''--''"

definition fake_boundary :: string where
  "fake_boundary = ''----WebKitFormBoundaryfakefakefakefakefakefakefakefakefake''"

text \<open>\<^verbatim>\<open>stringifyBody\<close>: the text, and the headers it leaves in the request.\<close>

definition stringifyBody ::
    "(js \<Rightarrow> string) \<Rightarrow> (js \<Rightarrow> string) \<Rightarrow> (js \<Rightarrow> string) \<Rightarrow> playground_request \<Rightarrow> string \<times> obj" where
  "stringifyBody json_stringify json_pretty paramsSerializer rq =
     (let headers = Obj (pr_headers rq) in
      if isContentTypeMultipartFormData headers then
        (displayMultipart json_stringify fake_boundary (pr_body rq),
         AList.update ''Content-Type'' (Str (''multipart/form-data; boundary='' @ fake_boundary)) (pr_headers rq))
      else if isContentTypeFormURLEncoded headers then (paramsSerializer (pr_body rq), pr_headers rq)
      else if isContentTypeJSON headers then (json_pretty (pr_body rq), pr_headers rq)
      else (to_str (pr_body rq), pr_headers rq))"

definition toDataURI :: "string \<Rightarrow> string \<Rightarrow> string" where
  "toDataURI bytes contentType =
     ''data:'' @ contentType @ '';base64,'' @ (case btoa bytes of None \<Rightarrow> '''' | Some s \<Rightarrow> s)"

datatype response_view = ResponseImage string | ResponseText js "(string \<times> string) list" "string option"

definition http_response :: "(js \<Rightarrow> string) \<Rightarrow> js \<Rightarrow> js \<Rightarrow> js \<Rightarrow> string \<Rightarrow> response_view" where
  "http_response json_pretty status headers body bytes =
     (if isContentTypeTextHTML headers then ResponseImage (toDataURI bytes (getContentType headers))
      else ResponseText status (map (\<lambda>(k, v). (k, to_str v)) (own_props headers))
        (if truthy body then Some (if isContentTypeJSON headers then json_pretty body else bytes) else None))"

section \<open>Documents\<close>

text \<open>
  The type shown for the cursor: the innermost object or union around it, with the types on the
  way to it that are no references.
\<close>

fun is_union_type :: "sty \<Rightarrow> bool" where
  "is_union_type (T_union s ts) = True"
| "is_union_type t = False"

fun is_ref_type :: "sty \<Rightarrow> bool" where
  "is_ref_type (T_ref s) = True"
| "is_ref_type t = False"

fun climb :: "snode \<Rightarrow> snode option" where
  "climb (Node t None) = (if is_object_type t \<or> is_union_type t then Some (Node t None) else None)"
| "climb (Node t (Some p)) = (if is_object_type t \<or> is_union_type t then Some (Node t (Some p)) else climb p)"

definition breadcrumbs :: "snode option \<Rightarrow> sty list" where
  "breadcrumbs node =
     (case (case node of None \<Rightarrow> None | Some s \<Rightarrow> climb s) of
        None \<Rightarrow> []
      | Some s \<Rightarrow> filter (\<lambda>t. \<not> is_ref_type t) (map node_type (parents s)))"

record documents =
  dc_path :: "js list option"
  dc_crumbs :: "sty list"

datatype documents_event = CursorMoved "js list" | CrumbClicked nat | TypeClicked sty

text \<open>A path equal to the last one changes nothing; a schema that cannot be searched raises.\<close>

fun documents_step :: "lodash \<Rightarrow> nat \<Rightarrow> js \<Rightarrow> documents_event \<Rightarrow> documents \<Rightarrow> documents sres" where
  "documents_step L n schema (CursorMoved path) st =
     (case dc_path st of
        Some p \<Rightarrow>
          if lo_is_equal L (Arr p) (Arr path) then Inr st
          else bindS (schemaAt L (default_resolve L schema) n schema path) (\<lambda>node.
            Inr (st\<lparr>dc_path := Some path, dc_crumbs := breadcrumbs node\<rparr>))
      | None \<Rightarrow>
          bindS (schemaAt L (default_resolve L schema) n schema path) (\<lambda>node.
            Inr (st\<lparr>dc_path := Some path, dc_crumbs := breadcrumbs node\<rparr>)))"
| "documents_step L n schema (CrumbClicked i) st = Inr (st\<lparr>dc_crumbs := take (Suc i) (dc_crumbs st)\<rparr>)"
| "documents_step L n schema (TypeClicked t) st = Inr (st\<lparr>dc_crumbs := dc_crumbs st @ [t]\<rparr>)"

definition crumb_labels :: "lodash \<Rightarrow> sty list \<Rightarrow> string list" where
  "crumb_labels L crumbs =
     map (\<lambda>t. to_str (js_or (lo_get_str L (schema_of t) ''x-id'' Undef) (Str ''#'')))
       (filter (\<lambda>t. \<not> is_ref_type t) crumbs)"

definition shown_schema :: "sty list \<Rightarrow> sty option" where
  "shown_schema crumbs = (if crumbs = [] then None else Some (last crumbs))"

lemma climb_shown: "climb s = Some r \<Longrightarrow> is_object_type (node_type r) \<or> is_union_type (node_type r)"
  by (induction s rule: climb.induct) (auto split: if_splits)

lemma last_parents: "parents s \<noteq> [] \<and> last (parents s) = s"
  by (induction s rule: parents.induct) auto

lemma shown_not_ref: "is_object_type t \<or> is_union_type t \<Longrightarrow> \<not> is_ref_type t"
  by (cases t) auto

text \<open>Moving the cursor shows an object or a union, or nothing.\<close>

lemma breadcrumbs_shown:
  "shown_schema (breadcrumbs node) = Some t \<Longrightarrow> is_object_type t \<or> is_union_type t"
proof -
  assume shown: "shown_schema (breadcrumbs node) = Some t"
  then obtain s r where node: "node = Some s" "climb s = Some r"
    by (auto simp: shown_schema_def breadcrumbs_def split: option.splits if_splits)
  obtain ps where ps: "parents r = ps @ [r]" using last_parents by (metis append_butlast_last_id)
  have "\<not> is_ref_type (node_type r)" using climb_shown [OF node(2)] shown_not_ref by blast
  then have "last (breadcrumbs node) = node_type r" by (simp add: breadcrumbs_def node ps)
  then show ?thesis using shown climb_shown [OF node(2)] by (simp add: shown_schema_def split: if_splits)
qed

section \<open>Templates\<close>

text \<open>A path as its author means it: literal text and named holes.\<close>

datatype piece = Literal string | Hole string

fun piece_text :: "piece \<Rightarrow> string" where
  "piece_text (Literal s) = s"
| "piece_text (Hole k) = CHR 0x7B # k @ [CHR 0x7D]"

fun piece_ok :: "piece \<Rightarrow> bool" where
  "piece_ok (Literal s) = (CHR 0x7B \<notin> set s)"
| "piece_ok (Hole k) = (k \<noteq> [] \<and> CHR 0x7D \<notin> set k)"

fun fill :: "obj \<Rightarrow> piece \<Rightarrow> string" where
  "fill params (Literal s) = s"
| "fill params (Hole k) = path_value params k"

lemma replace_literal: "CHR 0x7B \<notin> set s \<Longrightarrow> replace_braces f (s @ r) = s @ replace_braces f r"
proof (induction s)
  case (Cons c s)
  then show ?case by (cases "s @ r") auto
qed simp

lemma replace_hole:
  assumes "k \<noteq> []" and "CHR 0x7D \<notin> set k"
  shows "replace_braces f (CHR 0x7B # k @ CHR 0x7D # r) = f k @ replace_braces f r"
proof -
  obtain d s where k: "k = d # s" using assms(1) by (cases k) auto
  have "CHR 0x7D \<notin> set s \<Longrightarrow> takeWhile (\<lambda>x. x \<noteq> CHR 0x7D) (s @ CHR 0x7D # r) = s
      \<and> dropWhile (\<lambda>x. x \<noteq> CHR 0x7D) (s @ CHR 0x7D # r) = CHR 0x7D # r" for s
    by (induction s) auto
  then have "takeWhile (\<lambda>x. x \<noteq> CHR 0x7D) (s @ CHR 0x7D # r) = s"
    "dropWhile (\<lambda>x. x \<noteq> CHR 0x7D) (s @ CHR 0x7D # r) = CHR 0x7D # r" using assms(2) k by auto
  then show ?thesis by (simp add: k)
qed

lemma compile_pieces:
  "list_all piece_ok ps \<Longrightarrow> replace_braces (path_value params) (concat (map piece_text ps)) = concat (map (fill params) ps)"
proof (induction ps)
  case (Cons p ps)
  then show ?case by (cases p) (simp_all add: replace_literal replace_hole)
qed simp

lemma obj_get_spread_names:
  "obj_get (foldl (\<lambda>acc k. AList.update k (f k) acc) acc ks) k = (if k \<in> set ks then f k else obj_get acc k)"
  by (induction ks arbitrary: acc) (auto simp: obj_get_update)

lemma keys_foldl_update:
  "fst ` set (foldl (\<lambda>acc x. AList.update (g x) (f x) acc) acc xs) = fst ` set acc \<union> g ` set xs"
proof (induction xs arbitrary: acc)
  case (Cons x xs)
  have "fst ` set (AList.update (g x) (f x) acc) = insert (g x) (fst ` set acc)" by (induction acc) auto
  then show ?case using Cons by auto
qed simp

lemma obj_get_foldl_props:
  "obj_get (foldl (\<lambda>acc (k, v). AList.update k v acc) acc kvs) k
   = (if k \<in> fst ` set kvs then obj_get (foldl (\<lambda>acc (k, v). AList.update k v acc) [] kvs) k else obj_get acc k)"
proof (induction kvs rule: rev_induct)
  case (snoc p kvs)
  then show ?case by (cases p) (auto simp: obj_get_update)
qed simp

lemma obj_get_Cons: "obj_get ((a, b) # kvs) k = (if k = a then b else obj_get kvs k)"
  by (simp add: obj_get_def)

lemma foldl_distinct:
  "distinct (map fst kvs) \<Longrightarrow> k \<in> fst ` set kvs \<Longrightarrow>
   obj_get (foldl (\<lambda>acc (k, v). AList.update k v acc) acc kvs) k = obj_get kvs k"
proof (induction kvs arbitrary: acc)
  case (Cons p kvs)
  then show ?case
    by (cases p) (auto simp: obj_get_foldl_props [of "AList.update _ _ _"] obj_get_update obj_get_Cons)
qed simp

lemma distinct_foldl_names:
  "distinct (map fst acc) \<Longrightarrow> distinct (map fst (foldl (\<lambda>acc k. AList.update k (f k) acc) acc ks))"
  by (induction ks arbitrary: acc) (simp_all add: distinct_update)

text \<open>The values picked: those given, and the defaults of the others.\<close>

lemma pickValuesIn_get:
  "obj_get (pickValuesIn place parameters values) k =
    (if k \<in> set (pickKeysIn place parameters) \<and> has_own values k then member values k
     else obj_get (pickDefaults place parameters) k)"
proof -
  let ?picked = "pick_names values (pickKeysIn place parameters)"
  have keys: "fst ` set ?picked = {k \<in> set (pickKeysIn place parameters). has_own values k}"
    using keys_foldl_update [of "\<lambda>k. k" "member values" "[]"] by (auto simp: pick_names_def)
  have picked: "distinct (map fst ?picked)" by (simp add: pick_names_def distinct_foldl_names)
  show ?thesis
  proof (cases "k \<in> fst ` set ?picked")
    case True
    then have "obj_get (pickValuesIn place parameters values) k = obj_get ?picked k"
      unfolding pickValuesIn_def spread_def by (rule foldl_distinct [OF picked])
    moreover have "obj_get ?picked k = member values k"
      using True keys by (simp add: pick_names_def obj_get_spread_names)
    ultimately show ?thesis using True keys by simp
  next
    case False
    then have "obj_get (pickValuesIn place parameters values) k = obj_get (pickDefaults place parameters) k"
      unfolding pickValuesIn_def spread_def by (subst obj_get_foldl_props) simp
    then show ?thesis using False keys by auto
  qed
qed

lemma pickValuesIn_keys: "fst ` set (pickValuesIn place parameters values) = set (pickKeysIn place parameters)"
proof -
  have "fst ` set (pickDefaults place parameters) = set (pickKeysIn place parameters)"
    unfolding pickDefaults_def pickKeysIn_def by (subst keys_foldl_update) simp
  moreover have "fst ` set (pick_names values ks) \<subseteq> set ks" for ks
    using keys_foldl_update [of "\<lambda>k. k" "member values" "[]"] by (auto simp: pick_names_def)
  moreover have "fst ` set (foldl (\<lambda>acc (k, v). AList.update k v acc) acc kvs) = fst ` set acc \<union> fst ` set kvs" for acc kvs :: obj
    using keys_foldl_update [of fst snd acc kvs] by (simp add: case_prod_beta')
  ultimately show ?thesis unfolding pickValuesIn_def spread_def by (simp add: Un_absorb2)
qed

section \<open>Properties\<close>


definition demo_request_operation :: js where
  "demo_request_operation = Obj [(''method'', Str ''get''), (''path'', Str ''/pets/{id}''), (''basePath'', Str ''http://a''),
     (''parameters'', Arr [Obj [(''name'', Str ''id''), (''in'', Str ''path'')], Obj [(''name'', Str ''size''), (''in'', Str ''query'')]])]"


section \<open>Where it does not do what it means to\<close>

text \<open>A number or a boolean is empty to lodash, so the line shown leaves such a parameter out.\<close>

lemma number_not_shown:
  "buildOriginalUrl paramsSerializer ''/pets'' [(''size'', Num 5), (''all'', Bool True)] = ''/pets''"
  by (simp add: buildOriginalUrl_def mayWithQuery_def)

text \<open>A path parameter that is 0 counts as not given.\<close>

lemma zero_not_filled: "compilePath ''/pets/{id}'' [(''id'', Num 0)] = ''/pets/{id}''"
  by (simp add: compilePath_def path_value_def obj_get_def)

end
