(* ===== verification/Playground_Views.thy ===== *)
theory Playground_Views
  imports OpenAPI_Request
begin

text \<open>
  What the playground shows beside its editor (\<^verbatim>\<open>HTTPViews.tsx\<close>, \<^verbatim>\<open>RequestPlayground.tsx\<close>): the last
  answer, with the text of the request it answers. Its parts are in \<open>OpenAPI_Request\<close>.
\<close>

section \<open>The text of a request\<close>

text \<open>
  \<^verbatim>\<open>HttpRequest\<close>: the first line, the headers in order and the body. The body is made last, and
  making it may replace the headers of the request, which the next rendering shows.
\<close>

type_synonym request_text = "string \<times> (string \<times> string) list \<times> string option"

definition http_request_view ::
    "lodash_coll \<Rightarrow> (js \<Rightarrow> string) \<Rightarrow> (js \<Rightarrow> string) \<Rightarrow> (js \<Rightarrow> string) \<Rightarrow> obj \<Rightarrow> playground_request \<Rightarrow> request_text \<times> playground_request" where
  "http_request_view C json_stringify json_pretty paramsSerializer defaultHeads rq =
     (let line = first_line paramsSerializer rq; rows = header_rows C defaultHeads rq in
      if truthy (pr_body rq) then
        (case stringifyBody json_stringify json_pretty paramsSerializer rq of
           (text, headers) \<Rightarrow> ((line, rows, Some text), rq\<lparr>pr_headers := headers\<rparr>))
      else ((line, rows, None), rq))"

section \<open>The last answer\<close>

text \<open>Answers and failures go to the same place; before the first there are the tips.\<close>

record answer =
  an_config :: "playground_request option"
  an_status :: js
  an_headers :: js
  an_body :: js
  an_bytes :: string

datatype answer_view = ShowTips | ShowAnswer request_text response_view

definition no_answer :: answer where
  "no_answer = \<lparr>an_config = None, an_status = Undef, an_headers = Undef, an_body = Undef, an_bytes = []\<rparr>"

definition answer_shown ::
    "lodash_coll \<Rightarrow> (js \<Rightarrow> string) \<Rightarrow> (js \<Rightarrow> string) \<Rightarrow> (js \<Rightarrow> string) \<Rightarrow> obj \<Rightarrow> answer \<Rightarrow> answer_view \<times> answer" where
  "answer_shown C json_stringify json_pretty paramsSerializer defaultHeads a =
     (case an_config a of
        None \<Rightarrow> (ShowTips, a)
      | Some rq \<Rightarrow>
          (case http_request_view C json_stringify json_pretty paramsSerializer defaultHeads rq of
             (text, rq') \<Rightarrow>
               (ShowAnswer text (http_response json_pretty (an_status a) (an_headers a) (an_body a) (an_bytes a)),
                a\<lparr>an_config := Some rq'\<rparr>)))"

datatype answer_event = Succeeded answer | FailedWith answer

fun answer_step :: "answer_event \<Rightarrow> answer \<Rightarrow> answer" where
  "answer_step (Succeeded a) st = a"
| "answer_step (FailedWith a) st = a"

section \<open>What is shown\<close>

lemma update_keys: "fst ` set (AList.update k v kvs) = insert k (fst ` set kvs)"
  by (induction kvs) auto

lemma spread_keys: "fst ` set (spread base over) = fst ` set base \<union> fst ` set over"
proof (induction over rule: rev_induct)
  case (snoc p over)
  then show ?case by (cases p) (simp add: spread_def update_keys)
qed (simp add: spread_def)

lemma spread_over:
  assumes "distinct (map fst over)" and "(k, v) \<in> set over"
  shows "obj_get (spread base over) k = v"
  using assms
proof (induction over rule: rev_induct)
  case (snoc p over)
  then show ?case by (cases p) (force simp: spread_def assoc_simps)
qed simp

text \<open>Every header of the request and every default is shown, each under its name with the value that is sent.\<close>

lemma headers_shown:
  assumes "lodash_coll_ok C"
  shows "set (header_rows C defaults rq)
    = (\<lambda>k. (k, to_str (obj_get (spread defaults (pr_headers rq)) k))) ` (fst ` set defaults \<union> fst ` set (pr_headers rq))"
proof -
  let ?h = "spread defaults (pr_headers rq)"
  have "set (lc_order_by C (\<lambda>k. k) (map (\<lambda>p. Str (fst p)) ?h)) = Str ` fst ` set ?h"
    using collections.order_set [OF collectionsI [OF assms]] by (simp add: image_image)
  then show ?thesis
    unfolding spread_keys [symmetric] by (simp add: header_rows_def sortObject_def image_image)
qed

lemma boundary_is_multipart:
  "isContentTypeMultipartFormData (Obj (AList.update ''Content-Type'' (Str (''multipart/form-data; boundary='' @ fake_boundary)) hs))"
  by (simp add: isContentTypeMultipartFormData_def getContentType_def js_or_def assoc_simps fake_boundary_def starts_with.simps)

text \<open>
  Rendering once more changes nothing but the headers: the text of the body stays, and so does the
  request from then on.
\<close>

lemma body_text_stays:
  assumes "http_request_view C js jp ps d rq = ((line, rows, text), rq')"
  shows "\<exists>rows'. http_request_view C js jp ps d rq' = ((line, rows', text), rq')"
  using assms boundary_is_multipart [of "pr_headers rq"]
  by (auto simp: http_request_view_def Let_def stringifyBody_def first_line_def split: if_splits prod.splits)

text \<open>
  The headers of a request with several parts are shown before its boundary is set: the first
  rendering has the type without it, the next has it.
\<close>

lemma boundary_shown_late:
  assumes "lodash_coll_ok C" and "truthy (pr_body rq)" and "isContentTypeMultipartFormData (Obj (pr_headers rq))"
    and "obj_get (pr_headers rq) ''Content-Type'' = Str ''multipart/form-data; charset=UTF-8''"
    and "http_request_view C js jp ps d rq = ((line, rows, text), rq')"
    and "http_request_view C js jp ps d rq' = ((line', rows', text'), rq'')"
    and "distinct (map fst (pr_headers rq))"
  shows "(''Content-Type'', ''multipart/form-data; charset=UTF-8'') \<in> set rows
    \<and> (''Content-Type'', ''multipart/form-data; boundary='' @ fake_boundary) \<in> set rows'"
proof -
  let ?b = "Str (''multipart/form-data; boundary='' @ fake_boundary)"
  have row: "(k, to_str v) \<in> set (header_rows C d r)" if "distinct (map fst (pr_headers r))" "(k, v) \<in> set (pr_headers r)" for k v r
    using that spread_over [OF that, of d] by (force simp: headers_shown [OF assms(1)])
  have ct: "(''Content-Type'', Str ''multipart/form-data; charset=UTF-8'') \<in> set (pr_headers rq)"
    using assms(4) by (auto simp: obj_get_def dest: map_of_SomeD split: option.splits)
  have r: "rows = header_rows C d rq" "rq' = rq\<lparr>pr_headers := AList.update ''Content-Type'' ?b (pr_headers rq)\<rparr>"
    using assms(2,3,5) by (auto simp: http_request_view_def Let_def stringifyBody_def)
  have r': "rows' = header_rows C d rq'"
    using assms(6) by (auto simp: http_request_view_def Let_def split: if_splits prod.splits)
  have bt: "(''Content-Type'', ?b) \<in> set (pr_headers rq')" "distinct (map fst (pr_headers rq'))"
    using assms(7) obj_get_update [of "''Content-Type''" ?b "pr_headers rq" "''Content-Type''"]
    unfolding r(2) by (auto simp: obj_get_def distinct_update dest: map_of_SomeD split: option.splits)
  show ?thesis using row [OF assms(7) ct] row [OF bt(2,1)] unfolding r(1) r' by simp
qed

end
