(* ===== verification/Fair_Runs.thy ===== *)
theory Fair_Runs
  imports KP_Prelude
begin

text \<open>
  Runs of a step relation labelled with events, for what must happen eventually. At each moment
  a run makes a step or stutters; it is weakly fair to an event when the event is not enabled
  forever without happening.
\<close>

type_synonym ('e, 's) steps = "'e \<Rightarrow> 's \<Rightarrow> 's \<Rightarrow> bool"

definition enabled :: "('e, 's) steps \<Rightarrow> 'e \<Rightarrow> 's \<Rightarrow> bool" where
  "enabled step e s \<longleftrightarrow> (\<exists>s'. step e s s')"

definition run_of :: "('e, 's) steps \<Rightarrow> (nat \<Rightarrow> 'e option) \<Rightarrow> (nat \<Rightarrow> 's) \<Rightarrow> bool" where
  "run_of step ev states \<longleftrightarrow>
     (\<forall>i. case ev i of None \<Rightarrow> states (Suc i) = states i | Some e \<Rightarrow> step e (states i) (states (Suc i)))"

definition weakly_fair :: "('e, 's) steps \<Rightarrow> 'e \<Rightarrow> (nat \<Rightarrow> 'e option) \<Rightarrow> (nat \<Rightarrow> 's) \<Rightarrow> bool" where
  "weakly_fair step e ev states \<longleftrightarrow> (\<forall>i. \<exists>j\<ge>i. ev j = Some e \<or> \<not> enabled step e (states j))"

lemma run_step:
  assumes "run_of step ev states"
  shows "(ev i = None \<and> states (Suc i) = states i) \<or> (\<exists>e. ev i = Some e \<and> step e (states i) (states (Suc i)))"
  using assms[unfolded run_of_def, rule_format, of i] by (cases "ev i") auto

text \<open>An invariant of the steps holds throughout a run.\<close>

lemma run_invariant:
  assumes "run_of step ev states" and "I (states 0)" and "\<And>e s s'. I s \<Longrightarrow> step e s s' \<Longrightarrow> I s'"
  shows "I (states i)"
proof (induction i)
  case 0
  show ?case by (rule assms(2))
next
  case (Suc i)
  then show ?case using run_step[OF assms(1), of i] assms(3) by metis
qed

text \<open>
  The rule of weak fairness: what every step keeps until its goal is reached, while the fair
  event stays enabled and reaches the goal, leads to the goal.
\<close>

lemma fair_leads_to:
  assumes run: "run_of step ev states" and fair: "weakly_fair step e ev states"
    and keeps: "\<And>e' s s'. P s \<Longrightarrow> step e' s s' \<Longrightarrow> P s' \<or> Q s'"
    and enabled: "\<And>s. P s \<Longrightarrow> enabled step e s"
    and helps: "\<And>s s'. P s \<Longrightarrow> step e s s' \<Longrightarrow> Q s'"
    and start: "P (states i)"
  shows "\<exists>j\<ge>i. Q (states j)"
proof (rule ccontr)
  assume never: "\<not> ?thesis"
  have stays: "P (states (i + n))" for n
  proof (induction n)
    case 0
    show ?case using start by simp
  next
    case (Suc n)
    have "\<not> Q (states (Suc (i + n)))" using never by (metis le_SucI le_add1)
    then show ?case using run_step[OF run, of "i + n"] keeps[OF Suc.IH] Suc.IH by auto
  qed
  obtain j where j: "i \<le> j" "ev j = Some e \<or> \<not> Fair_Runs.enabled step e (states j)"
    using fair unfolding weakly_fair_def by blast
  have at: "P (states j)" using stays[of "j - i"] j(1) by simp
  then have "ev j = Some e" using j(2) enabled by blast
  then have "step e (states j) (states (Suc j))" using run_step[OF run, of j] by auto
  then have "Q (states (Suc j))" by (rule helps[OF at])
  then show False using never j(1) by (metis le_SucI)
qed

lemma leads_to_trans:
  fixes states :: "nat \<Rightarrow> 's"
  assumes "\<exists>j\<ge>i. Q (states j)" and "\<And>j. Q (states j) \<Longrightarrow> \<exists>k\<ge>j. R (states k)"
  shows "\<exists>k\<ge>i. R (states k)"
  using assms by (meson order_trans)

lemma weakly_fair_ends:
  assumes "\<And>j. n \<le> j \<Longrightarrow> \<not> enabled step e (states j)"
  shows "weakly_fair step e ev states"
  unfolding weakly_fair_def using assms by (meson nat_le_linear order_refl)

end
