(* ===== verification/UI_Overlays.thy ===== *)
theory UI_Overlays
  imports Fair_Runs
begin

text \<open>
  \<^verbatim>\<open>nodepkg/ui/src/Overlays\<close> and \<^verbatim>\<open>nodepkg/ui/src/Behaviors/Notification.tsx\<close>: dialogs, snakebars,
  notifications, menus and tooltips. What the components do on an event are functions on their
  state; the overlay and the transition they are drawn with are a package, of which only what
  it promises is stated, as the steps at which it calls the component: the content of an overlay
  is mounted after the overlay opens and taken away after it closes, and a transition whose child
  is gone completes to leave. An event of the user comes when nothing is to be rendered.
\<close>

section \<open>Dialogs\<close>

record dialog =
  is_open :: bool
  mounted :: bool
  animate :: bool
  content :: bool
  shown :: bool

datatype dialog_event =
    OpenRequested
  | CloseRequested
  | EscKeydown
  | BackdropClicked
  | ContentBeforeMount
  | LeaveCompleted
  | ContentUnmounted

text \<open>\<^verbatim>\<open>useDialog(false)\<close>: \<open>is_open\<close> is \<^verbatim>\<open>isOpen$\<close>; \<open>content\<close> and \<open>shown\<close> are what is in the page.\<close>

definition dialog_init :: dialog where
  "dialog_init = \<lparr>is_open = False, mounted = False, animate = False, content = False, shown = False\<rparr>"

text \<open>\<^verbatim>\<open>watch(() => props.isOpen, ...)\<close>, which runs when the value has changed.\<close>

definition watch_open :: "bool \<Rightarrow> dialog \<Rightarrow> dialog" where
  "watch_open open d = (if open then d\<lparr>mounted := True\<rparr> else d\<lparr>animate := False\<rparr>)"

definition set_open :: "bool \<Rightarrow> dialog \<Rightarrow> dialog" where
  "set_open open d = (if is_open d = open then d else watch_open open (d\<lparr>is_open := open\<rparr>))"

text \<open>\<^verbatim>\<open>onComplete\<close> of the transition to leave; \<^verbatim>\<open>emit("close")\<close> sets \<^verbatim>\<open>isOpen$\<close>.\<close>

definition on_leave_complete :: "dialog \<Rightarrow> dialog" where
  "on_leave_complete d = set_open False (d\<lparr>mounted := False\<rparr>)"

definition dialog_handle :: "dialog_event \<Rightarrow> dialog \<Rightarrow> dialog" where
  "dialog_handle e d =
     (case e of
        OpenRequested \<Rightarrow> set_open True d
      | CloseRequested \<Rightarrow> set_open False d
      | EscKeydown \<Rightarrow> d\<lparr>animate := False\<rparr>
      | BackdropClicked \<Rightarrow> d\<lparr>animate := False\<rparr>
      | ContentBeforeMount \<Rightarrow> d\<lparr>animate := True\<rparr>
      | LeaveCompleted \<Rightarrow> on_leave_complete d
      | ContentUnmounted \<Rightarrow> d)"

text \<open>The backdrop is in the page when it is animated in, and until it has left.\<close>

definition dialog_page :: "dialog_event \<Rightarrow> dialog \<Rightarrow> dialog" where
  "dialog_page e d =
     (case e of
        ContentBeforeMount \<Rightarrow> d\<lparr>content := True, shown := animate d\<rparr>
      | LeaveCompleted \<Rightarrow> d\<lparr>shown := False\<rparr>
      | ContentUnmounted \<Rightarrow> d\<lparr>content := False, shown := False\<rparr>
      | _ \<Rightarrow> d)"

definition settled :: "dialog \<Rightarrow> bool" where
  "settled d \<longleftrightarrow> (mounted d \<longleftrightarrow> content d)"

fun dialog_may :: "dialog_event \<Rightarrow> dialog \<Rightarrow> bool" where
  "dialog_may OpenRequested d \<longleftrightarrow> settled d"
| "dialog_may CloseRequested d \<longleftrightarrow> settled d"
| "dialog_may EscKeydown d \<longleftrightarrow> settled d \<and> content d"
| "dialog_may BackdropClicked d \<longleftrightarrow> settled d \<and> content d \<and> animate d"
| "dialog_may ContentBeforeMount d \<longleftrightarrow> mounted d \<and> \<not> content d"
| "dialog_may LeaveCompleted d \<longleftrightarrow> content d \<and> shown d \<and> \<not> animate d"
| "dialog_may ContentUnmounted d \<longleftrightarrow> content d \<and> \<not> mounted d"

inductive dialog_step :: "dialog_event \<Rightarrow> dialog \<Rightarrow> dialog \<Rightarrow> bool" where
  handled: "dialog_may e d \<Longrightarrow> dialog_step e d (dialog_page e (dialog_handle e d))"

inductive_simps dialog_step_iff: "dialog_step e d d'"

text \<open>The children of the dialog are beside the transition, so they are in the page with the overlay.\<close>

definition children_shown :: "dialog \<Rightarrow> bool" where
  "children_shown d = content d"

subsection \<open>Where a dialog can be\<close>

definition is_opening :: "dialog \<Rightarrow> bool" where
  "is_opening d \<longleftrightarrow> is_open d \<and> mounted d \<and> \<not> animate d \<and> \<not> content d \<and> \<not> shown d"

definition is_opened :: "dialog \<Rightarrow> bool" where
  "is_opened d \<longleftrightarrow> is_open d \<and> mounted d \<and> animate d \<and> content d \<and> shown d"

definition leaving :: "dialog \<Rightarrow> bool" where
  "leaving d \<longleftrightarrow> mounted d \<and> \<not> animate d \<and> content d \<and> shown d"

definition unmounting :: "dialog \<Rightarrow> bool" where
  "unmounting d \<longleftrightarrow> \<not> is_open d \<and> \<not> mounted d \<and> \<not> animate d \<and> content d \<and> \<not> shown d"

definition is_closed :: "dialog \<Rightarrow> bool" where
  "is_closed d \<longleftrightarrow> d = dialog_init"

definition dialog_inv :: "dialog \<Rightarrow> bool" where
  "dialog_inv d \<longleftrightarrow> is_closed d \<or> is_opening d \<or> is_opened d \<or> leaving d \<or> unmounting d"

lemmas dialog_places = is_opening_def is_opened_def leaving_def unmounting_def is_closed_def dialog_init_def

lemmas dialog_code = dialog_handle_def dialog_page_def on_leave_complete_def set_open_def watch_open_def settled_def

lemma dialog_inv_init: "dialog_inv dialog_init"
  by (simp add: dialog_inv_def is_closed_def)

lemma dialog_inv_step:
  assumes "dialog_inv d" and "dialog_step e d d'"
  shows "dialog_inv d'"
  using assms unfolding dialog_step_iff
  by (cases d; cases e) (auto simp: dialog_inv_def dialog_places dialog_code split: if_splits)

text \<open>From each place what the package does leads on; whatever the user does does not get in its way.\<close>

lemma is_opening_step: "is_opening d \<Longrightarrow> dialog_step e d d' \<Longrightarrow> is_opened d'"
  unfolding dialog_step_iff by (cases d; cases e) (auto simp: dialog_places dialog_code)

lemma leaving_step: "leaving d \<Longrightarrow> dialog_step e d d' \<Longrightarrow> leaving d' \<or> unmounting d'"
  unfolding dialog_step_iff by (cases d; cases e) (auto simp: dialog_places dialog_code)

lemma unmounting_step: "unmounting d \<Longrightarrow> dialog_step e d d' \<Longrightarrow> is_closed d'"
  unfolding dialog_step_iff by (cases d; cases e) (auto simp: dialog_places dialog_code)

lemma leave_step: "leaving d \<Longrightarrow> dialog_step LeaveCompleted d d' \<Longrightarrow> unmounting d'"
  unfolding dialog_step_iff by (cases d) (auto simp: dialog_places dialog_code)

lemma may_place:
  "is_opening d \<Longrightarrow> dialog_may ContentBeforeMount d"
  "leaving d \<Longrightarrow> dialog_may LeaveCompleted d"
  "unmounting d \<Longrightarrow> dialog_may ContentUnmounted d"
  by (auto simp: dialog_places)

lemma enabled_iff: "enabled dialog_step e d \<longleftrightarrow> dialog_may e d"
  by (auto simp: enabled_def dialog_step_iff)

text \<open>What the package is trusted to do in time.\<close>

definition page_events :: "dialog_event list" where
  "page_events = [ContentBeforeMount, LeaveCompleted, ContentUnmounted]"

definition dialog_run :: "(nat \<Rightarrow> dialog_event option) \<Rightarrow> (nat \<Rightarrow> dialog) \<Rightarrow> bool" where
  "dialog_run ev states \<longleftrightarrow>
     states 0 = dialog_init \<and> run_of dialog_step ev states \<and>
     list_all (\<lambda>e. weakly_fair dialog_step e ev states) page_events"

text \<open>Somebody has closed the dialog, or pressed escape or clicked beside it.\<close>

definition dismissed :: "dialog \<Rightarrow> bool" where
  "dismissed d \<longleftrightarrow> \<not> is_open d \<or> (content d \<and> \<not> animate d)"

lemma dialog_leads:
  assumes "dialog_run ev states" and "e \<in> set page_events"
    and "\<And>e' d d'. P d \<Longrightarrow> dialog_step e' d d' \<Longrightarrow> P d' \<or> Q d'"
    and "\<And>d. P d \<Longrightarrow> dialog_may e d" and "\<And>d d'. P d \<Longrightarrow> dialog_step e d d' \<Longrightarrow> Q d'"
    and "P (states i)"
  shows "\<exists>j\<ge>i. Q (states j)"
  using assms
  by (intro fair_leads_to[of dialog_step ev states e P Q]) (auto simp: dialog_run_def enabled_iff list_all_iff)

lemma unmounting_leads: "dialog_run ev states \<Longrightarrow> unmounting (states i) \<Longrightarrow> \<exists>j\<ge>i. is_closed (states j)"
  by (rule dialog_leads[where e = ContentUnmounted and P = unmounting])
    (auto simp: page_events_def may_place simp del: dialog_may.simps intro: unmounting_step)

lemma leaving_leads:
  assumes "dialog_run ev states" and "leaving (states i)"
  shows "\<exists>j\<ge>i. is_closed (states j)"
proof (rule leads_to_trans[of i unmounting states is_closed])
  show "\<exists>j\<ge>i. unmounting (states j)"
    by (rule dialog_leads[where e = LeaveCompleted and P = leaving, OF assms(1) _ _ _ _ assms(2)])
      (use leaving_step leave_step in \<open>auto simp: page_events_def may_place simp del: dialog_may.simps\<close>)
  show "\<exists>k\<ge>j. is_closed (states k)" if "unmounting (states j)" for j
    by (rule unmounting_leads[OF assms(1) that])
qed

lemma opening_leads: "dialog_run ev states \<Longrightarrow> is_opening (states i) \<Longrightarrow> \<exists>j\<ge>i. is_opened (states j)"
  by (rule dialog_leads[where e = ContentBeforeMount and P = is_opening])
    (auto simp: page_events_def may_place simp del: dialog_may.simps intro: is_opening_step)

lemma run_inv: "dialog_run ev states \<Longrightarrow> dialog_inv (states i)"
  using run_invariant[of dialog_step ev states dialog_inv i] dialog_inv_step
  by (auto simp: dialog_run_def dialog_inv_init)

lemma dismissed_place: "dialog_inv d \<Longrightarrow> dismissed d \<Longrightarrow> is_closed d \<or> leaving d \<or> unmounting d"
  by (auto simp: dialog_inv_def dismissed_def is_opening_def is_opened_def)

text \<open>
  C30. A dialog whose content is mounted and whose transitions complete in time is closed in the
  end, the overlay unmounted and the caller told, once it has been closed by the caller, by escape
  or by a click beside it; and a dialog that was opened when it was closed is shown in the end.
\<close>

theorem dialog_settles:
  assumes "dialog_run ev states"
  shows "(dismissed (states i) \<longrightarrow> (\<exists>j\<ge>i. states j = dialog_init)) \<and>
    (is_closed (states i) \<and> ev i = Some OpenRequested \<longrightarrow> (\<exists>j\<ge>i. is_opened (states j)))"
proof (intro conjI impI)
  show "\<exists>j\<ge>i. states j = dialog_init" if "dismissed (states i)"
    using dismissed_place[OF run_inv[OF assms] that] leaving_leads[OF assms] unmounting_leads[OF assms]
    by (auto simp: is_closed_def)
  assume start: "is_closed (states i) \<and> ev i = Some OpenRequested"
  have "dialog_step OpenRequested (states i) (states (Suc i))"
    using run_step[of dialog_step ev states i] assms start by (simp add: dialog_run_def)
  then have "is_opening (states (Suc i))"
    using start by (auto simp: dialog_step_iff dialog_places dialog_code)
  then show "\<exists>j\<ge>i. is_opened (states j)" using opening_leads[OF assms] Suc_leD by blast
qed

text \<open>A run: the dialog is opened, shown, left by escape, and gone.\<close>

definition demo_events :: "nat \<Rightarrow> dialog_event option" where
  "demo_events i =
     (if i < 5 then Some ([OpenRequested, ContentBeforeMount, EscKeydown, LeaveCompleted, ContentUnmounted] ! i)
      else None)"

definition demo_dialogs :: "nat \<Rightarrow> dialog" where
  "demo_dialogs i =
     fold (\<lambda>e d. dialog_page e (dialog_handle e d))
       (take i [OpenRequested, ContentBeforeMount, EscKeydown, LeaveCompleted, ContentUnmounted]) dialog_init"

lemma demo_run: "dialog_run demo_events demo_dialogs"
proof -
  have step: "case demo_events i of None \<Rightarrow> demo_dialogs (Suc i) = demo_dialogs i
      | Some e \<Rightarrow> dialog_step e (demo_dialogs i) (demo_dialogs (Suc i))" for i
  proof (cases "i < 5")
    case True
    then have "i \<in> {0, 1, 2, 3, 4}" by auto
    then show ?thesis
      by (auto simp: demo_events_def demo_dialogs_def dialog_step_iff dialog_init_def dialog_code)
  qed (simp add: demo_events_def demo_dialogs_def)
  have rest: "demo_dialogs j = dialog_init" if "5 \<le> j" for j
    using that by (simp add: demo_dialogs_def dialog_init_def dialog_code)
  have "weakly_fair dialog_step e demo_events demo_dialogs" if "e \<in> set page_events" for e
    using that by (intro weakly_fair_ends[of 5]) (auto simp: rest enabled_iff page_events_def dialog_init_def)
  then show ?thesis
    using step by (simp add: dialog_run_def run_of_def list_all_iff demo_dialogs_def[of 0])
qed

theorem dialog_settles_witness:
  "dismissed (demo_dialogs 3) \<and> (\<exists>j\<ge>3. demo_dialogs j = dialog_init) \<and> (\<exists>j. is_opened (demo_dialogs j))"
proof (intro conjI)
  show d: "dismissed (demo_dialogs 3)"
    by (simp add: demo_dialogs_def dismissed_def dialog_init_def dialog_code)
  show "\<exists>j\<ge>3. demo_dialogs j = dialog_init" using dialog_settles[OF demo_run, of 3] d by simp
  show "\<exists>j. is_opened (demo_dialogs j)"
    using dialog_settles[OF demo_run, of 0] by (auto simp: demo_dialogs_def demo_events_def is_closed_def)
qed

subsection \<open>A dialog opened again while it leaves\<close>

text \<open>
  The caller closes a dialog and opens it again before the backdrop has left: nothing animates it
  in again, and the end of the transition closes it.
\<close>

lemma reopened_dialog_closes:
  assumes "is_opened d"
  shows "leaving (dialog_handle OpenRequested (dialog_handle CloseRequested d))"
    and "is_open (dialog_handle OpenRequested (dialog_handle CloseRequested d))"
    and "\<not> is_open (dialog_handle LeaveCompleted (dialog_handle OpenRequested (dialog_handle CloseRequested d)))"
  using assms by (auto simp: dialog_places dialog_code)

section \<open>Dialogs that ask and do\<close>

text \<open>
  \<^verbatim>\<open>useDialogPrompt\<close> and, with the submission of a form, \<^verbatim>\<open>useDialogForm\<close>: a dialog and the number
  of times its answer was yes. The form of a prompt closes the dialog itself.
\<close>

record prompt =
  pr_dialog :: dialog
  pr_confirmed :: nat

datatype prompt_event = PromptSubmitted | PromptCancelled

fun prompt_handle :: "prompt_event \<Rightarrow> prompt \<Rightarrow> prompt" where
  "prompt_handle PromptSubmitted p =
     p\<lparr>pr_confirmed := Suc (pr_confirmed p), pr_dialog := set_open False (pr_dialog p)\<rparr>"
| "prompt_handle PromptCancelled p = p\<lparr>pr_dialog := set_open False (pr_dialog p)\<rparr>"

fun form_handle :: "prompt_event \<Rightarrow> prompt \<Rightarrow> prompt" where
  "form_handle PromptSubmitted p = p\<lparr>pr_confirmed := Suc (pr_confirmed p)\<rparr>"
| "form_handle PromptCancelled p = p\<lparr>pr_dialog := set_open False (pr_dialog p)\<rparr>"

definition prompt_may :: "prompt \<Rightarrow> bool" where
  "prompt_may p \<longleftrightarrow> settled (pr_dialog p) \<and> children_shown (pr_dialog p)"

text \<open>
  The buttons stay while the backdrop leaves, so the second click of a double click confirms again.
\<close>

lemma double_click_confirms_twice:
  assumes "is_opened (pr_dialog p)"
  shows "prompt_may p" and "prompt_may (prompt_handle PromptSubmitted p)"
    and "pr_confirmed (prompt_handle PromptSubmitted (prompt_handle PromptSubmitted p)) = pr_confirmed p + 2"
  using assms by (auto simp: prompt_may_def children_shown_def dialog_places dialog_code)

lemma cancel_never_confirms: "pr_confirmed (prompt_handle PromptCancelled p) = pr_confirmed p"
  by simp

section \<open>Snakebars\<close>

text \<open>\<^verbatim>\<open>Snakebar\<close>; \<open>bar_timer\<close> tells whether the timer of \<^verbatim>\<open>autoCloseAfter\<close> is still to fire.\<close>

record bar =
  bar_started :: bool
  bar_mounted :: bool
  bar_animated :: bool
  bar_content :: bool
  bar_shown :: bool
  bar_timer :: bool

datatype bar_event =
    BarMounted
  | BarTimerFired
  | BarEscKeydown
  | BarContentBeforeMount
  | BarLeaveCompleted
  | BarContentUnmounted

definition new_bar :: "int \<Rightarrow> bar" where
  "new_bar autoCloseAfter =
     \<lparr>bar_started = False, bar_mounted = False, bar_animated = False, bar_content = False, bar_shown = False,
      bar_timer = (autoCloseAfter \<noteq> 0)\<rparr>"

fun bar_handle :: "bar_event \<Rightarrow> bar \<Rightarrow> bar" where
  "bar_handle BarMounted b = b\<lparr>bar_mounted := True\<rparr>"
| "bar_handle BarTimerFired b = b\<lparr>bar_animated := False\<rparr>"
| "bar_handle BarEscKeydown b = b\<lparr>bar_animated := False\<rparr>"
| "bar_handle BarContentBeforeMount b = b\<lparr>bar_animated := True\<rparr>"
| "bar_handle BarLeaveCompleted b = b\<lparr>bar_mounted := False\<rparr>"
| "bar_handle BarContentUnmounted b = b"

fun bar_page :: "bar_event \<Rightarrow> bar \<Rightarrow> bar" where
  "bar_page BarMounted b = b\<lparr>bar_started := True\<rparr>"
| "bar_page BarTimerFired b = b\<lparr>bar_timer := False\<rparr>"
| "bar_page BarEscKeydown b = b"
| "bar_page BarContentBeforeMount b = b\<lparr>bar_content := True, bar_shown := bar_animated b\<rparr>"
| "bar_page BarLeaveCompleted b = b\<lparr>bar_shown := False\<rparr>"
| "bar_page BarContentUnmounted b = b\<lparr>bar_content := False, bar_shown := False\<rparr>"

fun bar_may :: "bar_event \<Rightarrow> bar \<Rightarrow> bool" where
  "bar_may BarMounted b \<longleftrightarrow> \<not> bar_started b"
| "bar_may BarTimerFired b \<longleftrightarrow> bar_started b \<and> bar_timer b \<and> bar_mounted b = bar_content b"
| "bar_may BarEscKeydown b \<longleftrightarrow> bar_mounted b \<and> bar_content b"
| "bar_may BarContentBeforeMount b \<longleftrightarrow> bar_mounted b \<and> \<not> bar_content b"
| "bar_may BarLeaveCompleted b \<longleftrightarrow> bar_content b \<and> bar_shown b \<and> \<not> bar_animated b"
| "bar_may BarContentUnmounted b \<longleftrightarrow> bar_content b \<and> \<not> bar_mounted b"

definition bar_after :: "bar_event \<Rightarrow> bar \<Rightarrow> bar" where
  "bar_after e b = bar_page e (bar_handle e b)"

section \<open>Notifications\<close>

text \<open>
  \<^verbatim>\<open>NotificationFactory\<close> and \<^verbatim>\<open>NotificationView\<close>. A notification is an object, told apart by
  \<open>nt_id\<close> whatever it says. The view renders one snakebar per notification and gives them no key,
  so the framework keeps the instances in their positions, and takes away or adds some at the end.
\<close>

record notification =
  nt_id :: nat
  nt_msg :: string
  nt_after :: int

record notifications =
  nt_all :: "notification list"
  nt_bars :: "bar list"
  nt_next :: nat

datatype notify_event = Notify string "int option" | OnBar nat bar_event

definition notifications_init :: notifications where
  "notifications_init = \<lparr>nt_all = [], nt_bars = [], nt_next = 0\<rparr>"

definition render_unkeyed :: "notification list \<Rightarrow> bar list \<Rightarrow> bar list" where
  "render_unkeyed xs bs = take (length xs) bs @ map (\<lambda>n. new_bar (nt_after n)) (drop (length bs) xs)"

definition put_notifications :: "notification list \<Rightarrow> notifications \<Rightarrow> notifications" where
  "put_notifications xs st = st\<lparr>nt_all := xs, nt_bars := render_unkeyed xs (nt_bars st)\<rparr>"

definition notify :: "string \<Rightarrow> int option \<Rightarrow> notifications \<Rightarrow> notifications" where
  "notify msg autoCloseAfter st =
     (let n = \<lparr>nt_id = nt_next st, nt_msg = msg, nt_after = (case autoCloseAfter of None \<Rightarrow> 3000 | Some t \<Rightarrow> t)\<rparr>
      in put_notifications (nt_all st @ [n]) (st\<lparr>nt_next := Suc (nt_next st)\<rparr>))"

definition remove_notification :: "notification \<Rightarrow> notifications \<Rightarrow> notifications" where
  "remove_notification n st = put_notifications (filter (\<lambda>x. x \<noteq> n) (nt_all st)) st"

definition on_bar :: "nat \<Rightarrow> bar_event \<Rightarrow> notifications \<Rightarrow> notifications" where
  "on_bar i e st =
     (let st' = st\<lparr>nt_bars := (nt_bars st)[i := bar_after e (nt_bars st ! i)]\<rparr>
      in if e = BarLeaveCompleted then remove_notification (nt_all st ! i) st' else st')"

fun notify_handle :: "notify_event \<Rightarrow> notifications \<Rightarrow> notifications" where
  "notify_handle (Notify msg t) st = notify msg t st"
| "notify_handle (OnBar i e) st = on_bar i e st"

inductive notify_step :: "notifications \<Rightarrow> notifications \<Rightarrow> bool" where
  notified: "notify_step st (notify msg t st)"
| on_bar: "i < length (nt_bars st) \<Longrightarrow> bar_may e (nt_bars st ! i) \<Longrightarrow> notify_step st (on_bar i e st)"

definition notifications_ok :: "notifications \<Rightarrow> bool" where
  "notifications_ok st \<longleftrightarrow>
     length (nt_bars st) = length (nt_all st) \<and> distinct (map nt_id (nt_all st)) \<and>
     (\<forall>n \<in> set (nt_all st). nt_id n < nt_next st)"

lemma notifications_ok_init: "notifications_ok notifications_init"
  by (simp add: notifications_ok_def notifications_init_def)

lemma length_render [simp]: "length (render_unkeyed xs bs) = length xs"
  by (simp add: render_unkeyed_def)

lemma notifications_ok_put:
  "notifications_ok (put_notifications xs st) \<longleftrightarrow> distinct (map nt_id xs) \<and> (\<forall>n \<in> set xs. nt_id n < nt_next st)"
  by (simp add: notifications_ok_def put_notifications_def)

lemma notifications_ok_step:
  assumes "notifications_ok st" and "notify_step st st'"
  shows "notifications_ok st'"
  using assms(2)
proof cases
  case (notified msg t)
  then show ?thesis
    using assms(1)[unfolded notifications_ok_def] by (auto simp: notify_def Let_def notifications_ok_put less_Suc_eq)
next
  case (on_bar i e)
  show ?thesis
  proof (cases "e = BarLeaveCompleted")
    case True
    then show ?thesis
      using on_bar assms(1)[unfolded notifications_ok_def]
      by (auto simp: on_bar_def Let_def remove_notification_def distinct_map_filter notifications_ok_put)
  next
    case False
    then show ?thesis using on_bar assms(1) by (simp add: on_bar_def Let_def notifications_ok_def)
  qed
qed

subsection \<open>The last notification goes, an earlier one takes its successor along\<close>

text \<open>A bar that has left: whatever still happens to it, it shows nothing and never reports to close.\<close>

definition bar_gone :: "bar \<Rightarrow> bool" where
  "bar_gone b \<longleftrightarrow> bar_started b \<and> \<not> bar_mounted b \<and> \<not> bar_animated b \<and> \<not> bar_shown b"

lemma bar_gone_step:
  assumes "bar_gone b" and "bar_may e b"
  shows "bar_gone (bar_after e b)" and "e \<noteq> BarLeaveCompleted"
  using assms by (cases e; auto simp: bar_gone_def bar_after_def)+

lemma filter_nth_others:
  assumes "distinct xs" and "i < length xs"
  shows "filter (\<lambda>x. x \<noteq> xs ! i) xs = take i xs @ drop (Suc i) xs"
proof -
  define y where "y = xs ! i"
  have xs: "xs = take i xs @ y # drop (Suc i) xs" unfolding y_def by (rule id_take_nth_drop[OF assms(2)])
  then have "distinct (take i xs @ y # drop (Suc i) xs)" using assms(1) by simp
  then have "filter (\<lambda>x. x \<noteq> y) (take i xs) = take i xs" "filter (\<lambda>x. x \<noteq> y) (drop (Suc i) xs) = drop (Suc i) xs"
    by (auto simp: filter_id_conv)
  then have "filter (\<lambda>x. x \<noteq> y) (take i xs @ y # drop (Suc i) xs) = take i xs @ drop (Suc i) xs" by simp
  moreover have "filter (\<lambda>x. x \<noteq> y) xs = filter (\<lambda>x. x \<noteq> y) (take i xs @ y # drop (Suc i) xs)"
    by (rule arg_cong[OF xs])
  ultimately show ?thesis by (simp add: y_def)
qed

lemma closing_removes:
  assumes "notifications_ok st" and "i < length (nt_all st)"
  shows "nt_all (on_bar i BarLeaveCompleted st) = take i (nt_all st) @ drop (Suc i) (nt_all st)"
    and "nt_bars (on_bar i BarLeaveCompleted st) =
           take (length (nt_all st) - 1) ((nt_bars st)[i := bar_after BarLeaveCompleted (nt_bars st ! i)])"
proof -
  have d: "distinct (nt_all st)" using assms(1) by (simp add: notifications_ok_def distinct_map)
  show nt_all: "nt_all (on_bar i BarLeaveCompleted st) = take i (nt_all st) @ drop (Suc i) (nt_all st)"
    by (simp add: on_bar_def Let_def remove_notification_def put_notifications_def filter_nth_others[OF d assms(2)])
  show "nt_bars (on_bar i BarLeaveCompleted st) =
      take (length (nt_all st) - 1) ((nt_bars st)[i := bar_after BarLeaveCompleted (nt_bars st ! i)])"
    using assms by (simp add: on_bar_def Let_def remove_notification_def put_notifications_def
        filter_nth_others[OF d assms(2)] render_unkeyed_def notifications_ok_def min_def)
qed

text \<open>
  When the snakebar of an earlier notification closes, the next notification gets its instance,
  which has left: it is never seen, and stays in the list.
\<close>

lemma successor_lost:
  assumes "notifications_ok st" and "Suc i < length (nt_all st)" and "bar_started (nt_bars st ! i)"
    and "bar_may BarLeaveCompleted (nt_bars st ! i)"
  shows "nt_all (on_bar i BarLeaveCompleted st) ! i = nt_all st ! Suc i"
    and "bar_gone (nt_bars (on_bar i BarLeaveCompleted st) ! i)"
  using assms closing_removes[OF assms(1), of i]
  by (simp_all add: nth_append bar_gone_def bar_after_def notifications_ok_def)

section \<open>Menus\<close>

text \<open>
  \<^verbatim>\<open>Menu\<close>. An item is clicked with what the click went through, the target first: for each the
  value of its attribute \<^verbatim>\<open>data-value\<close>, when it has one.
\<close>

datatype menu_emit = DidOpen | DidClose | Chosen string

record menu =
  menu_open :: bool
  menu_emitted :: "menu_emit list"

datatype menu_event =
    MenuProp "bool option"
  | TriggerClicked
  | ItemClicked "string option list"
  | ClickedOutside

definition menu_init :: menu where
  "menu_init = \<lparr>menu_open = False, menu_emitted = []\<rparr>"

definition set_menu :: "bool \<Rightarrow> menu \<Rightarrow> menu" where
  "set_menu open m =
     (if menu_open m = open then m
      else m\<lparr>menu_open := open, menu_emitted := menu_emitted m @ [if open then DidOpen else DidClose]\<rparr>)"

fun first_value :: "string option list \<Rightarrow> string option" where
  "first_value [] = None"
| "first_value (None # ts) = first_value ts"
| "first_value (Some v # ts) = Some v"

fun menu_handle :: "bool \<Rightarrow> menu_event \<Rightarrow> menu \<Rightarrow> menu" where
  "menu_handle disabled (MenuProp o') m = set_menu (case o' of None \<Rightarrow> menu_open m | Some b \<Rightarrow> b) m"
| "menu_handle disabled TriggerClicked m = (if disabled then m else set_menu True m)"
| "menu_handle disabled (ItemClicked targets) m =
     (case first_value targets of
        None \<Rightarrow> m
      | Some v \<Rightarrow> set_menu False (m\<lparr>menu_emitted := menu_emitted m @ [Chosen v]\<rparr>))"
| "menu_handle disabled ClickedOutside m = set_menu False m"

definition menu_after :: "(bool \<times> menu_event) list \<Rightarrow> menu" where
  "menu_after es = fold (\<lambda>(disabled, e). menu_handle disabled e) es menu_init"

text \<open>
  What a listener makes of the reports: opened and closed in turn, beginning with opened. The
  state that has been reported, when the reports are in turn.
\<close>

fun reported :: "bool \<Rightarrow> menu_emit list \<Rightarrow> bool option" where
  "reported b [] = Some b"
| "reported b (DidOpen # es) = (if b then None else reported True es)"
| "reported b (DidClose # es) = (if b then reported False es else None)"
| "reported b (Chosen v # es) = reported b es"

lemma reported_append: "reported b (es @ fs) = (case reported b es of None \<Rightarrow> None | Some c \<Rightarrow> reported c fs)"
  by (induction b es rule: reported.induct) auto

lemma reported_set_menu:
  "reported False (menu_emitted m) = Some (menu_open m) \<Longrightarrow>
   reported False (menu_emitted (set_menu b m)) = Some b"
  by (simp add: set_menu_def reported_append)

lemma menu_open_set [simp]: "menu_open (set_menu b m) = b"
  by (simp add: set_menu_def)

text \<open>
  Whatever happens to a menu, its reports are in turn, and the last of them is its state: a
  listener that keeps the menu's state from the reports alone keeps the right one.
\<close>

lemma menu_reports: "reported False (menu_emitted (menu_after es)) = Some (menu_open (menu_after es))"
proof (induction es rule: rev_induct)
  case Nil
  show ?case by (simp add: menu_after_def menu_init_def)
next
  case (snoc x es)
  then have "reported False (menu_emitted (menu_handle d e (menu_after es))) = Some (menu_open (menu_handle d e (menu_after es)))" for d e
    by (cases "(d, e, menu_after es)" rule: menu_handle.cases)
      (auto simp: reported_set_menu reported_append split: option.splits)
  then show ?case by (simp add: menu_after_def split_beta)
qed

lemma disabled_menu_stays: "menu_handle True TriggerClicked m = m"
  by simp

section \<open>Tooltips\<close>

text \<open>
  \<^verbatim>\<open>Tooltip\<close>: with a title, what shows it and hides it; without one, its child alone.
\<close>

datatype tooltip_event = MouseOver | MouseLeave | TooltipOutside

fun tooltip_handle :: "tooltip_event \<Rightarrow> bool \<Rightarrow> bool" where
  "tooltip_handle MouseOver b = True"
| "tooltip_handle MouseLeave b = False"
| "tooltip_handle TooltipOutside b = False"

definition tooltip_shown :: "string \<Rightarrow> tooltip_event list \<Rightarrow> bool" where
  "tooltip_shown title es \<longleftrightarrow> title \<noteq> [] \<and> fold tooltip_handle es False"

lemma tooltip_shown_iff: "tooltip_shown title es \<longleftrightarrow> title \<noteq> [] \<and> es \<noteq> [] \<and> last es = MouseOver"
proof (cases es rule: rev_cases)
  case (snoc fs e)
  then show ?thesis by (cases e) (simp_all add: tooltip_shown_def)
qed (simp add: tooltip_shown_def)

end
