(* ===== verification/Dashboard_Schema.thy ===== *)
theory Dashboard_Schema
  imports KP_Prelude
begin

text \<open>
  The two languages in which \<^verbatim>\<open>webapp/dashboard/client/dashboard.ts\<close> declares the data of the
  dashboard's API: TypeScript types and the runtime schemas built with the package
  \<^verbatim>\<open>typedef\<close> (imported as \<^verbatim>\<open>t\<close>). \<open>infer\<close> is the type of the values a schema describes, as the
  package documents it (\<^verbatim>\<open>Infer\<close>).
\<close>

datatype presence = Required | Optional

datatype tsty =
    TString | TNumber | TBoolean | TAny | TVoid | TNull
  | TRef string
  | TLit string
  | TArray tsty
  | TRecord tsty tsty
  | TOr "tsty list"
  | TAnd "tsty list"
  | TObject "(string \<times> presence \<times> tsty) list"

text \<open>A TypeScript string enumeration: its members with their values.\<close>

type_synonym ts_enum = "(string \<times> string) list"

definition enum_values :: "ts_enum \<Rightarrow> string list" where
  "enum_values e = map snd e"

definition enum_type :: "ts_enum \<Rightarrow> tsty" where
  "enum_type e = TOr (map TLit (enum_values e))"

text \<open>\<^verbatim>\<open>{...labels}[v] ?? v\<close>.\<close>

definition display_label :: "(string \<times> string) list \<Rightarrow> string \<Rightarrow> string" where
  "display_label labels v = (case map_of labels v of None \<Rightarrow> v | Some l \<Rightarrow> l)"

datatype schema =
    SString | SInteger | SNumber | SBoolean | SAny
  | SRef string string
  | SArray schema
  | SRecord schema schema
  | SObject "(string \<times> schema) list"
  | SIntersection "schema list"
  | SUnion "schema list"
  | SDiscriminator string "(string \<times> schema) list"
  | SEnums "string list"
  | SNativeEnum ts_enum
  | SOptional schema

fun presence_of :: "schema \<Rightarrow> presence" where
  "presence_of (SOptional s) = Optional"
| "presence_of s = Required"

fun infer :: "schema \<Rightarrow> tsty" where
  "infer SString = TString"
| "infer SInteger = TNumber"
| "infer SNumber = TNumber"
| "infer SBoolean = TBoolean"
| "infer SAny = TAny"
| "infer (SRef name const) = TRef name"
| "infer (SArray s) = TArray (infer s)"
| "infer (SRecord k s) = TRecord (infer k) (infer s)"
| "infer (SObject fs) = TObject (map (\<lambda>(n, s). (n, presence_of s, infer s)) fs)"
| "infer (SIntersection ss) = TAnd (map infer ss)"
| "infer (SUnion ss) = TOr (map infer ss)"
| "infer (SDiscriminator k branches) =
     TOr (map (\<lambda>(tag, s).
       case infer s of TObject fs \<Rightarrow> TObject ((k, Required, TLit tag) # fs) | T \<Rightarrow> T) branches)"
| "infer (SEnums vs) = TOr (map TLit vs)"
| "infer (SNativeEnum e) = enum_type e"
| "infer (SOptional s) = infer s"

text \<open>The references of a schema, each a name with the constant that is meant to define it.\<close>

fun schema_refs :: "schema \<Rightarrow> (string \<times> string) list" where
  "schema_refs (SRef name const) = [(name, const)]"
| "schema_refs (SArray s) = schema_refs s"
| "schema_refs (SRecord k s) = schema_refs k @ schema_refs s"
| "schema_refs (SObject fs) = concat (map (\<lambda>(n, s). schema_refs s) fs)"
| "schema_refs (SIntersection ss) = concat (map schema_refs ss)"
| "schema_refs (SUnion ss) = concat (map schema_refs ss)"
| "schema_refs (SDiscriminator k branches) = concat (map (\<lambda>(tag, s). schema_refs s) branches)"
| "schema_refs (SOptional s) = schema_refs s"
| "schema_refs s = []"

end
