(* ===== verification/Dashboard_Request.thy ===== *)
theory Dashboard_Request
  imports Dashboard_Schema JS_Value
begin

text \<open>
  \<^verbatim>\<open>webapp/dashboard/client/client.tsx\<close>: \<^verbatim>\<open>createRequest\<close>. An operation is what the generated
  client passes to it: the operation's id, the type of its inputs and of its response, and the
  function from inputs to a request, which is given by a method, a URL template whose
  parameters are inputs, the query parameters by the inputs they carry, the input sent as
  body, and the headers.
\<close>

datatype segment = Lit string | Par string

record operation =
  op_id :: string
  op_inputs :: tsty
  op_output :: tsty
  op_method :: string
  op_url :: "segment list"
  op_params :: "(string \<times> string) list"
  op_body :: "string option"
  op_headers :: "(string \<times> string) list"

record request =
  rq_method :: string
  rq_url :: string
  rq_params :: obj
  rq_body :: js
  rq_headers :: "(string \<times> string) list"
  rq_inputs :: js

fun expand_segment :: "js \<Rightarrow> segment \<Rightarrow> string" where
  "expand_segment inputs (Lit s) = s"
| "expand_segment inputs (Par p) = to_str (member inputs p)"

definition expand_url :: "js \<Rightarrow> segment list \<Rightarrow> string" where
  "expand_url inputs url = concat (map (expand_segment inputs) url)"

definition create_request :: "operation \<Rightarrow> js \<Rightarrow> request" where
  "create_request op inputs =
     \<lparr>rq_method = op_method op,
      rq_url = expand_url inputs (op_url op),
      rq_params = map (\<lambda>(q, i). (q, member inputs i)) (op_params op),
      rq_body = (case op_body op of None \<Rightarrow> Undef | Some i \<Rightarrow> member inputs i),
      rq_headers = op_headers op,
      rq_inputs = inputs\<rparr>"

section \<open>What makes an operation well-formed\<close>

definition url_params :: "segment list \<Rightarrow> string list" where
  "url_params url = concat (map (\<lambda>s. case s of Lit l \<Rightarrow> [] | Par p \<Rightarrow> [p]) url)"

definition used_inputs :: "operation \<Rightarrow> string list" where
  "used_inputs op =
     url_params (op_url op) @ map snd (op_params op) @ (case op_body op of None \<Rightarrow> [] | Some i \<Rightarrow> [i])"

definition declared_inputs :: "operation \<Rightarrow> (string \<times> presence) list" where
  "declared_inputs op =
     (case op_inputs op of TObject fs \<Rightarrow> map (\<lambda>(n, p, T). (n, p)) fs | _ \<Rightarrow> [])"

text \<open>
  Every declared input is sent exactly once and nothing else is; inputs of the URL and the body
  are required; a body has its content type.
\<close>

definition wf_operation :: "operation \<Rightarrow> bool" where
  "wf_operation op \<longleftrightarrow>
     distinct (used_inputs op) \<and>
     (\<forall>i \<in> set (used_inputs op). i \<in> set (map fst (declared_inputs op))) \<and>
     (\<forall>i \<in> set (map fst (declared_inputs op)). i \<in> set (used_inputs op)) \<and>
     distinct (map fst (declared_inputs op)) \<and>
     (\<forall>p \<in> set (url_params (op_url op)). map_of (declared_inputs op) p = Some Required) \<and>
     (case op_body op of None \<Rightarrow> True | Some i \<Rightarrow> map_of (declared_inputs op) i = Some Required) \<and>
     (op_body op \<noteq> None \<longleftrightarrow> map_of (op_headers op) ''Content-Type'' \<noteq> None) \<and>
     (op_method op = ''GET'' \<longrightarrow> op_body op = None)"

section \<open>Routes\<close>

text \<open>
  The path of an operation as segments between slashes, a parameter being \<open>None\<close>. Every
  parameter of the client stands between slashes.
\<close>

type_synonym route = "string option list"

fun route_of :: "segment list \<Rightarrow> route" where
  "route_of [] = []"
| "route_of (Lit l # us) = map Some (filter (\<lambda>w. w \<noteq> []) (split_on (CHR ''/'') l)) @ route_of us"
| "route_of (Par p # us) = None # route_of us"

text \<open>Two routes that some URL could match both: literals agree where both have one.\<close>

fun overlap :: "route \<Rightarrow> route \<Rightarrow> bool" where
  "overlap [] [] = True"
| "overlap (Some a # r) (Some b # s) = (a = b \<and> overlap r s)"
| "overlap (x # r) (y # s) = overlap r s"
| "overlap r s = False"

text \<open>A literal between parameters begins and ends with a slash.\<close>

fun slash_separated :: "segment list \<Rightarrow> bool" where
  "slash_separated (Lit l # Par p # us) =
     (l \<noteq> [] \<and> hd l = CHR ''/'' \<and> last l = CHR ''/'' \<and> slash_separated us)"
| "slash_separated [Lit l] = (l \<noteq> [] \<and> hd l = CHR ''/'' \<and> last l \<noteq> CHR ''/'')"
| "slash_separated [] = True"
| "slash_separated us = False"

text \<open>What a URL's path is split into: the parts between its slashes.\<close>

definition path_parts :: "string \<Rightarrow> string list" where
  "path_parts url = filter (\<lambda>w. w \<noteq> []) (split_on (CHR ''/'') url)"

fun matches :: "route \<Rightarrow> string list \<Rightarrow> bool" where
  "matches [] [] = True"
| "matches (Some a # r) (w # ws) = (a = w \<and> matches r ws)"
| "matches (None # r) (w # ws) = matches r ws"
| "matches r ws = False"

lemma matches_overlap: "matches r ws \<Longrightarrow> matches s ws \<Longrightarrow> overlap r s"
  by (induction r ws arbitrary: s rule: matches.induct) (auto elim: matches.elims)

lemma split_on_slash_append:
  "split_on d (a @ d # b) = split_on d a @ split_on d b"
  by (induction a) (auto split: list.splits)

lemma path_parts_append_slash: "path_parts (a @ CHR ''/'' # b) = path_parts a @ path_parts b"
  by (simp add: path_parts_def split_on_slash_append)

lemma path_parts_word: "CHR ''/'' \<notin> set w \<Longrightarrow> w \<noteq> [] \<Longrightarrow> path_parts w = [w]"
  by (simp add: path_parts_def split_on_no_delim)

lemma path_parts_lit_word:
  assumes "l \<noteq> []" and "last l = CHR ''/''" and "CHR ''/'' \<notin> set w" and "w \<noteq> []"
    and "rest = [] \<or> hd rest = CHR ''/''"
  shows "path_parts (l @ w @ rest) = path_parts l @ w # path_parts rest"
proof -
  obtain l' where l: "l = l' @ [CHR ''/'']"
    using assms(1,2) by (metis append_butlast_last_id)
  have "path_parts (w @ rest) = w # path_parts rest"
  proof (cases rest)
    case Nil
    then show ?thesis using assms path_parts_word by (simp add: path_parts_def)
  next
    case (Cons c rest')
    then have c: "c = CHR ''/''" using assms(5) by simp
    have "path_parts (w @ CHR ''/'' # rest') = path_parts w @ path_parts rest'"
      by (rule path_parts_append_slash)
    moreover have "path_parts (CHR ''/'' # rest') = path_parts rest'"
      using path_parts_append_slash [of "[]" rest'] by (simp add: path_parts_def)
    ultimately show ?thesis using Cons c assms path_parts_word by simp
  qed
  moreover have "path_parts (l' @ CHR ''/'' # (w @ rest)) = path_parts l' @ path_parts (w @ rest)"
    by (rule path_parts_append_slash)
  moreover have "path_parts (l' @ [CHR ''/'']) = path_parts l'"
    using path_parts_append_slash [of l' "[]"] by (simp add: path_parts_def)
  ultimately show ?thesis using l by simp
qed

text \<open>A path parameter that stays within its segment.\<close>

definition segment_value :: "js \<Rightarrow> string \<Rightarrow> bool" where
  "segment_value inputs p \<longleftrightarrow>
     to_str (member inputs p) \<noteq> [] \<and> CHR ''/'' \<notin> set (to_str (member inputs p))"

lemma matches_append_map: "matches (map Some xs @ r) (xs @ ws) = matches r ws"
  by (induction xs) auto

lemma expand_url_hd:
  "slash_separated us \<Longrightarrow> us \<noteq> [] \<Longrightarrow> hd (expand_url inputs us) = CHR ''/''"
  by (induction us rule: slash_separated.induct) (auto simp: expand_url_def)

lemma expand_url_matches:
  "slash_separated us \<Longrightarrow> \<forall>p \<in> set (url_params us). segment_value inputs p \<Longrightarrow>
   matches (route_of us) (path_parts (expand_url inputs us))"
proof (induction us rule: slash_separated.induct)
  case (1 l p us)
  let ?w = "to_str (member inputs p)"
  have rest: "expand_url inputs us = [] \<or> hd (expand_url inputs us) = CHR ''/''"
    using 1 expand_url_hd [of us inputs] by (cases us) (auto simp: expand_url_def)
  have "path_parts (expand_url inputs (Lit l # Par p # us))
      = path_parts l @ ?w # path_parts (expand_url inputs us)"
    using 1 path_parts_lit_word [OF _ _ _ _ rest, of l ?w]
    by (auto simp: expand_url_def segment_value_def url_params_def)
  with 1 show ?case
    by (simp add: path_parts_def matches_append_map url_params_def)
next
  case (2 l)
  then show ?case
    using matches_append_map [of "path_parts l" "[]" "[]"]
    by (simp add: expand_url_def path_parts_def)
qed (auto simp: expand_url_def path_parts_def)

end
