(* ===== verification/Dashboard_Client.thy ===== *)
theory Dashboard_Client
  imports Dashboard_Request
begin

text \<open>
  The requests of \<^verbatim>\<open>webapp/dashboard/client/dashboard.ts\<close>, one definition per exported constant,
  in the order of the file.
\<close>

definition listAccount :: operation where
  "listAccount =
    \<lparr>op_id = ''dashboard.ListAccount'',
     op_inputs = TObject [(''accountID'', Optional, TArray (TRef ''AccountId'')),
     (''identity'', Optional, TArray (TString)),
     (''size'', Optional, TNumber),
     (''offset'', Optional, TNumber)],
     op_output = TRef ''AccountUserDataList'',
     op_method = ''GET'',
     op_url = [Lit ''/api/kubepkg-dashboard/v0/accounts''],
     op_params = [(''accountID'', ''accountID''), (''identity'', ''identity''), (''size'', ''size''), (''offset'', ''offset'')],
     op_body = None,
     op_headers = []\<rparr>"

definition listAdminAccount :: operation where
  "listAdminAccount =
    \<lparr>op_id = ''dashboard.ListAdminAccount'',
     op_inputs = TObject [(''accountID'', Optional, TArray (TRef ''AccountId'')),
     (''identity'', Optional, TArray (TString)),
     (''size'', Optional, TNumber),
     (''offset'', Optional, TNumber),
     (''roleType'', Optional, TArray (TRef ''GroupRoleType''))],
     op_output = TRef ''GroupUserDataList'',
     op_method = ''GET'',
     op_url = [Lit ''/api/kubepkg-dashboard/v0/admin/accounts''],
     op_params = [(''accountID'', ''accountID''), (''identity'', ''identity''), (''size'', ''size''), (''offset'', ''offset''), (''roleType'', ''roleType'')],
     op_body = None,
     op_headers = []\<rparr>"

definition deleteAdminAccount :: operation where
  "deleteAdminAccount =
    \<lparr>op_id = ''dashboard.DeleteAdminAccount'',
     op_inputs = TObject [(''accountID'', Required, TRef ''AccountId'')],
     op_output = TAny,
     op_method = ''DELETE'',
     op_url = [Lit ''/api/kubepkg-dashboard/v0/admin/accounts/'', Par ''accountID''],
     op_params = [],
     op_body = None,
     op_headers = []\<rparr>"

definition putAdminAccount :: operation where
  "putAdminAccount =
    \<lparr>op_id = ''dashboard.PutAdminAccount'',
     op_inputs = TObject [(''accountID'', Required, TRef ''AccountId''),
     (''body'', Required, TRef ''GroupRoleInfo'')],
     op_output = TRef ''GroupAccount'',
     op_method = ''PUT'',
     op_url = [Lit ''/api/kubepkg-dashboard/v0/admin/accounts/'', Par ''accountID''],
     op_params = [],
     op_body = Some ''body'',
     op_headers = [(''Content-Type'', ''application/json'')]\<rparr>"

definition listAuthProvider :: operation where
  "listAuthProvider =
    \<lparr>op_id = ''dashboard.ListAuthProvider'',
     op_inputs = TVoid,
     op_output = TArray (TRef ''AuthProviderInfo''),
     op_method = ''GET'',
     op_url = [Lit ''/api/kubepkg-dashboard/v0/auth-providers''],
     op_params = [],
     op_body = None,
     op_headers = []\<rparr>"

definition authorize :: operation where
  "authorize =
    \<lparr>op_id = ''dashboard.Authorize'',
     op_inputs = TObject [(''name'', Required, TString),
     (''state'', Optional, TString)],
     op_output = TAny,
     op_method = ''GET'',
     op_url = [Lit ''/api/kubepkg-dashboard/v0/auth-providers/'', Par ''name'', Lit ''/authorize''],
     op_params = [(''state'', ''state'')],
     op_body = None,
     op_headers = []\<rparr>"

definition exchangeToken :: operation where
  "exchangeToken =
    \<lparr>op_id = ''dashboard.ExchangeToken'',
     op_inputs = TObject [(''name'', Required, TString),
     (''body'', Required, TRef ''AuthExchangeTokenData'')],
     op_output = TRef ''AuthToken'',
     op_method = ''POST'',
     op_url = [Lit ''/api/kubepkg-dashboard/v0/auth-providers/'', Par ''name'', Lit ''/token''],
     op_params = [],
     op_body = Some ''body'',
     op_headers = [(''Content-Type'', ''application/json'')]\<rparr>"

definition registerClusterAgent :: operation where
  "registerClusterAgent =
    \<lparr>op_id = ''dashboard.RegisterClusterAgent'',
     op_inputs = TObject [(''body'', Required, TRef ''Agent'')],
     op_output = TAny,
     op_method = ''PUT'',
     op_url = [Lit ''/api/kubepkg-dashboard/v0/clusteragent/register''],
     op_params = [],
     op_body = Some ''body'',
     op_headers = [(''Content-Type'', ''application/json'')]\<rparr>"

definition listCluster :: operation where
  "listCluster =
    \<lparr>op_id = ''dashboard.ListCluster'',
     op_inputs = TVoid,
     op_output = TArray (TRef ''Cluster''),
     op_method = ''GET'',
     op_url = [Lit ''/api/kubepkg-dashboard/v0/clusters''],
     op_params = [],
     op_body = None,
     op_headers = []\<rparr>"

definition putCluster :: operation where
  "putCluster =
    \<lparr>op_id = ''dashboard.PutCluster'',
     op_inputs = TObject [(''name'', Required, TString),
     (''body'', Required, TRef ''ClusterInfo'')],
     op_output = TRef ''Cluster'',
     op_method = ''PUT'',
     op_url = [Lit ''/api/kubepkg-dashboard/v0/clusters/'', Par ''name''],
     op_params = [],
     op_body = Some ''body'',
     op_headers = [(''Content-Type'', ''application/json'')]\<rparr>"

definition createClusterAgentResources :: operation where
  "createClusterAgentResources =
    \<lparr>op_id = ''dashboard.CreateClusterAgentResources'',
     op_inputs = TObject [(''name'', Required, TString)],
     op_output = TArray (TRef ''ClientObject''),
     op_method = ''POST'',
     op_url = [Lit ''/api/kubepkg-dashboard/v0/clusters/'', Par ''name'', Lit ''/agent/resources''],
     op_params = [],
     op_body = None,
     op_headers = []\<rparr>"

definition renameCluster :: operation where
  "renameCluster =
    \<lparr>op_id = ''dashboard.RenameCluster'',
     op_inputs = TObject [(''name'', Required, TString),
     (''newName'', Required, TString)],
     op_output = TRef ''Cluster'',
     op_method = ''PUT'',
     op_url = [Lit ''/api/kubepkg-dashboard/v0/clusters/'', Par ''name'', Lit ''/rename/'', Par ''newName''],
     op_params = [],
     op_body = None,
     op_headers = []\<rparr>"

definition getClusterStatus :: operation where
  "getClusterStatus =
    \<lparr>op_id = ''dashboard.GetClusterStatus'',
     op_inputs = TObject [(''name'', Required, TString)],
     op_output = TRef ''ClusterInstanceStatus'',
     op_method = ''GET'',
     op_url = [Lit ''/api/kubepkg-dashboard/v0/clusters/'', Par ''name'', Lit ''/status''],
     op_params = [],
     op_body = None,
     op_headers = []\<rparr>"

definition listGroup :: operation where
  "listGroup =
    \<lparr>op_id = ''dashboard.ListGroup'',
     op_inputs = TVoid,
     op_output = TArray (TRef ''Group''),
     op_method = ''GET'',
     op_url = [Lit ''/api/kubepkg-dashboard/v0/groups''],
     op_params = [],
     op_body = None,
     op_headers = []\<rparr>"

definition deleteGroup :: operation where
  "deleteGroup =
    \<lparr>op_id = ''dashboard.DeleteGroup'',
     op_inputs = TObject [(''groupName'', Required, TString)],
     op_output = TAny,
     op_method = ''DELETE'',
     op_url = [Lit ''/api/kubepkg-dashboard/v0/groups/'', Par ''groupName''],
     op_params = [],
     op_body = None,
     op_headers = []\<rparr>"

definition getGroup :: operation where
  "getGroup =
    \<lparr>op_id = ''dashboard.GetGroup'',
     op_inputs = TObject [(''groupName'', Required, TString)],
     op_output = TRef ''Group'',
     op_method = ''GET'',
     op_url = [Lit ''/api/kubepkg-dashboard/v0/groups/'', Par ''groupName''],
     op_params = [],
     op_body = None,
     op_headers = []\<rparr>"

definition putGroup :: operation where
  "putGroup =
    \<lparr>op_id = ''dashboard.PutGroup'',
     op_inputs = TObject [(''groupName'', Required, TString),
     (''body'', Required, TRef ''GroupInfo'')],
     op_output = TRef ''Group'',
     op_method = ''PUT'',
     op_url = [Lit ''/api/kubepkg-dashboard/v0/groups/'', Par ''groupName''],
     op_params = [],
     op_body = Some ''body'',
     op_headers = [(''Content-Type'', ''application/json'')]\<rparr>"

definition listGroupAccount :: operation where
  "listGroupAccount =
    \<lparr>op_id = ''dashboard.ListGroupAccount'',
     op_inputs = TObject [(''groupName'', Required, TString),
     (''accountID'', Optional, TArray (TRef ''AccountId'')),
     (''identity'', Optional, TArray (TString)),
     (''size'', Optional, TNumber),
     (''offset'', Optional, TNumber),
     (''roleType'', Optional, TArray (TRef ''GroupRoleType''))],
     op_output = TRef ''GroupUserDataList'',
     op_method = ''GET'',
     op_url = [Lit ''/api/kubepkg-dashboard/v0/groups/'', Par ''groupName'', Lit ''/accounts''],
     op_params = [(''accountID'', ''accountID''), (''identity'', ''identity''), (''size'', ''size''), (''offset'', ''offset''), (''roleType'', ''roleType'')],
     op_body = None,
     op_headers = []\<rparr>"

definition deleteGroupAccount :: operation where
  "deleteGroupAccount =
    \<lparr>op_id = ''dashboard.DeleteGroupAccount'',
     op_inputs = TObject [(''groupName'', Required, TString),
     (''accountID'', Required, TRef ''AccountId'')],
     op_output = TAny,
     op_method = ''DELETE'',
     op_url = [Lit ''/api/kubepkg-dashboard/v0/groups/'', Par ''groupName'', Lit ''/accounts/'', Par ''accountID''],
     op_params = [],
     op_body = None,
     op_headers = []\<rparr>"

definition putGroupAccount :: operation where
  "putGroupAccount =
    \<lparr>op_id = ''dashboard.PutGroupAccount'',
     op_inputs = TObject [(''groupName'', Required, TString),
     (''accountID'', Required, TRef ''AccountId''),
     (''body'', Required, TRef ''GroupRoleInfo'')],
     op_output = TRef ''GroupAccount'',
     op_method = ''PUT'',
     op_url = [Lit ''/api/kubepkg-dashboard/v0/groups/'', Par ''groupName'', Lit ''/accounts/'', Par ''accountID''],
     op_params = [],
     op_body = Some ''body'',
     op_headers = [(''Content-Type'', ''application/json'')]\<rparr>"

definition listGroupEnv :: operation where
  "listGroupEnv =
    \<lparr>op_id = ''dashboard.ListGroupEnv'',
     op_inputs = TObject [(''groupName'', Required, TString)],
     op_output = TArray (TRef ''GroupEnvWithCluster''),
     op_method = ''GET'',
     op_url = [Lit ''/api/kubepkg-dashboard/v0/groups/'', Par ''groupName'', Lit ''/envs''],
     op_params = [],
     op_body = None,
     op_headers = []\<rparr>"

definition deleteGroupEnv :: operation where
  "deleteGroupEnv =
    \<lparr>op_id = ''dashboard.DeleteGroupEnv'',
     op_inputs = TObject [(''groupName'', Required, TString),
     (''envName'', Required, TString)],
     op_output = TAny,
     op_method = ''DELETE'',
     op_url = [Lit ''/api/kubepkg-dashboard/v0/groups/'', Par ''groupName'', Lit ''/envs/'', Par ''envName''],
     op_params = [],
     op_body = None,
     op_headers = []\<rparr>"

definition putGroupEnv :: operation where
  "putGroupEnv =
    \<lparr>op_id = ''dashboard.PutGroupEnv'',
     op_inputs = TObject [(''groupName'', Required, TString),
     (''envName'', Required, TString),
     (''body'', Required, TRef ''GroupEnvInfo'')],
     op_output = TRef ''GroupEnvWithCluster'',
     op_method = ''PUT'',
     op_url = [Lit ''/api/kubepkg-dashboard/v0/groups/'', Par ''groupName'', Lit ''/envs/'', Par ''envName''],
     op_params = [],
     op_body = Some ''body'',
     op_headers = [(''Content-Type'', ''application/json'')]\<rparr>"

definition listGroupEnvClusterDeployments :: operation where
  "listGroupEnvClusterDeployments =
    \<lparr>op_id = ''dashboard.ListGroupEnvClusterDeployments'',
     op_inputs = TObject [(''groupName'', Required, TString),
     (''envName'', Required, TString)],
     op_output = TArray (TRef ''ApisKubepkgV1Alpha1KubePkg''),
     op_method = ''GET'',
     op_url = [Lit ''/api/kubepkg-dashboard/v0/groups/'', Par ''groupName'', Lit ''/envs/'', Par ''envName'', Lit ''/cluster/deployments''],
     op_params = [],
     op_body = None,
     op_headers = []\<rparr>"

definition unbindGroupEnvCluster :: operation where
  "unbindGroupEnvCluster =
    \<lparr>op_id = ''dashboard.UnbindGroupEnvCluster'',
     op_inputs = TObject [(''groupName'', Required, TString),
     (''envName'', Required, TString),
     (''clusterID'', Required, TRef ''ClusterId'')],
     op_output = TRef ''GroupEnvWithCluster'',
     op_method = ''DELETE'',
     op_url = [Lit ''/api/kubepkg-dashboard/v0/groups/'', Par ''groupName'', Lit ''/envs/'', Par ''envName'', Lit ''/clusters/'', Par ''clusterID''],
     op_params = [],
     op_body = None,
     op_headers = []\<rparr>"

definition bindGroupEnvCluster :: operation where
  "bindGroupEnvCluster =
    \<lparr>op_id = ''dashboard.BindGroupEnvCluster'',
     op_inputs = TObject [(''groupName'', Required, TString),
     (''envName'', Required, TString),
     (''clusterID'', Required, TRef ''ClusterId'')],
     op_output = TRef ''GroupEnvWithCluster'',
     op_method = ''PUT'',
     op_url = [Lit ''/api/kubepkg-dashboard/v0/groups/'', Par ''groupName'', Lit ''/envs/'', Par ''envName'', Lit ''/clusters/'', Par ''clusterID''],
     op_params = [],
     op_body = None,
     op_headers = []\<rparr>"

definition listGroupEnvDeployment :: operation where
  "listGroupEnvDeployment =
    \<lparr>op_id = ''dashboard.ListGroupEnvDeployment'',
     op_inputs = TObject [(''groupName'', Required, TString),
     (''envName'', Required, TString),
     (''raw'', Optional, TBoolean),
     (''size'', Optional, TNumber),
     (''offset'', Optional, TNumber)],
     op_output = TRef ''ApisKubepkgV1Alpha1KubePkgList'',
     op_method = ''GET'',
     op_url = [Lit ''/api/kubepkg-dashboard/v0/groups/'', Par ''groupName'', Lit ''/envs/'', Par ''envName'', Lit ''/deployments''],
     op_params = [(''raw'', ''raw''), (''size'', ''size''), (''offset'', ''offset'')],
     op_body = None,
     op_headers = []\<rparr>"

definition putGroupEnvDeployment :: operation where
  "putGroupEnvDeployment =
    \<lparr>op_id = ''dashboard.PutGroupEnvDeployment'',
     op_inputs = TObject [(''groupName'', Required, TString),
     (''envName'', Required, TString),
     (''body'', Required, TRef ''ApisKubepkgV1Alpha1KubePkg'')],
     op_output = TRef ''ApisKubepkgV1Alpha1KubePkg'',
     op_method = ''PUT'',
     op_url = [Lit ''/api/kubepkg-dashboard/v0/groups/'', Par ''groupName'', Lit ''/envs/'', Par ''envName'', Lit ''/deployments''],
     op_params = [],
     op_body = Some ''body'',
     op_headers = [(''Content-Type'', ''application/json'')]\<rparr>"

definition listGroupEnvDeploymentHistory :: operation where
  "listGroupEnvDeploymentHistory =
    \<lparr>op_id = ''dashboard.ListGroupEnvDeploymentHistory'',
     op_inputs = TObject [(''groupName'', Required, TString),
     (''envName'', Required, TString),
     (''deploymentID'', Required, TRef ''GroupDeploymentId''),
     (''size'', Optional, TNumber),
     (''offset'', Optional, TNumber)],
     op_output = TArray (TRef ''ApisKubepkgV1Alpha1KubePkg''),
     op_method = ''GET'',
     op_url = [Lit ''/api/kubepkg-dashboard/v0/groups/'', Par ''groupName'', Lit ''/envs/'', Par ''envName'', Lit ''/deployments/'', Par ''deploymentID'', Lit ''/histories''],
     op_params = [(''size'', ''size''), (''offset'', ''offset'')],
     op_body = None,
     op_headers = []\<rparr>"

definition deleteGroupEnvDeployment :: operation where
  "deleteGroupEnvDeployment =
    \<lparr>op_id = ''dashboard.DeleteGroupEnvDeployment'',
     op_inputs = TObject [(''groupName'', Required, TString),
     (''envName'', Required, TString),
     (''deploymentName'', Required, TString)],
     op_output = TAny,
     op_method = ''DELETE'',
     op_url = [Lit ''/api/kubepkg-dashboard/v0/groups/'', Par ''groupName'', Lit ''/envs/'', Par ''envName'', Lit ''/deployments/'', Par ''deploymentName''],
     op_params = [],
     op_body = None,
     op_headers = []\<rparr>"

definition listKubepkg :: operation where
  "listKubepkg =
    \<lparr>op_id = ''dashboard.ListKubepkg'',
     op_inputs = TObject [(''groupName'', Required, TString),
     (''name'', Optional, TArray (TString)),
     (''size'', Optional, TNumber),
     (''offset'', Optional, TNumber)],
     op_output = TArray (TRef ''Kubepkg''),
     op_method = ''GET'',
     op_url = [Lit ''/api/kubepkg-dashboard/v0/groups/'', Par ''groupName'', Lit ''/kubepkgs''],
     op_params = [(''name'', ''name''), (''size'', ''size''), (''offset'', ''offset'')],
     op_body = None,
     op_headers = []\<rparr>"

definition getKubepkgRevision :: operation where
  "getKubepkgRevision =
    \<lparr>op_id = ''dashboard.GetKubepkgRevision'',
     op_inputs = TObject [(''groupName'', Required, TString),
     (''name'', Required, TString),
     (''channel'', Required, TRef ''KubepkgChannel''),
     (''revisionID'', Required, TRef ''KubepkgRevisionId'')],
     op_output = TRef ''ApisKubepkgV1Alpha1KubePkg'',
     op_method = ''GET'',
     op_url = [Lit ''/api/kubepkg-dashboard/v0/groups/'', Par ''groupName'', Lit ''/kubepkgs/'', Par ''name'', Lit ''/'', Par ''channel'', Lit ''/revisions/'', Par ''revisionID''],
     op_params = [],
     op_body = None,
     op_headers = []\<rparr>"

definition listKubepkgVersion :: operation where
  "listKubepkgVersion =
    \<lparr>op_id = ''dashboard.ListKubepkgVersion'',
     op_inputs = TObject [(''groupName'', Required, TString),
     (''name'', Required, TString),
     (''channel'', Required, TRef ''KubepkgChannel'')],
     op_output = TArray (TRef ''KubepkgVersionInfo''),
     op_method = ''GET'',
     op_url = [Lit ''/api/kubepkg-dashboard/v0/groups/'', Par ''groupName'', Lit ''/kubepkgs/'', Par ''name'', Lit ''/'', Par ''channel'', Lit ''/versions''],
     op_params = [],
     op_body = None,
     op_headers = []\<rparr>"

definition putKubepkgVersion :: operation where
  "putKubepkgVersion =
    \<lparr>op_id = ''dashboard.PutKubepkgVersion'',
     op_inputs = TObject [(''groupName'', Required, TString),
     (''name'', Required, TString),
     (''channel'', Required, TRef ''KubepkgChannel''),
     (''body'', Required, TRef ''KubepkgVersionInfo'')],
     op_output = TAny,
     op_method = ''PUT'',
     op_url = [Lit ''/api/kubepkg-dashboard/v0/groups/'', Par ''groupName'', Lit ''/kubepkgs/'', Par ''name'', Lit ''/'', Par ''channel'', Lit ''/versions''],
     op_params = [],
     op_body = Some ''body'',
     op_headers = [(''Content-Type'', ''application/json'')]\<rparr>"

definition deleteKubepkgVersion :: operation where
  "deleteKubepkgVersion =
    \<lparr>op_id = ''dashboard.DeleteKubepkgVersion'',
     op_inputs = TObject [(''groupName'', Required, TString),
     (''name'', Required, TString),
     (''channel'', Required, TRef ''KubepkgChannel''),
     (''version'', Required, TString)],
     op_output = TAny,
     op_method = ''DELETE'',
     op_url = [Lit ''/api/kubepkg-dashboard/v0/groups/'', Par ''groupName'', Lit ''/kubepkgs/'', Par ''name'', Lit ''/'', Par ''channel'', Lit ''/versions/'', Par ''version''],
     op_params = [],
     op_body = None,
     op_headers = []\<rparr>"

definition listGroupRobot :: operation where
  "listGroupRobot =
    \<lparr>op_id = ''dashboard.ListGroupRobot'',
     op_inputs = TObject [(''groupName'', Required, TString),
     (''accountID'', Optional, TArray (TRef ''AccountId'')),
     (''identity'', Optional, TArray (TString)),
     (''size'', Optional, TNumber),
     (''offset'', Optional, TNumber),
     (''roleType'', Optional, TArray (TRef ''GroupRoleType''))],
     op_output = TRef ''GroupRobotDataList'',
     op_method = ''GET'',
     op_url = [Lit ''/api/kubepkg-dashboard/v0/groups/'', Par ''groupName'', Lit ''/robots''],
     op_params = [(''accountID'', ''accountID''), (''identity'', ''identity''), (''size'', ''size''), (''offset'', ''offset''), (''roleType'', ''roleType'')],
     op_body = None,
     op_headers = []\<rparr>"

definition createGroupRobot :: operation where
  "createGroupRobot =
    \<lparr>op_id = ''dashboard.CreateGroupRobot'',
     op_inputs = TObject [(''groupName'', Required, TString),
     (''body'', Required, TRef ''AccountRobotInfo'')],
     op_output = TRef ''AccountRobot'',
     op_method = ''PUT'',
     op_url = [Lit ''/api/kubepkg-dashboard/v0/groups/'', Par ''groupName'', Lit ''/robots''],
     op_params = [],
     op_body = Some ''body'',
     op_headers = [(''Content-Type'', ''application/json'')]\<rparr>"

definition refreshGroupRobotToken :: operation where
  "refreshGroupRobotToken =
    \<lparr>op_id = ''dashboard.RefreshGroupRobotToken'',
     op_inputs = TObject [(''groupName'', Required, TString),
     (''robotID'', Required, TRef ''AccountId''),
     (''body'', Required, TRef ''GroupRefreshGroupRobotTokenData'')],
     op_output = TRef ''AuthToken'',
     op_method = ''PUT'',
     op_url = [Lit ''/api/kubepkg-dashboard/v0/groups/'', Par ''groupName'', Lit ''/robots/'', Par ''robotID'', Lit ''/tokens''],
     op_params = [],
     op_body = Some ''body'',
     op_headers = [(''Content-Type'', ''application/json'')]\<rparr>"

definition latestKubepkgs :: operation where
  "latestKubepkgs =
    \<lparr>op_id = ''dashboard.LatestKubepkgs'',
     op_inputs = TObject [(''names'', Required, TArray (TString))],
     op_output = TRecord (TString) (TRef ''KubepkgVersionInfo''),
     op_method = ''GET'',
     op_url = [Lit ''/api/kubepkg-dashboard/v0/latest-kubepkgs''],
     op_params = [(''names'', ''names'')],
     op_body = None,
     op_headers = []\<rparr>"

definition currentUser :: operation where
  "currentUser =
    \<lparr>op_id = ''dashboard.CurrentUser'',
     op_inputs = TVoid,
     op_output = TRef ''AuthOperatorAccount'',
     op_method = ''GET'',
     op_url = [Lit ''/api/kubepkg-dashboard/v0/user''],
     op_params = [],
     op_body = None,
     op_headers = []\<rparr>"

definition currentPermissions :: operation where
  "currentPermissions =
    \<lparr>op_id = ''dashboard.CurrentPermissions'',
     op_inputs = TVoid,
     op_output = TRef ''RbacPermissions'',
     op_method = ''GET'',
     op_url = [Lit ''/api/kubepkg-dashboard/v0/user/permissions''],
     op_params = [],
     op_body = None,
     op_headers = []\<rparr>"

definition operations :: "operation list" where
  "operations =
    [listAccount,
     listAdminAccount,
     deleteAdminAccount,
     putAdminAccount,
     listAuthProvider,
     authorize,
     exchangeToken,
     registerClusterAgent,
     listCluster,
     putCluster,
     createClusterAgentResources,
     renameCluster,
     getClusterStatus,
     listGroup,
     deleteGroup,
     getGroup,
     putGroup,
     listGroupAccount,
     deleteGroupAccount,
     putGroupAccount,
     listGroupEnv,
     deleteGroupEnv,
     putGroupEnv,
     listGroupEnvClusterDeployments,
     unbindGroupEnvCluster,
     bindGroupEnvCluster,
     listGroupEnvDeployment,
     putGroupEnvDeployment,
     listGroupEnvDeploymentHistory,
     deleteGroupEnvDeployment,
     listKubepkg,
     getKubepkgRevision,
     listKubepkgVersion,
     putKubepkgVersion,
     deleteKubepkgVersion,
     listGroupRobot,
     createGroupRobot,
     refreshGroupRobotToken,
     latestKubepkgs,
     currentUser,
     currentPermissions]"

lemmas operation_defs =
  listAccount_def
  listAdminAccount_def
  deleteAdminAccount_def
  putAdminAccount_def
  listAuthProvider_def
  authorize_def
  exchangeToken_def
  registerClusterAgent_def
  listCluster_def
  putCluster_def
  createClusterAgentResources_def
  renameCluster_def
  getClusterStatus_def
  listGroup_def
  deleteGroup_def
  getGroup_def
  putGroup_def
  listGroupAccount_def
  deleteGroupAccount_def
  putGroupAccount_def
  listGroupEnv_def
  deleteGroupEnv_def
  putGroupEnv_def
  listGroupEnvClusterDeployments_def
  unbindGroupEnvCluster_def
  bindGroupEnvCluster_def
  listGroupEnvDeployment_def
  putGroupEnvDeployment_def
  listGroupEnvDeploymentHistory_def
  deleteGroupEnvDeployment_def
  listKubepkg_def
  getKubepkgRevision_def
  listKubepkgVersion_def
  putKubepkgVersion_def
  deleteKubepkgVersion_def
  listGroupRobot_def
  createGroupRobot_def
  refreshGroupRobotToken_def
  latestKubepkgs_def
  currentUser_def
  currentPermissions_def

section \<open>Properties\<close>

lemma operations_wf: "list_all wf_operation operations"
  by code_simp




section \<open>Routing\<close>

definition routes :: "(string \<times> route) list" where
  "routes =
    [(''GET'', [Some ''api'', Some ''kubepkg-dashboard'', Some ''v0'', Some ''accounts'']),
     (''GET'', [Some ''api'', Some ''kubepkg-dashboard'', Some ''v0'', Some ''admin'', Some ''accounts'']),
     (''DELETE'', [Some ''api'', Some ''kubepkg-dashboard'', Some ''v0'', Some ''admin'', Some ''accounts'', None]),
     (''PUT'', [Some ''api'', Some ''kubepkg-dashboard'', Some ''v0'', Some ''admin'', Some ''accounts'', None]),
     (''GET'', [Some ''api'', Some ''kubepkg-dashboard'', Some ''v0'', Some ''auth-providers'']),
     (''GET'', [Some ''api'', Some ''kubepkg-dashboard'', Some ''v0'', Some ''auth-providers'', None, Some ''authorize'']),
     (''POST'', [Some ''api'', Some ''kubepkg-dashboard'', Some ''v0'', Some ''auth-providers'', None, Some ''token'']),
     (''PUT'', [Some ''api'', Some ''kubepkg-dashboard'', Some ''v0'', Some ''clusteragent'', Some ''register'']),
     (''GET'', [Some ''api'', Some ''kubepkg-dashboard'', Some ''v0'', Some ''clusters'']),
     (''PUT'', [Some ''api'', Some ''kubepkg-dashboard'', Some ''v0'', Some ''clusters'', None]),
     (''POST'', [Some ''api'', Some ''kubepkg-dashboard'', Some ''v0'', Some ''clusters'', None, Some ''agent'', Some ''resources'']),
     (''PUT'', [Some ''api'', Some ''kubepkg-dashboard'', Some ''v0'', Some ''clusters'', None, Some ''rename'', None]),
     (''GET'', [Some ''api'', Some ''kubepkg-dashboard'', Some ''v0'', Some ''clusters'', None, Some ''status'']),
     (''GET'', [Some ''api'', Some ''kubepkg-dashboard'', Some ''v0'', Some ''groups'']),
     (''DELETE'', [Some ''api'', Some ''kubepkg-dashboard'', Some ''v0'', Some ''groups'', None]),
     (''GET'', [Some ''api'', Some ''kubepkg-dashboard'', Some ''v0'', Some ''groups'', None]),
     (''PUT'', [Some ''api'', Some ''kubepkg-dashboard'', Some ''v0'', Some ''groups'', None]),
     (''GET'', [Some ''api'', Some ''kubepkg-dashboard'', Some ''v0'', Some ''groups'', None, Some ''accounts'']),
     (''DELETE'', [Some ''api'', Some ''kubepkg-dashboard'', Some ''v0'', Some ''groups'', None, Some ''accounts'', None]),
     (''PUT'', [Some ''api'', Some ''kubepkg-dashboard'', Some ''v0'', Some ''groups'', None, Some ''accounts'', None]),
     (''GET'', [Some ''api'', Some ''kubepkg-dashboard'', Some ''v0'', Some ''groups'', None, Some ''envs'']),
     (''DELETE'', [Some ''api'', Some ''kubepkg-dashboard'', Some ''v0'', Some ''groups'', None, Some ''envs'', None]),
     (''PUT'', [Some ''api'', Some ''kubepkg-dashboard'', Some ''v0'', Some ''groups'', None, Some ''envs'', None]),
     (''GET'', [Some ''api'', Some ''kubepkg-dashboard'', Some ''v0'', Some ''groups'', None, Some ''envs'', None, Some ''cluster'', Some ''deployments'']),
     (''DELETE'', [Some ''api'', Some ''kubepkg-dashboard'', Some ''v0'', Some ''groups'', None, Some ''envs'', None, Some ''clusters'', None]),
     (''PUT'', [Some ''api'', Some ''kubepkg-dashboard'', Some ''v0'', Some ''groups'', None, Some ''envs'', None, Some ''clusters'', None]),
     (''GET'', [Some ''api'', Some ''kubepkg-dashboard'', Some ''v0'', Some ''groups'', None, Some ''envs'', None, Some ''deployments'']),
     (''PUT'', [Some ''api'', Some ''kubepkg-dashboard'', Some ''v0'', Some ''groups'', None, Some ''envs'', None, Some ''deployments'']),
     (''GET'', [Some ''api'', Some ''kubepkg-dashboard'', Some ''v0'', Some ''groups'', None, Some ''envs'', None, Some ''deployments'', None, Some ''histories'']),
     (''DELETE'', [Some ''api'', Some ''kubepkg-dashboard'', Some ''v0'', Some ''groups'', None, Some ''envs'', None, Some ''deployments'', None]),
     (''GET'', [Some ''api'', Some ''kubepkg-dashboard'', Some ''v0'', Some ''groups'', None, Some ''kubepkgs'']),
     (''GET'', [Some ''api'', Some ''kubepkg-dashboard'', Some ''v0'', Some ''groups'', None, Some ''kubepkgs'', None, None, Some ''revisions'', None]),
     (''GET'', [Some ''api'', Some ''kubepkg-dashboard'', Some ''v0'', Some ''groups'', None, Some ''kubepkgs'', None, None, Some ''versions'']),
     (''PUT'', [Some ''api'', Some ''kubepkg-dashboard'', Some ''v0'', Some ''groups'', None, Some ''kubepkgs'', None, None, Some ''versions'']),
     (''DELETE'', [Some ''api'', Some ''kubepkg-dashboard'', Some ''v0'', Some ''groups'', None, Some ''kubepkgs'', None, None, Some ''versions'', None]),
     (''GET'', [Some ''api'', Some ''kubepkg-dashboard'', Some ''v0'', Some ''groups'', None, Some ''robots'']),
     (''PUT'', [Some ''api'', Some ''kubepkg-dashboard'', Some ''v0'', Some ''groups'', None, Some ''robots'']),
     (''PUT'', [Some ''api'', Some ''kubepkg-dashboard'', Some ''v0'', Some ''groups'', None, Some ''robots'', None, Some ''tokens'']),
     (''GET'', [Some ''api'', Some ''kubepkg-dashboard'', Some ''v0'', Some ''latest-kubepkgs'']),
     (''GET'', [Some ''api'', Some ''kubepkg-dashboard'', Some ''v0'', Some ''user'']),
     (''GET'', [Some ''api'', Some ''kubepkg-dashboard'', Some ''v0'', Some ''user'', Some ''permissions''])]"

lemma routes_eq: "map (\<lambda>op. (op_method op, route_of (op_url op))) operations = routes"
  by code_simp

lemma operations_urls: "list_all (\<lambda>op. slash_separated (op_url op)) operations"
  by code_simp

fun pairwise :: "('a \<Rightarrow> 'a \<Rightarrow> bool) \<Rightarrow> 'a list \<Rightarrow> bool" where
  "pairwise P [] = True"
| "pairwise P (x # xs) = (list_all (P x) xs \<and> pairwise P xs)"

lemma pairwiseD:
  "pairwise P xs \<Longrightarrow> x \<in> set xs \<Longrightarrow> y \<in> set xs \<Longrightarrow> x = y \<or> P x y \<or> P y x"
  by (induction xs) (auto simp: list_all_iff)

lemma pairwise_map: "pairwise P (map f xs) = pairwise (\<lambda>x y. P (f x) (f y)) xs"
  by (induction xs) (auto simp: list_all_iff)

definition distinct_routes :: "string \<times> route \<Rightarrow> string \<times> route \<Rightarrow> bool" where
  "distinct_routes a b \<longleftrightarrow> \<not> (fst a = fst b \<and> overlap (snd a) (snd b))"

lemma routes_distinct: "pairwise distinct_routes routes"
  by (simp add: routes_def distinct_routes_def)

lemma overlap_sym: "overlap r s \<longleftrightarrow> overlap s r"
  by (induction r s rule: overlap.induct) (auto elim: overlap.elims)

text \<open>
  C12. Requests of different operations never have the same method and URL, whatever the inputs,
  as long as the values put into the path stay within their segment; so the server can tell
  every operation of the client by its route.
\<close>

theorem operations_unambiguous:
  assumes "op \<in> set operations" and "op' \<in> set operations"
    and "\<forall>p \<in> set (url_params (op_url op)). segment_value inputs p"
    and "\<forall>p \<in> set (url_params (op_url op')). segment_value inputs' p"
    and "rq_method (create_request op inputs) = rq_method (create_request op' inputs')"
    and "rq_url (create_request op inputs) = rq_url (create_request op' inputs')"
  shows "op = op'"
proof -
  have "overlap (route_of (op_url op)) (route_of (op_url op'))"
    using assms operations_urls [unfolded list_all_iff] expand_url_matches [of "op_url op" inputs]
      expand_url_matches [of "op_url op'" inputs'] matches_overlap
    by (simp add: create_request_def)
  moreover have "pairwise (\<lambda>x y. distinct_routes (op_method x, route_of (op_url x))
      (op_method y, route_of (op_url y))) operations"
    using routes_distinct by (simp add: routes_eq [symmetric] pairwise_map)
  ultimately show ?thesis
    using pairwiseD [OF _ assms(1,2)] assms(5) overlap_sym
    by (fastforce simp: distinct_routes_def create_request_def)
qed

theorem operations_unambiguous_witness:
  "rq_url (create_request currentUser (Obj [])) \<noteq> rq_url (create_request currentPermissions (Obj []))"
proof
  assume same: "rq_url (create_request currentUser (Obj [])) = rq_url (create_request currentPermissions (Obj []))"
  have "currentUser = currentPermissions"
    by (rule operations_unambiguous [OF _ _ _ _ _ same])
      (simp_all add: operations_def create_request_def currentUser_def currentPermissions_def url_params_def)
  then show False by (simp add: currentUser_def currentPermissions_def)
qed

text \<open>
  A value with a slash in it leaves its segment: nothing encodes it, and the request reaches
  another operation.
\<close>

lemma slash_changes_route:
  "rq_url (create_request listGroupRobot (Obj [(''groupName'', Str ''a/env/b'')]))
     = ''/api/kubepkg-dashboard/v0/groups/a/env/b/robots''"
  by (simp add: operation_defs create_request_def expand_url_def obj_get_def)

end
