(* ===== verification/Dashboard_Calls.thy ===== *)
theory Dashboard_Calls
  imports Dashboard_Client
begin

text \<open>
  The requests the dashboard's components issue: an operation of the client with the inputs it
  is given. A component of the dashboard is modelled with the calls it makes, in order.
\<close>

type_synonym call = "operation \<times> js"

text \<open>\<^verbatim>\<open>req$.next(inputs)\<close>, every input under its name.\<close>

definition call :: "operation \<Rightarrow> (string \<times> js) list \<Rightarrow> call" where
  "call op inputs = (op, Obj inputs)"

text \<open>
  A call the client's types admit: an operation of the client, each required input given and
  no input given that the operation does not have.
\<close>

definition required_inputs :: "operation \<Rightarrow> string list" where
  "required_inputs op = map fst (filter (\<lambda>i. snd i = Required) (declared_inputs op))"

definition proper_call :: "call \<Rightarrow> bool" where
  "proper_call c \<longleftrightarrow>
     op_id (fst c) \<in> op_id ` set operations \<and>
     (\<forall>i \<in> set (required_inputs (fst c)). has_own (snd c) i) \<and>
     (\<forall>i \<in> fst ` set (own_props (snd c)). i \<in> fst ` set (declared_inputs (fst c)))"

definition proper_calls :: "call list \<Rightarrow> bool" where
  "proper_calls cs = (\<forall>c \<in> set cs. proper_call c)"

lemma proper_calls_simps [simp]:
  "proper_calls []"
  "proper_calls (c # cs) \<longleftrightarrow> proper_call c \<and> proper_calls cs"
  "proper_calls (cs @ ds) \<longleftrightarrow> proper_calls cs \<and> proper_calls ds"
  by (auto simp: proper_calls_def)

lemma proper_callsD: "proper_calls cs \<Longrightarrow> c \<in> set cs \<Longrightarrow> proper_call c"
  by (simp add: proper_calls_def)

lemma operation_idI: "op \<in> set operations \<Longrightarrow> op_id op \<in> op_id ` set operations"
  by blast

lemma proper_callI:
  assumes "op \<in> set operations" and "set (required_inputs op) \<subseteq> fst ` set inputs"
    and "fst ` set inputs \<subseteq> fst ` set (declared_inputs op)"
  shows "proper_call (call op inputs)"
  using assms by (auto simp: proper_call_def call_def obj_has_def)

lemmas call_simps = operations_def operation_defs required_inputs_def declared_inputs_def

end
