(* ===== verification/Form_Controls.thy ===== *)
theory Form_Controls
  imports UI_Overlays Dashboard_Calls
begin

text \<open>
  \<^verbatim>\<open>nodepkg/ui/src/FormControls\<close>, \<^verbatim>\<open>nodepkg/ui/src/Composes/DialogForm.tsx\<close> and
  \<^verbatim>\<open>nodepkg/runtime/src/form/FormData.ts\<close>: how the fields of a form are shown and edited, and the
  dialog with a form around one request that the actions of the dashboard share. The form data
  itself (which fields there are, their state, validation) is a package: a field is given by what
  the controls read of it.
\<close>

section \<open>Selects\<close>

record option_item =
  oi_label :: js
  oi_value :: js

text \<open>\<^verbatim>\<open>`${o.value}` == v\<close>; the first such option.\<close>

definition option_named :: "option_item list \<Rightarrow> string \<Rightarrow> option_item option" where
  "option_named options v = find (\<lambda>o'. to_str (oi_value o') = v) options"

text \<open>What the select shows of a value, and its items: text, attribute and whether it is active.\<close>

definition select_text :: "option_item list \<Rightarrow> js \<Rightarrow> js" where
  "select_text options value =
     (case option_named options (to_str value) of
        None \<Rightarrow> value
      | Some o' \<Rightarrow> coalesce (oi_label o') value)"

definition select_items :: "option_item list \<Rightarrow> js \<Rightarrow> (string \<times> string \<times> bool) list" where
  "select_items options value =
     map (\<lambda>o'. (to_str (oi_label o'), to_str (oi_value o'), oi_value o' = value)) options"

text \<open>\<^verbatim>\<open>onSelected\<close>: the value the field is updated to, if any.\<close>

definition on_selected :: "option_item list \<Rightarrow> string \<Rightarrow> js option" where
  "on_selected options v = map_option oi_value (option_named options v)"

definition enum_options :: "js \<Rightarrow> option_item list" where
  "enum_options enum = map (\<lambda>e. \<lparr>oi_label = e, oi_value = e\<rparr>) (map snd (own_props (coalesce enum (Arr []))))"

definition boolean_options :: "option_item list" where
  "boolean_options =
     [\<lparr>oi_label = Str [CHR 0xE6, CHR 0x98, CHR 0xAF], oi_value = Bool True\<rparr>,
      \<lparr>oi_label = Str [CHR 0xE5, CHR 0x90, CHR 0xA6], oi_value = Bool False\<rparr>]"

section \<open>A field\<close>

text \<open>
  A field: its name and path, the type of its schema, the enumeration of the schema, the label
  and the input its metadata name, whether it is optional and whether it is read-only once it
  has an initial value; and its state.
\<close>

record field =
  fd_name :: string
  fd_path :: "js list"
  fd_type :: string
  fd_enum :: js
  fd_label :: "js"
  fd_input :: "string option"
  fd_optional :: bool
  fd_readOnlyWhenInitialExist :: js
  fd_initial :: js
  fd_error :: "js list option"
  fd_focus :: js

datatype input_view =
    TextInput
  | SelectInput "option_item list"
  | CustomInput string

record input_props =
  ip_type :: string
  ip_focus :: js
  ip_name :: string
  ip_readOnly :: bool
  ip_value :: js

record text_field =
  tf_valued :: bool
  tf_invalid :: bool
  tf_focus :: bool
  tf_label :: string
  tf_supporting :: string
  tf_trailing :: bool
  tf_input :: input_view
  tf_props :: input_props

datatype field_view = NestedFields | ArrayFields | InputField text_field

text \<open>
  Which input is rendered: an enumeration and a boolean are selects whatever the metadata say;
  without an input of its own an array is a list of fields, and anything else is a text.
\<close>

definition render_input :: "field \<Rightarrow> input_view option" where
  "render_input f =
     (if fd_type f = ''boolean'' then Some (SelectInput boolean_options)
      else if fd_type f = ''enums'' then Some (SelectInput (enum_options (fd_enum f)))
      else case fd_input f of
        Some i \<Rightarrow> Some (CustomInput i)
      | None \<Rightarrow> if fd_type f = ''array'' then None else Some TextInput)"

definition field_label :: "field \<Rightarrow> string" where
  "field_label f = to_str (coalesce (fd_label f) (Str (fd_name f))) @ (if fd_optional f then [] else ''*'')"

definition is_select :: "input_view \<Rightarrow> bool" where
  "is_select i \<longleftrightarrow> (case i of SelectInput os \<Rightarrow> True | _ \<Rightarrow> False)"

definition field_view :: "field \<Rightarrow> js \<Rightarrow> field_view" where
  "field_view f value =
     (if fd_type f = ''object'' \<or> fd_type f = ''intersection'' then NestedFields
      else case render_input f of
        None \<Rightarrow> ArrayFields
      | Some i \<Rightarrow> InputField
          \<lparr>tf_valued = (coalesce value (fd_initial f) \<noteq> Undef),
           tf_invalid = (fd_error f \<noteq> None),
           tf_focus = truthy (fd_focus f),
           tf_label = field_label f,
           tf_supporting = (case fd_error f of None \<Rightarrow> [] | Some es \<Rightarrow> join ''; '' (map (\<lambda>e. if nullish e then [] else to_str e) es)),
           tf_trailing = is_select i,
           tf_input = i,
           tf_props =
             \<lparr>ip_type = fd_type f, ip_focus = fd_focus f, ip_name = fd_name f,
              ip_readOnly = (truthy (coalesce (fd_readOnlyWhenInitialExist f) (Bool False)) \<and> truthy (fd_initial f)),
              ip_value = coalesce value (fd_initial f)\<rparr>\<rparr>)"

text \<open>The items of an array field: one is removed by the index its path ends with, one added at the end.\<close>

definition remove_item :: "js list \<Rightarrow> js \<Rightarrow> js list" where
  "remove_item values index = map snd (filter (\<lambda>(i, v). Num (int i) \<noteq> index) (enumerate 0 values))"

definition add_item :: "js \<Rightarrow> js list" where
  "add_item values = map snd (own_props (coalesce values (Arr []))) @ [Undef]"

text \<open>
  \<^verbatim>\<open>TextField\<close>: a child that is an input tells whether the field has a value and is disabled.
\<close>

record text_wrap =
  tw_valued :: js
  tw_disabled :: js

definition wrap_child :: "lodash \<Rightarrow> string \<times> js \<Rightarrow> text_wrap \<Rightarrow> text_wrap" where
  "wrap_child L c w =
     (if fst c = ''input''
      then \<lparr>tw_valued = Bool (truthy (lo_get L (snd c) [''value''] (lo_get L (snd c) [''placeholder''] (tw_valued w)))),
            tw_disabled = lo_get L (snd c) [''disabled''] (tw_disabled w)\<rparr>
      else w)"

definition text_wrap_of :: "lodash \<Rightarrow> js \<Rightarrow> js \<Rightarrow> (string \<times> js) list \<Rightarrow> text_wrap" where
  "text_wrap_of L valued disabled children =
     fold (wrap_child L) children \<lparr>tw_valued = valued, tw_disabled = disabled\<rparr>"

section \<open>Errors of a response\<close>

text \<open>\<^verbatim>\<open>FormData.errorFromRespError\<close>.\<close>

definition errorFromRespError :: "js \<Rightarrow> (string \<times> js list) list" where
  "errorFromRespError err =
     (if truthy (member err ''errorFields'')
      then fold (\<lambda>v errors. AList.update (to_str (member v ''field'')) [member v ''msg''] errors)
             (map snd (own_props (member err ''errorFields''))) []
      else [])"

section \<open>A dialog with a form\<close>

text \<open>
  The hooks around one request (\<^verbatim>\<open>useGroupEnvPut\<close>, \<^verbatim>\<open>useGroupPut\<close>, \<^verbatim>\<open>useGroupRobotAdd\<close>,
  \<^verbatim>\<open>useClusterPut\<close>, \<^verbatim>\<open>useClusterRename\<close>): a button opens the dialog, the values the form emits are
  turned into the request, its failure sets the errors of the form, its answer closes the dialog
  and is passed on.
\<close>

record form_action =
  fa_dialog :: dialog
  fa_calls :: "call list"
  fa_errors :: "(string \<times> js list) list"
  fa_emitted :: "js list"

datatype form_event =
    ActionClicked
  | FormEmitted js
  | FormCancelled
  | RequestFailed js
  | RequestAnswered js
  | DialogEvent dialog_event

definition form_init :: form_action where
  "form_init = \<lparr>fa_dialog = dialog_init, fa_calls = [], fa_errors = [], fa_emitted = []\<rparr>"

fun form_step :: "(js \<Rightarrow> call) \<Rightarrow> (js \<Rightarrow> js) \<Rightarrow> form_event \<Rightarrow> form_action \<Rightarrow> form_action" where
  "form_step mk out ActionClicked st = st\<lparr>fa_dialog := set_open True (fa_dialog st)\<rparr>"
| "form_step mk out (FormEmitted values) st = st\<lparr>fa_calls := fa_calls st @ [mk values]\<rparr>"
| "form_step mk out FormCancelled st = st\<lparr>fa_dialog := set_open False (fa_dialog st)\<rparr>"
| "form_step mk out (RequestFailed err) st = st\<lparr>fa_errors := errorFromRespError err\<rparr>"
| "form_step mk out (RequestAnswered body) st =
     st\<lparr>fa_dialog := set_open False (fa_dialog st), fa_emitted := fa_emitted st @ [out body]\<rparr>"
| "form_step mk out (DialogEvent e) st = st\<lparr>fa_dialog := dialog_page e (dialog_handle e (fa_dialog st))\<rparr>"

definition form_run :: "(js \<Rightarrow> call) \<Rightarrow> (js \<Rightarrow> js) \<Rightarrow> form_event list \<Rightarrow> form_action \<Rightarrow> form_action" where
  "form_run mk out es st = fold (form_step mk out) es st"

section \<open>Choosing from a select\<close>

definition texts_distinct :: "option_item list \<Rightarrow> bool" where
  "texts_distinct options \<longleftrightarrow> distinct (map (\<lambda>o'. to_str (oi_value o')) options)"

lemma option_named_member:
  assumes "texts_distinct options" and "o' \<in> set options"
  shows "option_named options (to_str (oi_value o')) = Some o'"
  using assms
proof (induction options)
  case (Cons p options)
  then show ?case by (cases "p = o'") (force simp: option_named_def texts_distinct_def)+
qed simp

text \<open>
  When the values of a select read differently, a click on an item updates the field to the
  very value of that item, and the select then shows its label and marks that item alone.
\<close>

theorem select_roundtrip:
  assumes "texts_distinct options" and "(label, attribute, active) \<in> set (select_items options old)"
  shows "\<exists>o' \<in> set options.
    label = to_str (oi_label o') \<and> attribute = to_str (oi_value o') \<and>
    menu_emitted (menu_handle False (ItemClicked [None, Some attribute]) \<lparr>menu_open = True, menu_emitted = []\<rparr>)
      = [Chosen attribute, DidClose] \<and>
    on_selected options attribute = Some (oi_value o') \<and>
    select_text options (oi_value o') = coalesce (oi_label o') (oi_value o') \<and>
    filter (\<lambda>(l, a, act). act) (select_items options (oi_value o')) = [(label, attribute, True)]"
proof -
  obtain o' where o': "o' \<in> set options" "label = to_str (oi_label o')" "attribute = to_str (oi_value o')"
    using assms(2) by (auto simp: select_items_def)
  have named: "option_named options attribute = Some o'"
    using option_named_member[OF assms(1) o'(1)] o'(3) by simp
  have only: "filter (\<lambda>p. oi_value p = oi_value o') options = [o']"
    using assms(1) o'(1)
  proof (induction options)
    case (Cons p options)
    then show ?case
    proof (cases "p = o'")
      case True
      then have "filter (\<lambda>q. oi_value q = oi_value o') options = []"
        using Cons.prems(1) unfolding filter_empty_conv texts_distinct_def by (auto simp: image_iff)
      then show ?thesis using True by simp
    next
      case False
      then have "oi_value p \<noteq> oi_value o'" using Cons.prems by (auto simp: texts_distinct_def image_iff)
      then show ?thesis using Cons False by (simp add: texts_distinct_def)
    qed
  qed simp
  have "filter (\<lambda>(l, a, act). act) (select_items options (oi_value o')) = [(label, attribute, True)]"
    using only o'(2,3) by (simp add: select_items_def filter_map o_def)
  then show ?thesis
    using o' named by (intro bexI[of _ o']) (simp_all add: set_menu_def on_selected_def select_text_def)
qed

theorem select_roundtrip_witness:
  "on_selected boolean_options ''false'' = Some (Bool False) \<and>
   filter (\<lambda>(l, a, act). act) (select_items boolean_options (Bool False)) =
     [([CHR 0xE5, CHR 0x90, CHR 0xA6], ''false'', True)]"
proof -
  have d: "texts_distinct boolean_options" by (simp add: texts_distinct_def boolean_options_def)
  have m: "([CHR 0xE5, CHR 0x90, CHR 0xA6], ''false'', False) \<in> set (select_items boolean_options (Bool True))"
    by (simp add: select_items_def boolean_options_def)
  show ?thesis using select_roundtrip[OF d m] by (auto simp: boolean_options_def)
qed

lemma remove_item_at: "remove_item xs (Num (int i)) = take i xs @ drop (Suc i) xs"
proof -
  have "map snd (filter (\<lambda>(j, v). j \<noteq> n + i) (enumerate n xs)) = take i xs @ drop (Suc i) xs" for n
  proof (induction xs arbitrary: n i)
    case (Cons v vs)
    show ?case
    proof (cases i)
      case 0
      have "filter (\<lambda>(j, v). j \<noteq> n) (enumerate (Suc n) vs) = enumerate (Suc n) vs"
        by (auto simp: filter_id_conv in_set_enumerate_eq)
      then show ?thesis using 0 by simp
    next
      case (Suc k)
      then show ?thesis using Cons.IH[of "Suc n" k] by simp
    qed
  qed simp
  from this[of 0] show ?thesis by (simp add: remove_item_def)
qed

lemma added_item_removed: "remove_item (add_item (Arr xs)) (Num (int (length xs))) = xs"
proof -
  have "map snd (zip (map nat_str [0..<length xs]) xs) = xs" by simp
  then show ?thesis by (simp add: add_item_def remove_item_at coalesce_def nullish_def)
qed

section \<open>A form that fails and a form that succeeds\<close>

definition messages_of :: "js \<Rightarrow> string \<Rightarrow> js list" where
  "messages_of err k =
     map (\<lambda>v. member v ''msg'')
       (filter (\<lambda>v. to_str (member v ''field'') = k) (map snd (own_props (member err ''errorFields''))))"

lemma error_fold:
  "map_of (fold (\<lambda>v errors. AList.update (to_str (member v ''field'')) [member v ''msg''] errors) vs acc) k =
     (case filter (\<lambda>v. to_str (member v ''field'') = k) vs of
        [] \<Rightarrow> map_of acc k
      | ws \<Rightarrow> Some [member (last ws) ''msg''])"
  by (induction vs arbitrary: acc) (auto simp: update_conv' split: list.splits)

text \<open>A field has an error when the response names it; of several messages the last one is kept.\<close>

lemma errorFromRespError_field:
  assumes "truthy (member err ''errorFields'')"
  shows "map_of (errorFromRespError err) k =
    (if messages_of err k = [] then None else Some [last (messages_of err k)])"
  using assms
  by (auto simp: errorFromRespError_def error_fold messages_of_def last_map split: list.splits)

fun emitted_values :: "form_event list \<Rightarrow> js list" where
  "emitted_values [] = []"
| "emitted_values (FormEmitted v # es) = v # emitted_values es"
| "emitted_values (_ # es) = emitted_values es"

fun last_failure :: "form_event list \<Rightarrow> js option" where
  "last_failure [] = None"
| "last_failure (RequestFailed err # es) = (case last_failure es of None \<Rightarrow> Some err | Some e \<Rightarrow> Some e)"
| "last_failure (_ # es) = last_failure es"

fun only_attempts :: "form_event list \<Rightarrow> bool" where
  "only_attempts [] = True"
| "only_attempts (FormEmitted v # es) = only_attempts es"
| "only_attempts (RequestFailed err # es) = only_attempts es"
| "only_attempts (_ # es) = False"

lemma attempts_run:
  assumes "only_attempts es"
  shows "form_run mk out es st =
    st\<lparr>fa_calls := fa_calls st @ map mk (emitted_values es),
       fa_errors := (case last_failure es of None \<Rightarrow> fa_errors st | Some err \<Rightarrow> errorFromRespError err)\<rparr>"
  using assms
  by (induction es arbitrary: st rule: only_attempts.induct) (auto simp: form_run_def split: option.splits)

text \<open>
  C31. While the requests of a form fail, its dialog stays open with what was typed: each attempt
  is sent as one request, nothing is passed on, and each field the last failure names shows its
  message; an answer closes the dialog and passes its result on, once.
\<close>

theorem form_stays_open:
  assumes "is_opened (fa_dialog st)" and "only_attempts es"
    and "last_failure es = Some err" and "truthy (member err ''errorFields'')"
  shows "is_opened (fa_dialog (form_run mk out es st)) \<and>
    fa_calls (form_run mk out es st) = fa_calls st @ map mk (emitted_values es) \<and>
    fa_emitted (form_run mk out es st) = fa_emitted st \<and>
    map_of (fa_errors (form_run mk out es st)) k =
      (if messages_of err k = [] then None else Some [last (messages_of err k)]) \<and>
    leaving (fa_dialog (form_run mk out (es @ [RequestAnswered body]) st)) \<and>
    fa_emitted (form_run mk out (es @ [RequestAnswered body]) st) = fa_emitted st @ [out body]"
proof -
  have "form_run mk out (es @ [RequestAnswered body]) st = form_step mk out (RequestAnswered body) (form_run mk out es st)"
    by (simp add: form_run_def)
  then show ?thesis
    using assms(1,3) errorFromRespError_field[OF assms(4)]
    by (simp add: attempts_run[OF assms(2)] dialog_places dialog_code)
qed

definition demo_error :: js where
  "demo_error = Obj [(''code'', Num 400), (''msg'', Str ''invalid''),
     (''errorFields'', Arr [Obj [(''field'', Str ''name''), (''msg'', Str ''taken'')]])]"

definition demo_form :: form_action where
  "demo_form = form_init\<lparr>fa_dialog := dialog_page ContentBeforeMount (dialog_handle ContentBeforeMount (set_open True dialog_init))\<rparr>"

theorem form_stays_open_witness:
  "is_opened (fa_dialog (form_run (\<lambda>v. call putGroup [(''groupName'', v)]) id [FormEmitted (Str ''a''), RequestFailed demo_error] demo_form)) \<and>
   map_of (fa_errors (form_run (\<lambda>v. call putGroup [(''groupName'', v)]) id [FormEmitted (Str ''a''), RequestFailed demo_error] demo_form)) ''name''
     = Some [Str ''taken'']"
proof -
  have o: "is_opened (fa_dialog demo_form)"
    by (simp add: demo_form_def form_init_def dialog_init_def is_opened_def dialog_code)
  have t: "truthy (member demo_error ''errorFields'')" by (simp add: demo_error_def obj_get_def)
  have m: "messages_of demo_error ''name'' = [Str ''taken'']" by (simp add: messages_of_def demo_error_def obj_get_def)
  show ?thesis
    using form_stays_open[OF o, of "[FormEmitted (Str ''a''), RequestFailed demo_error]" demo_error
        "\<lambda>v. call putGroup [(''groupName'', v)]" id "''name''"] t m
    by simp
qed

text \<open>A failure that names no field leaves the form without any message, and the dialog open.\<close>

lemma failure_without_fields_is_silent:
  assumes "\<not> truthy (member err ''errorFields'')"
  shows "form_step mk out (RequestFailed err) st = st\<lparr>fa_errors := []\<rparr>"
  using assms by (simp add: errorFromRespError_def)

text \<open>Two messages for one field: the first is lost.\<close>

lemma first_message_lost:
  "errorFromRespError (Obj [(''errorFields'',
     Arr [Obj [(''field'', Str f), (''msg'', Str a)], Obj [(''field'', Str f), (''msg'', Str b)]])]) = [(f, [Str b])]"
  by (simp add: errorFromRespError_def obj_get_def)

end
