(* ===== verification/Form_Fields.thy ===== *)
theory Form_Fields
  imports Form_Controls
begin

text \<open>
  The inputs of \<^verbatim>\<open>nodepkg/ui/src/FormControls/FormControl.tsx\<close> as they are used: the select, whose menu
  and whose field's focus follow each other, the text, and the list of an array field. The field
  (\<^verbatim>\<open>focus\<close>, \<^verbatim>\<open>blur\<close>, \<^verbatim>\<open>update\<close>) belongs to a package; it is taken to keep what it is told.
\<close>

section \<open>A select\<close>

record select_input =
  si_menu :: menu
  si_prop :: bool
  si_focus :: bool
  si_value :: js
  si_updates :: "js list"

datatype select_input_event = SelectMenu menu_event | InputFocused | InputBlurred bool

definition select_input_init :: "js \<Rightarrow> select_input" where
  "select_input_init value =
     \<lparr>si_menu = menu_init, si_prop = False, si_focus = False, si_value = value, si_updates = []\<rparr>"

text \<open>\<^verbatim>\<open>onDidOpen\<close>, \<^verbatim>\<open>onDidClose\<close> and \<^verbatim>\<open>onSelected\<close> of the menu.\<close>

fun on_menu_emit :: "option_item list \<Rightarrow> menu_emit \<Rightarrow> select_input \<Rightarrow> select_input" where
  "on_menu_emit options DidOpen st = st\<lparr>si_focus := True\<rparr>"
| "on_menu_emit options DidClose st = st\<lparr>si_focus := False\<rparr>"
| "on_menu_emit options (Chosen v) st =
     (case on_selected options v of
        None \<Rightarrow> st
      | Some x \<Rightarrow> st\<lparr>si_value := x, si_updates := si_updates st @ [x]\<rparr>)"

definition menu_event_in :: "option_item list \<Rightarrow> menu_event \<Rightarrow> select_input \<Rightarrow> select_input" where
  "menu_event_in options e st =
     (let m = menu_handle False e (si_menu st) in
      fold (on_menu_emit options) (drop (length (menu_emitted (si_menu st))) (menu_emitted m)) (st\<lparr>si_menu := m\<rparr>))"

text \<open>The field is rendered again when its focus has changed: the menu is passed \<^verbatim>\<open>isOpen={focus}\<close>.\<close>

definition pass_focus :: "option_item list \<Rightarrow> select_input \<Rightarrow> select_input" where
  "pass_focus options st =
     (if si_prop st = si_focus st then st
      else menu_event_in options (MenuProp (Some (si_focus st))) (st\<lparr>si_prop := si_focus st\<rparr>))"

text \<open>A blur counts when another element takes the focus.\<close>

fun select_input_step :: "option_item list \<Rightarrow> select_input_event \<Rightarrow> select_input \<Rightarrow> select_input" where
  "select_input_step options (SelectMenu e) st =
     (case e of MenuProp p \<Rightarrow> st | _ \<Rightarrow> pass_focus options (menu_event_in options e st))"
| "select_input_step options InputFocused st = pass_focus options (st\<lparr>si_focus := True\<rparr>)"
| "select_input_step options (InputBlurred related) st =
     (if related then pass_focus options (st\<lparr>si_focus := False\<rparr>) else st)"

definition select_input_run :: "option_item list \<Rightarrow> select_input_event list \<Rightarrow> js \<Rightarrow> select_input" where
  "select_input_run options es value = fold (select_input_step options) es (select_input_init value)"

text \<open>The menu is open exactly while the field has the focus, and only options are chosen.\<close>

definition select_input_ok :: "option_item list \<Rightarrow> js \<Rightarrow> select_input \<Rightarrow> bool" where
  "select_input_ok options initial st \<longleftrightarrow>
     set (si_updates st) \<subseteq> oi_value ` set options \<and> si_value st = last (initial # si_updates st)"

definition in_step :: "select_input \<Rightarrow> bool" where
  "in_step st \<longleftrightarrow> menu_open (si_menu st) = si_focus st \<and> si_prop st = si_focus st"

lemma on_selected_option:
  assumes "on_selected options v = Some x"
  shows "x \<in> oi_value ` set options"
proof -
  obtain opt where "find (\<lambda>o'. to_str (oi_value o') = v) options = Some opt" "x = oi_value opt"
    using assms by (auto simp: on_selected_def option_named_def)
  then show ?thesis by (auto simp: find_Some_iff)
qed

lemma ok_elsewhere [simp]:
  "select_input_ok options initial (st\<lparr>si_menu := m\<rparr>) = select_input_ok options initial st"
  "select_input_ok options initial (st\<lparr>si_focus := b\<rparr>) = select_input_ok options initial st"
  "select_input_ok options initial (st\<lparr>si_prop := b\<rparr>) = select_input_ok options initial st"
  by (simp_all add: select_input_ok_def)

lemma chosen_ok:
  "select_input_ok options initial st \<Longrightarrow> select_input_ok options initial (on_menu_emit options e st)"
  by (cases e) (auto simp: select_input_ok_def dest!: on_selected_option split: option.split)

lemma emitted_ok:
  "select_input_ok options initial st \<Longrightarrow> select_input_ok options initial (fold (on_menu_emit options) es st)"
  by (induction es arbitrary: st) (simp_all add: chosen_ok)

lemma menu_event_ok: "select_input_ok options initial st \<Longrightarrow> select_input_ok options initial (menu_event_in options e st)"
  unfolding menu_event_in_def Let_def by (rule emitted_ok) simp

lemma pass_focus_ok: "select_input_ok options initial st \<Longrightarrow> select_input_ok options initial (pass_focus options st)"
  unfolding pass_focus_def by (simp add: menu_event_ok)

lemma menu_event_focus:
  "menu_open (si_menu st) = si_focus st \<Longrightarrow>
   menu_open (si_menu (menu_event_in options e st)) = si_focus (menu_event_in options e st)"
  by (cases "(False, e, si_menu st)" rule: menu_handle.cases)
    (auto simp: menu_event_in_def Let_def set_menu_def split: option.splits)

lemma passed_focus:
  "si_focus (menu_event_in options (MenuProp (Some (si_focus st))) st) = si_focus st
   \<and> menu_open (si_menu (menu_event_in options (MenuProp (Some (si_focus st))) st)) = si_focus st
   \<and> si_prop (menu_event_in options (MenuProp (Some (si_focus st))) st) = si_prop st"
  by (auto simp: menu_event_in_def Let_def set_menu_def)

lemma pass_focus_in_step:
  assumes "si_prop st = si_focus st \<Longrightarrow> menu_open (si_menu st) = si_focus st"
  shows "in_step (pass_focus options st)"
  using assms passed_focus [of options "st\<lparr>si_prop := si_focus st\<rparr>"] by (auto simp: pass_focus_def in_step_def)

theorem select_follows_focus:
  "in_step (select_input_run options es value) \<and> select_input_ok options value (select_input_run options es value)"
proof (induction es rule: rev_induct)
  case Nil
  show ?case by (simp add: select_input_run_def select_input_init_def in_step_def select_input_ok_def menu_init_def)
next
  case (snoc e es)
  let ?st = "select_input_run options es value"
  have "in_step (select_input_step options e ?st) \<and> select_input_ok options value (select_input_step options e ?st)"
  proof (cases e)
    case (SelectMenu me)
    have "menu_open (si_menu (menu_event_in options me ?st)) = si_focus (menu_event_in options me ?st)"
      using snoc.IH by (intro menu_event_focus) (simp add: in_step_def)
    then show ?thesis using snoc.IH SelectMenu
      by (cases me) (auto intro!: pass_focus_in_step pass_focus_ok menu_event_ok)
  next
    case InputFocused
    have "in_step (pass_focus options (?st\<lparr>si_focus := True\<rparr>))"
      using snoc.IH by (intro pass_focus_in_step) (simp add: in_step_def)
    then show ?thesis using snoc.IH InputFocused by (simp add: pass_focus_ok)
  next
    case (InputBlurred related)
    have "in_step (pass_focus options (?st\<lparr>si_focus := False\<rparr>))"
      using snoc.IH by (intro pass_focus_in_step) (simp add: in_step_def)
    then show ?thesis using snoc.IH InputBlurred by (simp add: pass_focus_ok)
  qed
  then show ?case by (simp add: select_input_run_def)
qed

text \<open>Options whose values have the same text are not told apart: the first is chosen.\<close>

lemma same_text_chosen_first:
  assumes "to_str (oi_value a) = to_str (oi_value b)"
  shows "on_selected [a, b] (to_str (oi_value b)) = Some (oi_value a)"
  using assms by (simp add: on_selected_def option_named_def)

section \<open>A text and the fields of an array\<close>

definition text_changed :: "string \<Rightarrow> js" where
  "text_changed s = Str s"

datatype array_event = ItemRemoved js | ItemAdded | ItemEdited nat js

text \<open>An item is edited by its own field, at its path.\<close>

fun array_step :: "array_event \<Rightarrow> js \<Rightarrow> js" where
  "array_step (ItemRemoved index) values =
     (if truthy values then Arr (remove_item (map snd (own_props values)) index) else values)"
| "array_step ItemAdded values = Arr (add_item values)"
| "array_step (ItemEdited i v) values =
     (case values of Arr xs \<Rightarrow> if i < length xs then Arr (xs[i := v]) else values | _ \<Rightarrow> values)"

text \<open>An item that is added last and removed again leaves the others.\<close>

lemma add_then_remove: "array_step (ItemRemoved (Num (int (length xs)))) (array_step ItemAdded (Arr xs)) = Arr xs"
  using added_item_removed [of xs] by (simp add: add_item_def coalesce_def nullish_def)

end
