(* ===== verification/Json_Pointer.thy ===== *)
theory Json_Pointer
  imports KP_Prelude
begin

text \<open>
  \<^verbatim>\<open>nodepkg/codemirror/src/json/JSONPointer.ts\<close>: the pointer of a key path and the key path
  of a pointer. \<open>parse\<close> raises on a pointer that does not start with a slash.
\<close>

datatype pointer_error = InvalidPointer string

definition escape :: "string \<Rightarrow> string" where
  "escape s = replace1 (CHR ''/'') ''~1'' (replace1 (CHR ''~'') ''~0'' s)"

definition unescape :: "string \<Rightarrow> string" where
  "unescape s =
     replace2 (CHR ''~'') (CHR ''0'') ''~'' (replace2 (CHR ''~'') (CHR ''1'') ''/'' s)"

definition compile :: "string list \<Rightarrow> string" where
  "compile keyPath =
     (if length keyPath = 0 then '''' else ''/'' @ join ''/'' (map escape keyPath))"

definition parse :: "string \<Rightarrow> pointer_error + string list" where
  "parse pointer =
     (if pointer = '''' then Inr []
      else if hd pointer \<noteq> CHR ''/'' then Inl (InvalidPointer pointer)
      else Inr (map unescape (split_on (CHR ''/'') (drop 1 pointer))))"

section \<open>Escaping\<close>

lemma escape_Nil [simp]: "escape [] = []"
  by (simp add: escape_def)

lemma escape_Cons [simp]:
  "escape (c # s) =
     (if c = CHR ''~'' then ''~0'' else if c = CHR ''/'' then ''~1'' else [c]) @ escape s"
  by (simp add: escape_def)

lemma escape_no_slash [simp]: "CHR ''/'' \<notin> set (escape s)"
  by (induction s) auto

lemma escape_plain: "CHR ''/'' \<notin> set s \<Longrightarrow> CHR ''~'' \<notin> set s \<Longrightarrow> escape s = s"
  by (induction s) auto

text \<open>Undoing \<open>~1\<close> first leaves the tildes of \<open>~0\<close>, which the second replacement undoes.\<close>

lemma replace2_escape:
  "replace2 (CHR ''~'') (CHR ''1'') ''/'' (escape s) = replace1 (CHR ''~'') ''~0'' s"
proof (induction s)
  case Nil
  show ?case by simp
next
  case (Cons c s)
  show ?case
  proof (cases "c = CHR ''~'' \<or> c = CHR ''/''")
    case True
    with Cons show ?thesis by (cases "escape s") auto
  next
    case False
    with Cons show ?thesis by (cases "escape s") auto
  qed
qed

lemma replace2_tilde:
  "replace2 (CHR ''~'') (CHR ''0'') ''~'' (replace1 (CHR ''~'') ''~0'' s) = s"
proof (induction s)
  case Nil
  show ?case by simp
next
  case (Cons c s)
  then show ?case by (cases "replace1 (CHR ''~'') ''~0'' s") auto
qed

lemma unescape_escape: "unescape (escape s) = s"
  by (simp add: unescape_def replace2_escape replace2_tilde)

lemma escape_inj: "escape s = escape t \<longleftrightarrow> s = t"
  by (metis unescape_escape)

lemma split_compile: "ks \<noteq> [] \<Longrightarrow> split_on (CHR ''/'') (drop 1 (compile ks)) = map escape ks"
  by (simp add: compile_def split_on_join)

lemma compile_Nil [simp]: "compile [] = []"
  by (simp add: compile_def)

section \<open>Properties\<close>

text \<open>
  C7. Parsing the pointer compiled from any key path gives the key path back, whatever
  characters its keys contain; so distinct paths have distinct pointers.
\<close>

theorem pointer_roundtrip: "parse (compile ks) = Inr ks"
proof (cases "ks = []")
  case True
  then show ?thesis by (simp add: parse_def)
next
  case False
  then have "compile ks = CHR ''/'' # join ''/'' (map escape ks)"
    by (simp add: compile_def)
  moreover have "split_on (CHR ''/'') (join ''/'' (map escape ks)) = map escape ks"
    using False by (simp add: split_on_join)
  ultimately show ?thesis
    by (simp add: parse_def unescape_escape comp_def)
qed

lemma compile_inj: "compile ks = compile ks' \<longleftrightarrow> ks = ks'"
proof
  assume eq: "compile ks = compile ks'"
  have len: "ks = [] \<longleftrightarrow> ks' = []"
    using arg_cong [OF eq, of length] eq by (auto simp: compile_def split: if_splits)
  show "ks = ks'"
  proof (cases "ks = []")
    case True
    with len show ?thesis by simp
  next
    case False
    with len eq have "map escape ks = map escape ks'"
      using split_compile by metis
    then show ?thesis by (simp add: inj_on_def escape_inj inj_map_eq_map)
  qed
qed simp

end
