(* ===== verification/Json_Diff.thy ===== *)
theory Json_Diff
  imports JS_Value Json_Pointer
begin

text \<open>
  \<^verbatim>\<open>nodepkg/codemirror/src/json/JSONDiff.ts\<close>, class \<^verbatim>\<open>JSONDiff\<close> and function \<^verbatim>\<open>diff\<close>: the
  comparison of two JSON documents as a map from JSON pointers to changes. The map is kept
  in the order of its insertions, as \<^verbatim>\<open>Map\<close> does. \<open>delta\<close> is the specification, a list of
  changes by key path; \<open>patch\<close> says what a list of changes means.
\<close>

datatype change_type = Modified | Deleted | Added

type_synonym diff_ret = "(string \<times> change_type \<times> js \<times> js) list"

text \<open>\<^verbatim>\<open>this.ret.set(JSONPointer.compile(path), [type, right, left])\<close>.\<close>

definition mark :: "diff_ret \<Rightarrow> string list \<Rightarrow> change_type \<Rightarrow> js \<Rightarrow> js \<Rightarrow> diff_ret" where
  "mark ret path type right left = AList.update (compile path) (type, right, left) ret"

definition diff_leaf :: "lodash \<Rightarrow> js \<Rightarrow> js \<Rightarrow> string list \<Rightarrow> diff_ret \<Rightarrow> diff_ret" where
  "diff_leaf L r l path ret =
     (if is_undefined l then mark ret path Added r l
      else if \<not> lo_is_equal L l r then mark ret path Modified r l
      else ret)"

fun json_diff :: "lodash \<Rightarrow> js \<Rightarrow> js \<Rightarrow> string list \<Rightarrow> diff_ret \<Rightarrow> diff_ret" where
  "json_diff L (Obj rs) l path ret =
     (case l of
        Obj ls \<Rightarrow>
          (let visited = fst ` set rs;
               ret1 = fold (\<lambda>(p, rr) acc. json_diff L rr (obj_get ls p) (path @ [p]) acc) rs ret
           in fold (\<lambda>(p, ll) acc.
                if p \<notin> visited then mark acc (path @ [p]) Deleted Undef ll else acc) ls ret1)
      | _ \<Rightarrow> diff_leaf L (Obj rs) l path ret)"
| "json_diff L r l path ret = diff_leaf L r l path ret"

definition diff :: "lodash \<Rightarrow> js \<Rightarrow> js \<Rightarrow> diff_ret" where
  "diff L newValue oldValue = json_diff L newValue oldValue [] []"

section \<open>Specification\<close>

type_synonym delta = "(string list \<times> change_type \<times> js \<times> js) list"

definition under :: "string \<Rightarrow> delta \<Rightarrow> delta" where
  "under p ds = map (\<lambda>(path, c). (p # path, c)) ds"

definition delta_leaf :: "lodash \<Rightarrow> js \<Rightarrow> js \<Rightarrow> delta" where
  "delta_leaf L r l =
     (if l = Undef then [([], Added, r, l)]
      else if \<not> lo_is_equal L l r then [([], Modified, r, l)] else [])"

definition deletions :: "obj \<Rightarrow> obj \<Rightarrow> delta" where
  "deletions rs ls =
     map (\<lambda>(p, ll). ([p], Deleted, Undef, ll)) (filter (\<lambda>(p, ll). \<not> obj_has rs p) ls)"

fun delta :: "lodash \<Rightarrow> js \<Rightarrow> js \<Rightarrow> delta" where
  "delta L (Obj rs) l =
     (case l of
        Obj ls \<Rightarrow>
          concat (map (\<lambda>(p, rr). under p (delta L rr (obj_get ls p))) rs) @ deletions rs ls
      | _ \<Rightarrow> delta_leaf L (Obj rs) l)"
| "delta L r l = delta_leaf L r l"

text \<open>What a change does to a document: it puts the new value at its path, or removes the key there.\<close>

fun put_at :: "string list \<Rightarrow> js \<Rightarrow> js \<Rightarrow> js" where
  "put_at [] x v = x"
| "put_at (k # ks) x (Obj kvs) = Obj (AList.update k (put_at ks x (obj_get kvs k)) kvs)"
| "put_at (k # ks) x v = v"

fun del_at :: "string list \<Rightarrow> js \<Rightarrow> js" where
  "del_at [] v = Undef"
| "del_at [k] (Obj kvs) = Obj (AList.delete k kvs)"
| "del_at (k # ks) (Obj kvs) = Obj (AList.update k (del_at ks (obj_get kvs k)) kvs)"
| "del_at (k # ks) v = v"

fun patch1 :: "(string list \<times> change_type \<times> js \<times> js) \<Rightarrow> js \<Rightarrow> js" where
  "patch1 (path, Deleted, r, l) v = del_at path v"
| "patch1 (path, t, r, l) v = put_at path r v"

definition patch :: "delta \<Rightarrow> js \<Rightarrow> js" where
  "patch ds v = fold patch1 ds v"

section \<open>The code computes the specification\<close>

definition mark_all :: "string list \<Rightarrow> delta \<Rightarrow> diff_ret \<Rightarrow> diff_ret" where
  "mark_all path ds ret = fold (\<lambda>(p, t, r, l) acc. mark acc (path @ p) t r l) ds ret"

lemma mark_all_Nil [simp]: "mark_all path [] ret = ret"
  by (simp add: mark_all_def)

lemma mark_all_append [simp]: "mark_all path (as @ bs) ret = mark_all path bs (mark_all path as ret)"
  by (simp add: mark_all_def)

lemma mark_all_under: "mark_all path (under p ds) ret = mark_all (path @ [p]) ds ret"
  by (induction ds arbitrary: ret) (auto simp: mark_all_def under_def)

lemma mark_all_concat:
  "mark_all path (concat (map f xs)) ret = fold (\<lambda>x acc. mark_all path (f x) acc) xs ret"
  by (induction xs arbitrary: ret) auto

lemma mark_all_deletions:
  "mark_all path (deletions rs ls) ret =
     fold (\<lambda>(p, ll) acc. if \<not> obj_has rs p then mark acc (path @ [p]) Deleted Undef ll else acc) ls ret"
  by (induction ls arbitrary: ret) (auto simp: deletions_def mark_all_def)

lemma mark_all_leaf: "mark_all path (delta_leaf L r l) ret = diff_leaf L r l path ret"
  by (simp add: delta_leaf_def diff_leaf_def mark_all_def is_undefined_def)

lemma json_diff_mark_all: "json_diff L r l path ret = mark_all path (delta L r l) ret"
proof (induction L r l path ret rule: json_diff.induct)
  case (1 L rs l path ret)
  show ?case
  proof (cases l)
    case (Obj ls)
    have "fold (\<lambda>(p, rr) acc. json_diff L rr (obj_get ls p) (path @ [p]) acc) rs ret
        = fold (\<lambda>x acc. mark_all path (case x of (p, rr) \<Rightarrow> under p (delta L rr (obj_get ls p))) acc) rs ret"
      using "1.IH" [OF Obj refl]
      by (intro fold_cong) (auto simp: mark_all_under)
    with Obj show ?thesis
      by (simp add: mark_all_concat mark_all_deletions Let_def obj_has_def)
  qed (simp_all add: mark_all_leaf)
qed (simp_all add: mark_all_leaf)

section \<open>Paths of a delta are distinct\<close>

lemma under_paths [simp]: "map fst (under p ds) = map ((#) p) (map fst ds)"
  by (induction ds) (auto simp: under_def)

lemma deletions_paths:
  "map fst (deletions rs ls) = map (\<lambda>p. [p]) (filter (\<lambda>p. \<not> obj_has rs p) (map fst ls))"
  by (induction ls) (auto simp: deletions_def)

lemma concat_under_paths:
  "map fst (concat (map (\<lambda>(p, rr). under p (f p rr)) rs))
     = concat (map (\<lambda>(p, rr). map ((#) p) (map fst (f p rr))) rs)"
  by (induction rs) auto

lemma distinct_concat_under:
  assumes "distinct (map fst rs)" and "\<And>p rr. (p, rr) \<in> set rs \<Longrightarrow> distinct (map fst (f p rr))"
  shows "distinct (concat (map (\<lambda>(p, rr). map ((#) p) (map fst (f p rr))) rs))"
  using assms
proof (induction rs)
  case Nil
  then show ?case by simp
next
  case (Cons a rs)
  obtain p rr where a: "a = (p, rr)" by (cases a)
  have "distinct (map ((#) p) (map fst (f p rr)))"
    using Cons.prems(2) [of p rr] a by (simp add: distinct_map del: map_map)
  moreover have "distinct (concat (map (\<lambda>(p, rr). map ((#) p) (map fst (f p rr))) rs))"
    using Cons by simp
  ultimately show ?case
    using Cons.prems(1) a by (auto simp: rev_image_eqI)
qed

lemma delta_paths_distinct: "wf_js r \<Longrightarrow> wf_js l \<Longrightarrow> distinct (map fst (delta L r l))"
proof (induction L r l rule: delta.induct)
  case (1 L rs l)
  show ?case
  proof (cases l)
    case (Obj ls)
    have sub: "distinct (map fst (delta L rr (obj_get ls p)))" if "(p, rr) \<in> set rs" for p rr
      using "1.IH" [OF Obj that refl] "1.prems" Obj that wf_obj_get by fastforce
    have "distinct (concat (map (\<lambda>(p, rr). map ((#) p) (map fst (delta L rr (obj_get ls p)))) rs))"
      using "1.prems" sub by (intro distinct_concat_under) auto
    moreover have "distinct (map fst (deletions rs ls))"
      using "1.prems" Obj by (auto simp: deletions_paths distinct_map inj_on_def)
    ultimately show ?thesis
      using Obj by (fastforce simp: concat_under_paths deletions_paths)
  qed (simp_all add: delta_leaf_def)
qed (simp_all add: delta_leaf_def)

lemma mark_all_fresh:
  assumes "distinct (map fst ds)" and "\<forall>d \<in> set ds. compile (path @ fst d) \<notin> fst ` set ret"
  shows "mark_all path ds ret = ret @ map (\<lambda>(p, c). (compile (path @ p), c)) ds"
  using assms
proof (induction ds arbitrary: ret)
  case Nil
  then show ?case by simp
next
  case (Cons d ds)
  obtain p t r l where d: "d = (p, t, r, l)" by (cases d)
  let ?ret = "ret @ [(compile (path @ p), t, r, l)]"
  have "mark ret (path @ p) t r l = ?ret"
    using Cons.prems(2) d by (simp add: mark_def update_absent)
  moreover have "mark_all path ds ?ret = ?ret @ map (\<lambda>(p, c). (compile (path @ p), c)) ds"
    using Cons.prems d by (intro Cons.IH) (auto simp: compile_inj)
  ultimately show ?case
    using d by (simp add: mark_all_def)
qed

lemma diff_eq_delta:
  "wf_js r \<Longrightarrow> wf_js l \<Longrightarrow> diff L r l = map (\<lambda>(p, c). (compile p, c)) (delta L r l)"
  using mark_all_fresh [of "delta L r l" "[]" "[]"] delta_paths_distinct
  by (simp add: diff_def json_diff_mark_all)

section \<open>Patching\<close>

lemma patch_simps [simp]:
  "patch [] v = v"
  "patch (d # ds) v = patch ds (patch1 d v)"
  "patch (as @ bs) v = patch bs (patch as v)"
  by (simp_all add: patch_def)

text \<open>No change of the list removes the document itself.\<close>

definition keeps_root :: "delta \<Rightarrow> bool" where
  "keeps_root ds = (\<forall>d \<in> set ds. fst d = [] \<longrightarrow> fst (snd d) \<noteq> Deleted)"

lemma keeps_root_delta: "keeps_root (delta L r l)"
  by (induction L r l rule: delta.induct)
    (auto simp: keeps_root_def delta_leaf_def under_def deletions_def split: js.splits)

lemma under_Nil [simp]: "under p [] = []"
  by (simp add: under_def)

text \<open>
  A way to carry changes out in a document: what a change does below the property of an
  object is what it does to the value of the property. Both patching and lodash's \<^verbatim>\<open>set\<close>
  are of this kind, and the lemmas on lists of changes are proved once for both.
\<close>

locale tree_edits =
  fixes step :: "string list \<times> change_type \<times> js \<times> js \<Rightarrow> js \<Rightarrow> js"
    and ok :: "string list \<times> change_type \<times> js \<times> js \<Rightarrow> bool"
  assumes step_under:
    "ok (path, c) \<Longrightarrow>
     step (p # path, c) (Obj kvs) = Obj (AList.update p (step (path, c) (obj_get kvs p)) kvs)"
begin

lemma run_under:
  assumes "\<forall>d \<in> set ds. ok d" and "ds \<noteq> []"
  shows "fold step (under p ds) (Obj kvs) = Obj (AList.update p (fold step ds (obj_get kvs p)) kvs)"
  using assms
proof (induction ds arbitrary: kvs)
  case Nil
  then show ?case by simp
next
  case (Cons d ds)
  obtain path c where d: "d = (path, c)" by (cases d)
  have one: "step (p # path, c) (Obj kvs) = Obj (AList.update p (step d (obj_get kvs p)) kvs)"
    using Cons.prems(1) d by (simp add: step_under)
  show ?case
  proof (cases "ds = []")
    case True
    with one d show ?thesis by (simp add: under_def)
  next
    case False
    then have "fold step (under p ds) (Obj (AList.update p (step d (obj_get kvs p)) kvs))
        = Obj (AList.update p (fold step ds (step d (obj_get kvs p))) kvs)"
      using Cons.prems(1) by (simp add: Cons.IH obj_get_update)
    with one d show ?thesis by (simp add: under_def)
  qed
qed

lemma run_members:
  assumes "distinct (map fst rs)" and "\<And>p rr. \<forall>d \<in> set (D p rr). ok d" and "distinct (map fst ks)"
  shows "\<exists>ks'. fold step (concat (map (\<lambda>(p, rr). under p (D p rr)) rs)) (Obj ks) = Obj ks' \<and>
    distinct (map fst ks') \<and>
    (\<forall>k. obj_get ks' k =
       (case map_of rs k of None \<Rightarrow> obj_get ks k | Some rr \<Rightarrow> fold step (D k rr) (obj_get ks k))) \<and>
    (\<forall>k. obj_has ks' k \<longleftrightarrow> obj_has ks k \<or> (\<exists>rr. map_of rs k = Some rr \<and> D k rr \<noteq> []))"
  using assms
proof (induction rs arbitrary: ks)
  case Nil
  then show ?case by simp
next
  case (Cons a rs)
  obtain p rr where a: "a = (p, rr)" by (cases a)
  define ks1 where "ks1 = (if D p rr = [] then ks
     else AList.update p (fold step (D p rr) (obj_get ks p)) ks)"
  have step: "fold step (under p (D p rr)) (Obj ks) = Obj ks1"
    using run_under [OF Cons.prems(2)] by (simp add: ks1_def)
  have ks1: "distinct (map fst ks1)"
    using Cons.prems(3) by (simp add: ks1_def distinct_update)
  have "distinct (map fst rs)" using Cons.prems(1) by simp
  from Cons.IH [OF this Cons.prems(2) ks1] obtain ks' where ks':
    "fold step (concat (map (\<lambda>(p, rr). under p (D p rr)) rs)) (Obj ks1) = Obj ks'"
    "distinct (map fst ks')"
    "\<forall>k. obj_get ks' k =
       (case map_of rs k of None \<Rightarrow> obj_get ks1 k | Some rr \<Rightarrow> fold step (D k rr) (obj_get ks1 k))"
    "\<forall>k. obj_has ks' k \<longleftrightarrow> obj_has ks1 k \<or> (\<exists>rr. map_of rs k = Some rr \<and> D k rr \<noteq> [])"
    by blast
  have fresh: "map_of rs p = None"
    using Cons.prems(1) a by (simp add: map_of_None_keys)
  show ?case
  proof (intro exI conjI)
    show "fold step (concat (map (\<lambda>(p, rr). under p (D p rr)) (a # rs))) (Obj ks) = Obj ks'"
      using a step ks'(1) by simp
    show "distinct (map fst ks')" by (rule ks'(2))
    show "\<forall>k. obj_get ks' k = (case map_of (a # rs) k of None \<Rightarrow> obj_get ks k
        | Some rr \<Rightarrow> fold step (D k rr) (obj_get ks k))"
      using ks'(3) a fresh by (auto simp: ks1_def obj_get_update split: option.splits)
    show "\<forall>k. obj_has ks' k \<longleftrightarrow> obj_has ks k \<or> (\<exists>rr. map_of (a # rs) k = Some rr \<and> D k rr \<noteq> [])"
      using ks'(4) a fresh by (auto simp: ks1_def obj_has_update)
  qed
qed

end

interpretation patching: tree_edits patch1 "\<lambda>d. fst d = [] \<longrightarrow> fst (snd d) \<noteq> Deleted"
proof
  fix path :: "string list" and c :: "change_type \<times> js \<times> js" and p kvs
  assume "fst (path, c) = [] \<longrightarrow> fst (snd (path, c)) \<noteq> Deleted"
  then show "patch1 (p # path, c) (Obj kvs) = Obj (AList.update p (patch1 (path, c) (obj_get kvs p)) kvs)"
    by (cases c; cases "fst c"; cases path) auto
qed

lemmas patch_members = patching.run_members [folded patch_def keeps_root_def]

lemma obj_has_delete: "obj_has (AList.delete k ks) k' \<longleftrightarrow> k' \<noteq> k \<and> obj_has ks k'"
proof -
  have "fst ` set (AList.delete k ks) = set (removeAll k (map fst ks))"
    by (metis delete_keys list.set_map)
  then show ?thesis by (auto simp: obj_has_def)
qed

lemma obj_get_delete: "k' \<noteq> k \<Longrightarrow> obj_get (AList.delete k ks) k' = obj_get ks k'"
  by (simp add: obj_get_def delete_conv')

lemma patch_deletions:
  assumes "distinct (map fst ks)"
  shows "\<exists>ks'. patch (deletions rs ls) (Obj ks) = Obj ks' \<and> distinct (map fst ks') \<and>
    (\<forall>k. obj_has ks' k \<longleftrightarrow> obj_has ks k \<and> (obj_has ls k \<longrightarrow> obj_has rs k)) \<and>
    (\<forall>k. obj_has ks' k \<longrightarrow> obj_get ks' k = obj_get ks k)"
  using assms
proof (induction ls arbitrary: ks)
  case Nil
  then show ?case by (auto simp: deletions_def obj_has_def)
next
  case (Cons a ls)
  obtain p ll where a: "a = (p, ll)" by (cases a)
  define ks1 where "ks1 = (if obj_has rs p then ks else AList.delete p ks)"
  have "distinct (map fst ks1)"
    using Cons.prems by (simp add: ks1_def distinct_delete)
  then obtain ks' where ks': "patch (deletions rs ls) (Obj ks1) = Obj ks'" "distinct (map fst ks')"
    "\<forall>k. obj_has ks' k \<longleftrightarrow> obj_has ks1 k \<and> (obj_has ls k \<longrightarrow> obj_has rs k)"
    "\<forall>k. obj_has ks' k \<longrightarrow> obj_get ks' k = obj_get ks1 k"
    using Cons.IH by blast
  have "patch (deletions rs (a # ls)) (Obj ks) = Obj ks'"
    using ks'(1) a by (cases "obj_has rs p") (simp_all add: deletions_def ks1_def)
  moreover have "\<forall>k. obj_has ks' k \<longleftrightarrow> obj_has ks k \<and> (obj_has (a # ls) k \<longrightarrow> obj_has rs k)"
    using ks'(3) a by (auto simp: ks1_def obj_has_delete) (auto simp: obj_has_def)
  moreover have "\<forall>k. obj_has ks' k \<longrightarrow> obj_get ks' k = obj_get ks k"
    using ks'(3,4) by (auto simp: ks1_def obj_has_delete obj_get_delete)
  ultimately show ?case using ks'(2) by blast
qed

text \<open>The changes of a result, by the key paths its pointers parse to.\<close>

definition decode :: "diff_ret \<Rightarrow> delta" where
  "decode ret = map (\<lambda>(ptr, c). (case parse ptr of Inr p \<Rightarrow> p | Inl e \<Rightarrow> [], c)) ret"

lemma decode_diff: "wf_js r \<Longrightarrow> wf_js l \<Longrightarrow> decode (diff L r l) = delta L r l"
  by (simp add: decode_def diff_eq_delta pointer_roundtrip comp_def case_prod_unfold)

section \<open>Comparison and patching with lodash as documented\<close>

context lodash_api begin

lemma delta_leaf_patch:
  assumes "wf_js r" and "wf_js l"
  shows "ref_is_equal (patch (delta_leaf L r l) l) r"
  using assms by (auto simp: delta_leaf_def is_equal_eq ref_is_equal_refl)

lemma delta_patch:
  "K = L \<Longrightarrow> wf_js r \<Longrightarrow> wf_js l \<Longrightarrow> ref_is_equal (patch (delta K r l) l) r"
proof (induction K r l rule: delta.induct)
  case (1 K rs l)
  show ?case
  proof (cases l)
    case (Obj ls)
    let ?D = "\<lambda>p rr. delta K rr (obj_get ls p)"
    have dr: "distinct (map fst rs)" and dl: "distinct (map fst ls)"
      using "1.prems" Obj by simp_all
    obtain ks where ks: "patch (concat (map (\<lambda>(p, rr). under p (?D p rr)) rs)) (Obj ls) = Obj ks"
      "distinct (map fst ks)"
      "\<forall>k. obj_get ks k =
        (case map_of rs k of None \<Rightarrow> obj_get ls k | Some rr \<Rightarrow> patch (?D k rr) (obj_get ls k))"
      "\<forall>k. obj_has ks k \<longleftrightarrow> obj_has ls k \<or> (\<exists>rr. map_of rs k = Some rr \<and> ?D k rr \<noteq> [])"
      using patch_members [of rs ?D ls] dr dl keeps_root_delta by blast
    obtain ks' where ks': "patch (deletions rs ls) (Obj ks) = Obj ks'" "distinct (map fst ks')"
      "\<forall>k. obj_has ks' k \<longleftrightarrow> obj_has ks k \<and> (obj_has ls k \<longrightarrow> obj_has rs k)"
      "\<forall>k. obj_has ks' k \<longrightarrow> obj_get ks' k = obj_get ks k"
      using patch_deletions [OF ks(2)] by blast
    have new: "?D k rr \<noteq> []" if "\<not> obj_has ls k" for k rr
      using that by (cases rr) (simp_all add: obj_get_absent delta_leaf_def)
    have has: "obj_has ks' k \<longleftrightarrow> obj_has rs k" for k
      using ks'(3) ks(4) new [of k] unfolding obj_has_map_of [of rs] by (metis (no_types))
    have val: "ref_is_equal (obj_get ks' k) (obj_get rs k)" if "obj_has ks' k" for k
    proof -
      have "obj_has rs k" using that has by simp
      then obtain rr where rr: "map_of rs k = Some rr"
        by (auto simp: obj_has_map_of)
      then have m: "(k, rr) \<in> set rs" by (rule map_of_SomeD)
      then have "wf_js rr" and "wf_js (obj_get ls k)"
        using "1.prems" Obj wf_obj_get by auto
      then have "ref_is_equal (patch (?D k rr) (obj_get ls k)) rr"
        by (rule "1.IH" [OF Obj m refl "1.prems"(1)])
      with rr that ks(3) ks'(4) show ?thesis by (simp add: obj_get_def)
    qed
    have "ref_is_equal (Obj ks') (Obj rs)"
      using ks'(2) dr has val by (rule ref_is_equal_objI)
    with Obj ks(1) ks'(1) show ?thesis by simp
  qed (use "1.prems" delta_leaf_patch in simp_all)
qed (use delta_leaf_patch in simp_all)

text \<open>Between JSON documents the list of changes is empty exactly when they are equal.\<close>

lemma delta_leaf_empty:
  "json r \<Longrightarrow> json l \<Longrightarrow> delta_leaf L r l = [] \<longleftrightarrow> ref_is_equal l r"
  using json_not_undef [of l] by (simp add: delta_leaf_def is_equal_eq json_wf)

lemma delta_empty_iff:
  "K = L \<Longrightarrow> json r \<Longrightarrow> json l \<Longrightarrow> delta K r l = [] \<longleftrightarrow> ref_is_equal l r"
proof (induction K r l rule: delta.induct)
  case (1 K rs l)
  show ?case
  proof (cases l)
    case (Obj ls)
    have dr: "distinct (map fst rs)" and dl: "distinct (map fst ls)"
      using "1.prems" Obj by simp_all
    have sub: "delta K rr (obj_get ls p) = [] \<longleftrightarrow> obj_has ls p \<and> ref_is_equal (obj_get ls p) rr"
      if p: "(p, rr) \<in> set rs" for p rr
    proof (cases "obj_has ls p")
      case True
      then have "json (obj_get ls p)" using "1.prems"(3) Obj json_obj_get by blast
      moreover have "json rr" using "1.prems"(2) p by auto
      ultimately show ?thesis using "1.IH" [OF Obj p refl "1.prems"(1)] True by simp
    next
      case False
      then show ?thesis by (cases rr) (simp_all add: obj_get_absent delta_leaf_def)
    qed
    have dels: "deletions rs ls = [] \<longleftrightarrow> (\<forall>k. obj_has ls k \<longrightarrow> obj_has rs k)"
      by (auto simp: deletions_def filter_empty_conv obj_has_map_of dest: map_of_SomeD)
        (metis dl map_of_is_SomeI obj_has_map_of)
    have "delta K (Obj rs) l = [] \<longleftrightarrow>
        (\<forall>(p, rr) \<in> set rs. obj_has ls p \<and> ref_is_equal (obj_get ls p) rr) \<and> deletions rs ls = []"
      using Obj sub by (auto simp: under_def)
    also have "\<dots> \<longleftrightarrow> ref_is_equal (Obj ls) (Obj rs)"
    proof
      assume eq: "(\<forall>(p, rr) \<in> set rs. obj_has ls p \<and> ref_is_equal (obj_get ls p) rr) \<and> deletions rs ls = []"
      show "ref_is_equal (Obj ls) (Obj rs)"
      proof (rule ref_is_equal_objI [OF dl dr])
        fix k
        show "obj_has ls k \<longleftrightarrow> obj_has rs k"
          using eq dels by (auto simp: obj_has_map_of [of rs] dest: map_of_SomeD)
        assume "obj_has ls k"
        then obtain rr where "(k, rr) \<in> set rs" and "obj_get rs k = rr"
          using eq dels dr by (auto simp: obj_has_map_of [of rs] obj_get_def dest: map_of_SomeD)
        with eq show "ref_is_equal (obj_get ls k) (obj_get rs k)" by auto
      qed
    next
      assume eq: "ref_is_equal (Obj ls) (Obj rs)"
      note D = ref_is_equal_objD [OF eq dl dr]
      show "(\<forall>(p, rr) \<in> set rs. obj_has ls p \<and> ref_is_equal (obj_get ls p) rr) \<and> deletions rs ls = []"
        using D dels dr obj_get_in by fastforce
    qed
    finally show ?thesis using Obj by simp
  qed (use "1.prems" delta_leaf_empty in simp_all)
qed (use delta_leaf_empty in simp_all)

end

section \<open>Properties\<close>

text \<open>
  C2. The map that \<^verbatim>\<open>diff\<close> accumulates is the list of changes of the specification, in order:
  no pointer is overwritten by a later one, since different paths have different pointers.
\<close>

theorem diff_refines_delta:
  assumes "wf_js newValue" and "wf_js oldValue"
  shows "diff L newValue oldValue = map (\<lambda>(p, c). (compile p, c)) (delta L newValue oldValue)"
  using assms by (rule diff_eq_delta)

theorem diff_refines_delta_witness:
  "diff lodash_ref (Obj [(''x'', Obj [(''a/b'', Num 2)]), (''n'', Null)]) (Obj [(''x'', Obj [(''a/b'', Num 1)]), (''d'', Num 0)])
    = [(''/x/a~1b'', Modified, Num 2, Num 1), (''/n'', Added, Null, Undef), (''/d'', Deleted, Undef, Num 0)]"
  using diff_refines_delta [of "Obj [(''x'', Obj [(''a/b'', Num 2)]), (''n'', Null)]"
      "Obj [(''x'', Obj [(''a/b'', Num 1)]), (''d'', Num 0)]" lodash_ref]
  by (simp add: under_def deletions_def delta_leaf_def lodash_ref_def obj_get_def obj_has_def compile_def)

text \<open>
  C1. The changes \<^verbatim>\<open>diff\<close> reports are complete and correct: applied to the old document, they
  yield the new one, up to the order of keys.
\<close>

theorem diff_patch:
  assumes "lodash_ok L" and "wf_js newValue" and "wf_js oldValue"
  shows "ref_is_equal (patch (decode (diff L newValue oldValue)) oldValue) newValue"
  using assms lodash_api.delta_patch [OF lodash_apiI refl] by (simp add: decode_diff)

theorem diff_patch_witness:
  "ref_is_equal (patch (decode (diff lodash_ref (Obj [(''a'', Num 1)]) (Obj [(''b'', Null)]))) (Obj [(''b'', Null)]))
     (Obj [(''a'', Num 1)])"
  by (rule diff_patch) simp_all

text \<open>
  Between two JSON documents \<^verbatim>\<open>diff\<close> reports nothing exactly when they are deeply equal,
  so the editor marks a line if and only if the document was changed.
\<close>

theorem diff_empty_iff_equal:
  assumes "lodash_ok L" and "json newValue" and "json oldValue"
  shows "diff L newValue oldValue = [] \<longleftrightarrow> ref_is_equal oldValue newValue"
  using assms lodash_api.delta_empty_iff [OF lodash_apiI refl] diff_eq_delta json_wf by simp

theorem diff_empty_iff_equal_witness:
  "diff lodash_ref (Obj [(''a'', Num 1), (''b'', Null)]) (Obj [(''b'', Null), (''a'', Num 1)]) = []"
  using diff_empty_iff_equal [of lodash_ref "Obj [(''a'', Num 1), (''b'', Null)]" "Obj [(''b'', Null), (''a'', Num 1)]"]
  by simp

end
