(* ===== verification/Json_Editor.thy ===== *)
theory Json_Editor
  imports Schema_Type Json_Diff
begin

text \<open>
  \<^verbatim>\<open>nodepkg/codemirror/src/json\<close>: what the JSON editor does with a syntax tree. The tree is
  made by the editor's parser, a package; here it is a value of \<open>tree\<close>. \<^verbatim>\<open>util.ts\<close> walks it
  and pairs JSON pointers with nodes, \<^verbatim>\<open>useJSONEditor.ts\<close> turns validation errors into
  diagnostics, \<^verbatim>\<open>JSONDiff.ts\<close> marks the changed lines, and \<^verbatim>\<open>JSONCompletion.ts\<close> finds the path
  at the cursor and proposes completions. \<^verbatim>\<open>JSON.parse\<close> and \<^verbatim>\<open>JSON.stringify\<close> are arguments.
\<close>

section \<open>Syntax trees\<close>

datatype tree = Tree (tr_name: string) (tr_from: nat) (tr_to: nat) (tr_children: "tree list")

definition slice_doc :: "string \<Rightarrow> nat \<Rightarrow> nat \<Rightarrow> string" where
  "slice_doc doc from to = drop from (take to doc)"

definition node_text :: "string \<Rightarrow> tree \<Rightarrow> string" where
  "node_text doc t = slice_doc doc (tr_from t) (tr_to t)"

text \<open>\<^verbatim>\<open>unquote\<close>: the parsed value, or the text itself when it does not parse.\<close>

definition unquote :: "(string \<Rightarrow> js option) \<Rightarrow> string \<Rightarrow> js" where
  "unquote json_parse s = (case json_parse s of None \<Rightarrow> Str s | Some v \<Rightarrow> v)"

definition node_value :: "(string \<Rightarrow> js option) \<Rightarrow> string \<Rightarrow> tree \<Rightarrow> js" where
  "node_value json_parse doc t = unquote json_parse (node_text doc t)"

definition is_item :: "tree \<Rightarrow> bool" where
  "is_item t = (tr_name t \<noteq> ''['' \<and> tr_name t \<noteq> '']'')"

lemma tree_child_size [termination_simp]: "t \<in> set ts \<Longrightarrow> size t < Suc (size_list size ts)"
  using size_list_estimation' [of t ts "size t" size] by simp

lemma tree_last_size [termination_simp]:
  "ts \<noteq> [] \<Longrightarrow> p \<in> set ps \<Longrightarrow> tr_children p = ts \<Longrightarrow> size (last ts) < Suc (size_list size ps)"
proof -
  assume ts: "ts \<noteq> []" "p \<in> set ps" "tr_children p = ts"
  have "size (last ts) < size p"
    using ts(1,3) tree_child_size [OF last_in_set [OF ts(1)]] by (cases p) auto
  with tree_child_size [OF ts(2)] show ?thesis by simp
qed

section \<open>Walking the tree\<close>

text \<open>
  \<^verbatim>\<open>walkNode\<close>: the calls of \<^verbatim>\<open>each\<close>, in order. \<^verbatim>\<open>JSONPointer.escape\<close> is called on the
  unquoted name, which has to be a string; a name that parses to something else raises, and is
  not a name the grammar allows.
\<close>

type_synonym event = "string \<times> tree"

fun indexed :: "nat \<Rightarrow> 'a list \<Rightarrow> (nat \<times> 'a) list" where
  "indexed i [] = []"
| "indexed i (x # xs) = (i, x) # indexed (Suc i) xs"

lemma indexed_set [termination_simp]: "(i, x) \<in> set (indexed j xs) \<Longrightarrow> x \<in> set xs"
  by (induction xs arbitrary: j) auto

lemma indexed_size [termination_simp]:
  "(i, t) \<in> set (indexed j (filter P ts)) \<Longrightarrow> size t < Suc (size_list size ts)"
  by (drule indexed_set) (simp add: tree_child_size)

function walkNode :: "(string \<Rightarrow> js option) \<Rightarrow> string \<Rightarrow> tree \<Rightarrow> string \<Rightarrow> event list" where
  "walkNode json_parse doc (Tree name from to cs) path =
     (if name = ''JsonText'' then
        (case cs of [] \<Rightarrow> [] | c # _ \<Rightarrow> walkNode json_parse doc c path)
      else if name = ''Object'' then
        (path, Tree name from to cs) #
        concat (map (\<lambda>p.
          if tr_name p = ''Property'' \<and> tr_children p \<noteq> [] then
            (let propName = to_str (node_value json_parse doc (hd (tr_children p)))
             in (path @ escape propName, hd (tr_children p)) #
                walkNode json_parse doc (last (tr_children p)) (path @ propName @ ''/''))
          else []) cs)
      else if name = ''Array'' then
        (path, Tree name from to cs) #
        concat (map (\<lambda>(i, n).
          (path @ nat_str i, Tree name from to cs) #
          walkNode json_parse doc n (path @ nat_str i @ ''/'')) (indexed 0 (filter is_item cs)))
      else [])"
  by pat_completeness auto
termination
proof (relation "measure (\<lambda>(_, _, t, _). size t)", goal_cases)
  case (3 json_parse doc name a b cs path p)
  then show ?case by (simp add: tree_last_size)
qed (auto simp: indexed_size)

section \<open>Diagnostics\<close>

record diagnostic =
  dg_from :: nat
  dg_to :: nat
  dg_message :: string

definition validateErrorsToDiagnostics ::
    "(string \<Rightarrow> js option) \<Rightarrow> (string \<times> string) list \<Rightarrow> string \<Rightarrow> tree \<Rightarrow> diagnostic list" where
  "validateErrorsToDiagnostics json_parse errorSet doc topNode =
     (if errorSet = [] then []
      else concat (map (\<lambda>(path, node).
             case map_of errorSet path of
               None \<Rightarrow> []
             | Some msg \<Rightarrow>
                 if msg = '''' then []
                 else [\<lparr>dg_from = tr_from node, dg_to = tr_to node, dg_message = msg\<rparr>])
           (walkNode json_parse doc topNode ''/'')))"

text \<open>
  \<^verbatim>\<open>getErrorPosition\<close>: the first \<^verbatim>\<open>at position N\<close> or \<^verbatim>\<open>at line N column M\<close> of the message of the
  \<^verbatim>\<open>SyntaxError\<close>. \<open>None\<close> is the \<^verbatim>\<open>RangeError\<close> of a line the document does not have.
\<close>

definition leading_digits :: "string \<Rightarrow> string" where
  "leading_digits s = takeWhile is_digit s"

fun match_number_after :: "string \<Rightarrow> string \<Rightarrow> nat option" where
  "match_number_after p [] = None"
| "match_number_after p (c # s) =
     (if starts_with (c # s) p \<and> leading_digits (drop (length p) (c # s)) \<noteq> []
      then Some (digits_value (leading_digits (drop (length p) (c # s))))
      else match_number_after p s)"

definition match_line_column_here :: "string \<Rightarrow> (nat \<times> nat) option" where
  "match_line_column_here s =
     (let s1 = drop (length ''at line '') s;
          line = leading_digits s1;
          s2 = drop (length line) s1;
          s3 = drop (length '' column '') s2;
          col = leading_digits s3
      in if starts_with s ''at line '' \<and> line \<noteq> [] \<and> starts_with s2 '' column '' \<and> col \<noteq> []
         then Some (digits_value line, digits_value col) else None)"

fun match_line_column :: "string \<Rightarrow> (nat \<times> nat) option" where
  "match_line_column [] = None"
| "match_line_column (c # s) =
     (case match_line_column_here (c # s) of None \<Rightarrow> match_line_column s | Some r \<Rightarrow> Some r)"

text \<open>The offset at which the \<open>n\<close>th line begins, counting from 1.\<close>

definition line_from :: "string \<Rightarrow> nat \<Rightarrow> nat option" where
  "line_from doc n =
     (let ls = split_on (CHR 0x0A) doc in
      if 1 \<le> n \<and> n \<le> length ls then Some (sum_list (map (\<lambda>l. Suc (length l)) (take (n - 1) ls)))
      else None)"

definition getErrorPosition :: "string \<Rightarrow> string \<Rightarrow> int option" where
  "getErrorPosition message doc =
     (case match_number_after ''at position '' message of
        Some n \<Rightarrow> Some (min (int n) (int (length doc)))
      | None \<Rightarrow>
          (case match_line_column message of
             Some (line, col) \<Rightarrow>
               (case line_from doc line of
                  None \<Rightarrow> None
                | Some from \<Rightarrow> Some (min (int from + int col - 1) (int (length doc))))
           | None \<Rightarrow> Some 0))"

section \<open>Changed lines\<close>

text \<open>
  \<^verbatim>\<open>diffAndDispatchEffects\<close>. The view's \<^verbatim>\<open>lineBlockAt(pos).from\<close> is an argument. The state of
  the walk is the effects so far, the positions newly marked, and the last marked position
  (-1 at first).
\<close>

datatype line_effect = AddDiffLine change_type int int | RemoveDiffLine int int

record mark_state =
  ms_effects :: "line_effect list"
  ms_newLines :: "int list"
  ms_last :: int

fun sibling_after :: "tree \<Rightarrow> tree list \<Rightarrow> tree option" where
  "sibling_after t [] = None"
| "sibling_after t (x # xs) =
     (if x = t then (case xs of [] \<Rightarrow> None | y # _ \<Rightarrow> Some y) else sibling_after t xs)"

fun all_nodes :: "tree \<Rightarrow> tree list" where
  "all_nodes (Tree name from to cs) = Tree name from to cs # concat (map all_nodes cs)"

fun next_sibling_in :: "tree \<Rightarrow> tree list \<Rightarrow> tree option" where
  "next_sibling_in t [] = None"
| "next_sibling_in t (p # ps) =
     (case sibling_after t (tr_children p) of None \<Rightarrow> next_sibling_in t ps | Some s \<Rightarrow> Some s)"

definition nextSibling :: "tree \<Rightarrow> tree \<Rightarrow> tree option" where
  "nextSibling topNode t = next_sibling_in t (all_nodes topNode)"

definition mark_event ::
    "(nat \<Rightarrow> int) \<Rightarrow> tree \<Rightarrow> diff_ret \<Rightarrow> event \<Rightarrow> mark_state \<Rightarrow> mark_state" where
  "mark_event line_start topNode diffRet e st =
     (case e of (path, node) \<Rightarrow>
        (case map_of diffRet path of
           None \<Rightarrow> st
         | Some (type, r, l) \<Rightarrow>
             (let endNode =
                    (if tr_name node = ''PropertyName''
                     then (case nextSibling topNode node of None \<Rightarrow> node | Some s \<Rightarrow> s) else node);
                  lineStartPos = line_start (tr_from node);
                  lineEndPos = line_start (tr_to endNode)
              in if lineEndPos > ms_last st then
                   st\<lparr>ms_last := lineEndPos,
                      ms_effects := ms_effects st
                        @ map (\<lambda>p. AddDiffLine type p p) [lineStartPos..lineEndPos],
                      ms_newLines := ms_newLines st @ [lineStartPos..lineEndPos]\<rparr>
                 else st)))"

definition diffEffects ::
    "lodash \<Rightarrow> (string \<Rightarrow> js option) \<Rightarrow> (nat \<Rightarrow> int) \<Rightarrow> string \<Rightarrow> tree \<Rightarrow> (int \<times> int) list \<Rightarrow> js
     \<Rightarrow> line_effect list option" where
  "diffEffects L json_parse line_start doc topNode decorated src =
     (let modified = (case json_parse doc of None \<Rightarrow> Str '''' | Some v \<Rightarrow> v) in
      if \<not> truthy modified then None
      else
        (let diffRet = diff L modified src in
         if diffRet = [] then None
         else
           (let st = fold (mark_event line_start topNode diffRet) (walkNode json_parse doc topNode ''/'')
                       \<lparr>ms_effects = [], ms_newLines = [], ms_last = -1\<rparr>
            in Some (ms_effects st
                 @ concat (map (\<lambda>(from, to).
                     if from \<in> set (ms_newLines st) then [] else [RemoveDiffLine from to]) decorated)))))"

section \<open>The value and the path at the cursor\<close>

text \<open>
  \<^verbatim>\<open>astNodeToValue\<close>: the value a node spells, as far as it is complete; \<^verbatim>\<open>parseFloat\<close> is an
  argument.
\<close>

fun getChild :: "string \<Rightarrow> tree list \<Rightarrow> tree option" where
  "getChild name [] = None"
| "getChild name (t # ts) = (if tr_name t = name then Some t else getChild name ts)"

function astNodeToValue ::
    "(string \<Rightarrow> js option) \<Rightarrow> (string \<Rightarrow> js) \<Rightarrow> string \<Rightarrow> tree \<Rightarrow> js" where
  "astNodeToValue json_parse parse_float doc (Tree name a b cs) =
     (if name = ''Object'' then
        Obj (foldl (\<lambda>obj (k, v). AList.update k v obj) []
          (concat (map (\<lambda>p.
             if tr_name p = ''Property'' \<and> tr_children p \<noteq> [] then
               (case getChild ''PropertyName'' (tr_children p) of
                  None \<Rightarrow> []
                | Some nm \<Rightarrow>
                    [(to_str (node_value json_parse doc nm),
                      astNodeToValue json_parse parse_float doc (last (tr_children p)))])
             else []) cs)))
      else if name = ''Array'' then
        Arr (map (astNodeToValue json_parse parse_float doc) (filter is_item cs))
      else if name = ''String'' then unquote json_parse (slice_doc doc a b)
      else if name = ''Number'' then parse_float (slice_doc doc a b)
      else if name = ''True'' then Bool True
      else if name = ''False'' then Bool False
      else Null)"
  by pat_completeness auto
termination
  by (relation "measure (\<lambda>(_, _, _, t). size t)") (auto simp: tree_last_size tree_child_size)

text \<open>
  \<^verbatim>\<open>selectionAt\<close>: the node at the cursor, given by the nodes from the root to it, and the path
  to it: for a property its name with the object around it, for an array item its index. The
  names of the properties are left out when the node itself is a property's name.
\<close>

definition array_item_index :: "tree \<Rightarrow> tree \<Rightarrow> nat option" where
  "array_item_index parent node =
     (case filter (\<lambda>(i, item). tr_from item \<le> tr_from node \<and> tr_to node \<le> tr_to item)
             (indexed 0 (filter is_item (tr_children parent))) of
        [] \<Rightarrow> None
      | (i, item) # _ \<Rightarrow> Some i)"

definition instance_step ::
    "(string \<Rightarrow> js option) \<Rightarrow> (string \<Rightarrow> js) \<Rightarrow> string \<Rightarrow> string \<Rightarrow> tree option \<Rightarrow> tree \<Rightarrow> tree \<Rightarrow> js list sres" where
  "instance_step json_parse parse_float doc selected grandparent parent node =
     (if tr_name parent = ''Property'' then
        (if selected \<noteq> ''PropertyName'' then
           (case getChild ''PropertyName'' (tr_children parent) of
              None \<Rightarrow> Inl SchemaTypeError
            | Some nm \<Rightarrow>
                (case node_value json_parse doc nm of
                   Str s \<Rightarrow>
                     (if trim s = [] then Inr []
                      else Inr [Arr [Str (trim s),
                        (case grandparent of
                           None \<Rightarrow> Null
                         | Some g \<Rightarrow> astNodeToValue json_parse parse_float doc g)]])
                 | _ \<Rightarrow> Inl SchemaTypeError))
         else Inr [])
      else if tr_name parent = ''Array'' then
        (case array_item_index parent node of None \<Rightarrow> Inr [] | Some i \<Rightarrow> Inr [Num (int i)])
      else Inr [])"

fun instance_path ::
    "(string \<Rightarrow> js option) \<Rightarrow> (string \<Rightarrow> js) \<Rightarrow> string \<Rightarrow> string \<Rightarrow> tree option \<Rightarrow> tree list \<Rightarrow> js list sres" where
  "instance_path json_parse parse_float doc selected grandparent (parent # node # rest) =
     bindS (instance_step json_parse parse_float doc selected grandparent parent node) (\<lambda>here.
       bindS (instance_path json_parse parse_float doc selected (Some parent) (node # rest)) (\<lambda>below.
         Inr (here @ below)))"
| "instance_path json_parse parse_float doc selected grandparent nodes = Inr []"

definition selectionAt ::
    "(string \<Rightarrow> js option) \<Rightarrow> (string \<Rightarrow> js) \<Rightarrow> (tree \<Rightarrow> bool) \<Rightarrow> (nat \<Rightarrow> tree list) \<Rightarrow> string \<Rightarrow> nat
     \<Rightarrow> (tree \<times> js list) sres" where
  "selectionAt json_parse parse_float is_error resolve_at doc pos =
     (let nodes = resolve_at pos;
          nodes' = (if is_error (last nodes) then butlast nodes else nodes)
      in if nodes' = [] then Inl SchemaTypeError
         else bindS (instance_path json_parse parse_float doc (tr_name (last nodes')) None nodes') (\<lambda>path.
                Inr (last nodes', path)))"

section \<open>Completions\<close>

datatype inserted = InsertLabel | InsertSnippet string | InsertText string

record completion =
  cp_label :: string
  cp_info :: js
  cp_insert :: inserted

definition quoted :: "string \<Rightarrow> string" where
  "quoted s = [CHR 0x22] @ s @ [CHR 0x22]"

text \<open>What a snippet leaves open for the value of a property.\<close>

fun snippet_holder :: "sty \<Rightarrow> string" where
  "snippet_holder (T_object s ps r a) = ''{${}}''"
| "snippet_holder (T_extended s es) = ''{${}}''"
| "snippet_holder (T_union s ts) = (if truthy (discriminator (T_union s ts)) then ''{${}}'' else ''${}'')"
| "snippet_holder (T_array s i) = ''[${}]''"
| "snippet_holder (T_string s) = quoted ''${}''"
| "snippet_holder t = ''${}''"

definition completion_of :: "lodash \<Rightarrow> string \<Rightarrow> string \<Rightarrow> sty \<Rightarrow> completion" where
  "completion_of L selected propName sub =
     \<lparr>cp_label = propName,
      cp_info = lo_get_str L (schema_of sub) ''description'' Undef,
      cp_insert =
        (if selected = ''Object'' then InsertSnippet (quoted propName @ '': '' @ snippet_holder sub)
         else InsertLabel)\<rparr>"

text \<open>\<^verbatim>\<open>const [prop, obj] = v\<close>.\<close>

definition destructure2 :: "js \<Rightarrow> (js \<times> js) sres" where
  "destructure2 v =
     (case iterate v of
        None \<Rightarrow> Inl SchemaTypeError
      | Some xs \<Rightarrow>
          Inr (case xs of [] \<Rightarrow> (Undef, Undef) | [x] \<Rightarrow> (x, Undef) | x # y # _ \<Rightarrow> (x, y)))"

definition object_or_empty_js :: "js \<Rightarrow> js" where
  "object_or_empty_js v = (if truthy v then v else Obj [])"

fun name_completions ::
    "lodash \<Rightarrow> (string \<Rightarrow> js) \<Rightarrow> nat \<Rightarrow> string \<Rightarrow> js \<Rightarrow> js \<Rightarrow> sty \<Rightarrow> string list \<Rightarrow> completion list sres" where
  "name_completions L resolve n selected pname obj t [] = Inr []"
| "name_completions L resolve n selected pname obj t (name # names) =
     (if lo_has L (object_or_empty_js obj) [to_str pname, name] then
        name_completions L resolve n selected pname obj t names
      else
        bindS (obj_prop L resolve n name t) (\<lambda>p.
          case p of
            None \<Rightarrow> Inl SchemaTypeError
          | Some sub0 \<Rightarrow>
              bindS (underlying L resolve n sub0) (\<lambda>sub.
                bindS (name_completions L resolve n selected pname obj t names) (\<lambda>cs.
                  Inr (completion_of L selected name sub # cs)))))"

definition object_completions ::
    "lodash \<Rightarrow> (string \<Rightarrow> js) \<Rightarrow> nat \<Rightarrow> string \<Rightarrow> js list \<Rightarrow> sty list \<Rightarrow> completion list sres" where
  "object_completions L resolve n selected instancePath ts =
     bindS (if instancePath = [] then Inr (Undef, Undef) else destructure2 (last instancePath))
       (\<lambda>(pname, obj).
         bindS (mapS (\<lambda>t. bindS (propNames L resolve n t) (\<lambda>names.
                    name_completions L resolve n selected pname obj t names)) ts)
           (\<lambda>css. Inr (concat css)))"

definition resolveCompletions ::
    "lodash \<Rightarrow> (string \<Rightarrow> js) \<Rightarrow> (js \<Rightarrow> string) \<Rightarrow> nat \<Rightarrow> sty \<Rightarrow> string \<Rightarrow> js list \<Rightarrow> completion list sres" where
  "resolveCompletions L resolve json_stringify n schema selected instancePath =
     (if selected = ''Object'' \<or> selected = ''PropertyName'' then
        (case schema of
           T_union s ts \<Rightarrow>
             (let disc = discriminator (T_union s ts) in
              if truthy disc then
                bindS (destructure2 (if instancePath = [] then Undef else last instancePath)) (\<lambda>(pname, obj).
                  let v = lo_get L (object_or_empty_js obj) [to_str pname, to_str disc] Undef in
                  if \<not> truthy v then
                    Inr [\<lparr>cp_label = to_str disc, cp_info = Undef,
                          cp_insert = InsertSnippet (quoted (to_str disc) @ '': '' @ quoted ''${}'')\<rparr>]
                  else bindS (mapping L resolve n disc ts v) (\<lambda>m.
                    object_completions L resolve n selected instancePath
                      (case m of None \<Rightarrow> [] | Some t \<Rightarrow> [t])))
              else bindS (mapS (underlying L resolve n) ts) (\<lambda>us.
                object_completions L resolve n selected instancePath (filter is_object_type us)))
         | T_object s ps r a \<Rightarrow> object_completions L resolve n selected instancePath [schema]
         | T_extended s es \<Rightarrow> object_completions L resolve n selected instancePath [schema]
         | _ \<Rightarrow> object_completions L resolve n selected instancePath [])
      else if truthy (enum_of schema) then
        Inr (map (\<lambda>v. \<lparr>cp_label = to_str v, cp_info = Undef,
               cp_insert = InsertText (if selected = ''String'' then to_str v else json_stringify v)\<rparr>)
             (elems_or_none (enum_of schema)))
      else Inr [])"

definition completionsAt ::
    "lodash \<Rightarrow> (string \<Rightarrow> js option) \<Rightarrow> (string \<Rightarrow> js) \<Rightarrow> (js \<Rightarrow> string) \<Rightarrow> (string \<Rightarrow> js) \<Rightarrow> nat \<Rightarrow> js
     \<Rightarrow> (tree \<Rightarrow> bool) \<Rightarrow> (nat \<Rightarrow> tree list) \<Rightarrow> string \<Rightarrow> nat \<Rightarrow> completion list sres" where
  "completionsAt L json_parse parse_float json_stringify resolve n rootSchema is_error resolve_at doc pos =
     bindS (selectionAt json_parse parse_float is_error resolve_at doc pos) (\<lambda>(node, path).
       bindS (schemaAt L resolve n rootSchema path) (\<lambda>found.
         case found of
           None \<Rightarrow> Inr []
         | Some nd \<Rightarrow>
             resolveCompletions L resolve json_stringify n (node_type nd) (tr_name node) path))"

section \<open>Marked lines as a set of ranges\<close>

text \<open>
  \<^verbatim>\<open>diffedLines\<close> and \<^verbatim>\<open>cutRange\<close>: the decorated ranges under the effects of a transaction. A
  range of the set is touched by another when they share a position.
\<close>

definition cutRange :: "(int \<times> int) list \<Rightarrow> int \<times> int \<Rightarrow> (int \<times> int) list" where
  "cutRange ranges r =
     (case r of (rfrom, rto) \<Rightarrow>
        let touched = filter (\<lambda>(a, b). a \<le> rto \<and> rfrom \<le> b) ranges;
            untouched = filter (\<lambda>(a, b). \<not> (a \<le> rto \<and> rfrom \<le> b)) ranges;
            leftover = concat (map (\<lambda>(a, b).
              (if a < rfrom then [(a, rfrom)] else []) @ (if b > rto then [(rto, b)] else [])) touched)
        in untouched @ leftover)"

fun update_lines :: "line_effect \<Rightarrow> (int \<times> int) list \<Rightarrow> (int \<times> int) list" where
  "update_lines (AddDiffLine t a b) ranges = ranges @ [(a, b)]"
| "update_lines (RemoveDiffLine a b) ranges = cutRange ranges (a, b)"

definition diffedLines :: "line_effect list \<Rightarrow> (int \<times> int) list \<Rightarrow> (int \<times> int) list" where
  "diffedLines effects ranges = fold update_lines effects ranges"

text \<open>Line decorations are points.\<close>

definition points :: "(int \<times> int) list \<Rightarrow> bool" where
  "points ranges = list_all (\<lambda>(a, b). a = b) ranges"

lemma cut_points:
  "points ranges \<Longrightarrow> points (cutRange ranges (a, a)) \<and>
   fst ` set (cutRange ranges (a, a)) = fst ` set ranges - {a}"
proof -
  assume p: "points ranges"
  then have "concat (map (\<lambda>(x, y). (if x < a then [(x, a)] else []) @ (if y > a then [(a, y)] else []))
      (filter (\<lambda>(x, y). x \<le> a \<and> a \<le> y) ranges)) = []"
    by (auto simp: points_def list_all_iff)
  with p show ?thesis
    by (auto simp: cutRange_def points_def list_all_iff Let_def image_iff)
qed

lemma add_points:
  "points ranges \<Longrightarrow> points (diffedLines (map (\<lambda>(t, p). AddDiffLine t p p) ps) ranges) \<and>
   fst ` set (diffedLines (map (\<lambda>(t, p). AddDiffLine t p p) ps) ranges) = fst ` set ranges \<union> snd ` set ps"
proof (induction ps arbitrary: ranges)
  case Nil
  then show ?case by (simp add: diffedLines_def)
next
  case (Cons q ps)
  obtain t p where q: "q = (t, p)" by (cases q)
  have "points (ranges @ [(p, p)])" using Cons.prems by (simp add: points_def)
  from Cons.IH [OF this] q show ?case by (auto simp: diffedLines_def)
qed

lemma remove_points:
  "points ranges \<Longrightarrow> points (diffedLines (map (\<lambda>p. RemoveDiffLine p p) ps) ranges) \<and>
   fst ` set (diffedLines (map (\<lambda>p. RemoveDiffLine p p) ps) ranges) = fst ` set ranges - set ps"
proof (induction ps arbitrary: ranges)
  case Nil
  then show ?case by (simp add: diffedLines_def)
next
  case (Cons p ps)
  have "points (cutRange ranges (p, p))" using Cons.prems cut_points by blast
  from Cons.IH [OF this] cut_points [OF Cons.prems, of p] show ?case by (auto simp: diffedLines_def)
qed

lemma diffedLines_append: "diffedLines (es @ es') ranges = diffedLines es' (diffedLines es ranges)"
  by (simp add: diffedLines_def)

text \<open>The effects of the walk add exactly the new lines.\<close>

definition adds_new :: "mark_state \<Rightarrow> bool" where
  "adds_new st \<longleftrightarrow> (\<exists>ps. ms_effects st = map (\<lambda>(t, p). AddDiffLine t p p) ps \<and> ms_newLines st = map snd ps)"

lemma adds_new_mark: "adds_new st \<Longrightarrow> adds_new (mark_event line_start topNode diffRet e st)"
proof -
  assume "adds_new st"
  then obtain ps where ps: "ms_effects st = map (\<lambda>(t, p). AddDiffLine t p p) ps"
    "ms_newLines st = map snd ps" by (auto simp: adds_new_def)
  have "\<exists>ps'. ms_effects st @ map (\<lambda>p. AddDiffLine t p p) xs = map (\<lambda>(t, p). AddDiffLine t p p) ps'
      \<and> ms_newLines st @ xs = map snd ps'" for t xs
    using ps by (intro exI [of _ "ps @ map (Pair t) xs"]) (simp add: comp_def)
  with \<open>adds_new st\<close> show ?thesis
    by (auto simp: mark_event_def adds_new_def Let_def split: option.splits prod.splits)
qed

lemma adds_new_fold: "adds_new st \<Longrightarrow> adds_new (fold (mark_event line_start topNode diffRet) es st)"
  by (induction es arbitrary: st) (auto intro: adds_new_mark)

lemma removes_as_map:
  "points decorated \<Longrightarrow>
   concat (map (\<lambda>(a, b). if a \<in> S then [] else [RemoveDiffLine a b]) decorated)
     = map (\<lambda>p. RemoveDiffLine p p) (filter (\<lambda>p. p \<notin> S) (map fst decorated))"
  by (induction decorated) (auto simp: points_def)

section \<open>Walking reaches every property\<close>

text \<open>\<open>represents v t\<close>: the tree spells the value, every object having its properties in order.\<close>

definition is_property :: "tree \<Rightarrow> bool" where
  "is_property t = (tr_name t = ''Property'')"

fun represents :: "(string \<Rightarrow> js option) \<Rightarrow> string \<Rightarrow> js \<Rightarrow> tree \<Rightarrow> bool" where
  "represents json_parse doc (Obj kvs) t \<longleftrightarrow>
     tr_name t = ''Object'' \<and>
     list_all2 (\<lambda>(k, w) p. tr_children p \<noteq> []
         \<and> node_value json_parse doc (hd (tr_children p)) = Str k
         \<and> represents json_parse doc w (last (tr_children p)))
       kvs (filter is_property (tr_children t))"
| "represents json_parse doc (Arr xs) t \<longleftrightarrow>
     tr_name t = ''Array'' \<and>
     list_all2 (represents json_parse doc) xs (filter is_item (tr_children t))"
| "represents json_parse doc v t \<longleftrightarrow> tr_name t \<notin> {''Object'', ''Array'', ''JsonText'', ''Property''}"

fun has_path :: "js \<Rightarrow> string list \<Rightarrow> bool" where
  "has_path v [] = True"
| "has_path (Obj kvs) (k # ks) = (obj_has kvs k \<and> has_path (obj_get kvs k) ks)"
| "has_path v (k # ks) = False"

definition key_prefix :: "string list \<Rightarrow> string" where
  "key_prefix ks = concat (map (\<lambda>k. k @ ''/'') ks)"

lemma list_all2_member: "list_all2 P xs ys \<Longrightarrow> x \<in> set xs \<Longrightarrow> \<exists>y \<in> set ys. P x y"
  by (induction rule: list_all2_induct) auto

lemma walk_name:
  "p \<in> set cs \<Longrightarrow> is_property p \<Longrightarrow> tr_children p \<noteq> [] \<Longrightarrow>
   node_value json_parse doc (hd (tr_children p)) = Str k \<Longrightarrow>
   (path @ escape k, hd (tr_children p)) \<in> set (walkNode json_parse doc (Tree ''Object'' a b cs) path)"
  by (simp add: is_property_def Let_def) (rule disjI2, rule bexI [of _ p], simp_all)

lemma walk_value:
  "p \<in> set cs \<Longrightarrow> is_property p \<Longrightarrow> tr_children p \<noteq> [] \<Longrightarrow>
   node_value json_parse doc (hd (tr_children p)) = Str k \<Longrightarrow>
   e \<in> set (walkNode json_parse doc (last (tr_children p)) (path @ k @ ''/'')) \<Longrightarrow>
   e \<in> set (walkNode json_parse doc (Tree ''Object'' a b cs) path)"
  by (simp add: is_property_def Let_def) (rule disjI2, rule bexI [of _ p], simp_all)

lemma represents_member:
  assumes "represents json_parse doc (Obj kvs) (Tree name a b cs)" and "obj_has kvs k"
  obtains p where "p \<in> set cs" "is_property p" "tr_children p \<noteq> []"
    "node_value json_parse doc (hd (tr_children p)) = Str k"
    "represents json_parse doc (obj_get kvs k) (last (tr_children p))"
proof -
  have "(k, obj_get kvs k) \<in> set kvs"
    using assms(2) by (auto simp: obj_get_def obj_has_map_of dest: map_of_SomeD)
  then have "\<exists>p \<in> set (filter is_property cs). (\<lambda>(k, w) p. tr_children p \<noteq> []
         \<and> node_value json_parse doc (hd (tr_children p)) = Str k
         \<and> represents json_parse doc w (last (tr_children p))) (k, obj_get kvs k) p"
    using assms(1) by (intro list_all2_member) auto
  then show ?thesis using that by auto
qed

lemma walk_reaches:
  assumes "represents json_parse doc v t" and "has_path v (ks @ [k])" and "\<forall>k' \<in> set ks. escape k' = k'"
  shows "\<exists>node. (path @ key_prefix ks @ escape k, node) \<in> set (walkNode json_parse doc t path)
    \<and> node_value json_parse doc node = Str k"
  using assms
proof (induction ks arbitrary: v t path)
  case Nil
  then obtain kvs where v: "v = Obj kvs" "obj_has kvs k" by (cases v) auto
  obtain a b cs where t: "t = Tree ''Object'' a b cs" using Nil.prems(1) v by (cases t) auto
  obtain p where p: "p \<in> set cs" "is_property p" "tr_children p \<noteq> []"
    "node_value json_parse doc (hd (tr_children p)) = Str k"
    using represents_member Nil.prems(1) v t by metis
  with walk_name [OF p, of path a b] t show ?case by (auto simp: key_prefix_def)
next
  case (Cons k0 ks)
  then obtain kvs where v: "v = Obj kvs" "obj_has kvs k0" "has_path (obj_get kvs k0) (ks @ [k])"
    by (cases v) auto
  obtain a b cs where t: "t = Tree ''Object'' a b cs" using Cons.prems(1) v by (cases t) auto
  obtain p where p: "p \<in> set cs" "is_property p" "tr_children p \<noteq> []"
    "node_value json_parse doc (hd (tr_children p)) = Str k0"
    "represents json_parse doc (obj_get kvs k0) (last (tr_children p))"
    using represents_member Cons.prems(1) v t by metis
  obtain node where node: "((path @ k0 @ ''/'') @ key_prefix ks @ escape k, node)
      \<in> set (walkNode json_parse doc (last (tr_children p)) (path @ k0 @ ''/''))"
    "node_value json_parse doc node = Str k"
    using Cons.IH [OF p(5) v(3)] Cons.prems(3) by (metis list.set_intros(2))
  from walk_value [OF p(1-4) node(1)] t node(2) show ?case by (auto simp: key_prefix_def)
qed

lemma compile_key_prefix:
  "\<forall>k' \<in> set ks. escape k' = k' \<Longrightarrow> compile (ks @ [k]) = ''/'' @ key_prefix ks @ escape k"
proof -
  assume plain: "\<forall>k' \<in> set ks. escape k' = k'"
  then have "map escape ks = ks" by (simp add: map_idI)
  moreover have "join ''/'' (ws @ [w]) = concat (map (\<lambda>k. k @ ''/'') ws) @ w" for ws w
  proof (induction ws)
    case (Cons u ws)
    then show ?case by (cases ws) auto
  qed simp
  ultimately show ?thesis by (simp add: compile_def key_prefix_def)
qed

text \<open>A change other than a deletion is at a path of the new document.\<close>

lemma delta_has_path:
  "(p, t, r', l') \<in> set (delta L r l) \<Longrightarrow> t \<noteq> Deleted \<Longrightarrow> wf_js r \<Longrightarrow> has_path r p"
proof (induction L r l arbitrary: p rule: delta.induct)
  case (1 L rs l)
  show ?case
  proof (cases l)
    case (Obj ls)
    with "1.prems" obtain k rr q where k: "(k, rr) \<in> set rs" "p = k # q"
      "(q, t, r', l') \<in> set (delta L rr (obj_get ls k))"
      by (auto simp: under_def deletions_def)
    have "has_path rr q" using "1.IH" [OF Obj k(1) refl k(3) "1.prems"(2)] "1.prems"(3) k(1) by auto
    with k "1.prems"(3) show ?thesis by (auto simp: obj_get_in)
  qed (use "1.prems" in \<open>auto simp: delta_leaf_def split: if_splits\<close>)
qed (auto simp: delta_leaf_def split: if_splits)

section \<open>Properties\<close>

text \<open>
  A property the modified document added or changed, whose ancestors' names need no
  escaping, is walked under the very pointer the difference files it under, at the node of the
  property's name; so its line is found.
\<close>

theorem changes_are_walked:
  assumes "represents json_parse doc r t" and "wf_js r" and "wf_js l"
    and "(compile (ks @ [k]), c, r', l') \<in> set (diff L r l)" and "c \<noteq> Deleted"
    and "\<forall>k' \<in> set ks. escape k' = k'"
  shows "\<exists>node. (compile (ks @ [k]), node) \<in> set (walkNode json_parse doc (Tree ''JsonText'' a b (t # ts)) ''/'')
    \<and> node_value json_parse doc node = Str k"
proof -
  have "(ks @ [k], c, r', l') \<in> set (delta L r l)"
    using assms(4) diff_eq_delta [OF assms(2,3), of L] by (auto simp: compile_inj)
  then have "has_path r (ks @ [k])" using delta_has_path assms(2,5) by blast
  from walk_reaches [OF assms(1) this assms(6), of "''/''"] show ?thesis
    by (simp add: compile_key_prefix [OF assms(6)])
qed

definition demo_json_parse :: "string \<Rightarrow> js option" where
  "demo_json_parse s =
     (if s = ''QaQ'' then Some (Str ''a'') else if s = ''QbQ'' then Some (Str ''b'')
      else if s = ''1'' then Some (Num 1) else if s = ''2'' then Some (Num 2)
      else if s = ''{QaQ:{QbQ:2}}'' then Some (Obj [(''a'', Obj [(''b'', Num 2)])])
      else None)"

definition demo_doc :: string where
  "demo_doc = ''{QaQ:{QbQ:2}}''"

definition demo_tree :: tree where
  "demo_tree = Tree ''Object'' 0 13
     [Tree ''Property'' 1 12 [Tree ''PropertyName'' 1 4 [],
        Tree ''Object'' 5 12 [Tree ''Property'' 6 11 [Tree ''PropertyName'' 6 9 [], Tree ''Number'' 10 11 []]]]]"

definition demo_old :: js where
  "demo_old = Obj [(''a'', Obj [(''b'', Num 1)])]"

definition demo_new :: js where
  "demo_new = Obj [(''a'', Obj [(''b'', Num 2)])]"

lemma demo_represents: "represents demo_json_parse demo_doc demo_new demo_tree"
  by code_simp

theorem changes_are_walked_witness:
  "\<exists>node. (compile [''a'', ''b''], node) \<in> set (walkNode demo_json_parse demo_doc (Tree ''JsonText'' 0 13 [demo_tree]) ''/'')
    \<and> node_value demo_json_parse demo_doc node = Str ''b''"
proof -
  have changed: "(compile ([''a''] @ [''b'']), Modified, Num 2, Num 1) \<in> set (diff lodash_ref demo_new demo_old)"
    by code_simp
  have wf: "wf_js demo_new" "wf_js demo_old" by (simp_all add: demo_new_def demo_old_def)
  from changes_are_walked [OF demo_represents wf changed, of 0 13 "[]"] show ?thesis by simp
qed

lemma adds_new_init: "adds_new \<lparr>ms_effects = [], ms_newLines = [], ms_last = n\<rparr>"
  by (auto simp: adds_new_def)

lemma diffEffects_adds:
  "diffEffects L json_parse line_start doc topNode decorated src = Some es \<Longrightarrow>
   \<exists>st. adds_new st \<and> es = ms_effects st @ concat (map (\<lambda>(a, b).
      if a \<in> set (ms_newLines st) then [] else [RemoveDiffLine a b]) decorated)"
  by (simp add: diffEffects_def Let_def split: if_splits)
    (intro exI conjI, rule adds_new_fold [OF adds_new_init], erule sym)

text \<open>
  C16. After the effects of an update are applied the decorated positions are exactly those the
  update marked: what was marked before and is no longer changed is removed.
\<close>

theorem diffEffects_settle:
  assumes "points decorated" and "diffEffects L json_parse line_start doc topNode decorated src = Some es"
  shows "points (diffedLines es decorated)
    \<and> fst ` set (diffedLines es decorated) = {p. \<exists>c. AddDiffLine c p p \<in> set es}"
proof -
  obtain st where adds: "adds_new st"
    and es: "es = ms_effects st @ concat (map (\<lambda>(a, b).
        if a \<in> set (ms_newLines st) then [] else [RemoveDiffLine a b]) decorated)"
    using diffEffects_adds [OF assms(2)] by blast
  from adds obtain ps where ps: "ms_effects st = map (\<lambda>(c, p). AddDiffLine c p p) ps"
    "ms_newLines st = map snd ps" by (auto simp: adds_new_def)
  define gone where "gone = filter (\<lambda>p. p \<notin> snd ` set ps) (map fst decorated)"
  have es': "es = map (\<lambda>(c, p). AddDiffLine c p p) ps @ map (\<lambda>p. RemoveDiffLine p p) gone"
    using es ps removes_as_map [OF assms(1), of "snd ` set ps"] by (simp add: gone_def)
  note added = add_points [OF assms(1), of ps]
  note removed = remove_points [OF conjunct1 [OF added], of gone]
  have "fst ` set (diffedLines es decorated) = snd ` set ps"
    using added removed by (auto simp: es' diffedLines_append gone_def image_iff)
  moreover have "AddDiffLine c p p \<in> set es \<longleftrightarrow> (c, p) \<in> set ps" for c p by (auto simp: es')
  then have "{p. \<exists>c. AddDiffLine c p p \<in> set es} = snd ` set ps" by force
  ultimately show ?thesis using removed by (simp add: es' diffedLines_append)
qed

theorem diffEffects_settle_witness:
  "fst ` set (diffedLines [AddDiffLine Modified 0 0, RemoveDiffLine 7 7] [(7, 7)])
     = {p. \<exists>c. AddDiffLine c p p \<in> set [AddDiffLine Modified 0 0, RemoveDiffLine 7 7]}"
proof -
  have "diffEffects lodash_ref demo_json_parse (\<lambda>pos. 0) demo_doc (Tree ''JsonText'' 0 13 [demo_tree]) [(7, 7)] demo_old
      = Some [AddDiffLine Modified 0 0, RemoveDiffLine 7 7]" by code_simp
  from diffEffects_settle [OF _ this] show ?thesis by (simp add: points_def)
qed


lemma name_completions_labels:
  "name_completions L resolve n selected pname obj t names = Inr cs \<Longrightarrow>
   map cp_label cs = filter (\<lambda>name. \<not> lo_has L (object_or_empty_js obj) [to_str pname, name]) names"
  by (induction names arbitrary: cs)
    (auto simp: bindS_Inr completion_of_def split: if_splits option.splits)

text \<open>
  Inside an object the completions are the names its type has and the object does not, each
  once for each time the type lists it.
\<close>

theorem completions_are_missing_names:
  assumes "is_object_type t" and "selected \<in> {''Object'', ''PropertyName''}"
    and "propNames L resolve n t = Inr names"
    and "resolveCompletions L resolve json_stringify n t selected (path @ [Arr [pname, obj]]) = Inr cs"
  shows "map cp_label cs = filter (\<lambda>name. \<not> lo_has L (object_or_empty_js obj) [to_str pname, name]) names"
proof -
  have "object_completions L resolve n selected (path @ [Arr [pname, obj]]) [t] = Inr cs"
    using assms(1,2,4) by (cases t) (auto simp: resolveCompletions_def)
  then have "name_completions L resolve n selected pname obj t names = Inr cs"
    using assms(3) by (auto simp: object_completions_def destructure2_def bindS_Inr)
  then show ?thesis by (rule name_completions_labels)
qed

definition demo_object_type :: sty where
  "demo_object_type = T_object (Obj [])
     [(''a'', T_string (Obj [])), (''b'', T_array (Obj [(''description'', Str ''the b'')]) None)] (Arr []) None"

theorem completions_are_missing_names_witness:
  "map cp_label [\<lparr>cp_label = ''b'', cp_info = Str ''the b'', cp_insert = InsertSnippet (quoted ''b'' @ '': [${}]'')\<rparr>]
     = filter (\<lambda>name. \<not> lo_has lodash_ref (object_or_empty_js (Obj [(''x'', Obj [(''a'', Str ''v'')])])) [to_str (Str ''x''), name])
         [''a'', ''b'']"
proof -
  have "resolveCompletions lodash_ref demo_resolve (\<lambda>v. []) 2 demo_object_type ''Object''
      ([] @ [Arr [Str ''x'', Obj [(''x'', Obj [(''a'', Str ''v'')])]]])
    = Inr [\<lparr>cp_label = ''b'', cp_info = Str ''the b'', cp_insert = InsertSnippet (quoted ''b'' @ '': [${}]'')\<rparr>]"
    by code_simp
  moreover have "propNames lodash_ref demo_resolve 2 demo_object_type = Inr [''a'', ''b'']" by code_simp
  moreover have "is_object_type demo_object_type" by (simp add: demo_object_type_def)
  ultimately show ?thesis
    using completions_are_missing_names [of demo_object_type "''Object''" lodash_ref demo_resolve 2 "[''a'', ''b'']"
        "\<lambda>v. []" "[]" "Str ''x''" "Obj [(''x'', Obj [(''a'', Str ''v'')])]"] by blast
qed

section \<open>What the editor misses\<close>

text \<open>An ancestor with a slash in its name: the walk's pointer is not escaped there.\<close>

definition slash_doc :: string where
  "slash_doc = ''{aSb:{c:2}}''"

definition slash_tree :: tree where
  "slash_tree = Tree ''Object'' 0 11
     [Tree ''Property'' 1 10 [Tree ''PropertyName'' 1 4 [],
        Tree ''Object'' 5 10 [Tree ''Property'' 6 9 [Tree ''PropertyName'' 6 7 [], Tree ''Number'' 8 9 []]]]]"

definition slash_parse :: "string \<Rightarrow> js option" where
  "slash_parse s = (if s = ''aSb'' then Some (Str ''a/b'') else None)"

lemma slash_ancestor_unmarked:
  "map fst (diff lodash_ref (Obj [(''a/b'', Obj [(''c'', Num 2)])]) (Obj [(''a/b'', Obj [(''c'', Num 1)])])) = [''/a~1b/c'']"
  "map fst (walkNode slash_parse slash_doc slash_tree ''/'') = [''/'', ''/a~1b'', ''/a/b/'', ''/a/b/c'']"
  by code_simp+

text \<open>A change of the whole document has the empty pointer, which no event has.\<close>

lemma root_change_unmarked: "([], node) \<notin> set (walkNode json_parse doc t (c # path))"
proof (induction json_parse doc t "c # path" arbitrary: path rule: walkNode.induct)
  case (1 json_parse doc name a b cs)
  then show ?case by (auto simp: Let_def split: list.splits if_splits)
qed

text \<open>The name of a nested property: no property of the path is kept, so the root's names are proposed.\<close>

lemma nested_name_uses_root:
  "selectionAt demo_json_parse (\<lambda>s. Null) (\<lambda>t. False)
     (\<lambda>pos. [Tree ''JsonText'' 0 13 [demo_tree], demo_tree, hd (tr_children demo_tree),
        last (tr_children (hd (tr_children demo_tree))),
        hd (tr_children (last (tr_children (hd (tr_children demo_tree))))),
        Tree ''PropertyName'' 6 9 []]) demo_doc 8
   = Inr (Tree ''PropertyName'' 6 9 [], [])"
  by code_simp

text \<open>An object that is an item of an array: its index is destructured as a pair.\<close>

lemma item_completions_raise:
  "is_object_type t \<Longrightarrow>
   resolveCompletions L resolve json_stringify n t ''Object'' (path @ [Num i]) = Inl SchemaTypeError"
  by (cases t) (simp_all add: resolveCompletions_def object_completions_def destructure2_def)

text \<open>A change over two lines, of which the second begins at 5, marks each position between.\<close>

lemma positions_between_lines_marked:
  "ms_effects (mark_event (\<lambda>pos. if pos < 5 then 0 else 5) (Tree ''Array'' 0 7 [])
       [(''/'', Modified, Null, Null)] (''/'', Tree ''Array'' 0 7 []) \<lparr>ms_effects = [], ms_newLines = [], ms_last = -1\<rparr>)
   = map (\<lambda>p. AddDiffLine Modified p p) [0, 1, 2, 3, 4, 5]"
  by code_simp

end
