(* ===== verification/Json_Lint.thy ===== *)
theory Json_Lint
  imports Json_Editor
begin

text \<open>
  The linter of the JSON editor: \<^verbatim>\<open>LSP.validate\<close> and \<^verbatim>\<open>LSP.typeAt\<close> (\<^verbatim>\<open>nodepkg/jsonschema/src/LSP.ts\<close>)
  and \<^verbatim>\<open>jsonLinter\<close> (\<^verbatim>\<open>nodepkg/codemirror/src/json/useJSONEditor.ts\<close>), which shows the failures of a
  document at its syntax tree. The types a schema is decoded to are those of a package; what the
  code asks them is the record \<open>any_type\<close>. \<^verbatim>\<open>JSON.parse\<close> and \<^verbatim>\<open>JSON.stringify\<close> are arguments.
\<close>

section \<open>Failures\<close>

record failure =
  fl_path :: "js list"
  fl_value :: js
  fl_key :: js
  fl_type :: string
  fl_message :: string

record 'ty any_type =
  at_validate :: "'ty \<Rightarrow> js \<Rightarrow> failure list option"
  at_entries :: "'ty \<Rightarrow> js \<Rightarrow> (js \<times> 'ty) list"
  at_type :: "'ty \<Rightarrow> string"
  at_enum :: "'ty \<Rightarrow> js"

definition missing_msg :: string where
  "missing_msg =
     [CHR 0xE7, CHR 0xBC, CHR 0xBA, CHR 0xE5, CHR 0xA4, CHR 0xB1, CHR 0xE5, CHR 0xBF, CHR 0x85,
     CHR 0xE5, CHR 0xA1, CHR 0xAB, CHR 0xE5, CHR 0xAD, CHR 0x97, CHR 0xE6, CHR 0xAE, CHR 0xB5] @
     '' ''"

definition string_msg :: string where
  "string_msg =
     [CHR 0xE5, CHR 0xAD, CHR 0x97, CHR 0xE7, CHR 0xAC, CHR 0xA6, CHR 0xE7, CHR 0xB1, CHR 0xBB,
     CHR 0xE5, CHR 0x9E, CHR 0x8B, CHR 0xE4, CHR 0xB8, CHR 0x8D, CHR 0xE5, CHR 0x8C, CHR 0xB9,
     CHR 0xE9, CHR 0x85, CHR 0x8D]"

definition number_msg :: string where
  "number_msg =
     [CHR 0xE6, CHR 0x95, CHR 0xB0, CHR 0xE5, CHR 0xAD, CHR 0x97, CHR 0xE7, CHR 0xB1, CHR 0xBB,
     CHR 0xE5, CHR 0x9E, CHR 0x8B, CHR 0xE4, CHR 0xB8, CHR 0x8D, CHR 0xE5, CHR 0x8C, CHR 0xB9,
     CHR 0xE9, CHR 0x85, CHR 0x8D]"

definition integer_msg :: string where
  "integer_msg =
     [CHR 0xE6, CHR 0x95, CHR 0xB4, CHR 0xE6, CHR 0x95, CHR 0xB0, CHR 0xE7, CHR 0xB1, CHR 0xBB,
     CHR 0xE5, CHR 0x9E, CHR 0x8B, CHR 0xE4, CHR 0xB8, CHR 0x8D, CHR 0xE5, CHR 0x8C, CHR 0xB9,
     CHR 0xE9, CHR 0x85, CHR 0x8D]"

definition bool_msg :: string where
  "bool_msg =
     [CHR 0xE5, CHR 0xB8, CHR 0x83, CHR 0xE5, CHR 0xB0, CHR 0x94, CHR 0xE7, CHR 0xB1, CHR 0xBB,
     CHR 0xE5, CHR 0x9E, CHR 0x8B, CHR 0xE4, CHR 0xB8, CHR 0x8D, CHR 0xE5, CHR 0x8C, CHR 0xB9,
     CHR 0xE9, CHR 0x85, CHR 0x8D]"

definition enum_msg :: string where
  "enum_msg =
     [CHR 0xE5, CHR 0x80, CHR 0xBC, CHR 0xE5, CHR 0x8F, CHR 0xAA, CHR 0xE8, CHR 0x83, CHR 0xBD,
     CHR 0xE6, CHR 0x98, CHR 0xAF] @ '': ''"

fun visit_type :: "'ty any_type \<Rightarrow> 'ty \<Rightarrow> js list \<Rightarrow> 'ty option" where
  "visit_type A type [] = None"
| "visit_type A type (first # others) =
     (if first = Undef then None
      else case find (\<lambda>(f, t). loose_eq f first) (at_entries A type (if is_string first then Obj [] else Arr [])) of
             None \<Rightarrow> None
           | Some (f, t) \<Rightarrow>
               if at_type A t = ''never'' then Some t
               else if others \<noteq> [] then visit_type A t others else Some t)"

definition typeAt :: "'ty any_type \<Rightarrow> 'ty \<Rightarrow> js list \<Rightarrow> 'ty option" where
  "typeAt A type path = visit_type A type path"

text \<open>
  The location of a failure, that of a missing value being the object that lacks it. \<^verbatim>\<open>join\<close>
  leaves out what is null or undefined.
\<close>

definition joined :: "js \<Rightarrow> string" where
  "joined v = (if nullish v then [] else to_str v)"

definition location :: "failure \<Rightarrow> string" where
  "location f =
     ''/'' @ join ''/'' (map joined (if fl_value f = Undef then butlast (fl_path f) else fl_path f))"

definition enum_message :: "(js \<Rightarrow> string) \<Rightarrow> 'ty any_type \<Rightarrow> 'ty \<Rightarrow> js list \<Rightarrow> string sres" where
  "enum_message json_stringify A type path =
     (case typeAt A type path of
        None \<Rightarrow> Inl SchemaTypeError
      | Some t \<Rightarrow> bindS (array_elems (at_enum A t)) (\<lambda>vs. Inr (enum_msg @ join '', '' (map json_stringify vs))))"

definition failure_message :: "(js \<Rightarrow> string) \<Rightarrow> 'ty any_type \<Rightarrow> 'ty \<Rightarrow> failure \<Rightarrow> string sres" where
  "failure_message json_stringify A type f =
     (if fl_value f = Undef then Inr (missing_msg @ json_stringify (fl_key f))
      else if fl_type f = ''string'' then Inr string_msg
      else if fl_type f = ''number'' then Inr number_msg
      else if fl_type f = ''integer'' then Inr integer_msg
      else if fl_type f = ''bool'' then Inr bool_msg
      else if fl_type f = ''enums'' then enum_message json_stringify A type (fl_path f)
      else Inr (fl_message f))"

fun error_map ::
    "(js \<Rightarrow> string) \<Rightarrow> 'ty any_type \<Rightarrow> 'ty \<Rightarrow> failure list \<Rightarrow> (string \<times> string) list \<Rightarrow> (string \<times> string) list sres" where
  "error_map json_stringify A type [] errMaps = Inr errMaps"
| "error_map json_stringify A type (f # fs) errMaps =
     (if fl_type f = ''never'' then error_map json_stringify A type fs errMaps
      else bindS (failure_message json_stringify A type f) (\<lambda>m.
        error_map json_stringify A type fs (AList.update (location f) m errMaps)))"

definition validate :: "(js \<Rightarrow> string) \<Rightarrow> 'ty any_type \<Rightarrow> 'ty \<Rightarrow> js \<Rightarrow> (string \<times> string) list sres" where
  "validate json_stringify A type data =
     (case at_validate A type data of
        None \<Rightarrow> Inr []
      | Some fs \<Rightarrow> error_map json_stringify A type fs [])"

section \<open>The linter\<close>

text \<open>
  \<^verbatim>\<open>jsonLinter\<close>: a syntax error is one diagnostic at its position. \<open>json_parse\<close> of the whole document
  gives the value or the message of the error. An error that is not of the syntax is thrown on.
\<close>

datatype lint_error = LintTypeError | LintRangeError

type_synonym lint = "int \<times> int \<times> string"

definition lint_of :: "diagnostic \<Rightarrow> lint" where
  "lint_of d = (int (dg_from d), int (dg_to d), dg_message d)"

definition jsonLinter ::
    "(string \<Rightarrow> string + js) \<Rightarrow> (js \<Rightarrow> string) \<Rightarrow> 'ty any_type \<Rightarrow> 'ty \<Rightarrow> string \<Rightarrow> tree \<Rightarrow> lint_error + lint list" where
  "jsonLinter json_parse json_stringify A type doc topNode =
     (case json_parse doc of
        Inr object \<Rightarrow>
          (case validate json_stringify A type object of
             Inl e \<Rightarrow> Inl LintTypeError
           | Inr errs \<Rightarrow> Inr (map lint_of
               (validateErrorsToDiagnostics (\<lambda>s. case json_parse s of Inl e \<Rightarrow> None | Inr v \<Rightarrow> Some v) errs doc topNode)))
      | Inl message \<Rightarrow>
          (case getErrorPosition message doc of
             None \<Rightarrow> Inl LintRangeError
           | Some pos \<Rightarrow> Inr [(pos, pos, message)]))"

section \<open>What is reported\<close>

definition reported_at :: "string \<Rightarrow> failure list \<Rightarrow> failure list" where
  "reported_at loc fs = filter (\<lambda>f. fl_type f \<noteq> ''never'' \<and> location f = loc) fs"

text \<open>At each location the map has the message of the last failure reported there.\<close>

lemma error_map_at:
  "error_map json_stringify A type fs errs = Inr errs' \<Longrightarrow>
   (if reported_at loc fs = [] then map_of errs' loc = map_of errs loc
    else \<exists>m. failure_message json_stringify A type (last (reported_at loc fs)) = Inr m \<and> map_of errs' loc = Some m)"
proof (induction fs arbitrary: errs)
  case (Cons f fs)
  show ?case
  proof (cases "fl_type f = ''never''")
    case True
    then have "reported_at loc (f # fs) = reported_at loc fs" by (simp add: reported_at_def)
    with Cons True show ?thesis by simp
  next
    case False
    with Cons.prems obtain m where m: "failure_message json_stringify A type f = Inr m"
      "error_map json_stringify A type fs (AList.update (location f) m errs) = Inr errs'"
      by (auto simp: bindS_Inr)
    from Cons.IH [OF m(2)] m(1) False show ?thesis
      by (auto simp: reported_at_def assoc_simps split: if_splits)
  qed
qed (simp add: reported_at_def)

lemma validate_at:
  "validate json_stringify A type v = Inr errs \<Longrightarrow> at_validate A type v = Some fs \<Longrightarrow> reported_at loc fs \<noteq> [] \<Longrightarrow>
   \<exists>m. failure_message json_stringify A type (last (reported_at loc fs)) = Inr m \<and> map_of errs loc = Some m"
  using error_map_at [of json_stringify A type fs "[]" errs loc] by (simp add: validate_def)

lemma validate_only:
  "validate json_stringify A type v = Inr errs \<Longrightarrow> map_of errs loc = Some m \<Longrightarrow>
   \<exists>fs. at_validate A type v = Some fs \<and> reported_at loc fs \<noteq> []"
  using error_map_at [of json_stringify A type _ "[]" errs loc]
  by (fastforce simp: validate_def split: option.splits if_splits)

lemma reported_in: "f \<in> set fs \<Longrightarrow> fl_type f \<noteq> ''never'' \<Longrightarrow> reported_at (location f) fs \<noteq> []"
  by (auto simp: reported_at_def filter_empty_conv)

lemma last_reported: "reported_at loc fs \<noteq> [] \<Longrightarrow> last (reported_at loc fs) \<in> set fs"
  using last_in_set [of "reported_at loc fs"] by (auto simp: reported_at_def)

section \<open>Where it is shown\<close>

fun has_loc :: "js \<Rightarrow> js list \<Rightarrow> bool" where
  "has_loc v [] = True"
| "has_loc (Obj kvs) (Str k # ks) = (obj_has kvs k \<and> has_loc (obj_get kvs k) ks)"
| "has_loc (Arr xs) (Num i # ks) = (0 \<le> i \<and> nat i < length xs \<and> has_loc (xs ! nat i) ks)"
| "has_loc v (k # ks) = False"

fun plain_key :: "js \<Rightarrow> bool" where
  "plain_key (Str k) = (escape k = k)"
| "plain_key v = True"

definition failing_path :: "failure \<Rightarrow> js list" where
  "failing_path f = (if fl_value f = Undef then butlast (fl_path f) else fl_path f)"

lemma location_failing: "location f = ''/'' @ join ''/'' (map joined (failing_path f))"
  by (simp add: location_def failing_path_def)

lemma joined_Str [simp]: "joined (Str k) = k"
  by (simp add: joined_def nullish_def)

lemma joined_index: "0 \<le> i \<Longrightarrow> joined (Num i) = nat_str (nat i)"
  by (simp add: joined_def nullish_def int_str_def)

lemma join_Cons: "ws \<noteq> [] \<Longrightarrow> join sep (w # ws) = w @ sep @ join sep ws"
  by (cases ws) auto

lemma nth_indexed: "i < length xs \<Longrightarrow> (j + i, xs ! i) \<in> set (indexed j xs)"
proof (induction xs arbitrary: i j)
  case (Cons x xs)
  then show ?case
    using Cons.IH [of "i - 1" "Suc j"] by (cases i) auto
qed simp

lemma represents_item:
  assumes "represents jp doc (Arr xs) (Tree name a b cs)" and "i < length xs"
  obtains n where "(i, n) \<in> set (indexed 0 (filter is_item cs))" "represents jp doc (xs ! i) n"
proof -
  let ?ns = "filter is_item cs"
  have rel: "list_all2 (represents jp doc) xs ?ns" using assms(1) by simp
  then have "represents jp doc (xs ! i) (?ns ! i)" "i < length ?ns"
    using assms(2) by (auto simp: list_all2_conv_all_nth)
  with nth_indexed [of i ?ns 0] show ?thesis by (intro that) auto
qed

lemma walk_item:
  "(i, n) \<in> set (indexed 0 (filter is_item cs)) \<Longrightarrow>
   (path @ nat_str i, Tree ''Array'' a b cs) \<in> set (walkNode jp doc (Tree ''Array'' a b cs) path)"
  by auto

lemma walk_below_item:
  "(i, n) \<in> set (indexed 0 (filter is_item cs)) \<Longrightarrow>
   e \<in> set (walkNode jp doc n (path @ nat_str i @ ''/'')) \<Longrightarrow>
   e \<in> set (walkNode jp doc (Tree ''Array'' a b cs) path)"
  by auto

text \<open>Every location of the value is walked, the ancestors' names being unescaped on both sides.\<close>

lemma location_walked:
  assumes "represents jp doc v t" and "has_loc v ls" and "ls \<noteq> []" and "plain_key (last ls)"
  shows "\<exists>node. (path @ join ''/'' (map joined ls), node) \<in> set (walkNode jp doc t path)"
  using assms
proof (induction v ls arbitrary: t path rule: has_loc.induct)
  case (2 kvs k ks)
  obtain a b cs where t: "t = Tree ''Object'' a b cs" using "2.prems"(1) by (cases t) auto
  obtain p where p: "p \<in> set cs" "is_property p" "tr_children p \<noteq> []"
    "node_value jp doc (hd (tr_children p)) = Str k"
    "represents jp doc (obj_get kvs k) (last (tr_children p))"
    using represents_member "2.prems" t by (metis has_loc.simps(2))
  show ?case
  proof (cases "ks = []")
    case True
    with walk_name [OF p(1-4), of path a b] "2.prems"(4) t show ?thesis by auto
  next
    case False
    with "2.IH" [OF p(5)] "2.prems" obtain node where "((path @ k @ ''/'') @ join ''/'' (map joined ks), node)
        \<in> set (walkNode jp doc (last (tr_children p)) (path @ k @ ''/''))" by fastforce
    from walk_value [OF p(1-4) this] t False show ?thesis by (auto simp: join_Cons)
  qed
next
  case (3 xs i ks)
  obtain a b cs where t: "t = Tree ''Array'' a b cs" using "3.prems"(1) by (cases t) auto
  have i: "0 \<le> i" "nat i < length xs" "has_loc (xs ! nat i) ks" using "3.prems"(2) by simp_all
  obtain n where n: "(nat i, n) \<in> set (indexed 0 (filter is_item cs))" "represents jp doc (xs ! nat i) n"
    using represents_item "3.prems"(1) t i(2) by metis
  show ?case
  proof (cases "ks = []")
    case True
    then have "join ''/'' (map joined (Num i # ks)) = nat_str (nat i)" by (simp add: joined_index [OF i(1)])
    with walk_item [OF n(1), of path] t show ?thesis by metis
  next
    case False
    with "3.IH" [OF n(2) i(3)] "3.prems"(4) obtain node
      where "((path @ nat_str (nat i) @ ''/'') @ join ''/'' (map joined ks), node)
        \<in> set (walkNode jp doc n (path @ nat_str (nat i) @ ''/''))" by fastforce
    moreover have "path @ join ''/'' (map joined (Num i # ks))
        = (path @ nat_str (nat i) @ ''/'') @ join ''/'' (map joined ks)"
      using False by (simp add: join_Cons joined_index [OF i(1)])
    ultimately show ?thesis using walk_below_item [OF n(1), of _ jp doc path a b] t by metis
  qed
qed simp_all

lemma root_walked:
  "represents jp doc v t \<Longrightarrow> is_object v \<Longrightarrow> (path, t) \<in> set (walkNode jp doc t path)"
  by (cases v; cases t) auto

definition showable :: "js \<Rightarrow> failure \<Rightarrow> bool" where
  "showable v f \<longleftrightarrow> has_loc v (failing_path f)
     \<and> (if failing_path f = [] then is_object v else plain_key (last (failing_path f)))"

lemma failure_walked:
  assumes "represents jp doc v t" and "showable v f"
  shows "\<exists>node. (location f, node) \<in> set (walkNode jp doc (Tree ''JsonText'' a b (t # ts)) ''/'')"
proof (cases "failing_path f = []")
  case True
  with root_walked [OF assms(1)] assms(2) show ?thesis
    by (auto simp: showable_def location_failing)
next
  case False
  with location_walked [OF assms(1), of "failing_path f" "''/''"] assms(2) show ?thesis
    by (auto simp: showable_def location_failing)
qed

definition value_parse :: "(string \<Rightarrow> string + js) \<Rightarrow> string \<Rightarrow> js option" where
  "value_parse json_parse s = (case json_parse s of Inl e \<Rightarrow> None | Inr v \<Rightarrow> Some v)"

lemma jsonLinter_value:
  "json_parse doc = Inr v \<Longrightarrow> jsonLinter json_parse json_stringify A type doc topNode = Inr ds \<longleftrightarrow>
   (\<exists>errs. validate json_stringify A type v = Inr errs
     \<and> ds = map lint_of (validateErrorsToDiagnostics (value_parse json_parse) errs doc topNode))"
  by (auto simp: jsonLinter_def value_parse_def [abs_def] split: sum.splits)

lemma diagnostics_iff:
  "d \<in> set (validateErrorsToDiagnostics jp errs doc topNode) \<longleftrightarrow>
   (\<exists>loc node m. (loc, node) \<in> set (walkNode jp doc topNode ''/'') \<and> map_of errs loc = Some m \<and> m \<noteq> []
      \<and> d = \<lparr>dg_from = tr_from node, dg_to = tr_to node, dg_message = m\<rparr>)"
proof (cases "errs = []")
  case False
  have one: "d \<in> set (case map_of errs loc of None \<Rightarrow> []
      | Some msg \<Rightarrow> if msg = [] then [] else [\<lparr>dg_from = tr_from node, dg_to = tr_to node, dg_message = msg\<rparr>])
    \<longleftrightarrow> (\<exists>m. map_of errs loc = Some m \<and> m \<noteq> [] \<and> d = \<lparr>dg_from = tr_from node, dg_to = tr_to node, dg_message = m\<rparr>)"
    for loc node by (cases "map_of errs loc") auto
  from False have "d \<in> set (validateErrorsToDiagnostics jp errs doc topNode) \<longleftrightarrow>
      (\<exists>e \<in> set (walkNode jp doc topNode ''/''). case e of (loc, node) \<Rightarrow> d \<in> set (case map_of errs loc of None \<Rightarrow> []
        | Some msg \<Rightarrow> if msg = [] then [] else [\<lparr>dg_from = tr_from node, dg_to = tr_to node, dg_message = msg\<rparr>]))"
    by (simp add: validateErrorsToDiagnostics_def split_def)
  then show ?thesis unfolding one by (simp add: Bex_def split_paired_Ex)
qed (simp add: validateErrorsToDiagnostics_def)

lemmas message_defs = missing_msg_def string_msg_def number_msg_def integer_msg_def bool_msg_def enum_msg_def

lemma messages_ne [simp]:
  "missing_msg \<noteq> []" "string_msg \<noteq> []" "number_msg \<noteq> []" "integer_msg \<noteq> []" "bool_msg \<noteq> []" "enum_msg \<noteq> []"
  by (simp_all add: message_defs)

lemma messages_not_empty:
  "failure_message json_stringify A type f = Inr m \<Longrightarrow> fl_message f \<noteq> [] \<Longrightarrow> m \<noteq> []"
  by (auto simp: failure_message_def enum_message_def bindS_Inr split: if_splits option.splits)

lemma failure_reported:
  assumes "represents jp doc v t" and "at_validate A type v = Some fs" and "\<forall>g \<in> set fs. fl_message g \<noteq> []"
    and "f \<in> set fs" and "fl_type f \<noteq> ''never''" and "showable v f"
    and "validate json_stringify A type v = Inr errs"
  shows "\<exists>node m. (location f, node) \<in> set (walkNode jp doc (Tree ''JsonText'' a b (t # ts)) ''/'')
    \<and> failure_message json_stringify A type (last (reported_at (location f) fs)) = Inr m
    \<and> \<lparr>dg_from = tr_from node, dg_to = tr_to node, dg_message = m\<rparr>
        \<in> set (validateErrorsToDiagnostics jp errs doc (Tree ''JsonText'' a b (t # ts)))"
proof -
  note rep = reported_in [OF assms(4,5)]
  obtain m where m: "failure_message json_stringify A type (last (reported_at (location f) fs)) = Inr m"
    "map_of errs (location f) = Some m"
    using validate_at [OF assms(7,2) rep] by blast
  have "m \<noteq> []" using messages_not_empty [OF m(1)] last_reported [OF rep] assms(3) by blast
  moreover obtain node where "(location f, node) \<in> set (walkNode jp doc (Tree ''JsonText'' a b (t # ts)) ''/'')"
    using failure_walked [OF assms(1,6)] by blast
  ultimately show ?thesis using m by (auto simp: diagnostics_iff)
qed


text \<open>The converse: what is shown are failures, and each at its location.\<close>

lemma lints_are_failures:
  assumes "json_parse doc = Inr v" and "jsonLinter json_parse json_stringify A type doc topNode = Inr ds"
    and "(p, q, m) \<in> set ds"
  shows "\<exists>fs f. at_validate A type v = Some fs \<and> f \<in> set fs \<and> failure_message json_stringify A type f = Inr m"
proof -
  obtain errs loc where errs: "validate json_stringify A type v = Inr errs" "map_of errs loc = Some m"
    using assms(2,3) by (auto simp: jsonLinter_value [of json_parse doc v, OF assms(1)] lint_of_def diagnostics_iff)
  obtain fs where fs: "at_validate A type v = Some fs" "reported_at loc fs \<noteq> []"
    using validate_only [OF errs] by blast
  with validate_at [OF errs(1) fs] last_reported errs(2) show ?thesis by auto
qed

section \<open>Instances\<close>

definition demo_types :: "nat any_type" where
  "demo_types =
     \<lparr>at_validate = (\<lambda>t v. if v = demo_new
         then Some [\<lparr>fl_path = [Str ''a'', Str ''c''], fl_value = Undef, fl_key = Str ''c'', fl_type = ''string'',
                     fl_message = ''Expected a string''\<rparr>,
                    \<lparr>fl_path = [Str ''a'', Str ''b''], fl_value = Num 2, fl_key = Str ''b'', fl_type = ''enums'',
                     fl_message = ''Expected one of x, y''\<rparr>]
         else None),
      at_entries = (\<lambda>t v. if t = 0 \<and> v = Obj [] then [(Str ''a'', 1)]
         else if t = 1 \<and> v = Obj [] then [(Str ''b'', 2), (Str ''c'', 3)] else []),
      at_type = (\<lambda>t. if t = 2 then ''enums'' else if t = 3 then ''string'' else ''object''),
      at_enum = (\<lambda>t. if t = 2 then Arr [Str ''x'', Str ''y''] else Undef)\<rparr>"

definition demo_parse_doc :: "string \<Rightarrow> string + js" where
  "demo_parse_doc s = (case demo_json_parse s of None \<Rightarrow> Inl ''Unexpected token'' | Some v \<Rightarrow> Inr v)"

lemma demo_value_parse: "value_parse demo_parse_doc = demo_json_parse"
  by (rule ext) (simp add: value_parse_def demo_parse_doc_def split: option.split)

lemma demo_lint:
  "jsonLinter demo_parse_doc to_str demo_types 0 demo_doc (Tree ''JsonText'' 0 13 [demo_tree])
     = Inr [(1, 4, missing_msg @ ''c''), (6, 9, enum_msg @ ''x, y'')]"
  by code_simp


text \<open>Of two members an object lacks only the last is reported: both are located at the object.\<close>

lemma second_missing_hides_first:
  assumes "fl_type f \<noteq> ''never''" "fl_type g \<noteq> ''never''" "fl_value f = Undef" "fl_value g = Undef"
    and "fl_path f = p @ [a]" "fl_path g = p @ [b]" and "at_validate A type v = Some [f, g]"
  shows "validate json_stringify A type v = Inr [(location g, missing_msg @ json_stringify (fl_key g))]"
  using assms by (simp add: validate_def failure_message_def location_def)

text \<open>
  \<^verbatim>\<open>visit\<close> asks for the entries of an empty array. A type whose entries follow the value has none
  there, so a wrong value of an enumeration within an array raises instead of being reported.
\<close>

lemma enumeration_in_array_raises:
  "at_entries A type (Arr []) = [] \<Longrightarrow> fl_path f = Num i # ks \<Longrightarrow> fl_value f \<noteq> Undef \<Longrightarrow> fl_type f = ''enums'' \<Longrightarrow>
   failure_message json_stringify A type f = Inl SchemaTypeError"
  by (simp add: failure_message_def enum_message_def typeAt_def)

text \<open>A document that is no object and no array has no place to show a failure at.\<close>

lemma scalar_document_unmarked:
  assumes "json_parse doc = Inr v" and "represents (value_parse json_parse) doc v t" and "\<not> is_object v"
    and "jsonLinter json_parse json_stringify A type doc (Tree ''JsonText'' a b (t # ts)) = Inr ds"
  shows "ds = []"
proof -
  have "walkNode (value_parse json_parse) doc t ''/'' = []"
    using assms(2,3) by (cases v; cases t) auto
  then show ?thesis using assms(4)
    by (auto simp: jsonLinter_value [of json_parse doc v, OF assms(1)] validateErrorsToDiagnostics_def)
qed

end
