(* ===== verification/Kubepkg_Overwrites.thy ===== *)
theory Kubepkg_Overwrites
  imports Json_Diff
begin

text \<open>
  \<^verbatim>\<open>webapp/dashboard/mod/kubepkg/KubePkgEditor.tsx\<close> (its exported functions) and
  \<^verbatim>\<open>webapp/dashboard/mod/groupenv/helpers/kubepkg.ts\<close>: the annotations of a KubePkg, and
  the overwrites a deployment keeps on top of a template. A KubePkg is a JSON value;
  \<^verbatim>\<open>JSON.parse\<close> is an argument, \<open>None\<close> being the \<^verbatim>\<open>SyntaxError\<close> it raises.
\<close>

section \<open>Annotations\<close>

definition annotationKubepkgName :: string where
  "annotationKubepkgName = ''kubepkg.innoai.tech/name''"

definition annotationKubepkgRevision :: string where
  "annotationKubepkgRevision = ''kubepkg.innoai.tech/revision''"

definition annotationKubepkgChannel :: string where
  "annotationKubepkgChannel = ''kubepkg.innoai.tech/channel''"

definition annotationKubepkgDeploymentSettingID :: string where
  "annotationKubepkgDeploymentSettingID = ''kubepkg.innoai.tech/deploymentSettingID''"

definition annotationKubepkgOverwrites :: string where
  "annotationKubepkgOverwrites = ''kubepkg.innoai.tech/overwrites''"

lemmas annotation_defs =
  annotationKubepkgName_def annotationKubepkgRevision_def annotationKubepkgChannel_def
  annotationKubepkgDeploymentSettingID_def annotationKubepkgOverwrites_def

definition getAnnotation :: "lodash \<Rightarrow> js \<Rightarrow> string \<Rightarrow> js" where
  "getAnnotation L kubepkg key = lo_get L kubepkg [''metadata'', ''annotations'', key] Undef"

definition openAPISpecPath :: "lodash \<Rightarrow> js \<Rightarrow> js" where
  "openAPISpecPath L kubepkg =
     lo_get L kubepkg [''spec'', ''deploy'', ''annotations'', ''octohelm.tech/openAPISpecPath''] (Str '''')"

definition deploymentID :: "lodash \<Rightarrow> js \<Rightarrow> js" where
  "deploymentID L kubepkg =
     lo_get L kubepkg [''metadata'', ''annotations'', ''kubepkg.innoai.tech/deploymentID''] (Str '''')"

definition channel :: "lodash \<Rightarrow> js \<Rightarrow> js" where
  "channel L kubepkg =
     lo_get L kubepkg [''metadata'', ''annotations'', ''kubepkg.innoai.tech/channel''] (Str ''DEV'')"

definition revision :: "lodash \<Rightarrow> js \<Rightarrow> js" where
  "revision L kubepkg =
     lo_get L kubepkg [''metadata'', ''annotations'', ''kubepkg.innoai.tech/revision''] (Str '''')"

definition kubepkgName :: "lodash \<Rightarrow> js \<Rightarrow> js" where
  "kubepkgName L kubepkg =
     lo_get L kubepkg [''metadata'', ''annotations'', ''kubepkg.innoai.tech/name''] (Str '''')"

definition deploymentSettingID :: "lodash \<Rightarrow> js \<Rightarrow> js" where
  "deploymentSettingID L kubepkg =
     lo_get L kubepkg [''metadata'', ''annotations'', ''kubepkg.innoai.tech/deploymentSettingID''] (Str '''')"

definition deploymentRevision :: "lodash \<Rightarrow> js \<Rightarrow> string" where
  "deploymentRevision L kpkg =
     join ''+'' [''d'' @ to_str (revision L kpkg), ''s'' @ to_str (deploymentSettingID L kpkg)]"

section \<open>Which version a deployment came from\<close>

record version_and_setting =
  vs_groupName :: string
  vs_kubepkgName :: string
  vs_kubepkgChannel :: js
  vs_revisionID :: js
  vs_deploymentSettingID :: js

datatype js_error = TypeError | SyntaxError

text \<open>
  The first two parts of \<^verbatim>\<open>name.split("/")\<close>, empty when missing; \<^verbatim>\<open>split\<close> is not a method of
  a value that is not a string, so such an annotation raises.
\<close>

definition resolveKubePkgVersionAndSetting ::
    "lodash \<Rightarrow> js \<Rightarrow> js_error + version_and_setting" where
  "resolveKubePkgVersionAndSetting L kubepkg =
     (if truthy kubepkg then
        (case coalesce (getAnnotation L kubepkg annotationKubepkgName) (Str '''') of
           Str name \<Rightarrow>
             (let parts = split_on (CHR ''/'') name in
              Inr \<lparr>vs_groupName = (case parts of [] \<Rightarrow> '''' | g # _ \<Rightarrow> g),
                   vs_kubepkgName = (case parts of g # k # _ \<Rightarrow> k | _ \<Rightarrow> ''''),
                   vs_kubepkgChannel =
                     coalesce (getAnnotation L kubepkg annotationKubepkgChannel) (Str ''DEV''),
                   vs_revisionID =
                     coalesce (getAnnotation L kubepkg annotationKubepkgRevision) (Str ''''),
                   vs_deploymentSettingID =
                     coalesce (getAnnotation L kubepkg annotationKubepkgDeploymentSettingID) (Str '''')\<rparr>)
         | _ \<Rightarrow> Inl TypeError)
      else
        Inr \<lparr>vs_groupName = '''', vs_kubepkgName = '''', vs_kubepkgChannel = Str ''DEV'',
             vs_revisionID = Str '''', vs_deploymentSettingID = Str ''''\<rparr>)"

section \<open>Overwrites\<close>

text \<open>
  \<^verbatim>\<open>parseOverwrites\<close>: a text that does not parse, parses to \<^verbatim>\<open>null\<close> (reading its \<^verbatim>\<open>spec\<close>
  raises inside the \<^verbatim>\<open>try\<close>) or has a null \<^verbatim>\<open>spec\<close> gives \<^verbatim>\<open>undefined\<close>.
\<close>

definition parseOverwrites :: "(string \<Rightarrow> js option) \<Rightarrow> string \<Rightarrow> js" where
  "parseOverwrites json_parse jsonRaw =
     (case json_parse jsonRaw of
        None \<Rightarrow> Undef
      | Some v \<Rightarrow>
          if nullish v then Undef
          else if member v ''spec'' = Null then Undef
          else v)"

definition mergeOverwritesIfExists :: "lodash \<Rightarrow> (string \<Rightarrow> js option) \<Rightarrow> js \<Rightarrow> js" where
  "mergeOverwritesIfExists L json_parse kubepkg =
     (let overwrites = getAnnotation L kubepkg annotationKubepkgOverwrites in
      if truthy overwrites then
        lo_merge L
          (lo_merge L
             (lo_merge L (Obj []) kubepkg)
             (Obj [(''metadata'', Obj [(''annotations'', Obj [(annotationKubepkgOverwrites, Null)])])]))
          (parseOverwrites json_parse (to_str overwrites))
      else kubepkg)"

text \<open>\<^verbatim>\<open>cloneWithoutNull\<close>: a property whose clone is null is dropped; an array keeps its nulls.\<close>

fun cloneWithoutNull :: "js \<Rightarrow> js" where
  "cloneWithoutNull (Obj kvs) =
     Obj (filter (\<lambda>p. snd p \<noteq> Null) (map (\<lambda>(k, v). (k, cloneWithoutNull v)) kvs))"
| "cloneWithoutNull (Arr xs) = Arr (map cloneWithoutNull xs)"
| "cloneWithoutNull v = v"

text \<open>
  \<^verbatim>\<open>diffAsOverwrites\<close>: every added or modified value is set at the path its pointer spells,
  split at the slashes, starting from a copy of the template's configuration.
\<close>

definition overwrite_base :: "js \<Rightarrow> js" where
  "overwrite_base spec =
     Obj [(''spec'', Obj [(''config'', Obj (spread [] (own_props (member spec ''config''))))])]"

definition apply_changes :: "lodash \<Rightarrow> diff_ret \<Rightarrow> js \<Rightarrow> js" where
  "apply_changes L changes base =
     fold (\<lambda>(k, t, v, _) acc.
       if t = Modified \<or> t = Added then lo_set L acc (split_on (CHR ''/'') (drop 1 k)) v else acc)
       changes base"

definition diffAsOverwrites :: "lodash \<Rightarrow> js \<Rightarrow> js \<Rightarrow> js" where
  "diffAsOverwrites L kubepkg overwrites =
     (let changes = diff L (Obj [(''spec'', member overwrites ''spec'')])
                           (Obj [(''spec'', member kubepkg ''spec'')])
      in cloneWithoutNull (apply_changes L changes (overwrite_base (member kubepkg ''spec''))))"

text \<open>What the editor shows: \<^verbatim>\<open>cloneWithoutNull(merge({}, kubepkg, overwrites))\<close>.\<close>

definition editorDocument :: "lodash \<Rightarrow> js \<Rightarrow> js \<Rightarrow> js" where
  "editorDocument L kubepkg overwrites =
     cloneWithoutNull (lo_merge L (lo_merge L (Obj []) kubepkg) overwrites)"

section \<open>Cloning without nulls\<close>

fun null_free :: "js \<Rightarrow> bool" where
  "null_free (Obj kvs) = (\<forall>p \<in> set kvs. snd p \<noteq> Null \<and> null_free (snd p))"
| "null_free (Arr xs) = (\<forall>x \<in> set xs. null_free x)"
| "null_free v = True"

lemma cloneWithoutNull_null_free: "null_free (cloneWithoutNull v)"
  by (induction v rule: cloneWithoutNull.induct) auto

lemma cloneWithoutNull_id: "null_free v \<Longrightarrow> cloneWithoutNull v = v"
proof (induction v rule: cloneWithoutNull.induct)
  case (1 kvs)
  have "map (\<lambda>(k, v). (k, cloneWithoutNull v)) kvs = kvs"
    using 1 by (intro map_idI) auto
  moreover have "filter (\<lambda>p. snd p \<noteq> Null) kvs = kvs"
    using 1 by (intro filter_True) auto
  ultimately show ?case by simp
next
  case (2 xs)
  then show ?case by (simp add: map_idI)
qed auto

lemma cloneWithoutNull_eq_Null [simp]: "cloneWithoutNull v = Null \<longleftrightarrow> v = Null"
  by (cases v) auto

lemma obj_get_filter_clone:
  "distinct (map fst kvs) \<Longrightarrow>
   obj_get (filter (\<lambda>p. snd p \<noteq> Null) (map (\<lambda>(k, v). (k, cloneWithoutNull v)) kvs)) k =
     (if obj_get kvs k = Null then Undef else cloneWithoutNull (obj_get kvs k))"
proof (induction kvs)
  case Nil
  show ?case by (simp add: obj_get_def)
next
  case (Cons a kvs)
  have absent: "map_of (filter (\<lambda>p. snd p \<noteq> Null) (map (\<lambda>(k, v). (k, cloneWithoutNull v)) kvs)) k = None"
    if "k \<notin> fst ` set kvs"
    using that by (force simp: map_of_eq_None_iff)
  show ?case
    using Cons absent by (cases a) (auto simp: obj_get_def)
qed

section \<open>Merging, as lodash documents it\<close>

lemma merge_props_spec:
  assumes "distinct (map fst ds)" and "distinct (map fst ss)"
  shows "distinct (map fst (merge_props ds ss)) \<and>
    (\<forall>k. obj_has (merge_props ds ss) k \<longleftrightarrow> obj_has ds k \<or> obj_has ss k) \<and>
    (\<forall>k. obj_get (merge_props ds ss) k = ref_merge (obj_get ds k) (obj_get ss k))"
  using assms
proof (induction ss arbitrary: ds)
  case Nil
  then show ?case by (simp add: obj_has_def obj_get_def)
next
  case (Cons a ss)
  obtain p s where a: "a = (p, s)" by (cases a)
  have fresh: "obj_get ss p = Undef" "distinct (map fst ss)"
    using Cons.prems(2) a obj_get_absent [of ss p] by (auto simp: obj_has_def)
  have get: "obj_get (a # ss) k = (if k = p then s else obj_get ss k)"
    and has: "obj_has (a # ss) k \<longleftrightarrow> k = p \<or> obj_has ss k" for k
    using a by (auto simp: obj_get_def obj_has_def)
  define ds1 where
    "ds1 = (if s = Undef \<and> obj_has ds p then ds else AList.update p (ref_merge (obj_get ds p) s) ds)"
  have "merge_props ds (a # ss) = merge_props ds1 ss" by (simp add: a ds1_def)
  moreover have "distinct (map fst ds1)"
    using Cons.prems(1) by (simp add: ds1_def distinct_update)
  moreover have "obj_has ds1 k \<longleftrightarrow> obj_has ds k \<or> k = p" for k
    by (auto simp: ds1_def obj_has_update)
  moreover have "obj_get ds1 k = (if k = p then ref_merge (obj_get ds p) s else obj_get ds k)" for k
    by (auto simp: ds1_def obj_get_update)
  ultimately show ?case
    using Cons.IH [of ds1] fresh by (auto simp: get has)
qed

lemma merge_props_append:
  assumes "\<forall>p \<in> set ss. ref_merge Undef (snd p) = snd p" and "distinct (map fst (ds @ ss))"
  shows "merge_props ds ss = ds @ ss"
  using assms
proof (induction ss arbitrary: ds)
  case Nil
  show ?case by simp
next
  case (Cons a ss)
  obtain p s where a: "a = (p, s)" by (cases a)
  have absent: "p \<notin> fst ` set ds" using Cons.prems(2) a by auto
  then have "\<not> obj_has ds p" and "obj_get ds p = Undef"
    using obj_get_absent [of ds p] by (auto simp: obj_has_def)
  with absent have "merge_props ds (a # ss) = merge_props (ds @ [a]) ss"
    using a Cons.prems(1) by (simp add: update_absent)
  also have "\<dots> = (ds @ [a]) @ ss"
    using Cons.prems by (intro Cons.IH) auto
  finally show ?case by simp
qed

lemma merge_elems_Nil: "merge_elems [] ys = map (ref_merge Undef) ys"
  by (induction ys) auto

lemma merge_into_nothing: "wf_js v \<Longrightarrow> ref_merge Undef v = v"
proof (induction v rule: wf_js.induct)
  case (1 kvs)
  then show ?case using merge_props_append [of kvs "[]"] by auto
next
  case (2 xs)
  then show ?case by (simp add: merge_elems_Nil map_idI)
qed auto

lemma merge_into_empty: "wf_js (Obj kvs) \<Longrightarrow> ref_merge (Obj []) (Obj kvs) = Obj kvs"
  using merge_into_nothing [of "Obj kvs"] by simp

lemma mergeable_nothing [simp]: "mergeable Undef s"
  by (induction s) auto

lemma mergeable_empty [simp]: "mergeable (Obj []) (Obj ss)"
  by (simp add: obj_get_def)

text \<open>
  What a merge can produce from a template \<open>l\<close>: no key of \<open>l\<close> is missing, no array is shorter,
  and no array becomes an object.
\<close>

fun covers :: "js \<Rightarrow> js \<Rightarrow> bool" where
  "covers (Obj ls) r =
     (case r of
        Obj rs \<Rightarrow> (\<forall>p \<in> set ls. obj_has rs (fst p) \<and> covers (snd p) (obj_get rs (fst p)))
      | _ \<Rightarrow> True)"
| "covers (Arr xs) r =
     (case r of
        Arr ys \<Rightarrow> length xs \<le> length ys \<and> (\<forall>p \<in> set (zip xs ys). covers (fst p) (snd p))
      | Obj _ \<Rightarrow> False
      | _ \<Rightarrow> True)"
| "covers v r = True"

lemma covers_obj_get:
  "covers (Obj ls) (Obj rs) \<Longrightarrow> covers (obj_get ls k) (obj_get rs k)"
  by (force simp: obj_get_def [of ls] split: option.split dest: map_of_SomeD)

lemma covers_obj_has: "covers (Obj ls) (Obj rs) \<Longrightarrow> obj_has ls k \<Longrightarrow> obj_has rs k"
  by (auto simp: obj_has_def [of ls])

lemma merge_elems_length: "length (merge_elems xs ys) = max (length xs) (length ys)"
proof (induction ys arbitrary: xs)
  case (Cons y ys)
  then show ?case by (cases xs) (auto simp: merge_elems_Nil)
qed simp

lemma merge_elems_nth:
  "i < length ys \<Longrightarrow>
   merge_elems xs ys ! i = ref_merge (if i < length xs then xs ! i else Undef) (ys ! i)"
proof (induction ys arbitrary: xs i)
  case (Cons y ys)
  then show ?case
    by (cases xs; cases i) (auto simp: merge_elems_Nil)
qed simp

lemma ref_is_equal_objs:
  assumes "distinct (map fst as)" and "distinct (map fst bs)"
    and "\<And>k. obj_has as k \<longleftrightarrow> obj_has bs k"
    and "\<And>k v. (k, v) \<in> set bs \<Longrightarrow> ref_is_equal (obj_get as k) v"
  shows "ref_is_equal (Obj as) (Obj bs)"
  using assms(1,2,3)
proof (rule ref_is_equal_objI)
  fix k assume "obj_has as k"
  then obtain v where "(k, v) \<in> set bs" using assms(3) by (auto simp: obj_has_def)
  moreover from this have "obj_get bs k = v" using assms(2) obj_get_in by simp
  ultimately show "ref_is_equal (obj_get as k) (obj_get bs k)" using assms(4) by simp
qed

lemma ref_is_equal_arrI:
  "length xs = length ys \<Longrightarrow> (\<And>i. i < length ys \<Longrightarrow> ref_is_equal (xs ! i) (ys ! i)) \<Longrightarrow>
   ref_is_equal (Arr xs) (Arr ys)"
  by (auto simp: in_set_zip)

definition json_or_absent :: "js \<Rightarrow> bool" where
  "json_or_absent v = (v = Undef \<or> json v)"

lemma json_or_absentI [simp]: "json v \<Longrightarrow> json_or_absent v" "json_or_absent Undef"
  by (simp_all add: json_or_absent_def)

lemma json_or_absent_get: "json_or_absent (Obj kvs) \<Longrightarrow> json_or_absent (obj_get kvs k)"
  using json_obj_get [of kvs k] obj_get_absent [of kvs k] by (auto simp: json_or_absent_def)

lemma covers_merge:
  assumes "json r" and "json_or_absent l" and "covers l r"
  shows "ref_is_equal (ref_merge l r) r \<and> mergeable l r"
  using assms
proof (induction r arbitrary: l)
  case (Arr ys)
  let ?xs = "case l of Arr xs \<Rightarrow> xs | _ \<Rightarrow> []"
  have elem: "ref_is_equal (ref_merge x (ys ! i)) (ys ! i) \<and> mergeable x (ys ! i)"
    if "i < length ys" and "x = (if i < length ?xs then ?xs ! i else Undef)" for i x
  proof (rule Arr.IH)
    show "ys ! i \<in> set ys" using that by simp
    show "json (ys ! i)" using that Arr.prems(1) by simp
    show "json_or_absent x"
      using that Arr.prems(2) by (cases l) (auto simp: json_or_absent_def)
    show "covers x (ys ! i)"
      using that Arr.prems(3) by (cases l) (auto simp: set_zip)
  qed
  have "length ?xs \<le> length ys" using Arr.prems(3) by (cases l) auto
  then have "ref_is_equal (ref_merge l (Arr ys)) (Arr ys)"
    unfolding ref_merge.simps
    using elem by (intro ref_is_equal_arrI) (simp_all add: merge_elems_length merge_elems_nth)
  moreover have "mergeable l (Arr ys)"
  proof (cases l)
    case l: (Arr xs)
    have "mergeable (xs ! i) (ys ! i)" if "i < length xs" "i < length ys" for i
      using elem [of i "xs ! i"] that l by simp
    with l show ?thesis by (auto simp: set_zip)
  qed auto
  ultimately show ?case by simp
next
  case (Obj rs)
  let ?ds = "case l of Obj ds \<Rightarrow> ds | _ \<Rightarrow> []"
  have dist: "distinct (map fst ?ds)" "distinct (map fst rs)"
    using Obj.prems by (cases l; simp add: json_or_absent_def)+
  note spec = merge_props_spec [OF dist]
  have elem: "ref_is_equal (ref_merge (obj_get ?ds k) v) v \<and> mergeable (obj_get ?ds k) v"
    if kv: "(k, v) \<in> set rs" for k v
  proof (rule Obj.IH [OF kv])
    show "v \<in> Basic_BNFs.snds (k, v)" by simp
    show "json v" using Obj.prems(1) kv by auto
    show "json_or_absent (obj_get ?ds k)"
      using Obj.prems(2) json_or_absent_get by (cases l) (auto simp: obj_get_def [of "[]"])
    have "obj_get rs k = v" using dist(2) kv by (rule obj_get_in)
    then show "covers (obj_get ?ds k) v"
      using Obj.prems(3) covers_obj_get by (cases l) (auto simp: obj_get_def [of "[]"])
  qed
  have sub: "obj_has ?ds k \<Longrightarrow> obj_has rs k" for k
    using Obj.prems(3) covers_obj_has by (cases l) (auto simp: obj_has_def [of "[]"])
  have "ref_is_equal (Obj (merge_props ?ds rs)) (Obj rs)"
    using spec dist(2)
  proof (intro ref_is_equal_objs)
    fix k v assume kv: "(k, v) \<in> set rs"
    then show "ref_is_equal (obj_get (merge_props ?ds rs) k) v"
      using spec elem [OF kv] obj_get_in [OF dist(2) kv] by simp
  qed (use sub in auto)
  moreover have "mergeable l (Obj rs)"
    using elem Obj.prems(3) by (cases l) (auto simp: obj_get_def [of "[]"])
  ultimately show ?case by simp
qed auto


section \<open>The changes, set in a tree\<close>

text \<open>What \<^verbatim>\<open>set\<close> does along a path of keys none of which is an array index.\<close>

fun put_path :: "js \<Rightarrow> string list \<Rightarrow> js \<Rightarrow> js" where
  "put_path v [] x = x"
| "put_path (Obj kvs) (k # ks) x = Obj (AList.update k (put_path (obj_get kvs k) ks x) kvs)"
| "put_path (Arr xs) (k # ks) x = Arr xs"
| "put_path v (k # ks) x = Obj [(k, put_path Undef ks x)]"

text \<open>A key that a pointer spells as itself and that \<^verbatim>\<open>set\<close> does not take for an index.\<close>

definition plain_key :: "string \<Rightarrow> bool" where
  "plain_key k \<longleftrightarrow> CHR ''/'' \<notin> set k \<and> CHR ''~'' \<notin> set k \<and> array_index k = None"

fun plain_keys :: "js \<Rightarrow> bool" where
  "plain_keys (Obj kvs) = (\<forall>p \<in> set kvs. plain_key (fst p) \<and> plain_keys (snd p))"
| "plain_keys v = True"

lemma put_path_not_object:
  "\<not> is_object v \<Longrightarrow> put_path v (k # ks) x = put_path (Obj []) (k # ks) x"
  by (cases v) (simp_all add: obj_get_def)

lemma ref_set_put_path:
  "is_object v \<Longrightarrow> ks \<noteq> [] \<Longrightarrow> list_all (\<lambda>k. array_index k = None) ks \<Longrightarrow>
   ref_set v ks x = put_path v ks x"
proof (induction v ks x rule: ref_set.induct)
  case (2 v k x)
  then show ?case by (cases v) auto
next
  case (3 v k k' ks x)
  let ?sub = "if is_object (member v k) then member v k else fresh_container (k' # ks)"
  have "ref_set ?sub (k' # ks) x = put_path ?sub (k' # ks) x"
    using 3 by (intro "3.IH") (auto simp: fresh_container_def)
  also have "\<dots> = put_path (member v k) (k' # ks) x"
    using "3.prems"(3) put_path_not_object [of "member v k"] by (simp add: fresh_container_def)
  finally show ?case
    using 3 by (cases v) (auto simp: Let_def)
qed simp

fun overlay1 :: "string list \<times> change_type \<times> js \<times> js \<Rightarrow> js \<Rightarrow> js" where
  "overlay1 (path, t, r, l) v = put_path v path r"

interpretation overlaying: tree_edits overlay1 "\<lambda>_. True"
  by unfold_locales auto

definition kept :: "delta \<Rightarrow> delta" where
  "kept ds = filter (\<lambda>d. fst (snd d) \<noteq> Deleted) ds"

lemma kept_simps [simp]:
  "kept [] = []" "kept (as @ bs) = kept as @ kept bs" "kept (deletions rs ls) = []"
  "kept (delta_leaf L r l) = delta_leaf L r l" "kept (under p ds) = under p (kept ds)"
  by (auto simp: kept_def deletions_def delta_leaf_def under_def filter_map comp_def
      filter_empty_conv case_prod_unfold)

lemma kept_members:
  "kept (concat (map (\<lambda>(p, rr). under p (D p rr)) rs))
     = concat (map (\<lambda>(p, rr). under p (kept (D p rr))) rs)"
  by (induction rs) auto

text \<open>The changes kept of a comparison have the keys and the values of the new document.\<close>

lemma kept_delta_values:
  "json_or_absent l \<Longrightarrow> json r \<Longrightarrow> plain_keys r \<Longrightarrow> null_free r \<Longrightarrow> r \<noteq> Null \<Longrightarrow>
   (p, t, v, w) \<in> set (kept (delta L r l)) \<Longrightarrow>
   list_all plain_key p \<and> null_free v \<and> v \<noteq> Null"
proof (induction L r l arbitrary: p rule: delta.induct)
  case (1 L rs l)
  show ?case
  proof (cases l)
    case (Obj ls)
    then have "(p, t, v, w) \<in> set (concat (map (\<lambda>(k, rr). under k (kept (delta L rr (obj_get ls k)))) rs))"
      using "1.prems"(6) by (simp add: kept_members)
    then obtain k rr q where k: "(k, rr) \<in> set rs" "p = k # q"
      "(q, t, v, w) \<in> set (kept (delta L rr (obj_get ls k)))"
      by (auto simp: under_def)
    have "list_all plain_key q \<and> null_free v \<and> v \<noteq> Null"
      using "1.prems" Obj k json_or_absent_get by (intro "1.IH" [OF Obj k(1) refl]) fastforce+
    with k "1.prems" show ?thesis by auto
  qed (use "1.prems" in \<open>auto simp: kept_def delta_leaf_def split: if_splits\<close>)
qed (auto simp: kept_def delta_leaf_def split: if_splits)

lemma put_path_null_free:
  "null_free v \<Longrightarrow> null_free x \<Longrightarrow> x \<noteq> Null \<Longrightarrow>
   null_free (put_path v p x) \<and> (p \<noteq> [] \<longrightarrow> put_path v p x \<noteq> Null)"
proof (induction v p x rule: put_path.induct)
  case (2 kvs k ks x)
  have "null_free (obj_get kvs k)"
    using "2.prems"(1) by (auto simp: obj_get_def split: option.split dest!: map_of_SomeD)
  with 2 have "null_free (put_path (obj_get kvs k) ks x) \<and> put_path (obj_get kvs k) ks x \<noteq> Null"
    by (cases ks) auto
  with "2.prems"(1) show ?case
    using set_update_subset [of k "put_path (obj_get kvs k) ks x" kvs] by auto
qed (use put_path.elims in \<open>force+\<close>)

lemma overlay_null_free:
  "null_free v \<Longrightarrow> \<forall>(p, t, x, w) \<in> set ds. null_free x \<and> x \<noteq> Null \<Longrightarrow> null_free (fold overlay1 ds v)"
proof (induction ds arbitrary: v)
  case (Cons d ds)
  then show ?case using put_path_null_free by (cases d) auto
qed simp


section \<open>Merging the changes into the template gives the document back\<close>

text \<open>\<open>below a l\<close>: every value of \<open>a\<close> is a value of \<open>l\<close> at the same place.\<close>

fun below :: "js \<Rightarrow> js \<Rightarrow> bool" where
  "below (Obj as) l =
     (case l of
        Obj ls \<Rightarrow> distinct (map fst as) \<and>
          (\<forall>p \<in> set as. obj_has ls (fst p) \<and> below (snd p) (obj_get ls (fst p)))
      | _ \<Rightarrow> False)"
| "below a l = (a = Undef \<or> a = l)"

lemma below_Undef [simp]: "below Undef l"
  by simp

lemma below_obj_get: "below (Obj as) (Obj ls) \<Longrightarrow> below (obj_get as k) (obj_get ls k)"
  by (force simp: obj_get_def [of as] split: option.split dest: map_of_SomeD)

lemma below_refl: "wf_js l \<Longrightarrow> below l l"
  by (induction l rule: wf_js.induct) (auto simp: obj_get_in)

lemma merge_elems_self: "\<forall>x \<in> set xs. ref_merge x x = x \<Longrightarrow> merge_elems xs xs = xs"
  by (induction xs) auto

lemma merge_props_self:
  assumes "\<forall>(k, s) \<in> set ss. obj_has ds k \<and> ref_merge (obj_get ds k) s = obj_get ds k"
  shows "merge_props ds ss = ds"
  using assms
proof (induction ss)
  case (Cons a ss)
  obtain k s where a: "a = (k, s)" by (cases a)
  then obtain v where "map_of ds k = Some v" using Cons.prems by (auto simp: obj_has_map_of)
  moreover from this have "ref_merge (obj_get ds k) s = v"
    using Cons.prems a by (auto simp: obj_get_def)
  ultimately show ?case using Cons a by (simp add: update_same)
qed simp

lemma merge_self: "wf_js v \<Longrightarrow> ref_merge v v = v"
proof (induction v rule: wf_js.induct)
  case (1 kvs)
  then have "merge_props kvs kvs = kvs"
    by (intro merge_props_self) (auto simp: obj_get_in)
  then show ?case by simp
next
  case (2 xs)
  then show ?case by (simp add: merge_elems_self)
qed auto

lemma mergeable_self: "wf_js v \<Longrightarrow> mergeable v v"
  by (induction v rule: wf_js.induct) (auto simp: obj_get_in set_zip)

lemma merge_below: "wf_js l \<Longrightarrow> below a l \<Longrightarrow> ref_merge l a = l \<and> mergeable l a"
proof (induction a arbitrary: l)
  case (Obj as)
  then obtain ls where l: "l = Obj ls" by (cases l) auto
  have elem: "obj_has ls k \<and> ref_merge (obj_get ls k) v = obj_get ls k \<and> mergeable (obj_get ls k) v"
    if kv: "(k, v) \<in> set as" for k v
    using Obj.IH [OF kv, of v "obj_get ls k"] Obj.prems l kv wf_obj_get [of ls k] by fastforce
  then have "merge_props ls as = ls" by (intro merge_props_self) auto
  with l elem show ?case by auto
next
  case (Arr xs)
  then show ?case using merge_self [of l] mergeable_self [of l] by auto
qed (auto simp: merge_self)

lemma put_path_Undef: "p \<noteq> [] \<Longrightarrow> put_path Undef p x = put_path (Obj []) p x"
  by (cases p) (simp_all add: obj_get_def)

lemma overlay_Undef:
  "ds \<noteq> [] \<Longrightarrow> \<forall>d \<in> set ds. fst d \<noteq> [] \<Longrightarrow> fold overlay1 ds Undef = fold overlay1 ds (Obj [])"
  by (cases ds; cases "hd ds") (auto simp: put_path_Undef)

lemma obj_get_Nil [simp]: "obj_get [] k = Undef"
  by (simp add: obj_get_def)

lemma obj_has_Nil [simp]: "\<not> obj_has [] k"
  by (simp add: obj_has_def)

lemma kept_new: "kept (delta K r Undef) = [([], Added, r, Undef)]"
  by (cases r) (simp_all add: delta_leaf_def kept_def)

context lodash_api begin

lemma overlay_leaf_merge:
  assumes "json r" and "json_or_absent l" and "covers l r" and "below a l"
  shows "ref_is_equal (ref_merge l (fold overlay1 (delta_leaf L r l) a)) r
    \<and> mergeable l (fold overlay1 (delta_leaf L r l) a)"
proof (cases "delta_leaf L r l = []")
  case True
  then have l: "json l" using assms(2) by (auto simp: delta_leaf_def json_or_absent_def split: if_splits)
  with True have "ref_is_equal l r" using assms(1) by (simp add: delta_leaf_empty)
  with True l assms(4) merge_below [of l a] show ?thesis by (simp add: json_wf)
next
  case False
  then have "fold overlay1 (delta_leaf L r l) a = r"
    by (auto simp: delta_leaf_def split: if_splits)
  with assms covers_merge show ?thesis by simp
qed

lemma overlay_merge:
  "K = L \<Longrightarrow> json r \<Longrightarrow> json_or_absent l \<Longrightarrow> covers l r \<Longrightarrow> below a l \<Longrightarrow>
   ref_is_equal (ref_merge l (fold overlay1 (kept (delta K r l)) a)) r
   \<and> mergeable l (fold overlay1 (kept (delta K r l)) a)"
proof (induction K r l arbitrary: a rule: delta.induct)
  case (1 K rs l)
  show ?case
  proof (cases l)
    case (Obj ls)
    let ?D = "\<lambda>p rr. kept (delta K rr (obj_get ls p))"
    let ?as = "case a of Obj as \<Rightarrow> as | _ \<Rightarrow> []"
    let ?ds = "concat (map (\<lambda>(p, rr). under p (?D p rr)) rs)"
    have kept: "kept (delta K (Obj rs) l) = ?ds"
      using Obj by (simp add: kept_members)
    have dr: "distinct (map fst rs)" and dl: "distinct (map fst ls)" and da: "distinct (map fst ?as)"
      using "1.prems" Obj by (cases a; simp add: json_or_absent_def)+
    have a: "a = Obj ?as \<or> a = Undef \<or> a = l"
      using "1.prems"(5) by (cases a) auto
    have ba: "below (obj_get ?as k) (obj_get ls k)" and sub: "obj_has ?as k \<Longrightarrow> obj_has ls k" for k
      using "1.prems"(5) Obj below_obj_get by (cases a; force simp: obj_has_def)+
    have elem: "ref_is_equal (ref_merge (obj_get ls k) (fold overlay1 (?D k rr) (obj_get ?as k))) rr
        \<and> mergeable (obj_get ls k) (fold overlay1 (?D k rr) (obj_get ?as k))"
      if kr: "(k, rr) \<in> set rs" for k rr
    proof (rule "1.IH" [OF Obj kr refl "1.prems"(1)])
      show "json rr" using "1.prems"(2) kr by auto
      show "json_or_absent (obj_get ls k)" using "1.prems"(3) Obj json_or_absent_get by blast
      show "covers (obj_get ls k) rr"
        using "1.prems"(4) Obj covers_obj_get [of ls rs k] obj_get_in [OF dr kr] by simp
      show "below (obj_get ?as k) (obj_get ls k)" by (rule ba)
    qed
    obtain ks where ks: "fold overlay1 ?ds (Obj ?as) = Obj ks" "distinct (map fst ks)"
      "\<forall>k. obj_get ks k = (case map_of rs k of None \<Rightarrow> obj_get ?as k
         | Some rr \<Rightarrow> fold overlay1 (?D k rr) (obj_get ?as k))"
      "\<forall>k. obj_has ks k \<longleftrightarrow> obj_has ?as k \<or> (\<exists>rr. map_of rs k = Some rr \<and> ?D k rr \<noteq> [])"
      using overlaying.run_members [of rs ?D ?as] dr da by auto
    note spec = merge_props_spec [OF dl ks(2)]
    have new: "?D k rr \<noteq> []" if "\<not> obj_has ls k" for k rr
      using that by (simp add: obj_get_absent kept_new)
    have lsub: "obj_has ls k \<Longrightarrow> obj_has rs k" for k
      using "1.prems"(4) Obj covers_obj_has by blast
    have val: "obj_get ks k = fold overlay1 (?D k rr) (obj_get ?as k)" if "(k, rr) \<in> set rs" for k rr
      using ks(3) that dr by simp
    have eq: "ref_is_equal (Obj (merge_props ls ks)) (Obj rs)"
    proof (rule ref_is_equal_objs)
      show "distinct (map fst (merge_props ls ks))" "distinct (map fst rs)" using spec dr by simp_all
      show "obj_has (merge_props ls ks) k \<longleftrightarrow> obj_has rs k" for k
        using spec ks(4) new [of k] lsub [of k] sub [of k] unfolding obj_has_map_of [of rs] by blast
      show "ref_is_equal (obj_get (merge_props ls ks) k) v" if "(k, v) \<in> set rs" for k v
        using spec elem [OF that] val [OF that] by simp
    qed
    have mg: "mergeable l (Obj ks)"
    proof -
      have "mergeable (obj_get ls k) v" if kv: "(k, v) \<in> set ks" for k v
      proof -
        have "obj_has rs k"
          using obj_has_in [OF kv] ks(4) sub [of k] lsub [of k] unfolding obj_has_map_of [of rs] by blast
        then obtain rr where "(k, rr) \<in> set rs" by (auto simp: obj_has_def)
        with elem val obj_get_in [OF ks(2) kv] show ?thesis by metis
      qed
      with Obj show ?thesis by auto
    qed
    show ?thesis
    proof (cases "a = Undef \<and> ?ds = []")
      case True
      then have "ks = []" using ks(1) by (cases a) (auto simp del: concat_eq_Nil_conv)
      with eq have eq': "ref_is_equal l (Obj rs)" using Obj by simp
      have "fold overlay1 (kept (delta K (Obj rs) l)) a = Undef"
        unfolding kept using True by (simp only: fold_simps)
      then show ?thesis using eq' by (simp only: ref_merge.simps mergeable.simps)
    next
      case False
      have "\<forall>d \<in> set ?ds. fst d \<noteq> []" by (auto simp: under_def)
      with False a Obj overlay_Undef [of ?ds] have "fold overlay1 ?ds a = Obj ks"
        using ks(1) by (cases a) auto
      with kept eq mg Obj show ?thesis by simp
    qed
  qed (use "1.prems" overlay_leaf_merge in simp_all)
qed (use overlay_leaf_merge in simp_all)

end


section \<open>The stored overwrites\<close>

text \<open>
  What the overwrites are kept for: the template and the document have a \<open>spec\<close> object, the
  template's \<open>spec\<close> has a \<open>config\<close> object, the document drops nothing a merge cannot drop and
  its keys are plain.
\<close>

definition restorable :: "js \<Rightarrow> js \<Rightarrow> bool" where
  "restorable kubepkg overwrites \<longleftrightarrow>
     is_plain_object kubepkg \<and> json kubepkg \<and> json (member overwrites ''spec'') \<and>
     is_plain_object (member (member kubepkg ''spec'') ''config'') \<and>
     is_plain_object (member overwrites ''spec'') \<and>
     null_free (member kubepkg ''spec'') \<and> null_free (member overwrites ''spec'') \<and>
     plain_keys (member overwrites ''spec'') \<and>
     covers (member kubepkg ''spec'') (member overwrites ''spec'')"

lemma is_plain_objectE:
  assumes "is_plain_object v"
  obtains kvs where "v = Obj kvs"
  using assms by (cases v) auto

lemma plain_list_escape: "list_all plain_key p \<Longrightarrow> map escape p = p"
  by (induction p) (auto simp: plain_key_def escape_plain)

lemma null_free_obj_get: "null_free (Obj kvs) \<Longrightarrow> null_free (obj_get kvs k)"
  by (force simp: obj_get_def split: option.split dest: map_of_SomeD)

lemma spread_own: "distinct (map fst kvs) \<Longrightarrow> spread [] kvs = kvs"
proof -
  have "foldl (\<lambda>acc (k, v). AList.update k v acc) ds kvs = ds @ kvs"
    if "distinct (map fst (ds @ kvs))" for ds kvs :: obj
    using that
  proof (induction kvs arbitrary: ds)
    case (Cons a kvs)
    obtain k v where "a = (k, v)" by (cases a)
    with Cons.prems Cons.IH [of "ds @ [a]"] show ?case by (auto simp: update_absent)
  qed simp
  from this [of "[]"] show "distinct (map fst kvs) \<Longrightarrow> spread [] kvs = kvs"
    by (simp add: spread_def)
qed

lemma ref_is_equal_null_free:
  "ref_is_equal a b \<Longrightarrow> null_free b \<Longrightarrow> null_free a \<and> (a = Null \<longrightarrow> b = Null)"
proof (induction a arbitrary: b)
  case (Arr xs)
  then obtain ys where b: "b = Arr ys" by (cases b) auto
  have "null_free (xs ! i)" if "i < length xs" for i
  proof -
    have "ref_is_equal (xs ! i) (ys ! i)" and "null_free (ys ! i)"
      using Arr.prems b that by (fastforce simp: set_zip)+
    with Arr.IH [of "xs ! i" "ys ! i"] that show ?thesis by simp
  qed
  then show ?case by (auto simp: in_set_conv_nth)
next
  case (Obj as)
  then obtain bs where b: "b = Obj bs" by (cases b) auto
  have "snd p \<noteq> Null \<and> null_free (snd p)" if p: "p \<in> set as" for p
  proof -
    obtain w where w: "map_of bs (fst p) = Some w" "ref_is_equal (snd p) w"
      using Obj.prems(1) b p by (auto split: option.splits)
    have "w \<noteq> Null \<and> null_free w"
      using Obj.prems(2) b map_of_SomeD [OF w(1)] by auto
    with Obj.IH [of p "snd p" w] p w(2) show ?thesis by (cases p) auto
  qed
  then show ?case by auto
qed auto

context lodash_api begin

lemma apply_changes_overlay:
  assumes "json_or_absent l" "json r" "plain_keys r" "null_free r" "r \<noteq> Null"
    and "\<forall>d \<in> set (kept (delta L r l)). fst d \<noteq> []"
  shows "apply_changes L (map (\<lambda>(p, c). (compile p, c)) (delta L r l)) (Obj kvs)
    = fold overlay1 (kept (delta L r l)) (Obj kvs)"
proof -
  have run: "apply_changes L (map (\<lambda>(p, c). (compile p, c)) ds) (Obj kvs)
      = fold overlay1 (kept ds) (Obj kvs)"
    if "\<forall>(p, c) \<in> set (kept ds). p \<noteq> [] \<and> list_all plain_key p" for ds kvs
    using that
  proof (induction ds arbitrary: kvs)
    case Nil
    show ?case by (simp add: apply_changes_def)
  next
    case (Cons d ds)
    obtain p t v w where d: "d = (p, t, v, w)" by (cases d)
    show ?case
    proof (cases "t = Deleted")
      case True
      with Cons d show ?thesis by (simp add: apply_changes_def kept_def)
    next
      case False
      then have p: "p \<noteq> []" "list_all plain_key p" using Cons.prems d by (auto simp: kept_def)
      have "lo_set L (Obj kvs) (split_on (CHR ''/'') (drop 1 (compile p))) v = put_path (Obj kvs) p v"
        using p split_compile [OF p(1)] plain_list_escape [OF p(2)]
        by (simp add: set_eq ref_set_put_path list_all_iff plain_key_def)
      moreover obtain kvs' where "put_path (Obj kvs) p v = Obj kvs'"
        using p(1) by (cases p) auto
      ultimately show ?thesis
        using Cons.IH [of kvs'] Cons.prems False d
        by (cases t) (auto simp: apply_changes_def kept_def)
    qed
  qed
  have "list_all plain_key p" if "(p, c) \<in> set (kept (delta L r l))" for p c
    using that assms kept_delta_values [of l r p "fst c" "fst (snd c)" "snd (snd c)" L] by simp
  with assms(6) show ?thesis by (intro run) fastforce
qed

text \<open>The stored overwrites are one \<open>spec\<close>, without nulls, that merged into the template's
  \<open>spec\<close> gives the document's.\<close>

lemma diffAsOverwrites_spec:
  assumes "restorable kubepkg overwrites"
  obtains s where "diffAsOverwrites L kubepkg overwrites = Obj [(''spec'', s)]"
    and "mergeable (member kubepkg ''spec'') s"
    and "ref_is_equal (ref_merge (member kubepkg ''spec'') s) (member overwrites ''spec'')"
proof -
  let ?k = "member kubepkg ''spec''" and ?o = "member overwrites ''spec''"
  let ?l = "Obj [(''spec'', ?k)]" and ?r = "Obj [(''spec'', ?o)]"
  let ?cfg = "member ?k ''config''"
  let ?ds = "kept (delta L ?o ?k)" and ?base = "Obj [(''config'', ?cfg)]"
  obtain kk where kk: "kubepkg = Obj kk"
    using assms by (auto simp: restorable_def elim: is_plain_objectE)
  obtain cfg where cfg: "?cfg = Obj cfg"
    using assms by (auto simp: restorable_def elim: is_plain_objectE)
  obtain ks where ks: "?k = Obj ks"
    using cfg by (cases ?k) (simp_all add: array_index_def is_digit_def)
  obtain os where os: "?o = Obj os"
    using assms by (auto simp: restorable_def elim: is_plain_objectE)
  have json: "json ?k" "json ?o" "json ?cfg"
    using assms kk ks cfg json_obj_get [of kk "''spec''"] json_obj_get [of ks "''config''"]
      obj_get_absent [of kk "''spec''"] obj_get_absent [of ks "''config''"]
    by (auto simp: restorable_def simp del: json.simps)
  have nf: "null_free ?cfg" "null_free ?o" "null_free ?k"
    using assms ks null_free_obj_get [of ks "''config''"] by (auto simp: restorable_def)
  have base: "below ?base ?k"
    using ks cfg json below_refl [of ?cfg] obj_get_absent [of ks "''config''"]
    by (auto simp: json_wf)
  define s where "s = fold overlay1 ?ds ?base"
  have merged: "ref_is_equal (ref_merge ?k s) ?o \<and> mergeable ?k s"
    unfolding s_def using assms json base by (intro overlay_merge) (simp_all add: restorable_def)
  have delta: "delta L ?r ?l = under ''spec'' (delta L ?o ?k)"
    by (simp add: deletions_def obj_has_def obj_get_def)
  have "diff L ?r ?l = map (\<lambda>(p, c). (compile p, c)) (delta L ?r ?l)"
    using json by (intro diff_eq_delta) (auto simp: json_wf)
  moreover have "apply_changes L (map (\<lambda>(p, c). (compile p, c)) (delta L ?r ?l)) (Obj [(''spec'', ?base)])
      = fold overlay1 (kept (delta L ?r ?l)) (Obj [(''spec'', ?base)])"
  proof (rule apply_changes_overlay)
    show "plain_keys ?r" using assms by (simp add: restorable_def plain_key_def array_index_def is_digit_def)
    show "\<forall>d \<in> set (kept (delta L ?r ?l)). fst d \<noteq> []" unfolding delta kept_simps by (auto simp: under_def)
  qed (use json nf os in simp_all)
  moreover have "fold overlay1 (kept (delta L ?r ?l)) (Obj [(''spec'', ?base)]) = Obj [(''spec'', s)]"
    unfolding delta using overlaying.run_under [of ?ds "''spec''" "[(''spec'', ?base)]"]
    by (cases "?ds = []") (simp_all add: s_def obj_get_def)
  moreover have "overwrite_base ?k = Obj [(''spec'', ?base)]"
    using cfg json by (simp add: overwrite_base_def spread_own)
  moreover have "null_free s"
    unfolding s_def
  proof (rule overlay_null_free)
    show "null_free ?base" using nf cfg by simp
    have "null_free x \<and> x \<noteq> Null" if "(p, t, x, w) \<in> set ?ds" for p t x w
      using that kept_delta_values [of ?k ?o p t x w L] assms json nf os by (simp add: restorable_def)
    then show "\<forall>(p, t, x, w) \<in> set ?ds. null_free x \<and> x \<noteq> Null" by blast
  qed
  moreover have "s \<noteq> Null" using merged os by auto
  ultimately have "diffAsOverwrites L kubepkg overwrites = Obj [(''spec'', s)]"
    unfolding diffAsOverwrites_def Let_def by (simp add: cloneWithoutNull_id)
  with merged show ?thesis using that by blast
qed

end

lemma json_merge_empty: "is_plain_object v \<Longrightarrow> json v \<Longrightarrow> ref_merge (Obj []) v = v"
  using merge_into_empty json_wf by (auto elim!: is_plain_objectE)

lemma merge_one_prop:
  assumes "distinct (map fst kk)"
  obtains ks where "ref_merge (Obj kk) (Obj [(k, s)]) = Obj ks" and "distinct (map fst ks)"
    and "\<And>k'. obj_get ks k' = (if k' = k then ref_merge (obj_get kk k) s else obj_get kk k')"
proof
  have d: "distinct (map fst kk)" "distinct (map fst [(k, s)])" using assms by simp_all
  note spec = merge_props_spec [OF d]
  show "ref_merge (Obj kk) (Obj [(k, s)]) = Obj (merge_props kk [(k, s)])"
    by (simp only: ref_merge.simps js.case)
  show "distinct (map fst (merge_props kk [(k, s)]))" using spec by blast
  show "obj_get (merge_props kk [(k, s)]) k'
      = (if k' = k then ref_merge (obj_get kk k) s else obj_get kk k')" for k'
    using spec by (auto simp: obj_get_def [of "[(k, s)]"])
qed

lemma member_clone:
  "distinct (map fst kvs) \<Longrightarrow>
   member (cloneWithoutNull (Obj kvs)) k =
     (if obj_get kvs k = Null then Undef else cloneWithoutNull (obj_get kvs k))"
  using obj_get_filter_clone [of kvs k] by simp

section \<open>Properties\<close>


lemmas overwrites_eval =
  editorDocument_def diffAsOverwrites_def apply_changes_def overwrite_base_def diff_def
  diff_leaf_def mark_def compile_def lodash_ref_def spread_def obj_get_def obj_has_def
  is_undefined_def array_index_def is_digit_def Let_def fresh_container_def
  plain_key_def restorable_def

definition demo_template :: js where
  "demo_template = Obj [(''kind'', Str ''KubePkg''),
     (''spec'', Obj [(''version'', Str ''1''), (''config'', Obj [(''X'', Str ''a'')])])]"

definition demo_document :: js where
  "demo_document = Obj [(''spec'', Obj [(''version'', Str ''2''),
     (''config'', Obj [(''X'', Str ''a''), (''Y'', Str ''b'')])])]"

lemma demo_restorable: "restorable demo_template demo_document"
  by (simp add: demo_template_def demo_document_def overwrites_eval)


lemma annotated_parts:
  assumes "lodash_ok L" and "getAnnotation L (Obj kk) x = Str raw" and "x = annotationKubepkgOverwrites"
  obtains mm aa where "obj_get kk ''metadata'' = Obj mm" "obj_get mm ''annotations'' = Obj aa"
proof -
  have get: "walk_path (Obj kk) [''metadata'', ''annotations'', x] = Str raw"
    using assms(2) by (simp add: getAnnotation_def lodash_api.get_eq [OF lodash_apiI [OF assms(1)]] ref_get_def split: if_splits)
  obtain mm where mm: "obj_get kk ''metadata'' = Obj mm"
    using get by (cases "obj_get kk ''metadata''") (simp_all add: array_index_def is_digit_def)
  obtain aa where "obj_get mm ''annotations'' = Obj aa"
    using get mm assms(3) by (cases "obj_get mm ''annotations''")
      (simp_all add: annotation_defs array_index_def is_digit_def)
  with mm that show thesis by blast
qed

text \<open>An annotation that is blanked leaves everything but the metadata as it was.\<close>

lemma merge_blanks_annotation:
  assumes "wf_js (Obj kk)" and mm: "obj_get kk ''metadata'' = Obj mm" and aa: "obj_get mm ''annotations'' = Obj aa"
  obtains k1 m1 a1 where
    "ref_merge (Obj kk) (Obj [(''metadata'', Obj [(''annotations'', Obj [(x, Null)])])]) = Obj k1"
    "distinct (map fst k1)" "obj_get k1 ''metadata'' = Obj m1" "obj_get k1 ''spec'' = obj_get kk ''spec''"
    "obj_get m1 ''annotations'' = Obj a1" "obj_get a1 x = Null"
proof -
  have wf: "distinct (map fst mm)" "distinct (map fst aa)" and dk: "distinct (map fst kk)"
    using assms(1) wf_obj_get [of kk "''metadata''"] wf_obj_get [of mm "''annotations''"] mm aa by simp_all
  let ?A = "Obj [(x, Null)]" and ?M = "Obj [(''annotations'', Obj [(x, Null)])]"
  obtain a1 where a1: "ref_merge (Obj aa) ?A = Obj a1" "obj_get a1 x = Null"
    by (rule merge_one_prop [OF wf(2), of x Null]) simp
  obtain m1 where m1: "ref_merge (Obj mm) ?M = Obj m1" "obj_get m1 ''annotations'' = Obj a1"
    using aa a1(1) by (rule_tac merge_one_prop [OF wf(1), of "''annotations''" ?A]) simp
  obtain k1 where k1: "ref_merge (Obj kk) (Obj [(''metadata'', ?M)]) = Obj k1"
    "distinct (map fst k1)" "obj_get k1 ''metadata'' = Obj m1" "obj_get k1 ''spec'' = obj_get kk ''spec''"
    using mm m1(1) by (rule_tac merge_one_prop [OF dk, of "''metadata''" ?M]) simp
  from that [OF k1 m1(2) a1(2)] show thesis .
qed


definition demo_deployed :: js where
  "demo_deployed = Obj [(''metadata'', Obj [(''annotations'', Obj [(annotationKubepkgOverwrites, Str ''{}'')])]),
     (''spec'', Obj [(''version'', Str ''1''), (''config'', Obj [(''X'', Str ''a'')])])]"


text \<open>
  The conditions of \<open>restorable\<close> are needed. A key with a slash, as annotations have, is set at
  the wrong place, since the pointer is split without being unescaped; an array made shorter
  keeps its old tail; a deleted key comes back.
\<close>

lemma overwrites_lose_slash_key:
  "member (member (member (editorDocument lodash_ref
       (Obj [(''spec'', Obj [(''config'', Obj []), (''annotations'', Obj [(''a/b'', Str ''old'')])])])
     (diffAsOverwrites lodash_ref
       (Obj [(''spec'', Obj [(''config'', Obj []), (''annotations'', Obj [(''a/b'', Str ''old'')])])])
       (Obj [(''spec'', Obj [(''config'', Obj []), (''annotations'', Obj [(''a/b'', Str ''new'')])])])))
     ''spec'') ''annotations'') ''a/b'' = Str ''old''"
  by (simp add: overwrites_eval)

lemma overwrites_keep_array_tail:
  "member (member (editorDocument lodash_ref
       (Obj [(''spec'', Obj [(''config'', Obj []), (''args'', Arr [Num 1, Num 2])])])
     (diffAsOverwrites lodash_ref
       (Obj [(''spec'', Obj [(''config'', Obj []), (''args'', Arr [Num 1, Num 2])])])
       (Obj [(''spec'', Obj [(''config'', Obj []), (''args'', Arr [Num 3])])])))
     ''spec'') ''args'' = Arr [Num 3, Num 2]"
  by (simp add: overwrites_eval)

lemma overwrites_restore_deleted_key:
  "member (member (editorDocument lodash_ref
       (Obj [(''spec'', Obj [(''config'', Obj []), (''version'', Str ''1'')])])
     (diffAsOverwrites lodash_ref
       (Obj [(''spec'', Obj [(''config'', Obj []), (''version'', Str ''1'')])])
       (Obj [(''spec'', Obj [(''config'', Obj [])])])))
     ''spec'') ''version'' = Str ''1''"
  by (simp add: overwrites_eval)

text \<open>
  \<^verbatim>\<open>cloneWithoutNull\<close> copies exactly what is not null: the copy of an object has a
  property when the object has it with a value other than null, the value being the copy of the
  original's; the copy has no null property at any depth, and copying it again changes nothing.
\<close>

theorem cloneWithoutNull_copies:
  assumes "wf_js (Obj kvs)"
  shows "member (cloneWithoutNull (Obj kvs)) k =
      (if member (Obj kvs) k = Null then Undef else cloneWithoutNull (member (Obj kvs) k))
    \<and> null_free (cloneWithoutNull (Obj kvs))
    \<and> cloneWithoutNull (cloneWithoutNull (Obj kvs)) = cloneWithoutNull (Obj kvs)"
proof -
  have "distinct (map fst kvs)" using assms by simp
  from member_clone [OF this, of k] show ?thesis
    by (simp only: member.simps cloneWithoutNull_id [OF cloneWithoutNull_null_free]
        cloneWithoutNull_null_free simp_thms)
qed

theorem cloneWithoutNull_copies_witness:
  "member (cloneWithoutNull (Obj [(''a'', Null), (''b'', Arr [Null])])) ''a'' = Undef
   \<and> member (cloneWithoutNull (Obj [(''a'', Null), (''b'', Arr [Null])])) ''b'' = Arr [Null]"
  using cloneWithoutNull_copies [of "[(''a'', Null), (''b'', Arr [Null])]" "''a''"]
    cloneWithoutNull_copies [of "[(''a'', Null), (''b'', Arr [Null])]" "''b''"]
  by (simp add: obj_get_def)

text \<open>
  The version a deployment came from is the one its annotations name: of a name
  \<open>group/kubepkg\<close> with slash-free parts the two parts, with the annotated channel, revision
  and setting, or their defaults when the annotation is missing or null.
\<close>

theorem resolve_annotated_version:
  assumes "lodash_ok L" and "is_plain_object kubepkg"
    and "getAnnotation L kubepkg annotationKubepkgName = Str (g @ ''/'' @ n)"
    and "CHR ''/'' \<notin> set g" and "CHR ''/'' \<notin> set n"
  shows "resolveKubePkgVersionAndSetting L kubepkg =
    Inr \<lparr>vs_groupName = g, vs_kubepkgName = n,
         vs_kubepkgChannel = coalesce (getAnnotation L kubepkg annotationKubepkgChannel) (Str ''DEV''),
         vs_revisionID = coalesce (getAnnotation L kubepkg annotationKubepkgRevision) (Str ''''),
         vs_deploymentSettingID =
           coalesce (getAnnotation L kubepkg annotationKubepkgDeploymentSettingID) (Str '''')\<rparr>"
proof -
  have "split_on (CHR ''/'') (g @ ''/'' @ n) = [g, n]"
    using assms(4,5) by (simp add: split_on_append split_on_no_delim)
  moreover have "truthy kubepkg" using assms(2) by (cases kubepkg) auto
  ultimately show ?thesis
    using assms(3) by (simp add: resolveKubePkgVersionAndSetting_def coalesce_def nullish_def)
qed

theorem resolve_annotated_version_witness:
  "resolveKubePkgVersionAndSetting lodash_ref
     (Obj [(''metadata'', Obj [(''annotations'', Obj [(annotationKubepkgName, Str ''web/demo'')])])])
   = Inr \<lparr>vs_groupName = ''web'', vs_kubepkgName = ''demo'', vs_kubepkgChannel = Str ''DEV'',
       vs_revisionID = Str '''', vs_deploymentSettingID = Str ''''\<rparr>"
  using resolve_annotated_version [OF lodash_ref_ok, where g = "''web''" and n = "''demo''"
      and kubepkg = "Obj [(''metadata'', Obj [(''annotations'', Obj [(annotationKubepkgName, Str ''web/demo'')])])]"]
  by (simp add: getAnnotation_def lodash_ref_def ref_get_def obj_get_def annotation_defs coalesce_def nullish_def)

end
