(* ===== verification/Editor_Context.thy ===== *)
theory Editor_Context
  imports Json_Lint Kubepkg_Overwrites
begin

text \<open>
  The editor of a document as its page runs it. \<^verbatim>\<open>EditorContextProvider.tsx\<close> keeps the document, the
  extensions, the element and the view; \<^verbatim>\<open>EditorContainer.tsx\<close> serves it, \<^verbatim>\<open>useJSONEditor\<close> and
  \<^verbatim>\<open>useJSONDiff\<close> add extensions through \<^verbatim>\<open>useExtension\<close>. \<^verbatim>\<open>TemplateEditor\<close>
  (\<^verbatim>\<open>KubePkgEditor.tsx\<close>) and the playground submit what is typed when the linter has nothing to say.
  Extensions are opaque values and the view is what it was created with and what was typed since.
\<close>

section \<open>The context\<close>

record ('e, 'd) view =
  vw_id :: nat
  vw_parent :: 'd
  vw_extensions :: "'e list"
  vw_created :: string
  vw_doc :: string

text \<open>
  \<open>ed_uses\<close> are the functions in \<^verbatim>\<open>extension$\<close>, told apart by a number as closures are by identity.
  \<open>ed_live\<close> are the views made and not destroyed, and \<open>ed_cleanup\<close> is the view whose destruction the
  effect of \<^verbatim>\<open>serve\<close> has pending, if the effect has run.
\<close>

record ('e, 'd) editor =
  ed_doc :: string
  ed_uses :: "(nat \<times> 'e) list"
  ed_dom :: "'d option"
  ed_view :: "('e, 'd) view option"
  ed_serving :: bool
  ed_cleanup :: "('e, 'd) view option"
  ed_live :: "('e, 'd) view list"
  ed_next :: nat

definition create_editor :: "string \<Rightarrow> ('e, 'd) editor" where
  "create_editor doc =
     \<lparr>ed_doc = doc, ed_uses = [], ed_dom = None, ed_view = None, ed_serving = False, ed_cleanup = None,
      ed_live = [], ed_next = 0\<rparr>"

text \<open>\<^verbatim>\<open>[...extensions, base].map((e) => e())\<close>.\<close>

definition state_extensions :: "'e \<Rightarrow> ('e, 'd) editor \<Rightarrow> 'e list" where
  "state_extensions base st = map snd (ed_uses st) @ [base]"

text \<open>\<^verbatim>\<open>new EditorView(...)\<close>.\<close>

definition make_view :: "'e \<Rightarrow> 'd \<Rightarrow> ('e, 'd) editor \<Rightarrow> ('e, 'd) view \<times> ('e, 'd) editor" where
  "make_view base d st =
     (let v = \<lparr>vw_id = ed_next st, vw_parent = d, vw_extensions = state_extensions base st,
               vw_created = ed_doc st, vw_doc = ed_doc st\<rparr>
      in (v, st\<lparr>ed_live := ed_live st @ [v], ed_next := Suc (ed_next st)\<rparr>))"

definition destroy :: "('e, 'd) view option \<Rightarrow> ('e, 'd) editor \<Rightarrow> ('e, 'd) editor" where
  "destroy vo st =
     (case vo of
        None \<Rightarrow> st
      | Some v \<Rightarrow> st\<lparr>ed_live := filter (\<lambda>w. vw_id w \<noteq> vw_id v) (ed_live st)\<rparr>)"

text \<open>
  A view or null that reaches \<^verbatim>\<open>tapEffect\<close>: the clean-up of the one before, then the effect of this
  one. Either order leaves the same state, as \<open>effect_order\<close> shows.
\<close>

definition publish :: "('e, 'd) view option \<Rightarrow> ('e, 'd) editor \<Rightarrow> ('e, 'd) editor" where
  "publish vo st = (destroy (ed_cleanup st) st)\<lparr>ed_view := vo, ed_cleanup := vo\<rparr>"

text \<open>What an emission of \<^verbatim>\<open>combineLatest([dom$, state$])\<close> does.\<close>

definition show_state :: "'e \<Rightarrow> ('e, 'd) editor \<Rightarrow> ('e, 'd) editor" where
  "show_state base st =
     (case ed_dom st of
        None \<Rightarrow> publish None st
      | Some d \<Rightarrow> (let (v, st') = make_view base d st in publish (Some v) st'))"

definition emitted :: "'e \<Rightarrow> ('e, 'd) editor \<Rightarrow> ('e, 'd) editor" where
  "emitted base st = (if ed_serving st then show_state base st else st)"

text \<open>\<^verbatim>\<open>use\<close>, which gives the function that takes the extension away again.\<close>

definition use_extension :: "'e \<Rightarrow> 'e \<Rightarrow> ('e, 'd) editor \<Rightarrow> nat \<times> ('e, 'd) editor" where
  "use_extension base e st =
     (ed_next st,
      emitted base (st\<lparr>ed_uses := ed_uses st @ [(ed_next st, e)], ed_next := Suc (ed_next st)\<rparr>))"

definition unuse_extension :: "'e \<Rightarrow> nat \<Rightarrow> ('e, 'd) editor \<Rightarrow> ('e, 'd) editor" where
  "unuse_extension base k st =
     emitted base (st\<lparr>ed_uses := filter (\<lambda>(k', e). k' \<noteq> k) (ed_uses st)\<rparr>)"

definition set_doc :: "'e \<Rightarrow> string \<Rightarrow> ('e, 'd) editor \<Rightarrow> ('e, 'd) editor" where
  "set_doc base doc st = emitted base (st\<lparr>ed_doc := doc\<rparr>)"

definition set_dom :: "'e \<Rightarrow> 'd option \<Rightarrow> ('e, 'd) editor \<Rightarrow> ('e, 'd) editor" where
  "set_dom base d st = emitted base (st\<lparr>ed_dom := d\<rparr>)"

text \<open>\<^verbatim>\<open>serve()\<close> is subscribed when the container is mounted and unsubscribed when it is unmounted.\<close>

definition serve :: "'e \<Rightarrow> ('e, 'd) editor \<Rightarrow> ('e, 'd) editor" where
  "serve base st = show_state base (st\<lparr>ed_serving := True\<rparr>)"

definition unserve :: "('e, 'd) editor \<Rightarrow> ('e, 'd) editor" where
  "unserve st = (destroy (ed_cleanup st) st)\<lparr>ed_serving := False, ed_cleanup := None\<rparr>"

text \<open>Typing changes the view that is shown, not \<^verbatim>\<open>doc$\<close>.\<close>

definition typed_in :: "string \<Rightarrow> ('e, 'd) view \<Rightarrow> ('e, 'd) view" where
  "typed_in s v = v\<lparr>vw_doc := s\<rparr>"

definition type_text :: "string \<Rightarrow> ('e, 'd) editor \<Rightarrow> ('e, 'd) editor" where
  "type_text s st =
     (if ed_live st = [] then st
      else st\<lparr>ed_live := map (typed_in s) (ed_live st), ed_view := map_option (typed_in s) (ed_view st),
              ed_cleanup := map_option (typed_in s) (ed_cleanup st)\<rparr>)"

datatype ('e, 'd) editor_event =
    Used 'e | Unused nat | DocSet string | DomSet "'d option" | Served | Unserved | Typed string

fun editor_step :: "'e \<Rightarrow> ('e, 'd) editor_event \<Rightarrow> ('e, 'd) editor \<Rightarrow> ('e, 'd) editor" where
  "editor_step base (Used e) st = snd (use_extension base e st)"
| "editor_step base (Unused k) st = unuse_extension base k st"
| "editor_step base (DocSet s) st = set_doc base s st"
| "editor_step base (DomSet d) st = set_dom base d st"
| "editor_step base Served st = (if ed_serving st then st else serve base st)"
| "editor_step base Unserved st = unserve st"
| "editor_step base (Typed s) st = type_text s st"

definition editor_run :: "'e \<Rightarrow> string \<Rightarrow> ('e, 'd) editor_event list \<Rightarrow> ('e, 'd) editor" where
  "editor_run base doc es = fold (editor_step base) es (create_editor doc)"

text \<open>
  \<^verbatim>\<open>useExtension\<close>: on each emission of \<^verbatim>\<open>dom$\<close> a hook takes its extension away and adds it again.
  \<open>hooks\<close> pairs the extension of each hook, in the order of their calls, with the number of its
  last use.
\<close>

fun hooks_emitted ::
    "'e \<Rightarrow> ('e \<times> nat option) list \<Rightarrow> ('e, 'd) editor \<Rightarrow> ('e \<times> nat option) list \<times> ('e, 'd) editor" where
  "hooks_emitted base [] st = ([], st)"
| "hooks_emitted base ((e, used) # hooks) st =
     (let st1 = (case used of None \<Rightarrow> st | Some k \<Rightarrow> unuse_extension base k st);
          (k', st2) = use_extension base e st1;
          (hooks', st3) = hooks_emitted base hooks st2
      in ((e, Some k') # hooks', st3))"

section \<open>One view\<close>

definition shows_state :: "'e \<Rightarrow> ('e, 'd) editor \<Rightarrow> bool" where
  "shows_state base st \<longleftrightarrow>
     ed_cleanup st = ed_view st
     \<and> (case ed_dom st of
          None \<Rightarrow> ed_view st = None \<and> ed_live st = []
        | Some d \<Rightarrow> \<exists>v. ed_view st = Some v \<and> ed_live st = [v] \<and> vw_parent v = d
            \<and> vw_extensions v = state_extensions base st \<and> vw_created v = ed_doc st)"

definition editor_inv :: "'e \<Rightarrow> ('e, 'd) editor \<Rightarrow> bool" where
  "editor_inv base st \<longleftrightarrow>
     (\<forall>v \<in> set (ed_live st). vw_id v < ed_next st)
     \<and> (if ed_serving st then shows_state base st else ed_live st = [] \<and> ed_cleanup st = None)"

lemma state_extensions_simps [simp]:
  "state_extensions base (st\<lparr>ed_live := l\<rparr>) = state_extensions base st"
  "state_extensions base (st\<lparr>ed_next := n\<rparr>) = state_extensions base st"
  "state_extensions base (st\<lparr>ed_view := w\<rparr>) = state_extensions base st"
  "state_extensions base (st\<lparr>ed_cleanup := w\<rparr>) = state_extensions base st"
  "state_extensions base (st\<lparr>ed_serving := b\<rparr>) = state_extensions base st"
  "state_extensions base (st\<lparr>ed_dom := d\<rparr>) = state_extensions base st"
  "state_extensions base (st\<lparr>ed_doc := s\<rparr>) = state_extensions base st"
  by (simp_all add: state_extensions_def)

text \<open>\<open>owned\<close>: the views alive are the one whose destruction is pending, and no other.\<close>

definition owned :: "('e, 'd) editor \<Rightarrow> bool" where
  "owned st \<longleftrightarrow> (\<forall>v \<in> set (ed_live st). vw_id v < ed_next st)
     \<and> ed_live st = (case ed_cleanup st of None \<Rightarrow> [] | Some v \<Rightarrow> [v])"

lemma show_state_inv: "owned st \<Longrightarrow> ed_serving st \<Longrightarrow> editor_inv base (show_state base st)"
  by (auto simp: owned_def editor_inv_def shows_state_def show_state_def publish_def destroy_def make_view_def
      Let_def split: option.splits)

lemma inv_owned: "editor_inv base st \<Longrightarrow> owned st"
  by (auto simp: owned_def editor_inv_def shows_state_def split: if_splits option.splits)

lemma emitted_inv: "owned st \<Longrightarrow> (\<not> ed_serving st \<Longrightarrow> editor_inv base st) \<Longrightarrow> editor_inv base (emitted base st)"
  by (simp add: emitted_def show_state_inv)

lemma owned_simps [simp]:
  "owned (st\<lparr>ed_uses := us\<rparr>) = owned st" "owned (st\<lparr>ed_doc := s\<rparr>) = owned st"
  "owned (st\<lparr>ed_dom := d\<rparr>) = owned st" "owned (st\<lparr>ed_serving := b\<rparr>) = owned st"
  by (simp_all add: owned_def)

lemma inv_unserved:
  "\<not> ed_serving st \<Longrightarrow> editor_inv base st \<longleftrightarrow> ed_live st = [] \<and> ed_cleanup st = None"
  by (auto simp: editor_inv_def)

lemma typed_in_simps [simp]:
  "vw_id (typed_in s v) = vw_id v" "vw_parent (typed_in s v) = vw_parent v" "vw_created (typed_in s v) = vw_created v"
  "vw_extensions (typed_in s v) = vw_extensions v"
  by (simp_all add: typed_in_def)

lemma typed_inv:
  assumes "editor_inv base st"
  shows "editor_inv base (type_text s st)"
proof (cases "ed_live st = []")
  case False
  then have serving: "ed_serving st" using assms by (simp add: editor_inv_def split: if_splits)
  with assms have shown: "shows_state base st" "\<forall>v \<in> set (ed_live st). vw_id v < ed_next st"
    by (simp_all add: editor_inv_def)
  from False shown(1) obtain v where "ed_live st = [v]" "ed_view st = Some v" "ed_dom st = Some (vw_parent v)"
    by (auto simp: shows_state_def split: option.splits)
  with shown serving show ?thesis
    by (simp add: editor_inv_def shows_state_def type_text_def state_extensions_def)
qed (simp add: type_text_def assms)

lemma editor_step_inv: "editor_inv base st \<Longrightarrow> editor_inv base (editor_step base ev st)"
proof (cases ev)
  case (Used e)
  assume inv: "editor_inv base st"
  have "owned (st\<lparr>ed_uses := ed_uses st @ [(ed_next st, e)], ed_next := Suc (ed_next st)\<rparr>)"
    using inv_owned [OF inv] by (simp add: owned_def less_Suc_eq)
  moreover have "\<not> ed_serving st \<Longrightarrow> ed_live st = [] \<and> ed_cleanup st = None" using inv by (simp add: inv_unserved)
  ultimately show ?thesis using Used by (simp add: use_extension_def) (rule emitted_inv, simp_all add: inv_unserved)
next
  case (Typed s)
  assume "editor_inv base st"
  with Typed show ?thesis by (simp add: typed_inv)
next
  case Unserved
  assume inv: "editor_inv base st"
  with Unserved inv_owned [OF inv] show ?thesis
    by (auto simp: inv_unserved unserve_def destroy_def owned_def split: option.splits)
next
  case Served
  assume inv: "editor_inv base st"
  with Served show ?thesis by (simp add: serve_def show_state_inv inv_owned)
qed (auto simp: unuse_extension_def set_doc_def set_dom_def inv_owned inv_unserved intro!: emitted_inv)

lemma editor_run_inv: "editor_inv base (editor_run base doc es)"
proof -
  have "editor_inv base st \<Longrightarrow> editor_inv base (fold (editor_step base) es st)" for st
    by (induction es arbitrary: st) (simp_all add: editor_step_inv)
  then show ?thesis by (simp add: editor_run_def create_editor_def editor_inv_def)
qed

text \<open>
  C36. However extensions, documents, elements and typing come and go, an editor that is served has
  exactly one view alive while its element is there, the one it publishes: in that element, with
  every registered extension before the base and created with the current document. Otherwise no
  view is alive.
\<close>

theorem editor_has_one_view:
  "case editor_run base doc es of st \<Rightarrow>
     (if ed_serving st \<and> ed_dom st \<noteq> None
      then \<exists>v. ed_live st = [v] \<and> ed_view st = Some v \<and> ed_dom st = Some (vw_parent v)
        \<and> vw_extensions v = map snd (ed_uses st) @ [base] \<and> vw_created v = ed_doc st
      else ed_live st = [])"
  using editor_run_inv [of base doc es]
  by (auto simp: editor_inv_def shows_state_def state_extensions_def split: if_splits option.splits)

text \<open>The effect of \<^verbatim>\<open>serve\<close> may run before the clean-up of the one before it.\<close>

lemma effect_order: "publish vo st = (destroy (ed_cleanup st) (st\<lparr>ed_view := vo\<rparr>))\<lparr>ed_cleanup := vo\<rparr>"
  by (simp add: publish_def destroy_def split: option.split)

text \<open>The hooks keep the order of their calls, whatever the element does.\<close>

definition uses_of :: "('e \<times> nat option) list \<Rightarrow> (nat \<times> 'e) list" where
  "uses_of hooks = map (\<lambda>(e, used). (the used, e)) hooks"

lemma emitted_uses [simp]: "ed_uses (emitted base st) = ed_uses st" "ed_next st \<le> ed_next (emitted base st)"
  by (auto simp: emitted_def show_state_def publish_def destroy_def make_view_def Let_def split: option.splits)

lemma hooks_keep_uses:
  assumes "ed_uses st = uses_of hooks @ done" and "\<forall>(k, e) \<in> set (ed_uses st). k < ed_next st"
    and "distinct (map fst (ed_uses st))" and "\<forall>(e, used) \<in> set hooks. used \<noteq> None"
    and "hooks_emitted base hooks st = (hooks', st')"
  shows "ed_uses st' = done @ uses_of hooks' \<and> map fst hooks' = map fst hooks"
  using assms
proof (induction hooks arbitrary: st "done" hooks' st')
  case (Cons hook hooks)
  obtain e k where hook: "hook = (e, Some k)" using Cons.prems(4) by (cases hook) auto
  define st1 where "st1 = unuse_extension base k st"
  obtain k' st2 where use: "use_extension base e st1 = (k', st2)" by (cases "use_extension base e st1")
  obtain hooks2 where rest: "hooks_emitted base hooks st2 = (hooks2, st')" "hooks' = (e, Some k') # hooks2"
    using Cons.prems(5) by (auto simp: hook Let_def st1_def [symmetric] use split: prod.splits)
  have uses: "ed_uses st = (k, e) # uses_of hooks @ done" using Cons.prems(1) by (simp add: hook uses_of_def)
  have "(k, f) \<notin> set (uses_of hooks @ done)" for f
    using Cons.prems(3) uses by (force simp: image_iff)
  then have "filter (\<lambda>(k', e). k' \<noteq> k) (uses_of hooks @ done) = uses_of hooks @ done"
    by (intro filter_True) auto
  with uses have st1: "ed_uses st1 = uses_of hooks @ done" "ed_next st \<le> ed_next st1"
    using emitted_uses(2) [of "st\<lparr>ed_uses := filter (\<lambda>(k', e). k' \<noteq> k) (ed_uses st)\<rparr>" base]
    by (simp_all add: st1_def unuse_extension_def)
  from use have st2: "k' = ed_next st1" "ed_uses st2 = uses_of hooks @ (done @ [(k', e)])" "Suc k' \<le> ed_next st2"
    using emitted_uses(2) [of "st1\<lparr>ed_uses := ed_uses st1 @ [(ed_next st1, e)], ed_next := Suc (ed_next st1)\<rparr>" base]
    by (auto simp: use_extension_def st1)
  have old: "j < k'" if "(j, f) \<in> set (uses_of hooks @ done)" for j f
  proof -
    have "(j, f) \<in> set (ed_uses st)" using that uses by simp
    with Cons.prems(2) have "j < ed_next st" by blast
    with st1(2) st2(1) show ?thesis by simp
  qed
  have "\<forall>(j, f) \<in> set (ed_uses st2). j < ed_next st2" using old st2 by fastforce
  moreover have "distinct (map fst (ed_uses st2))"
  proof -
    have "k' \<notin> fst ` set (uses_of hooks @ done)" using old by fastforce
    with Cons.prems(3) uses show ?thesis by (auto simp: st2(2))
  qed
  ultimately show ?case
    using Cons.IH [OF st2(2) _ _ _ rest(1)] Cons.prems(4) rest(2) hook by (auto simp: uses_of_def)
qed (simp add: uses_of_def)

text \<open>A change of the extensions makes the view anew, from \<^verbatim>\<open>doc$\<close>: what was typed is gone.\<close>

lemma extension_change_drops_typed:
  assumes "ed_serving st" and "ed_dom st = Some d"
  shows "\<exists>v. ed_view (editor_step base (Used e) (editor_step base (Typed s) st)) = Some v \<and> vw_doc v = ed_doc st"
  using assms
  by (simp add: use_extension_def emitted_def show_state_def type_text_def publish_def make_view_def Let_def)

text \<open>The view of an editor that is no longer served is destroyed but still published.\<close>

lemma destroyed_view_stays: "ed_view (unserve st) = ed_view st"
  by (simp add: unserve_def destroy_def split: option.split)

section \<open>Submitting\<close>

text \<open>
  \<^verbatim>\<open>execute\<close> of \<^verbatim>\<open>TemplateEditor\<close>, which the playground has too: linting is forced, and a timer checks
  that there are no diagnostics before the document is parsed and emitted. \<open>lint\<close> is the linter on a
  document; when it raises, the diagnostics stay as they are. While the text changes the editor
  moves its diagnostics along, to the ones a change carries.
\<close>

definition submit_key :: "bool \<Rightarrow> string" where
  "submit_key mac = (if mac then ''Cmd'' else ''Ctrl'') @ ''-Enter''"

record editing =
  eg_doc :: string
  eg_lints :: "lint list"
  eg_timers :: nat
  eg_sent :: "js list"

type_synonym linter = "string \<Rightarrow> lint_error + lint list"

definition force_lint :: "linter \<Rightarrow> editing \<Rightarrow> editing" where
  "force_lint lint st = (case lint (eg_doc st) of Inl e \<Rightarrow> st | Inr ds \<Rightarrow> st\<lparr>eg_lints := ds\<rparr>)"

definition execute :: "linter \<Rightarrow> editing \<Rightarrow> editing" where
  "execute lint st = (force_lint lint st)\<lparr>eg_timers := Suc (eg_timers st)\<rparr>"

definition fire :: "(string \<Rightarrow> string + js) \<Rightarrow> (js \<Rightarrow> js) \<Rightarrow> editing \<Rightarrow> editing" where
  "fire json_parse out st =
     (if eg_timers st = 0 then st
      else let st' = st\<lparr>eg_timers := eg_timers st - 1\<rparr> in
        if eg_lints st = [] then
          (case json_parse (eg_doc st) of Inl e \<Rightarrow> st' | Inr v \<Rightarrow> st'\<lparr>eg_sent := eg_sent st @ [out v]\<rparr>)
        else st')"

datatype editing_event = Changed string "lint list" | Linted | Executed | Fired

fun editing_step :: "linter \<Rightarrow> (string \<Rightarrow> string + js) \<Rightarrow> (js \<Rightarrow> js) \<Rightarrow> editing_event \<Rightarrow> editing \<Rightarrow> editing" where
  "editing_step lint json_parse out (Changed doc ds) st = st\<lparr>eg_doc := doc, eg_lints := ds\<rparr>"
| "editing_step lint json_parse out Linted st = force_lint lint st"
| "editing_step lint json_parse out Executed st = execute lint st"
| "editing_step lint json_parse out Fired st = fire json_parse out st"

text \<open>What \<^verbatim>\<open>TemplateEditor\<close> emits, and what the playground requests.\<close>

definition template_out :: "js \<Rightarrow> js" where
  "template_out v = cloneWithoutNull v"

text \<open>
  Events between the key and its timer that are no typing: further keys and timers, and linting.
\<close>

fun quiet :: "editing_event \<Rightarrow> bool" where
  "quiet (Changed doc ds) = False"
| "quiet e = True"

definition linted :: "linter \<Rightarrow> editing \<Rightarrow> bool" where
  "linted lint st \<longleftrightarrow> (\<forall>ds. lint (eg_doc st) = Inr ds \<longrightarrow> eg_lints st = ds)"

lemma linted_executed: "linted lint (execute lint st)"
  by (simp add: linted_def execute_def force_lint_def split: sum.split)

lemma linted_quiet: "linted lint st \<Longrightarrow> quiet e \<Longrightarrow> linted lint (editing_step lint json_parse out e st)
    \<and> eg_doc (editing_step lint json_parse out e st) = eg_doc st"
  by (cases e) (auto simp: linted_def execute_def force_lint_def fire_def Let_def split: sum.split)

lemma linted_run:
  "linted lint st \<Longrightarrow> \<forall>e \<in> set es. quiet e \<Longrightarrow>
   linted lint (fold (editing_step lint json_parse out) es st)
   \<and> eg_doc (fold (editing_step lint json_parse out) es st) = eg_doc st"
proof (induction es arbitrary: st)
  case (Cons e es)
  with linted_quiet [of lint st e json_parse out] Cons.IH [of "editing_step lint json_parse out e st"] show ?case
    by simp
qed simp

lemma fired_sends:
  "eg_sent (fire json_parse out st) \<noteq> eg_sent st \<Longrightarrow>
   eg_lints st = [] \<and> (\<exists>v. json_parse (eg_doc st) = Inr v \<and> eg_sent (fire json_parse out st) = eg_sent st @ [out v])"
  by (auto simp: fire_def Let_def split: if_splits sum.splits)

text \<open>
  C37. What the template editor submits when the text stays as it was at the key is the document that
  is shown, without its nulls, and no failure the linter finds in it could have been shown: each is of
  an undeclared member, or at a place no node is walked for.
\<close>

theorem submitted_is_valid:
  assumes "lint = (\<lambda>d. jsonLinter json_parse json_stringify A type d (tree_of d))"
    and "st = fold (editing_step lint json_parse template_out) es (execute lint start)" and "\<forall>e \<in> set es. quiet e"
    and "tree_of (eg_doc start) = Tree ''JsonText'' a b (t # ts)"
    and "\<And>v. json_parse (eg_doc start) = Inr v \<Longrightarrow> represents (value_parse json_parse) (eg_doc start) v t"
    and "\<And>v f fs. at_validate A type v = Some fs \<Longrightarrow> f \<in> set fs \<Longrightarrow> fl_message f \<noteq> []"
    and "lint (eg_doc start) = Inr ds"
    and "eg_sent (fire json_parse template_out st) \<noteq> eg_sent st"
  shows "\<exists>v. json_parse (eg_doc start) = Inr v
    \<and> eg_sent (fire json_parse template_out st) = eg_sent st @ [cloneWithoutNull v]
    \<and> (\<forall>fs f. at_validate A type v = Some fs \<longrightarrow> f \<in> set fs \<longrightarrow> fl_type f = ''never'' \<or> \<not> showable v f)"
proof -
  have run: "linted lint st" "eg_doc st = eg_doc start"
    using linted_run [OF linted_executed assms(3)] assms(2)
    by (auto simp: execute_def force_lint_def split: sum.splits)
  obtain v where v: "eg_lints st = []" "json_parse (eg_doc start) = Inr v"
    "eg_sent (fire json_parse template_out st) = eg_sent st @ [cloneWithoutNull v]"
    using fired_sends [OF assms(8)] run(2) by (auto simp: template_out_def)
  have none: "jsonLinter json_parse json_stringify A type (eg_doc start) (Tree ''JsonText'' a b (t # ts)) = Inr []"
    using run v(1) assms(1,4,7) by (auto simp: linted_def)
  obtain errs where errs: "validate json_stringify A type v = Inr errs"
    "validateErrorsToDiagnostics (value_parse json_parse) errs (eg_doc start) (Tree ''JsonText'' a b (t # ts)) = []"
    using none by (auto simp: jsonLinter_value [of json_parse "eg_doc start" v, OF v(2)])
  have "fl_type f = ''never'' \<or> \<not> showable v f" if fs: "at_validate A type v = Some fs" "f \<in> set fs" for f fs
    using failure_reported [OF assms(5) [OF v(2)] fs(1) _ fs(2) _ _ errs(1), of a b ts] assms(6) [OF fs(1)]
    by (auto simp: errs(2))
  with v(2,3) show ?thesis by blast
qed

definition quiet_types :: "nat any_type" where
  "quiet_types = demo_types\<lparr>at_validate := (\<lambda>t v. Some
     [\<lparr>fl_path = [Str ''z''], fl_value = Num 0, fl_key = Str ''z'', fl_type = ''never'', fl_message = ''Unexpected''\<rparr>])\<rparr>"

definition demo_linter :: linter where
  "demo_linter = (\<lambda>d. jsonLinter demo_parse_doc to_str quiet_types 0 d (Tree ''JsonText'' 0 13 [demo_tree]))"

definition demo_editing :: editing where
  "demo_editing = \<lparr>eg_doc = demo_doc, eg_lints = [(0, 0, ''old'')], eg_timers = 0, eg_sent = []\<rparr>"

theorem submitted_is_valid_witness:
  "\<exists>v. demo_parse_doc demo_doc = Inr v
    \<and> eg_sent (fire demo_parse_doc template_out (execute demo_linter demo_editing)) = [cloneWithoutNull v]
    \<and> (\<forall>fs f. at_validate quiet_types 0 v = Some fs \<longrightarrow> f \<in> set fs \<longrightarrow> fl_type f = ''never'' \<or> \<not> showable v f)"
proof -
  have doc: "eg_doc demo_editing = demo_doc" "demo_parse_doc demo_doc = Inr demo_new"
    by (simp_all add: demo_editing_def) code_simp
  have lint: "demo_linter demo_doc = Inr []" by code_simp
  have sent: "eg_sent (fire demo_parse_doc template_out (execute demo_linter demo_editing)) = [cloneWithoutNull demo_new]"
    "eg_sent (execute demo_linter demo_editing) = []" by code_simp+
  from submitted_is_valid [where lint = demo_linter and start = demo_editing and es = "[]"
      and tree_of = "\<lambda>d. Tree ''JsonText'' 0 13 [demo_tree]" and json_parse = demo_parse_doc, OF demo_linter_def refl]
    lint show ?thesis
    by (simp add: doc demo_value_parse demo_represents sent) (simp add: quiet_types_def)
qed

text \<open>A key typed before the timer fires: what is submitted was never linted.\<close>

lemma typed_before_timer_is_submitted:
  assumes "json_parse doc = Inr v"
  shows "eg_sent (fire json_parse template_out
      (editing_step lint json_parse template_out (Changed doc []) (execute lint st))) = eg_sent st @ [cloneWithoutNull v]"
  using assms by (simp add: fire_def execute_def force_lint_def template_out_def split: sum.split)

end
