(* ===== verification/Env_Deployments.thy ===== *)
theory Env_Deployments
  imports Dashboard_Calls Kubepkg_Overwrites Lodash_Collections
begin

text \<open>
  \<^verbatim>\<open>webapp/dashboard/mod/groupenv/GroupEnvDeploymentList.tsx\<close>: the deployments of an
  environment. The component keeps the deployments it was sent under their IDs, asks for their
  latest versions and for what the cluster reports, and merges the answers as they arrive; it
  shows the deployments grouped by kind. A deployment is a JSON value.
\<close>

section \<open>The state of the list\<close>

record deployment_list =
  dl_kubepkgs :: obj
  dl_calls :: "call list"

datatype deployments_event =
    FiltersEmitted
  | ListLoaded "js list"
  | LatestLoaded js
  | DeployedLoaded "js list"

definition deployments_init :: deployment_list where
  "deployments_init = \<lparr>dl_kubepkgs = [], dl_calls = []\<rparr>"

definition deployment_key :: "lodash \<Rightarrow> js \<Rightarrow> string" where
  "deployment_key L item = to_str (deploymentID L item)"

definition version_identity :: "lodash \<Rightarrow> js \<Rightarrow> string" where
  "version_identity L item = to_str (kubepkgName L item) @ ''@'' @ to_str (channel L item)"

text \<open>The environment has a cluster with an agent that answers.\<close>

definition agent_reachable :: "js \<Rightarrow> bool" where
  "agent_reachable env \<longleftrightarrow>
     truthy (member env ''cluster'') \<and>
     truthy (member (member (member env ''cluster'') ''agentInfo'') ''endpoint'')"

definition list_calls :: "lodash \<Rightarrow> string \<Rightarrow> js \<Rightarrow> js list \<Rightarrow> call list" where
  "list_calls L groupName env items =
     [call latestKubepkgs [(''names'', Arr (map (\<lambda>item. Str (version_identity L item)) items))]]
     @ (if agent_reachable env
        then [call listGroupEnvClusterDeployments
                [(''groupName'', Str groupName), (''envName'', member env ''envName'')]]
        else [])"

definition put_items :: "lodash \<Rightarrow> js list \<Rightarrow> obj \<Rightarrow> obj" where
  "put_items L items kubepkgs = fold (\<lambda>item ks. AList.update (deployment_key L item) item ks) items kubepkgs"

text \<open>\<^verbatim>\<open>Object.assign((kubepkg.status ??= {}), { upgradable: true })\<close>.\<close>

definition assign_upgradable :: "js \<Rightarrow> js" where
  "assign_upgradable kubepkg =
     assign kubepkg ''status''
       (assign (coalesce (member kubepkg ''status'') (Obj [])) ''upgradable'' (Bool True))"

definition mark_upgradable :: "lodash \<Rightarrow> js \<Rightarrow> js \<Rightarrow> js" where
  "mark_upgradable L versionInfos kubepkg =
     (let info = member versionInfos (version_identity L kubepkg) in
      if truthy info \<and> \<not> loose_eq (member info ''revisionID'') (revision L kubepkg)
      then assign_upgradable kubepkg else kubepkg)"

definition put_status :: "lodash \<Rightarrow> js list \<Rightarrow> obj \<Rightarrow> obj" where
  "put_status L items kubepkgs =
     fold (\<lambda>item ks.
       let k = deployment_key L item in
       if truthy (obj_get ks k)
       then AList.update k (assign (obj_get ks k) ''status'' (member item ''status'')) ks
       else ks) items kubepkgs"

fun deployments_step ::
    "lodash \<Rightarrow> string \<Rightarrow> js \<Rightarrow> deployments_event \<Rightarrow> deployment_list \<Rightarrow> deployment_list" where
  "deployments_step L groupName env FiltersEmitted st =
     st\<lparr>dl_calls := dl_calls st @
       [call listGroupEnvDeployment
          [(''groupName'', Str groupName), (''envName'', member env ''envName''), (''size'', Num (-1))]]\<rparr>"
| "deployments_step L groupName env (ListLoaded items) st =
     st\<lparr>dl_kubepkgs := put_items L items (dl_kubepkgs st),
        dl_calls := dl_calls st @ list_calls L groupName env items\<rparr>"
| "deployments_step L groupName env (LatestLoaded versionInfos) st =
     st\<lparr>dl_kubepkgs := map (\<lambda>(k, kubepkg). (k, mark_upgradable L versionInfos kubepkg)) (dl_kubepkgs st)\<rparr>"
| "deployments_step L groupName env (DeployedLoaded items) st =
     st\<lparr>dl_kubepkgs := put_status L items (dl_kubepkgs st)\<rparr>"

definition run_deployments ::
    "lodash \<Rightarrow> string \<Rightarrow> js \<Rightarrow> deployments_event list \<Rightarrow> deployment_list" where
  "run_deployments L groupName env events = fold (deployments_step L groupName env) events deployments_init"

section \<open>What is shown\<close>

definition deploy_kind :: "js \<Rightarrow> js" where
  "deploy_kind k = member (member (member k ''spec'') ''deploy'') ''kind''"

definition deployment_name :: "js \<Rightarrow> js" where
  "deployment_name k = member (member k ''metadata'') ''name''"

definition is_config_kind :: "js \<Rightarrow> bool" where
  "is_config_kind k \<longleftrightarrow> k = Str ''ConfigMap'' \<or> k = Str ''Secret''"

definition group_keys :: "lodash_coll \<Rightarrow> (string \<times> js list) list \<Rightarrow> js list" where
  "group_keys C grouped =
     (let ordered = lc_order_by C (\<lambda>k. k) (map (\<lambda>g. Str (fst g)) grouped)
      in filter (\<lambda>k. \<not> is_config_kind k) ordered @ filter is_config_kind ordered)"

definition elements :: "(string \<times> js list) list \<Rightarrow> string \<Rightarrow> js list" where
  "elements grouped k = (case map_of grouped k of None \<Rightarrow> [] | Some xs \<Rightarrow> xs)"

definition deployments_view :: "lodash_coll \<Rightarrow> obj \<Rightarrow> (string \<times> js list) list" where
  "deployments_view C kubepkgs =
     (let grouped = lc_group_by C deploy_kind (map snd kubepkgs)
      in map (\<lambda>k. (to_str k, lc_order_by C deployment_name (elements grouped (to_str k))))
           (group_keys C grouped))"

section \<open>One deployment of the list\<close>

text \<open>
  \<^verbatim>\<open>GroupEnvDeploymentListItem\<close>: what the list passes, until an edit answers with the new
  deployment or a deletion succeeds; a deleted item is not shown.
\<close>

datatype item_event = PropsKubepkg js | DidPut js | DidDelete

fun item_step :: "item_event \<Rightarrow> js \<Rightarrow> js" where
  "item_step (PropsKubepkg k) cur = k"
| "item_step (DidPut k) cur = k"
| "item_step DidDelete cur = Null"

record item_heading =
  ih_kind :: js
  ih_name :: js
  ih_channel :: js
  ih_upgradable :: js
  ih_version :: js
  ih_kubepkgName :: js
  ih_deploymentID :: string
  ih_revision :: string
  ih_settingID :: string

definition item_view :: "lodash \<Rightarrow> js \<Rightarrow> item_heading option" where
  "item_view L kubepkg =
     (if \<not> truthy kubepkg then None
      else Some \<lparr>ih_kind = deploy_kind kubepkg, ih_name = deployment_name kubepkg,
             ih_channel = channel L kubepkg,
             ih_upgradable = member (member kubepkg ''status'') ''upgradable'',
             ih_version = member (member kubepkg ''spec'') ''version'',
             ih_kubepkgName = kubepkgName L kubepkg,
             ih_deploymentID = ''d'' @ to_str (deploymentID L kubepkg),
             ih_revision = ''r'' @ to_str (revision L kubepkg),
             ih_settingID = ''s'' @ to_str (deploymentSettingID L kubepkg)\<rparr>)"

section \<open>Deployments stay under their IDs\<close>

text \<open>The states the list can reach when the responses carry objects.\<close>

fun carries_objects :: "deployments_event \<Rightarrow> bool" where
  "carries_objects (ListLoaded items) = list_all is_plain_object items"
| "carries_objects e = True"

inductive deployments_reach :: "lodash \<Rightarrow> string \<Rightarrow> js \<Rightarrow> deployment_list \<Rightarrow> bool"
  for L groupName env where
  start: "deployments_reach L groupName env deployments_init"
| step: "deployments_reach L groupName env st \<Longrightarrow> carries_objects e \<Longrightarrow>
    deployments_reach L groupName env (deployments_step L groupName env e st)"

lemma reach_run:
  "list_all carries_objects events \<Longrightarrow> deployments_reach L groupName env (run_deployments L groupName env events)"
proof (induction events rule: rev_induct)
  case Nil
  show ?case by (simp add: run_deployments_def start)
next
  case (snoc e events)
  then show ?case by (simp add: run_deployments_def step)
qed

definition keyed :: "lodash \<Rightarrow> obj \<Rightarrow> bool" where
  "keyed L ks \<longleftrightarrow> distinct (map fst ks) \<and>
     (\<forall>p \<in> set ks. is_plain_object (snd p) \<and> deployment_key L (snd p) = fst p)"

lemma keyed_update:
  "keyed L ks \<Longrightarrow> is_plain_object v \<Longrightarrow> keyed L (AList.update (deployment_key L v) v ks)"
  using set_update_subset [of "deployment_key L v" v ks]
  by (auto simp: keyed_def distinct_update)

lemma keyed_put_items:
  "keyed L ks \<Longrightarrow> list_all is_plain_object items \<Longrightarrow> keyed L (put_items L items ks)"
  by (induction items arbitrary: ks) (auto simp: put_items_def intro: keyed_update)

lemma put_items_keys:
  "fst ` set (put_items L items ks) = fst ` set ks \<union> deployment_key L ` set items"
  by (induction items arbitrary: ks) (auto simp: put_items_def dom_update)

context lodash_api begin

lemma key_of_status:
  "is_plain_object v \<Longrightarrow> deployment_key L (assign v ''status'' x) = deployment_key L v"
  by (cases v) (simp_all add: deployment_key_def deploymentID_def get_eq ref_get_def obj_get_update)

lemma plain_assign [simp]: "is_plain_object v \<Longrightarrow> is_plain_object (assign v k x)"
  by (cases v) simp_all

lemma keyed_put_status: "keyed L ks \<Longrightarrow> keyed L (put_status L items ks)"
proof (induction items arbitrary: ks)
  case (Cons item items)
  let ?k = "deployment_key L item"
  have "keyed L (AList.update ?k (assign (obj_get ks ?k) ''status'' x) ks)" if "truthy (obj_get ks ?k)" for x
  proof -
    have "(?k, obj_get ks ?k) \<in> set ks"
      using that by (auto simp: obj_get_def split: option.splits dest: map_of_SomeD)
    then have v: "is_plain_object (obj_get ks ?k)" "deployment_key L (obj_get ks ?k) = ?k"
      using Cons.prems by (auto simp: keyed_def)
    show ?thesis
      using keyed_update [OF Cons.prems plain_assign [OF v(1)], of "''status''" x] key_of_status [OF v(1), of x] v(2)
      by simp
  qed
  with Cons show ?case by (simp add: put_status_def Let_def)
qed (simp add: put_status_def)

lemma put_status_keys: "fst ` set (put_status L items ks) = fst ` set ks"
proof (induction items arbitrary: ks)
  case (Cons item items)
  have "k \<in> fst ` set ks" if "truthy (obj_get ks k)" for k
    using that obj_get_absent [of ks k] by (cases "k \<in> fst ` set ks") (simp_all add: obj_has_def)
  with Cons show ?case by (auto simp: put_status_def Let_def dom_update)
qed (simp add: put_status_def)

lemma mark_upgradable_plain: "is_plain_object v \<Longrightarrow> is_plain_object (mark_upgradable L infos v)"
  by (simp add: mark_upgradable_def assign_upgradable_def Let_def)

lemma mark_upgradable_key:
  "is_plain_object v \<Longrightarrow> deployment_key L (mark_upgradable L infos v) = deployment_key L v"
  by (simp add: mark_upgradable_def assign_upgradable_def Let_def key_of_status)

lemma keyed_mark: "keyed L ks \<Longrightarrow> keyed L (map (\<lambda>(k, v). (k, mark_upgradable L infos v)) ks)"
  using keys_mapped [of "\<lambda>k. mark_upgradable L infos" ks]
  by (auto simp: keyed_def mark_upgradable_plain mark_upgradable_key simp del: map_map)

lemma keyed_step:
  "keyed L (dl_kubepkgs st) \<Longrightarrow> carries_objects e \<Longrightarrow> keyed L (dl_kubepkgs (deployments_step L groupName env e st))"
  by (cases e) (auto intro: keyed_put_items keyed_put_status keyed_mark)

end

lemma init_keyed: "keyed L (dl_kubepkgs deployments_init)"
  by (simp add: keyed_def deployments_init_def)

section \<open>Properties\<close>


definition demo_deployment :: "string \<Rightarrow> string \<Rightarrow> string \<Rightarrow> string \<Rightarrow> js" where
  "demo_deployment i kind name r =
     Obj [(''metadata'', Obj [(''name'', Str name),
            (''annotations'', Obj [(''kubepkg.innoai.tech/deploymentID'', Str i),
               (''kubepkg.innoai.tech/name'', Str (''g/'' @ name)),
               (''kubepkg.innoai.tech/revision'', Str r)])]),
          (''spec'', Obj [(''deploy'', Obj [(''kind'', Str kind)])])]"

definition demo_env :: js where
  "demo_env = Obj [(''envName'', Str ''dev''),
     (''cluster'', Obj [(''agentInfo'', Obj [(''endpoint'', Str ''http://agent'')])])]"

definition demo_items :: "js list" where
  "demo_items = [demo_deployment ''1'' ''Deployment'' ''web'' ''r1'', demo_deployment ''2'' ''ConfigMap'' ''cfg'' ''r1'']"

definition demo_latest :: js where
  "demo_latest = Obj [(''g/web@DEV'', Obj [(''revisionID'', Str ''r2'')])]"

definition demo_deployed :: "js list" where
  "demo_deployed = [Obj (AList.update ''status'' (Obj [(''phase'', Str ''ok'')])
     (own_props (demo_deployment ''1'' ''Deployment'' ''web'' ''r1'')))]"


text \<open>
  Every request the list makes, in every state it reaches, is one the client has, with all the
  inputs the operation requires and none it does not know.
\<close>

theorem deployments_calls_proper:
  assumes "deployments_reach L groupName env st" and "c \<in> set (dl_calls st)"
  shows "proper_call c"
proof -
  have new: "proper_call (call latestKubepkgs [(''names'', names)])"
    "proper_call (call listGroupEnvClusterDeployments [(''groupName'', g), (''envName'', n)])"
    "proper_call (call listGroupEnvDeployment [(''groupName'', g), (''envName'', n), (''size'', s)])" for names g n s
    by (rule proper_callI; simp add: call_simps)+
  have "proper_calls (dl_calls st)"
    using assms(1)
  proof (induction rule: deployments_reach.induct)
    case (step st e)
    then show ?case by (cases e) (simp_all add: list_calls_def new)
  qed (simp add: deployments_init_def)
  then show ?thesis using assms(2) by (rule proper_callsD)
qed

theorem deployments_calls_proper_witness:
  "proper_call (call latestKubepkgs [(''names'', Arr [Str ''g/web@DEV'', Str ''g/cfg@DEV''])])"
proof -
  have reach: "deployments_reach lodash_ref ''g'' demo_env (run_deployments lodash_ref ''g'' demo_env [ListLoaded demo_items])"
    by (rule reach_run) (simp add: demo_items_def demo_deployment_def)
  have "version_identity lodash_ref (demo_deployment i kind name r) = ''g/'' @ name @ ''@DEV''" for i kind name r
    by (simp add: version_identity_def kubepkgName_def channel_def demo_deployment_def lodash_ref_def ref_get_def obj_get_def)
  then show ?thesis
    by (intro deployments_calls_proper [OF reach])
      (simp add: run_deployments_def list_calls_def demo_items_def)
qed

section \<open>The view shows everything once\<close>

context collections begin

lemma group_keys_mset: "mset (group_keys C grouped) = image_mset Str (mset (map fst grouped))"
proof -
  have "mset (group_keys C grouped) = mset (lc_order_by C (\<lambda>k. k) (map (\<lambda>g. Str (fst g)) grouped))"
    by (simp add: group_keys_def Let_def add.commute)
  then show ?thesis by (simp add: order_mset image_mset.compositionality comp_def)
qed

lemma group_keys_names: "mset (map to_str (group_keys C grouped)) = mset (map fst grouped)"
  using arg_cong [OF group_keys_mset [of grouped], of "image_mset to_str"]
  by (simp add: image_mset.compositionality comp_def)

lemma ascending_filter: "ascending f xs \<Longrightarrow> ascending f (filter P xs)"
  by (simp add: ascending_def sorted_wrt_filter)

lemma group_keys_ordered:
  "\<exists>ws cs. group_keys C grouped = ws @ cs \<and> ascending (\<lambda>k. k) ws \<and> ascending (\<lambda>k. k) cs
    \<and> (\<forall>k \<in> set ws. \<not> is_config_kind k) \<and> (\<forall>k \<in> set cs. is_config_kind k)"
proof -
  let ?ordered = "lc_order_by C (\<lambda>k. k) (map (\<lambda>g. Str (fst g)) grouped)"
  have "ascending (\<lambda>k. k) ?ordered" by (rule order_ascending) (auto simp: string_keys_def)
  then show ?thesis
    by (intro exI [of _ "filter (\<lambda>k. \<not> is_config_kind k) ?ordered"] exI [of _ "filter is_config_kind ?ordered"])
      (simp add: group_keys_def Let_def ascending_filter)
qed

lemma view_groups:
  assumes "(k, xs) \<in> set (deployments_view C ks)"
  shows "xs = lc_order_by C deployment_name (groups_of deploy_kind (map snd ks) k)"
proof -
  let ?grouped = "lc_group_by C deploy_kind (map snd ks)"
  obtain k0 where k0: "k0 \<in> set (group_keys C ?grouped)" "k = to_str k0"
    "xs = lc_order_by C deployment_name (elements ?grouped k)"
    using assms by (auto simp: deployments_view_def Let_def)
  then have "k \<in># mset (map to_str (group_keys C ?grouped))" by simp
  then have "k \<in> fst ` set ?grouped" unfolding group_keys_names by simp
  then show ?thesis using group_at k0(3) by (simp add: elements_def)
qed

lemma view_keys:
  "mset (map fst (deployments_view C ks)) = mset (map fst (lc_group_by C deploy_kind (map snd ks)))"
  using group_keys_names by (simp add: deployments_view_def Let_def comp_def)

lemma view_keys_distinct: "distinct (map fst (deployments_view C ks))"
  using groups_distinct mset_eq_imp_distinct_iff [OF view_keys] by blast

lemma view_elements: "mset (concat (map snd (deployments_view C ks))) = mset (map snd ks)"
proof -
  let ?keys = "map fst (deployments_view C ks)"
  have "mset (concat (map snd (deployments_view C ks)))
      = mset (concat (map (\<lambda>g. groups_of deploy_kind (map snd ks) (fst g)) (deployments_view C ks)))"
  proof (rule mset_concat_map_cong)
    fix g
    assume "g \<in> set (deployments_view C ks)"
    then show "mset (snd g) = mset (groups_of deploy_kind (map snd ks) (fst g))"
      using view_groups [of "fst g" "snd g" ks] by (simp add: order_mset)
  qed
  also have "\<dots> = mset (concat (map (groups_of deploy_kind (map snd ks)) ?keys))" by (simp add: comp_def)
  also have "\<dots> = mset (map snd ks)"
  proof (rule mset_groups_all [OF view_keys_distinct])
    have "set ?keys = fst ` set (lc_group_by C deploy_kind (map snd ks))"
      using arg_cong [OF view_keys [of ks], of set_mset] by simp
    then show "(\<lambda>x. to_str (deploy_kind x)) ` set (map snd ks) \<subseteq> set ?keys" by (simp add: groups_keys)
  qed
  finally show ?thesis .
qed

end

text \<open>
  C19. The list shows every deployment it has once, in one group per kind; workloads come before
  configurations, both in the order of their kinds, and the deployments of a group in the order
  of their names.
\<close>

theorem deployments_view_complete:
  assumes "lodash_coll_ok C"
  shows "mset (concat (map snd (deployments_view C ks))) = mset (map snd ks)
    \<and> distinct (map fst (deployments_view C ks))
    \<and> (\<exists>ws cs. map fst (deployments_view C ks) = map to_str (ws @ cs)
         \<and> ascending (\<lambda>k. k) ws \<and> ascending (\<lambda>k. k) cs
         \<and> (\<forall>k \<in> set ws. \<not> is_config_kind k) \<and> (\<forall>k \<in> set cs. is_config_kind k))
    \<and> (\<forall>(k, xs) \<in> set (deployments_view C ks).
         (\<forall>x \<in> set xs. to_str (deploy_kind x) = k)
         \<and> (string_keys deployment_name xs \<longrightarrow> ascending deployment_name xs))"
proof -
  note coll = collectionsI [OF assms]
  have groups: "(\<forall>x \<in> set xs. to_str (deploy_kind x) = k)
      \<and> (string_keys deployment_name xs \<longrightarrow> ascending deployment_name xs)"
    if "(k, xs) \<in> set (deployments_view C ks)" for k xs
  proof -
    let ?g = "groups_of deploy_kind (map snd ks) k"
    have xs: "xs = lc_order_by C deployment_name ?g" by (rule collections.view_groups [OF coll that])
    then have "set xs = set ?g" by (simp add: collections.order_set [OF coll])
    then show ?thesis
      using collections.order_ascending [OF coll, of deployment_name ?g] xs
      by (auto simp: groups_of_def string_keys_def)
  qed
  obtain ws cs where keys: "group_keys C (lc_group_by C deploy_kind (map snd ks)) = ws @ cs"
    "ascending (\<lambda>k. k) ws" "ascending (\<lambda>k. k) cs"
    "\<forall>k \<in> set ws. \<not> is_config_kind k" "\<forall>k \<in> set cs. is_config_kind k"
    using collections.group_keys_ordered [OF coll] by blast
  then have "map fst (deployments_view C ks) = map to_str (ws @ cs)"
    by (simp add: deployments_view_def Let_def comp_def)
  with keys(2-) groups show ?thesis
    using collections.view_elements [OF coll] collections.view_keys_distinct [OF coll] by blast
qed

theorem deployments_view_complete_witness:
  "mset (concat (map snd (deployments_view lodash_coll_ref (map (Pair []) demo_items)))) = mset demo_items"
  using deployments_view_complete [OF lodash_coll_ref_ok, of "map (Pair []) demo_items"] by (simp add: comp_def)

lemma demo_view:
  "map (\<lambda>(k, xs). (k, map deployment_name xs)) (deployments_view lodash_coll_ref (map (Pair []) demo_items))
     = [(''Deployment'', [Str ''web'']), (''ConfigMap'', [Str ''cfg''])]"
  by code_simp

text \<open>
  The two answers to a list do not commute: the report of the cluster replaces the whole status,
  so an update is announced only when it arrives before the latest versions do.
\<close>

definition demo_upgradable :: "deployments_event list \<Rightarrow> js" where
  "demo_upgradable events =
     member (member (obj_get (dl_kubepkgs (run_deployments lodash_ref ''g'' demo_env events)) ''1'') ''status'') ''upgradable''"

lemma upgradable_depends_on_order:
  "demo_upgradable [ListLoaded demo_items, DeployedLoaded demo_deployed, LatestLoaded demo_latest] = Bool True"
  "demo_upgradable [ListLoaded demo_items, LatestLoaded demo_latest, DeployedLoaded demo_deployed] = Undef"
  by code_simp+

end
