(* ===== verification/Deployment_Put.thy ===== *)
theory Deployment_Put
  imports Env_Deployments
begin

text \<open>
  \<^verbatim>\<open>webapp/dashboard/mod/groupenv/actions/GroupEnvDeploymentPut.tsx\<close> and
  \<^verbatim>\<open>GroupEnvDeploymentHistoryPut.tsx\<close>: creating and editing a deployment. The dialog loads the
  revision its filters name as a template, shows the template with the overwrites of the
  deployment on top of it, and puts what the editor submits; the history dialog does the same with
  an earlier setting. \<^verbatim>\<open>GroupEnvDeploymentCreate.tsx\<close> is the page without a deployment.
\<close>

section \<open>Editing a deployment\<close>

text \<open>
  The dialog of one deployment, or of none when one is created. Every change of the filters is
  an emission, which after mounting asks for the revision they name, if they do.
\<close>

record put_filters =
  pf_groupName :: js
  pf_kubepkgName :: js
  pf_channel :: js
  pf_revisionID :: js

record put_state =
  pt_mounted :: bool
  pt_filters :: put_filters
  pt_template :: js
  pt_overwrites :: js
  pt_failed :: string
  pt_calls :: "call list"
  pt_open :: bool

datatype put_event =
    Mounted
  | SelectKubepkg string
  | SelectChannel js
  | SelectRevision js
  | RevisionLoaded js
  | RevisionFailed string
  | Submitted js
  | PutDone
  | OpenDialog
  | CloseDialog

definition default_filters :: put_filters where
  "default_filters =
     \<lparr>pf_groupName = Str '''', pf_kubepkgName = Str '''', pf_channel = Str ''DEV'', pf_revisionID = Str ''''\<rparr>"

definition empty_template :: js where
  "empty_template =
     Obj [(''kind'', Str ''KubePkg''), (''apiVersion'', Str ''octohelm.tech/v1alpha1''),
          (''metadata'', Obj []), (''spec'', Obj [(''version'', Str '''')])]"

text \<open>The filters a deployment sets: where its version came from.\<close>

definition filters_of :: "version_and_setting \<Rightarrow> put_filters" where
  "filters_of v =
     \<lparr>pf_groupName = Str (vs_groupName v), pf_kubepkgName = Str (vs_kubepkgName v),
      pf_channel = vs_kubepkgChannel v, pf_revisionID = vs_revisionID v\<rparr>"

text \<open>The announcement of a template that could not be loaded, up to its message.\<close>

definition template_failed_prefix :: string where
  "template_failed_prefix =
     [CHR 0xE6, CHR 0xA8, CHR 0xA1, CHR 0xE6, CHR 0x9D, CHR 0xBF, CHR 0xE8, CHR 0x8E, CHR 0xB7, CHR 0xE5, CHR 0x8F, CHR 0x96, CHR 0xE5, CHR 0xBC, CHR 0x82, CHR 0xE5, CHR 0xB8, CHR 0xB8] @ '': ''"

definition put_init :: "lodash \<Rightarrow> js option \<Rightarrow> js_error + put_state" where
  "put_init L kubepkg =
     (case (case kubepkg of
              None \<Rightarrow> Inr default_filters
            | Some k \<Rightarrow> map_sum id filters_of (resolveKubePkgVersionAndSetting L k)) of
        Inl e \<Rightarrow> Inl e
      | Inr fs \<Rightarrow>
          Inr \<lparr>pt_mounted = False, pt_filters = fs, pt_template = empty_template, pt_overwrites = Obj [],
               pt_failed = [], pt_calls = [], pt_open = False\<rparr>)"

definition revision_call :: "put_filters \<Rightarrow> call list" where
  "revision_call fs =
     (if truthy (pf_groupName fs) \<and> truthy (pf_revisionID fs)
      then [call getKubepkgRevision
              [(''groupName'', pf_groupName fs), (''name'', pf_kubepkgName fs),
               (''channel'', pf_channel fs), (''revisionID'', pf_revisionID fs)]]
      else [])"

definition filters_emitted :: "put_filters \<Rightarrow> put_state \<Rightarrow> put_state" where
  "filters_emitted fs st =
     st\<lparr>pt_filters := fs, pt_calls := pt_calls st @ (if pt_mounted st then revision_call fs else [])\<rparr>"

text \<open>\<^verbatim>\<open>const [groupName, kubepkgName] = groupKubepkgName.split("/")\<close>.\<close>

definition select_kubepkg :: "string \<Rightarrow> put_filters \<Rightarrow> put_filters" where
  "select_kubepkg s fs =
     (let parts = split_on (CHR ''/'') s in
      fs\<lparr>pf_groupName := Str (hd parts),
         pf_kubepkgName := (case parts of _ # n # _ \<Rightarrow> Str n | _ \<Rightarrow> Undef)\<rparr>)"

fun put_step :: "lodash \<Rightarrow> string \<Rightarrow> string \<Rightarrow> js option \<Rightarrow> put_event \<Rightarrow> put_state \<Rightarrow> put_state" where
  "put_step L groupName envName kubepkg Mounted st =
     filters_emitted (pt_filters st) (st\<lparr>pt_mounted := True\<rparr>)"
| "put_step L groupName envName kubepkg (SelectKubepkg s) st = filters_emitted (select_kubepkg s (pt_filters st)) st"
| "put_step L groupName envName kubepkg (SelectChannel c) st = filters_emitted (pt_filters st\<lparr>pf_channel := c\<rparr>) st"
| "put_step L groupName envName kubepkg (SelectRevision v) st =
     filters_emitted (pt_filters st\<lparr>pf_revisionID := v\<rparr>) st"
| "put_step L groupName envName kubepkg (RevisionLoaded body) st =
     st\<lparr>pt_failed := [], pt_template := body,
        pt_overwrites :=
          (case kubepkg of
             None \<Rightarrow> pt_overwrites st
           | Some k \<Rightarrow>
               if loose_eq (revision L k) (revision L body) then diffAsOverwrites L body k
               else pt_overwrites st)\<rparr>"
| "put_step L groupName envName kubepkg (RevisionFailed msg) st = st\<lparr>pt_failed := template_failed_prefix @ msg\<rparr>"
| "put_step L groupName envName kubepkg (Submitted body) st =
     st\<lparr>pt_calls := pt_calls st @
          [call putGroupEnvDeployment
             [(''groupName'', Str groupName), (''envName'', Str envName), (''body'', body)]]\<rparr>"
| "put_step L groupName envName kubepkg PutDone st = st\<lparr>pt_open := False\<rparr>"
| "put_step L groupName envName kubepkg OpenDialog st = st\<lparr>pt_open := True\<rparr>"
| "put_step L groupName envName kubepkg CloseDialog st = st\<lparr>pt_open := False\<rparr>"

text \<open>\<^verbatim>\<open>omit(v, [k])\<close>: the properties of \<open>v\<close> but \<open>k\<close>.\<close>

definition omit_key :: "string \<Rightarrow> js \<Rightarrow> js" where
  "omit_key k v = Obj (AList.delete k (own_props v))"

text \<open>What the editor is given: the template and the overwrites; or nothing is shown.\<close>

definition put_editor :: "lodash \<Rightarrow> js option \<Rightarrow> put_state \<Rightarrow> (js \<times> js) option" where
  "put_editor L kubepkg st =
     (case kubepkg of
        None \<Rightarrow> Some (pt_template st, Obj [])
      | Some k \<Rightarrow>
          if truthy (revision L (pt_template st)) \<and> truthy (member (member (pt_template st) ''spec'') ''version'')
          then Some (pt_template st,
                 Obj [(''metadata'', Obj [(''name'',
                         coalesce (member (member k ''metadata'') ''name'')
                           (member (member (pt_overwrites st) ''metadata'') ''name''))]),
                      (''spec'', omit_key ''version'' (member (pt_overwrites st) ''spec''))])
          else None)"

text \<open>The name of the kubepkg in the toolbar, and whether its versions are listed.\<close>

definition toolbar_name :: "put_filters \<Rightarrow> string" where
  "toolbar_name fs =
     join ''/'' ((if truthy (pf_groupName fs) then [to_str (pf_groupName fs)] else [])
       @ (if truthy (pf_kubepkgName fs) then [to_str (pf_kubepkgName fs)] else []))"

definition shows_versions :: "put_filters \<Rightarrow> bool" where
  "shows_versions fs \<longleftrightarrow> truthy (pf_groupName fs) \<and> truthy (pf_kubepkgName fs)"

text \<open>What an edit reports to the list: the response with its overwrites merged in.\<close>

definition did_put :: "lodash \<Rightarrow> (string \<Rightarrow> js option) \<Rightarrow> js \<Rightarrow> js" where
  "did_put L json_parse body = mergeOverwritesIfExists L json_parse body"

section \<open>The history of a deployment\<close>

record history_state =
  hs_kubepkg :: js
  hs_history :: "js list"
  hs_calls :: "call list"

datatype history_event =
    HistoryMounted
  | HistoryLoaded "js list"
  | HistorySelected js
  | HistorySubmitted js

fun history_step :: "lodash \<Rightarrow> string \<Rightarrow> string \<Rightarrow> js \<Rightarrow> history_event \<Rightarrow> history_state \<Rightarrow> history_state" where
  "history_step L groupName envName kubepkg HistoryMounted st =
     st\<lparr>hs_calls := hs_calls st @
          [call listGroupEnvDeploymentHistory
             [(''groupName'', Str groupName), (''envName'', Str envName),
              (''deploymentID'', deploymentID L kubepkg), (''size'', Num (-1))]]\<rparr>"
| "history_step L groupName envName kubepkg (HistoryLoaded body) st = st\<lparr>hs_history := body\<rparr>"
| "history_step L groupName envName kubepkg (HistorySelected k) st = st\<lparr>hs_kubepkg := k\<rparr>"
| "history_step L groupName envName kubepkg (HistorySubmitted body) st =
     st\<lparr>hs_calls := hs_calls st @
          [call putGroupEnvDeployment
             [(''groupName'', Str groupName), (''envName'', Str envName), (''body'', body)]]\<rparr>"

text \<open>The rows of the history: which is active, the setting and the version.\<close>

definition history_rows :: "lodash \<Rightarrow> history_state \<Rightarrow> (bool \<times> string \<times> js) list" where
  "history_rows L st =
     map (\<lambda>k. (deploymentRevision L k = deploymentRevision L (hs_kubepkg st),
               ''s'' @ to_str (deploymentSettingID L k), member (member k ''spec'') ''version''))
       (hs_history st)"

definition pick_keys :: "string list \<Rightarrow> js \<Rightarrow> js" where
  "pick_keys ks v = Obj (map (\<lambda>k. (k, member v k)) (filter (has_own v) ks))"

definition history_editor :: "lodash \<Rightarrow> (string \<Rightarrow> js option) \<Rightarrow> js \<Rightarrow> js \<times> js" where
  "history_editor L json_parse kubepkg =
     (let t = pick_keys [''kind'', ''apiVersion'', ''metadata'', ''spec''] kubepkg;
          overwrites = getAnnotation L t annotationKubepkgOverwrites;
          annotations = omit_key annotationKubepkgOverwrites (coalesce (member (member t ''metadata'') ''annotations'') (Obj []))
      in (Obj (spread (own_props t)
            [(''metadata'', Obj (spread (own_props (member t ''metadata'')) [(''annotations'', annotations)]))]),
          parseOverwrites json_parse (to_str overwrites)))"

section \<open>Requests\<close>

lemma put_calls_proper:
  "proper_call (call getKubepkgRevision [(''groupName'', g), (''name'', n), (''channel'', c), (''revisionID'', r)])"
  "proper_call (call putGroupEnvDeployment [(''groupName'', g), (''envName'', n), (''body'', b)])"
  "proper_call (call listGroupEnvDeploymentHistory
     [(''groupName'', g), (''envName'', n), (''deploymentID'', d), (''size'', s)])"
  by (rule proper_callI; simp add: call_simps)+

inductive put_reach :: "lodash \<Rightarrow> string \<Rightarrow> string \<Rightarrow> js option \<Rightarrow> put_state \<Rightarrow> bool"
  for L groupName envName kubepkg where
  created: "put_init L kubepkg = Inr st \<Longrightarrow> put_reach L groupName envName kubepkg st"
| stepped: "put_reach L groupName envName kubepkg st \<Longrightarrow>
    put_reach L groupName envName kubepkg (put_step L groupName envName kubepkg e st)"

lemma put_reach_calls: "put_reach L groupName envName kubepkg st \<Longrightarrow> proper_calls (pt_calls st)"
proof (induction rule: put_reach.induct)
  case (created st)
  then show ?case by (auto simp: put_init_def split: sum.splits)
next
  case (stepped st e)
  then show ?case by (cases e) (auto simp: filters_emitted_def revision_call_def put_calls_proper)
qed

section \<open>The editor shows the deployment\<close>

lemma wf_member: "wf_js v \<Longrightarrow> wf_js (member v k)"
proof (cases v)
  case (Obj kvs)
  then show "wf_js v \<Longrightarrow> wf_js (member v k)" using wf_obj_get by simp
qed (auto split: option.splits)

lemma wf_assign: "wf_js v \<Longrightarrow> wf_js x \<Longrightarrow> wf_js (assign v k x)"
proof (cases v)
  case (Obj kvs)
  assume "wf_js v" "wf_js x"
  with Obj show ?thesis using set_update_subset [of k x kvs] by (auto simp: distinct_update)
next
  case (Arr xs)
  assume "wf_js v" "wf_js x"
  with Arr show ?thesis
    using set_update_subset_insert [of xs _ x] by (fastforce simp: arr_set_def split: option.splits)
qed simp_all

lemma wf_ref_set: "wf_js v \<Longrightarrow> wf_js x \<Longrightarrow> wf_js (ref_set v p x)"
  by (induction v p x rule: ref_set.induct)
    (auto simp: Let_def fresh_container_def wf_member split: option.splits intro!: wf_assign)

lemma delta_values_wf: "wf_js r \<Longrightarrow> (p, t, v, w) \<in> set (delta L r l) \<Longrightarrow> wf_js v"
proof (induction L r l arbitrary: p rule: delta.induct)
  case (1 L rs l)
  show ?case
  proof (cases l)
    case (Obj ls)
    show ?thesis
    proof (cases "(p, t, v, w) \<in> set (deletions rs ls)")
      case False
      then obtain k rr q where k: "(k, rr) \<in> set rs" "(q, t, v, w) \<in> set (delta L rr (obj_get ls k))"
        using "1.prems"(2) Obj by (auto simp: under_def)
      show ?thesis using "1.IH" [OF Obj k(1) refl _ k(2)] "1.prems"(1) k(1) by auto
    qed (auto simp: deletions_def)
  qed (use "1.prems" in \<open>auto simp: delta_leaf_def split: if_splits\<close>)
qed (auto simp: delta_leaf_def split: if_splits)

lemma wf_clone: "wf_js v \<Longrightarrow> wf_js (cloneWithoutNull v)"
proof (induction v rule: cloneWithoutNull.induct)
  case (1 kvs)
  have keys: "map fst (map (\<lambda>(k, v). (k, cloneWithoutNull v)) kvs) = map fst kvs"
    by (rule keys_mapped)
  then have "distinct (map fst (filter (\<lambda>p. snd p \<noteq> Null) (map (\<lambda>(k, v). (k, cloneWithoutNull v)) kvs)))"
    using "1.prems" distinct_map_filter by (metis wf_js.simps(1))
  with 1 show ?case by auto
qed auto

context lodash_api begin

lemma wf_apply_changes:
  "\<forall>(k, t, v, w) \<in> set changes. wf_js v \<Longrightarrow> wf_js base \<Longrightarrow> wf_js (apply_changes L changes base)"
proof (induction changes arbitrary: base)
  case (Cons c changes)
  obtain k t v w where c: "c = (k, t, v, w)" by (cases c)
  with Cons.prems have "wf_js (lo_set L base (split_on (CHR ''/'') (drop 1 k)) v)"
    by (simp add: set_eq wf_ref_set)
  with Cons c show ?case by (simp add: apply_changes_def)
qed (simp add: apply_changes_def)

lemma wf_diffAsOverwrites:
  assumes "restorable kubepkg overwrites"
  shows "wf_js (diffAsOverwrites L kubepkg overwrites)"
proof -
  let ?k = "member kubepkg ''spec''" and ?o = "member overwrites ''spec''"
  let ?r = "Obj [(''spec'', ?o)]" and ?l = "Obj [(''spec'', ?k)]"
  have wf: "wf_js ?o" "wf_js ?k" "wf_js (member ?k ''config'')"
    using assms wf_member json_wf by (auto simp: restorable_def)
  obtain cfg where cfg: "member ?k ''config'' = Obj cfg"
    using assms by (auto simp: restorable_def elim: is_plain_objectE)
  then have "overwrite_base ?k = Obj [(''spec'', Obj [(''config'', Obj cfg)])]"
    using wf(3) by (simp add: overwrite_base_def spread_own)
  then have base: "wf_js (overwrite_base ?k)" using wf(3) cfg by simp
  have docs: "wf_js ?r" "wf_js ?l" using wf by simp_all
  have "\<forall>(k, t, v, w) \<in> set (diff L ?r ?l). wf_js v"
    unfolding diff_eq_delta [OF docs] using delta_values_wf [OF docs(1)] by (auto simp del: delta.simps)
  from wf_clone [OF wf_apply_changes [OF this base]] show ?thesis
    by (simp only: diffAsOverwrites_def Let_def)
qed

end

text \<open>What merging and cloning keep.\<close>

lemma wf_merge:
  "wf_js d \<Longrightarrow> wf_js s \<Longrightarrow> wf_js (ref_merge d s)"
  "wf_js (Obj ds) \<Longrightarrow> wf_js (Obj ss) \<Longrightarrow> wf_js (Obj (merge_props ds ss))"
  "wf_js (Arr xs) \<Longrightarrow> wf_js (Arr ys) \<Longrightarrow> wf_js (Arr (merge_elems xs ys))"
proof (induction d s and ds ss and xs ys rule: ref_merge_merge_props_merge_elems.induct)
  case (1 d ss)
  then show ?case by (cases d) simp_all
next
  case (2 d ys)
  then show ?case by (cases d) simp_all
next
  case (6 ds k s ss)
  have "wf_js (ref_merge (obj_get ds k) s)" if "\<not> (s = Undef \<and> obj_has ds k)"
    using 6 that wf_obj_get by simp
  then have "wf_js (Obj (AList.update k (ref_merge (obj_get ds k) s) ds))" if "\<not> (s = Undef \<and> obj_has ds k)"
    using 6 that set_update_subset [of k "ref_merge (obj_get ds k) s" ds] by (fastforce simp: distinct_update)
  with 6 show ?case by auto
next
  case (3 d)
  then show ?case by simp
next
  case (8 y ys)
  have "wf_js (ref_merge Undef y)" by (rule 8(1)) (use 8(4) in simp_all)
  moreover have "wf_js (Arr (merge_elems [] ys))" by (rule 8(2)) (use 8(4) in simp_all)
  ultimately show ?case by simp
next
  case (9 x xs y ys)
  have "wf_js (ref_merge x y)" by (rule 9(1)) (use 9(3,4) in simp_all)
  moreover have "wf_js (Arr (merge_elems xs ys))" by (rule 9(2)) (use 9(3,4) in simp_all)
  ultimately show ?case by simp
qed (simp_all only: merge_elems.simps merge_props.simps ref_merge.simps)

lemma json_objI:
  assumes "distinct (map fst kvs)" and "\<And>k. obj_has kvs k \<Longrightarrow> json (obj_get kvs k)"
  shows "json (Obj kvs)"
proof -
  have "json v" if "(k, v) \<in> set kvs" for k v
    using assms that by (force simp: obj_has_def obj_get_def)
  then show ?thesis using assms(1) by auto
qed

lemma json_of_equal: "ref_is_equal a b \<Longrightarrow> wf_js a \<Longrightarrow> json b \<Longrightarrow> json a"
proof (induction a arbitrary: b)
  case (Arr xs)
  then obtain ys where b: "b = Arr ys" "length xs = length ys" by (cases b) auto
  have "json (xs ! i)" if i: "i < length xs" for i
  proof -
    have "(xs ! i, ys ! i) \<in> set (zip xs ys)" using i b(2) by (auto simp: set_zip)
    then have "ref_is_equal (xs ! i) (ys ! i)" using Arr.prems(1) b by auto
    moreover have "xs ! i \<in> set xs" "ys ! i \<in> set ys" using i b(2) by auto
    ultimately show ?thesis using Arr.IH [of "xs ! i" "ys ! i"] Arr.prems b by auto
  qed
  then show ?case by (auto simp: in_set_conv_nth)
next
  case (Obj as)
  then obtain bs where b: "b = Obj bs" by (cases b) auto
  have "json v" if p: "(k, v) \<in> set as" for k v
  proof -
    obtain w where w: "map_of bs k = Some w" "ref_is_equal v w"
      using Obj.prems(1) b p by (fastforce split: option.splits)
    then have "json w" using Obj.prems(3) b by (auto dest: map_of_SomeD)
    with Obj.IH [OF p, of v] w(2) Obj.prems(2) p show ?thesis by auto
  qed
  then show ?case using Obj.prems(2) by auto
qed auto

lemma json_clone: "json v \<Longrightarrow> json (cloneWithoutNull v)"
proof (induction v rule: cloneWithoutNull.induct)
  case (1 kvs)
  then show ?case using wf_clone [OF json_wf [OF "1.prems"]] by auto
qed auto

lemma json_update: "json (Obj kvs) \<Longrightarrow> json v \<Longrightarrow> json (Obj (AList.update k v kvs))"
  using set_update_subset [of k v kvs] by (fastforce simp: distinct_update)

text \<open>Merging overwrites of a name and a part of a \<open>spec\<close> into a template.\<close>

lemma obj_get_delete_eq: "obj_get (AList.delete k ss) k' = (if k' = k then Undef else obj_get ss k')"
  by (simp add: obj_get_def delete_conv')

lemma merge_without_key:
  assumes "distinct (map fst ks)" and "distinct (map fst ss)" and "distinct (map fst os)"
    and "ref_is_equal (ref_merge (Obj ks) (Obj ss)) (Obj os)"
    and "obj_get ks k = Str v" and "obj_get os k = Str v"
  shows "ref_is_equal (ref_merge (Obj ks) (Obj (AList.delete k ss))) (Obj os)"
proof -
  have d: "distinct (map fst (AList.delete k ss))" using assms(2) by (rule distinct_delete)
  note full = merge_props_spec [OF assms(1,2)] and part = merge_props_spec [OF assms(1) d]
  have eq: "ref_is_equal (Obj (merge_props ks ss)) (Obj os)" using assms(4) by simp
  note keys = ref_is_equal_objD [OF eq conjunct1 [OF full] assms(3)]
  have has: "obj_has ks k" using assms(5) obj_get_absent [of ks k] by (cases "obj_has ks k") auto
  have same: "obj_has (AList.delete k ss) k' \<longleftrightarrow> k' \<noteq> k \<and> obj_has ss k'" for k'
    by (rule obj_has_delete)
  have "ref_is_equal (Obj (merge_props ks (AList.delete k ss))) (Obj os)"
  proof (rule ref_is_equal_objI [OF conjunct1 [OF part] assms(3)])
    show "obj_has (merge_props ks (AList.delete k ss)) k' \<longleftrightarrow> obj_has os k'" for k'
      using keys(1) [of k'] full part same has by (cases "k' = k") auto
    show "ref_is_equal (obj_get (merge_props ks (AList.delete k ss)) k') (obj_get os k')"
      if "obj_has (merge_props ks (AList.delete k ss)) k'" for k'
    proof (cases "k' = k")
      case True
      then show ?thesis using part assms(5,6) by (simp add: obj_get_delete_eq)
    next
      case False
      then have "obj_has (merge_props ks ss) k'" using that full part same by auto
      then show ?thesis using keys(2) [of k'] full part False by (simp add: obj_get_delete_eq)
    qed
  qed
  then show ?thesis by simp
qed

lemma merge_name_and_spec:
  assumes "lodash_ok L" and "is_plain_object template" and "json template"
    and "member template ''metadata'' = Obj ms" and "member template ''spec'' = Obj ks"
    and "mergeable (Obj ks) (Obj ss)"
    and "ref_is_equal (ref_merge (Obj ks) (Obj ss)) doc" and "null_free doc" and "doc \<noteq> Null"
    and "json doc" and "wf_js (Obj ss)"
  shows "json (editorDocument L template (Obj [(''metadata'', Obj [(''name'', Str name)]), (''spec'', Obj ss)]))
    \<and> ref_is_equal (member (editorDocument L template
        (Obj [(''metadata'', Obj [(''name'', Str name)]), (''spec'', Obj ss)])) ''spec'') doc
    \<and> member (member (editorDocument L template
        (Obj [(''metadata'', Obj [(''name'', Str name)]), (''spec'', Obj ss)])) ''metadata'') ''name'' = Str name"
proof -
  note api = lodash_apiI [OF assms(1)]
  let ?over = "[(''metadata'', Obj [(''name'', Str name)]), (''spec'', Obj ss)]"
  obtain kk where kk: "template = Obj kk" "distinct (map fst kk)" "wf_js (Obj kk)"
    using assms(2,3) json_wf by (auto elim!: is_plain_objectE)
  have d: "distinct (map fst ?over)" by simp
  note merged = merge_props_spec [OF kk(2) d]
  define ps where "ps = merge_props kk ?over"
  have ps: "distinct (map fst ps)" "obj_get ps ''spec'' = ref_merge (Obj ks) (Obj ss)"
    "obj_get ps ''metadata'' = ref_merge (Obj ms) (Obj [(''name'', Str name)])"
    using merged kk(1) assms(4,5) by (simp_all add: ps_def obj_get_def [of ?over] del: ref_merge.simps)
  have "mergeable template (Obj ?over)"
    using assms(4,5,6) kk(1) by (simp del: ref_merge.simps)
  then have shown: "editorDocument L template (Obj ?over) = cloneWithoutNull (Obj ps)"
    using kk json_merge_empty [OF assms(2,3)] lodash_api.merge_eq [OF api]
    by (simp add: editorDocument_def ps_def del: cloneWithoutNull.simps merge_props.simps)
  have wfm: "distinct (map fst ms)" using kk(1,3) assms(4) wf_member [of template "''metadata''"] by simp
  obtain qs where qs: "ref_merge (Obj ms) (Obj [(''name'', Str name)]) = Obj qs" "distinct (map fst qs)"
    "\<And>k'. obj_get qs k' = (if k' = ''name'' then ref_merge (obj_get ms ''name'') (Str name) else obj_get ms k')"
    using merge_one_prop [OF wfm, of "''name''" "Str name"] by blast
  have "null_free (ref_merge (Obj ks) (Obj ss))" using ref_is_equal_null_free [OF assms(7,8)] by blast
  then have "member (editorDocument L template (Obj ?over)) ''spec'' = ref_merge (Obj ks) (Obj ss)"
    unfolding shown by (simp add: member_clone [OF ps(1)] ps(2) cloneWithoutNull_id del: cloneWithoutNull.simps)
  moreover have "member (member (editorDocument L template (Obj ?over)) ''metadata'') ''name'' = Str name"
    unfolding shown member_clone [OF ps(1)] ps(3) qs(1)
    by (simp add: member_clone [OF qs(2)] qs(3) del: cloneWithoutNull.simps) simp
  moreover have "json (Obj ps)"
  proof (rule json_objI [OF ps(1)])
    fix k assume has: "obj_has ps k"
    have jt: "json (Obj kk)" using assms(3) kk(1) by simp
    show "json (obj_get ps k)"
    proof (cases "k = ''spec'' \<or> k = ''metadata''")
      case True
      have "wf_js (Obj ks)" using wf_member [of template "''spec''"] kk(1,3) assms(5) by simp
      then have "json (ref_merge (Obj ks) (Obj ss))" using assms(7,10,11) json_of_equal wf_merge(1) by blast
      moreover have "json (Obj ms)"
        using json_obj_get [OF jt, of "''metadata''"] obj_get_absent [of kk "''metadata''"] assms(4) kk(1)
        by (cases "obj_has kk ''metadata''") auto
      then have "json (ref_merge (Obj ms) (Obj [(''name'', Str name)]))"
        using json_update [of ms "Str name" "''name''"] by simp
      ultimately show ?thesis using True ps(2,3) by auto
    next
      case False
      then have "obj_has kk k" "obj_get ps k = obj_get kk k"
        using has merged by (auto simp: ps_def obj_has_def [of ?over] obj_get_def [of ?over] simp del: merge_props.simps)
      then show ?thesis using json_obj_get [OF jt] by simp
    qed
  qed
  then have "json (editorDocument L template (Obj ?over))" unfolding shown by (rule json_clone)
  ultimately show ?thesis using assms(7) by simp
qed

lemma deployment_shown:
  assumes "lodash_ok L" and "restorable template kubepkg"
    and "loose_eq (revision L kubepkg) (revision L template)"
    and "member (member template ''spec'') ''version'' = Str v"
    and "member (member kubepkg ''spec'') ''version'' = Str v"
    and "member (member kubepkg ''metadata'') ''name'' = Str name"
    and "is_plain_object (member template ''metadata'')"
    and "put_editor L (Some kubepkg) (put_step L groupName envName (Some kubepkg) (RevisionLoaded template) st) = Some (t, ov)"
  shows "json (editorDocument L t ov)
    \<and> ref_is_equal (member (editorDocument L t ov) ''spec'') (member kubepkg ''spec'')
    \<and> member (member (editorDocument L t ov) ''metadata'') ''name'' = Str name"
proof -
  note api = lodash_apiI [OF assms(1)]
  obtain s where s: "diffAsOverwrites L template kubepkg = Obj [(''spec'', s)]"
    "mergeable (member template ''spec'') s"
    "ref_is_equal (ref_merge (member template ''spec'') s) (member kubepkg ''spec'')"
    using lodash_api.diffAsOverwrites_spec [OF api assms(2)] .
  obtain ms where ms: "member template ''metadata'' = Obj ms" using assms(7) by (auto elim!: is_plain_objectE)
  obtain os where os: "member kubepkg ''spec'' = Obj os"
    using assms(2) by (auto simp: restorable_def elim!: is_plain_objectE)
  obtain ks where ks: "member template ''spec'' = Obj ks"
    using assms(4) by (cases "member template ''spec''") (simp_all add: array_index_def is_digit_def)
  have json: "is_plain_object template" "json template" "null_free (member kubepkg ''spec'')" "wf_js (Obj os)"
    using assms(2) os json_wf by (auto simp: restorable_def)
  then have wfk: "wf_js (Obj ks)" using wf_member [of template "''spec''"] ks json_wf by simp
  have "wf_js (Obj [(''spec'', s)])"
    using lodash_api.wf_diffAsOverwrites [OF api assms(2)] unfolding s(1) .
  then have wfs: "wf_js s" by simp
  have "s = Undef \<or> (\<exists>ss. s = Obj ss)" using s(3) os ks by (cases s) auto
  then obtain ss where ss: "own_props s = ss" "distinct (map fst ss)" "mergeable (Obj ks) (Obj ss)"
    "ref_is_equal (ref_merge (Obj ks) (Obj ss)) (Obj os)"
    using wfs s(2,3) ks os by auto
  let ?ss = "AList.delete ''version'' ss"
  have "ref_is_equal (ref_merge (Obj ks) (Obj ?ss)) (Obj os)"
    using wfk json(4) ss(2,4) assms(4,5) ks os by (intro merge_without_key) auto
  moreover have "mergeable (Obj ks) (Obj ?ss)"
    using ss(3) by (auto simp: AList.delete_eq)
  moreover have wfd: "wf_js (Obj ?ss)" using wfs ss(1,2) by (cases s) (auto simp: AList.delete_eq distinct_map_filter dest: set_zip_rightD)
  moreover have jdoc: "json (Obj os)" using assms(2) os by (simp add: restorable_def)
  ultimately have shown: "json (editorDocument L template
        (Obj [(''metadata'', Obj [(''name'', Str name)]), (''spec'', Obj ?ss)]))
    \<and> ref_is_equal (member (editorDocument L template
        (Obj [(''metadata'', Obj [(''name'', Str name)]), (''spec'', Obj ?ss)])) ''spec'') (Obj os)
    \<and> member (member (editorDocument L template
        (Obj [(''metadata'', Obj [(''name'', Str name)]), (''spec'', Obj ?ss)])) ''metadata'') ''name'' = Str name"
    using json os wfd jdoc by (intro merge_name_and_spec [OF assms(1) _ _ ms ks]) simp_all
  have "t = template \<and> ov = Obj [(''metadata'', Obj [(''name'', Str name)]), (''spec'', Obj ?ss)]"
    using assms(3,6,8) s(1) ss(1)
    by (auto simp: put_editor_def omit_key_def coalesce_def nullish_def obj_get_def split: if_splits)
  with shown os show ?thesis by simp
qed

text \<open>
  Once the revision a deployment was made from is loaded, the editor shows the deployment's own
  \<open>spec\<close>, up to the order of keys, under the deployment's name: editing starts from what runs.
\<close>

theorem editor_shows_deployment:
  assumes "lodash_ok L" and "restorable template kubepkg"
    and "loose_eq (revision L kubepkg) (revision L template)"
    and "member (member template ''spec'') ''version'' = Str v"
    and "member (member kubepkg ''spec'') ''version'' = Str v"
    and "member (member kubepkg ''metadata'') ''name'' = Str name"
    and "is_plain_object (member template ''metadata'')"
    and "put_editor L (Some kubepkg) (put_step L groupName envName (Some kubepkg) (RevisionLoaded template) st) = Some (t, ov)"
  shows "ref_is_equal (member (editorDocument L t ov) ''spec'') (member kubepkg ''spec'')
    \<and> member (member (editorDocument L t ov) ''metadata'') ''name'' = Str name"
  using deployment_shown [OF assms] by blast

definition demo_edit_template :: js where
  "demo_edit_template = Obj [
     (''metadata'', Obj [(''annotations'', Obj [(annotationKubepkgRevision, Str ''r1'')])]),
     (''spec'', Obj [(''version'', Str ''1''), (''config'', Obj [(''X'', Str ''a'')])])]"

definition demo_edited :: js where
  "demo_edited = Obj [
     (''metadata'', Obj [(''name'', Str ''web''), (''annotations'', Obj [(annotationKubepkgRevision, Str ''r1'')])]),
     (''spec'', Obj [(''version'', Str ''1''), (''config'', Obj [(''X'', Str ''b'')])])]"

definition demo_overwrites :: js where
  "demo_overwrites = Obj [(''metadata'', Obj [(''name'', Str ''web'')]),
     (''spec'', Obj [(''config'', Obj [(''X'', Str ''b'')])])]"

lemma demo_edit_restorable: "restorable demo_edit_template demo_edited"
  by (simp add: demo_edit_template_def demo_edited_def overwrites_eval)

lemma demo_put_editor:
  "put_editor lodash_ref (Some demo_edited)
     (put_step lodash_ref ''g'' ''dev'' (Some demo_edited) (RevisionLoaded demo_edit_template)
        \<lparr>pt_mounted = True, pt_filters = default_filters, pt_template = empty_template, pt_overwrites = Obj [],
         pt_failed = [], pt_calls = [], pt_open = True\<rparr>) = Some (demo_edit_template, demo_overwrites)"
  by code_simp

theorem editor_shows_deployment_witness:
  "member (member (editorDocument lodash_ref demo_edit_template demo_overwrites) ''metadata'') ''name'' = Str ''web''"
proof -
  have "loose_eq (revision lodash_ref demo_edited) (revision lodash_ref demo_edit_template)" by code_simp
  from editor_shows_deployment [OF lodash_ref_ok demo_edit_restorable this _ _ _ _ demo_put_editor, of "''1''" "''web''"]
  show ?thesis by (simp add: demo_edit_template_def demo_edited_def obj_get_def)
qed

text \<open>
  Every request of the dialog, in every state it reaches, is one the client admits; a revision
  is asked for only when both its group and its ID are known.
\<close>

theorem put_requests_named:
  assumes "put_reach L groupName envName kubepkg st" and "c \<in> set (pt_calls st)"
  shows "proper_call c \<and> (fst c = getKubepkgRevision \<longrightarrow>
    truthy (member (snd c) ''groupName'') \<and> truthy (member (snd c) ''revisionID''))"
proof -
  have distinct_ops: "putGroupEnvDeployment \<noteq> getKubepkgRevision"
    by (simp add: putGroupEnvDeployment_def getKubepkgRevision_def)
  have "\<forall>c \<in> set (pt_calls st). fst c = getKubepkgRevision \<longrightarrow>
      truthy (member (snd c) ''groupName'') \<and> truthy (member (snd c) ''revisionID'')"
    using assms(1)
  proof (induction rule: put_reach.induct)
    case (created st)
    then show ?case by (auto simp: put_init_def split: sum.splits)
  next
    case (stepped st e)
    then show ?case
      using distinct_ops
      by (cases e) (auto simp: filters_emitted_def revision_call_def call_def obj_get_def)
  qed
  with assms(2) proper_callsD [OF put_reach_calls [OF assms(1)] assms(2)] show ?thesis by blast
qed

theorem put_requests_named_witness:
  "proper_call (call putGroupEnvDeployment [(''groupName'', Str ''g''), (''envName'', Str ''dev''), (''body'', demo_edited)])"
proof -
  have init: "put_init lodash_ref None = Inr \<lparr>pt_mounted = False, pt_filters = default_filters, pt_template = empty_template,
      pt_overwrites = Obj [], pt_failed = [], pt_calls = [], pt_open = False\<rparr>"
    by (simp add: put_init_def)
  from put_requests_named [OF put_reach.stepped [OF put_reach.created [OF init], of "''g''" "''dev''" "Submitted demo_edited"]]
  show ?thesis by simp
qed

text \<open>Another kubepkg is selected, and the revision of the old one is asked for in its name.\<close>

lemma selection_keeps_revision:
  "revision_call (select_kubepkg ''g/other''
     \<lparr>pf_groupName = Str ''g'', pf_kubepkgName = Str ''app'', pf_channel = Str ''DEV'', pf_revisionID = Str ''r1''\<rparr>)
   = [call getKubepkgRevision [(''groupName'', Str ''g''), (''name'', Str ''other''),
        (''channel'', Str ''DEV''), (''revisionID'', Str ''r1'')]]"
  by (simp add: revision_call_def select_kubepkg_def)

end
