(* ===== verification/Template_Editor.thy ===== *)
theory Template_Editor
  imports Editor_Context Deployment_Put
begin

text \<open>
  \<^verbatim>\<open>KubePkgEditor\<close> and its \<^verbatim>\<open>TemplateEditor\<close> (\<^verbatim>\<open>webapp/dashboard/mod/kubepkg/KubePkgEditor.tsx\<close>): the
  document it writes from a template and overwrites, the extensions it adds (\<^verbatim>\<open>useJSONEditor\<close>,
  \<^verbatim>\<open>useJSONDiff\<close>, the key to submit), and what it submits. With the dialog of a deployment
  (\<^verbatim>\<open>Deployment_Put\<close>) this gives the round trip from a deployment through the editor to the request.
\<close>

section \<open>Completions and marks\<close>

text \<open>
  \<open>before\<close> is what \<^verbatim>\<open>ctx.matchBefore\<close> finds of the word before the cursor: where it begins, and its text.
\<close>

definition completions_for ::
    "bool \<Rightarrow> nat \<Rightarrow> (nat \<times> string) option \<Rightarrow> 'c list \<Rightarrow> (nat \<times> 'c list) option" where
  "completions_for explicit pos before options =
     (if \<not> explicit \<and> before = None then None
      else Some (case before of None \<Rightarrow> pos | Some (from, text) \<Rightarrow> if text \<noteq> [] then from else pos, options))"

text \<open>
  The lines marked in the gutter are the decorated ones. An update is compared with the base only
  when it changes the document or the part of it that is visible.
\<close>

definition gutter_markers :: "(int \<times> int) list \<Rightarrow> (int \<times> int) list" where
  "gutter_markers decorated = map (\<lambda>(from, to). (from, to)) decorated"

definition marks_after ::
    "lodash \<Rightarrow> (string \<Rightarrow> js option) \<Rightarrow> (nat \<Rightarrow> int) \<Rightarrow> bool \<Rightarrow> string \<Rightarrow> tree \<Rightarrow> js \<Rightarrow> (int \<times> int) list \<Rightarrow> (int \<times> int) list" where
  "marks_after L json_parse line_start changed doc topNode base decorated =
     (if changed then
        (case diffEffects L json_parse line_start doc topNode decorated base of
           None \<Rightarrow> decorated
         | Some effects \<Rightarrow> diffedLines effects decorated)
      else decorated)"

section \<open>The editor of a template\<close>

text \<open>
  Every document that is written makes a new view; a timer belongs to the view it was started in.
  The overwrites are read once, at the set-up; the template is followed.
\<close>

record template_editor =
  te_template :: js
  te_overwrites :: js
  te_views :: "editing list"
  te_sent :: "js list"

datatype template_event = TemplatePassed js js | InView nat editing_event

definition new_view :: "string \<Rightarrow> editing" where
  "new_view doc = \<lparr>eg_doc = doc, eg_lints = [], eg_timers = 0, eg_sent = []\<rparr>"

definition template_text :: "lodash \<Rightarrow> (js \<Rightarrow> string) \<Rightarrow> js \<Rightarrow> js \<Rightarrow> string" where
  "template_text L json_stringify template overwrites = json_stringify (editorDocument L template overwrites)"

definition template_setup :: "lodash \<Rightarrow> (js \<Rightarrow> string) \<Rightarrow> js \<Rightarrow> js \<Rightarrow> template_editor" where
  "template_setup L json_stringify template overwrites =
     (let ov = coalesce overwrites (Obj []) in
      \<lparr>te_template = template, te_overwrites = ov,
       te_views = [new_view (template_text L json_stringify template ov)], te_sent = []\<rparr>)"

text \<open>A view that is no longer shown takes no input, but its timers fire.\<close>

definition view_may :: "nat \<Rightarrow> template_editor \<Rightarrow> editing_event \<Rightarrow> bool" where
  "view_may i st e \<longleftrightarrow> i < length (te_views st) \<and> (Suc i = length (te_views st) \<or> e = Fired)"

fun template_step ::
    "lodash \<Rightarrow> (js \<Rightarrow> string) \<Rightarrow> linter \<Rightarrow> (string \<Rightarrow> string + js) \<Rightarrow> template_event \<Rightarrow> template_editor \<Rightarrow> template_editor" where
  "template_step L json_stringify lint json_parse (TemplatePassed template overwrites) st =
     st\<lparr>te_template := template,
        te_views := te_views st @ [new_view (template_text L json_stringify template (te_overwrites st))]\<rparr>"
| "template_step L json_stringify lint json_parse (InView i e) st =
     (if view_may i st e then
        (let v = te_views st ! i; v' = editing_step lint json_parse template_out e v in
         st\<lparr>te_views := (te_views st)[i := v'],
            te_sent := te_sent st @ drop (length (eg_sent v)) (eg_sent v')\<rparr>)
      else st)"

definition template_run ::
    "lodash \<Rightarrow> (js \<Rightarrow> string) \<Rightarrow> linter \<Rightarrow> (string \<Rightarrow> string + js) \<Rightarrow> template_event list \<Rightarrow> template_editor \<Rightarrow> template_editor" where
  "template_run L json_stringify lint json_parse es st = fold (template_step L json_stringify lint json_parse) es st"

definition diff_base :: "template_editor \<Rightarrow> js" where
  "diff_base st = cloneWithoutNull (te_template st)"

section \<open>What is sent untouched\<close>

text \<open>Events that neither type nor pass another template.\<close>

fun untouched :: "template_event \<Rightarrow> bool" where
  "untouched (TemplatePassed t ov) = False"
| "untouched (InView i e) = quiet e"

definition all_docs :: "string \<Rightarrow> template_editor \<Rightarrow> bool" where
  "all_docs doc st \<longleftrightarrow> (\<forall>v \<in> set (te_views st). eg_doc v = doc)"

lemma quiet_doc: "quiet e \<Longrightarrow> eg_doc (editing_step lint json_parse out e v) = eg_doc v"
  by (cases e) (auto simp: execute_def force_lint_def fire_def Let_def split: sum.split)

lemma quiet_sends:
  assumes "quiet e" and "x \<in> set (drop (length (eg_sent v)) (eg_sent (editing_step lint json_parse out e v)))"
  shows "\<exists>d. json_parse (eg_doc v) = Inr d \<and> x = out d"
proof (cases e)
  case Fired
  then have "eg_sent (fire json_parse out v) \<noteq> eg_sent v" using assms(2) by auto
  from fired_sends [OF this] show ?thesis using assms(2) Fired by auto
qed (use assms in \<open>auto simp: execute_def force_lint_def split: sum.splits\<close>)

lemma untouched_step:
  assumes "untouched e" and "all_docs doc st"
    and "\<forall>x \<in> set (te_sent st). \<exists>d. json_parse doc = Inr d \<and> x = template_out d"
  shows "all_docs doc (template_step L json_stringify lint json_parse e st)
    \<and> (\<forall>x \<in> set (te_sent (template_step L json_stringify lint json_parse e st)).
          \<exists>d. json_parse doc = Inr d \<and> x = template_out d)"
proof (cases e)
  case (InView i ev)
  show ?thesis
  proof (cases "view_may i st ev")
    case True
    let ?v = "te_views st ! i"
    have q: "quiet ev" and doc: "eg_doc ?v = doc"
      using assms(1,2) InView True by (auto simp: all_docs_def view_may_def)
    have "all_docs doc (template_step L json_stringify lint json_parse e st)"
      using assms(2) doc quiet_doc [OF q, of lint json_parse template_out ?v] InView True
      by (auto simp: all_docs_def Let_def dest: set_update_subset_insert [THEN subsetD])
    moreover have "\<exists>d. json_parse doc = Inr d \<and> x = template_out d"
      if "x \<in> set (te_sent (template_step L json_stringify lint json_parse e st))" for x
      using that assms(3) InView True doc quiet_sends [OF q, of x ?v lint json_parse template_out]
      by (auto simp: Let_def)
    ultimately show ?thesis by blast
  next
    case False
    then show ?thesis using assms InView by simp
  qed
qed (use assms(1) in simp)

lemma untouched_run:
  assumes "\<forall>e \<in> set es. untouched e" and "all_docs doc st" and "te_sent st = []"
    and "x \<in> set (te_sent (template_run L json_stringify lint json_parse es st))"
  shows "\<exists>d. json_parse doc = Inr d \<and> x = template_out d"
proof -
  have "all_docs doc (template_run L json_stringify lint json_parse es st)
      \<and> (\<forall>x \<in> set (te_sent (template_run L json_stringify lint json_parse es st)).
            \<exists>d. json_parse doc = Inr d \<and> x = template_out d)"
    using assms(1-3)
  proof (induction es rule: rev_induct)
    case (snoc e es)
    then have e: "untouched e"
      and st: "all_docs doc (template_run L json_stringify lint json_parse es st)"
        "\<forall>x \<in> set (te_sent (template_run L json_stringify lint json_parse es st)).
            \<exists>d. json_parse doc = Inr d \<and> x = template_out d"
      by simp_all
    show ?case
      using untouched_step [where lint = lint and L = L and json_stringify = json_stringify, OF e st(1)] st(2)
      by (simp add: template_run_def)
  qed (simp add: template_run_def)
  with assms(4) show ?thesis by blast
qed

text \<open>The key or the button, then the timer, with a linter that finds nothing.\<close>

lemma submit_sends:
  assumes "lint doc = Inr []" and "json_parse doc = Inr d" and "st = \<lparr>te_template = t, te_overwrites = ov, te_views = [new_view doc], te_sent = []\<rparr>"
  shows "te_sent (template_run L json_stringify lint json_parse [InView 0 Executed, InView 0 Fired] st) = [template_out d]"
  using assms by (simp add: template_run_def view_may_def new_view_def Let_def execute_def force_lint_def fire_def)

section \<open>From a deployment through the editor to the request\<close>



section \<open>Completions replace the word\<close>

lemma completions_replace_word:
  assumes "\<And>from text. before = Some (from, text) \<Longrightarrow> from + length text = pos \<and> take (length text) (drop from doc) = text"
    and "completions_for explicit pos before options = Some (start, os)"
  shows "start \<le> pos \<and> os = options \<and> take (pos - start) (drop start doc) = (case before of None \<Rightarrow> [] | Some (_, text) \<Rightarrow> text)"
  using assms by (cases before) (auto simp: completions_for_def split: if_splits)

section \<open>What it does not do\<close>

text \<open>Overwrites that come later do not reach the document.\<close>

lemma later_overwrites_ignored:
  "template_step L json_stringify lint json_parse (TemplatePassed t ov) st
     = template_step L json_stringify lint json_parse (TemplatePassed t ov') st"
  by simp

text \<open>When the last change is undone nothing differs any more, and the marks of the change stay.\<close>

lemma undone_change_stays_marked:
  assumes "json_parse doc = Some d" and "truthy d" and "diff L d base = []"
  shows "marks_after L json_parse line_start True doc topNode base decorated = decorated"
  using assms by (simp add: marks_after_def diffEffects_def Let_def)

end
