(* ===== verification/Deployment_History.thy ===== *)
theory Deployment_History
  imports Template_Editor
begin

text \<open>
  The dialog that shows the history of a deployment and puts one of its versions again
  (\<^verbatim>\<open>webapp/dashboard/mod/groupenv/actions/GroupEnvDeploymentHistoryPut.tsx\<close>): the list, the selected
  version, the editor keyed by its revision, and the requests. What the dialog does on an event is in
  \<open>Deployment_Put\<close>, what the editor does in \<open>Template_Editor\<close>; here the two run together.
\<close>

section \<open>The dialog\<close>

text \<open>\<open>format_time\<close> is \<^verbatim>\<open>format(parseISO(...), "yyyy-MM-dd HH:mm")\<close> of the package of dates.\<close>

definition history_item :: "lodash \<Rightarrow> (js \<Rightarrow> string) \<Rightarrow> js \<Rightarrow> string \<times> string \<times> js" where
  "history_item L format_time kubepkg =
     (let created = member (member kubepkg ''metadata'') ''creationTimestamp'' in
      (if truthy created then format_time created else [], ''s'' @ to_str (deploymentSettingID L kubepkg),
       member (member kubepkg ''spec'') ''version''))"

record history_page =
  hp_history :: history_state
  hp_editor :: template_editor

datatype history_page_event = HpMounted | HpLoaded "js list" | RowClicked nat | InHistoryEditor nat editing_event

definition history_template :: "lodash \<Rightarrow> (string \<Rightarrow> string + js) \<Rightarrow> js \<Rightarrow> js" where
  "history_template L json_parse k = fst (history_editor L (value_parse json_parse) k)"

definition history_overwrites :: "lodash \<Rightarrow> (string \<Rightarrow> string + js) \<Rightarrow> js \<Rightarrow> js" where
  "history_overwrites L json_parse k = snd (history_editor L (value_parse json_parse) k)"

definition history_template_setup ::
    "lodash \<Rightarrow> (js \<Rightarrow> string) \<Rightarrow> (string \<Rightarrow> string + js) \<Rightarrow> js \<Rightarrow> template_editor" where
  "history_template_setup L json_stringify json_parse k =
     template_setup L json_stringify (history_template L json_parse k) (history_overwrites L json_parse k)"

definition history_page_init ::
    "lodash \<Rightarrow> (js \<Rightarrow> string) \<Rightarrow> (string \<Rightarrow> string + js) \<Rightarrow> js \<Rightarrow> history_page" where
  "history_page_init L json_stringify json_parse kubepkg =
     \<lparr>hp_history = \<lparr>hs_kubepkg = kubepkg, hs_history = [], hs_calls = []\<rparr>,
      hp_editor = history_template_setup L json_stringify json_parse kubepkg\<rparr>"

text \<open>
  The editor is keyed by the revision: another revision makes a new editor, and the old one, taken out
  of the page, emits nothing any more; with the same revision the editor is passed the version.
\<close>

definition select_version ::
    "lodash \<Rightarrow> (js \<Rightarrow> string) \<Rightarrow> linter \<Rightarrow> (string \<Rightarrow> string + js) \<Rightarrow> string \<Rightarrow> string \<Rightarrow> js \<Rightarrow> js \<Rightarrow> history_page \<Rightarrow> history_page" where
  "select_version L json_stringify lint json_parse groupName envName kubepkg k st =
     st\<lparr>hp_history := history_step L groupName envName kubepkg (HistorySelected k) (hp_history st),
        hp_editor :=
          (if deploymentRevision L k = deploymentRevision L (hs_kubepkg (hp_history st))
           then template_step L json_stringify lint json_parse
                  (TemplatePassed (history_template L json_parse k) (history_overwrites L json_parse k)) (hp_editor st)
           else history_template_setup L json_stringify json_parse k)\<rparr>"

definition in_history_editor ::
    "lodash \<Rightarrow> (js \<Rightarrow> string) \<Rightarrow> linter \<Rightarrow> (string \<Rightarrow> string + js) \<Rightarrow> string \<Rightarrow> string \<Rightarrow> js \<Rightarrow> nat \<Rightarrow> editing_event \<Rightarrow> history_page \<Rightarrow> history_page" where
  "in_history_editor L json_stringify lint json_parse groupName envName kubepkg i e st =
     (let ed = template_step L json_stringify lint json_parse (InView i e) (hp_editor st) in
      st\<lparr>hp_editor := ed,
         hp_history := fold (\<lambda>body. history_step L groupName envName kubepkg (HistorySubmitted body))
           (drop (length (te_sent (hp_editor st))) (te_sent ed)) (hp_history st)\<rparr>)"

fun history_page_step ::
    "lodash \<Rightarrow> (js \<Rightarrow> string) \<Rightarrow> linter \<Rightarrow> (string \<Rightarrow> string + js) \<Rightarrow> string \<Rightarrow> string \<Rightarrow> js \<Rightarrow> history_page_event \<Rightarrow> history_page \<Rightarrow> history_page" where
  "history_page_step L json_stringify lint json_parse groupName envName kubepkg HpMounted st =
     st\<lparr>hp_history := history_step L groupName envName kubepkg HistoryMounted (hp_history st)\<rparr>"
| "history_page_step L json_stringify lint json_parse groupName envName kubepkg (HpLoaded body) st =
     st\<lparr>hp_history := history_step L groupName envName kubepkg (HistoryLoaded body) (hp_history st)\<rparr>"
| "history_page_step L json_stringify lint json_parse groupName envName kubepkg (RowClicked i) st =
     (if i < length (hs_history (hp_history st))
      then select_version L json_stringify lint json_parse groupName envName kubepkg (hs_history (hp_history st) ! i) st
      else st)"
| "history_page_step L json_stringify lint json_parse groupName envName kubepkg (InHistoryEditor i e) st =
     in_history_editor L json_stringify lint json_parse groupName envName kubepkg i e st"

definition history_page_run ::
    "lodash \<Rightarrow> (js \<Rightarrow> string) \<Rightarrow> linter \<Rightarrow> (string \<Rightarrow> string + js) \<Rightarrow> string \<Rightarrow> string \<Rightarrow> js \<Rightarrow> history_page_event list \<Rightarrow> history_page" where
  "history_page_run L json_stringify lint json_parse groupName envName kubepkg es =
     fold (history_page_step L json_stringify lint json_parse groupName envName kubepkg) es
       (history_page_init L json_stringify json_parse kubepkg)"

section \<open>The document of a version\<close>

definition history_document :: "lodash \<Rightarrow> (string \<Rightarrow> string + js) \<Rightarrow> js \<Rightarrow> js" where
  "history_document L json_parse k =
     editorDocument L (history_template L json_parse k) (coalesce (history_overwrites L json_parse k) (Obj []))"

text \<open>
  A version with the \<open>spec\<close> it was deployed with: either it carries overwrites, which were made of an
  edited document, or it carries none.
\<close>

definition deployed_with :: "lodash \<Rightarrow> (string \<Rightarrow> string + js) \<Rightarrow> js \<Rightarrow> js \<Rightarrow> bool" where
  "deployed_with L json_parse k sp \<longleftrightarrow>
     is_plain_object k \<and> json k \<and> is_plain_object (member k ''metadata'') \<and>
     is_plain_object (coalesce (member (member k ''metadata'') ''annotations'') (Obj [])) \<and>
     ((\<exists>ov raw. restorable k ov \<and> sp = member ov ''spec'' \<and> getAnnotation L k annotationKubepkgOverwrites = Str raw
          \<and> value_parse json_parse raw = Some (diffAsOverwrites L k ov))
      \<or> getAnnotation L k annotationKubepkgOverwrites = Undef \<and> value_parse json_parse ''undefined'' = None
          \<and> is_plain_object (member k ''spec'') \<and> null_free (member k ''spec'') \<and> sp = member k ''spec'')"

lemma merge_spec_document:
  assumes "lodash_ok L" and "is_plain_object t" and "json t"
    and "mergeable (member t ''spec'') s" and "wf_js s"
    and "ref_is_equal (ref_merge (member t ''spec'') s) doc" and "null_free doc" and "doc \<noteq> Null" and "json doc"
  shows "json (editorDocument L t (Obj [(''spec'', s)]))
    \<and> ref_is_equal (member (editorDocument L t (Obj [(''spec'', s)])) ''spec'') doc
    \<and> (k \<noteq> ''spec'' \<longrightarrow> member (editorDocument L t (Obj [(''spec'', s)])) k = member (cloneWithoutNull t) k)"
proof -
  note api = lodash_apiI [OF assms(1)]
  obtain kk where kk: "t = Obj kk" "wf_js (Obj kk)" using assms(2,3) json_wf by (auto elim!: is_plain_objectE)
  then have dk: "distinct (map fst kk)" by simp
  obtain ks where ks: "ref_merge (Obj kk) (Obj [(''spec'', s)]) = Obj ks" "distinct (map fst ks)"
    "\<And>k'. obj_get ks k' = (if k' = ''spec'' then ref_merge (obj_get kk ''spec'') s else obj_get kk k')"
    using merge_one_prop [OF dk, of "''spec''" s] by blast
  have doc: "editorDocument L t (Obj [(''spec'', s)]) = cloneWithoutNull (Obj ks)"
    using assms(4) kk ks(1) lodash_api.merge_eq [OF api] json_merge_empty [OF assms(2,3)]
    by (simp add: editorDocument_def del: ref_merge.simps cloneWithoutNull.simps)
  let ?m = "ref_merge (obj_get kk ''spec'') s"
  have m: "ref_is_equal ?m doc" using assms(6) kk(1) by simp
  have nf: "null_free ?m \<and> ?m \<noteq> Null"
    using ref_is_equal_null_free [OF m assms(7)] m assms(8) by auto
  have "wf_js (obj_get kk ''spec'')" using wf_member [of t "''spec''"] kk by simp
  then have jm: "json ?m" using m assms(5,9) json_of_equal wf_merge(1) by blast
  have "json (Obj ks)"
  proof (rule json_objI [OF ks(2)])
    fix k' assume has: "obj_has ks k'"
    show "json (obj_get ks k')"
    proof (cases "k' = ''spec''")
      case False
      have "obj_has kk k'"
        using has merge_props_spec [OF dk, of "[(''spec'', s)]"] ks(1) False by (auto simp: obj_has_def [of "[_]"])
      then show ?thesis using ks(3) False json_obj_get [of kk k'] assms(3) kk(1) by simp
    qed (use jm ks(3) in simp)
  qed
  then have "json (editorDocument L t (Obj [(''spec'', s)]))" unfolding doc by (rule json_clone)
  moreover have "member (editorDocument L t (Obj [(''spec'', s)])) ''spec'' = ?m"
    using nf ks unfolding doc by (simp add: member_clone cloneWithoutNull_id del: cloneWithoutNull.simps)
  moreover have "k \<noteq> ''spec'' \<longrightarrow> member (editorDocument L t (Obj [(''spec'', s)])) k = member (cloneWithoutNull t) k"
    using ks kk dk unfolding doc by (simp add: member_clone del: cloneWithoutNull.simps)
  ultimately show ?thesis using m by simp
qed

lemma map_of_picked: "map_of (map (\<lambda>k. (k, f k)) ks) k = (if k \<in> set ks then Some (f k) else None)"
  by (induction ks) auto

lemma member_pick:
  assumes "is_plain_object v" and "k \<in> set ks"
  shows "member (pick_keys ks v) k = member v k"
  using assms by (cases v) (auto simp: pick_keys_def obj_get_def obj_has_map_of map_of_picked split: option.splits)

lemma json_pick:
  assumes "is_plain_object v" and "json v" and "distinct ks"
  shows "json (pick_keys ks v)"
proof -
  obtain kvs where v: "v = Obj kvs" using assms(1) by (auto elim!: is_plain_objectE)
  have "json (member v k)" if "has_own v k" for k
    using json_obj_get [of kvs k] assms(2) that v by simp
  then show ?thesis using assms(3) by (auto simp: pick_keys_def comp_def)
qed

abbreviation picked_template :: "js \<Rightarrow> js" where
  "picked_template \<equiv> pick_keys [''kind'', ''apiVersion'', ''metadata'', ''spec'']"

lemma annotation_picked:
  assumes "lodash_ok L" and "is_plain_object k"
  shows "getAnnotation L (picked_template k) x = getAnnotation L k x"
  by (simp add: getAnnotation_def lodash_api.get_eq [OF lodash_apiI [OF assms(1)]] ref_get_def member_pick [OF assms(2)])

lemma template_of_version:
  assumes "is_plain_object k" and "json k" and "is_plain_object (member k ''metadata'')"
    and "is_plain_object (coalesce (member (member k ''metadata'') ''annotations'') (Obj []))"
  shows "is_plain_object (history_template L json_parse k)" and "json (history_template L json_parse k)"
    and "member (history_template L json_parse k) ''spec'' = member k ''spec''"
    and "is_plain_object (member (history_template L json_parse k) ''metadata'')"
    and "member (member (history_template L json_parse k) ''metadata'') ''name'' = member (member k ''metadata'') ''name''"
proof -
  obtain ps where p: "picked_template k = Obj ps" by (simp add: pick_keys_def)
  obtain ms where ms: "member k ''metadata'' = Obj ms" using assms(3) by (auto elim!: is_plain_objectE)
  obtain as where as: "coalesce (obj_get ms ''annotations'') (Obj []) = Obj as"
    using assms(4) ms by (auto elim!: is_plain_objectE)
  have get: "obj_get ps ''metadata'' = Obj ms" "obj_get ps ''spec'' = member k ''spec''"
    using member_pick [OF assms(1), of _ "[''kind'', ''apiVersion'', ''metadata'', ''spec'']"] ms p by (metis list.set_intros member.simps(1))+
  have json: "json (Obj ps)" "json (Obj ms)"
    using json_pick [OF assms(1,2)] p json_obj_get [of ps "''metadata''"] obj_get_absent [of ps "''metadata''"] get(1)
    by (auto simp: p [symmetric])
  have "json (Obj as)"
    using as json(2) json_obj_get [of ms "''annotations''"] obj_get_absent [of ms "''annotations''"]
    by (cases "obj_has ms ''annotations''") (auto simp: coalesce_def nullish_def split: if_splits)
  then have del: "json (Obj (AList.delete annotationKubepkgOverwrites as))"
    by (auto simp: AList.delete_eq distinct_map_filter)
  have t: "history_template L json_parse k = Obj (AList.update ''metadata''
      (Obj (AList.update ''annotations'' (Obj (AList.delete annotationKubepkgOverwrites as)) ms)) ps)"
    using p get as by (simp add: history_template_def history_editor_def Let_def omit_key_def spread_def)
  show "is_plain_object (history_template L json_parse k)" and "json (history_template L json_parse k)"
    and "member (history_template L json_parse k) ''spec'' = member k ''spec''"
    and "is_plain_object (member (history_template L json_parse k) ''metadata'')"
    and "member (member (history_template L json_parse k) ''metadata'') ''name'' = member (member k ''metadata'') ''name''"
    unfolding t using json_update [OF json(1) json_update [OF json(2) del]] get ms
    by (simp_all add: assoc_simps del: json.simps)
qed

lemma name_of_clone:
  assumes "is_plain_object v" and "json v" and "is_plain_object (member v ''metadata'')"
  shows "member (member (cloneWithoutNull v) ''metadata'') ''name''
    = (if member (member v ''metadata'') ''name'' = Null then Undef
       else cloneWithoutNull (member (member v ''metadata'') ''name''))"
proof -
  obtain kvs where v: "v = Obj kvs" "distinct (map fst kvs)" using assms(1,2) by (auto elim!: is_plain_objectE)
  obtain ms where ms: "obj_get kvs ''metadata'' = Obj ms" using assms(3) v by (auto elim!: is_plain_objectE)
  have "wf_js (Obj ms)" using wf_obj_get [of kvs "''metadata''"] json_wf [OF assms(2)] v ms by simp
  then have "distinct (map fst ms)" by simp
  then show ?thesis using v ms by (simp add: member_clone del: cloneWithoutNull.simps)
qed

lemma document_of_version:
  assumes "lodash_ok L" and "deployed_with L json_parse k sp"
  shows "json (history_document L json_parse k)
    \<and> ref_is_equal (member (history_document L json_parse k) ''spec'') sp
    \<and> member (member (history_document L json_parse k) ''metadata'') ''name''
        = member (member (cloneWithoutNull k) ''metadata'') ''name''"
proof -
  let ?t = "history_template L json_parse k"
  note api = lodash_apiI [OF assms(1)]
  have k: "is_plain_object k" "json k" "is_plain_object (member k ''metadata'')"
    "is_plain_object (coalesce (member (member k ''metadata'') ''annotations'') (Obj []))"
    using assms(2) by (simp_all add: deployed_with_def)
  note t = template_of_version [OF k, of L json_parse]
  note ann = annotation_picked [OF assms(1) k(1), of annotationKubepkgOverwrites]
  have name: "member (member (cloneWithoutNull ?t) ''metadata'') ''name''
      = member (member (cloneWithoutNull k) ''metadata'') ''name''"
    unfolding name_of_clone [OF t(1,2,4)] name_of_clone [OF k(1-3)] t(5) ..
  show ?thesis
  proof (cases "getAnnotation L k annotationKubepkgOverwrites = Undef")
    case True
    then have none: "history_overwrites L json_parse k = Undef" and sp: "sp = member ?t ''spec''" "null_free sp" "is_plain_object sp"
      using assms(2) ann t(3)
      by (auto simp: deployed_with_def history_overwrites_def history_editor_def Let_def parseOverwrites_def)
    obtain kk where kk: "?t = Obj kk" "wf_js (Obj kk)" using t(1,2) json_wf by (auto elim!: is_plain_objectE)
    have "history_document L json_parse k = cloneWithoutNull ?t"
      using kk lodash_api.merge_eq [OF api] json_merge_empty [OF t(1,2)]
      by (simp add: history_document_def editorDocument_def none coalesce_def nullish_def del: cloneWithoutNull.simps)
    moreover have "member (cloneWithoutNull ?t) ''spec'' = sp"
      using kk sp by (auto simp: member_clone cloneWithoutNull_id simp del: cloneWithoutNull.simps)
    ultimately show ?thesis using json_clone [OF t(2)] name ref_is_equal_refl sp(1) wf_member kk by metis
  next
    case False
    then obtain ov raw where ov: "restorable k ov" "sp = member ov ''spec''"
      "getAnnotation L k annotationKubepkgOverwrites = Str raw" "value_parse json_parse raw = Some (diffAsOverwrites L k ov)"
      using assms(2) by (auto simp: deployed_with_def)
    have r: "restorable ?t ov" using ov(1) t(1-3) by (simp add: restorable_def)
    have same: "diffAsOverwrites L k ov = diffAsOverwrites L ?t ov" unfolding diffAsOverwrites_def t(3) ..
    obtain s where s: "diffAsOverwrites L ?t ov = Obj [(''spec'', s)]" "mergeable (member ?t ''spec'') s"
      "ref_is_equal (ref_merge (member ?t ''spec'') s) (member ov ''spec'')"
      using lodash_api.diffAsOverwrites_spec [OF api r] .
    have os: "json sp" "null_free sp" "sp \<noteq> Null" "s \<noteq> Null" using r ov(2) s(3) by (auto simp: restorable_def)
    have "wf_js s" using lodash_api.wf_diffAsOverwrites [OF api r] unfolding s(1) by simp
    note doc = merge_spec_document [OF assms(1) t(1,2) s(2) this s(3) [folded ov(2)] os(2,3,1), of "''metadata''"]
    have "history_overwrites L json_parse k = Obj [(''spec'', s)]"
      using ov(3,4) ann same s(1) os(4)
      by (simp add: history_overwrites_def history_editor_def Let_def parseOverwrites_def nullish_def obj_get_def)
    then have "history_document L json_parse k = editorDocument L ?t (Obj [(''spec'', s)])"
      by (simp add: history_document_def coalesce_def nullish_def)
    with doc name show ?thesis by simp
  qed
qed

section \<open>What the dialog keeps\<close>

text \<open>The versions the dialog knows: the one it was opened for, and those that were loaded.\<close>

fun loaded_versions :: "history_page_event list \<Rightarrow> js list" where
  "loaded_versions [] = []"
| "loaded_versions (HpLoaded body # es) = body @ loaded_versions es"
| "loaded_versions (e # es) = loaded_versions es"

lemma loaded_append: "loaded_versions (es @ fs) = loaded_versions es @ loaded_versions fs"
  by (induction es rule: loaded_versions.induct) simp_all

fun not_typed :: "history_page_event \<Rightarrow> bool" where
  "not_typed (InHistoryEditor i e) = quiet e"
| "not_typed _ = True"

definition shows_version ::
    "lodash \<Rightarrow> (js \<Rightarrow> string) \<Rightarrow> (string \<Rightarrow> string + js) \<Rightarrow> js \<Rightarrow> template_editor \<Rightarrow> bool" where
  "shows_version L json_stringify json_parse k ed \<longleftrightarrow>
     te_overwrites ed = coalesce (history_overwrites L json_parse k) (Obj [])
     \<and> all_docs (json_stringify (history_document L json_parse k)) ed"

lemma shows_setup: "shows_version L json_stringify json_parse k (history_template_setup L json_stringify json_parse k)"
  by (simp add: shows_version_def history_template_setup_def template_setup_def Let_def all_docs_def new_view_def
      template_text_def history_document_def)

lemma shows_passed:
  assumes "shows_version L json_stringify json_parse k ed"
  shows "shows_version L json_stringify json_parse k
    (template_step L json_stringify lint json_parse (TemplatePassed (history_template L json_parse k) ov) ed)"
  using assms by (auto simp: shows_version_def all_docs_def new_view_def template_text_def history_document_def)

lemma shows_in_view:
  assumes "shows_version L json_stringify json_parse k ed" and "quiet e"
  shows "shows_version L json_stringify json_parse k (template_step L json_stringify lint json_parse (InView i e) ed)"
  using assms
  by (auto simp: shows_version_def all_docs_def Let_def view_may_def quiet_doc simp del: editing_step.simps
      dest!: set_update_subset_insert [THEN subsetD])

text \<open>Where every document of the editor is \<open>doc\<close>, what a view sends is what \<open>doc\<close> parses to.\<close>

lemma view_sends:
  assumes "all_docs doc ed" and "quiet e"
    and "body \<in> set (drop (length (te_sent ed)) (te_sent (template_step L json_stringify lint json_parse (InView i e) ed)))"
  shows "\<exists>d. json_parse doc = Inr d \<and> body = template_out d"
proof -
  have "view_may i ed e" using assms(3) by (cases "view_may i ed e") simp_all
  moreover from this have "eg_doc (te_views ed ! i) = doc"
    using assms(1) by (simp add: view_may_def all_docs_def)
  ultimately show ?thesis
    using quiet_sends [OF assms(2), of body "te_views ed ! i" lint json_parse template_out] assms(3)
    by (simp add: Let_def)
qed

lemma submitted_history:
  "hs_kubepkg (fold (\<lambda>b. history_step L g n k (HistorySubmitted b)) bs h) = hs_kubepkg h"
  "hs_history (fold (\<lambda>b. history_step L g n k (HistorySubmitted b)) bs h) = hs_history h"
  "hs_calls (fold (\<lambda>b. history_step L g n k (HistorySubmitted b)) bs h) = hs_calls h
     @ map (\<lambda>b. call putGroupEnvDeployment [(''groupName'', Str g), (''envName'', Str n), (''body'', b)]) bs"
  by (induction bs arbitrary: h) simp_all

definition history_inv ::
    "lodash \<Rightarrow> (js \<Rightarrow> string) \<Rightarrow> (string \<Rightarrow> string + js) \<Rightarrow> js set \<Rightarrow> history_page \<Rightarrow> bool" where
  "history_inv L json_stringify json_parse K st \<longleftrightarrow>
     hs_kubepkg (hp_history st) \<in> K \<and> set (hs_history (hp_history st)) \<subseteq> K
     \<and> shows_version L json_stringify json_parse (hs_kubepkg (hp_history st)) (hp_editor st)"

lemma history_inv_step:
  assumes "history_inv L json_stringify json_parse K st" and "not_typed e"
    and "inj_on (deploymentRevision L) K" and "set (loaded_versions [e]) \<subseteq> K"
  shows "history_inv L json_stringify json_parse K
    (history_page_step L json_stringify lint json_parse groupName envName kubepkg e st)"
proof (cases e)
  case (RowClicked i)
  show ?thesis
  proof (cases "i < length (hs_history (hp_history st))")
    case True
    let ?k = "hs_history (hp_history st) ! i"
    have "?k \<in> K" using True assms(1) by (auto simp: history_inv_def)
    moreover have "?k = hs_kubepkg (hp_history st)"
      if "deploymentRevision L ?k = deploymentRevision L (hs_kubepkg (hp_history st))"
      using that assms(1,3) \<open>?k \<in> K\<close> by (auto simp: history_inv_def inj_on_def)
    ultimately show ?thesis
      using True RowClicked assms(1) shows_setup [of L json_stringify json_parse ?k]
        shows_passed [of L json_stringify json_parse ?k "hp_editor st" lint "history_overwrites L json_parse ?k"]
      by (auto simp: history_inv_def select_version_def)
  qed (use RowClicked assms(1) in simp)
next
  case (InHistoryEditor i ev)
  then show ?thesis
    using assms(1,2) shows_in_view
    by (simp add: history_inv_def in_history_editor_def Let_def submitted_history del: template_step.simps)
qed (use assms in \<open>auto simp: history_inv_def\<close>)

lemma history_inv_run:
  assumes "list_all not_typed es"
    and "set (kubepkg # loaded_versions es) \<subseteq> K" and "inj_on (deploymentRevision L) K"
  shows "history_inv L json_stringify json_parse K
    (history_page_run L json_stringify lint json_parse groupName envName kubepkg es)"
  using assms(1,2)
proof (induction es rule: rev_induct)
  case Nil
  then show ?case by (simp add: history_page_run_def history_page_init_def history_inv_def shows_setup)
next
  case (snoc e es)
  then have "history_inv L json_stringify json_parse K
      (history_page_run L json_stringify lint json_parse groupName envName kubepkg es)"
    by (simp add: loaded_append)
  from history_inv_step [OF this _ assms(3), of e lint groupName envName kubepkg] snoc.prems show ?case
    by (simp add: history_page_run_def loaded_append)
qed

section \<open>A version is put as it was deployed\<close>


definition demo_first :: js where
  "demo_first = Obj [
     (''metadata'', Obj [(''name'', Str ''web''), (''annotations'', Obj [(annotationKubepkgRevision, Str ''r1'')])]),
     (''spec'', Obj [(''version'', Str ''1''), (''config'', Obj [(''X'', Str ''a'')])])]"

definition demo_second :: js where
  "demo_second = Obj [
     (''metadata'', Obj [(''name'', Str ''web''),
        (''annotations'', Obj [(annotationKubepkgRevision, Str ''r2''), (annotationKubepkgOverwrites, Str ''raw'')])]),
     (''spec'', Obj [(''version'', Str ''1''), (''config'', Obj [(''X'', Str ''a'')])])]"

definition demo_second_document :: js where
  "demo_second_document = Obj [
     (''metadata'', Obj [(''name'', Str ''web''), (''annotations'', Obj [(annotationKubepkgRevision, Str ''r2'')])]),
     (''spec'', Obj [(''version'', Str ''1''), (''config'', Obj [(''X'', Str ''b'')])])]"

text \<open>A printer and a parser that know the texts of these documents.\<close>

definition demo_stringify :: "js \<Rightarrow> string" where
  "demo_stringify d = (if d = demo_first then ''first'' else if d = demo_second_document then ''second'' else [])"

definition demo_parse :: "string \<Rightarrow> string + js" where
  "demo_parse s =
     (if s = ''first'' then Inr demo_first
      else if s = ''second'' then Inr demo_second_document
      else if s = ''raw'' then Inr (Obj [(''spec'', Obj [(''config'', Obj [(''X'', Str ''b'')])])])
      else Inl ''Unexpected token'')"

definition demo_history :: "history_page_event list" where
  "demo_history = [HpMounted, HpLoaded [demo_first, demo_second], RowClicked 1, InHistoryEditor 0 Executed]"

lemma demo_documents:
  "history_document lodash_ref demo_parse demo_first = demo_first"
  "history_document lodash_ref demo_parse demo_second = demo_second_document"
  by code_simp+

lemma demo_deployed:
  "deployed_with lodash_ref demo_parse demo_first (member demo_first ''spec'')"
  "deployed_with lodash_ref demo_parse demo_second (member demo_edited ''spec'')"
proof -
  have "restorable demo_second demo_edited"
    by (simp add: demo_second_def demo_edited_def annotation_defs overwrites_eval)
  moreover have "getAnnotation lodash_ref demo_second annotationKubepkgOverwrites = Str ''raw''"
    "value_parse demo_parse ''raw'' = Some (diffAsOverwrites lodash_ref demo_second demo_edited)"
    "is_plain_object demo_second \<and> json demo_second \<and> is_plain_object (member demo_second ''metadata'') \<and>
     is_plain_object (coalesce (member (member demo_second ''metadata'') ''annotations'') (Obj []))"
    by code_simp+
  ultimately show "deployed_with lodash_ref demo_parse demo_second (member demo_edited ''spec'')"
    unfolding deployed_with_def by blast
  have "getAnnotation lodash_ref demo_first annotationKubepkgOverwrites = Undef \<and> value_parse demo_parse ''undefined'' = None
    \<and> is_plain_object (member demo_first ''spec'') \<and> null_free (member demo_first ''spec'') \<and>
    is_plain_object demo_first \<and> json demo_first \<and> is_plain_object (member demo_first ''metadata'') \<and>
     is_plain_object (coalesce (member (member demo_first ''metadata'') ''annotations'') (Obj []))"
    by code_simp
  then show "deployed_with lodash_ref demo_parse demo_first (member demo_first ''spec'')"
    unfolding deployed_with_def by blast
qed


end
