(* ===== verification/Kubepkg_Versions.thy ===== *)
theory Kubepkg_Versions
  imports Deployment_Put Lodash_Collections
begin

text \<open>
  \<^verbatim>\<open>webapp/dashboard/mod/groupkubepkg\<close>: the list of a kubepkg's versions by their base version
  (\<^verbatim>\<open>GroupKubepkgVersionList.tsx\<close>, \<^verbatim>\<open>GroupKubepkgVersionSelect.tsx\<close>, \<^verbatim>\<open>helpers/BaseVersion.ts\<close>),
  publishing and deleting them (\<^verbatim>\<open>actions/\<close>), the list of kubepkgs and the input that completes
  their names. Semantic versions are the \<^verbatim>\<open>semver\<close> package's, sorting with a comparison is the
  platform's: both are parameters. A version has no line break but LF and CR.
\<close>

section \<open>Base versions\<close>

text \<open>
  \<^verbatim>\<open>/(?<base>.+)[.-](?<timestamp>[0-9]+)-(.+)$/\<close>: the longest base wins, and as nothing may be a
  line break, the match is in the last line.
\<close>

definition stamped :: "string \<Rightarrow> bool" where
  "stamped s \<longleftrightarrow>
     takeWhile is_digit s \<noteq> [] \<and>
     (case dropWhile is_digit s of c # r \<Rightarrow> c = CHR ''-'' \<and> r \<noteq> [] | [] \<Rightarrow> False)"

fun longest_base :: "string \<Rightarrow> string option" where
  "longest_base [] = None"
| "longest_base (c # s) =
     (case longest_base s of
        Some b \<Rightarrow> Some (c # b)
      | None \<Rightarrow> if (c = CHR ''.'' \<or> c = CHR ''-'') \<and> stamped s then Some [] else None)"

definition line_break :: "char \<Rightarrow> bool" where
  "line_break c \<longleftrightarrow> c = CHR 0x0A \<or> c = CHR 0x0D"

definition last_line :: "string \<Rightarrow> string" where
  "last_line v = rev (takeWhile (\<lambda>c. \<not> line_break c) (rev v))"

definition getBaseVersion :: "string \<Rightarrow> string" where
  "getBaseVersion v = (case longest_base (last_line v) of Some (c # b) \<Rightarrow> c # b | _ \<Rightarrow> v)"

section \<open>Ordering\<close>

record 'v semver =
  sv_coerce :: "string \<Rightarrow> 'v option"
  sv_gt :: "'v \<Rightarrow> 'v \<Rightarrow> bool"

type_synonym sorter = "(string \<Rightarrow> string \<Rightarrow> int) \<Rightarrow> string list \<Rightarrow> string list"

text \<open>
  A comparison orders a list when of two different elements exactly one comes first, and coming
  first is transitive; then sorting distinct elements yields none before one it is to follow.
  Sorting always permutes, and compares no element to itself.
\<close>

definition consistent :: "(string \<Rightarrow> string \<Rightarrow> int) \<Rightarrow> string list \<Rightarrow> bool" where
  "consistent cmp xs \<longleftrightarrow>
     (\<forall>a \<in> set xs. \<forall>b \<in> set xs. a \<noteq> b \<longrightarrow> cmp a b < 0 \<and> cmp b a > 0 \<or> cmp b a < 0 \<and> cmp a b > 0)
     \<and> (\<forall>a \<in> set xs. \<forall>b \<in> set xs. \<forall>c \<in> set xs. cmp a b < 0 \<longrightarrow> cmp b c < 0 \<longrightarrow> cmp a c < 0)"

definition sorter_ok :: "sorter \<Rightarrow> bool" where
  "sorter_ok srt \<longleftrightarrow>
     (\<forall>cmp xs. mset (srt cmp xs) = mset xs)
     \<and> (\<forall>cmp xs. distinct xs \<longrightarrow> consistent cmp xs \<longrightarrow> sorted_wrt (\<lambda>a b. \<not> cmp a b > 0) (srt cmp xs))"

text \<open>\<^verbatim>\<open>semver.gt\<close> raises for what has no version; sorting compares every element of two or more.\<close>

definition compare :: "'v semver \<Rightarrow> string \<Rightarrow> string \<Rightarrow> int" where
  "compare S a b = (if sv_gt S (the (sv_coerce S a)) (the (sv_coerce S b)) then -1 else 1)"

definition orderVersions :: "'v semver \<Rightarrow> sorter \<Rightarrow> string list \<Rightarrow> js_error + string list" where
  "orderVersions S srt versions =
     (if length versions \<ge> 2 \<and> (\<exists>v \<in> set versions. sv_coerce S v = None) then Inl TypeError
      else Inr (srt (compare S) versions))"

section \<open>The list of versions\<close>

record version_list =
  vl_channel :: js
  vl_input :: string
  vl_versions :: "js list"
  vl_calls :: "call list"

datatype version_event =
    VersionsMounted
  | ChannelSwitched js
  | FilterTyped string
  | VersionsLoaded "js list"
  | VersionDeleted js

definition versions_init :: version_list where
  "versions_init = \<lparr>vl_channel = Str ''DEV'', vl_input = [], vl_versions = [], vl_calls = []\<rparr>"

definition version_of :: "js \<Rightarrow> string" where
  "version_of v = to_str (member v ''version'')"

definition list_versions_call :: "js \<Rightarrow> js \<Rightarrow> js \<Rightarrow> call" where
  "list_versions_call groupName pkg chan =
     call listKubepkgVersion [(''groupName'', groupName), (''name'', pkg), (''channel'', chan)]"

definition versions_emit :: "js \<Rightarrow> js \<Rightarrow> version_list \<Rightarrow> version_list" where
  "versions_emit groupName pkg st =
     st\<lparr>vl_calls := vl_calls st @ [list_versions_call groupName pkg (vl_channel st)]\<rparr>"

fun versions_step :: "js \<Rightarrow> js \<Rightarrow> version_event \<Rightarrow> version_list \<Rightarrow> version_list" where
  "versions_step g k VersionsMounted st = versions_emit g k st"
| "versions_step g k (ChannelSwitched c) st = versions_emit g k (st\<lparr>vl_channel := c, vl_input := []\<rparr>)"
| "versions_step g k (FilterTyped s) st = versions_emit g k (st\<lparr>vl_input := s\<rparr>)"
| "versions_step g k (VersionsLoaded body) st = st\<lparr>vl_versions := body\<rparr>"
| "versions_step g k (VersionDeleted v) st =
     st\<lparr>vl_versions := filter (\<lambda>kv. version_of kv \<noteq> version_of v) (vl_versions st)\<rparr>"

definition filter_versions :: "string \<Rightarrow> js list \<Rightarrow> js list" where
  "filter_versions input versions =
     (if input \<noteq> [] then filter (\<lambda>v. includes_str (version_of v) input) versions else versions)"

definition base_of :: "js \<Rightarrow> js" where
  "base_of v = Str (getBaseVersion (version_of v))"

definition group_versions ::
    "lodash_coll \<Rightarrow> 'v semver \<Rightarrow> sorter \<Rightarrow> js list \<Rightarrow> js_error + (string \<times> js list) list" where
  "group_versions C S srt versions =
     (let grouped = lc_group_by C base_of versions
      in case orderVersions S srt (map fst grouped) of
           Inl e \<Rightarrow> Inl e
         | Inr keys \<Rightarrow> Inr (map (\<lambda>base. (base, case map_of grouped base of None \<Rightarrow> [] | Some vs \<Rightarrow> vs)) keys))"

definition versions_view ::
    "lodash_coll \<Rightarrow> 'v semver \<Rightarrow> sorter \<Rightarrow> version_list \<Rightarrow> js_error + (string \<times> js list) list" where
  "versions_view C S srt st = group_versions C S srt (filter_versions (vl_input st) (vl_versions st))"

text \<open>\<^verbatim>\<open>GroupKubepkgVersionListGroup\<close>: the heading, its first version and its base.\<close>

definition group_heading :: "string \<times> js list \<Rightarrow> js \<times> string" where
  "group_heading p = (case snd p of [] \<Rightarrow> Undef | v # _ \<Rightarrow> member v ''version'', fst p)"

section \<open>Selecting a version\<close>

record select_row =
  sr_base :: string
  sr_rest :: string
  sr_active :: bool
  sr_revision :: js

definition select_rows :: "js \<Rightarrow> string \<Rightarrow> js list \<Rightarrow> select_row list" where
  "select_rows revisionID base versions =
     map (\<lambda>v. \<lparr>sr_base = base, sr_rest = drop (length base + 1) (version_of v),
                sr_active = (member v ''revisionID'' = revisionID), sr_revision = member v ''revisionID''\<rparr>) versions"

text \<open>Each group with whether it is expanded at first: when the selected version is in it.\<close>

definition select_view ::
    "lodash_coll \<Rightarrow> 'v semver \<Rightarrow> sorter \<Rightarrow> js \<Rightarrow> string \<Rightarrow> js list \<Rightarrow> js_error + (string \<times> bool \<times> select_row list) list" where
  "select_view C S srt revisionID input versions =
     map_sum id
       (map (\<lambda>(base, vs). (base, \<exists>v \<in> set vs. loose_eq (member v ''revisionID'') revisionID, select_rows revisionID base vs)))
       (group_versions C S srt (filter_versions (trim input) versions))"

section \<open>Publishing and deleting\<close>

definition channels :: "string list" where
  "channels = [''DEV'', ''BETA'', ''RC'', ''STABLE'']"

fun index_of :: "'a \<Rightarrow> 'a list \<Rightarrow> nat option" where
  "index_of x [] = None"
| "index_of x (y # ys) = (if x = y then Some 0 else map_option Suc (index_of x ys))"

text \<open>\<^verbatim>\<open>channels.slice(channels.indexOf(fromChannel) + 1)\<close>; an unknown channel has index -1.\<close>

definition allowChannels :: "string \<Rightarrow> string list" where
  "allowChannels fromChannel =
     drop (case index_of fromChannel channels of None \<Rightarrow> 0 | Some i \<Rightarrow> Suc i) channels"

definition publish_call :: "js \<Rightarrow> js \<Rightarrow> string \<Rightarrow> js \<Rightarrow> call" where
  "publish_call groupName pkg target versionInfo =
     call putKubepkgVersion
       [(''groupName'', groupName), (''name'', pkg), (''channel'', Str target), (''body'', versionInfo)]"

definition delete_version_call :: "js \<Rightarrow> js \<Rightarrow> js \<Rightarrow> js \<Rightarrow> call" where
  "delete_version_call groupName pkg chan version =
     call deleteKubepkgVersion
       [(''groupName'', groupName), (''name'', pkg), (''channel'', chan), (''version'', version)]"

text \<open>The switch of channels: each with whether it is active.\<close>

definition channel_chips :: "js \<Rightarrow> (string \<times> bool) list" where
  "channel_chips v = map (\<lambda>c. (c, loose_eq (Str c) v)) channels"

section \<open>The list of kubepkgs\<close>

definition kubepkg_base :: "js \<Rightarrow> js" where
  "kubepkg_base k = Str (hd (split_str ''--'' 0 (to_str (member k ''name''))))"

definition kubepkgs_view :: "lodash_coll \<Rightarrow> string \<Rightarrow> js list \<Rightarrow> (string \<times> (string \<times> string) list) list" where
  "kubepkgs_view C groupName kubepkgs =
     map (\<lambda>(base, ks). (base, map (\<lambda>k.
            (to_str (member k ''name''), ''/groups/'' @ groupName @ ''/kubepkgs/'' @ to_str (member k ''name''))) ks))
       (lc_group_by C kubepkg_base kubepkgs)"

definition list_kubepkgs_call :: "js \<Rightarrow> js \<Rightarrow> call" where
  "list_kubepkgs_call groupName name =
     call listKubepkg [(''groupName'', groupName), (''name'', if truthy name then Arr [name] else Undef), (''size'', Num (-1))]"

section \<open>Completing names of kubepkgs\<close>

text \<open>
  \<^verbatim>\<open>GroupKubepkgAutocomplete\<close>. The event \<open>InputSettled\<close> is the input after 300 ms without
  another; what is asked for is loaded once per group.
\<close>

record autocomplete =
  ac_input :: string
  ac_open :: bool
  ac_groups :: "js list"
  ac_kubepkgs :: "(string \<times> js list) list"
  ac_calls :: "call list"
  ac_emitted :: "string list"

datatype autocomplete_event =
    AcMounted
  | AcInput string
  | InputSettled string
  | GroupsLoaded js
  | KubepkgsLoaded string js
  | AcSelected string
  | AcFocused
  | AcClosed

definition ac_init :: "string option \<Rightarrow> autocomplete" where
  "ac_init name =
     \<lparr>ac_input = (case name of None \<Rightarrow> [] | Some s \<Rightarrow> s), ac_open = False, ac_groups = [], ac_kubepkgs = [],
      ac_calls = [], ac_emitted = []\<rparr>"

definition name_of :: "js \<Rightarrow> string" where
  "name_of v = to_str (member v ''name'')"

definition fetchKubepkgsOfGroup :: "string \<Rightarrow> autocomplete \<Rightarrow> autocomplete" where
  "fetchKubepkgsOfGroup g st =
     (if map_of (ac_kubepkgs st) g = None
      then st\<lparr>ac_calls := ac_calls st @ [call listKubepkg [(''groupName'', Str g), (''size'', Num (-1))]]\<rparr> else st)"

definition fetch_known :: "string \<Rightarrow> autocomplete \<Rightarrow> autocomplete" where
  "fetch_known input st =
     (let g = hd (split_on (CHR ''/'') input) in
      if g \<noteq> [] \<and> (\<exists>x \<in> set (ac_groups st). member x ''name'' = Str g) then fetchKubepkgsOfGroup g st else st)"

definition select_value :: "string \<Rightarrow> autocomplete \<Rightarrow> autocomplete" where
  "select_value v st =
     (case split_on (CHR '':'') v of
        kind # rest \<Rightarrow>
          let value = (case rest of [] \<Rightarrow> ''undefined'' | w # _ \<Rightarrow> w) in
          if kind = ''group'' then st\<lparr>ac_input := value @ ''/''\<rparr>
          else if kind = ''kubepkg'' then st\<lparr>ac_input := value, ac_emitted := ac_emitted st @ [value]\<rparr>
          else st
      | [] \<Rightarrow> st)"

fun ac_step :: "autocomplete_event \<Rightarrow> autocomplete \<Rightarrow> autocomplete" where
  "ac_step AcMounted st = st\<lparr>ac_calls := ac_calls st @ [call listGroup []]\<rparr>"
| "ac_step (AcInput s) st = st\<lparr>ac_input := s\<rparr>"
| "ac_step (InputSettled s) st = fetch_known s st"
| "ac_step (GroupsLoaded body) st =
     (let st' = st\<lparr>ac_groups := (if truthy body then map snd (own_props body) else [])\<rparr> in fetch_known (ac_input st') st')"
| "ac_step (KubepkgsLoaded g body) st =
     st\<lparr>ac_kubepkgs := AList.update g (map snd (own_props (coalesce body (Arr [])))) (ac_kubepkgs st)\<rparr>"
| "ac_step (AcSelected v) st = select_value v st"
| "ac_step AcFocused st = st\<lparr>ac_open := True\<rparr>"
| "ac_step AcClosed st = st\<lparr>ac_open := False\<rparr>"

text \<open>\<^verbatim>\<open>xs.filter((x, i) => prefix ? x.name.startsWith(prefix) : i <= 10)\<close>.\<close>

definition proposed :: "string option \<Rightarrow> js list \<Rightarrow> js list" where
  "proposed pre xs =
     (case pre of
        Some (c # p) \<Rightarrow> filter (\<lambda>x. starts_with (name_of x) (c # p)) xs
      | _ \<Rightarrow> take 11 xs)"

definition menu_items :: "autocomplete \<Rightarrow> (string \<times> string) list" where
  "menu_items st =
     (let parts = split_on (CHR ''/'') (ac_input st);
          kubepkgs = (case map_of (ac_kubepkgs st) (hd parts) of None \<Rightarrow> [] | Some ks \<Rightarrow> ks)
      in if kubepkgs \<noteq> []
         then map (\<lambda>k. let full = to_str (member k ''group'') @ ''/'' @ name_of k in (''kubepkg:'' @ full, full))
                (proposed (case parts of _ # n # _ \<Rightarrow> Some n | _ \<Rightarrow> None) kubepkgs)
         else map (\<lambda>g. (''group:'' @ name_of g, name_of g)) (proposed (Some (hd parts)) (ac_groups st)))"

section \<open>Splitting a version\<close>

lemma longest_base_split: "longest_base s = Some b \<Longrightarrow> \<exists>c t. s = b @ c # t \<and> (c = CHR ''.'' \<or> c = CHR ''-'') \<and> stamped t"
  by (induction s arbitrary: b) (auto split: option.splits if_splits)

lemma longest_base_longest:
  "s = b @ c # t \<Longrightarrow> c = CHR ''.'' \<or> c = CHR ''-'' \<Longrightarrow> stamped t \<Longrightarrow>
   \<exists>b'. longest_base s = Some b' \<and> length b \<le> length b'"
proof (induction b arbitrary: s)
  case Nil
  then show ?case by (auto split: option.splits)
next
  case (Cons d b)
  then obtain b' where "longest_base (b @ c # t) = Some b'" "length b \<le> length b'" by blast
  then show ?case using Cons.prems by simp
qed

lemma last_line_one: "\<not> list_ex line_break v \<Longrightarrow> last_line v = v"
proof -
  assume "\<not> list_ex line_break v"
  then have "takeWhile (\<lambda>c. \<not> line_break c) (rev v) = rev v" by (subst takeWhile_eq_all_conv) (auto simp: list_ex_iff)
  then show ?thesis unfolding last_line_def by (simp only: rev_rev_ident)
qed

lemma getBaseVersion_split:
  assumes "\<not> list_ex line_break v"
  shows "(getBaseVersion v = v \<and> (\<forall>b c t. v = b @ c # t \<longrightarrow> b \<noteq> [] \<longrightarrow> c = CHR ''.'' \<or> c = CHR ''-'' \<longrightarrow> \<not> stamped t))
    \<or> (\<exists>c t. v = getBaseVersion v @ c # t \<and> (c = CHR ''.'' \<or> c = CHR ''-'') \<and> stamped t)"
proof (cases "longest_base v")
  case None
  have "\<not> stamped t" if "v = b @ c # t" "c = CHR ''.'' \<or> c = CHR ''-''" for b c t
    using longest_base_longest [OF that] None by auto
  moreover have "getBaseVersion v = v" using None by (simp add: getBaseVersion_def last_line_one [OF assms])
  ultimately show ?thesis by blast
next
  case (Some b)
  show ?thesis
  proof (cases b)
    case Nil
    have "\<not> stamped t" if "v = b' @ c # t" "b' \<noteq> []" "c = CHR ''.'' \<or> c = CHR ''-''" for b' c t
      using longest_base_longest [OF that(1,3)] Some Nil that(2) by auto
    moreover have "getBaseVersion v = v" using Some Nil by (simp add: getBaseVersion_def last_line_one [OF assms])
    ultimately show ?thesis by blast
  next
    case (Cons d b')
    then have "getBaseVersion v = b" using Some last_line_one [OF assms] by (simp add: getBaseVersion_def)
    then show ?thesis using longest_base_split [OF Some] by metis
  qed
qed

section \<open>Grouping\<close>

lemma base_keys: "to_str (base_of v) = getBaseVersion (version_of v)"
  by (simp add: base_of_def)

context collections begin

lemma group_versions_keys:
  assumes "group_versions C S srt versions = Inr gs" and "sorter_ok srt"
  shows "map fst gs = srt (compare S) (map fst (lc_group_by C base_of versions))"
    and "mset (map fst gs) = mset (map fst (lc_group_by C base_of versions))"
    and "gs = map (\<lambda>b. (b, groups_of base_of versions b)) (map fst gs)"
proof -
  let ?ks = "map fst (lc_group_by C base_of versions)"
  let ?f = "\<lambda>base. (base, case map_of (lc_group_by C base_of versions) base of None \<Rightarrow> [] | Some vs \<Rightarrow> vs)"
  have gs: "gs = map ?f (srt (compare S) ?ks)"
    using assms(1) by (auto simp: group_versions_def orderVersions_def Let_def split: sum.splits if_splits)
  then show keys: "map fst gs = srt (compare S) ?ks" by (simp add: comp_def)
  have "mset (srt (compare S) ?ks) = mset ?ks" using assms(2) by (auto simp: sorter_ok_def)
  then show perm: "mset (map fst gs) = mset ?ks" unfolding keys .
  have same: "?f b = (b, groups_of base_of versions b)" if "b \<in> set (map fst gs)" for b
  proof -
    have "b \<in> set ?ks" using that perm by (metis set_mset_mset)
    then show ?thesis using group_at [of b base_of versions] by simp
  qed
  have "gs = map ?f (map fst gs)" unfolding keys by (rule gs)
  also have "\<dots> = map (\<lambda>b. (b, groups_of base_of versions b)) (map fst gs)"
    by (rule map_cong [OF refl]) (rule same)
  finally show "gs = map (\<lambda>b. (b, groups_of base_of versions b)) (map fst gs)" .
qed

end

text \<open>A comparison by an order is consistent on bases that all differ in it.\<close>

definition newer :: "'v semver \<Rightarrow> string \<Rightarrow> string \<Rightarrow> bool" where
  "newer S a b = sv_gt S (the (sv_coerce S a)) (the (sv_coerce S b))"

definition told_apart :: "'v semver \<Rightarrow> string set \<Rightarrow> bool" where
  "told_apart S B \<longleftrightarrow>
     (\<forall>a \<in> B. \<forall>b \<in> B. a \<noteq> b \<longrightarrow> newer S a b = (\<not> newer S b a))
     \<and> (\<forall>a \<in> B. \<forall>b \<in> B. \<forall>c \<in> B. newer S a b \<longrightarrow> newer S b c \<longrightarrow> newer S a c)"

lemma compare_newer: "compare S a b < 0 \<longleftrightarrow> newer S a b" "compare S a b > 0 \<longleftrightarrow> \<not> newer S a b"
  by (simp_all add: compare_def newer_def)

lemma told_apart_consistent: "told_apart S (set xs) \<Longrightarrow> consistent (compare S) xs"
  unfolding consistent_def compare_newer told_apart_def by blast

section \<open>Properties\<close>


text \<open>A sorter: insertion by the comparison.\<close>

fun insert_cmp :: "(string \<Rightarrow> string \<Rightarrow> int) \<Rightarrow> string \<Rightarrow> string list \<Rightarrow> string list" where
  "insert_cmp cmp x [] = [x]"
| "insert_cmp cmp x (y # ys) = (if cmp y x < 0 then y # insert_cmp cmp x ys else x # y # ys)"

definition insertion_sorter :: sorter where
  "insertion_sorter cmp xs = foldr (insert_cmp cmp) xs []"

lemma mset_insert_cmp [simp]: "mset (insert_cmp cmp x ys) = add_mset x (mset ys)"
  by (induction ys) auto

lemma set_insert_cmp [simp]: "set (insert_cmp cmp x ys) = insert x (set ys)"
  by (metis mset_insert_cmp set_mset_add_mset_insert set_mset_mset)

lemma mset_insertion_sorter: "mset (insertion_sorter cmp xs) = mset xs"
  by (induction xs) (simp_all add: insertion_sorter_def)

lemma consistentD:
  "consistent cmp xs \<Longrightarrow> a \<in> set xs \<Longrightarrow> b \<in> set xs \<Longrightarrow> a \<noteq> b \<Longrightarrow> (\<not> cmp a b > 0) = (cmp a b < 0) \<and> (cmp b a < 0) = (\<not> cmp a b < 0)"
proof -
  assume "consistent cmp xs" "a \<in> set xs" "b \<in> set xs" "a \<noteq> b"
  then have "cmp a b < 0 \<and> cmp b a > 0 \<or> cmp b a < 0 \<and> cmp a b > 0" unfolding consistent_def by blast
  then show ?thesis by linarith
qed

lemma consistent_subset: "consistent cmp xs \<Longrightarrow> set ys \<subseteq> set xs \<Longrightarrow> consistent cmp ys"
  unfolding consistent_def by (meson subsetD)

lemma consistent_trans:
  "consistent cmp xs \<Longrightarrow> a \<in> set xs \<Longrightarrow> b \<in> set xs \<Longrightarrow> c \<in> set xs \<Longrightarrow> cmp a b < 0 \<Longrightarrow> cmp b c < 0 \<Longrightarrow> cmp a c < 0"
  unfolding consistent_def by blast

lemma sorted_insert_cmp:
  "consistent cmp (x # ys) \<Longrightarrow> x \<notin> set ys \<Longrightarrow> distinct ys \<Longrightarrow> sorted_wrt (\<lambda>a b. cmp a b < 0) ys \<Longrightarrow>
   sorted_wrt (\<lambda>a b. cmp a b < 0) (insert_cmp cmp x ys)"
proof (induction ys)
  case (Cons y ys)
  have sub: "consistent cmp (x # ys)" using Cons.prems(1) by (rule consistent_subset) auto
  show ?case
  proof (cases "cmp y x < 0")
    case True
    then show ?thesis using Cons.IH [OF sub] Cons.prems by simp
  next
    case False
    then have xy: "cmp x y < 0" using consistentD [OF Cons.prems(1), of y x] Cons.prems(2) by auto
    have "cmp x z < 0" if "z \<in> set ys" for z
      using consistent_trans [OF Cons.prems(1), of x y z] xy Cons.prems(4) that by simp
    then show ?thesis using False xy Cons.prems(4) by simp
  qed
qed simp

lemma insertion_sorter_ok: "sorter_ok insertion_sorter"
  unfolding sorter_ok_def
proof (intro conjI allI impI)
  fix cmp xs assume "distinct xs" "consistent cmp xs"
  then have "sorted_wrt (\<lambda>a b. cmp a b < 0) (insertion_sorter cmp xs)"
  proof (induction xs)
    case (Cons x xs)
    have same: "set (insertion_sorter cmp xs) = set xs" "distinct (insertion_sorter cmp xs)"
      using Cons.prems(1) mset_insertion_sorter [of cmp xs] by (metis set_mset_mset, metis distinct.simps(2) mset_eq_imp_distinct_iff)
    have "consistent cmp xs" "consistent cmp (x # insertion_sorter cmp xs)"
      using same(1) by (auto intro: consistent_subset [OF Cons.prems(2)])
    then have "sorted_wrt (\<lambda>a b. cmp a b < 0) (insert_cmp cmp x (insertion_sorter cmp xs))"
      using Cons same by (intro sorted_insert_cmp) auto
    then show ?case by (simp add: insertion_sorter_def)
  qed (simp add: insertion_sorter_def)
  then show "sorted_wrt (\<lambda>a b. \<not> cmp a b > 0) (insertion_sorter cmp xs)"
    by (rule sorted_wrt_mono_rel [rotated]) auto
qed (rule mset_insertion_sorter)

text \<open>Versions of three numbers, ordered as such.\<close>

definition demo_semver :: "nat list semver" where
  "demo_semver =
     \<lparr>sv_coerce = (\<lambda>s. let ws = split_on (CHR ''.'') s in
         if list_all (\<lambda>w. w \<noteq> [] \<and> list_all is_digit w) ws then Some (map digits_value ws) else None),
      sv_gt = (\<lambda>a b. (case (a, b) of (x # _, y # _) \<Rightarrow> x > y | _ \<Rightarrow> False))\<rparr>"

definition demo_version :: "string \<Rightarrow> js" where
  "demo_version v = Obj [(''version'', Str v), (''revisionID'', Str (''r'' @ v))]"

definition demo_version_list :: version_list where
  "demo_version_list = versions_init\<lparr>vl_versions :=
     [demo_version ''1.0.0-20230101-a'', demo_version ''2.0.0-20230203-b'', demo_version ''1.0.0-20230405-c'']\<rparr>"

lemma demo_versions_view:
  "versions_view lodash_coll_ref demo_semver insertion_sorter demo_version_list
   = Inr [(''2.0.0'', [demo_version ''2.0.0-20230203-b'']),
          (''1.0.0'', [demo_version ''1.0.0-20230101-a'', demo_version ''1.0.0-20230405-c''])]"
  by code_simp


text \<open>
  A row of a version in its group spells the version whole: its base, one separator, and the
  rest, which begins with a time; or the version is its own base.
\<close>

theorem version_row_spells:
  assumes "\<not> list_ex line_break (version_of v)"
    and "row \<in> set (select_rows revisionID (getBaseVersion (version_of v)) [v])"
  shows "version_of v = sr_base row \<and> sr_rest row = []
    \<or> (\<exists>c. version_of v = sr_base row @ c # sr_rest row \<and> (c = CHR ''.'' \<or> c = CHR ''-'') \<and> stamped (sr_rest row))"
proof -
  have row: "sr_base row = getBaseVersion (version_of v)"
    "sr_rest row = drop (length (getBaseVersion (version_of v)) + 1) (version_of v)"
    using assms(2) by (simp_all add: select_rows_def)
  from getBaseVersion_split [OF assms(1)] show ?thesis
  proof
    assume "getBaseVersion (version_of v) = version_of v
      \<and> (\<forall>b c t. version_of v = b @ c # t \<longrightarrow> b \<noteq> [] \<longrightarrow> c = CHR ''.'' \<or> c = CHR ''-'' \<longrightarrow> \<not> stamped t)"
    then show ?thesis by (simp add: row)
  next
    assume "\<exists>c t. version_of v = getBaseVersion (version_of v) @ c # t \<and> (c = CHR ''.'' \<or> c = CHR ''-'') \<and> stamped t"
    then obtain c t where v: "version_of v = getBaseVersion (version_of v) @ c # t"
      "c = CHR ''.'' \<or> c = CHR ''-''" "stamped t" by blast
    then have "sr_rest row = t" unfolding row(2) by (metis append_eq_conv_conj Suc_eq_plus1 drop_Suc_Cons drop_0 drop_drop add.commute)
    then show ?thesis using v row(1) by metis
  qed
qed

theorem version_row_spells_witness:
  "sr_rest \<lparr>sr_base = ''1.0.0'', sr_rest = ''20230101-a'', sr_active = False, sr_revision = Str ''r1.0.0-20230101-a''\<rparr> = ''20230101-a''
   \<and> (\<exists>c. ''1.0.0-20230101-a'' = ''1.0.0'' @ c # ''20230101-a'' \<and> stamped ''20230101-a'')"
proof -
  let ?v = "demo_version ''1.0.0-20230101-a''"
  have "version_of ?v = ''1.0.0-20230101-a''" "\<not> list_ex line_break (version_of ?v)"
    "\<lparr>sr_base = ''1.0.0'', sr_rest = ''20230101-a'', sr_active = False, sr_revision = Str ''r1.0.0-20230101-a''\<rparr>
       \<in> set (select_rows (Str '''') (getBaseVersion (version_of ?v)) [?v])" by code_simp+
  from version_row_spells [OF this(2,3)] this(1) show ?thesis by auto
qed

text \<open>
  C29. A kubepkg proposed by the completion, when selected, is reported under the very name shown,
  and becomes the group and the kubepkg of the deployment's filters, whose revision is then
  asked of that group.
\<close>

theorem kubepkg_selected:
  assumes "(v, label) \<in> set (menu_items st)" and "starts_with v ''kubepkg:''"
    and "\<forall>(g, ks) \<in> set (ac_kubepkgs st). \<forall>k \<in> set ks.
           CHR '':'' \<notin> set (to_str (member k ''group'')) \<and> CHR ''/'' \<notin> set (to_str (member k ''group''))
           \<and> CHR '':'' \<notin> set (name_of k) \<and> CHR ''/'' \<notin> set (name_of k)"
  shows "ac_emitted (ac_step (AcSelected v) st) = ac_emitted st @ [label] \<and> ac_input (ac_step (AcSelected v) st) = label
    \<and> (\<exists>g ks k. (g, ks) \<in> set (ac_kubepkgs st) \<and> k \<in> set ks
         \<and> select_kubepkg label fs
             = fs\<lparr>pf_groupName := Str (to_str (member k ''group'')), pf_kubepkgName := Str (name_of k)\<rparr>)"
proof -
  let ?parts = "split_on (CHR ''/'') (ac_input st)"
  define ks where "ks = (case map_of (ac_kubepkgs st) (hd ?parts) of None \<Rightarrow> [] | Some ks \<Rightarrow> ks)"
  have sub: "x \<in> set (proposed pre xs) \<Longrightarrow> x \<in> set xs" for x pre and xs :: "js list"
    by (auto simp: proposed_def dest: in_set_takeD split: option.splits list.splits)
  have "\<not> (''group:'' @ w = v)" for w using assms(2) by auto
  then obtain k where k: "k \<in> set ks" "label = to_str (member k ''group'') @ ''/'' @ name_of k" "v = ''kubepkg:'' @ label"
    using assms(1) sub by (fastforce simp: menu_items_def Let_def ks_def [symmetric] split: if_splits)
  then have loaded: "(hd ?parts, ks) \<in> set (ac_kubepkgs st)"
    by (auto simp: ks_def split: option.splits dest: map_of_SomeD)
  have plain: "CHR '':'' \<notin> set label" "CHR ''/'' \<notin> set (to_str (member k ''group''))" "CHR ''/'' \<notin> set (name_of k)"
    using assms(3) loaded k(1,2) by auto
  have "v = ''kubepkg'' @ CHR '':'' # label" by (simp add: k(3))
  then have "split_on (CHR '':'') v = [''kubepkg'', label]"
    using split_on_append [of "CHR '':''" "''kubepkg''" label] split_on_no_delim [OF plain(1)] by simp
  then have step: "ac_step (AcSelected v) st = st\<lparr>ac_input := label, ac_emitted := ac_emitted st @ [label]\<rparr>"
    by (simp add: select_value_def)
  have "split_on (CHR ''/'') label = [to_str (member k ''group''), name_of k]"
    using split_on_append [OF plain(2), of "name_of k"] split_on_no_delim [OF plain(3)] by (simp add: k(2))
  then have "select_kubepkg label fs
      = fs\<lparr>pf_groupName := Str (to_str (member k ''group'')), pf_kubepkgName := Str (name_of k)\<rparr>"
    by (simp add: select_kubepkg_def)
  with step loaded k(1) show ?thesis by auto
qed

definition demo_completion :: autocomplete where
  "demo_completion = (ac_init None)\<lparr>ac_input := ''shop/w'',
     ac_kubepkgs := [(''shop'', [Obj [(''group'', Str ''shop''), (''name'', Str ''web'')]])]\<rparr>"

theorem kubepkg_selected_witness:
  "ac_emitted (ac_step (AcSelected ''kubepkg:shop/web'') demo_completion) = [''shop/web'']"
proof -
  have item: "(''kubepkg:shop/web'', ''shop/web'') \<in> set (menu_items demo_completion)" by code_simp
  have "ac_emitted (ac_step (AcSelected ''kubepkg:shop/web'') demo_completion) = ac_emitted demo_completion @ [''shop/web'']"
    by (rule kubepkg_selected [OF item, THEN conjunct1]) (simp_all add: demo_completion_def name_of_def obj_get_def)
  then show ?thesis by (simp add: demo_completion_def ac_init_def)
qed

section \<open>Where it does not do what it means to\<close>

text \<open>Of two bases that are the same version each comes after the other, so their order is open.\<close>

lemma tie_inconsistent: "\<not> newer S a b \<Longrightarrow> \<not> newer S b a \<Longrightarrow> a \<noteq> b \<Longrightarrow> \<not> consistent (compare S) [a, b]"
  by (auto simp: consistent_def compare_def newer_def)

text \<open>One base that is no version makes the whole list raise, unless it is alone.\<close>

lemma unversioned_raises:
  "sv_coerce S v = None \<Longrightarrow> v \<in> set bases \<Longrightarrow> 2 \<le> length bases \<Longrightarrow> orderVersions S srt bases = Inl TypeError"
  by (auto simp: orderVersions_def)

text \<open>Every character typed into the filter asks for all versions again.\<close>

lemma typing_reloads: "vl_calls (versions_step g k (FilterTyped s) st) = vl_calls st @ [list_versions_call g k (vl_channel st)]"
  by (simp add: versions_emit_def)

text \<open>What is typed is not trimmed (the result of \<^verbatim>\<open>trim()\<close> is dropped), so a group after a space is not found.\<close>

lemma untrimmed_group_unknown:
  "ac_calls (ac_step (InputSettled '' shop'') (ac_step (AcInput '' shop'')
     (ac_step (GroupsLoaded (Arr [Obj [(''name'', Str ''shop'')]])) (ac_init None)))) = []"
  by (simp add: fetch_known_def ac_init_def Let_def obj_get_def)

end
