(* ===== verification/Kubepkg_Pickers.thy ===== *)
theory Kubepkg_Pickers
  imports Kubepkg_Versions
begin

text \<open>
  The selection of a version (\<^verbatim>\<open>GroupKubepkgVersionSelect.tsx\<close>) as it runs: its requests, the filter,
  the groups that expand and the versions that are clicked; the other elements that expand
  (\<^verbatim>\<open>GroupKubepkgVersionList.tsx\<close>, \<^verbatim>\<open>DeploymentExpandable.tsx\<close>); and the loading indicator of
  \<^verbatim>\<open>GroupKubepkgAutocomplete.tsx\<close>.
\<close>

section \<open>Elements that expand\<close>

text \<open>\<^verbatim>\<open>observableRef(props.expanded)\<close>: the property counts at the set-up only.\<close>

definition expandable_click :: "bool \<Rightarrow> bool" where
  "expandable_click expanded = (\<not> expanded)"

definition version_expandable :: "bool \<Rightarrow> 'h \<Rightarrow> 'c \<Rightarrow> bool \<times> 'h \<times> 'c option" where
  "version_expandable expanded heading children = (expanded, heading, if expanded then Some children else None)"

definition deployment_expandable :: "bool \<Rightarrow> 'h \<Rightarrow> 'c \<Rightarrow> bool \<times> 'h \<times> 'c option" where
  "deployment_expandable expanded heading children = (expanded, heading, if expanded then Some children else None)"

definition group_expandable :: "bool \<Rightarrow> 'h \<Rightarrow> 'c \<Rightarrow> bool \<times> 'h \<times> string \<times> 'c option" where
  "group_expandable expanded heading children =
     (expanded, heading, if expanded then ''mdiChevronUp'' else ''mdiChevronDown'',
      if expanded then Some children else None)"

text \<open>
  The groups of versions are rendered without keys: an instance that is there already is given the
  group at its place, only those beyond are set up, and those too many are dropped.
\<close>

definition render_expandables :: "bool list \<Rightarrow> bool list \<Rightarrow> bool list" where
  "render_expandables focused instances = take (length focused) instances @ drop (length instances) focused"

section \<open>Selecting a version\<close>

record version_select =
  vs_versions :: "js list option"
  vs_input :: string
  vs_revision :: js
  vs_expanded :: "bool list"
  vs_calls :: "call list"
  vs_selected :: "js list"

datatype select_event =
    FiltersPassed js js js
  | SelectLoaded "js list"
  | SelectFilter string
  | RevisionPassed js
  | GroupClicked nat
  | VersionClicked nat nat

definition select_init :: "js \<Rightarrow> version_select" where
  "select_init revisionID =
     \<lparr>vs_versions = None, vs_input = [], vs_revision = revisionID, vs_expanded = [], vs_calls = [], vs_selected = []\<rparr>"

text \<open>Before the first answer nothing is shown; what cannot be ordered raises and is not shown.\<close>

definition shown_groups ::
    "lodash_coll \<Rightarrow> 'v semver \<Rightarrow> sorter \<Rightarrow> version_select \<Rightarrow> (string \<times> bool \<times> select_row list) list option" where
  "shown_groups C S srt st =
     (case vs_versions st of
        None \<Rightarrow> None
      | Some vs \<Rightarrow> (case select_view C S srt (vs_revision st) (vs_input st) vs of Inl e \<Rightarrow> None | Inr v \<Rightarrow> Some v))"

definition rerender :: "lodash_coll \<Rightarrow> 'v semver \<Rightarrow> sorter \<Rightarrow> version_select \<Rightarrow> version_select" where
  "rerender C S srt st =
     (case shown_groups C S srt st of
        None \<Rightarrow> st
      | Some gs \<Rightarrow> st\<lparr>vs_expanded := render_expandables (map (\<lambda>(b, focused, rows). focused) gs) (vs_expanded st)\<rparr>)"

text \<open>A row is in the page while its group is expanded.\<close>

definition clicked_row ::
    "lodash_coll \<Rightarrow> 'v semver \<Rightarrow> sorter \<Rightarrow> nat \<Rightarrow> nat \<Rightarrow> version_select \<Rightarrow> select_row option" where
  "clicked_row C S srt i j st =
     (case shown_groups C S srt st of
        None \<Rightarrow> None
      | Some gs \<Rightarrow>
          (if i < length gs \<and> i < length (vs_expanded st) \<and> vs_expanded st ! i \<and> j < length (snd (snd (gs ! i)))
           then Some (snd (snd (gs ! i)) ! j) else None))"

fun select_step :: "lodash_coll \<Rightarrow> 'v semver \<Rightarrow> sorter \<Rightarrow> select_event \<Rightarrow> version_select \<Rightarrow> version_select" where
  "select_step C S srt (FiltersPassed g k c) st = st\<lparr>vs_calls := vs_calls st @ [list_versions_call g k c]\<rparr>"
| "select_step C S srt (SelectLoaded body) st = rerender C S srt (st\<lparr>vs_versions := Some body\<rparr>)"
| "select_step C S srt (SelectFilter s) st = rerender C S srt (st\<lparr>vs_input := trim s\<rparr>)"
| "select_step C S srt (RevisionPassed r) st = rerender C S srt (st\<lparr>vs_revision := r\<rparr>)"
| "select_step C S srt (GroupClicked i) st =
     (if i < length (vs_expanded st) then st\<lparr>vs_expanded := (vs_expanded st)[i := expandable_click (vs_expanded st ! i)]\<rparr> else st)"
| "select_step C S srt (VersionClicked i j) st =
     (case clicked_row C S srt i j st of None \<Rightarrow> st | Some r \<Rightarrow> st\<lparr>vs_selected := vs_selected st @ [sr_revision r]\<rparr>)"

definition select_run :: "lodash_coll \<Rightarrow> 'v semver \<Rightarrow> sorter \<Rightarrow> select_event list \<Rightarrow> version_select \<Rightarrow> version_select" where
  "select_run C S srt es st = fold (select_step C S srt) es st"

section \<open>The loading indicator\<close>

text \<open>
  \<^verbatim>\<open>bufferTime(300)\<close>: every 300 ms what was emitted meanwhile. The indicator is shown after a period in
  which a request said that it is under way, until the next period ends.
\<close>

definition buffered :: "nat \<Rightarrow> (nat \<times> 'a) list \<Rightarrow> nat \<Rightarrow> 'a list" where
  "buffered d es k = map snd (filter (\<lambda>(t, v). t div d = k) es)"

definition loading_shown :: "(nat \<times> bool) list \<Rightarrow> nat \<Rightarrow> bool" where
  "loading_shown es t = (case t div 300 of 0 \<Rightarrow> False | Suc k \<Rightarrow> list_ex id (buffered 300 es k))"

section \<open>What is selected was listed\<close>

lemma length_expandables [simp]: "length (render_expandables fs xs) = length fs"
  by (simp add: render_expandables_def)

context collections begin

lemma group_members_listed:
  assumes "group_versions C S srt versions = Inr gs" and "sorter_ok srt" and "(b, vs) \<in> set gs" and "v \<in> set vs"
  shows "v \<in> set versions"
proof -
  have "(b, vs) \<in> set (map (\<lambda>b. (b, groups_of base_of versions b)) (map fst gs))"
    using group_versions_keys(3) [OF assms(1,2)] assms(3) by metis
  then have "vs = groups_of base_of versions b" by auto
  with assms(4) show ?thesis by (simp add: groups_of_def)
qed

lemma row_listed:
  assumes "select_view C S srt r input versions = Inr gs" and "sorter_ok srt" and "(b, f, rows) \<in> set gs" and "row \<in> set rows"
  shows "\<exists>v \<in> set versions. sr_revision row = member v ''revisionID'' \<and> (trim input = [] \<or> includes_str (version_of v) (trim input))"
proof -
  obtain gs' where g: "group_versions C S srt (filter_versions (trim input) versions) = Inr gs'"
    using assms(1) by (cases "group_versions C S srt (filter_versions (trim input) versions)") (auto simp: select_view_def)
  then obtain vs where vs: "(b, vs) \<in> set gs'" "rows = select_rows r b vs"
    using assms(1,3) by (auto simp: select_view_def)
  then obtain v where v: "v \<in> set vs" "sr_revision row = member v ''revisionID''"
    using assms(4) by (auto simp: select_rows_def)
  then show ?thesis using group_members_listed [OF g assms(2) vs(1) v(1)]
    by (auto simp: filter_versions_def split: if_splits)
qed

lemma clicked_listed:
  assumes "sorter_ok srt" and "clicked_row C S srt i j st = Some row"
  shows "\<exists>vs. vs_versions st = Some vs \<and> (\<exists>v \<in> set vs. sr_revision row = member v ''revisionID'')"
proof -
  obtain gs where gs: "shown_groups C S srt st = Some gs" "i < length gs" "row \<in> set (snd (snd (gs ! i)))"
    using assms(2) by (auto simp: clicked_row_def split: option.splits if_splits)
  then obtain vs where vs: "vs_versions st = Some vs" "select_view C S srt (vs_revision st) (vs_input st) vs = Inr gs"
    by (auto simp: shown_groups_def split: option.splits sum.splits)
  obtain b f rows where "gs ! i = (b, f, rows)" by (cases "gs ! i") auto
  with gs have "(b, f, rows) \<in> set gs" "row \<in> set rows" by (force simp: in_set_conv_nth)+
  from row_listed [OF vs(2) assms(1) this] vs(1) show ?thesis by blast
qed

end

text \<open>Every version answered so far.\<close>

definition answered_versions :: "select_event list \<Rightarrow> js list" where
  "answered_versions es = concat (map (\<lambda>e. case e of SelectLoaded vs \<Rightarrow> vs | _ \<Rightarrow> []) es)"

lemma answered_append: "answered_versions (es @ fs) = answered_versions es @ answered_versions fs"
  by (simp add: answered_versions_def)

lemma answered_one: "answered_versions [e] = (case e of SelectLoaded vs \<Rightarrow> vs | _ \<Rightarrow> [])"
  by (simp add: answered_versions_def)

lemma rerender_keeps [simp]:
  "vs_versions (rerender C S srt st) = vs_versions st" "vs_selected (rerender C S srt st) = vs_selected st"
  "vs_input (rerender C S srt st) = vs_input st" "vs_revision (rerender C S srt st) = vs_revision st"
  "vs_calls (rerender C S srt st) = vs_calls st"
  by (simp_all add: rerender_def split: option.split)

lemma selected_were_answered:
  assumes "lodash_coll_ok C" and "sorter_ok srt"
  shows "set (vs_selected (select_run C S srt es (select_init r))) \<subseteq> (\<lambda>v. member v ''revisionID'') ` set (answered_versions es)
    \<and> (\<forall>vs. vs_versions (select_run C S srt es (select_init r)) = Some vs \<longrightarrow> set vs \<subseteq> set (answered_versions es))"
proof (induction es rule: rev_induct)
  case Nil
  show ?case by (simp add: select_run_def select_init_def answered_versions_def)
next
  case (snoc e es)
  let ?st = "select_run C S srt es (select_init r)"
  have run: "select_run C S srt (es @ [e]) (select_init r) = select_step C S srt e ?st" by (simp add: select_run_def)
  show ?case unfolding run answered_append
  proof (cases e)
    case (VersionClicked i j)
    then show "set (vs_selected (select_step C S srt e ?st))
          \<subseteq> (\<lambda>v. member v ''revisionID'') ` set (answered_versions es @ answered_versions [e])
        \<and> (\<forall>vs. vs_versions (select_step C S srt e ?st) = Some vs \<longrightarrow> set vs \<subseteq> set (answered_versions es @ answered_versions [e]))"
      using snoc collections.clicked_listed [OF collectionsI [OF assms(1)] assms(2), of S i j ?st]
      by (fastforce split: option.splits)
  qed (use snoc in \<open>auto simp: answered_one image_Un\<close>)
qed

text \<open>As many instances as groups are shown, while the versions can be ordered.\<close>

lemma expanded_follow_groups:
  assumes "shown_groups C S srt st = Some gs"
  shows "length (vs_expanded (rerender C S srt st)) = length gs"
  using assms by (simp add: rerender_def)

section \<open>What goes wrong\<close>

text \<open>
  The groups keep their places, not their bases: when the filter leaves only the second of two
  groups, it is shown as the first one was.
\<close>

lemma filter_shifts_expansion:
  assumes "shown_groups C S srt (st\<lparr>vs_input := trim s\<rparr>) = Some [g]" and "vs_expanded st = [False, True]"
  shows "vs_expanded (select_step C S srt (SelectFilter s) st) = [False]"
  using assms by (simp add: rerender_def render_expandables_def)

text \<open>The group of a version that is selected elsewhere is not expanded: the property counts at the set-up.\<close>

lemma selection_not_expanded:
  assumes "shown_groups C S srt (st\<lparr>vs_revision := r\<rparr>) = Some gs" and "length gs = length (vs_expanded st)"
  shows "vs_expanded (select_step C S srt (RevisionPassed r) st) = vs_expanded st"
  using assms by (simp add: rerender_def render_expandables_def)

text \<open>
  While a request is under way for more than two periods nothing is emitted, so the indicator
  is taken away; and one that is answered in the same period shows it only when it is over.
\<close>

lemma long_request_not_shown:
  assumes "begin_t div 300 + 1 < t div 300" and "t div 300 \<le> answer_t div 300"
  shows "\<not> loading_shown [(begin_t, True), (answer_t, False)] t"
  using assms by (auto simp: loading_shown_def buffered_def split: nat.split)

lemma short_request_shown_late:
  assumes "begin_t div 300 = answer_t div 300"
  shows "loading_shown [(begin_t, True), (answer_t, False)] t \<longleftrightarrow> t div 300 = Suc (begin_t div 300)"
  using assms by (auto simp: loading_shown_def buffered_def split: nat.split)

end
