(* ===== verification/Access_Control.thy ===== *)
theory Access_Control
  imports Expression
begin

text \<open>
  \<^verbatim>\<open>webapp/dashboard/mod/auth\<close>: who may do what. \<^verbatim>\<open>AccessControl.tsx\<close> decides from the user's
  permissions, expressions per operation that the server sends, and renders a control, a
  disabled control or nothing; \<^verbatim>\<open>CurrentUser.tsx\<close> merges the two responses the user is made of.
\<close>

section \<open>The current user\<close>

text \<open>The responses that change the user, in the order they arrive.\<close>

datatype user_event = UserLoaded js | PermissionsLoaded js

fun user_step :: "user_event \<Rightarrow> js \<Rightarrow> js" where
  "user_step (UserLoaded body) cur =
     Obj (spread (own_props body) [(''permissions'', member cur ''permissions'')])"
| "user_step (PermissionsLoaded body) cur =
     Obj (spread (own_props cur) [(''permissions'', body)])"

definition current_user :: "user_event list \<Rightarrow> js" where
  "current_user events = fold user_step events (Obj [])"

section \<open>Access to an operation\<close>

definition access_root :: "lodash \<Rightarrow> string option \<Rightarrow> js \<Rightarrow> js" where
  "access_root L resolveGroupID user =
     (case resolveGroupID of
        None \<Rightarrow> user
      | Some g \<Rightarrow>
          Obj (spread (own_props user)
            [(''groupRole'', lo_get L (member user ''groupRoles'') [g] Undef)]))"

definition createCanAccess ::
    "lodash \<Rightarrow> string option \<Rightarrow> string \<Rightarrow> js \<Rightarrow> expr_error + bool" where
  "createCanAccess L resolveGroupID operationID user =
     (let permissions = member user ''permissions'' in
      if truthy permissions then
        (if lo_has_str L permissions operationID then
           (case exec L (member permissions operationID)
                   (Obj [(''root'', access_root L resolveGroupID user), (''schema'', Obj [])])
                   (Num 0) of
              Inl e \<Rightarrow> Inl e
            | Inr r \<Rightarrow> Inr (truthy r))
         else Inr True)
      else Inr False)"

text \<open>What the \<^verbatim>\<open>AccessControl\<close> component renders of its children.\<close>

datatype rendered = RenderNothing | RenderDisabled | RenderChildren

definition renderAccessControl ::
    "lodash \<Rightarrow> string option \<Rightarrow> string \<Rightarrow> bool \<Rightarrow> js \<Rightarrow> expr_error + rendered" where
  "renderAccessControl L resolveGroupID operationID renderWithDisabled user =
     (case createCanAccess L resolveGroupID operationID user of
        Inl e \<Rightarrow> Inl e
      | Inr ok \<Rightarrow>
          Inr (if \<not> ok then (if renderWithDisabled then RenderDisabled else RenderNothing)
               else RenderChildren))"

definition renderMustAdmin :: "js \<Rightarrow> rendered" where
  "renderMustAdmin user =
     (if truthy (member user ''adminRole'') \<and> \<not> loose_eq (member user ''adminRole'') (Str ''GUEST'')
      then RenderChildren else RenderNothing)"

section \<open>Roles\<close>

text \<open>
  The access rule the server generates for an operation: one of the admin roles, or one of
  the roles in the group.
\<close>

definition need_role :: "string \<Rightarrow> string list \<Rightarrow> js" where
  "need_role ref roles =
     Arr [Str ''pipe'', Arr [Str ''get'', Str ref], Arr (Str ''oneOf'' # map Str roles)]"

definition role_rule :: "string list \<Rightarrow> string list \<Rightarrow> js" where
  "role_rule adminRoles groupRoles =
     Arr [Str ''anyOf'', need_role ''adminRole'' adminRoles, need_role ''groupRole'' groupRoles]"

definition role_fn :: "js \<Rightarrow> string \<Rightarrow> string list \<Rightarrow> efn" where
  "role_fn ctx ref roles =
     F_pipe ctx [F_get ctx (ArgVal (Str ref)), F_oneOfEnum (map (\<lambda>r. ArgVal (Str r)) roles)]"

lemma create_strings: "create_args (map Str xs) = Inr (map (\<lambda>x. ArgVal (Str x)) xs)"
  by (induction xs) simp_all

lemma default_builder_lookup [simp]:
  "map_of default_builders ''pipe'' = Some B_pipe"
  "map_of default_builders ''get'' = Some B_get"
  "map_of default_builders ''oneOf'' = Some B_oneOf"
  "map_of default_builders ''anyOf'' = Some B_anyOf"
  by (simp_all add: default_builders_def registered_name_def)

lemma create_role_rule:
  "create (role_rule A G) = Inr (Built B_anyOf
     [ArgExpr (Built B_pipe [ArgExpr (Built B_get [ArgVal (Str ''adminRole'')]),
        ArgExpr (Built B_oneOf (map (\<lambda>r. ArgVal (Str r)) A))]),
      ArgExpr (Built B_pipe [ArgExpr (Built B_get [ArgVal (Str ''groupRole'')]),
        ArgExpr (Built B_oneOf (map (\<lambda>r. ArgVal (Str r)) G))])])"
  by (simp add: role_rule_def need_role_def create_strings)

lemma role_instantiate:
  assumes "A \<noteq> []" and "G \<noteq> []"
  shows "instantiate L (Built B_anyOf
     [ArgExpr (Built B_pipe [ArgExpr (Built B_get [ArgVal (Str ''adminRole'')]),
        ArgExpr (Built B_oneOf (map (\<lambda>r. ArgVal (Str r)) A))]),
      ArgExpr (Built B_pipe [ArgExpr (Built B_get [ArgVal (Str ''groupRole'')]),
        ArgExpr (Built B_oneOf (map (\<lambda>r. ArgVal (Str r)) G))])]) ctx
    = Inr (F_anyOf ctx [role_fn ctx ''adminRole'' A, role_fn ctx ''groupRole'' G])"
proof -
  have "list_ex is_string_arg (map (\<lambda>r. ArgVal (Str r)) rs)" if "rs \<noteq> []" for rs
    using that by (cases rs) (simp_all add: is_string_arg_def)
  with assms show ?thesis
    by (simp add: isValidBuildExprFn_def role_fn_def arg_value_def)
qed

context lodash_api begin

lemma get_root:
  assumes "no_brackets s" and "CHR ''.'' \<notin> set s" and "is_plain_object root"
  shows "lo_get_str L (Obj [(''root'', root), (''schema'', Obj [])]) (''root.'' @ s) Undef = member root s"
  using assms
  by (auto simp: get_str_eq no_brackets_def key_path_def obj_has_def ref_get_def split_on_no_delim
      obj_get_def)

lemma run_role_fn:
  assumes "no_brackets ref" and "CHR ''.'' \<notin> set ref" and "is_plain_object root"
    and "c = Obj [(''root'', root), (''schema'', Obj [])]"
  shows "run L (role_fn c ref roles) v (Some c) sw w
    = Inr (Bool (\<exists>r \<in> set roles. member root ref = Str r), w)"
  using get_root [OF assms(1,2,3)] assms(4)
  by (auto simp: role_fn_def use_ctx_def has_switch_def nullish_def same_value_def Let_def)

lemma canAccess_rule:
  assumes "is_plain_object root" and "A \<noteq> []" and "G \<noteq> []"
  shows "exec L (role_rule A G) (Obj [(''root'', root), (''schema'', Obj [])]) (Num 0)
    = Inr (Bool ((\<exists>r \<in> set A. member root ''adminRole'' = Str r)
        \<or> (\<exists>r \<in> set G. member root ''groupRole'' = Str r)))"
proof -
  let ?c = "Obj [(''root'', root), (''schema'', Obj [])]"
  have plain: "no_brackets ''adminRole''" "no_brackets ''groupRole''"
    "CHR ''.'' \<notin> set ''adminRole''" "CHR ''.'' \<notin> set ''groupRole''"
    by (simp_all add: no_brackets_def)
  note fns = run_role_fn [OF plain(1,3) assms(1) refl] run_role_fn [OF plain(2,4) assms(1) refl]
  show ?thesis
    unfolding exec_def create_role_rule sum.case role_instantiate [OF assms(2,3)]
    by (simp add: fns use_ctx_def has_switch_def is_undefined_def)
qed

end

section \<open>Properties\<close>

text \<open>
  C6. An operation guarded by roles is open exactly to a user who has one of the admin roles,
  or one of the roles in the group the page is about; the decision raises nothing.
\<close>

theorem canAccess_by_role:
  assumes "lodash_ok L" and "user = Obj u"
    and "member user ''permissions'' = Obj perms"
    and "obj_has perms operationID" and "no_brackets operationID"
    and "obj_get perms operationID = role_rule A G" and "A \<noteq> []" and "G \<noteq> []"
  shows "createCanAccess L (Some groupID) operationID user
    = Inr ((\<exists>r \<in> set A. member user ''adminRole'' = Str r)
        \<or> (\<exists>r \<in> set G. lo_get L (member user ''groupRoles'') [groupID] Undef = Str r))"
proof -
  note api = lodash_apiI [OF assms(1)]
  let ?root = "access_root L (Some groupID) user"
  have root: "is_plain_object ?root" "member ?root ''adminRole'' = member user ''adminRole''"
    "member ?root ''groupRole'' = lo_get L (member user ''groupRoles'') [groupID] Undef"
    using assms(2) by (simp_all add: access_root_def spread_def obj_get_update)
  have "lo_has_str L (Obj perms) operationID"
    using assms(4,5) by (simp add: lodash_api.has_str_eq [OF api] key_path_def)
  with lodash_api.canAccess_rule [OF api root(1) assms(7,8)] assms(3,6) root(2,3)
  show ?thesis by (simp add: createCanAccess_def)
qed

theorem canAccess_by_role_witness:
  "createCanAccess lodash_ref (Some ''7'') ''dashboard.PutGroup''
     (Obj [(''adminRole'', Str ''GUEST''), (''groupRoles'', Obj [(''7'', Str ''OWNER'')]),
           (''permissions'', Obj [(''dashboard.PutGroup'', role_rule [''OWNER''] [''OWNER'', ''ADMIN''])])])
   = Inr True"
  using canAccess_by_role [OF lodash_ref_ok, where operationID = "''dashboard.PutGroup''" and groupID = "''7''"
      and A = "[''OWNER'']" and G = "[''OWNER'', ''ADMIN'']"
      and perms = "[(''dashboard.PutGroup'', role_rule [''OWNER''] [''OWNER'', ''ADMIN''])]"]
  by (simp add: obj_get_def obj_has_def no_brackets_def lodash_ref_def ref_get_def)

text \<open>
  Nothing is open before the permissions are loaded, and every operation they do not name
  is open once they are.
\<close>

theorem canAccess_unnamed:
  assumes "lodash_ok L" and "no_brackets operationID"
    and "member user ''permissions'' = Undef \<or> member user ''permissions'' = Obj perms"
    and "\<not> obj_has perms operationID"
    and "\<not> obj_has perms (hd (split_on (CHR ''.'') operationID))"
  shows "createCanAccess L g operationID user = Inr (member user ''permissions'' \<noteq> Undef)"
proof -
  note api = lodash_apiI [OF assms(1)]
  have "\<not> ref_has (Obj perms) (split_on (CHR ''.'') operationID)"
    using assms(5) by (cases "(Obj perms, split_on (CHR ''.'') operationID)" rule: ref_has.cases) auto
  then have "\<not> lo_has_str L (Obj perms) operationID"
    using assms(2,4) by (simp add: lodash_api.has_str_eq [OF api] key_path_def)
  with assms(3) show ?thesis
    by (auto simp: createCanAccess_def)
qed

theorem canAccess_unnamed_witness:
  "createCanAccess lodash_ref None ''dashboard.ListGroup''
     (Obj [(''permissions'', Obj [(''dashboard.PutGroup'', role_rule [''OWNER''] [''OWNER''])])]) = Inr True"
  using canAccess_unnamed [OF lodash_ref_ok, where operationID = "''dashboard.ListGroup''" and g = None
      and perms = "[(''dashboard.PutGroup'', role_rule [''OWNER''] [''OWNER''])]"
      and user = "Obj [(''permissions'', Obj [(''dashboard.PutGroup'', role_rule [''OWNER''] [''OWNER''])])]"]
  by (simp add: obj_get_def obj_has_def no_brackets_def)

section \<open>The order of the responses does not matter\<close>

fun is_user_event :: "user_event \<Rightarrow> bool" where
  "is_user_event (UserLoaded b) = True"
| "is_user_event e = False"

fun is_permissions_event :: "user_event \<Rightarrow> bool" where
  "is_permissions_event (PermissionsLoaded b) = True"
| "is_permissions_event e = False"

fun last_user :: "user_event list \<Rightarrow> js" where
  "last_user [] = Obj []"
| "last_user (UserLoaded body # es) = (if list_ex is_user_event es then last_user es else body)"
| "last_user (PermissionsLoaded body # es) = last_user es"

fun last_permissions :: "user_event list \<Rightarrow> js" where
  "last_permissions [] = Undef"
| "last_permissions (PermissionsLoaded body # es) =
     (if list_ex is_permissions_event es then last_permissions es else body)"
| "last_permissions (UserLoaded body # es) = last_permissions es"

lemma obj_get_spread_one [simp]:
  "obj_get (spread kvs [(k, v)]) k' = (if k' = k then v else obj_get kvs k')"
  by (simp add: spread_def obj_get_update)

lemma own_props_get: "is_plain_object v \<Longrightarrow> obj_get (own_props v) k = member v k"
  by (cases v) auto

lemma is_plain_object_user_step [simp]: "is_plain_object (user_step e cur)"
  by (cases e) simp_all

lemma current_user_members:
  assumes "is_plain_object cur" and "\<forall>b. UserLoaded b \<in> set es \<longrightarrow> is_plain_object b"
  shows "member (fold user_step es cur) ''permissions''
      = (if list_ex is_permissions_event es then last_permissions es
         else member cur ''permissions'')
    \<and> (k \<noteq> ''permissions'' \<longrightarrow> member (fold user_step es cur) k
      = (if list_ex is_user_event es then member (last_user es) k else member cur k))"
  using assms
proof (induction es arbitrary: cur)
  case (Cons e es)
  have "is_plain_object (user_step e cur)" by simp
  from Cons.IH [OF this] Cons.prems show ?case
    by (cases e) (simp_all add: own_props_get)
qed simp

text \<open>
  However the responses interleave and repeat, the user is the last user response with the
  permissions of the last permissions response.
\<close>

theorem current_user_order_independent:
  assumes "\<forall>b. UserLoaded b \<in> set events \<longrightarrow> is_plain_object b"
  shows "member (current_user events) ''permissions'' = last_permissions events
    \<and> (k \<noteq> ''permissions'' \<longrightarrow> member (current_user events) k = member (last_user events) k)"
proof -
  have "last_permissions es = Undef" if "\<not> list_ex is_permissions_event es" for es
    using that by (induction es rule: last_permissions.induct) auto
  moreover have "last_user es = Obj []" if "\<not> list_ex is_user_event es" for es
    using that by (induction es rule: last_user.induct) auto
  ultimately show ?thesis
    using current_user_members [OF _ assms, of "Obj []" k]
    by (auto simp: current_user_def obj_get_def)
qed

theorem current_user_order_independent_witness:
  "member (current_user [PermissionsLoaded (Obj []), UserLoaded (Obj [(''name'', Str ''a'')])]) ''permissions'' = Obj []
   \<and> member (current_user [PermissionsLoaded (Obj []), UserLoaded (Obj [(''name'', Str ''a'')])]) ''name'' = Str ''a''"
  using current_user_order_independent
    [of "[PermissionsLoaded (Obj []), UserLoaded (Obj [(''name'', Str ''a'')])]" "''name''"]
  by (simp add: obj_get_def)

end
