(* ===== verification/Dashboard_Types.thy ===== *)
theory Dashboard_Types
  imports Dashboard_Schema
begin

text \<open>
  The types of \<^verbatim>\<open>webapp/dashboard/client/dashboard.ts\<close>, one definition per declaration, in the
  order of the file: type aliases, enumerations with the functions that display them. The
  name of a definition is the name of the type after \<open>ty_\<close>.
\<close>

definition ty_AccountId :: tsty where
  "ty_AccountId =
    TString"

definition ty_AccountUserDataList :: tsty where
  "ty_AccountUserDataList =
    TObject [(''data'', Required, TArray (TRef ''AccountUser'')),
     (''total'', Required, TNumber)]"

definition ty_AccountUser :: tsty where
  "ty_AccountUser =
    TAnd [TRef ''Account'', TRef ''AccountUserInfo'', TObject []]"

definition ty_Account :: tsty where
  "ty_Account =
    TAnd [TRef ''DatatypesPrimaryId'', TRef ''DatatypesCreationUpdationDeletionTime'', TObject [(''accountID'', Required, TRef ''AccountId''),
     (''accountType'', Required, TRef ''AccountType'')]]"

definition ty_DatatypesPrimaryId :: tsty where
  "ty_DatatypesPrimaryId =
    TObject []"

definition ty_DatatypesCreationUpdationDeletionTime :: tsty where
  "ty_DatatypesCreationUpdationDeletionTime =
    TAnd [TRef ''DatatypesCreationUpdationTime'', TObject [(''deletedAt'', Optional, TRef ''DatatypesTimestamp'')]]"

definition ty_DatatypesCreationUpdationTime :: tsty where
  "ty_DatatypesCreationUpdationTime =
    TAnd [TRef ''DatatypesCreationTime'', TObject [(''updatedAt'', Required, TRef ''DatatypesTimestamp'')]]"

definition ty_DatatypesCreationTime :: tsty where
  "ty_DatatypesCreationTime =
    TObject [(''createdAt'', Required, TRef ''DatatypesTimestamp'')]"

definition ty_DatatypesTimestamp :: tsty where
  "ty_DatatypesTimestamp =
    TString"

definition AccountType :: ts_enum where
  "AccountType = [(''USER'', ''USER''), (''ROBOT'', ''ROBOT''), (''AGENT'', ''AGENT'')]"

definition displayAccountType :: "string \<Rightarrow> string" where
  "displayAccountType v = display_label [(''USER'', ''USER''),
     (''ROBOT'', ''ROBOT''),
     (''AGENT'', ''AGENT'')] v"

definition ty_AccountUserInfo :: tsty where
  "ty_AccountUserInfo =
    TObject [(''email'', Optional, TString),
     (''mobile'', Optional, TString),
     (''nickname'', Optional, TString)]"

definition GroupRoleType :: ts_enum where
  "GroupRoleType = [(''OWNER'', ''OWNER''), (''ADMIN'', ''ADMIN''), (''MEMBER'', ''MEMBER''), (''GUEST'', ''GUEST'')]"

definition displayGroupRoleType :: "string \<Rightarrow> string" where
  "displayGroupRoleType v = display_label [(''OWNER'', [CHR 0xE6, CHR 0x8B, CHR 0xA5, CHR 0xE6, CHR 0x9C, CHR 0x89, CHR 0xE8, CHR 0x80, CHR 0x85]),
     (''ADMIN'', [CHR 0xE7, CHR 0xAE, CHR 0xA1, CHR 0xE7, CHR 0x90, CHR 0x86, CHR 0xE5, CHR 0x91, CHR 0x98]),
     (''MEMBER'', [CHR 0xE6, CHR 0x88, CHR 0x90, CHR 0xE5, CHR 0x91, CHR 0x98]),
     (''GUEST'', [CHR 0xE8, CHR 0xAE, CHR 0xBF, CHR 0xE9, CHR 0x97, CHR 0xAE, CHR 0xE8, CHR 0x80, CHR 0x85])] v"

definition ty_GroupUserDataList :: tsty where
  "ty_GroupUserDataList =
    TObject [(''data'', Required, TArray (TRef ''GroupUser'')),
     (''total'', Required, TNumber)]"

definition ty_GroupUser :: tsty where
  "ty_GroupUser =
    TAnd [TRef ''GroupAccount'', TRef ''AccountUserInfo'', TObject []]"

definition ty_GroupAccount :: tsty where
  "ty_GroupAccount =
    TAnd [TRef ''DatatypesCreationUpdationTime'', TObject [(''accountID'', Required, TRef ''AccountId''),
     (''groupID'', Required, TRef ''GroupId''),
     (''roleType'', Required, TRef ''GroupRoleType'')]]"

definition ty_GroupId :: tsty where
  "ty_GroupId =
    TString"

definition ty_GroupRoleInfo :: tsty where
  "ty_GroupRoleInfo =
    TObject [(''roleType'', Required, TRef ''GroupRoleType'')]"

definition ty_AuthProviderInfo :: tsty where
  "ty_AuthProviderInfo =
    TObject [(''name'', Required, TString),
     (''type'', Required, TString)]"

definition ty_AuthExchangeTokenData :: tsty where
  "ty_AuthExchangeTokenData =
    TObject [(''code'', Required, TString)]"

definition ty_AuthToken :: tsty where
  "ty_AuthToken =
    TObject [(''access_token'', Required, TString),
     (''expires_in'', Required, TNumber),
     (''id'', Optional, TString),
     (''issued_at'', Required, TRef ''Time''),
     (''refresh_token'', Optional, TString),
     (''token'', Optional, TString),
     (''type'', Required, TString)]"

definition ty_Time :: tsty where
  "ty_Time =
    TString"

definition ty_Agent :: tsty where
  "ty_Agent =
    TObject [(''endpoint'', Required, TString),
     (''labels'', Optional, TRecord (TString) (TString)),
     (''name'', Required, TString),
     (''otpKeyURL'', Optional, TString),
     (''time'', Optional, TRef ''DatatypesDatetime''),
     (''token'', Optional, TString)]"

definition ty_DatatypesDatetime :: tsty where
  "ty_DatatypesDatetime =
    TString"

definition ty_Cluster :: tsty where
  "ty_Cluster =
    TAnd [TRef ''ClusterInfo'', TRef ''DatatypesCreationUpdationDeletionTime'', TObject [(''agentInfo'', Optional, TRef ''ClusterAgentInfo''),
     (''clusterID'', Required, TRef ''ClusterId''),
     (''name'', Required, TString),
     (''netType'', Required, TRef ''ClusterNetType'')]]"

definition ty_ClusterInfo :: tsty where
  "ty_ClusterInfo =
    TObject [(''desc'', Optional, TString),
     (''envType'', Required, TRef ''ClusterEnvType'')]"

definition ClusterEnvType :: ts_enum where
  "ClusterEnvType = [(''DEV'', ''DEV''), (''ONLINE'', ''ONLINE'')]"

definition displayClusterEnvType :: "string \<Rightarrow> string" where
  "displayClusterEnvType v = display_label [(''DEV'', [CHR 0xE5, CHR 0xBC, CHR 0x80, CHR 0xE5, CHR 0x8F, CHR 0x91, CHR 0xE9, CHR 0x9B, CHR 0x86, CHR 0xE7, CHR 0xBE, CHR 0xA4]),
     (''ONLINE'', [CHR 0xE7, CHR 0x94, CHR 0x9F, CHR 0xE4, CHR 0xBA, CHR 0xA7, CHR 0xE9, CHR 0x9B, CHR 0x86, CHR 0xE7, CHR 0xBE, CHR 0xA4])] v"

definition ty_ClusterAgentInfo :: tsty where
  "ty_ClusterAgentInfo =
    TObject [(''endpoint'', Optional, TString),
     (''labels'', Optional, TRecord (TString) (TString))]"

definition ty_ClusterId :: tsty where
  "ty_ClusterId =
    TString"

definition ClusterNetType :: ts_enum where
  "ClusterNetType = [(''DIRECT'', ''DIRECT''), (''AIRGAP'', ''AIRGAP'')]"

definition displayClusterNetType :: "string \<Rightarrow> string" where
  "displayClusterNetType v = display_label [(''DIRECT'', [CHR 0xE5, CHR 0x8F, CHR 0xAF, CHR 0xE7, CHR 0x9B, CHR 0xB4, CHR 0xE8, CHR 0xBF, CHR 0x9E]),
     (''AIRGAP'', [CHR 0xE7, CHR 0xA6, CHR 0xBB, CHR 0xE7, CHR 0xBA, CHR 0xBF])] v"

definition ty_ClientObject :: tsty where
  "ty_ClientObject =
    TAny"

definition ty_ClusterInstanceStatus :: tsty where
  "ty_ClusterInstanceStatus =
    TAnd [TRef ''KubeutilClusterinfoClusterInfo'', TObject [(''ping'', Optional, TRef ''StrfmtDuration'')]]"

definition ty_KubeutilClusterinfoClusterInfo :: tsty where
  "ty_KubeutilClusterinfoClusterInfo =
    TObject [(''nodes'', Required, TArray (TRef ''KubeutilClusterinfoClusterNode''))]"

definition ty_KubeutilClusterinfoClusterNode :: tsty where
  "ty_KubeutilClusterinfoClusterNode =
    TAnd [TRef ''K8SIoApiCoreV1NodeSystemInfo'', TObject [(''externalIP'', Required, TString),
     (''hostname'', Required, TString),
     (''internalIP'', Required, TString),
     (''role'', Required, TString)]]"

definition ty_K8SIoApiCoreV1NodeSystemInfo :: tsty where
  "ty_K8SIoApiCoreV1NodeSystemInfo =
    TObject [(''architecture'', Required, TString),
     (''bootID'', Required, TString),
     (''containerRuntimeVersion'', Required, TString),
     (''kernelVersion'', Required, TString),
     (''kubeProxyVersion'', Required, TString),
     (''kubeletVersion'', Required, TString),
     (''machineID'', Required, TString),
     (''operatingSystem'', Required, TString),
     (''osImage'', Required, TString),
     (''systemUUID'', Required, TString)]"

definition ty_StrfmtDuration :: tsty where
  "ty_StrfmtDuration =
    TString"

definition ty_Group :: tsty where
  "ty_Group =
    TAnd [TRef ''GroupInfo'', TRef ''DatatypesCreationUpdationDeletionTime'', TObject [(''groupID'', Required, TRef ''GroupId''),
     (''name'', Required, TString)]]"

definition ty_GroupInfo :: tsty where
  "ty_GroupInfo =
    TObject [(''desc'', Optional, TString),
     (''type'', Required, TRef ''GroupType'')]"

definition GroupType :: ts_enum where
  "GroupType = [(''DEVELOP'', ''DEVELOP''), (''DEPLOYMENT'', ''DEPLOYMENT'')]"

definition displayGroupType :: "string \<Rightarrow> string" where
  "displayGroupType v = display_label [(''DEVELOP'', [CHR 0xE7, CHR 0xA0, CHR 0x94, CHR 0xE5, CHR 0x8F, CHR 0x91]),
     (''DEPLOYMENT'', [CHR 0xE4, CHR 0xBA, CHR 0xA4, CHR 0xE4, CHR 0xBB, CHR 0x98, CHR 0xE7, CHR 0xBB, CHR 0x84])] v"

definition ty_GroupEnvWithCluster :: tsty where
  "ty_GroupEnvWithCluster =
    TAnd [TRef ''GroupEnv'', TObject [(''cluster'', Optional, TRef ''Cluster'')]]"

definition ty_GroupEnv :: tsty where
  "ty_GroupEnv =
    TAnd [TRef ''GroupEnvInfo'', TRef ''GroupEnvCluster'', TRef ''DatatypesCreationUpdationDeletionTime'', TObject [(''envID'', Required, TRef ''GroupEnvId''),
     (''envName'', Required, TString),
     (''groupID'', Required, TRef ''GroupId'')]]"

definition ty_GroupEnvInfo :: tsty where
  "ty_GroupEnvInfo =
    TObject [(''desc'', Required, TString),
     (''envType'', Required, TRef ''GroupEnvType'')]"

definition GroupEnvType :: ts_enum where
  "GroupEnvType = [(''DEV'', ''DEV''), (''ONLINE'', ''ONLINE'')]"

definition displayGroupEnvType :: "string \<Rightarrow> string" where
  "displayGroupEnvType v = display_label [(''DEV'', [CHR 0xE5, CHR 0xBC, CHR 0x80, CHR 0xE5, CHR 0x8F, CHR 0x91, CHR 0xE7, CHR 0x8E, CHR 0xAF, CHR 0xE5, CHR 0xA2, CHR 0x83]),
     (''ONLINE'', [CHR 0xE7, CHR 0xBA, CHR 0xBF, CHR 0xE4, CHR 0xB8, CHR 0x8A, CHR 0xE7, CHR 0x8E, CHR 0xAF, CHR 0xE5, CHR 0xA2, CHR 0x83])] v"

definition ty_GroupEnvCluster :: tsty where
  "ty_GroupEnvCluster =
    TObject [(''namespace'', Required, TString)]"

definition ty_GroupEnvId :: tsty where
  "ty_GroupEnvId =
    TString"

definition ty_ApisKubepkgV1Alpha1KubePkg :: tsty where
  "ty_ApisKubepkgV1Alpha1KubePkg =
    TAnd [TRef ''ApisMetaV1TypeMeta'', TObject [(''metadata'', Optional, TRef ''ApisMetaV1ObjectMeta''),
     (''spec'', Required, TRef ''ApisKubepkgV1Alpha1Spec''),
     (''status'', Optional, TRef ''ApisKubepkgV1Alpha1Status'')]]"

definition ty_ApisMetaV1TypeMeta :: tsty where
  "ty_ApisMetaV1TypeMeta =
    TObject [(''apiVersion'', Optional, TString),
     (''kind'', Optional, TString)]"

definition ty_ApisMetaV1ObjectMeta :: tsty where
  "ty_ApisMetaV1ObjectMeta =
    TObject [(''annotations'', Optional, TRecord (TString) (TString)),
     (''labels'', Optional, TRecord (TString) (TString)),
     (''name'', Optional, TString),
     (''namespace'', Optional, TString)]"

definition ty_ApisKubepkgV1Alpha1Spec :: tsty where
  "ty_ApisKubepkgV1Alpha1Spec =
    TObject [(''config'', Optional, TRecord (TString) (TRef ''ApisKubepkgV1Alpha1EnvVarValueOrFrom'')),
     (''containers'', Optional, TRecord (TString) (TRef ''ApisKubepkgV1Alpha1Container'')),
     (''deploy'', Optional, TRef ''ApisKubepkgV1Alpha1Deploy''),
     (''manifests'', Optional, TRef ''ApisKubepkgV1Alpha1Manifests''),
     (''serviceAccount'', Optional, TRef ''ApisKubepkgV1Alpha1ServiceAccount''),
     (''services'', Optional, TRecord (TString) (TRef ''ApisKubepkgV1Alpha1Service'')),
     (''version'', Required, TString),
     (''volumes'', Optional, TRecord (TString) (TRef ''ApisKubepkgV1Alpha1Volume''))]"

definition ty_ApisKubepkgV1Alpha1EnvVarValueOrFrom :: tsty where
  "ty_ApisKubepkgV1Alpha1EnvVarValueOrFrom =
    TString"

definition ty_ApisKubepkgV1Alpha1Container :: tsty where
  "ty_ApisKubepkgV1Alpha1Container =
    TObject [(''args'', Optional, TArray (TString)),
     (''command'', Optional, TArray (TString)),
     (''env'', Optional, TRecord (TString) (TRef ''ApisKubepkgV1Alpha1EnvVarValueOrFrom'')),
     (''image'', Required, TRef ''ApisKubepkgV1Alpha1Image''),
     (''lifecycle'', Optional, TRef ''K8SIoApiCoreV1Lifecycle''),
     (''livenessProbe'', Optional, TRef ''K8SIoApiCoreV1Probe''),
     (''ports'', Optional, TRecord (TString) (TNumber)),
     (''readinessProbe'', Optional, TRef ''K8SIoApiCoreV1Probe''),
     (''resources'', Optional, TRef ''K8SIoApiCoreV1ResourceRequirements''),
     (''securityContext'', Optional, TRef ''K8SIoApiCoreV1SecurityContext''),
     (''startupProbe'', Optional, TRef ''K8SIoApiCoreV1Probe''),
     (''stdin'', Optional, TBoolean),
     (''stdinOnce'', Optional, TBoolean),
     (''terminationMessagePath'', Optional, TString),
     (''terminationMessagePolicy'', Optional, TRef ''K8SIoApiCoreV1TerminationMessagePolicy''),
     (''tty'', Optional, TBoolean),
     (''workingDir'', Optional, TString)]"

definition ty_ApisKubepkgV1Alpha1Image :: tsty where
  "ty_ApisKubepkgV1Alpha1Image =
    TObject [(''digest'', Optional, TString),
     (''name'', Required, TString),
     (''platforms'', Optional, TArray (TString)),
     (''pullPolicy'', Optional, TRef ''K8SIoApiCoreV1PullPolicy''),
     (''tag'', Optional, TString)]"

definition ty_K8SIoApiCoreV1PullPolicy :: tsty where
  "ty_K8SIoApiCoreV1PullPolicy =
    TString"

definition ty_K8SIoApiCoreV1Lifecycle :: tsty where
  "ty_K8SIoApiCoreV1Lifecycle =
    TObject [(''postStart'', Optional, TRef ''K8SIoApiCoreV1LifecycleHandler''),
     (''preStop'', Optional, TRef ''K8SIoApiCoreV1LifecycleHandler'')]"

definition ty_K8SIoApiCoreV1LifecycleHandler :: tsty where
  "ty_K8SIoApiCoreV1LifecycleHandler =
    TObject [(''exec'', Optional, TRef ''K8SIoApiCoreV1ExecAction''),
     (''httpGet'', Optional, TRef ''K8SIoApiCoreV1HttpGetAction''),
     (''tcpSocket'', Optional, TRef ''K8SIoApiCoreV1TcpSocketAction'')]"

definition ty_K8SIoApiCoreV1ExecAction :: tsty where
  "ty_K8SIoApiCoreV1ExecAction =
    TObject [(''command'', Optional, TArray (TString))]"

definition ty_K8SIoApiCoreV1HttpGetAction :: tsty where
  "ty_K8SIoApiCoreV1HttpGetAction =
    TObject [(''host'', Optional, TString),
     (''httpHeaders'', Optional, TArray (TRef ''K8SIoApiCoreV1HttpHeader'')),
     (''path'', Optional, TString),
     (''port'', Required, TRef ''UtilIntstrIntOrString''),
     (''scheme'', Optional, TRef ''K8SIoApiCoreV1UriScheme'')]"

definition ty_K8SIoApiCoreV1HttpHeader :: tsty where
  "ty_K8SIoApiCoreV1HttpHeader =
    TObject [(''name'', Required, TString),
     (''value'', Required, TString)]"

definition ty_UtilIntstrIntOrString :: tsty where
  "ty_UtilIntstrIntOrString =
    TOr [TNumber, TString]"

definition ty_K8SIoApiCoreV1UriScheme :: tsty where
  "ty_K8SIoApiCoreV1UriScheme =
    TString"

definition ty_K8SIoApiCoreV1TcpSocketAction :: tsty where
  "ty_K8SIoApiCoreV1TcpSocketAction =
    TObject [(''host'', Optional, TString),
     (''port'', Required, TRef ''UtilIntstrIntOrString'')]"

definition ty_K8SIoApiCoreV1Probe :: tsty where
  "ty_K8SIoApiCoreV1Probe =
    TAnd [TRef ''K8SIoApiCoreV1ProbeHandler'', TObject [(''failureThreshold'', Optional, TNumber),
     (''initialDelaySeconds'', Optional, TNumber),
     (''periodSeconds'', Optional, TNumber),
     (''successThreshold'', Optional, TNumber),
     (''terminationGracePeriodSeconds'', Optional, TNumber),
     (''timeoutSeconds'', Optional, TNumber)]]"

definition ty_K8SIoApiCoreV1ProbeHandler :: tsty where
  "ty_K8SIoApiCoreV1ProbeHandler =
    TObject [(''exec'', Optional, TRef ''K8SIoApiCoreV1ExecAction''),
     (''grpc'', Optional, TRef ''K8SIoApiCoreV1GrpcAction''),
     (''httpGet'', Optional, TRef ''K8SIoApiCoreV1HttpGetAction''),
     (''tcpSocket'', Optional, TRef ''K8SIoApiCoreV1TcpSocketAction'')]"

definition ty_K8SIoApiCoreV1GrpcAction :: tsty where
  "ty_K8SIoApiCoreV1GrpcAction =
    TObject [(''port'', Required, TNumber),
     (''service'', Required, TString)]"

definition ty_K8SIoApiCoreV1ResourceRequirements :: tsty where
  "ty_K8SIoApiCoreV1ResourceRequirements =
    TObject [(''claims'', Optional, TArray (TRef ''K8SIoApiCoreV1ResourceClaim'')),
     (''limits'', Optional, TRef ''K8SIoApiCoreV1ResourceList''),
     (''requests'', Optional, TRef ''K8SIoApiCoreV1ResourceList'')]"

definition ty_K8SIoApiCoreV1ResourceClaim :: tsty where
  "ty_K8SIoApiCoreV1ResourceClaim =
    TObject [(''name'', Required, TString)]"

definition ty_K8SIoApiCoreV1ResourceList :: tsty where
  "ty_K8SIoApiCoreV1ResourceList =
    TRecord (TRef ''K8SIoApiCoreV1ResourceName'') (TRef ''ApiResourceQuantity'')"

definition ty_K8SIoApiCoreV1ResourceName :: tsty where
  "ty_K8SIoApiCoreV1ResourceName =
    TString"

definition ty_ApiResourceQuantity :: tsty where
  "ty_ApiResourceQuantity =
    TString"

definition ty_K8SIoApiCoreV1SecurityContext :: tsty where
  "ty_K8SIoApiCoreV1SecurityContext =
    TObject [(''allowPrivilegeEscalation'', Optional, TBoolean),
     (''capabilities'', Optional, TRef ''K8SIoApiCoreV1Capabilities''),
     (''privileged'', Optional, TBoolean),
     (''procMount'', Optional, TRef ''K8SIoApiCoreV1ProcMountType''),
     (''readOnlyRootFilesystem'', Optional, TBoolean),
     (''runAsGroup'', Optional, TNumber),
     (''runAsNonRoot'', Optional, TBoolean),
     (''runAsUser'', Optional, TNumber),
     (''seLinuxOptions'', Optional, TRef ''K8SIoApiCoreV1SeLinuxOptions''),
     (''seccompProfile'', Optional, TRef ''K8SIoApiCoreV1SeccompProfile''),
     (''windowsOptions'', Optional, TRef ''K8SIoApiCoreV1WindowsSecurityContextOptions'')]"

definition ty_K8SIoApiCoreV1Capabilities :: tsty where
  "ty_K8SIoApiCoreV1Capabilities =
    TObject [(''add'', Optional, TArray (TRef ''K8SIoApiCoreV1Capability'')),
     (''drop'', Optional, TArray (TRef ''K8SIoApiCoreV1Capability''))]"

definition ty_K8SIoApiCoreV1Capability :: tsty where
  "ty_K8SIoApiCoreV1Capability =
    TString"

definition ty_K8SIoApiCoreV1ProcMountType :: tsty where
  "ty_K8SIoApiCoreV1ProcMountType =
    TString"

definition ty_K8SIoApiCoreV1SeLinuxOptions :: tsty where
  "ty_K8SIoApiCoreV1SeLinuxOptions =
    TObject [(''level'', Optional, TString),
     (''role'', Optional, TString),
     (''type'', Optional, TString),
     (''user'', Optional, TString)]"

definition ty_K8SIoApiCoreV1SeccompProfile :: tsty where
  "ty_K8SIoApiCoreV1SeccompProfile =
    TObject [(''localhostProfile'', Optional, TString),
     (''type'', Required, TRef ''K8SIoApiCoreV1SeccompProfileType'')]"

definition ty_K8SIoApiCoreV1SeccompProfileType :: tsty where
  "ty_K8SIoApiCoreV1SeccompProfileType =
    TString"

definition ty_K8SIoApiCoreV1WindowsSecurityContextOptions :: tsty where
  "ty_K8SIoApiCoreV1WindowsSecurityContextOptions =
    TObject [(''gmsaCredentialSpec'', Optional, TString),
     (''gmsaCredentialSpecName'', Optional, TString),
     (''hostProcess'', Optional, TBoolean),
     (''runAsUserName'', Optional, TString)]"

definition ty_K8SIoApiCoreV1TerminationMessagePolicy :: tsty where
  "ty_K8SIoApiCoreV1TerminationMessagePolicy =
    TString"

definition ty_ApisKubepkgV1Alpha1Deploy :: tsty where
  "ty_ApisKubepkgV1Alpha1Deploy =
    TOr [TObject [(''kind'', Required, TLit ''ConfigMap''),
     (''annotations'', Optional, TRecord (TString) (TString))], TObject [(''kind'', Required, TLit ''CronJob''),
     (''annotations'', Optional, TRecord (TString) (TString)),
     (''spec'', Optional, TRef ''K8SIoApiBatchV1CronJobSpec'')], TObject [(''kind'', Required, TLit ''DaemonSet''),
     (''annotations'', Optional, TRecord (TString) (TString)),
     (''spec'', Optional, TRef ''K8SIoApiAppsV1DaemonSetSpec'')], TObject [(''kind'', Required, TLit ''Deployment''),
     (''annotations'', Optional, TRecord (TString) (TString)),
     (''spec'', Optional, TRef ''K8SIoApiAppsV1DeploymentSpec'')], TObject [(''kind'', Required, TLit ''Job''),
     (''annotations'', Optional, TRecord (TString) (TString)),
     (''spec'', Optional, TRef ''K8SIoApiBatchV1JobSpec'')], TObject [(''kind'', Required, TLit ''Secret''),
     (''annotations'', Optional, TRecord (TString) (TString))], TObject [(''kind'', Required, TLit ''StatefulSet''),
     (''annotations'', Optional, TRecord (TString) (TString)),
     (''spec'', Optional, TRef ''K8SIoApiAppsV1StatefulSetSpec'')]]"

definition ty_K8SIoApiBatchV1CronJobSpec :: tsty where
  "ty_K8SIoApiBatchV1CronJobSpec =
    TObject [(''concurrencyPolicy'', Optional, TRef ''K8SIoApiBatchV1ConcurrencyPolicy''),
     (''failedJobsHistoryLimit'', Optional, TNumber),
     (''jobTemplate'', Required, TRef ''K8SIoApiBatchV1JobTemplateSpec''),
     (''schedule'', Required, TString),
     (''startingDeadlineSeconds'', Optional, TNumber),
     (''successfulJobsHistoryLimit'', Optional, TNumber),
     (''suspend'', Optional, TBoolean),
     (''timeZone'', Optional, TString)]"

definition ty_K8SIoApiBatchV1ConcurrencyPolicy :: tsty where
  "ty_K8SIoApiBatchV1ConcurrencyPolicy =
    TString"

definition ty_K8SIoApiBatchV1JobTemplateSpec :: tsty where
  "ty_K8SIoApiBatchV1JobTemplateSpec =
    TObject [(''metadata'', Optional, TRef ''ApisMetaV1ObjectMeta''),
     (''spec'', Optional, TRef ''K8SIoApiBatchV1JobSpec'')]"

definition ty_K8SIoApiBatchV1JobSpec :: tsty where
  "ty_K8SIoApiBatchV1JobSpec =
    TObject [(''activeDeadlineSeconds'', Optional, TNumber),
     (''backoffLimit'', Optional, TNumber),
     (''completionMode'', Optional, TRef ''K8SIoApiBatchV1CompletionMode''),
     (''completions'', Optional, TNumber),
     (''manualSelector'', Optional, TBoolean),
     (''parallelism'', Optional, TNumber),
     (''podFailurePolicy'', Optional, TRef ''K8SIoApiBatchV1PodFailurePolicy''),
     (''selector'', Optional, TRef ''ApisMetaV1LabelSelector''),
     (''suspend'', Optional, TBoolean),
     (''template'', Required, TRef ''K8SIoApiCoreV1PodTemplateSpec''),
     (''ttlSecondsAfterFinished'', Optional, TNumber)]"

definition ty_K8SIoApiBatchV1CompletionMode :: tsty where
  "ty_K8SIoApiBatchV1CompletionMode =
    TString"

definition ty_K8SIoApiBatchV1PodFailurePolicy :: tsty where
  "ty_K8SIoApiBatchV1PodFailurePolicy =
    TObject [(''rules'', Required, TArray (TRef ''K8SIoApiBatchV1PodFailurePolicyRule''))]"

definition ty_K8SIoApiBatchV1PodFailurePolicyRule :: tsty where
  "ty_K8SIoApiBatchV1PodFailurePolicyRule =
    TObject [(''action'', Required, TRef ''K8SIoApiBatchV1PodFailurePolicyAction''),
     (''onExitCodes'', Optional, TRef ''K8SIoApiBatchV1PodFailurePolicyOnExitCodesRequirement''),
     (''onPodConditions'', Required, TArray (TRef ''K8SIoApiBatchV1PodFailurePolicyOnPodConditionsPattern''))]"

definition ty_K8SIoApiBatchV1PodFailurePolicyAction :: tsty where
  "ty_K8SIoApiBatchV1PodFailurePolicyAction =
    TString"

definition ty_K8SIoApiBatchV1PodFailurePolicyOnExitCodesRequirement :: tsty where
  "ty_K8SIoApiBatchV1PodFailurePolicyOnExitCodesRequirement =
    TObject [(''containerName'', Required, TString),
     (''operator'', Required, TRef ''K8SIoApiBatchV1PodFailurePolicyOnExitCodesOperator''),
     (''values'', Required, TArray (TNumber))]"

definition ty_K8SIoApiBatchV1PodFailurePolicyOnExitCodesOperator :: tsty where
  "ty_K8SIoApiBatchV1PodFailurePolicyOnExitCodesOperator =
    TString"

definition ty_K8SIoApiBatchV1PodFailurePolicyOnPodConditionsPattern :: tsty where
  "ty_K8SIoApiBatchV1PodFailurePolicyOnPodConditionsPattern =
    TObject [(''status'', Required, TRef ''K8SIoApiCoreV1ConditionStatus''),
     (''type'', Required, TRef ''K8SIoApiCoreV1PodConditionType'')]"

definition ty_K8SIoApiCoreV1ConditionStatus :: tsty where
  "ty_K8SIoApiCoreV1ConditionStatus =
    TString"

definition ty_K8SIoApiCoreV1PodConditionType :: tsty where
  "ty_K8SIoApiCoreV1PodConditionType =
    TString"

definition ty_ApisMetaV1LabelSelector :: tsty where
  "ty_ApisMetaV1LabelSelector =
    TObject [(''matchExpressions'', Optional, TArray (TRef ''ApisMetaV1LabelSelectorRequirement'')),
     (''matchLabels'', Optional, TRecord (TString) (TString))]"

definition ty_ApisMetaV1LabelSelectorRequirement :: tsty where
  "ty_ApisMetaV1LabelSelectorRequirement =
    TObject [(''key'', Required, TString),
     (''operator'', Required, TRef ''ApisMetaV1LabelSelectorOperator''),
     (''values'', Optional, TArray (TString))]"

definition ty_ApisMetaV1LabelSelectorOperator :: tsty where
  "ty_ApisMetaV1LabelSelectorOperator =
    TString"

definition ty_K8SIoApiCoreV1PodTemplateSpec :: tsty where
  "ty_K8SIoApiCoreV1PodTemplateSpec =
    TObject [(''metadata'', Optional, TRef ''ApisMetaV1ObjectMeta''),
     (''spec'', Optional, TRef ''K8SIoApiCoreV1PodSpec'')]"

definition ty_K8SIoApiCoreV1PodSpec :: tsty where
  "ty_K8SIoApiCoreV1PodSpec =
    TObject [(''activeDeadlineSeconds'', Optional, TNumber),
     (''affinity'', Optional, TRef ''K8SIoApiCoreV1Affinity''),
     (''automountServiceAccountToken'', Optional, TBoolean),
     (''dnsConfig'', Optional, TRef ''K8SIoApiCoreV1PodDnsConfig''),
     (''dnsPolicy'', Optional, TRef ''K8SIoApiCoreV1DnsPolicy''),
     (''enableServiceLinks'', Optional, TBoolean),
     (''hostAliases'', Optional, TArray (TRef ''K8SIoApiCoreV1HostAlias'')),
     (''hostIPC'', Optional, TBoolean),
     (''hostNetwork'', Optional, TBoolean),
     (''hostPID'', Optional, TBoolean),
     (''hostUsers'', Optional, TBoolean),
     (''hostname'', Optional, TString),
     (''imagePullSecrets'', Optional, TArray (TRef ''K8SIoApiCoreV1LocalObjectReference'')),
     (''nodeName'', Optional, TString),
     (''nodeSelector'', Optional, TRecord (TString) (TString)),
     (''os'', Optional, TRef ''K8SIoApiCoreV1PodOs''),
     (''overhead'', Optional, TRef ''K8SIoApiCoreV1ResourceList''),
     (''preemptionPolicy'', Optional, TRef ''K8SIoApiCoreV1PreemptionPolicy''),
     (''priority'', Optional, TNumber),
     (''priorityClassName'', Optional, TString),
     (''readinessGates'', Optional, TArray (TRef ''K8SIoApiCoreV1PodReadinessGate'')),
     (''resourceClaims'', Optional, TArray (TRef ''K8SIoApiCoreV1PodResourceClaim'')),
     (''restartPolicy'', Optional, TRef ''K8SIoApiCoreV1RestartPolicy''),
     (''runtimeClassName'', Optional, TString),
     (''schedulerName'', Optional, TString),
     (''schedulingGates'', Optional, TArray (TRef ''K8SIoApiCoreV1PodSchedulingGate'')),
     (''securityContext'', Optional, TRef ''K8SIoApiCoreV1PodSecurityContext''),
     (''serviceAccount'', Optional, TString),
     (''serviceAccountName'', Optional, TString),
     (''setHostnameAsFQDN'', Optional, TBoolean),
     (''shareProcessNamespace'', Optional, TBoolean),
     (''subdomain'', Optional, TString),
     (''terminationGracePeriodSeconds'', Optional, TNumber),
     (''tolerations'', Optional, TArray (TRef ''K8SIoApiCoreV1Toleration'')),
     (''topologySpreadConstraints'', Optional, TArray (TRef ''K8SIoApiCoreV1TopologySpreadConstraint''))]"

definition ty_K8SIoApiCoreV1Affinity :: tsty where
  "ty_K8SIoApiCoreV1Affinity =
    TObject [(''nodeAffinity'', Optional, TRef ''K8SIoApiCoreV1NodeAffinity''),
     (''podAffinity'', Optional, TRef ''K8SIoApiCoreV1PodAffinity''),
     (''podAntiAffinity'', Optional, TRef ''K8SIoApiCoreV1PodAntiAffinity'')]"

definition ty_K8SIoApiCoreV1NodeAffinity :: tsty where
  "ty_K8SIoApiCoreV1NodeAffinity =
    TObject [(''preferredDuringSchedulingIgnoredDuringExecution'', Optional, TArray (TRef ''K8SIoApiCoreV1PreferredSchedulingTerm'')),
     (''requiredDuringSchedulingIgnoredDuringExecution'', Optional, TRef ''K8SIoApiCoreV1NodeSelector'')]"

definition ty_K8SIoApiCoreV1PreferredSchedulingTerm :: tsty where
  "ty_K8SIoApiCoreV1PreferredSchedulingTerm =
    TObject [(''preference'', Required, TRef ''K8SIoApiCoreV1NodeSelectorTerm''),
     (''weight'', Required, TNumber)]"

definition ty_K8SIoApiCoreV1NodeSelectorTerm :: tsty where
  "ty_K8SIoApiCoreV1NodeSelectorTerm =
    TObject [(''matchExpressions'', Optional, TArray (TRef ''K8SIoApiCoreV1NodeSelectorRequirement'')),
     (''matchFields'', Optional, TArray (TRef ''K8SIoApiCoreV1NodeSelectorRequirement''))]"

definition ty_K8SIoApiCoreV1NodeSelectorRequirement :: tsty where
  "ty_K8SIoApiCoreV1NodeSelectorRequirement =
    TObject [(''key'', Required, TString),
     (''operator'', Required, TRef ''K8SIoApiCoreV1NodeSelectorOperator''),
     (''values'', Optional, TArray (TString))]"

definition ty_K8SIoApiCoreV1NodeSelectorOperator :: tsty where
  "ty_K8SIoApiCoreV1NodeSelectorOperator =
    TString"

definition ty_K8SIoApiCoreV1NodeSelector :: tsty where
  "ty_K8SIoApiCoreV1NodeSelector =
    TObject [(''nodeSelectorTerms'', Required, TArray (TRef ''K8SIoApiCoreV1NodeSelectorTerm''))]"

definition ty_K8SIoApiCoreV1PodAffinity :: tsty where
  "ty_K8SIoApiCoreV1PodAffinity =
    TObject [(''preferredDuringSchedulingIgnoredDuringExecution'', Optional, TArray (TRef ''K8SIoApiCoreV1WeightedPodAffinityTerm'')),
     (''requiredDuringSchedulingIgnoredDuringExecution'', Optional, TArray (TRef ''K8SIoApiCoreV1PodAffinityTerm''))]"

definition ty_K8SIoApiCoreV1WeightedPodAffinityTerm :: tsty where
  "ty_K8SIoApiCoreV1WeightedPodAffinityTerm =
    TObject [(''podAffinityTerm'', Required, TRef ''K8SIoApiCoreV1PodAffinityTerm''),
     (''weight'', Required, TNumber)]"

definition ty_K8SIoApiCoreV1PodAffinityTerm :: tsty where
  "ty_K8SIoApiCoreV1PodAffinityTerm =
    TObject [(''labelSelector'', Optional, TRef ''ApisMetaV1LabelSelector''),
     (''namespaceSelector'', Optional, TRef ''ApisMetaV1LabelSelector''),
     (''namespaces'', Optional, TArray (TString)),
     (''topologyKey'', Required, TString)]"

definition ty_K8SIoApiCoreV1PodAntiAffinity :: tsty where
  "ty_K8SIoApiCoreV1PodAntiAffinity =
    TObject [(''preferredDuringSchedulingIgnoredDuringExecution'', Optional, TArray (TRef ''K8SIoApiCoreV1WeightedPodAffinityTerm'')),
     (''requiredDuringSchedulingIgnoredDuringExecution'', Optional, TArray (TRef ''K8SIoApiCoreV1PodAffinityTerm''))]"

definition ty_K8SIoApiCoreV1PodDnsConfig :: tsty where
  "ty_K8SIoApiCoreV1PodDnsConfig =
    TObject [(''nameservers'', Optional, TArray (TString)),
     (''options'', Optional, TArray (TRef ''K8SIoApiCoreV1PodDnsConfigOption'')),
     (''searches'', Optional, TArray (TString))]"

definition ty_K8SIoApiCoreV1PodDnsConfigOption :: tsty where
  "ty_K8SIoApiCoreV1PodDnsConfigOption =
    TObject [(''name'', Optional, TString),
     (''value'', Optional, TString)]"

definition ty_K8SIoApiCoreV1DnsPolicy :: tsty where
  "ty_K8SIoApiCoreV1DnsPolicy =
    TString"

definition ty_K8SIoApiCoreV1HostAlias :: tsty where
  "ty_K8SIoApiCoreV1HostAlias =
    TObject [(''hostnames'', Optional, TArray (TString)),
     (''ip'', Optional, TString)]"

definition ty_K8SIoApiCoreV1LocalObjectReference :: tsty where
  "ty_K8SIoApiCoreV1LocalObjectReference =
    TObject [(''name'', Optional, TString)]"

definition ty_K8SIoApiCoreV1PodOs :: tsty where
  "ty_K8SIoApiCoreV1PodOs =
    TObject [(''name'', Required, TRef ''K8SIoApiCoreV1OsName'')]"

definition ty_K8SIoApiCoreV1OsName :: tsty where
  "ty_K8SIoApiCoreV1OsName =
    TString"

definition K8SIoApiCoreV1PreemptionPolicy :: ts_enum where
  "K8SIoApiCoreV1PreemptionPolicy = [(''Never'', ''Never''), (''PreemptLowerPriority'', ''PreemptLowerPriority'')]"

definition ty_K8SIoApiCoreV1PodReadinessGate :: tsty where
  "ty_K8SIoApiCoreV1PodReadinessGate =
    TObject [(''conditionType'', Required, TRef ''K8SIoApiCoreV1PodConditionType'')]"

definition ty_K8SIoApiCoreV1PodResourceClaim :: tsty where
  "ty_K8SIoApiCoreV1PodResourceClaim =
    TObject [(''name'', Required, TString),
     (''source'', Optional, TRef ''K8SIoApiCoreV1ClaimSource'')]"

definition ty_K8SIoApiCoreV1ClaimSource :: tsty where
  "ty_K8SIoApiCoreV1ClaimSource =
    TObject [(''resourceClaimName'', Optional, TString),
     (''resourceClaimTemplateName'', Optional, TString)]"

definition K8SIoApiCoreV1RestartPolicy :: ts_enum where
  "K8SIoApiCoreV1RestartPolicy = [(''Always'', ''Always''), (''OnFailure'', ''OnFailure''), (''Never'', ''Never'')]"

definition ty_K8SIoApiCoreV1PodSchedulingGate :: tsty where
  "ty_K8SIoApiCoreV1PodSchedulingGate =
    TObject [(''name'', Required, TString)]"

definition ty_K8SIoApiCoreV1PodSecurityContext :: tsty where
  "ty_K8SIoApiCoreV1PodSecurityContext =
    TObject [(''fsGroup'', Optional, TNumber),
     (''fsGroupChangePolicy'', Optional, TRef ''K8SIoApiCoreV1PodFsGroupChangePolicy''),
     (''runAsGroup'', Optional, TNumber),
     (''runAsNonRoot'', Optional, TBoolean),
     (''runAsUser'', Optional, TNumber),
     (''seLinuxOptions'', Optional, TRef ''K8SIoApiCoreV1SeLinuxOptions''),
     (''seccompProfile'', Optional, TRef ''K8SIoApiCoreV1SeccompProfile''),
     (''supplementalGroups'', Optional, TArray (TNumber)),
     (''sysctls'', Optional, TArray (TRef ''K8SIoApiCoreV1Sysctl'')),
     (''windowsOptions'', Optional, TRef ''K8SIoApiCoreV1WindowsSecurityContextOptions'')]"

definition ty_K8SIoApiCoreV1PodFsGroupChangePolicy :: tsty where
  "ty_K8SIoApiCoreV1PodFsGroupChangePolicy =
    TString"

definition ty_K8SIoApiCoreV1Sysctl :: tsty where
  "ty_K8SIoApiCoreV1Sysctl =
    TObject [(''name'', Required, TString),
     (''value'', Required, TString)]"

definition ty_K8SIoApiCoreV1Toleration :: tsty where
  "ty_K8SIoApiCoreV1Toleration =
    TObject [(''effect'', Optional, TRef ''K8SIoApiCoreV1TaintEffect''),
     (''key'', Optional, TString),
     (''operator'', Optional, TRef ''K8SIoApiCoreV1TolerationOperator''),
     (''tolerationSeconds'', Optional, TNumber),
     (''value'', Optional, TString)]"

definition ty_K8SIoApiCoreV1TaintEffect :: tsty where
  "ty_K8SIoApiCoreV1TaintEffect =
    TString"

definition ty_K8SIoApiCoreV1TolerationOperator :: tsty where
  "ty_K8SIoApiCoreV1TolerationOperator =
    TString"

definition ty_K8SIoApiCoreV1TopologySpreadConstraint :: tsty where
  "ty_K8SIoApiCoreV1TopologySpreadConstraint =
    TObject [(''labelSelector'', Optional, TRef ''ApisMetaV1LabelSelector''),
     (''matchLabelKeys'', Optional, TArray (TString)),
     (''maxSkew'', Required, TNumber),
     (''minDomains'', Optional, TNumber),
     (''nodeAffinityPolicy'', Optional, TRef ''K8SIoApiCoreV1NodeInclusionPolicy''),
     (''nodeTaintsPolicy'', Optional, TRef ''K8SIoApiCoreV1NodeInclusionPolicy''),
     (''topologyKey'', Required, TString),
     (''whenUnsatisfiable'', Required, TRef ''K8SIoApiCoreV1UnsatisfiableConstraintAction'')]"

definition ty_K8SIoApiCoreV1NodeInclusionPolicy :: tsty where
  "ty_K8SIoApiCoreV1NodeInclusionPolicy =
    TString"

definition ty_K8SIoApiCoreV1UnsatisfiableConstraintAction :: tsty where
  "ty_K8SIoApiCoreV1UnsatisfiableConstraintAction =
    TString"

definition ty_K8SIoApiAppsV1DaemonSetSpec :: tsty where
  "ty_K8SIoApiAppsV1DaemonSetSpec =
    TObject [(''minReadySeconds'', Optional, TNumber),
     (''revisionHistoryLimit'', Optional, TNumber),
     (''selector'', Optional, TRef ''ApisMetaV1LabelSelector''),
     (''template'', Required, TRef ''K8SIoApiCoreV1PodTemplateSpec''),
     (''updateStrategy'', Optional, TRef ''K8SIoApiAppsV1DaemonSetUpdateStrategy'')]"

definition ty_K8SIoApiAppsV1DaemonSetUpdateStrategy :: tsty where
  "ty_K8SIoApiAppsV1DaemonSetUpdateStrategy =
    TObject [(''rollingUpdate'', Optional, TRef ''K8SIoApiAppsV1RollingUpdateDaemonSet''),
     (''type'', Optional, TRef ''K8SIoApiAppsV1DaemonSetUpdateStrategyType'')]"

definition ty_K8SIoApiAppsV1RollingUpdateDaemonSet :: tsty where
  "ty_K8SIoApiAppsV1RollingUpdateDaemonSet =
    TObject [(''maxSurge'', Optional, TRef ''UtilIntstrIntOrString''),
     (''maxUnavailable'', Optional, TRef ''UtilIntstrIntOrString'')]"

definition K8SIoApiAppsV1DaemonSetUpdateStrategyType :: ts_enum where
  "K8SIoApiAppsV1DaemonSetUpdateStrategyType = [(''RollingUpdate'', ''RollingUpdate''), (''OnDelete'', ''OnDelete'')]"

definition ty_K8SIoApiAppsV1DeploymentSpec :: tsty where
  "ty_K8SIoApiAppsV1DeploymentSpec =
    TObject [(''minReadySeconds'', Optional, TNumber),
     (''paused'', Optional, TBoolean),
     (''progressDeadlineSeconds'', Optional, TNumber),
     (''replicas'', Optional, TNumber),
     (''revisionHistoryLimit'', Optional, TNumber),
     (''selector'', Optional, TRef ''ApisMetaV1LabelSelector''),
     (''strategy'', Optional, TRef ''K8SIoApiAppsV1DeploymentStrategy''),
     (''template'', Required, TRef ''K8SIoApiCoreV1PodTemplateSpec'')]"

definition ty_K8SIoApiAppsV1DeploymentStrategy :: tsty where
  "ty_K8SIoApiAppsV1DeploymentStrategy =
    TObject [(''rollingUpdate'', Optional, TRef ''K8SIoApiAppsV1RollingUpdateDeployment''),
     (''type'', Optional, TRef ''K8SIoApiAppsV1DeploymentStrategyType'')]"

definition ty_K8SIoApiAppsV1RollingUpdateDeployment :: tsty where
  "ty_K8SIoApiAppsV1RollingUpdateDeployment =
    TObject [(''maxSurge'', Optional, TRef ''UtilIntstrIntOrString''),
     (''maxUnavailable'', Optional, TRef ''UtilIntstrIntOrString'')]"

definition K8SIoApiAppsV1DeploymentStrategyType :: ts_enum where
  "K8SIoApiAppsV1DeploymentStrategyType = [(''Recreate'', ''Recreate''), (''RollingUpdate'', ''RollingUpdate'')]"

definition ty_K8SIoApiAppsV1StatefulSetSpec :: tsty where
  "ty_K8SIoApiAppsV1StatefulSetSpec =
    TObject [(''minReadySeconds'', Optional, TNumber),
     (''ordinals'', Optional, TRef ''K8SIoApiAppsV1StatefulSetOrdinals''),
     (''persistentVolumeClaimRetentionPolicy'', Optional, TRef ''K8SIoApiAppsV1StatefulSetPersistentVolumeClaimRetentionPolicy''),
     (''podManagementPolicy'', Optional, TRef ''K8SIoApiAppsV1PodManagementPolicyType''),
     (''replicas'', Optional, TNumber),
     (''revisionHistoryLimit'', Optional, TNumber),
     (''selector'', Optional, TRef ''ApisMetaV1LabelSelector''),
     (''serviceName'', Required, TString),
     (''template'', Required, TRef ''K8SIoApiCoreV1PodTemplateSpec''),
     (''updateStrategy'', Optional, TRef ''K8SIoApiAppsV1StatefulSetUpdateStrategy''),
     (''volumeClaimTemplates'', Optional, TArray (TRef ''K8SIoApiCoreV1PersistentVolumeClaim''))]"

definition ty_K8SIoApiAppsV1StatefulSetOrdinals :: tsty where
  "ty_K8SIoApiAppsV1StatefulSetOrdinals =
    TObject [(''start'', Required, TNumber)]"

definition ty_K8SIoApiAppsV1StatefulSetPersistentVolumeClaimRetentionPolicy :: tsty where
  "ty_K8SIoApiAppsV1StatefulSetPersistentVolumeClaimRetentionPolicy =
    TObject [(''whenDeleted'', Optional, TRef ''K8SIoApiAppsV1PersistentVolumeClaimRetentionPolicyType''),
     (''whenScaled'', Optional, TRef ''K8SIoApiAppsV1PersistentVolumeClaimRetentionPolicyType'')]"

definition ty_K8SIoApiAppsV1PersistentVolumeClaimRetentionPolicyType :: tsty where
  "ty_K8SIoApiAppsV1PersistentVolumeClaimRetentionPolicyType =
    TString"

definition ty_K8SIoApiAppsV1PodManagementPolicyType :: tsty where
  "ty_K8SIoApiAppsV1PodManagementPolicyType =
    TString"

definition ty_K8SIoApiAppsV1StatefulSetUpdateStrategy :: tsty where
  "ty_K8SIoApiAppsV1StatefulSetUpdateStrategy =
    TObject [(''rollingUpdate'', Optional, TRef ''K8SIoApiAppsV1RollingUpdateStatefulSetStrategy''),
     (''type'', Optional, TRef ''K8SIoApiAppsV1StatefulSetUpdateStrategyType'')]"

definition ty_K8SIoApiAppsV1RollingUpdateStatefulSetStrategy :: tsty where
  "ty_K8SIoApiAppsV1RollingUpdateStatefulSetStrategy =
    TObject [(''maxUnavailable'', Optional, TRef ''UtilIntstrIntOrString''),
     (''partition'', Optional, TNumber)]"

definition ty_K8SIoApiAppsV1StatefulSetUpdateStrategyType :: tsty where
  "ty_K8SIoApiAppsV1StatefulSetUpdateStrategyType =
    TString"

definition ty_K8SIoApiCoreV1PersistentVolumeClaim :: tsty where
  "ty_K8SIoApiCoreV1PersistentVolumeClaim =
    TAnd [TRef ''ApisMetaV1TypeMeta'', TObject [(''metadata'', Optional, TRef ''ApisMetaV1ObjectMeta''),
     (''spec'', Optional, TRef ''K8SIoApiCoreV1PersistentVolumeClaimSpec''),
     (''status'', Optional, TRef ''K8SIoApiCoreV1PersistentVolumeClaimStatus'')]]"

definition ty_K8SIoApiCoreV1PersistentVolumeClaimSpec :: tsty where
  "ty_K8SIoApiCoreV1PersistentVolumeClaimSpec =
    TObject [(''accessModes'', Optional, TArray (TRef ''K8SIoApiCoreV1PersistentVolumeAccessMode'')),
     (''dataSource'', Optional, TRef ''K8SIoApiCoreV1TypedLocalObjectReference''),
     (''dataSourceRef'', Optional, TRef ''K8SIoApiCoreV1TypedObjectReference''),
     (''resources'', Optional, TRef ''K8SIoApiCoreV1ResourceRequirements''),
     (''selector'', Optional, TRef ''ApisMetaV1LabelSelector''),
     (''storageClassName'', Optional, TString),
     (''volumeMode'', Optional, TRef ''K8SIoApiCoreV1PersistentVolumeMode''),
     (''volumeName'', Optional, TString)]"

definition ty_K8SIoApiCoreV1PersistentVolumeAccessMode :: tsty where
  "ty_K8SIoApiCoreV1PersistentVolumeAccessMode =
    TString"

definition ty_K8SIoApiCoreV1TypedLocalObjectReference :: tsty where
  "ty_K8SIoApiCoreV1TypedLocalObjectReference =
    TObject [(''apiGroup'', Required, TString),
     (''kind'', Required, TString),
     (''name'', Required, TString)]"

definition ty_K8SIoApiCoreV1TypedObjectReference :: tsty where
  "ty_K8SIoApiCoreV1TypedObjectReference =
    TObject [(''apiGroup'', Required, TString),
     (''kind'', Required, TString),
     (''name'', Required, TString),
     (''namespace'', Optional, TString)]"

definition ty_K8SIoApiCoreV1PersistentVolumeMode :: tsty where
  "ty_K8SIoApiCoreV1PersistentVolumeMode =
    TString"

definition ty_K8SIoApiCoreV1PersistentVolumeClaimStatus :: tsty where
  "ty_K8SIoApiCoreV1PersistentVolumeClaimStatus =
    TObject [(''accessModes'', Optional, TArray (TRef ''K8SIoApiCoreV1PersistentVolumeAccessMode'')),
     (''allocatedResources'', Optional, TRef ''K8SIoApiCoreV1ResourceList''),
     (''capacity'', Optional, TRef ''K8SIoApiCoreV1ResourceList''),
     (''conditions'', Optional, TArray (TRef ''K8SIoApiCoreV1PersistentVolumeClaimCondition'')),
     (''phase'', Optional, TRef ''K8SIoApiCoreV1PersistentVolumeClaimPhase''),
     (''resizeStatus'', Optional, TRef ''K8SIoApiCoreV1PersistentVolumeClaimResizeStatus'')]"

definition ty_K8SIoApiCoreV1PersistentVolumeClaimCondition :: tsty where
  "ty_K8SIoApiCoreV1PersistentVolumeClaimCondition =
    TObject [(''lastProbeTime'', Optional, TRef ''ApisMetaV1Time''),
     (''lastTransitionTime'', Optional, TRef ''ApisMetaV1Time''),
     (''message'', Optional, TString),
     (''reason'', Optional, TString),
     (''status'', Required, TRef ''K8SIoApiCoreV1ConditionStatus''),
     (''type'', Required, TRef ''K8SIoApiCoreV1PersistentVolumeClaimConditionType'')]"

definition ty_ApisMetaV1Time :: tsty where
  "ty_ApisMetaV1Time =
    TString"

definition ty_K8SIoApiCoreV1PersistentVolumeClaimConditionType :: tsty where
  "ty_K8SIoApiCoreV1PersistentVolumeClaimConditionType =
    TString"

definition ty_K8SIoApiCoreV1PersistentVolumeClaimPhase :: tsty where
  "ty_K8SIoApiCoreV1PersistentVolumeClaimPhase =
    TString"

definition ty_K8SIoApiCoreV1PersistentVolumeClaimResizeStatus :: tsty where
  "ty_K8SIoApiCoreV1PersistentVolumeClaimResizeStatus =
    TString"

definition ty_ApisKubepkgV1Alpha1Manifests :: tsty where
  "ty_ApisKubepkgV1Alpha1Manifests =
    TRecord (TString) (TAny)"

definition ty_ApisKubepkgV1Alpha1ServiceAccount :: tsty where
  "ty_ApisKubepkgV1Alpha1ServiceAccount =
    TObject [(''rules'', Required, TArray (TRef ''K8SIoApiRbacV1PolicyRule'')),
     (''scope'', Optional, TRef ''ApisKubepkgV1Alpha1ScopeType'')]"

definition ty_K8SIoApiRbacV1PolicyRule :: tsty where
  "ty_K8SIoApiRbacV1PolicyRule =
    TObject [(''apiGroups'', Optional, TArray (TString)),
     (''nonResourceURLs'', Optional, TArray (TString)),
     (''resourceNames'', Optional, TArray (TString)),
     (''resources'', Optional, TArray (TString)),
     (''verbs'', Required, TArray (TString))]"

definition ApisKubepkgV1Alpha1ScopeType :: ts_enum where
  "ApisKubepkgV1Alpha1ScopeType = [(''Cluster'', ''Cluster''), (''Namespace'', ''Namespace'')]"

definition ty_ApisKubepkgV1Alpha1Service :: tsty where
  "ty_ApisKubepkgV1Alpha1Service =
    TObject [(''clusterIP'', Optional, TString),
     (''expose'', Optional, TRef ''ApisKubepkgV1Alpha1Expose''),
     (''paths'', Optional, TRecord (TString) (TString)),
     (''ports'', Optional, TRecord (TString) (TNumber))]"

definition ty_ApisKubepkgV1Alpha1Expose :: tsty where
  "ty_ApisKubepkgV1Alpha1Expose =
    TObject [(''gateway'', Optional, TArray (TString)),
     (''type'', Required, TString)]"

definition ty_ApisKubepkgV1Alpha1Volume :: tsty where
  "ty_ApisKubepkgV1Alpha1Volume =
    TOr [TObject [(''type'', Required, TLit ''ConfigMap''),
     (''mountPath'', Required, TString),
     (''mountPropagation'', Optional, TOr [TLit ''Bidirectional'', TLit ''HostToContainer'']),
     (''optional'', Optional, TBoolean),
     (''prefix'', Optional, TString),
     (''readOnly'', Optional, TBoolean),
     (''subPath'', Optional, TString),
     (''opt'', Optional, TRef ''K8SIoApiCoreV1ConfigMapVolumeSource''),
     (''spec'', Optional, TRef ''ApisKubepkgV1Alpha1SpecData'')], TObject [(''type'', Required, TLit ''EmptyDir''),
     (''mountPath'', Required, TString),
     (''mountPropagation'', Optional, TOr [TLit ''Bidirectional'', TLit ''HostToContainer'']),
     (''optional'', Optional, TBoolean),
     (''prefix'', Optional, TString),
     (''readOnly'', Optional, TBoolean),
     (''subPath'', Optional, TString),
     (''opt'', Optional, TRef ''K8SIoApiCoreV1EmptyDirVolumeSource'')], TObject [(''type'', Required, TLit ''HostPath''),
     (''mountPath'', Required, TString),
     (''mountPropagation'', Optional, TOr [TLit ''Bidirectional'', TLit ''HostToContainer'']),
     (''optional'', Optional, TBoolean),
     (''prefix'', Optional, TString),
     (''readOnly'', Optional, TBoolean),
     (''subPath'', Optional, TString),
     (''opt'', Optional, TRef ''K8SIoApiCoreV1HostPathVolumeSource'')], TObject [(''type'', Required, TLit ''PersistentVolumeClaim''),
     (''mountPath'', Required, TString),
     (''mountPropagation'', Optional, TOr [TLit ''Bidirectional'', TLit ''HostToContainer'']),
     (''optional'', Optional, TBoolean),
     (''prefix'', Optional, TString),
     (''readOnly'', Optional, TBoolean),
     (''subPath'', Optional, TString),
     (''opt'', Optional, TRef ''K8SIoApiCoreV1PersistentVolumeClaimVolumeSource''),
     (''spec'', Required, TRef ''K8SIoApiCoreV1PersistentVolumeClaimSpec'')], TObject [(''type'', Required, TLit ''Secret''),
     (''mountPath'', Required, TString),
     (''mountPropagation'', Optional, TOr [TLit ''Bidirectional'', TLit ''HostToContainer'']),
     (''optional'', Optional, TBoolean),
     (''prefix'', Optional, TString),
     (''readOnly'', Optional, TBoolean),
     (''subPath'', Optional, TString),
     (''opt'', Optional, TRef ''K8SIoApiCoreV1SecretVolumeSource''),
     (''spec'', Optional, TRef ''ApisKubepkgV1Alpha1SpecData'')]]"

definition ty_K8SIoApiCoreV1ConfigMapVolumeSource :: tsty where
  "ty_K8SIoApiCoreV1ConfigMapVolumeSource =
    TAnd [TRef ''K8SIoApiCoreV1LocalObjectReference'', TObject [(''defaultMode'', Optional, TNumber),
     (''items'', Optional, TArray (TRef ''K8SIoApiCoreV1KeyToPath'')),
     (''optional'', Optional, TBoolean)]]"

definition ty_K8SIoApiCoreV1KeyToPath :: tsty where
  "ty_K8SIoApiCoreV1KeyToPath =
    TObject [(''key'', Required, TString),
     (''mode'', Optional, TNumber),
     (''path'', Required, TString)]"

definition ty_ApisKubepkgV1Alpha1SpecData :: tsty where
  "ty_ApisKubepkgV1Alpha1SpecData =
    TObject [(''data'', Required, TRecord (TString) (TString))]"

definition ty_K8SIoApiCoreV1EmptyDirVolumeSource :: tsty where
  "ty_K8SIoApiCoreV1EmptyDirVolumeSource =
    TObject [(''medium'', Optional, TRef ''K8SIoApiCoreV1StorageMedium''),
     (''sizeLimit'', Optional, TRef ''ApiResourceQuantity'')]"

definition ty_K8SIoApiCoreV1StorageMedium :: tsty where
  "ty_K8SIoApiCoreV1StorageMedium =
    TString"

definition ty_K8SIoApiCoreV1HostPathVolumeSource :: tsty where
  "ty_K8SIoApiCoreV1HostPathVolumeSource =
    TObject [(''path'', Required, TString),
     (''type'', Optional, TRef ''K8SIoApiCoreV1HostPathType'')]"

definition ty_K8SIoApiCoreV1HostPathType :: tsty where
  "ty_K8SIoApiCoreV1HostPathType =
    TString"

definition ty_K8SIoApiCoreV1PersistentVolumeClaimVolumeSource :: tsty where
  "ty_K8SIoApiCoreV1PersistentVolumeClaimVolumeSource =
    TObject [(''claimName'', Required, TString),
     (''readOnly'', Optional, TBoolean)]"

definition ty_K8SIoApiCoreV1SecretVolumeSource :: tsty where
  "ty_K8SIoApiCoreV1SecretVolumeSource =
    TObject [(''defaultMode'', Optional, TNumber),
     (''items'', Optional, TArray (TRef ''K8SIoApiCoreV1KeyToPath'')),
     (''optional'', Optional, TBoolean),
     (''secretName'', Optional, TString)]"

definition ty_ApisKubepkgV1Alpha1Status :: tsty where
  "ty_ApisKubepkgV1Alpha1Status =
    TObject [(''digests'', Optional, TArray (TRef ''ApisKubepkgV1Alpha1DigestMeta'')),
     (''endpoint'', Optional, TRecord (TString) (TString)),
     (''images'', Optional, TRecord (TString) (TString)),
     (''resources'', Optional, TArray (TRecord (TString) (TAny)))]"

definition ty_ApisKubepkgV1Alpha1DigestMeta :: tsty where
  "ty_ApisKubepkgV1Alpha1DigestMeta =
    TObject [(''digest'', Required, TString),
     (''name'', Required, TString),
     (''platform'', Optional, TString),
     (''size'', Required, TRef ''ApisKubepkgV1Alpha1FileSize''),
     (''tag'', Optional, TString),
     (''type'', Required, TRef ''ApisKubepkgV1Alpha1DigestMetaType'')]"

definition ty_ApisKubepkgV1Alpha1FileSize :: tsty where
  "ty_ApisKubepkgV1Alpha1FileSize =
    TNumber"

definition ApisKubepkgV1Alpha1DigestMetaType :: ts_enum where
  "ApisKubepkgV1Alpha1DigestMetaType = [(''blob'', ''blob''), (''manifest'', ''manifest'')]"

definition ty_ApisKubepkgV1Alpha1KubePkgList :: tsty where
  "ty_ApisKubepkgV1Alpha1KubePkgList =
    TAnd [TRef ''ApisMetaV1TypeMeta'', TObject [(''items'', Required, TArray (TRef ''ApisKubepkgV1Alpha1KubePkg'')),
     (''metadata'', Optional, TRef ''ApisMetaV1ListMeta'')]]"

definition ty_ApisMetaV1ListMeta :: tsty where
  "ty_ApisMetaV1ListMeta =
    TObject [(''continue'', Optional, TString),
     (''remainingItemCount'', Optional, TNumber),
     (''resourceVersion'', Optional, TString),
     (''selfLink'', Optional, TString)]"

definition ty_GroupDeploymentId :: tsty where
  "ty_GroupDeploymentId =
    TString"

definition ty_Kubepkg :: tsty where
  "ty_Kubepkg =
    TAnd [TRef ''DatatypesCreationUpdationDeletionTime'', TObject [(''group'', Required, TString),
     (''kubepkgID'', Required, TRef ''KubepkgId''),
     (''name'', Required, TString)]]"

definition ty_KubepkgId :: tsty where
  "ty_KubepkgId =
    TString"

definition KubepkgChannel :: ts_enum where
  "KubepkgChannel = [(''DEV'', ''DEV''), (''BETA'', ''BETA''), (''RC'', ''RC''), (''STABLE'', ''STABLE'')]"

definition displayKubepkgChannel :: "string \<Rightarrow> string" where
  "displayKubepkgChannel v = display_label [(''DEV'', [CHR 0xE5, CHR 0xBC, CHR 0x80, CHR 0xE5, CHR 0x8F, CHR 0x91]),
     (''BETA'', [CHR 0xE6, CHR 0xB5, CHR 0x8B, CHR 0xE8, CHR 0xAF, CHR 0x95]),
     (''RC'', [CHR 0xE9, CHR 0xA2, CHR 0x84, CHR 0xE8, CHR 0xA7, CHR 0x88]),
     (''STABLE'', [CHR 0xE6, CHR 0xAD, CHR 0xA3, CHR 0xE5, CHR 0xBC, CHR 0x8F])] v"

definition ty_KubepkgRevisionId :: tsty where
  "ty_KubepkgRevisionId =
    TString"

definition ty_KubepkgVersionInfo :: tsty where
  "ty_KubepkgVersionInfo =
    TObject [(''revisionID'', Required, TRef ''KubepkgRevisionId''),
     (''version'', Required, TString)]"

definition ty_GroupRobotDataList :: tsty where
  "ty_GroupRobotDataList =
    TObject [(''data'', Required, TArray (TRef ''GroupRobot'')),
     (''total'', Required, TNumber)]"

definition ty_GroupRobot :: tsty where
  "ty_GroupRobot =
    TAnd [TRef ''GroupAccount'', TRef ''AccountRobotInfo'', TObject []]"

definition ty_AccountRobotInfo :: tsty where
  "ty_AccountRobotInfo =
    TObject [(''name'', Required, TString)]"

definition ty_AccountRobot :: tsty where
  "ty_AccountRobot =
    TAnd [TRef ''Account'', TRef ''AccountRobotInfo'', TObject []]"

definition ty_GroupRefreshGroupRobotTokenData :: tsty where
  "ty_GroupRefreshGroupRobotTokenData =
    TAnd [TRef ''GroupRoleInfo'', TObject [(''expiresIn'', Required, TNumber)]]"

definition ty_AuthOperatorAccount :: tsty where
  "ty_AuthOperatorAccount =
    TAnd [TRef ''AccountUser'', TObject [(''accountType'', Required, TRef ''AccountType''),
     (''adminRole'', Required, TRef ''GroupRoleType''),
     (''groupRoles'', Optional, TRecord (TRef ''GroupId'') (TRef ''GroupRoleType''))]]"

definition ty_RbacPermissions :: tsty where
  "ty_RbacPermissions =
    TRecord (TString) (TArray (TAny))"

text \<open>All declared types, by name; an enumeration is the union of its values.\<close>

definition declared_types :: "(string \<times> tsty) list" where
  "declared_types =
    [(''AccountId'', ty_AccountId),
     (''AccountUserDataList'', ty_AccountUserDataList),
     (''AccountUser'', ty_AccountUser),
     (''Account'', ty_Account),
     (''DatatypesPrimaryId'', ty_DatatypesPrimaryId),
     (''DatatypesCreationUpdationDeletionTime'', ty_DatatypesCreationUpdationDeletionTime),
     (''DatatypesCreationUpdationTime'', ty_DatatypesCreationUpdationTime),
     (''DatatypesCreationTime'', ty_DatatypesCreationTime),
     (''DatatypesTimestamp'', ty_DatatypesTimestamp),
     (''AccountType'', enum_type AccountType),
     (''AccountUserInfo'', ty_AccountUserInfo),
     (''GroupRoleType'', enum_type GroupRoleType),
     (''GroupUserDataList'', ty_GroupUserDataList),
     (''GroupUser'', ty_GroupUser),
     (''GroupAccount'', ty_GroupAccount),
     (''GroupId'', ty_GroupId),
     (''GroupRoleInfo'', ty_GroupRoleInfo),
     (''AuthProviderInfo'', ty_AuthProviderInfo),
     (''AuthExchangeTokenData'', ty_AuthExchangeTokenData),
     (''AuthToken'', ty_AuthToken),
     (''Time'', ty_Time),
     (''Agent'', ty_Agent),
     (''DatatypesDatetime'', ty_DatatypesDatetime),
     (''Cluster'', ty_Cluster),
     (''ClusterInfo'', ty_ClusterInfo),
     (''ClusterEnvType'', enum_type ClusterEnvType),
     (''ClusterAgentInfo'', ty_ClusterAgentInfo),
     (''ClusterId'', ty_ClusterId),
     (''ClusterNetType'', enum_type ClusterNetType),
     (''ClientObject'', ty_ClientObject),
     (''ClusterInstanceStatus'', ty_ClusterInstanceStatus),
     (''KubeutilClusterinfoClusterInfo'', ty_KubeutilClusterinfoClusterInfo),
     (''KubeutilClusterinfoClusterNode'', ty_KubeutilClusterinfoClusterNode),
     (''K8SIoApiCoreV1NodeSystemInfo'', ty_K8SIoApiCoreV1NodeSystemInfo),
     (''StrfmtDuration'', ty_StrfmtDuration),
     (''Group'', ty_Group),
     (''GroupInfo'', ty_GroupInfo),
     (''GroupType'', enum_type GroupType),
     (''GroupEnvWithCluster'', ty_GroupEnvWithCluster),
     (''GroupEnv'', ty_GroupEnv),
     (''GroupEnvInfo'', ty_GroupEnvInfo),
     (''GroupEnvType'', enum_type GroupEnvType),
     (''GroupEnvCluster'', ty_GroupEnvCluster),
     (''GroupEnvId'', ty_GroupEnvId),
     (''ApisKubepkgV1Alpha1KubePkg'', ty_ApisKubepkgV1Alpha1KubePkg),
     (''ApisMetaV1TypeMeta'', ty_ApisMetaV1TypeMeta),
     (''ApisMetaV1ObjectMeta'', ty_ApisMetaV1ObjectMeta),
     (''ApisKubepkgV1Alpha1Spec'', ty_ApisKubepkgV1Alpha1Spec),
     (''ApisKubepkgV1Alpha1EnvVarValueOrFrom'', ty_ApisKubepkgV1Alpha1EnvVarValueOrFrom),
     (''ApisKubepkgV1Alpha1Container'', ty_ApisKubepkgV1Alpha1Container),
     (''ApisKubepkgV1Alpha1Image'', ty_ApisKubepkgV1Alpha1Image),
     (''K8SIoApiCoreV1PullPolicy'', ty_K8SIoApiCoreV1PullPolicy),
     (''K8SIoApiCoreV1Lifecycle'', ty_K8SIoApiCoreV1Lifecycle),
     (''K8SIoApiCoreV1LifecycleHandler'', ty_K8SIoApiCoreV1LifecycleHandler),
     (''K8SIoApiCoreV1ExecAction'', ty_K8SIoApiCoreV1ExecAction),
     (''K8SIoApiCoreV1HttpGetAction'', ty_K8SIoApiCoreV1HttpGetAction),
     (''K8SIoApiCoreV1HttpHeader'', ty_K8SIoApiCoreV1HttpHeader),
     (''UtilIntstrIntOrString'', ty_UtilIntstrIntOrString),
     (''K8SIoApiCoreV1UriScheme'', ty_K8SIoApiCoreV1UriScheme),
     (''K8SIoApiCoreV1TcpSocketAction'', ty_K8SIoApiCoreV1TcpSocketAction),
     (''K8SIoApiCoreV1Probe'', ty_K8SIoApiCoreV1Probe),
     (''K8SIoApiCoreV1ProbeHandler'', ty_K8SIoApiCoreV1ProbeHandler),
     (''K8SIoApiCoreV1GrpcAction'', ty_K8SIoApiCoreV1GrpcAction),
     (''K8SIoApiCoreV1ResourceRequirements'', ty_K8SIoApiCoreV1ResourceRequirements),
     (''K8SIoApiCoreV1ResourceClaim'', ty_K8SIoApiCoreV1ResourceClaim),
     (''K8SIoApiCoreV1ResourceList'', ty_K8SIoApiCoreV1ResourceList),
     (''K8SIoApiCoreV1ResourceName'', ty_K8SIoApiCoreV1ResourceName),
     (''ApiResourceQuantity'', ty_ApiResourceQuantity),
     (''K8SIoApiCoreV1SecurityContext'', ty_K8SIoApiCoreV1SecurityContext),
     (''K8SIoApiCoreV1Capabilities'', ty_K8SIoApiCoreV1Capabilities),
     (''K8SIoApiCoreV1Capability'', ty_K8SIoApiCoreV1Capability),
     (''K8SIoApiCoreV1ProcMountType'', ty_K8SIoApiCoreV1ProcMountType),
     (''K8SIoApiCoreV1SeLinuxOptions'', ty_K8SIoApiCoreV1SeLinuxOptions),
     (''K8SIoApiCoreV1SeccompProfile'', ty_K8SIoApiCoreV1SeccompProfile),
     (''K8SIoApiCoreV1SeccompProfileType'', ty_K8SIoApiCoreV1SeccompProfileType),
     (''K8SIoApiCoreV1WindowsSecurityContextOptions'', ty_K8SIoApiCoreV1WindowsSecurityContextOptions),
     (''K8SIoApiCoreV1TerminationMessagePolicy'', ty_K8SIoApiCoreV1TerminationMessagePolicy),
     (''ApisKubepkgV1Alpha1Deploy'', ty_ApisKubepkgV1Alpha1Deploy),
     (''K8SIoApiBatchV1CronJobSpec'', ty_K8SIoApiBatchV1CronJobSpec),
     (''K8SIoApiBatchV1ConcurrencyPolicy'', ty_K8SIoApiBatchV1ConcurrencyPolicy),
     (''K8SIoApiBatchV1JobTemplateSpec'', ty_K8SIoApiBatchV1JobTemplateSpec),
     (''K8SIoApiBatchV1JobSpec'', ty_K8SIoApiBatchV1JobSpec),
     (''K8SIoApiBatchV1CompletionMode'', ty_K8SIoApiBatchV1CompletionMode),
     (''K8SIoApiBatchV1PodFailurePolicy'', ty_K8SIoApiBatchV1PodFailurePolicy),
     (''K8SIoApiBatchV1PodFailurePolicyRule'', ty_K8SIoApiBatchV1PodFailurePolicyRule),
     (''K8SIoApiBatchV1PodFailurePolicyAction'', ty_K8SIoApiBatchV1PodFailurePolicyAction),
     (''K8SIoApiBatchV1PodFailurePolicyOnExitCodesRequirement'', ty_K8SIoApiBatchV1PodFailurePolicyOnExitCodesRequirement),
     (''K8SIoApiBatchV1PodFailurePolicyOnExitCodesOperator'', ty_K8SIoApiBatchV1PodFailurePolicyOnExitCodesOperator),
     (''K8SIoApiBatchV1PodFailurePolicyOnPodConditionsPattern'', ty_K8SIoApiBatchV1PodFailurePolicyOnPodConditionsPattern),
     (''K8SIoApiCoreV1ConditionStatus'', ty_K8SIoApiCoreV1ConditionStatus),
     (''K8SIoApiCoreV1PodConditionType'', ty_K8SIoApiCoreV1PodConditionType),
     (''ApisMetaV1LabelSelector'', ty_ApisMetaV1LabelSelector),
     (''ApisMetaV1LabelSelectorRequirement'', ty_ApisMetaV1LabelSelectorRequirement),
     (''ApisMetaV1LabelSelectorOperator'', ty_ApisMetaV1LabelSelectorOperator),
     (''K8SIoApiCoreV1PodTemplateSpec'', ty_K8SIoApiCoreV1PodTemplateSpec),
     (''K8SIoApiCoreV1PodSpec'', ty_K8SIoApiCoreV1PodSpec),
     (''K8SIoApiCoreV1Affinity'', ty_K8SIoApiCoreV1Affinity),
     (''K8SIoApiCoreV1NodeAffinity'', ty_K8SIoApiCoreV1NodeAffinity),
     (''K8SIoApiCoreV1PreferredSchedulingTerm'', ty_K8SIoApiCoreV1PreferredSchedulingTerm),
     (''K8SIoApiCoreV1NodeSelectorTerm'', ty_K8SIoApiCoreV1NodeSelectorTerm),
     (''K8SIoApiCoreV1NodeSelectorRequirement'', ty_K8SIoApiCoreV1NodeSelectorRequirement),
     (''K8SIoApiCoreV1NodeSelectorOperator'', ty_K8SIoApiCoreV1NodeSelectorOperator),
     (''K8SIoApiCoreV1NodeSelector'', ty_K8SIoApiCoreV1NodeSelector),
     (''K8SIoApiCoreV1PodAffinity'', ty_K8SIoApiCoreV1PodAffinity),
     (''K8SIoApiCoreV1WeightedPodAffinityTerm'', ty_K8SIoApiCoreV1WeightedPodAffinityTerm),
     (''K8SIoApiCoreV1PodAffinityTerm'', ty_K8SIoApiCoreV1PodAffinityTerm),
     (''K8SIoApiCoreV1PodAntiAffinity'', ty_K8SIoApiCoreV1PodAntiAffinity),
     (''K8SIoApiCoreV1PodDnsConfig'', ty_K8SIoApiCoreV1PodDnsConfig),
     (''K8SIoApiCoreV1PodDnsConfigOption'', ty_K8SIoApiCoreV1PodDnsConfigOption),
     (''K8SIoApiCoreV1DnsPolicy'', ty_K8SIoApiCoreV1DnsPolicy),
     (''K8SIoApiCoreV1HostAlias'', ty_K8SIoApiCoreV1HostAlias),
     (''K8SIoApiCoreV1LocalObjectReference'', ty_K8SIoApiCoreV1LocalObjectReference),
     (''K8SIoApiCoreV1PodOs'', ty_K8SIoApiCoreV1PodOs),
     (''K8SIoApiCoreV1OsName'', ty_K8SIoApiCoreV1OsName),
     (''K8SIoApiCoreV1PreemptionPolicy'', enum_type K8SIoApiCoreV1PreemptionPolicy),
     (''K8SIoApiCoreV1PodReadinessGate'', ty_K8SIoApiCoreV1PodReadinessGate),
     (''K8SIoApiCoreV1PodResourceClaim'', ty_K8SIoApiCoreV1PodResourceClaim),
     (''K8SIoApiCoreV1ClaimSource'', ty_K8SIoApiCoreV1ClaimSource),
     (''K8SIoApiCoreV1RestartPolicy'', enum_type K8SIoApiCoreV1RestartPolicy),
     (''K8SIoApiCoreV1PodSchedulingGate'', ty_K8SIoApiCoreV1PodSchedulingGate),
     (''K8SIoApiCoreV1PodSecurityContext'', ty_K8SIoApiCoreV1PodSecurityContext),
     (''K8SIoApiCoreV1PodFsGroupChangePolicy'', ty_K8SIoApiCoreV1PodFsGroupChangePolicy),
     (''K8SIoApiCoreV1Sysctl'', ty_K8SIoApiCoreV1Sysctl),
     (''K8SIoApiCoreV1Toleration'', ty_K8SIoApiCoreV1Toleration),
     (''K8SIoApiCoreV1TaintEffect'', ty_K8SIoApiCoreV1TaintEffect),
     (''K8SIoApiCoreV1TolerationOperator'', ty_K8SIoApiCoreV1TolerationOperator),
     (''K8SIoApiCoreV1TopologySpreadConstraint'', ty_K8SIoApiCoreV1TopologySpreadConstraint),
     (''K8SIoApiCoreV1NodeInclusionPolicy'', ty_K8SIoApiCoreV1NodeInclusionPolicy),
     (''K8SIoApiCoreV1UnsatisfiableConstraintAction'', ty_K8SIoApiCoreV1UnsatisfiableConstraintAction),
     (''K8SIoApiAppsV1DaemonSetSpec'', ty_K8SIoApiAppsV1DaemonSetSpec),
     (''K8SIoApiAppsV1DaemonSetUpdateStrategy'', ty_K8SIoApiAppsV1DaemonSetUpdateStrategy),
     (''K8SIoApiAppsV1RollingUpdateDaemonSet'', ty_K8SIoApiAppsV1RollingUpdateDaemonSet),
     (''K8SIoApiAppsV1DaemonSetUpdateStrategyType'', enum_type K8SIoApiAppsV1DaemonSetUpdateStrategyType),
     (''K8SIoApiAppsV1DeploymentSpec'', ty_K8SIoApiAppsV1DeploymentSpec),
     (''K8SIoApiAppsV1DeploymentStrategy'', ty_K8SIoApiAppsV1DeploymentStrategy),
     (''K8SIoApiAppsV1RollingUpdateDeployment'', ty_K8SIoApiAppsV1RollingUpdateDeployment),
     (''K8SIoApiAppsV1DeploymentStrategyType'', enum_type K8SIoApiAppsV1DeploymentStrategyType),
     (''K8SIoApiAppsV1StatefulSetSpec'', ty_K8SIoApiAppsV1StatefulSetSpec),
     (''K8SIoApiAppsV1StatefulSetOrdinals'', ty_K8SIoApiAppsV1StatefulSetOrdinals),
     (''K8SIoApiAppsV1StatefulSetPersistentVolumeClaimRetentionPolicy'', ty_K8SIoApiAppsV1StatefulSetPersistentVolumeClaimRetentionPolicy),
     (''K8SIoApiAppsV1PersistentVolumeClaimRetentionPolicyType'', ty_K8SIoApiAppsV1PersistentVolumeClaimRetentionPolicyType),
     (''K8SIoApiAppsV1PodManagementPolicyType'', ty_K8SIoApiAppsV1PodManagementPolicyType),
     (''K8SIoApiAppsV1StatefulSetUpdateStrategy'', ty_K8SIoApiAppsV1StatefulSetUpdateStrategy),
     (''K8SIoApiAppsV1RollingUpdateStatefulSetStrategy'', ty_K8SIoApiAppsV1RollingUpdateStatefulSetStrategy),
     (''K8SIoApiAppsV1StatefulSetUpdateStrategyType'', ty_K8SIoApiAppsV1StatefulSetUpdateStrategyType),
     (''K8SIoApiCoreV1PersistentVolumeClaim'', ty_K8SIoApiCoreV1PersistentVolumeClaim),
     (''K8SIoApiCoreV1PersistentVolumeClaimSpec'', ty_K8SIoApiCoreV1PersistentVolumeClaimSpec),
     (''K8SIoApiCoreV1PersistentVolumeAccessMode'', ty_K8SIoApiCoreV1PersistentVolumeAccessMode),
     (''K8SIoApiCoreV1TypedLocalObjectReference'', ty_K8SIoApiCoreV1TypedLocalObjectReference),
     (''K8SIoApiCoreV1TypedObjectReference'', ty_K8SIoApiCoreV1TypedObjectReference),
     (''K8SIoApiCoreV1PersistentVolumeMode'', ty_K8SIoApiCoreV1PersistentVolumeMode),
     (''K8SIoApiCoreV1PersistentVolumeClaimStatus'', ty_K8SIoApiCoreV1PersistentVolumeClaimStatus),
     (''K8SIoApiCoreV1PersistentVolumeClaimCondition'', ty_K8SIoApiCoreV1PersistentVolumeClaimCondition),
     (''ApisMetaV1Time'', ty_ApisMetaV1Time),
     (''K8SIoApiCoreV1PersistentVolumeClaimConditionType'', ty_K8SIoApiCoreV1PersistentVolumeClaimConditionType),
     (''K8SIoApiCoreV1PersistentVolumeClaimPhase'', ty_K8SIoApiCoreV1PersistentVolumeClaimPhase),
     (''K8SIoApiCoreV1PersistentVolumeClaimResizeStatus'', ty_K8SIoApiCoreV1PersistentVolumeClaimResizeStatus),
     (''ApisKubepkgV1Alpha1Manifests'', ty_ApisKubepkgV1Alpha1Manifests),
     (''ApisKubepkgV1Alpha1ServiceAccount'', ty_ApisKubepkgV1Alpha1ServiceAccount),
     (''K8SIoApiRbacV1PolicyRule'', ty_K8SIoApiRbacV1PolicyRule),
     (''ApisKubepkgV1Alpha1ScopeType'', enum_type ApisKubepkgV1Alpha1ScopeType),
     (''ApisKubepkgV1Alpha1Service'', ty_ApisKubepkgV1Alpha1Service),
     (''ApisKubepkgV1Alpha1Expose'', ty_ApisKubepkgV1Alpha1Expose),
     (''ApisKubepkgV1Alpha1Volume'', ty_ApisKubepkgV1Alpha1Volume),
     (''K8SIoApiCoreV1ConfigMapVolumeSource'', ty_K8SIoApiCoreV1ConfigMapVolumeSource),
     (''K8SIoApiCoreV1KeyToPath'', ty_K8SIoApiCoreV1KeyToPath),
     (''ApisKubepkgV1Alpha1SpecData'', ty_ApisKubepkgV1Alpha1SpecData),
     (''K8SIoApiCoreV1EmptyDirVolumeSource'', ty_K8SIoApiCoreV1EmptyDirVolumeSource),
     (''K8SIoApiCoreV1StorageMedium'', ty_K8SIoApiCoreV1StorageMedium),
     (''K8SIoApiCoreV1HostPathVolumeSource'', ty_K8SIoApiCoreV1HostPathVolumeSource),
     (''K8SIoApiCoreV1HostPathType'', ty_K8SIoApiCoreV1HostPathType),
     (''K8SIoApiCoreV1PersistentVolumeClaimVolumeSource'', ty_K8SIoApiCoreV1PersistentVolumeClaimVolumeSource),
     (''K8SIoApiCoreV1SecretVolumeSource'', ty_K8SIoApiCoreV1SecretVolumeSource),
     (''ApisKubepkgV1Alpha1Status'', ty_ApisKubepkgV1Alpha1Status),
     (''ApisKubepkgV1Alpha1DigestMeta'', ty_ApisKubepkgV1Alpha1DigestMeta),
     (''ApisKubepkgV1Alpha1FileSize'', ty_ApisKubepkgV1Alpha1FileSize),
     (''ApisKubepkgV1Alpha1DigestMetaType'', enum_type ApisKubepkgV1Alpha1DigestMetaType),
     (''ApisKubepkgV1Alpha1KubePkgList'', ty_ApisKubepkgV1Alpha1KubePkgList),
     (''ApisMetaV1ListMeta'', ty_ApisMetaV1ListMeta),
     (''GroupDeploymentId'', ty_GroupDeploymentId),
     (''Kubepkg'', ty_Kubepkg),
     (''KubepkgId'', ty_KubepkgId),
     (''KubepkgChannel'', enum_type KubepkgChannel),
     (''KubepkgRevisionId'', ty_KubepkgRevisionId),
     (''KubepkgVersionInfo'', ty_KubepkgVersionInfo),
     (''GroupRobotDataList'', ty_GroupRobotDataList),
     (''GroupRobot'', ty_GroupRobot),
     (''AccountRobotInfo'', ty_AccountRobotInfo),
     (''AccountRobot'', ty_AccountRobot),
     (''GroupRefreshGroupRobotTokenData'', ty_GroupRefreshGroupRobotTokenData),
     (''AuthOperatorAccount'', ty_AuthOperatorAccount),
     (''RbacPermissions'', ty_RbacPermissions)]"

lemmas type_defs =
  ty_AccountId_def
  ty_AccountUserDataList_def
  ty_AccountUser_def
  ty_Account_def
  ty_DatatypesPrimaryId_def
  ty_DatatypesCreationUpdationDeletionTime_def
  ty_DatatypesCreationUpdationTime_def
  ty_DatatypesCreationTime_def
  ty_DatatypesTimestamp_def
  ty_AccountUserInfo_def
  ty_GroupUserDataList_def
  ty_GroupUser_def
  ty_GroupAccount_def
  ty_GroupId_def
  ty_GroupRoleInfo_def
  ty_AuthProviderInfo_def
  ty_AuthExchangeTokenData_def
  ty_AuthToken_def
  ty_Time_def
  ty_Agent_def
  ty_DatatypesDatetime_def
  ty_Cluster_def
  ty_ClusterInfo_def
  ty_ClusterAgentInfo_def
  ty_ClusterId_def
  ty_ClientObject_def
  ty_ClusterInstanceStatus_def
  ty_KubeutilClusterinfoClusterInfo_def
  ty_KubeutilClusterinfoClusterNode_def
  ty_K8SIoApiCoreV1NodeSystemInfo_def
  ty_StrfmtDuration_def
  ty_Group_def
  ty_GroupInfo_def
  ty_GroupEnvWithCluster_def
  ty_GroupEnv_def
  ty_GroupEnvInfo_def
  ty_GroupEnvCluster_def
  ty_GroupEnvId_def
  ty_ApisKubepkgV1Alpha1KubePkg_def
  ty_ApisMetaV1TypeMeta_def
  ty_ApisMetaV1ObjectMeta_def
  ty_ApisKubepkgV1Alpha1Spec_def
  ty_ApisKubepkgV1Alpha1EnvVarValueOrFrom_def
  ty_ApisKubepkgV1Alpha1Container_def
  ty_ApisKubepkgV1Alpha1Image_def
  ty_K8SIoApiCoreV1PullPolicy_def
  ty_K8SIoApiCoreV1Lifecycle_def
  ty_K8SIoApiCoreV1LifecycleHandler_def
  ty_K8SIoApiCoreV1ExecAction_def
  ty_K8SIoApiCoreV1HttpGetAction_def
  ty_K8SIoApiCoreV1HttpHeader_def
  ty_UtilIntstrIntOrString_def
  ty_K8SIoApiCoreV1UriScheme_def
  ty_K8SIoApiCoreV1TcpSocketAction_def
  ty_K8SIoApiCoreV1Probe_def
  ty_K8SIoApiCoreV1ProbeHandler_def
  ty_K8SIoApiCoreV1GrpcAction_def
  ty_K8SIoApiCoreV1ResourceRequirements_def
  ty_K8SIoApiCoreV1ResourceClaim_def
  ty_K8SIoApiCoreV1ResourceList_def
  ty_K8SIoApiCoreV1ResourceName_def
  ty_ApiResourceQuantity_def
  ty_K8SIoApiCoreV1SecurityContext_def
  ty_K8SIoApiCoreV1Capabilities_def
  ty_K8SIoApiCoreV1Capability_def
  ty_K8SIoApiCoreV1ProcMountType_def
  ty_K8SIoApiCoreV1SeLinuxOptions_def
  ty_K8SIoApiCoreV1SeccompProfile_def
  ty_K8SIoApiCoreV1SeccompProfileType_def
  ty_K8SIoApiCoreV1WindowsSecurityContextOptions_def
  ty_K8SIoApiCoreV1TerminationMessagePolicy_def
  ty_ApisKubepkgV1Alpha1Deploy_def
  ty_K8SIoApiBatchV1CronJobSpec_def
  ty_K8SIoApiBatchV1ConcurrencyPolicy_def
  ty_K8SIoApiBatchV1JobTemplateSpec_def
  ty_K8SIoApiBatchV1JobSpec_def
  ty_K8SIoApiBatchV1CompletionMode_def
  ty_K8SIoApiBatchV1PodFailurePolicy_def
  ty_K8SIoApiBatchV1PodFailurePolicyRule_def
  ty_K8SIoApiBatchV1PodFailurePolicyAction_def
  ty_K8SIoApiBatchV1PodFailurePolicyOnExitCodesRequirement_def
  ty_K8SIoApiBatchV1PodFailurePolicyOnExitCodesOperator_def
  ty_K8SIoApiBatchV1PodFailurePolicyOnPodConditionsPattern_def
  ty_K8SIoApiCoreV1ConditionStatus_def
  ty_K8SIoApiCoreV1PodConditionType_def
  ty_ApisMetaV1LabelSelector_def
  ty_ApisMetaV1LabelSelectorRequirement_def
  ty_ApisMetaV1LabelSelectorOperator_def
  ty_K8SIoApiCoreV1PodTemplateSpec_def
  ty_K8SIoApiCoreV1PodSpec_def
  ty_K8SIoApiCoreV1Affinity_def
  ty_K8SIoApiCoreV1NodeAffinity_def
  ty_K8SIoApiCoreV1PreferredSchedulingTerm_def
  ty_K8SIoApiCoreV1NodeSelectorTerm_def
  ty_K8SIoApiCoreV1NodeSelectorRequirement_def
  ty_K8SIoApiCoreV1NodeSelectorOperator_def
  ty_K8SIoApiCoreV1NodeSelector_def
  ty_K8SIoApiCoreV1PodAffinity_def
  ty_K8SIoApiCoreV1WeightedPodAffinityTerm_def
  ty_K8SIoApiCoreV1PodAffinityTerm_def
  ty_K8SIoApiCoreV1PodAntiAffinity_def
  ty_K8SIoApiCoreV1PodDnsConfig_def
  ty_K8SIoApiCoreV1PodDnsConfigOption_def
  ty_K8SIoApiCoreV1DnsPolicy_def
  ty_K8SIoApiCoreV1HostAlias_def
  ty_K8SIoApiCoreV1LocalObjectReference_def
  ty_K8SIoApiCoreV1PodOs_def
  ty_K8SIoApiCoreV1OsName_def
  ty_K8SIoApiCoreV1PodReadinessGate_def
  ty_K8SIoApiCoreV1PodResourceClaim_def
  ty_K8SIoApiCoreV1ClaimSource_def
  ty_K8SIoApiCoreV1PodSchedulingGate_def
  ty_K8SIoApiCoreV1PodSecurityContext_def
  ty_K8SIoApiCoreV1PodFsGroupChangePolicy_def
  ty_K8SIoApiCoreV1Sysctl_def
  ty_K8SIoApiCoreV1Toleration_def
  ty_K8SIoApiCoreV1TaintEffect_def
  ty_K8SIoApiCoreV1TolerationOperator_def
  ty_K8SIoApiCoreV1TopologySpreadConstraint_def
  ty_K8SIoApiCoreV1NodeInclusionPolicy_def
  ty_K8SIoApiCoreV1UnsatisfiableConstraintAction_def
  ty_K8SIoApiAppsV1DaemonSetSpec_def
  ty_K8SIoApiAppsV1DaemonSetUpdateStrategy_def
  ty_K8SIoApiAppsV1RollingUpdateDaemonSet_def
  ty_K8SIoApiAppsV1DeploymentSpec_def
  ty_K8SIoApiAppsV1DeploymentStrategy_def
  ty_K8SIoApiAppsV1RollingUpdateDeployment_def
  ty_K8SIoApiAppsV1StatefulSetSpec_def
  ty_K8SIoApiAppsV1StatefulSetOrdinals_def
  ty_K8SIoApiAppsV1StatefulSetPersistentVolumeClaimRetentionPolicy_def
  ty_K8SIoApiAppsV1PersistentVolumeClaimRetentionPolicyType_def
  ty_K8SIoApiAppsV1PodManagementPolicyType_def
  ty_K8SIoApiAppsV1StatefulSetUpdateStrategy_def
  ty_K8SIoApiAppsV1RollingUpdateStatefulSetStrategy_def
  ty_K8SIoApiAppsV1StatefulSetUpdateStrategyType_def
  ty_K8SIoApiCoreV1PersistentVolumeClaim_def
  ty_K8SIoApiCoreV1PersistentVolumeClaimSpec_def
  ty_K8SIoApiCoreV1PersistentVolumeAccessMode_def
  ty_K8SIoApiCoreV1TypedLocalObjectReference_def
  ty_K8SIoApiCoreV1TypedObjectReference_def
  ty_K8SIoApiCoreV1PersistentVolumeMode_def
  ty_K8SIoApiCoreV1PersistentVolumeClaimStatus_def
  ty_K8SIoApiCoreV1PersistentVolumeClaimCondition_def
  ty_ApisMetaV1Time_def
  ty_K8SIoApiCoreV1PersistentVolumeClaimConditionType_def
  ty_K8SIoApiCoreV1PersistentVolumeClaimPhase_def
  ty_K8SIoApiCoreV1PersistentVolumeClaimResizeStatus_def
  ty_ApisKubepkgV1Alpha1Manifests_def
  ty_ApisKubepkgV1Alpha1ServiceAccount_def
  ty_K8SIoApiRbacV1PolicyRule_def
  ty_ApisKubepkgV1Alpha1Service_def
  ty_ApisKubepkgV1Alpha1Expose_def
  ty_ApisKubepkgV1Alpha1Volume_def
  ty_K8SIoApiCoreV1ConfigMapVolumeSource_def
  ty_K8SIoApiCoreV1KeyToPath_def
  ty_ApisKubepkgV1Alpha1SpecData_def
  ty_K8SIoApiCoreV1EmptyDirVolumeSource_def
  ty_K8SIoApiCoreV1StorageMedium_def
  ty_K8SIoApiCoreV1HostPathVolumeSource_def
  ty_K8SIoApiCoreV1HostPathType_def
  ty_K8SIoApiCoreV1PersistentVolumeClaimVolumeSource_def
  ty_K8SIoApiCoreV1SecretVolumeSource_def
  ty_ApisKubepkgV1Alpha1Status_def
  ty_ApisKubepkgV1Alpha1DigestMeta_def
  ty_ApisKubepkgV1Alpha1FileSize_def
  ty_ApisKubepkgV1Alpha1KubePkgList_def
  ty_ApisMetaV1ListMeta_def
  ty_GroupDeploymentId_def
  ty_Kubepkg_def
  ty_KubepkgId_def
  ty_KubepkgRevisionId_def
  ty_KubepkgVersionInfo_def
  ty_GroupRobotDataList_def
  ty_GroupRobot_def
  ty_AccountRobotInfo_def
  ty_AccountRobot_def
  ty_GroupRefreshGroupRobotTokenData_def
  ty_AuthOperatorAccount_def
  ty_RbacPermissions_def
  AccountType_def
  GroupRoleType_def
  ClusterEnvType_def
  ClusterNetType_def
  GroupType_def
  GroupEnvType_def
  K8SIoApiCoreV1PreemptionPolicy_def
  K8SIoApiCoreV1RestartPolicy_def
  K8SIoApiAppsV1DaemonSetUpdateStrategyType_def
  K8SIoApiAppsV1DeploymentStrategyType_def
  ApisKubepkgV1Alpha1ScopeType_def
  ApisKubepkgV1Alpha1DigestMetaType_def
  KubepkgChannel_def

definition declared_enums :: "ts_enum list" where
  "declared_enums = [AccountType,
     GroupRoleType,
     ClusterEnvType,
     ClusterNetType,
     GroupType,
     GroupEnvType,
     K8SIoApiCoreV1PreemptionPolicy,
     K8SIoApiCoreV1RestartPolicy,
     K8SIoApiAppsV1DaemonSetUpdateStrategyType,
     K8SIoApiAppsV1DeploymentStrategyType,
     ApisKubepkgV1Alpha1ScopeType,
     ApisKubepkgV1Alpha1DigestMetaType,
     KubepkgChannel]"

definition displays :: "(ts_enum \<times> (string \<Rightarrow> string)) list" where
  "displays = [(AccountType, displayAccountType),
     (GroupRoleType, displayGroupRoleType),
     (ClusterEnvType, displayClusterEnvType),
     (ClusterNetType, displayClusterNetType),
     (GroupType, displayGroupType),
     (GroupEnvType, displayGroupEnvType),
     (KubepkgChannel, displayKubepkgChannel)]"

lemmas display_defs =
  displayAccountType_def
  displayGroupRoleType_def
  displayClusterEnvType_def
  displayClusterNetType_def
  displayGroupType_def
  displayGroupEnvType_def
  displayKubepkgChannel_def

end
