(* ===== verification/Group_Members.thy ===== *)
theory Group_Members
  imports Form_Controls Access_Control Dashboard_Types
begin

text \<open>
  \<^verbatim>\<open>webapp/dashboard/mod/group\<close> and \<^verbatim>\<open>webapp/dashboard/mod/account\<close>: a group, its members and robots,
  the administrators, and the search for accounts. The control of a member's role is a menu whose
  choices become requests, guarded by the user's permissions.
\<close>

section \<open>The role of a member\<close>

text \<open>
  \<^verbatim>\<open>GroupTypeOrControl\<close> is there twice, for the members of a group and for the administrators;
  the two differ in the operations they call.
\<close>

datatype membership = InGroup string | AmongAdmins

definition put_role_call :: "membership \<Rightarrow> js \<Rightarrow> js \<Rightarrow> call" where
  "put_role_call t accountID roleType =
     (case t of
        InGroup g \<Rightarrow> call putGroupAccount
          [(''groupName'', Str g), (''accountID'', accountID), (''body'', Obj [(''roleType'', roleType)])]
      | AmongAdmins \<Rightarrow> call putAdminAccount
          [(''accountID'', accountID), (''body'', Obj [(''roleType'', roleType)])])"

definition remove_member_call :: "membership \<Rightarrow> js \<Rightarrow> call" where
  "remove_member_call t accountID =
     (case t of
        InGroup g \<Rightarrow> call deleteGroupAccount [(''groupName'', Str g), (''accountID'', accountID)]
      | AmongAdmins \<Rightarrow> call deleteAdminAccount [(''accountID'', accountID)])"

text \<open>The operation the control is guarded by.\<close>

definition role_operation :: "membership \<Rightarrow> operation" where
  "role_operation t = (case t of InGroup g \<Rightarrow> putGroupAccount | AmongAdmins \<Rightarrow> putAdminAccount)"

text \<open>The items: every role but that of a guest, with whether it is the member's, and the removal.\<close>

definition role_items :: "js \<Rightarrow> (string \<times> bool) list" where
  "role_items roleType =
     map (\<lambda>r. (r, Str r = roleType)) (filter (\<lambda>r. r \<noteq> ''GUEST'') (map snd GroupRoleType)) @ [(''-'', False)]"

record role_control =
  rc_user :: js
  rc_menu :: menu
  rc_calls :: "call list"

text \<open>
  What happens to a row of the list: the list passes a member, a request is answered, and events
  of the menu. A removed member is \<^verbatim>\<open>null\<close>, and then nothing is rendered.
\<close>

datatype role_event = UserPassed js | RolePut js | MemberDeleted | RoleMenu menu_event

definition on_role_selected :: "membership \<Rightarrow> string \<Rightarrow> role_control \<Rightarrow> role_control" where
  "on_role_selected t v st =
     (if v \<noteq> ''-'' then
        (if Str v \<noteq> member (rc_user st) ''roleType''
         then st\<lparr>rc_calls := rc_calls st @ [put_role_call t (member (rc_user st) ''accountID'') (Str v)]\<rparr>
         else st)
      else st\<lparr>rc_calls := rc_calls st @ [remove_member_call t (member (rc_user st) ''accountID'')]\<rparr>)"

definition updated_user :: "js \<Rightarrow> js \<Rightarrow> js" where
  "updated_user user body =
     Obj (spread (own_props user)
       [(''roleType'', member body ''roleType''), (''updatedAt'', member body ''updatedAt'')])"

text \<open>The items of a menu are in the page only while it is open.\<close>

definition on_menu :: "membership \<Rightarrow> bool \<Rightarrow> menu_event \<Rightarrow> role_control \<Rightarrow> role_control" where
  "on_menu t disabled e st =
     (let st' = st\<lparr>rc_menu := menu_handle disabled e (rc_menu st)\<rparr> in
      case e of
        ItemClicked targets \<Rightarrow>
          (if menu_open (rc_menu st)
           then (case first_value targets of None \<Rightarrow> st' | Some v \<Rightarrow> on_role_selected t v st')
           else st)
      | _ \<Rightarrow> st')"

fun role_step :: "membership \<Rightarrow> rendered \<Rightarrow> role_event \<Rightarrow> role_control \<Rightarrow> role_control" where
  "role_step t r (UserPassed u) st =
     st\<lparr>rc_user := u, rc_menu := (if truthy (rc_user st) then rc_menu st else menu_init)\<rparr>"
| "role_step t r (RolePut body) st =
     (if truthy (rc_user st) then st\<lparr>rc_user := updated_user (rc_user st) body\<rparr> else st)"
| "role_step t r MemberDeleted st = (if truthy (rc_user st) then st\<lparr>rc_user := Null\<rparr> else st)"
| "role_step t r (RoleMenu e) st =
     (if truthy (rc_user st) \<and> r \<noteq> RenderNothing then on_menu t (r = RenderDisabled) e st else st)"

definition role_init :: "js \<Rightarrow> role_control" where
  "role_init user = \<lparr>rc_user = user, rc_menu = menu_init, rc_calls = []\<rparr>"

definition role_run :: "membership \<Rightarrow> rendered \<Rightarrow> role_event list \<Rightarrow> js \<Rightarrow> role_control" where
  "role_run t r es user = fold (role_step t r) es (role_init user)"

section \<open>The lists of members and administrators\<close>

record member_list =
  ml_rows :: "js list"
  ml_calls :: "call list"

datatype member_list_event = MembersMounted | MembersLoaded js | AccountChosen js | MemberAdded

definition list_members_call :: "membership \<Rightarrow> call" where
  "list_members_call t =
     (case t of
        InGroup g \<Rightarrow> call listGroupAccount [(''groupName'', Str g), (''size'', Num (-1))]
      | AmongAdmins \<Rightarrow> call listAdminAccount [(''size'', Num (-1))])"

definition elements_of :: "js \<Rightarrow> js list" where
  "elements_of v = (case v of Arr xs \<Rightarrow> xs | _ \<Rightarrow> [])"

fun member_list_step :: "membership \<Rightarrow> member_list_event \<Rightarrow> member_list \<Rightarrow> member_list" where
  "member_list_step t MembersMounted st = st\<lparr>ml_calls := ml_calls st @ [list_members_call t]\<rparr>"
| "member_list_step t (MembersLoaded body) st = st\<lparr>ml_rows := elements_of (member body ''data'')\<rparr>"
| "member_list_step t (AccountChosen accountID) st =
     st\<lparr>ml_calls := ml_calls st @ [put_role_call t accountID (Str ''MEMBER'')]\<rparr>"
| "member_list_step t MemberAdded st = st\<lparr>ml_calls := ml_calls st @ [list_members_call t]\<rparr>"

text \<open>\<^verbatim>\<open>AccountList\<close>: the same without actions; a row as it is shown.\<close>

definition list_accounts_call :: call where
  "list_accounts_call = call listAccount [(''size'', Num (-1))]"

definition account_row :: "js \<Rightarrow> js \<times> js \<times> js" where
  "account_row a = (member a ''accountID'', member a ''nickname'', member a ''email'')"

definition account_rows :: "js \<Rightarrow> (js \<times> js \<times> js) list" where
  "account_rows body = map account_row (elements_of (member body ''data''))"

section \<open>Searching for an account\<close>

text \<open>
  \<^verbatim>\<open>AccountAutocompleteDialog\<close>. What is typed, with the time it is typed at, passes a filter on its
  length and then settles when nothing else passes for 300 ms.
\<close>

fun debounced :: "nat \<Rightarrow> (nat \<times> 'a) list \<Rightarrow> (nat \<times> 'a) list" where
  "debounced d [] = []"
| "debounced d [(t, x)] = [(t + d, x)]"
| "debounced d ((t, x) # (t', y) # xs) =
     (if t + d \<le> t' then (t + d, x) # debounced d ((t', y) # xs) else debounced d ((t', y) # xs))"

definition searched :: "(nat \<times> string) list \<Rightarrow> (nat \<times> string) list" where
  "searched inputs = debounced 300 (filter (\<lambda>(t, s). 3 \<le> length s) inputs)"

record account_search =
  as_input :: string
  as_popover :: bool
  as_options :: "js list"
  as_calls :: "call list"
  as_emitted :: "js list"

datatype search_event = AccountTyped string | SearchSettled string | AccountsFound js | AccountClicked js

definition search_init :: account_search where
  "search_init = \<lparr>as_input = [], as_popover = False, as_options = [], as_calls = [], as_emitted = []\<rparr>"

fun search_step :: "search_event \<Rightarrow> account_search \<Rightarrow> account_search" where
  "search_step (AccountTyped s) st = st\<lparr>as_input := s\<rparr>"
| "search_step (SearchSettled s) st =
     st\<lparr>as_options := [], as_calls := as_calls st @ [call listAccount [(''identity'', Arr [Str s])]]\<rparr>"
| "search_step (AccountsFound body) st =
     st\<lparr>as_popover := True, as_options := elements_of (member body ''data'')\<rparr>"
| "search_step (AccountClicked u) st = st\<lparr>as_emitted := as_emitted st @ [member u ''accountID'']\<rparr>"

section \<open>Robots\<close>

definition list_robots_call :: "string \<Rightarrow> call" where
  "list_robots_call g = call listGroupRobot [(''groupName'', Str g), (''size'', Num (-1))]"

definition add_robot_call :: "string \<Rightarrow> js \<Rightarrow> call" where
  "add_robot_call g values = call createGroupRobot [(''groupName'', Str g), (''body'', values)]"

definition refresh_token_call :: "string \<Rightarrow> js \<Rightarrow> call" where
  "refresh_token_call g robotID =
     call refreshGroupRobotToken
       [(''groupName'', Str g), (''robotID'', robotID),
        (''body'', Obj [(''roleType'', Str ''MEMBER''), (''expiresIn'', Num (30 * 24 * 60 * 60))])]"

definition robot_rows :: "js \<Rightarrow> (js \<times> js \<times> js) list" where
  "robot_rows body =
     map (\<lambda>r. (member r ''accountID'', member r ''name'', member r ''updatedAt'')) (elements_of (member body ''data''))"

text \<open>The token last answered, shown in a dialog and copied by a click.\<close>

record robot_token =
  rt_token :: js
  rt_dialog :: dialog
  rt_calls :: "call list"
  rt_copied :: "string list"

datatype token_event = TokenRequested | TokenAnswered js | TokenClicked | TokenDialog dialog_event

definition token_shown :: "robot_token \<Rightarrow> string" where
  "token_shown st = to_str (coalesce (member (rt_token st) ''access_token'') (Str []))"

fun token_step :: "string \<Rightarrow> js \<Rightarrow> token_event \<Rightarrow> robot_token \<Rightarrow> robot_token" where
  "token_step g robotID TokenRequested st = st\<lparr>rt_calls := rt_calls st @ [refresh_token_call g robotID]\<rparr>"
| "token_step g robotID (TokenAnswered body) st = st\<lparr>rt_token := body, rt_dialog := set_open True (rt_dialog st)\<rparr>"
| "token_step g robotID TokenClicked st =
     (if children_shown (rt_dialog st) then st\<lparr>rt_copied := rt_copied st @ [token_shown st]\<rparr> else st)"
| "token_step g robotID (TokenDialog e) st = st\<lparr>rt_dialog := dialog_page e (dialog_handle e (rt_dialog st))\<rparr>"

section \<open>Groups\<close>

text \<open>\<^verbatim>\<open>GroupContext\<close>: the group, known by its name at first, and who may do what in it.\<close>

definition group_init :: "string \<Rightarrow> js" where
  "group_init groupName = Obj [(''name'', Str groupName)]"

datatype group_event = GroupNamed string | GroupLoaded js

fun group_step :: "group_event \<Rightarrow> js \<times> call list \<Rightarrow> js \<times> call list" where
  "group_step (GroupNamed groupName) (g, cs) = (g, cs @ [call getGroup [(''groupName'', Str groupName)]])"
| "group_step (GroupLoaded body) (g, cs) = (body, cs)"

definition group_can_access :: "lodash \<Rightarrow> js \<Rightarrow> string \<Rightarrow> js \<Rightarrow> expr_error + bool" where
  "group_can_access L grp operationID user =
     createCanAccess L (Some (to_str (member grp ''groupID''))) operationID user"

definition group_title :: "js \<Rightarrow> js \<times> js" where
  "group_title grp = (member grp ''name'', member grp ''desc'')"

text \<open>\<^verbatim>\<open>GroupCardList\<close>, \<^verbatim>\<open>GroupCardListForAdmin\<close>: the groups of each type, in the order of the types.\<close>

definition group_types :: "string list" where
  "group_types = [''DEVELOP'', ''DEPLOYMENT'']"

record group_card =
  gc_key :: js
  gc_type :: js
  gc_link :: string
  gc_heading :: js
  gc_info :: js

definition group_card_of :: "js \<Rightarrow> group_card" where
  "group_card_of grp =
     \<lparr>gc_key = member grp ''groupID'', gc_type = member grp ''type'',
      gc_link = ''/groups/'' @ to_str (member grp ''name''),
      gc_heading = member grp ''name'', gc_info = member grp ''desc''\<rparr>"

definition group_cards :: "js \<Rightarrow> (string \<times> group_card list) list" where
  "group_cards body =
     map (\<lambda>ty. (ty, map group_card_of (filter (\<lambda>g. loose_eq (member g ''type'') (Str ty)) (elements_of body)))) group_types"

text \<open>A card of the administrators' list: what was passed or saved last, nothing once deleted.\<close>

datatype card_event = GroupPassed js | GroupUpdated js | GroupDeleted

fun card_step :: "card_event \<Rightarrow> js \<Rightarrow> js" where
  "card_step (GroupPassed g) cur = g"
| "card_step (GroupUpdated g) cur = g"
| "card_step GroupDeleted cur = Null"

definition put_group_call :: "js \<Rightarrow> call" where
  "put_group_call values =
     call putGroup [(''groupName'', member values ''name''), (''body'', Obj (AList.delete ''name'' (own_props values)))]"

definition delete_group_call :: "string \<Rightarrow> call" where
  "delete_group_call groupName = call deleteGroup [(''groupName'', Str groupName)]"

text \<open>\<^verbatim>\<open>REGEX_ID.test(s)\<close>: the expression is not anchored, so a part of the text is enough.\<close>

definition id_start :: "char \<Rightarrow> bool" where
  "id_start c = (c \<in> set ''abcdefghijklmnopqrstuvwxyz'')"

definition id_char :: "char \<Rightarrow> bool" where
  "id_char c = (id_start c \<or> is_digit c \<or> c = CHR ''-'')"

fun matches_id :: "string \<Rightarrow> bool" where
  "matches_id (a # b # s) = ((id_start a \<and> id_char b) \<or> matches_id (b # s))"
| "matches_id s = False"

text \<open>What its message says.\<close>

definition valid_id :: "string \<Rightarrow> bool" where
  "valid_id s = (s \<noteq> [] \<and> id_start (hd s) \<and> list_all id_char s)"

section \<open>A control that is not allowed sends nothing\<close>

lemma disabled_menu_closed:
  assumes "\<not> menu_open m"
  shows "menu_handle True TriggerClicked m = m" and "\<not> menu_open (menu_handle True ClickedOutside m)"
    and "\<not> menu_open (menu_handle True (MenuProp None) m)"
  using assms by simp_all

text \<open>The control passes the menu no state of its own, so a disabled one never opens.\<close>

fun uncontrolled :: "role_event \<Rightarrow> bool" where
  "uncontrolled (RoleMenu (MenuProp p)) = (p = None)"
| "uncontrolled _ = True"

definition quiet :: "role_control \<Rightarrow> bool" where
  "quiet st \<longleftrightarrow> \<not> menu_open (rc_menu st) \<and> rc_calls st = []"

lemma quiet_step:
  assumes "quiet st" and "uncontrolled e" and "r \<noteq> RenderChildren"
  shows "quiet (role_step t r e st)"
proof (cases e)
  case (RoleMenu m)
  then show ?thesis
    using assms by (cases r; cases m) (auto simp: quiet_def on_menu_def Let_def disabled_menu_closed split: option.splits)
qed (use assms in \<open>auto simp: quiet_def menu_init_def\<close>)

text \<open>
  C33. When the permissions do not open the operation that sets a role, the control is shown
  disabled, and whatever is clicked no role is requested and nobody removed.
\<close>

theorem role_control_needs_access:
  assumes "createCanAccess L g (op_id (role_operation t)) current = Inr False"
    and "list_all uncontrolled es"
  shows "\<exists>r. renderAccessControl L g (op_id (role_operation t)) True current = Inr r \<and>
    r = RenderDisabled \<and> rc_calls (role_run t r es user) = []"
proof -
  have "quiet (role_run t RenderDisabled es user)"
    using assms(2)
  proof (induction es rule: rev_induct)
    case Nil
    show ?case by (simp add: role_run_def quiet_def role_init_def menu_init_def)
  next
    case (snoc e es)
    then show ?case by (simp add: role_run_def quiet_step)
  qed
  then show ?thesis using assms(1) by (simp add: renderAccessControl_def quiet_def)
qed

definition demo_member :: js where
  "demo_member = Obj [(''accountID'', Num 7), (''roleType'', Str ''MEMBER'')]"

definition demo_clicks :: "role_event list" where
  "demo_clicks = [RoleMenu TriggerClicked, RoleMenu (ItemClicked [None, Some ''ADMIN''])]"

theorem role_control_needs_access_witness:
  "rc_calls (role_run (InGroup ''g'') RenderDisabled demo_clicks demo_member) = [] \<and>
   rc_calls (role_run (InGroup ''g'') RenderChildren demo_clicks demo_member) =
     [put_role_call (InGroup ''g'') (Num 7) (Str ''ADMIN'')]"
proof
  have a: "createCanAccess lodash_ref None (op_id (role_operation (InGroup ''g''))) (Obj []) = Inr False"
    by (simp add: createCanAccess_def obj_get_def)
  have u: "list_all uncontrolled demo_clicks" by (simp add: demo_clicks_def)
  show "rc_calls (role_run (InGroup ''g'') RenderDisabled demo_clicks demo_member) = []"
    using role_control_needs_access[OF a u, of demo_member] by auto
  show "rc_calls (role_run (InGroup ''g'') RenderChildren demo_clicks demo_member) =
      [put_role_call (InGroup ''g'') (Num 7) (Str ''ADMIN'')]"
    by (simp add: demo_clicks_def demo_member_def role_run_def role_init_def menu_init_def on_menu_def
        Let_def set_menu_def on_role_selected_def obj_get_def)
qed

section \<open>What a control that is allowed sends\<close>

definition item_event :: "role_event \<Rightarrow> bool" where
  "item_event e \<longleftrightarrow>
     (case e of RoleMenu (ItemClicked targets) \<Rightarrow>
        (case first_value targets of None \<Rightarrow> True | Some v \<Rightarrow> v \<in> fst ` set (role_items Undef))
      | _ \<Rightarrow> True)"

definition role_call_ok :: "membership \<Rightarrow> call \<Rightarrow> bool" where
  "role_call_ok t c \<longleftrightarrow>
     proper_call c \<and>
     ((\<exists>a v. v \<in> {''OWNER'', ''ADMIN'', ''MEMBER''} \<and> c = put_role_call t a (Str v)) \<or>
      (\<exists>a. c = remove_member_call t a))"

lemma member_calls_proper:
  "proper_call (put_role_call t a v)" "proper_call (remove_member_call t a)" "proper_call (list_members_call t)"
  by (cases t; simp add: put_role_call_def remove_member_call_def list_members_call_def; rule proper_callI; simp add: call_simps)+

lemma role_item_values: "fst ` set (role_items x) = {''OWNER'', ''ADMIN'', ''MEMBER'', ''-''}"
  by (auto simp: role_items_def GroupRoleType_def)

lemma role_call_ok_put:
  "v \<in> {''OWNER'', ''ADMIN'', ''MEMBER''} \<Longrightarrow> role_call_ok t (put_role_call t a (Str v))"
  unfolding role_call_ok_def using member_calls_proper(1) by blast

lemma role_call_ok_remove: "role_call_ok t (remove_member_call t a)"
  unfolding role_call_ok_def using member_calls_proper(2) by blast

lemma on_role_selected_ok:
  assumes "list_all (role_call_ok t) (rc_calls st)" and "v \<in> {''OWNER'', ''ADMIN'', ''MEMBER'', ''-''}"
  shows "list_all (role_call_ok t) (rc_calls (on_role_selected t v st))"
  using assms by (auto simp: on_role_selected_def intro: role_call_ok_put role_call_ok_remove)

lemma role_step_ok:
  assumes "list_all (role_call_ok t) (rc_calls st)" and "item_event e"
  shows "list_all (role_call_ok t) (rc_calls (role_step t r e st))"
proof (cases "(t, r, e, st)" rule: role_step.cases)
  case (4 t r m st)
  then show ?thesis
  proof (cases m)
    case (ItemClicked targets)
    have "first_value targets = Some v \<Longrightarrow> v \<in> {''OWNER'', ''ADMIN'', ''MEMBER'', ''-''}" for v
      using assms(2) 4 ItemClicked role_item_values[of Undef] by (simp add: item_event_def)
    then show ?thesis
      using assms(1) 4 ItemClicked
      by (auto simp: on_menu_def Let_def split: option.splits intro!: on_role_selected_ok)
  qed (use assms 4 in \<open>auto simp: on_menu_def Let_def\<close>)
qed (use assms in auto)

text \<open>
  A control whose clicks are on its own items only requests one of the three roles, never that of
  a guest, or the removal of the member, and each as the client admits.
\<close>

lemma role_requests_sound:
  assumes "list_all item_event es"
  shows "list_all (role_call_ok t) (rc_calls (role_run t r es user))"
  using assms
proof (induction es rule: rev_induct)
  case Nil
  show ?case by (simp add: role_run_def role_init_def)
next
  case (snoc e es)
  then show ?case using role_step_ok[of t "role_run t r es user" e r] by (simp add: role_run_def)
qed

text \<open>The role a member already has is not requested again, and an answer is shown.\<close>

lemma same_role_not_requested:
  assumes "v \<noteq> ''-''" and "member (rc_user st) ''roleType'' = Str v"
  shows "on_role_selected t v st = st"
  using assms by (simp add: on_role_selected_def)

lemma updated_user_get:
  assumes "is_plain_object user"
  shows "member (updated_user user body) k =
    (if k = ''roleType'' then member body k else if k = ''updatedAt'' then member body k else member user k)"
  using assms by (cases user) (simp_all add: updated_user_def spread_def assoc_simps)

text \<open>
  The removal is guarded by the permission to set a role, not by the one to delete: it is sent
  whatever the permissions say of it.
\<close>

lemma removal_unguarded:
  assumes "truthy user"
  shows "rc_calls (role_run t RenderChildren [RoleMenu TriggerClicked, RoleMenu (ItemClicked [Some ''-''])] user) =
    [remove_member_call t (member user ''accountID'')]"
  using assms
  by (simp add: role_run_def role_init_def menu_init_def on_menu_def Let_def set_menu_def on_role_selected_def)

section \<open>Searching\<close>

text \<open>Only texts of at least three characters are searched for, each some 300 ms after it was typed.\<close>

lemma set_debounced: "set (debounced d xs) \<subseteq> (\<lambda>(t, x). (t + d, x)) ` set xs"
  by (induction d xs rule: debounced.induct) auto

lemma searched_long: "(t, s) \<in> set (searched inputs) \<Longrightarrow> 3 \<le> length s \<and> (\<exists>t'. (t', s) \<in> set inputs \<and> t = t' + 300)"
  unfolding searched_def using set_debounced[of 300 "filter (\<lambda>(t, s). 3 \<le> length s) inputs"] by fastforce

lemma last_debounced: "xs \<noteq> [] \<Longrightarrow> last (debounced d xs) = (fst (last xs) + d, snd (last xs)) \<and> debounced d xs \<noteq> []"
  by (induction d xs rule: debounced.induct) auto

text \<open>
  The filter is before the pause: a text that is cut to less than three characters is searched for
  all the same, and its results are shown for the shorter one.
\<close>

lemma cut_text_searched: "searched [(0, ''abc''), (100, ''ab'')] = [(300, ''abc'')]"
  by (simp add: searched_def)

section \<open>Groups\<close>

text \<open>Cards are in the section of their type, and a group of another type is in none.\<close>

lemma group_in_section:
  assumes "g \<in> set (elements_of body)" and "member g ''type'' = Str ty" and "ty \<in> set group_types"
  shows "\<exists>cards. (ty, cards) \<in> set (group_cards body) \<and> group_card_of g \<in> set cards"
proof -
  define cards where "cards = map group_card_of (filter (\<lambda>g. loose_eq (member g ''type'') (Str ty)) (elements_of body))"
  have "(ty, cards) \<in> set (group_cards body)" using assms(3) by (auto simp: group_cards_def cards_def)
  moreover have "loose_eq (member g ''type'') (Str ty)" using assms(2) by (simp add: loose_eq_def nullish_def)
  then have "group_card_of g \<in> set cards" using assms(1) by (auto simp: cards_def)
  ultimately show ?thesis by blast
qed

lemma sections: "map fst (group_cards body) = group_types"
  by (simp add: group_cards_def o_def)

text \<open>Until the group is loaded its roles do not count: the group's id is read as \<^verbatim>\<open>"undefined"\<close>.\<close>

lemma group_roles_need_group:
  "group_can_access L (group_init n) op user = createCanAccess L (Some ''undefined'') op user"
  by (simp add: group_can_access_def group_init_def obj_get_def)

text \<open>The name the message describes matches when it is long enough, but so do others.\<close>

lemma valid_id_matches: "valid_id s \<Longrightarrow> 2 \<le> length s \<Longrightarrow> matches_id s"
  by (cases s rule: matches_id.cases) (auto simp: valid_id_def)

lemma invalid_id_matches: "matches_id ''No such-Name'' \<and> \<not> valid_id ''No such-Name''"
  by code_simp

lemma single_letter_rejected: "valid_id ''a'' \<and> \<not> matches_id ''a''"
  by code_simp

end
