(* ===== verification/Group_Env.thy ===== *)
theory Group_Env
  imports Form_Controls
begin

text \<open>
  \<^verbatim>\<open>webapp/dashboard/mod/groupenv\<close>: the environments of a group. \<^verbatim>\<open>GroupEnvContext.tsx\<close> keeps them
  under their names, \<^verbatim>\<open>GroupEnvList.tsx\<close> and \<^verbatim>\<open>GroupEnvCluster.tsx\<close> show them and, through the actions
  of \<^verbatim>\<open>actions/\<close>, request and then record what becomes of them.
\<close>

section \<open>The environments of a group\<close>

record group_env_data =
  ge_groupName :: string
  ge_envs :: obj

text \<open>\<^verbatim>\<open>GroupEnvSubject\<close>.\<close>

definition ge_put :: "string \<Rightarrow> js \<Rightarrow> group_env_data \<Rightarrow> group_env_data" where
  "ge_put envName e st = st\<lparr>ge_envs := AList.update envName e (ge_envs st)\<rparr>"

definition ge_del :: "string \<Rightarrow> group_env_data \<Rightarrow> group_env_data" where
  "ge_del envName st = st\<lparr>ge_envs := AList.delete envName (ge_envs st)\<rparr>"

definition ge_bindCluster :: "string \<Rightarrow> js \<Rightarrow> js \<Rightarrow> group_env_data \<Rightarrow> group_env_data" where
  "ge_bindCluster envName cluster namespace st =
     (let env = obj_get (ge_envs st) envName in
      if truthy env
      then ge_put envName (assign (assign env ''cluster'' cluster) ''namespace'' namespace) st
      else st)"

definition ge_unbindCluster :: "string \<Rightarrow> group_env_data \<Rightarrow> group_env_data" where
  "ge_unbindCluster envName st =
     (let env = obj_get (ge_envs st) envName in
      if truthy env then ge_put envName (assign env ''cluster'' Undef) st else st)"

definition ge_init :: "string \<Rightarrow> group_env_data" where
  "ge_init groupName = \<lparr>ge_groupName = groupName, ge_envs = []\<rparr>"

definition env_name :: "js \<Rightarrow> string" where
  "env_name env = to_str (member env ''envName'')"

text \<open>The environments of an answer under their names, a later one over an earlier one.\<close>

definition envs_of :: "js list \<Rightarrow> obj" where
  "envs_of body = foldl (\<lambda>r env. spread r [(env_name env, env)]) [] body"

section \<open>Requests\<close>

definition list_envs_call :: "string \<Rightarrow> call" where
  "list_envs_call groupName = call listGroupEnv [(''groupName'', Str groupName)]"

text \<open>\<^verbatim>\<open>useGroupEnvPut\<close>: \<^verbatim>\<open>({ envName, ...body })\<close>.\<close>

definition put_env_call :: "string \<Rightarrow> js \<Rightarrow> call" where
  "put_env_call groupName values =
     call putGroupEnv
       [(''groupName'', Str groupName), (''envName'', member values ''envName''),
        (''body'', Obj (AList.delete ''envName'' (own_props values)))]"

definition delete_env_call :: "string \<Rightarrow> string \<Rightarrow> call" where
  "delete_env_call groupName envName =
     call deleteGroupEnv [(''groupName'', Str groupName), (''envName'', Str envName)]"

definition bind_call :: "string \<Rightarrow> string \<Rightarrow> js \<Rightarrow> call" where
  "bind_call groupName envName clusterID =
     call bindGroupEnvCluster
       [(''groupName'', Str groupName), (''envName'', Str envName), (''clusterID'', clusterID)]"

definition unbind_call :: "string \<Rightarrow> string \<Rightarrow> js \<Rightarrow> call" where
  "unbind_call groupName envName cluster =
     call unbindGroupEnvCluster
       [(''groupName'', Str groupName), (''envName'', Str envName), (''clusterID'', member cluster ''clusterID'')]"

definition delete_deployment_call :: "string \<Rightarrow> string \<Rightarrow> string \<Rightarrow> call" where
  "delete_deployment_call groupName envName deploymentName =
     call deleteGroupEnvDeployment
       [(''groupName'', Str groupName), (''envName'', Str envName), (''deploymentName'', Str deploymentName)]"

section \<open>The answers\<close>

text \<open>
  What the components record: the list with the group it was asked for, the environment an edit
  or a creation answers with, the name a deletion was asked for, the body a binding answers with
  for the environment shown, and an unbinding of it.
\<close>

datatype env_event =
    EnvsLoaded string "js list"
  | DidPutEnv js
  | DidDeleteEnv string
  | DidBind string js
  | DidUnbind string

text \<open>\<^verbatim>\<open>emit("did-bind", resp.body?.cluster, resp.body?.namespace)\<close> and its handler.\<close>

definition on_did_bind :: "string \<Rightarrow> js \<Rightarrow> js \<Rightarrow> group_env_data \<Rightarrow> group_env_data" where
  "on_did_bind envName cluster namespace st =
     (if truthy cluster
      then ge_bindCluster envName cluster (if truthy namespace then namespace else Str envName) st
      else st)"

fun env_step :: "env_event \<Rightarrow> group_env_data \<Rightarrow> group_env_data" where
  "env_step (EnvsLoaded groupName body) st = \<lparr>ge_groupName = groupName, ge_envs = envs_of body\<rparr>"
| "env_step (DidPutEnv e) st = ge_put (env_name e) e st"
| "env_step (DidDeleteEnv envName) st = ge_del envName st"
| "env_step (DidBind envName body) st =
     on_did_bind envName (member body ''cluster'') (member body ''namespace'') st"
| "env_step (DidUnbind envName) st = ge_unbindCluster envName st"

definition env_run :: "string \<Rightarrow> env_event list \<Rightarrow> group_env_data" where
  "env_run groupName es = fold env_step es (ge_init groupName)"

section \<open>What is shown\<close>

datatype cluster_view =
    NoEnvironment
  | BoundCluster string call
  | UnboundCluster "js \<Rightarrow> call"

text \<open>\<^verbatim>\<open>GroupEnvCluster\<close>: the cluster with the request its button makes, or the button to bind one.\<close>

definition group_env_cluster :: "string \<Rightarrow> group_env_data \<Rightarrow> cluster_view" where
  "group_env_cluster envName st =
     (let env = obj_get (ge_envs st) envName in
      if \<not> truthy env then NoEnvironment
      else if truthy (member env ''cluster'')
      then BoundCluster (to_str (member env ''namespace'') @ ''.'' @ to_str (member (member env ''cluster'') ''name''))
             (unbind_call (ge_groupName st) (env_name env) (member env ''cluster''))
      else UnboundCluster (bind_call (ge_groupName st) (env_name env)))"

record env_row =
  er_key :: js
  er_link :: string
  er_name :: js
  er_type :: js
  er_desc :: js

definition env_rows :: "group_env_data \<Rightarrow> env_row list" where
  "env_rows st =
     map (\<lambda>(k, env).
       \<lparr>er_key = member env ''envID'',
        er_link = ''/groups/'' @ ge_groupName st @ ''/envs/'' @ env_name env,
        er_name = member env ''envName'', er_type = member env ''envType'', er_desc = member env ''desc''\<rparr>)
       (ge_envs st)"

text \<open>\<^verbatim>\<open>GroupEnvMenu\<close>: the links of the navigation.\<close>

definition env_menu :: "group_env_data \<Rightarrow> (js \<times> string \<times> js \<times> js) list" where
  "env_menu st =
     map (\<lambda>(k, env).
       (member env ''envID'', ''/groups/'' @ ge_groupName st @ ''/envs/'' @ env_name env,
        member env ''envName'', member env ''desc'')) (ge_envs st)"

section \<open>Lemmas\<close>

lemma env_menu_rows: "map (\<lambda>r. (er_key r, er_link r, er_name r, er_desc r)) (env_rows st) = env_menu st"
  by (simp add: env_rows_def env_menu_def split_beta)

lemma obj_get_without [simp]: "obj_get (AList.delete k kvs) k' = (if k = k' then Undef else obj_get kvs k')"
  by (simp add: obj_get_def delete_conv')

lemma ge_put_get [simp]: "obj_get (ge_envs (ge_put n e st)) k = (if n = k then e else obj_get (ge_envs st) k)"
  by (auto simp: ge_put_def assoc_simps)

lemma ge_group_put [simp]: "ge_groupName (ge_put n e st) = ge_groupName st"
  by (simp add: ge_put_def)

lemma envs_of_snoc [simp]: "envs_of (body @ [env]) = AList.update (env_name env) env (envs_of body)"
  by (simp add: envs_of_def spread_def)

lemma envs_of_get: "obj_get (envs_of body) n = (case rev (filter (\<lambda>e. env_name e = n) body) of [] \<Rightarrow> Undef | e # _ \<Rightarrow> e)"
proof (induction body rule: rev_induct)
  case Nil
  show ?case by (simp add: envs_of_def obj_get_def)
qed (auto simp: assoc_simps split: list.splits)

subsection \<open>Environments under their names\<close>

definition env_ok :: "string \<times> js \<Rightarrow> bool" where
  "env_ok p \<longleftrightarrow> is_plain_object (snd p) \<and> env_name (snd p) = fst p"

definition envs_ok :: "group_env_data \<Rightarrow> bool" where
  "envs_ok st \<longleftrightarrow> distinct (map fst (ge_envs st)) \<and> list_all env_ok (ge_envs st)"

fun event_ok :: "env_event \<Rightarrow> bool" where
  "event_ok (EnvsLoaded g body) = list_all is_plain_object body"
| "event_ok (DidPutEnv e) = is_plain_object e"
| "event_ok _ = True"

lemma env_ok_update:
  assumes "list_all env_ok kvs" and "env_ok (k, e)"
  shows "list_all env_ok (AList.update k e kvs)"
  using assms by (induction kvs) auto

lemma env_ok_delete: "list_all env_ok kvs \<Longrightarrow> list_all env_ok (AList.delete k kvs)"
  by (induction kvs) auto

lemma envs_ok_put: "envs_ok st \<Longrightarrow> env_ok (k, e) \<Longrightarrow> envs_ok (ge_put k e st)"
  by (simp add: envs_ok_def ge_put_def distinct_update env_ok_update)

lemma env_ok_at: "envs_ok st \<Longrightarrow> truthy (obj_get (ge_envs st) k) \<Longrightarrow> env_ok (k, obj_get (ge_envs st) k)"
  by (auto simp: envs_ok_def obj_get_def list_all_iff split: option.splits dest: map_of_SomeD)

lemma env_ok_assign:
  assumes "env_ok (k, e)" and "f \<noteq> ''envName''"
  shows "env_ok (k, assign e f v)"
  using assms by (cases e) (auto simp: env_ok_def env_name_def assoc_simps)

lemma envs_ok_step:
  assumes "envs_ok st" and "event_ok e"
  shows "envs_ok (env_step e st)"
proof (cases e)
  case (EnvsLoaded g body)
  have "distinct (map fst (envs_of body)) \<and> list_all env_ok (envs_of body)"
    using assms(2) unfolding EnvsLoaded
    by (induction body rule: rev_induct) (auto simp: envs_of_def[of "[]"] distinct_update env_ok_def intro!: env_ok_update)
  then show ?thesis using EnvsLoaded by (simp add: envs_ok_def)
next
  case (DidPutEnv env)
  then show ?thesis using assms by (simp add: envs_ok_put env_ok_def)
next
  case (DidDeleteEnv n)
  then show ?thesis
    using assms(1) by (simp add: envs_ok_def ge_del_def distinct_delete env_ok_delete)
next
  case (DidBind n body)
  then show ?thesis
    using assms(1) by (auto simp: on_did_bind_def ge_bindCluster_def Let_def intro!: envs_ok_put env_ok_assign env_ok_at)
next
  case (DidUnbind n)
  then show ?thesis
    using assms(1) by (auto simp: ge_unbindCluster_def Let_def intro!: envs_ok_put env_ok_assign env_ok_at)
qed

lemma envs_ok_run:
  assumes "list_all event_ok es"
  shows "envs_ok (env_run groupName es)"
  using assms
  by (induction es rule: rev_induct) (auto simp: env_run_def ge_init_def envs_ok_def[of "\<lparr>ge_groupName = _, ge_envs = []\<rparr>"] intro: envs_ok_step)

subsection \<open>What the environments amount to\<close>

text \<open>
  The contract: which environments there are, and to which cluster and namespace each is bound.
  An environment is only bound or released when it is there, and a binding without a namespace
  takes the name of the environment.
\<close>

datatype binding = Unbound | Bound js js

type_synonym bindings = "string \<Rightarrow> binding option"

definition binding_of :: "js \<Rightarrow> binding" where
  "binding_of env =
     (if truthy (member env ''cluster'') then Bound (member env ''cluster'') (member env ''namespace'') else Unbound)"

definition rebind :: "string \<Rightarrow> binding \<Rightarrow> bindings \<Rightarrow> bindings" where
  "rebind n b m = (if m n = None then m else m(n \<mapsto> b))"

fun bindings_step :: "env_event \<Rightarrow> bindings \<Rightarrow> bindings" where
  "bindings_step (EnvsLoaded g body) m = map_of (rev (map (\<lambda>e. (env_name e, binding_of e)) body))"
| "bindings_step (DidPutEnv e) m = m(env_name e \<mapsto> binding_of e)"
| "bindings_step (DidDeleteEnv n) m = m(n := None)"
| "bindings_step (DidBind n body) m =
     (let c = member body ''cluster''; ns = member body ''namespace'' in
      if truthy c then rebind n (Bound c (if truthy ns then ns else Str n)) m else m)"
| "bindings_step (DidUnbind n) m = rebind n Unbound m"

definition bindings :: "group_env_data \<Rightarrow> bindings" where
  "bindings st n =
     (let env = obj_get (ge_envs st) n in if truthy env then Some (binding_of env) else None)"

definition view_of_binding :: "string \<Rightarrow> string \<Rightarrow> binding option \<Rightarrow> cluster_view" where
  "view_of_binding g n b =
     (case b of
        None \<Rightarrow> NoEnvironment
      | Some Unbound \<Rightarrow> UnboundCluster (bind_call g n)
      | Some (Bound c ns) \<Rightarrow> BoundCluster (to_str ns @ ''.'' @ to_str (member c ''name'')) (unbind_call g n c))"

lemma plain_truthy: "is_plain_object e \<Longrightarrow> truthy e"
  by (cases e) simp_all

lemma member_assign [simp]:
  "is_plain_object e \<Longrightarrow> member (assign e f v) k = (if k = f then v else member e k)"
  "is_plain_object e \<Longrightarrow> is_plain_object (assign e f v)"
  by (cases e; simp add: assoc_simps)+

lemma envs_of_truthy:
  assumes "list_all is_plain_object body"
  shows "bindings \<lparr>ge_groupName = g, ge_envs = envs_of body\<rparr> = map_of (rev (map (\<lambda>e. (env_name e, binding_of e)) body))"
  using assms
proof (induction body rule: rev_induct)
  case Nil
  show ?case by (simp add: bindings_def envs_of_def obj_get_def fun_eq_iff)
next
  case (snoc e body)
  then have "map_of (rev (map (\<lambda>e. (env_name e, binding_of e)) body)) n =
      bindings \<lparr>ge_groupName = g, ge_envs = envs_of body\<rparr> n" for n by simp
  then show ?case using snoc.prems by (auto simp: bindings_def fun_eq_iff Let_def plain_truthy assoc_simps)
qed

lemma bindings_put: "is_plain_object e \<Longrightarrow> bindings (ge_put n e st) = (bindings st)(n \<mapsto> binding_of e)"
  by (auto simp: bindings_def fun_eq_iff Let_def plain_truthy)

lemma bindings_at:
  assumes "envs_ok st" and "bindings st n = Some b"
  shows "is_plain_object (obj_get (ge_envs st) n)" and "truthy (obj_get (ge_envs st) n)"
    and "env_name (obj_get (ge_envs st) n) = n" and "binding_of (obj_get (ge_envs st) n) = b"
  using assms env_ok_at[OF assms(1), of n] by (auto simp: bindings_def Let_def env_ok_def split: if_splits)

lemma bindings_step_refines:
  assumes "envs_ok st" and "event_ok e"
  shows "bindings (env_step e st) = bindings_step e (bindings st)"
proof (cases e)
  case (EnvsLoaded g body)
  then show ?thesis using assms(2) by (simp add: envs_of_truthy)
next
  case (DidPutEnv env)
  then show ?thesis using assms(2) by (simp add: bindings_put)
next
  case (DidDeleteEnv n)
  then show ?thesis by (auto simp: bindings_def ge_del_def fun_eq_iff Let_def)
next
  case (DidBind n body)
  show ?thesis
  proof (cases "bindings st n")
    case None
    then have "\<not> truthy (obj_get (ge_envs st) n)" by (auto simp: bindings_def Let_def split: if_splits)
    then show ?thesis using DidBind None by (simp add: on_did_bind_def ge_bindCluster_def rebind_def Let_def)
  next
    case (Some b)
    note at = bindings_at[OF assms(1) Some]
    show ?thesis
      using DidBind Some at
      by (simp add: on_did_bind_def ge_bindCluster_def rebind_def Let_def bindings_put binding_of_def)
  qed
next
  case (DidUnbind n)
  show ?thesis
  proof (cases "bindings st n")
    case None
    then have "\<not> truthy (obj_get (ge_envs st) n)" by (auto simp: bindings_def Let_def split: if_splits)
    then show ?thesis using DidUnbind None by (simp add: ge_unbindCluster_def rebind_def Let_def)
  next
    case (Some b)
    note at = bindings_at[OF assms(1) Some]
    show ?thesis
      using DidUnbind Some at by (simp add: ge_unbindCluster_def rebind_def Let_def bindings_put binding_of_def)
  qed
qed

lemma view_of_bindings:
  assumes "envs_ok st"
  shows "group_env_cluster n st = view_of_binding (ge_groupName st) n (bindings st n)"
proof (cases "bindings st n")
  case None
  then show ?thesis by (auto simp: group_env_cluster_def view_of_binding_def bindings_def Let_def split: if_splits)
next
  case (Some b)
  note at = bindings_at[OF assms Some]
  show ?thesis
    using Some at by (auto simp: group_env_cluster_def view_of_binding_def Let_def binding_of_def split: binding.splits if_splits)
qed

text \<open>
  C32. After any history of lists, edits, deletions, bindings and releases the environments are
  bound as the contract says, and what is shown of an environment, with the request behind its
  button, is its own binding.
\<close>

theorem environments_refine:
  assumes "list_all event_ok es"
  shows "bindings (env_run g es) = fold bindings_step es (\<lambda>n. None) \<and>
    group_env_cluster n (env_run g es) =
      view_of_binding (ge_groupName (env_run g es)) n (fold bindings_step es (\<lambda>n. None) n)"
proof -
  have "bindings (env_run g es) = fold bindings_step es (\<lambda>n. None)"
    using assms
  proof (induction es rule: rev_induct)
    case Nil
    show ?case by (simp add: env_run_def ge_init_def bindings_def obj_get_def fun_eq_iff)
  next
    case (snoc e es)
    then show ?case
      using bindings_step_refines[OF envs_ok_run[of es g], of e] by (simp add: env_run_def)
  qed
  then show ?thesis using view_of_bindings[OF envs_ok_run[OF assms]] by simp
qed

definition demo_env :: "string \<Rightarrow> js" where
  "demo_env n = Obj [(''envID'', Str (''id-'' @ n)), (''envName'', Str n)]"

definition demo_bound :: js where
  "demo_bound = Obj [(''cluster'', Obj [(''clusterID'', Num 7), (''name'', Str ''c'')]), (''namespace'', Undef)]"

theorem environments_refine_witness:
  "group_env_cluster ''dev''
     (env_run ''g'' [EnvsLoaded ''g'' [demo_env ''dev'', demo_env ''rc''], DidBind ''dev'' demo_bound, DidDeleteEnv ''rc'']) =
   BoundCluster ''dev.c'' (unbind_call ''g'' ''dev'' (member demo_bound ''cluster''))"
proof -
  have ok: "list_all event_ok [EnvsLoaded ''g'' [demo_env ''dev'', demo_env ''rc''], DidBind ''dev'' demo_bound, DidDeleteEnv ''rc'']"
    by (simp add: demo_env_def)
  have "ge_groupName (env_run ''g'' [EnvsLoaded ''g'' [demo_env ''dev'', demo_env ''rc''], DidBind ''dev'' demo_bound, DidDeleteEnv ''rc'']) = ''g''"
    by (simp add: env_run_def ge_del_def on_did_bind_def ge_bindCluster_def Let_def)
  then show ?thesis
    using environments_refine[OF ok, of "''g''" "''dev''"]
    by (simp add: rebind_def Let_def demo_env_def demo_bound_def env_name_def obj_get_def view_of_binding_def)
qed

subsection \<open>Requests the client admits\<close>

lemma env_calls_proper:
  "proper_call (list_envs_call g)" "proper_call (put_env_call g values)" "proper_call (delete_env_call g n)"
  "proper_call (bind_call g n c)" "proper_call (unbind_call g n cluster)" "proper_call (delete_deployment_call g n d)"
  unfolding list_envs_call_def put_env_call_def delete_env_call_def bind_call_def unbind_call_def delete_deployment_call_def
  by (rule proper_callI; simp add: call_simps)+

end
