(* ===== verification/Clusters.thy ===== *)
theory Clusters
  imports Form_Controls Lodash_Collections
begin

text \<open>
  \<^verbatim>\<open>webapp/dashboard/mod/cluster\<close>: the list of clusters with their status, the menu an environment
  is bound from, and the actions: saving and renaming a cluster, and the script that deploys its
  agent.
\<close>

section \<open>The list\<close>

record cluster_list =
  cl_rows :: "js list"
  cl_calls :: "call list"

datatype cluster_list_event = ClustersMounted | ClustersLoaded "js list" | ClusterAdded

fun cluster_list_step :: "cluster_list_event \<Rightarrow> cluster_list \<Rightarrow> cluster_list" where
  "cluster_list_step ClustersMounted st = st\<lparr>cl_calls := cl_calls st @ [call listCluster []]\<rparr>"
| "cluster_list_step (ClustersLoaded body) st = st\<lparr>cl_rows := body\<rparr>"
| "cluster_list_step ClusterAdded st = st\<lparr>cl_calls := cl_calls st @ [call listCluster []]\<rparr>"

text \<open>A row: a cluster that is reached directly and has an agent shows its status.\<close>

definition endpoint_of :: "js \<Rightarrow> js" where
  "endpoint_of cluster = member (member cluster ''agentInfo'') ''endpoint''"

definition can_direct :: "js \<Rightarrow> bool" where
  "can_direct cluster \<longleftrightarrow> member cluster ''netType'' = Str ''DIRECT'' \<and> truthy (endpoint_of cluster)"

record cluster_row =
  cw_name :: js
  cw_netType :: js
  cw_status :: bool
  cw_desc :: "js option"
  cw_link :: "js option"

definition cluster_row_of :: "js \<Rightarrow> cluster_row" where
  "cluster_row_of cluster =
     \<lparr>cw_name = member cluster ''name'', cw_netType = member cluster ''netType'', cw_status = can_direct cluster,
      cw_desc = (if truthy (member cluster ''desc'') then Some (member cluster ''desc'') else None),
      cw_link = (if truthy (endpoint_of cluster) then Some (endpoint_of cluster) else None)\<rparr>"

text \<open>
  \<^verbatim>\<open>ClusterStatus\<close>: asks when it is mounted and every ten seconds, and shows the last outcome; a
  failure is shown as an outcome whose ping is a dash.
\<close>

datatype status_event = StatusMounted | StatusTick | StatusAnswered js | StatusFailed

record cluster_status =
  cs_calls :: "call list"
  cs_status :: "js option"

definition status_call :: "js \<Rightarrow> call" where
  "status_call cluster = call getClusterStatus [(''name'', member cluster ''clusterID'')]"

definition no_status :: js where
  "no_status = Obj [(''id'', Str ''-''), (''ping'', Str ''-'')]"

fun status_step :: "js \<Rightarrow> status_event \<Rightarrow> cluster_status \<Rightarrow> cluster_status" where
  "status_step cluster StatusMounted st = st\<lparr>cs_calls := cs_calls st @ [status_call cluster]\<rparr>"
| "status_step cluster StatusTick st = st\<lparr>cs_calls := cs_calls st @ [status_call cluster]\<rparr>"
| "status_step cluster (StatusAnswered body) st = st\<lparr>cs_status := Some body\<rparr>"
| "status_step cluster StatusFailed st = st\<lparr>cs_status := Some no_status\<rparr>"

definition status_text :: "js \<Rightarrow> string \<times> bool" where
  "status_text status =
     ((if nullish (member status ''id'') then [] else to_str (member status ''id'')) @ '' '' @
        (if nullish (member status ''ping'') then [] else to_str (member status ''ping'')),
      member status ''ping'' = Str ''-'')"

section \<open>The menu of clusters\<close>

definition cluster_menu :: "lodash_coll \<Rightarrow> js \<Rightarrow> (js \<times> js \<times> js \<times> js) list" where
  "cluster_menu C body =
     map (\<lambda>c. (member c ''clusterID'', member c ''envType'', member c ''name'', member c ''desc''))
       (lc_order_by C (\<lambda>c. member c ''envType'') (case coalesce body (Arr []) of Arr xs \<Rightarrow> xs | _ \<Rightarrow> []))"

section \<open>Saving and renaming\<close>

definition put_cluster_call :: "js \<Rightarrow> call" where
  "put_cluster_call values =
     call putCluster [(''name'', member values ''name''), (''body'', Obj (AList.delete ''name'' (own_props values)))]"

definition rename_cluster_call :: "js \<Rightarrow> js \<Rightarrow> call" where
  "rename_cluster_call cluster values =
     call renameCluster [(''name'', member cluster ''name''), (''newName'', member values ''name'')]"

text \<open>
  A row with its action to rename: the hook is given the cluster once, when the row is set up;
  the answer is passed on as the row's present cluster with the new name.
\<close>

record rename_row =
  rn_hook :: js
  rn_cluster :: js
  rn_form :: form_action

definition rename_init :: "js \<Rightarrow> rename_row" where
  "rename_init cluster = \<lparr>rn_hook = cluster, rn_cluster = cluster, rn_form = form_init\<rparr>"

definition renamed :: "js \<Rightarrow> js \<Rightarrow> js" where
  "renamed cluster body = Obj (spread (own_props cluster) [(''name'', member body ''name'')])"

definition rename_step :: "form_event \<Rightarrow> rename_row \<Rightarrow> rename_row" where
  "rename_step e st =
     (let form = form_step (rename_cluster_call (rn_hook st)) (renamed (rn_cluster st)) e (rn_form st) in
      st\<lparr>rn_form := form,
         rn_cluster := (case e of RequestAnswered body \<Rightarrow> renamed (rn_cluster st) body | _ \<Rightarrow> rn_cluster st)\<rparr>)"

section \<open>The agent of a cluster\<close>

text \<open>
  \<^verbatim>\<open>useClusterCreateAgentResources\<close>: each time the dialog opens the resources are created, and
  shown as a script; \<open>dump\<close> is the YAML printer of a package.
\<close>

definition line_feed :: string where
  "line_feed = [CHR 0x0A]"

definition yaml_separator :: string where
  "yaml_separator = ''---'' @ line_feed"

definition agent_script :: "(js \<Rightarrow> string) \<Rightarrow> js list \<Rightarrow> string" where
  "agent_script dump body =
     ''kubectl apply -f - <<EOF'' @ line_feed @ join yaml_separator (map dump body) @ line_feed @ ''EOF''"

definition copied_message :: string where
  "copied_message =
     [CHR 0xE5, CHR 0xB7, CHR 0xB2, CHR 0xE5, CHR 0xA4, CHR 0x8D, CHR 0xE5, CHR 0x88, CHR 0xB6, CHR 0xE5, CHR 0x88, CHR 0xB0,
      CHR 0xE5, CHR 0x89, CHR 0xAA, CHR 0xE8, CHR 0xB4, CHR 0xB4, CHR 0xE6, CHR 0x9D, CHR 0xBF]"

record agent_dialog =
  ag_dialog :: dialog
  ag_calls :: "call list"
  ag_script :: "string option"
  ag_notices :: notifications
  ag_copied :: "string list"

datatype agent_event =
    AgentClicked
  | AgentCancelled
  | AgentCreated "js list"
  | AgentFailed js
  | ScriptCopied
  | AgentDialog dialog_event

text \<open>\<^verbatim>\<open>rx(dialog$, ...)\<close> runs when the value of the dialog changes.\<close>

definition agent_open :: "js \<Rightarrow> agent_dialog \<Rightarrow> agent_dialog" where
  "agent_open cluster st =
     (if is_open (ag_dialog st) then st
      else st\<lparr>ag_dialog := set_open True (ag_dialog st),
              ag_calls := ag_calls st @ [call createClusterAgentResources [(''name'', member cluster ''name'')]]\<rparr>)"

fun agent_step :: "(js \<Rightarrow> string) \<Rightarrow> js \<Rightarrow> agent_event \<Rightarrow> agent_dialog \<Rightarrow> agent_dialog" where
  "agent_step dump cluster AgentClicked st = agent_open cluster st"
| "agent_step dump cluster AgentCancelled st = st\<lparr>ag_dialog := set_open False (ag_dialog st)\<rparr>"
| "agent_step dump cluster (AgentCreated body) st = st\<lparr>ag_script := Some (agent_script dump body)\<rparr>"
| "agent_step dump cluster (AgentFailed err) st =
     st\<lparr>ag_notices := notify (to_str (member err ''msg'')) None (ag_notices st)\<rparr>"
| "agent_step dump cluster ScriptCopied st =
     (case ag_script st of
        None \<Rightarrow> st
      | Some s \<Rightarrow> st\<lparr>ag_copied := ag_copied st @ [s], ag_notices := notify copied_message None (ag_notices st)\<rparr>)"
| "agent_step dump cluster (AgentDialog e) st = st\<lparr>ag_dialog := dialog_page e (dialog_handle e (ag_dialog st))\<rparr>"

section \<open>Lemmas\<close>

lemma status_error_iff:
  "snd (status_text (if ok then body else no_status)) \<longleftrightarrow> \<not> ok \<or> member body ''ping'' = Str ''-''"
  by (simp add: status_text_def no_status_def obj_get_def)

text \<open>The menu lists every cluster once, ordered by the type of environment.\<close>

lemma cluster_menu_complete:
  assumes "lodash_coll_ok C"
  shows "mset (cluster_menu C (Arr xs)) =
    mset (map (\<lambda>c. (member c ''clusterID'', member c ''envType'', member c ''name'', member c ''desc'')) xs)"
  using collections.order_mset[OF collectionsI[OF assms]]
  by (simp add: cluster_menu_def coalesce_def nullish_def)

lemma cluster_menu_ordered:
  assumes "lodash_coll_ok C" and "string_keys (\<lambda>c. member c ''envType'') xs"
  shows "sorted_wrt (\<lambda>p q. \<not> less_than (fst (snd q)) (fst (snd p))) (cluster_menu C (Arr xs))"
  using collections.order_ascending[OF collectionsI[OF assms(1)] assms(2)]
  by (simp add: cluster_menu_def coalesce_def nullish_def ascending_def sorted_wrt_map)

text \<open>A cluster is bound by the ID of the item clicked, which is one of the clusters listed.\<close>

lemma menu_item_listed:
  assumes "lodash_coll_ok C"
  shows "p \<in> set (cluster_menu C (Arr xs)) \<longleftrightarrow>
    (\<exists>c \<in> set xs. p = (member c ''clusterID'', member c ''envType'', member c ''name'', member c ''desc''))"
  using mset_eq_setD[OF cluster_menu_complete[OF assms]] by auto

lemma renamed_member:
  assumes "is_plain_object cluster"
  shows "member (renamed cluster body) k = (if k = ''name'' then member body ''name'' else member cluster k)"
  using assms by (cases cluster) (simp_all add: renamed_def spread_def assoc_simps)

text \<open>
  The hook keeps the cluster it was set up with: once a cluster is renamed, its next renaming is
  requested under the name it no longer has.
\<close>

lemma rename_hook_kept: "rn_hook (rename_step e st) = rn_hook st"
  by (simp add: rename_step_def Let_def)

lemma second_rename_uses_old_name:
  assumes "is_plain_object cluster"
    and st: "st = fold rename_step [FormEmitted a, RequestAnswered body, FormEmitted b] (rename_init cluster)"
  shows "fa_calls (rn_form st) =
      [call renameCluster [(''name'', member cluster ''name''), (''newName'', member a ''name'')],
       call renameCluster [(''name'', member cluster ''name''), (''newName'', member b ''name'')]]"
    and "member (rn_cluster st) ''name'' = member body ''name''"
  using assms(1)
  by (simp_all add: st rename_step_def Let_def rename_init_def form_init_def rename_cluster_call_def renamed_member)

text \<open>
  The script is passed to the shell in an unquoted here-document, whatever the resources contain.
\<close>

lemma agent_script_unquoted:
  "\<exists>rest. agent_script dump body = ''kubectl apply -f - <<EOF'' @ line_feed @ rest @ line_feed @ ''EOF''"
  by (simp add: agent_script_def)

lemma cluster_calls_proper:
  "proper_call (status_call c)" "proper_call (put_cluster_call v)" "proper_call (rename_cluster_call c v)"
  unfolding status_call_def put_cluster_call_def rename_cluster_call_def
  by (rule proper_callI; simp add: call_simps)+

text \<open>A dialog that is open asks for no further resources; opening it asks once.\<close>

lemma agent_open_calls:
  "length (ag_calls (agent_open cluster st)) = length (ag_calls st) + (if is_open (ag_dialog st) then 0 else 1)"
  by (simp add: agent_open_def)

end
