(* ===== verification/Action_Buttons.thy ===== *)
theory Action_Buttons
  imports Group_Members Group_Env Clusters Kubepkg_Versions
begin

text \<open>
  The buttons of \<^verbatim>\<open>webapp/dashboard/mod/*/actions\<close>. Each is an \<^verbatim>\<open>AccessControl\<close> of one request of
  the client around an icon with a tooltip and the dialog of a hook, which asks before it sends the
  request (\<^verbatim>\<open>useDialogPrompt\<close>), lets a form be filled in (\<^verbatim>\<open>useDialogForm\<close>), lets something be chosen
  (\<^verbatim>\<open>useDialogModal\<close>) or shows an editor. A hook is called when the component is set up; what it
  is given then it keeps, unless it is given the properties themselves or a function that reads
  them. So a button here is a function of the properties at the set-up and of the present ones.
  The requests that the content of a dialog makes to show itself, such as the list of the clusters or
  the revision an editor begins with, are those of its component (\<^verbatim>\<open>Clusters\<close>, \<^verbatim>\<open>Deployment_Put\<close>).
\<close>

section \<open>What a button is\<close>

datatype content =
    Prompt string string call
  | Publish "string list" "string \<Rightarrow> string" string "string \<Rightarrow> call"
  | Form js "js \<Rightarrow> call"
  | Modal string "js \<Rightarrow> call"
  | Editor "js \<Rightarrow> call"
  | Resources call
  | TokenPrompt string call
  | Link call

record action =
  ac_op :: operation
  ac_title :: string
  ac_icon :: string
  ac_stops :: bool
  ac_content :: content
  ac_emit :: "js \<Rightarrow> (string \<times> js list) option"

type_synonym button = "js \<Rightarrow> js \<Rightarrow> action"

text \<open>The request a content leads to, of the channel chosen in a menu and the value submitted.\<close>

fun request_of :: "content \<Rightarrow> string \<Rightarrow> js \<Rightarrow> call" where
  "request_of (Prompt h b c) chosen v = c"
| "request_of (Publish cs h b mk) chosen v = mk chosen"
| "request_of (Form initials mk) chosen v = mk v"
| "request_of (Modal h mk) chosen v = mk v"
| "request_of (Editor mk) chosen v = mk v"
| "request_of (Resources c) chosen v = c"
| "request_of (TokenPrompt h c) chosen v = c"
| "request_of (Link c) chosen v = c"

section \<open>A button in the page\<close>

record action_state =
  as_setup :: js
  as_props :: js
  as_user :: js
  as_dialog :: dialog
  as_menu :: menu
  as_chosen :: string
  as_calls :: "call list"
  as_links :: "call list"
  as_errors :: "(string \<times> js list) list"
  as_emitted :: "(string \<times> js list) list"
  as_bubbled :: nat

datatype action_event =
    UserChanged js
  | PropsPassed js
  | ButtonClicked
  | MenuUsed menu_event
  | Submitted js
  | Dismissed
  | Answered js
  | Failed js
  | InDialog dialog_event

definition allowed :: "lodash \<Rightarrow> string option \<Rightarrow> operation \<Rightarrow> js \<Rightarrow> bool" where
  "allowed L gid op user \<longleftrightarrow>
     (case renderAccessControl L gid (op_id op) False user of Inr RenderChildren \<Rightarrow> True | _ \<Rightarrow> False)"

definition present_action :: "button \<Rightarrow> action_state \<Rightarrow> action" where
  "present_action a st = a (as_setup st) (as_props st)"

definition in_page :: "lodash \<Rightarrow> string option \<Rightarrow> button \<Rightarrow> action_state \<Rightarrow> bool" where
  "in_page L gid a st = allowed L gid (ac_op (present_action a st)) (as_user st)"

text \<open>
  The dialog belongs to what is guarded: it is taken out of the page with it, and set up anew when
  it comes back, with \<^verbatim>\<open>ref(props.isOpen)\<close>; the hook keeps \<^verbatim>\<open>isOpen$\<close> meanwhile.
\<close>

definition assign_open :: "bool \<Rightarrow> bool \<Rightarrow> dialog \<Rightarrow> dialog" where
  "assign_open visible b d = (if visible then set_open b d else d\<lparr>is_open := b\<rparr>)"

definition taken_out :: "dialog \<Rightarrow> dialog" where
  "taken_out d = d\<lparr>mounted := False, animate := False, content := False, shown := False\<rparr>"

definition set_up :: "dialog \<Rightarrow> dialog" where
  "set_up d = d\<lparr>mounted := is_open d\<rparr>"

definition user_changed :: "lodash \<Rightarrow> string option \<Rightarrow> button \<Rightarrow> js \<Rightarrow> action_state \<Rightarrow> action_state" where
  "user_changed L gid a user st =
     (let st' = st\<lparr>as_user := user\<rparr> in
      if in_page L gid a st \<and> \<not> in_page L gid a st'
      then st'\<lparr>as_dialog := taken_out (as_dialog st), as_menu := menu_init\<rparr>
      else if \<not> in_page L gid a st \<and> in_page L gid a st' then st'\<lparr>as_dialog := set_up (as_dialog st)\<rparr>
      else st')"

text \<open>The request to create the resources of an agent is sent when the dialog opens.\<close>

definition clicked :: "action \<Rightarrow> action_state \<Rightarrow> action_state" where
  "clicked k st =
     (let st' = st\<lparr>as_bubbled := as_bubbled st + (if ac_stops k then 0 else 1)\<rparr>;
          opened = st'\<lparr>as_dialog := set_open True (as_dialog st)\<rparr> in
      case ac_content k of
        Publish cs h b mk \<Rightarrow> st'
      | TokenPrompt h c \<Rightarrow> st'\<lparr>as_calls := as_calls st @ [c]\<rparr>
      | Link c \<Rightarrow> st'\<lparr>as_links := as_links st @ [c]\<rparr>
      | Resources c \<Rightarrow> if is_open (as_dialog st) then st' else opened\<lparr>as_calls := as_calls st @ [c]\<rparr>
      | _ \<Rightarrow> opened)"

text \<open>The items of the menu are the channels, in the page while it is open.\<close>

definition menu_used :: "action \<Rightarrow> menu_event \<Rightarrow> action_state \<Rightarrow> action_state" where
  "menu_used k e st =
     (case ac_content k of
        Publish cs h b mk \<Rightarrow>
          (let st' = st\<lparr>as_menu := menu_handle False e (as_menu st)\<rparr> in
           case e of
             ItemClicked targets \<Rightarrow>
               (case first_value targets of
                  Some v \<Rightarrow>
                    (if menu_open (as_menu st) \<and> v \<in> set cs
                     then st'\<lparr>as_chosen := v, as_dialog := set_open True (as_dialog st)\<rparr> else st)
                | None \<Rightarrow> st)
           | _ \<Rightarrow> st')
      | _ \<Rightarrow> st)"

definition submitted :: "action \<Rightarrow> js \<Rightarrow> action_state \<Rightarrow> action_state" where
  "submitted k v st =
     (let sent = st\<lparr>as_calls := as_calls st @ [request_of (ac_content k) (as_chosen st) v]\<rparr>;
          closed = set_open False (as_dialog st) in
      case ac_content k of
        Prompt h b c \<Rightarrow> sent\<lparr>as_dialog := closed\<rparr>
      | Publish cs h b mk \<Rightarrow> sent\<lparr>as_dialog := closed\<rparr>
      | TokenPrompt h c \<Rightarrow> st\<lparr>as_dialog := closed\<rparr>
      | Resources c \<Rightarrow> st
      | Link c \<Rightarrow> st
      | _ \<Rightarrow> sent)"

definition dismiss :: "action \<Rightarrow> action_state \<Rightarrow> action_state" where
  "dismiss k st =
     (case ac_content k of Modal h mk \<Rightarrow> st | _ \<Rightarrow> st\<lparr>as_dialog := set_open False (as_dialog st)\<rparr>)"

text \<open>The subscriptions to the answer are made at the set-up, so they hold whether or not the button is shown.\<close>

definition answered :: "bool \<Rightarrow> action \<Rightarrow> js \<Rightarrow> action_state \<Rightarrow> action_state" where
  "answered visible k body st =
     (let st' = st\<lparr>as_emitted := as_emitted st @ (case ac_emit k body of None \<Rightarrow> [] | Some e \<Rightarrow> [e])\<rparr> in
      case ac_content k of
        Form initials mk \<Rightarrow> st'\<lparr>as_dialog := assign_open visible False (as_dialog st)\<rparr>
      | Editor mk \<Rightarrow> st'\<lparr>as_dialog := assign_open visible False (as_dialog st)\<rparr>
      | TokenPrompt h c \<Rightarrow> st'\<lparr>as_dialog := assign_open visible True (as_dialog st)\<rparr>
      | _ \<Rightarrow> st')"

definition failed :: "action \<Rightarrow> js \<Rightarrow> action_state \<Rightarrow> action_state" where
  "failed k err st =
     (case ac_content k of Form initials mk \<Rightarrow> st\<lparr>as_errors := errorFromRespError err\<rparr> | _ \<Rightarrow> st)"

fun action_step :: "lodash \<Rightarrow> string option \<Rightarrow> button \<Rightarrow> action_event \<Rightarrow> action_state \<Rightarrow> action_state" where
  "action_step L gid a (UserChanged user) st = user_changed L gid a user st"
| "action_step L gid a (PropsPassed p) st = st\<lparr>as_props := p\<rparr>"
| "action_step L gid a ButtonClicked st = (if in_page L gid a st then clicked (present_action a st) st else st)"
| "action_step L gid a (MenuUsed e) st = (if in_page L gid a st then menu_used (present_action a st) e st else st)"
| "action_step L gid a (Submitted v) st =
     (if in_page L gid a st \<and> children_shown (as_dialog st) then submitted (present_action a st) v st else st)"
| "action_step L gid a Dismissed st =
     (if in_page L gid a st \<and> children_shown (as_dialog st) then dismiss (present_action a st) st else st)"
| "action_step L gid a (Answered body) st = answered (in_page L gid a st) (present_action a st) body st"
| "action_step L gid a (Failed err) st = failed (present_action a st) err st"
| "action_step L gid a (InDialog e) st =
     (if in_page L gid a st \<and> dialog_may e (as_dialog st)
      then st\<lparr>as_dialog := dialog_page e (dialog_handle e (as_dialog st))\<rparr> else st)"

definition action_init :: "js \<Rightarrow> js \<Rightarrow> action_state" where
  "action_init user p =
     \<lparr>as_setup = p, as_props = p, as_user = user, as_dialog = dialog_init, as_menu = menu_init,
      as_chosen = to_str (member p ''fromChannel''), as_calls = [], as_links = [], as_errors = [],
      as_emitted = [], as_bubbled = 0\<rparr>"

definition action_run :: "lodash \<Rightarrow> string option \<Rightarrow> button \<Rightarrow> action_event list \<Rightarrow> action_state \<Rightarrow> action_state" where
  "action_run L gid a es st = fold (action_step L gid a) es st"

text \<open>What is rendered: the tooltip, the icon and the heading and text of the dialog while it is in the page.\<close>

fun content_text :: "content \<Rightarrow> string \<Rightarrow> string \<times> string" where
  "content_text (Prompt h b c) chosen = (h, b)"
| "content_text (Publish cs h b mk) chosen = (h chosen, b)"
| "content_text (Modal h mk) chosen = (h, [])"
| "content_text (TokenPrompt h c) chosen = (h, [])"
| "content_text _ chosen = ([], [])"

definition action_view ::
    "lodash \<Rightarrow> string option \<Rightarrow> button \<Rightarrow> action_state \<Rightarrow> (string \<times> string \<times> (string \<times> string) option) option" where
  "action_view L gid a st =
     (if in_page L gid a st then
        (let k = present_action a st in
         Some (ac_title k, ac_icon k,
               if children_shown (as_dialog st) then Some (content_text (ac_content k) (as_chosen st)) else None))
      else None)"

section \<open>Texts\<close>

definition title_delete_group :: string where
  "title_delete_group =
     [CHR 0xE5, CHR 0x88, CHR 0xA0, CHR 0xE9, CHR 0x99, CHR 0xA4, CHR 0xE7, CHR 0xBB, CHR 0x84,
     CHR 0xE7, CHR 0xBB, CHR 0x87]"

definition heading_delete_group :: string where
  "heading_delete_group =
     [CHR 0xE7, CHR 0xA1, CHR 0xAE, CHR 0xE8, CHR 0xAE, CHR 0xA4, CHR 0xE5, CHR 0x88, CHR 0xA0,
     CHR 0xE9, CHR 0x99, CHR 0xA4, CHR 0xE7, CHR 0xBB, CHR 0x84, CHR 0xE7, CHR 0xBB, CHR 0x87]"

definition title_edit_group :: string where
  "title_edit_group =
     [CHR 0xE7, CHR 0xBC, CHR 0x96, CHR 0xE8, CHR 0xBE, CHR 0x91, CHR 0xE7, CHR 0xBB, CHR 0x84,
     CHR 0xE7, CHR 0xBB, CHR 0x87]"

definition title_new_group :: string where
  "title_new_group =
     [CHR 0xE6, CHR 0x96, CHR 0xB0, CHR 0xE5, CHR 0xBB, CHR 0xBA, CHR 0xE7, CHR 0xBB, CHR 0x84,
     CHR 0xE7, CHR 0xBB, CHR 0x87]"

definition title_new_robot :: string where
  "title_new_robot =
     [CHR 0xE5, CHR 0x88, CHR 0x9B, CHR 0xE5, CHR 0xBB, CHR 0xBA, CHR 0xE6, CHR 0x9C, CHR 0xBA,
     CHR 0xE5, CHR 0x99, CHR 0xA8, CHR 0xE4, CHR 0xBA, CHR 0xBA]"

definition title_new_token :: string where
  "title_new_token =
     [CHR 0xE5, CHR 0x88, CHR 0x9B, CHR 0xE5, CHR 0xBB, CHR 0xBA, CHR 0xE8, CHR 0xAE, CHR 0xBF,
     CHR 0xE9, CHR 0x97, CHR 0xAE, CHR 0xE5, CHR 0x87, CHR 0xAD, CHR 0xE8, CHR 0xAF, CHR 0x81]"

definition heading_token :: string where
  "heading_token =
     ''Robot '' @ [CHR 0xE8, CHR 0xAE, CHR 0xBF, CHR 0xE9, CHR 0x97, CHR 0xAE, CHR 0xE5, CHR
     0x87, CHR 0xAD, CHR 0xE8, CHR 0xAF, CHR 0x81]"

definition title_edit_env :: string where
  "title_edit_env =
     [CHR 0xE7, CHR 0xBC, CHR 0x96, CHR 0xE8, CHR 0xBE, CHR 0x91, CHR 0xE7, CHR 0x8E, CHR 0xAF,
     CHR 0xE5, CHR 0xA2, CHR 0x83]"

definition title_new_env :: string where
  "title_new_env =
     [CHR 0xE6, CHR 0x96, CHR 0xB0, CHR 0xE5, CHR 0xBB, CHR 0xBA, CHR 0xE7, CHR 0x8E, CHR 0xAF,
     CHR 0xE5, CHR 0xA2, CHR 0x83]"

definition title_delete_env :: string where
  "title_delete_env =
     [CHR 0xE5, CHR 0x88, CHR 0xA0, CHR 0xE9, CHR 0x99, CHR 0xA4, CHR 0xE7, CHR 0x8E, CHR 0xAF,
     CHR 0xE5, CHR 0xA2, CHR 0x83]"

definition heading_delete_env :: string where
  "heading_delete_env =
     [CHR 0xE7, CHR 0xA1, CHR 0xAE, CHR 0xE8, CHR 0xAE, CHR 0xA4, CHR 0xE5, CHR 0x88, CHR 0xA0,
     CHR 0xE9, CHR 0x99, CHR 0xA4, CHR 0xE7, CHR 0x8E, CHR 0xAF, CHR 0xE5, CHR 0xA2, CHR 0x83]"

definition title_bind :: string where
  "title_bind =
     [CHR 0xE7, CHR 0xBB, CHR 0x91, CHR 0xE5, CHR 0xAE, CHR 0x9A, CHR 0xE9, CHR 0x9B, CHR 0x86,
     CHR 0xE7, CHR 0xBE, CHR 0xA4]"

definition title_unbind :: string where
  "title_unbind =
     [CHR 0xE8, CHR 0xA7, CHR 0xA3, CHR 0xE7, CHR 0xBB, CHR 0x91]"

definition heading_unbind :: string where
  "heading_unbind =
     [CHR 0xE7, CHR 0xA1, CHR 0xAE, CHR 0xE8, CHR 0xAE, CHR 0xA4, CHR 0xE8, CHR 0xA7, CHR 0xA3,
     CHR 0xE7, CHR 0xBB, CHR 0x91, CHR 0xE9, CHR 0x9B, CHR 0x86, CHR 0xE7, CHR 0xBE, CHR 0xA4]"

definition title_delete_deployment :: string where
  "title_delete_deployment =
     [CHR 0xE5, CHR 0x88, CHR 0xA0, CHR 0xE9, CHR 0x99, CHR 0xA4, CHR 0xE9, CHR 0x83, CHR 0xA8,
     CHR 0xE7, CHR 0xBD, CHR 0xB2]"

definition heading_delete_deployment :: string where
  "heading_delete_deployment =
     [CHR 0xE7, CHR 0xA1, CHR 0xAE, CHR 0xE8, CHR 0xAE, CHR 0xA4, CHR 0xE5, CHR 0x88, CHR 0xA0,
     CHR 0xE9, CHR 0x99, CHR 0xA4, CHR 0xE9, CHR 0x83, CHR 0xA8, CHR 0xE7, CHR 0xBD, CHR 0xB2]"

definition title_edit_deployment :: string where
  "title_edit_deployment =
     [CHR 0xE7, CHR 0xBC, CHR 0x96, CHR 0xE8, CHR 0xBE, CHR 0x91, CHR 0xE9, CHR 0x83, CHR 0xA8,
     CHR 0xE7, CHR 0xBD, CHR 0xB2]"

definition title_new_deployment :: string where
  "title_new_deployment =
     [CHR 0xE5, CHR 0x88, CHR 0x9B, CHR 0xE5, CHR 0xBB, CHR 0xBA, CHR 0xE9, CHR 0x83, CHR 0xA8,
     CHR 0xE7, CHR 0xBD, CHR 0xB2]"

definition title_history :: string where
  "title_history =
     [CHR 0xE9, CHR 0x83, CHR 0xA8, CHR 0xE7, CHR 0xBD, CHR 0xB2, CHR 0xE5, CHR 0x8E, CHR 0x86,
     CHR 0xE5, CHR 0x8F, CHR 0xB2]"

definition title_export :: string where
  "title_export =
     [CHR 0xE5, CHR 0xAF, CHR 0xBC, CHR 0xE5, CHR 0x87, CHR 0xBA, CHR 0xE9, CHR 0x83, CHR 0xA8,
     CHR 0xE7, CHR 0xBD, CHR 0xB2]"

definition title_delete_version :: string where
  "title_delete_version =
     [CHR 0xE5, CHR 0x88, CHR 0xA0, CHR 0xE9, CHR 0x99, CHR 0xA4, CHR 0xE7, CHR 0x89, CHR 0x88,
     CHR 0xE6, CHR 0x9C, CHR 0xAC]"

definition heading_delete_version :: string where
  "heading_delete_version =
     [CHR 0xE7, CHR 0xA1, CHR 0xAE, CHR 0xE8, CHR 0xAE, CHR 0xA4, CHR 0xE5, CHR 0x88, CHR 0xA0,
     CHR 0xE9, CHR 0x99, CHR 0xA4, CHR 0xE7, CHR 0x89, CHR 0x88, CHR 0xE6, CHR 0x9C, CHR 0xAC]"

definition title_publish :: string where
  "title_publish =
     [CHR 0xE5, CHR 0x8F, CHR 0x91, CHR 0xE5, CHR 0xB8, CHR 0x83, CHR 0xE7, CHR 0x89, CHR 0x88,
     CHR 0xE6, CHR 0x9C, CHR 0xAC, CHR 0xE5, CHR 0x88, CHR 0xB0]"

definition publish_before :: string where
  "publish_before =
     [CHR 0xE7, CHR 0xA1, CHR 0xAE, CHR 0xE8, CHR 0xAE, CHR 0xA4, CHR 0xE5, CHR 0x8F, CHR 0x91,
     CHR 0xE5, CHR 0xB8, CHR 0x83, CHR 0xE7, CHR 0x89, CHR 0x88, CHR 0xE6, CHR 0x9C, CHR 0xAC,
     CHR 0xE5, CHR 0x88, CHR 0xB0] @ '' ''"

definition publish_after :: string where
  "publish_after =
     '' '' @ [CHR 0xE9, CHR 0x80, CHR 0x9A, CHR 0xE9, CHR 0x81, CHR 0x93]"

definition title_edit_cluster :: string where
  "title_edit_cluster =
     [CHR 0xE7, CHR 0xBC, CHR 0x96, CHR 0xE8, CHR 0xBE, CHR 0x91, CHR 0xE9, CHR 0x9B, CHR 0x86,
     CHR 0xE7, CHR 0xBE, CHR 0xA4]"

definition title_new_cluster :: string where
  "title_new_cluster =
     [CHR 0xE6, CHR 0x96, CHR 0xB0, CHR 0xE5, CHR 0xBB, CHR 0xBA, CHR 0xE9, CHR 0x9B, CHR 0x86,
     CHR 0xE7, CHR 0xBE, CHR 0xA4]"

definition title_rename_cluster :: string where
  "title_rename_cluster =
     [CHR 0xE9, CHR 0x9B, CHR 0x86, CHR 0xE7, CHR 0xBE, CHR 0xA4, CHR 0xE9, CHR 0x87, CHR 0x8D,
     CHR 0xE5, CHR 0x90, CHR 0x8D, CHR 0xE5, CHR 0x91, CHR 0xBD]"

definition title_agent :: string where
  "title_agent =
     [CHR 0xE9, CHR 0x83, CHR 0xA8, CHR 0xE7, CHR 0xBD, CHR 0xB2] @ '' Agent''"

section \<open>The buttons\<close>

definition no_event :: "js \<Rightarrow> (string \<times> js list) option" where
  "no_event body = None"

definition with_body :: "string \<Rightarrow> js \<Rightarrow> (string \<times> js list) option" where
  "with_body name body = Some (name, [body])"

subsection \<open>Groups and robots\<close>

definition group_delete :: button where
  "group_delete s p =
     \<lparr>ac_op = deleteGroup, ac_title = title_delete_group, ac_icon = ''mdiTrashCanOutline'', ac_stops = False,
      ac_content = Prompt heading_delete_group (to_str (member s ''groupName''))
                     (delete_group_call (to_str (member s ''groupName''))),
      ac_emit = (\<lambda>body. Some (''did-delete'', []))\<rparr>"

definition group_add :: button where
  "group_add s p =
     \<lparr>ac_op = putGroup, ac_title = title_new_group, ac_icon = ''mdiPlusThick'', ac_stops = False,
      ac_content = Form (Obj []) put_group_call, ac_emit = with_body ''did-add''\<rparr>"

definition group_edit :: button where
  "group_edit s p =
     \<lparr>ac_op = putGroup, ac_title = (if truthy (member s ''group'') then title_edit_group else title_new_group),
      ac_icon = ''mdiSquareEditOutline'', ac_stops = False,
      ac_content = Form (coalesce (member s ''group'') (Obj [])) put_group_call,
      ac_emit = with_body ''did-update''\<rparr>"

definition group_robot_add :: button where
  "group_robot_add s p =
     \<lparr>ac_op = createGroupRobot, ac_title = title_new_robot, ac_icon = ''mdiPlusThick'', ac_stops = False,
      ac_content = Form (Obj []) (add_robot_call (to_str (member p ''groupName''))),
      ac_emit = with_body ''did-add''\<rparr>"

definition group_robot_token_refresh :: button where
  "group_robot_token_refresh s p =
     \<lparr>ac_op = refreshGroupRobotToken, ac_title = title_new_token, ac_icon = ''mdiKeyPlus'', ac_stops = False,
      ac_content = TokenPrompt heading_token (refresh_token_call (to_str (member p ''groupName'')) (member p ''robotID'')),
      ac_emit = no_event\<rparr>"

subsection \<open>Environments and their clusters\<close>

definition group_env_add :: button where
  "group_env_add s p =
     \<lparr>ac_op = putGroupEnv, ac_title = title_new_env, ac_icon = ''mdiPlusThick'', ac_stops = False,
      ac_content = Form (Obj []) (put_env_call (to_str (member s ''groupName''))),
      ac_emit = with_body ''did-add''\<rparr>"

definition group_env_edit :: button where
  "group_env_edit s p =
     \<lparr>ac_op = putGroupEnv, ac_title = (if truthy (member s ''groupEnv'') then title_edit_env else title_new_env),
      ac_icon = ''mdiSquareEditOutline'', ac_stops = False,
      ac_content = Form (coalesce (member s ''groupEnv'') (Obj [])) (put_env_call (to_str (member s ''groupName''))),
      ac_emit = with_body ''did-update''\<rparr>"

definition group_env_delete :: button where
  "group_env_delete s p =
     \<lparr>ac_op = deleteGroupEnv, ac_title = title_delete_env, ac_icon = ''mdiTrashCanOutline'', ac_stops = True,
      ac_content = Prompt heading_delete_env (to_str (member p ''envName''))
                     (delete_env_call (to_str (member p ''groupName'')) (to_str (member p ''envName''))),
      ac_emit = (\<lambda>body. Some (''did-delete'', [member p ''envName'']))\<rparr>"

definition group_env_cluster_bind :: button where
  "group_env_cluster_bind s p =
     \<lparr>ac_op = bindGroupEnvCluster, ac_title = title_bind, ac_icon = ''mdiLink'', ac_stops = False,
      ac_content = Modal title_bind (bind_call (to_str (member p ''groupName'')) (to_str (member p ''envName''))),
      ac_emit = (\<lambda>body. Some (''did-bind'', [member body ''cluster'', member body ''namespace'']))\<rparr>"

definition group_env_cluster_unbind :: button where
  "group_env_cluster_unbind s p =
     \<lparr>ac_op = unbindGroupEnvCluster, ac_title = title_unbind, ac_icon = ''mdiLinkOff'', ac_stops = False,
      ac_content = Prompt heading_unbind (to_str (member (member p ''cluster'') ''name''))
                     (unbind_call (to_str (member p ''groupName'')) (to_str (member p ''envName'')) (member p ''cluster'')),
      ac_emit = (\<lambda>body. Some (''did-unbind'', []))\<rparr>"

subsection \<open>Deployments\<close>

definition put_deployment_call :: "js \<Rightarrow> js \<Rightarrow> call" where
  "put_deployment_call p body =
     call putGroupEnvDeployment
       [(''groupName'', member p ''groupName''), (''envName'', member p ''envName''), (''body'', body)]"

definition deployment_delete :: button where
  "deployment_delete s p =
     \<lparr>ac_op = deleteGroupEnvDeployment, ac_title = title_delete_deployment, ac_icon = ''mdiTrashCanOutline'',
      ac_stops = True,
      ac_content = Prompt heading_delete_deployment (to_str (member p ''deploymentName''))
                     (delete_deployment_call (to_str (member p ''groupName'')) (to_str (member p ''envName''))
                        (to_str (member p ''deploymentName''))),
      ac_emit = (\<lambda>body. Some (''did-delete'', [member p ''deploymentName'']))\<rparr>"

definition deployment_put :: "lodash \<Rightarrow> (string \<Rightarrow> js option) \<Rightarrow> button" where
  "deployment_put L json_parse s p =
     \<lparr>ac_op = putGroupEnvDeployment,
      ac_title = (if truthy (member s ''kubepkg'') then title_edit_deployment else title_new_deployment),
      ac_icon = (if truthy (member p ''kubepkg'') then ''mdiTextBoxEdit'' else ''mdiPlusThick''), ac_stops = True,
      ac_content = Editor (put_deployment_call p),
      ac_emit = (\<lambda>body. Some (''did-put'', [did_put L json_parse body]))\<rparr>"

definition deployment_history_put :: "lodash \<Rightarrow> (string \<Rightarrow> js option) \<Rightarrow> button" where
  "deployment_history_put L json_parse s p =
     \<lparr>ac_op = putGroupEnvDeployment, ac_title = title_history, ac_icon = ''mdiHistory'', ac_stops = True,
      ac_content = Editor (put_deployment_call p),
      ac_emit = (\<lambda>body. Some (''did-put'', [did_put L json_parse body]))\<rparr>"

definition deployments_export :: button where
  "deployments_export s p =
     \<lparr>ac_op = listGroupEnvDeployment, ac_title = title_export, ac_icon = ''mdiApplicationExport'', ac_stops = True,
      ac_content = Link (call listGroupEnvDeployment
                           [(''groupName'', member p ''groupName''), (''envName'', member p ''envName''),
                            (''size'', Num (-1))]),
      ac_emit = no_event\<rparr>"

subsection \<open>Versions\<close>

definition version_text :: "js \<Rightarrow> js \<Rightarrow> string" where
  "version_text p version =
     to_str (member p ''groupName'') @ ''/'' @ to_str (member p ''kubepkgName'') @ ''@'' @ to_str version"

definition kubepkg_delete :: button where
  "kubepkg_delete s p =
     \<lparr>ac_op = deleteKubepkgVersion, ac_title = title_delete_version, ac_icon = ''mdiTrashCanOutline'', ac_stops = False,
      ac_content = Prompt heading_delete_version (version_text p (member p ''version''))
                     (delete_version_call (member p ''groupName'') (member p ''kubepkgName'') (member p ''channel'')
                        (member p ''version'')),
      ac_emit = (\<lambda>body. Some (''did-delete'', []))\<rparr>"

definition version_publish :: button where
  "version_publish s p =
     \<lparr>ac_op = putKubepkgVersion, ac_title = title_publish, ac_icon = ''mdiPublish'', ac_stops = False,
      ac_content = Publish (allowChannels (to_str (member p ''fromChannel'')))
                     (\<lambda>target. publish_before @ target @ publish_after)
                     (version_text p (member (member p ''versionInfo'') ''version''))
                     (\<lambda>target. publish_call (member p ''groupName'') (member p ''kubepkgName'') target (member p ''versionInfo'')),
      ac_emit = (\<lambda>body. Some (''did-publish'', []))\<rparr>"

subsection \<open>Clusters\<close>

definition cluster_add :: button where
  "cluster_add s p =
     \<lparr>ac_op = putCluster, ac_title = title_new_cluster, ac_icon = ''mdiPlusThick'', ac_stops = False,
      ac_content = Form (Obj []) put_cluster_call, ac_emit = with_body ''did-add''\<rparr>"

definition cluster_edit :: button where
  "cluster_edit s p =
     \<lparr>ac_op = putCluster, ac_title = (if truthy (member s ''cluster'') then title_edit_cluster else title_new_cluster),
      ac_icon = ''mdiSquareEditOutline'', ac_stops = False,
      ac_content = Form (coalesce (member s ''cluster'') (Obj [])) put_cluster_call,
      ac_emit = with_body ''did-update''\<rparr>"

definition cluster_rename :: button where
  "cluster_rename s p =
     \<lparr>ac_op = renameCluster, ac_title = title_rename_cluster, ac_icon = ''mdiRenameBoxOutline'', ac_stops = False,
      ac_content = Form (member s ''cluster'') (rename_cluster_call (member s ''cluster'')),
      ac_emit = (\<lambda>body. Some (''did-update'', [renamed (member p ''cluster'') body]))\<rparr>"

definition cluster_create_agent_resources :: button where
  "cluster_create_agent_resources s p =
     \<lparr>ac_op = createClusterAgentResources, ac_title = title_agent, ac_icon = ''mdiKubernetes'', ac_stops = False,
      ac_content = Resources (call createClusterAgentResources [(''name'', member (member s ''cluster'') ''name'')]),
      ac_emit = no_event\<rparr>"

subsection \<open>All of them\<close>

definition dashboard_buttons :: "lodash \<Rightarrow> (string \<Rightarrow> js option) \<Rightarrow> button list" where
  "dashboard_buttons L json_parse =
     [group_delete, group_add, group_edit, group_robot_add, group_robot_token_refresh,
      group_env_add, group_env_edit, group_env_delete, group_env_cluster_bind, group_env_cluster_unbind,
      deployment_delete, deployment_put L json_parse, deployment_history_put L json_parse, deployments_export,
      kubepkg_delete, version_publish, cluster_add, cluster_edit, cluster_rename, cluster_create_agent_resources]"

lemmas button_defs =
  group_delete_def group_add_def group_edit_def group_robot_add_def group_robot_token_refresh_def
  group_env_add_def group_env_edit_def group_env_delete_def group_env_cluster_bind_def group_env_cluster_unbind_def
  deployment_delete_def deployment_put_def deployment_history_put_def deployments_export_def
  kubepkg_delete_def version_publish_def cluster_add_def cluster_edit_def cluster_rename_def
  cluster_create_agent_resources_def

lemmas request_defs =
  put_group_call_def delete_group_call_def add_robot_call_def refresh_token_call_def put_env_call_def delete_env_call_def
  bind_call_def unbind_call_def delete_deployment_call_def put_deployment_call_def delete_version_call_def publish_call_def
  put_cluster_call_def rename_cluster_call_def

section \<open>Lemmas\<close>

lemma button_requests_proper:
  "proper_call (put_group_call v)" "proper_call (delete_group_call n)" "proper_call (add_robot_call n v)"
  "proper_call (refresh_token_call n v)" "proper_call (put_deployment_call p v)"
  "proper_call (delete_version_call a b c d)" "proper_call (publish_call a b t d)"
  "proper_call (call listGroupEnvDeployment [(''groupName'', a), (''envName'', b), (''size'', c)])"
  "proper_call (call createClusterAgentResources [(''name'', a)])"
  "proper_call (put_env_call n v)" "proper_call (delete_env_call n m)" "proper_call (bind_call n m v)"
  "proper_call (unbind_call n m v)" "proper_call (delete_deployment_call n m x)"
  "proper_call (put_cluster_call v)" "proper_call (rename_cluster_call a v)"
  unfolding request_defs by (rule proper_callI; simp add: call_simps)+

definition own_request :: "action \<Rightarrow> call \<Rightarrow> bool" where
  "own_request k c \<longleftrightarrow> proper_call c \<and> fst c = ac_op k"

lemma fst_call [simp]: "fst (call op inputs) = op"
  by (simp add: call_def)

lemma button_own_request:
  assumes "a \<in> set (dashboard_buttons L json_parse)"
  shows "own_request (a s p) (request_of (ac_content (a s p)) chosen v)"
  using assms unfolding dashboard_buttons_def
  by (auto simp: own_request_def button_defs button_requests_proper) (simp_all add: request_defs)

lemma button_op_fixed:
  assumes "a \<in> set (dashboard_buttons L json_parse)"
  shows "ac_op (a s p) = ac_op (a s' p')"
  using assms unfolding dashboard_buttons_def by (auto simp: button_defs)

definition sent_by :: "action_state \<Rightarrow> call list" where
  "sent_by st = as_calls st @ as_links st"

text \<open>A step adds at most the request of the content, and only while the button is in the page.\<close>

lemma step_sends:
  "set (sent_by (action_step L gid a e st)) \<subseteq>
     set (sent_by st) \<union>
     (if in_page L gid a st
      then {c. \<exists>v. c = request_of (ac_content (present_action a st)) (as_chosen st) v} else {})"
  by (cases e)
    (auto simp: sent_by_def user_changed_def clicked_def menu_used_def submitted_def dismiss_def answered_def
       failed_def Let_def split: content.splits menu_event.splits option.splits if_splits)

lemma step_quiet:
  "\<not> in_page L gid a st \<Longrightarrow> sent_by (action_step L gid a e st) = sent_by st"
  by (cases e)
    (auto simp: sent_by_def user_changed_def answered_def failed_def Let_def split: content.splits)

lemma run_sends_own:
  assumes "a \<in> set (dashboard_buttons L json_parse)"
    and "c \<in> set (sent_by (action_run L gid a es st))"
  shows "c \<in> set (sent_by st) \<or> own_request (present_action a (action_run L gid a es st)) c"
  using assms(2)
proof (induction es rule: rev_induct)
  case Nil
  then show ?case by (simp add: action_run_def)
next
  case (snoc e es)
  let ?st = "action_run L gid a es st"
  have op: "ac_op (present_action a t) = ac_op (present_action a t')" for t t'
    unfolding present_action_def by (rule button_op_fixed [OF assms(1)])
  have "c \<in> set (sent_by ?st) \<or> (\<exists>v. c = request_of (ac_content (present_action a ?st)) (as_chosen ?st) v)"
    using snoc.prems step_sends [of L gid a e ?st] by (auto simp: action_run_def split: if_splits)
  moreover have "own_request (present_action a ?st) (request_of (ac_content (present_action a ?st)) (as_chosen ?st) v)" for v
    unfolding present_action_def by (rule button_own_request [OF assms(1)])
  ultimately show ?case using snoc.IH op unfolding own_request_def by metis
qed

lemma in_page_iff:
  "in_page L gid a st \<longleftrightarrow>
     createCanAccess L gid (op_id (ac_op (present_action a st))) (as_user st) = Inr True"
  by (auto simp: in_page_def allowed_def renderAccessControl_def split: sum.splits)

section \<open>Requests are guarded by the permission to make them\<close>

text \<open>
  C39. Whatever is clicked, chosen, submitted and answered, and however the user and the properties
  change meanwhile, each button of the dashboard only sends and links proper requests of the very
  operation it is guarded by. It sends one only while the permissions of the user open that
  operation, and is shown exactly then.
\<close>

theorem actions_are_guarded:
  assumes "a \<in> set (dashboard_buttons L json_parse)"
    and "st = action_run L gid a es (action_init user p)"
  shows "(\<forall>c \<in> set (sent_by st). proper_call c \<and> fst c = ac_op (present_action a st)) \<and>
    (sent_by (action_step L gid a e st) \<noteq> sent_by st \<longrightarrow>
       createCanAccess L gid (op_id (ac_op (present_action a st))) (as_user st) = Inr True) \<and>
    (action_view L gid a st \<noteq> None \<longleftrightarrow>
       createCanAccess L gid (op_id (ac_op (present_action a st))) (as_user st) = Inr True)"
proof (intro conjI ballI impI)
  fix c assume "c \<in> set (sent_by st)"
  then have "own_request (present_action a st) c"
    using run_sends_own [OF assms(1), of c gid es "action_init user p"] assms(2)
    by (auto simp: sent_by_def action_init_def)
  then show "proper_call c" and "fst c = ac_op (present_action a st)" by (simp_all add: own_request_def)
next
  assume "sent_by (action_step L gid a e st) \<noteq> sent_by st"
  then show "createCanAccess L gid (op_id (ac_op (present_action a st))) (as_user st) = Inr True"
    using step_quiet in_page_iff by blast
next
  show "action_view L gid a st \<noteq> None \<longleftrightarrow>
       createCanAccess L gid (op_id (ac_op (present_action a st))) (as_user st) = Inr True"
    using in_page_iff [of L gid a st] by (simp add: action_view_def Let_def)
qed

definition open_to_all :: js where
  "open_to_all = Obj [(''permissions'', Obj [])]"

lemma ref_has_empty: "\<not> ref_has (Obj []) ks"
  by (cases "(Obj [], ks)" rule: ref_has.cases) (auto simp: obj_has_def)

lemma open_to_all_allows: "allowed lodash_ref gid op open_to_all"
  by (simp add: allowed_def renderAccessControl_def createCanAccess_def open_to_all_def obj_get_def
      lodash_ref_def ref_has_empty)

definition demo_delete :: "action_event list" where
  "demo_delete = [ButtonClicked, InDialog ContentBeforeMount, Submitted Undef]"

lemmas action_code =
  action_run_def action_init_def present_action_def clicked_def submitted_def dialog_code children_shown_def
  dialog_init_def sent_by_def

theorem actions_are_guarded_witness:
  "sent_by (action_run lodash_ref None group_delete demo_delete (action_init open_to_all (Obj [(''groupName'', Str ''g'')])))
     = [delete_group_call ''g''] \<and>
   proper_call (delete_group_call ''g'')"
proof -
  let ?st = "action_run lodash_ref None group_delete demo_delete (action_init open_to_all (Obj [(''groupName'', Str ''g'')]))"
  have run: "sent_by ?st = [delete_group_call ''g'']"
    by (simp add: action_code demo_delete_def in_page_def open_to_all_allows group_delete_def obj_get_def)
  have "group_delete \<in> set (dashboard_buttons lodash_ref (\<lambda>s. None))" by (simp add: dashboard_buttons_def)
  from actions_are_guarded [OF this refl, of None demo_delete open_to_all "Obj [(''groupName'', Str ''g'')]" ButtonClicked]
  have "\<forall>c \<in> set (sent_by ?st). proper_call c" by blast
  then show ?thesis using run by simp
qed

section \<open>What the hooks keep\<close>

lemma setup_is_kept: "as_setup (action_run L gid a es st) = as_setup st"
proof (induction es rule: rev_induct)
  case Nil
  then show ?case by (simp add: action_run_def)
next
  case (snoc e es)
  moreover have "as_setup (action_step L gid a e t) = as_setup t" for t
    by (cases e)
      (auto simp: user_changed_def clicked_def menu_used_def submitted_def dismiss_def answered_def failed_def Let_def
        split: content.splits menu_event.splits option.splits)
  ultimately show ?case by (simp add: action_run_def)
qed

text \<open>
  The form of a cluster is made of the cluster the row was set up with. Once the cluster has been
  renamed, the form that edits it still shows the old name, which cannot be changed, and what it
  submits is saved under that name.
\<close>

definition named_cluster :: "string \<Rightarrow> js" where
  "named_cluster n = Obj [(''clusterID'', Num 1), (''name'', Str n)]"

lemma edit_after_rename_uses_old_name:
  fixes p :: js
  assumes "p = Obj [(''cluster'', named_cluster ''old'')]" and "p' = Obj [(''cluster'', named_cluster ''new'')]"
  defines "st \<equiv> action_run lodash_ref None cluster_edit [PropsPassed p', ButtonClicked, InDialog ContentBeforeMount]
                  (action_init open_to_all p)"
  shows "ac_content (present_action cluster_edit st) = Form (named_cluster ''old'') put_cluster_call"
    and "sent_by (action_step lodash_ref None cluster_edit (Submitted (named_cluster ''old'')) st)
           = [call putCluster [(''name'', Str ''old''), (''body'', Obj [(''clusterID'', Num 1)])]]"
  using assms
  by (simp_all add: action_code in_page_def open_to_all_allows cluster_edit_def obj_get_def named_cluster_def
      coalesce_def nullish_def put_cluster_call_def)

text \<open>A dialog that was open when the permission went is opened again when it comes back.\<close>

lemma dialog_comes_back:
  assumes "in_page L gid a st" and "is_opened (as_dialog st)"
    and "\<not> in_page L gid a (st\<lparr>as_user := u\<rparr>)" and "in_page L gid a (st\<lparr>as_user := v\<rparr>)"
  shows "is_opening (as_dialog (action_run L gid a [UserChanged u, UserChanged v] st))"
  using assms
  by (auto simp: action_run_def user_changed_def Let_def in_page_def present_action_def taken_out_def set_up_def
      is_opened_def is_opening_def)

end
