(* ===== verification/Account_Pages.thy ===== *)
theory Account_Pages
  imports Action_Buttons
begin

text \<open>
  The pages that list the members of a group and the administrators
  (\<^verbatim>\<open>webapp/dashboard/mod/group/GroupAccountList.tsx\<close>, \<^verbatim>\<open>webapp/dashboard/mod/account/AdminAccountList.tsx\<close>)
  with the button that adds one: a dialog in which an account is searched for and chosen
  (\<^verbatim>\<open>AccountAutocomplete.tsx\<close>). The list, the search and the dialog are those of \<open>Group_Members\<close> and
  \<open>UI_Overlays\<close>; here they are one machine, with the guard of the button.
\<close>

section \<open>The dialog that searches for an account\<close>

text \<open>
  What is shown in the dialog is set up when its content is mounted and dropped with it, the text that
  waits for its pause included. An answer reaches the search that sent the request.
\<close>

record picker =
  pk_dialog :: dialog
  pk_search :: account_search
  pk_waiting :: "string option"
  pk_searches :: "call list"

datatype picker_event =
    PickerClicked
  | InPicker dialog_event
  | Typing string
  | Paused
  | Found js
  | OptionClicked nat

definition picker_init :: picker where
  "picker_init = \<lparr>pk_dialog = dialog_init, pk_search = search_init, pk_waiting = None, pk_searches = []\<rparr>"

text \<open>A text of three characters or more waits; one that is shorter leaves the wait as it is.\<close>

definition typing :: "string \<Rightarrow> picker \<Rightarrow> picker" where
  "typing s pk = pk\<lparr>pk_search := search_step (AccountTyped s) (pk_search pk),
     pk_waiting := (if 3 \<le> length s then Some s else pk_waiting pk)\<rparr>"

definition paused :: "picker \<Rightarrow> picker" where
  "paused pk =
     (case pk_waiting pk of
        None \<Rightarrow> pk
      | Some s \<Rightarrow>
          (let search = search_step (SearchSettled s) (pk_search pk) in
           pk\<lparr>pk_search := search, pk_waiting := None,
              pk_searches := pk_searches pk @ drop (length (account_search.as_calls (pk_search pk))) (account_search.as_calls search)\<rparr>))"

text \<open>The option of the list that is clicked.\<close>

definition picked :: "picker_event \<Rightarrow> picker \<Rightarrow> js option" where
  "picked e pk =
     (case e of
        OptionClicked i \<Rightarrow>
          (if children_shown (pk_dialog pk) \<and> i < length (as_options (pk_search pk))
           then Some (as_options (pk_search pk) ! i) else None)
      | _ \<Rightarrow> None)"

fun picker_step :: "picker_event \<Rightarrow> picker \<Rightarrow> picker" where
  "picker_step PickerClicked pk = pk\<lparr>pk_dialog := set_open True (pk_dialog pk)\<rparr>"
| "picker_step (InPicker e) pk =
     (if dialog_may e (pk_dialog pk) then
        (let pk' = pk\<lparr>pk_dialog := dialog_page e (dialog_handle e (pk_dialog pk))\<rparr> in
         if content (pk_dialog pk) = content (pk_dialog pk') then pk'
         else pk'\<lparr>pk_search := search_init, pk_waiting := None\<rparr>)
      else pk)"
| "picker_step (Typing s) pk = (if children_shown (pk_dialog pk) then typing s pk else pk)"
| "picker_step Paused pk = (if children_shown (pk_dialog pk) then paused pk else pk)"
| "picker_step (Found body) pk =
     (if children_shown (pk_dialog pk) \<and> account_search.as_calls (pk_search pk) \<noteq> []
      then pk\<lparr>pk_search := search_step (AccountsFound body) (pk_search pk)\<rparr> else pk)"
| "picker_step (OptionClicked i) pk =
     (case picked (OptionClicked i) pk of
        None \<Rightarrow> pk
      | Some u \<Rightarrow> pk\<lparr>pk_search := search_step (AccountClicked u) (pk_search pk)\<rparr>)"

definition add_member_title :: string where
  "add_member_title =
     [CHR 0xE6, CHR 0xB7, CHR 0xBB, CHR 0xE5, CHR 0x8A, CHR 0xA0, CHR 0xE6, CHR 0x88, CHR 0x90, CHR
     0xE5, CHR 0x91, CHR 0x98]"

definition add_admin_title :: string where
  "add_admin_title =
     [CHR 0xE6, CHR 0xB7, CHR 0xBB, CHR 0xE5, CHR 0x8A, CHR 0xA0, CHR 0xE7, CHR 0xAE, CHR 0xA1, CHR
     0xE7, CHR 0x90, CHR 0x86, CHR 0xE5, CHR 0x91, CHR 0x98]"

definition search_prompt :: string where
  "search_prompt =
     [CHR 0xE8, CHR 0xBE, CHR 0x93, CHR 0xE5, CHR 0x85, CHR 0xA5, CHR 0xE7, CHR 0x94, CHR 0xA8, CHR
     0xE6, CHR 0x88, CHR 0xB7, CHR 0xE9, CHR 0x82, CHR 0xAE, CHR 0xE7, CHR 0xAE, CHR 0xB1, CHR 0xE6,
     CHR 0x9F, CHR 0xA5, CHR 0xE8, CHR 0xAF, CHR 0xA2]"

definition search_and :: string where
  "search_and =
     [CHR 0xE5, CHR 0xB9, CHR 0xB6]"

definition add_title :: "membership \<Rightarrow> string" where
  "add_title t = (case t of InGroup g \<Rightarrow> add_member_title | AmongAdmins \<Rightarrow> add_admin_title)"

definition search_placeholder :: "string \<Rightarrow> string" where
  "search_placeholder title = search_prompt @ (if title \<noteq> [] then '', '' @ search_and @ title else [])"

section \<open>The page\<close>

record account_page =
  pg_list :: member_list
  pg_user :: js
  pg_picker :: picker

datatype page_event =
    PageMounted
  | ListLoaded js
  | AddAnswered
  | PageUser js
  | PickerUsed picker_event

definition page_init :: "js \<Rightarrow> account_page" where
  "page_init user = \<lparr>pg_list = \<lparr>ml_rows = [], ml_calls = []\<rparr>, pg_user = user, pg_picker = picker_init\<rparr>"

definition may_add :: "lodash \<Rightarrow> string option \<Rightarrow> membership \<Rightarrow> account_page \<Rightarrow> bool" where
  "may_add L gid t st = allowed L gid (role_operation t) (pg_user st)"

text \<open>\<^verbatim>\<open>done\<close> closes the dialog as soon as the request is sent; without the permission the button is not there.\<close>

definition account_chosen :: "membership \<Rightarrow> js \<Rightarrow> account_page \<Rightarrow> account_page" where
  "account_chosen t u st =
     st\<lparr>pg_list := member_list_step t (AccountChosen (member u ''accountID'')) (pg_list st),
        pg_picker := (pg_picker st)\<lparr>pk_dialog := set_open False (pk_dialog (pg_picker st))\<rparr>\<rparr>"

definition picker_used :: "membership \<Rightarrow> picker_event \<Rightarrow> account_page \<Rightarrow> account_page" where
  "picker_used t e st =
     (let st' = st\<lparr>pg_picker := picker_step e (pg_picker st)\<rparr> in
      case picked e (pg_picker st) of None \<Rightarrow> st' | Some u \<Rightarrow> account_chosen t u st')"

definition page_user :: "lodash \<Rightarrow> string option \<Rightarrow> membership \<Rightarrow> js \<Rightarrow> account_page \<Rightarrow> account_page" where
  "page_user L gid t user st =
     (let st' = st\<lparr>pg_user := user\<rparr> in
      if may_add L gid t st' then st'
      else st'\<lparr>pg_picker := picker_init\<lparr>pk_searches := pk_searches (pg_picker st)\<rparr>\<rparr>)"

fun page_step :: "lodash \<Rightarrow> string option \<Rightarrow> membership \<Rightarrow> page_event \<Rightarrow> account_page \<Rightarrow> account_page" where
  "page_step L gid t PageMounted st = st\<lparr>pg_list := member_list_step t MembersMounted (pg_list st)\<rparr>"
| "page_step L gid t (ListLoaded body) st = st\<lparr>pg_list := member_list_step t (MembersLoaded body) (pg_list st)\<rparr>"
| "page_step L gid t AddAnswered st = st\<lparr>pg_list := member_list_step t MemberAdded (pg_list st)\<rparr>"
| "page_step L gid t (PageUser user) st = page_user L gid t user st"
| "page_step L gid t (PickerUsed e) st = (if may_add L gid t st then picker_used t e st else st)"

definition page_run :: "lodash \<Rightarrow> string option \<Rightarrow> membership \<Rightarrow> page_event list \<Rightarrow> account_page \<Rightarrow> account_page" where
  "page_run L gid t es st = fold (page_step L gid t) es st"

text \<open>The administrators' page has no group, so its permissions are those of the user alone.\<close>

definition admin_role_step :: "rendered \<Rightarrow> role_event \<Rightarrow> role_control \<Rightarrow> role_control" where
  "admin_role_step = role_step AmongAdmins"

definition admin_role_selected :: "string \<Rightarrow> role_control \<Rightarrow> role_control" where
  "admin_role_selected = on_role_selected AmongAdmins"

definition admin_page_step :: "lodash \<Rightarrow> page_event \<Rightarrow> account_page \<Rightarrow> account_page" where
  "admin_page_step L = page_step L None AmongAdmins"

section \<open>What the page requests\<close>

fun found_in :: "page_event list \<Rightarrow> js list" where
  "found_in [] = []"
| "found_in (PickerUsed (Found body) # es) = elements_of (member body ''data'') @ found_in es"
| "found_in (e # es) = found_in es"

lemma found_in_append: "found_in (es @ fs) = found_in es @ found_in fs"
  by (induction es rule: found_in.induct) simp_all

definition search_call :: "string \<Rightarrow> call" where
  "search_call s = call listAccount [(''identity'', Arr [Str s])]"

definition was_typed :: "page_event list \<Rightarrow> string \<Rightarrow> bool" where
  "was_typed es s \<longleftrightarrow> 3 \<le> length s \<and> PickerUsed (Typing s) \<in> set es"

definition page_call_ok :: "membership \<Rightarrow> page_event list \<Rightarrow> call \<Rightarrow> bool" where
  "page_call_ok t es c \<longleftrightarrow> c = list_members_call t
     \<or> (\<exists>u \<in> set (found_in es). c = put_role_call t (member u ''accountID'') (Str ''MEMBER''))"

definition picker_ok :: "page_event list \<Rightarrow> picker \<Rightarrow> bool" where
  "picker_ok es pk \<longleftrightarrow> set (as_options (pk_search pk)) \<subseteq> set (found_in es)
     \<and> (\<forall>s. pk_waiting pk = Some s \<longrightarrow> was_typed es s)
     \<and> (\<forall>c \<in> set (pk_searches pk). \<exists>s. was_typed es s \<and> c = search_call s)"

definition page_ok :: "membership \<Rightarrow> page_event list \<Rightarrow> account_page \<Rightarrow> bool" where
  "page_ok t es st \<longleftrightarrow> picker_ok es (pg_picker st) \<and> list_all (page_call_ok t es) (ml_calls (pg_list st))"

lemma ok_grows:
  "was_typed es s \<Longrightarrow> was_typed (es @ fs) s"
  "page_call_ok t es c \<Longrightarrow> page_call_ok t (es @ fs) c"
  "picker_ok es pk \<Longrightarrow> picker_ok (es @ fs) pk"
  by (auto simp: was_typed_def page_call_ok_def picker_ok_def found_in_append)

lemma picker_ok_dialog [simp]: "picker_ok es (pk\<lparr>pk_dialog := d\<rparr>) = picker_ok es pk"
  by (simp add: picker_ok_def)

lemma picker_ok_fresh: "picker_ok es pk \<Longrightarrow> picker_ok es (pk\<lparr>pk_search := search_init, pk_waiting := None\<rparr>)"
  by (simp add: picker_ok_def search_init_def)

lemma picker_step_ok:
  assumes "picker_ok es pk"
  shows "picker_ok (es @ [PickerUsed e]) (picker_step e pk)"
proof -
  have old: "picker_ok (es @ [PickerUsed e]) pk" using assms by (rule ok_grows)
  show ?thesis
  proof (cases e)
    case (InPicker d)
    then show ?thesis using old by (auto simp: Let_def intro: picker_ok_fresh [OF iffD2 [OF picker_ok_dialog]])
  next
    case (Typing s)
    then show ?thesis using old by (auto simp: typing_def picker_ok_def was_typed_def)
  next
    case Paused
    then show ?thesis using old
      by (auto simp: paused_def picker_ok_def Let_def search_call_def split: option.split)
  next
    case (Found body)
    then show ?thesis using old by (auto simp: picker_ok_def found_in_append)
  next
    case (OptionClicked i)
    then show ?thesis using old by (auto simp: picker_ok_def split: option.split)
  qed (use old in simp)
qed

lemma picked_found: "picker_ok es pk \<Longrightarrow> picked e pk = Some u \<Longrightarrow> u \<in> set (found_in es)"
  by (cases e) (auto simp: picked_def picker_ok_def split: if_splits)

lemma page_step_ok:
  assumes "page_ok t es st"
  shows "page_ok t (es @ [e]) (page_step L gid t e st)"
proof -
  have calls: "list_all (page_call_ok t (es @ [e])) (ml_calls (pg_list st))"
    and picker: "picker_ok (es @ [e]) (pg_picker st)" and old: "picker_ok es (pg_picker st)"
    using assms ok_grows by (auto simp: page_ok_def list_all_iff)
  show ?thesis
  proof (cases e)
    case (PageUser user)
    then show ?thesis using calls picker
      by (auto simp: page_user_def page_ok_def picker_ok_def picker_init_def search_init_def Let_def)
  next
    case (PickerUsed pe)
    have stepped: "picker_ok (es @ [e]) (picker_step pe (pg_picker st))"
      unfolding PickerUsed by (rule picker_step_ok [OF old])
    show ?thesis
    proof (cases "picked pe (pg_picker st)")
      case None
      then show ?thesis using PickerUsed calls picker stepped by (simp add: picker_used_def page_ok_def)
    next
      case (Some u)
      have "page_call_ok t (es @ [e]) (put_role_call t (member u ''accountID'') (Str ''MEMBER''))"
        using picked_found [OF old Some] by (auto simp: page_call_ok_def found_in_append)
      then show ?thesis using PickerUsed Some calls picker stepped
        by (simp add: picker_used_def account_chosen_def page_ok_def)
    qed
  qed (use calls picker in \<open>simp_all add: page_ok_def page_call_ok_def\<close>)
qed

lemma page_run_ok: "page_ok t es (page_run L gid t es (page_init user))"
proof (induction es rule: rev_induct)
  case Nil
  show ?case by (simp add: page_run_def page_init_def page_ok_def picker_ok_def picker_init_def search_init_def)
next
  case (snoc e es)
  then show ?case using page_step_ok [of t es _ e L gid] by (simp add: page_run_def)
qed

lemma search_call_proper: "proper_call (search_call s)"
  unfolding search_call_def by (rule proper_callI) (simp_all add: call_simps)

lemma page_call_proper: "page_call_ok t es c \<Longrightarrow> proper_call c"
  using member_calls_proper by (auto simp: page_call_ok_def)

lemma adding_needs_access:
  assumes "ml_calls (pg_list (page_step L gid t e st)) \<noteq> ml_calls (pg_list st)"
    and "ml_calls (pg_list (page_step L gid t e st)) \<noteq> ml_calls (pg_list st) @ [list_members_call t]"
  shows "may_add L gid t st"
  using assms by (cases e) (auto simp: page_user_def Let_def split: if_splits)

lemma put_is_no_list: "put_role_call t u v \<noteq> list_members_call t"
  by (cases t)
    (auto simp: put_role_call_def list_members_call_def call_def putGroupAccount_def listGroupAccount_def
      putAdminAccount_def listAdminAccount_def)


text \<open>A member is added: the dialog is opened, a name is typed, the answer lists an account, which is clicked.\<close>

definition demo_found :: js where
  "demo_found = Obj [(''data'', Arr [Obj [(''accountID'', Num 7), (''nickname'', Str ''alice'')]])]"

definition demo_adding :: "page_event list" where
  "demo_adding = [PageMounted, PickerUsed PickerClicked, PickerUsed (InPicker ContentBeforeMount),
     PickerUsed (Typing ''alice''), PickerUsed Paused, PickerUsed (Found demo_found), PickerUsed (OptionClicked 0)]"

lemmas page_code =
  page_run_def page_init_def may_add_def picker_init_def picker_used_def picked_def account_chosen_def typing_def
  paused_def search_init_def Let_def children_shown_def dialog_code dialog_init_def open_to_all_allows

lemma demo_added:
  "ml_calls (pg_list (page_run lodash_ref None (InGroup ''g'') demo_adding (page_init open_to_all)))
     = [list_members_call (InGroup ''g''), put_role_call (InGroup ''g'') (Num 7) (Str ''MEMBER'')]"
  by (simp add: page_code demo_adding_def demo_found_def elements_of_def obj_get_def)


section \<open>What goes wrong\<close>

text \<open>
  The list of accounts stays in the page while the dialog leaves, so a double click on an account
  requests its membership twice.
\<close>

lemma double_click_adds_twice:
  assumes "may_add L gid t st" and "children_shown (pk_dialog (pg_picker st))"
    and "i < length (as_options (pk_search (pg_picker st)))"
  shows "\<exists>c. ml_calls (pg_list (page_run L gid t [PickerUsed (OptionClicked i), PickerUsed (OptionClicked i)] st))
    = ml_calls (pg_list st) @ [c, c]"
  using assms
  by (simp add: page_run_def picker_used_def picked_def account_chosen_def Let_def may_add_def children_shown_def
      set_open_def watch_open_def)

text \<open>
  The options of the search before are shown until the answer comes, but not from when the text is
  typed: in the pause of a text the accounts of another one are offered.
\<close>

lemma options_of_previous_text:
  assumes "children_shown (pk_dialog pk)"
  shows "as_options (pk_search (picker_step (Typing s) pk)) = as_options (pk_search pk)"
  using assms by (simp add: typing_def)

lemma options_cleared_by_search:
  assumes "children_shown (pk_dialog pk)" and "pk_waiting pk = Some s"
  shows "as_options (pk_search (picker_step Paused pk)) = []"
  using assms by (simp add: paused_def Let_def)

text \<open>A refreshed list shows a member who was removed and added again: the row takes what it is passed.\<close>

lemma readded_member_shown: "rc_user (admin_role_step r (UserPassed u) (admin_role_step r MemberDeleted st)) = u"
  by (simp add: admin_role_step_def)

end
