(* ===== verification/Auth_Session.thy ===== *)
theory Auth_Session
  imports Access_Control Web_Encoding Dashboard_Calls
begin

text \<open>
  Signing in and staying signed in. \<^verbatim>\<open>nodepkg/runtime/src/persist/index.ts\<close> keeps a value in the
  browser's storage; \<^verbatim>\<open>webapp/dashboard/mod/auth\<close> keeps the token with it (\<^verbatim>\<open>TokenProvider.ts\<close>),
  guards pages by it (\<^verbatim>\<open>MustLogon.tsx\<close>, \<^verbatim>\<open>MustLogout.tsx\<close>), sends the user through the login page
  and back (\<^verbatim>\<open>LoginCard.tsx\<close>, \<^verbatim>\<open>AuthProviderCallback.tsx\<close>) and puts the token into requests
  (\<^verbatim>\<open>TokenPatchFetcher.tsx\<close>); \<^verbatim>\<open>App.tsx\<close> completes them. \<^verbatim>\<open>JSON.parse\<close> and \<^verbatim>\<open>JSON.stringify\<close> are
  arguments.
\<close>

section \<open>Persistence\<close>

type_synonym storage = "(string \<times> string) list"

definition persist_store :: "(js \<Rightarrow> string) \<Rightarrow> string \<Rightarrow> js \<Rightarrow> storage \<Rightarrow> storage" where
  "persist_store json_stringify name v st =
     (if truthy v then AList.update name (json_stringify v) st else [])"

definition persist_load :: "(string \<Rightarrow> js option) \<Rightarrow> string \<Rightarrow> storage \<Rightarrow> js" where
  "persist_load json_parse name st =
     (case map_of st name of
        None \<Rightarrow> Null
      | Some s \<Rightarrow>
          if s = [] then Null
          else (case json_parse s of None \<Rightarrow> Null | Some v \<Rightarrow> v))"

definition persist_clear :: "string \<Rightarrow> storage \<Rightarrow> storage" where
  "persist_clear name st = AList.delete name st"

text \<open>
  What \<^verbatim>\<open>persist\<close> does with the values of the observable, of which \<^verbatim>\<open>distinctUntilChanged\<close> drops a
  repeated one. Objects are compared by identity, and every object emitted is a new one.
\<close>

record persisted =
  ps_value :: js
  ps_storage :: storage

definition persist_emit ::
    "(js \<Rightarrow> string) \<Rightarrow> string \<Rightarrow> js \<Rightarrow> persisted \<Rightarrow> persisted" where
  "persist_emit json_stringify name v st =
     \<lparr>ps_value = v,
      ps_storage =
        (if \<not> is_object v \<and> v = ps_value st then ps_storage st
         else persist_store json_stringify name v (ps_storage st))\<rparr>"

definition persist_create ::
    "(js \<Rightarrow> string) \<Rightarrow> (string \<Rightarrow> js option) \<Rightarrow> string \<Rightarrow> storage \<Rightarrow> persisted" where
  "persist_create json_stringify json_parse name st =
     (let stored = persist_load json_parse name st in
      \<lparr>ps_value = stored, ps_storage = persist_store json_stringify name stored st\<rparr>)"

section \<open>The token\<close>

text \<open>\<^verbatim>\<open>expiresIn\<close> at the time \<open>now\<close>; whatever fails on the way makes it 0.\<close>

definition expiry_of :: "int \<Rightarrow> js \<Rightarrow> js" where
  "expiry_of now v =
     (if nullish v then Num 0
      else (case to_number (member v ''exp'') of Num n \<Rightarrow> Num ((n - 30) * 1000 - now) | _ \<Rightarrow> NaN))"

definition expiresIn :: "(string \<Rightarrow> js option) \<Rightarrow> int \<Rightarrow> js \<Rightarrow> js" where
  "expiresIn json_parse now tokenStr =
     (case tokenStr of
        Str s \<Rightarrow>
          (case split_on (CHR ''.'') s of
             _ # payload # _ \<Rightarrow>
               (case atob payload of
                  None \<Rightarrow> Num 0
                | Some text \<Rightarrow>
                    (case json_parse text of None \<Rightarrow> Num 0 | Some v \<Rightarrow> expiry_of now v))
           | _ \<Rightarrow> Num 0)
      | _ \<Rightarrow> Num 0)"

definition validateToken :: "(string \<Rightarrow> js option) \<Rightarrow> int \<Rightarrow> js \<Rightarrow> bool" where
  "validateToken json_parse now tokenStr = less_than (Num 0) (expiresIn json_parse now tokenStr)"

definition token_of_response :: "js \<Rightarrow> js" where
  "token_of_response body =
     Obj [(''type'', member body ''type''),
          (''accessToken'', member body ''access_token''),
          (''refreshToken'', coalesce (member body ''refresh_token'') (Str '''')),
          (''id'', coalesce (member body ''id'') (Str ''''))]"

datatype session_event = Exchanged js | LoggedOut

fun session_step :: "(js \<Rightarrow> string) \<Rightarrow> string \<Rightarrow> session_event \<Rightarrow> persisted \<Rightarrow> persisted" where
  "session_step json_stringify name (Exchanged body) st =
     persist_emit json_stringify name (token_of_response body) st"
| "session_step json_stringify name LoggedOut st = persist_emit json_stringify name Null st"

section \<open>Guarded pages\<close>

text \<open>A navigation: the path and the query, or a location as a string.\<close>

datatype navigation = ReplacePath string "(string \<times> string) list" | ReplaceString string

definition mustLogon :: "bool \<Rightarrow> string \<Rightarrow> rendered \<times> navigation option" where
  "mustLogon valid fullPath =
     (if valid then (RenderChildren, None)
      else (RenderNothing, Some (ReplacePath ''/login'' [(''redirect_uri'', encodeURIComponent fullPath)])))"

definition mustLogout :: "bool \<Rightarrow> string option \<Rightarrow> rendered \<times> navigation option" where
  "mustLogout valid redirect_uri =
     (if valid then (RenderNothing, Some (ReplaceString (case redirect_uri of None \<Rightarrow> ''/'' | Some u \<Rightarrow> u)))
      else (RenderChildren, None))"

text \<open>\<^verbatim>\<open>useAuthState\<close>; \<open>None\<close> is an error of \<^verbatim>\<open>decodeURIComponent\<close> or of \<^verbatim>\<open>btoa\<close>.\<close>

definition useAuthState :: "string option \<Rightarrow> string option" where
  "useAuthState redirect_uri =
     (case decodeURIComponent (case redirect_uri of None \<Rightarrow> ''/'' | Some u \<Rightarrow> u) of
        None \<Rightarrow> None
      | Some u \<Rightarrow> btoa u)"

definition login_links :: "string \<Rightarrow> js list \<Rightarrow> call list" where
  "login_links authState providers =
     map (\<lambda>p. call authorize [(''name'', member p ''name''), (''state'', Str authState)])
       (filter (\<lambda>p. member p ''type'' = Str ''oauth'') providers)"

definition redirectUri :: "string option \<Rightarrow> string" where
  "redirectUri query_state =
     (case atob (case query_state of None \<Rightarrow> '''' | Some s \<Rightarrow> s) of None \<Rightarrow> ''/'' | Some u \<Rightarrow> u)"

definition exchange_call :: "string \<Rightarrow> js \<Rightarrow> call" where
  "exchange_call name code = call exchangeToken [(''name'', Str name), (''body'', Obj [(''code'', code)])]"

definition on_exchanged :: "string option \<Rightarrow> navigation" where
  "on_exchanged query_state = ReplaceString (redirectUri query_state)"

definition relogin_link :: "string option \<Rightarrow> string" where
  "relogin_link query_state = ''/login?redirect_uri='' @ encodeURIComponent (redirectUri query_state)"

section \<open>Requests with the token\<close>

definition AuthorizationInQuery :: string where
  "AuthorizationInQuery = ''x-param-header-Authorization''"

definition bearer :: "js \<Rightarrow> string" where
  "bearer token = ''Bearer '' @ to_str (member token ''accessToken'')"

definition patch_request :: "js \<Rightarrow> request \<Rightarrow> request" where
  "patch_request token rq =
     rq\<lparr>rq_params := spread (rq_params rq)
          (if obj_has (rq_params rq) AuthorizationInQuery
           then [(AuthorizationInQuery, Str (bearer token))] else []),
        rq_headers := AList.update ''Authorization'' (bearer token) (rq_headers rq)\<rparr>"

definition patch_href :: "js \<Rightarrow> request \<Rightarrow> request" where
  "patch_href token rq =
     patch_request token (rq\<lparr>rq_params := spread (rq_params rq) [(AuthorizationInQuery, Str '''')]\<rparr>)"

text \<open>\<^verbatim>\<open>fixBaseURL\<close> and the interceptor of the application's fetcher, in a page at \<open>origin\<close>.\<close>

definition fixBaseURL :: "string \<Rightarrow> string \<Rightarrow> string \<Rightarrow> string" where
  "fixBaseURL protocol origin baseURL =
     (if baseURL \<noteq> [] then (if starts_with baseURL ''//'' then protocol @ baseURL else baseURL) else origin)"

definition absolute_url :: "string \<Rightarrow> bool" where
  "absolute_url url \<longleftrightarrow> starts_with url ''//'' \<or> starts_with url ''http:'' \<or> starts_with url ''https://''"

definition ends_with :: "string \<Rightarrow> string \<Rightarrow> bool" where
  "ends_with s p = starts_with (rev s) (rev p)"

definition complete_request :: "string \<Rightarrow> string \<Rightarrow> string \<Rightarrow> request \<Rightarrow> request" where
  "complete_request protocol origin baseURL rq =
     rq\<lparr>rq_url := (if absolute_url (rq_url rq) then rq_url rq else fixBaseURL protocol origin baseURL @ rq_url rq),
        rq_params := (if ends_with protocol ''s:'' then AList.update ''secure'' (Bool True) (rq_params rq) else rq_params rq)\<rparr>"

section \<open>Storage and session agree\<close>

text \<open>
  What the session relies on of JSON, for the values \<open>ok\<close> it meets: they are read back as they
  were written, their text is never empty, and nothing else is read.
\<close>

definition json_codec :: "(js \<Rightarrow> bool) \<Rightarrow> (js \<Rightarrow> string) \<Rightarrow> (string \<Rightarrow> js option) \<Rightarrow> bool" where
  "json_codec ok json_stringify json_parse \<longleftrightarrow>
     ok Null \<and>
     (\<forall>v. ok v \<longrightarrow> json_stringify v \<noteq> [] \<and> json_parse (json_stringify v) = Some v) \<and>
     (\<forall>s v. json_parse s = Some v \<longrightarrow> ok v)"

fun ok_event :: "(js \<Rightarrow> bool) \<Rightarrow> session_event \<Rightarrow> bool" where
  "ok_event ok (Exchanged body) = ok (token_of_response body)"
| "ok_event ok LoggedOut = True"

inductive session_reach ::
    "(js \<Rightarrow> bool) \<Rightarrow> (js \<Rightarrow> string) \<Rightarrow> (string \<Rightarrow> js option) \<Rightarrow> string \<Rightarrow> storage \<Rightarrow> persisted \<Rightarrow> bool"
  for ok json_stringify json_parse name st0 where
  opened: "session_reach ok json_stringify json_parse name st0 (persist_create json_stringify json_parse name st0)"
| stepped: "session_reach ok json_stringify json_parse name st0 st \<Longrightarrow> ok_event ok e \<Longrightarrow>
    session_reach ok json_stringify json_parse name st0 (session_step json_stringify name e st)"

lemma load_after_store:
  "json_codec ok json_stringify json_parse \<Longrightarrow> ok v \<Longrightarrow>
   persist_load json_parse name (persist_store json_stringify name v st) = (if truthy v then v else Null)"
  by (simp add: persist_load_def persist_store_def json_codec_def update_conv')

lemma persist_load_ok: "json_codec ok json_stringify json_parse \<Longrightarrow> ok (persist_load json_parse name st)"
  by (auto simp: persist_load_def json_codec_def split: option.splits)

definition stored_is_current :: "(string \<Rightarrow> js option) \<Rightarrow> string \<Rightarrow> persisted \<Rightarrow> bool" where
  "stored_is_current json_parse name st \<longleftrightarrow>
     persist_load json_parse name (ps_storage st) = (if truthy (ps_value st) then ps_value st else Null)"

lemma emit_stored:
  assumes "json_codec ok json_stringify json_parse" and "ok v" and "stored_is_current json_parse name st"
  shows "stored_is_current json_parse name (persist_emit json_stringify name v st)"
  using assms load_after_store [OF assms(1,2)] by (simp add: stored_is_current_def persist_emit_def)

text \<open>
  C20. After any sequence of sign-ins and sign-outs, and whatever the storage held at first, a
  reload finds exactly the token of the session, and none once the user signed out.
\<close>

theorem session_survives_reload:
  assumes "json_codec ok json_stringify json_parse"
    and "session_reach ok json_stringify json_parse name st0 st"
  shows "persist_load json_parse name (ps_storage st) = (if truthy (ps_value st) then ps_value st else Null)"
proof -
  have Null: "ok Null" using assms(1) by (simp add: json_codec_def)
  have "stored_is_current json_parse name st"
    using assms(2)
  proof (induction rule: session_reach.induct)
    case opened
    show ?case
      using load_after_store [OF assms(1) persist_load_ok [OF assms(1)]]
      by (simp add: stored_is_current_def persist_create_def Let_def)
  next
    case (stepped st e)
    then show ?case by (cases e) (auto intro!: emit_stored [OF assms(1)] Null)
  qed
  then show ?thesis by (simp add: stored_is_current_def)
qed

definition demo_body :: js where
  "demo_body = Obj [(''type'', Str ''Bearer''), (''access_token'', Str ''a.b.c'')]"

definition demo_ok :: "js \<Rightarrow> bool" where
  "demo_ok v = (v = Null \<or> v = token_of_response demo_body)"

definition demo_stringify :: "js \<Rightarrow> string" where
  "demo_stringify v = (if v = Null then ''null'' else ''{}'')"

definition demo_parse :: "string \<Rightarrow> js option" where
  "demo_parse s = (if s = ''null'' then Some Null else if s = ''{}'' then Some (token_of_response demo_body) else None)"

theorem session_survives_reload_witness:
  "persist_load demo_parse ''app/token''
     (ps_storage (session_step demo_stringify ''app/token'' (Exchanged demo_body)
        (session_step demo_stringify ''app/token'' LoggedOut
           (persist_create demo_stringify demo_parse ''app/token'' [(''theme'', ''dark'')]))))
   = token_of_response demo_body"
proof -
  have "json_codec demo_ok demo_stringify demo_parse"
    by (auto simp: json_codec_def demo_ok_def demo_stringify_def demo_parse_def token_of_response_def)
  note reload = session_survives_reload [OF this]
  show ?thesis
    by (subst reload, rule session_reach.stepped, rule session_reach.stepped, rule session_reach.opened)
      (simp_all add: demo_ok_def persist_emit_def token_of_response_def)
qed


definition demo_claims :: "string \<Rightarrow> js option" where
  "demo_claims text = (if text = ''{}'' then Some (Obj [(''exp'', Num 100)]) else None)"


text \<open>
  C22. A user sent to the login page comes back, after the exchange, to the very page that was
  asked for.
\<close>

theorem login_returns:
  assumes "ascii fullPath" and "mustLogon valid fullPath = (r, Some (ReplacePath path query))"
  shows "\<exists>state. useAuthState (map_of query ''redirect_uri'') = Some state
    \<and> on_exchanged (Some state) = ReplaceString fullPath"
proof -
  have uri: "map_of query ''redirect_uri'' = Some (encodeURIComponent fullPath)"
    using assms(2) by (auto simp: mustLogon_def split: if_splits)
  obtain state where state: "btoa fullPath = Some state" using assms(1) by (simp add: btoa_def)
  then have "useAuthState (map_of query ''redirect_uri'') = Some state"
    using decode_encode_component [OF ascii_utf8 [OF assms(1)]] by (simp add: useAuthState_def uri)
  then show ?thesis using atob_btoa [OF state] by (auto simp: on_exchanged_def redirectUri_def)
qed

theorem login_returns_witness:
  "\<exists>state. useAuthState (map_of [(''redirect_uri'', encodeURIComponent ''/groups/a?b=%2F'')] ''redirect_uri'') = Some state
    \<and> on_exchanged (Some state) = ReplaceString ''/groups/a?b=%2F''"
proof (rule login_returns)
  show "ascii ''/groups/a?b=%2F''" by (simp add: ascii_def)
  show "mustLogon False ''/groups/a?b=%2F''
      = (RenderNothing, Some (ReplacePath ''/login'' [(''redirect_uri'', encodeURIComponent ''/groups/a?b=%2F'')]))"
    by (simp add: mustLogon_def)
qed

lemma operations_params: "list_all (\<lambda>op. AuthorizationInQuery \<notin> fst ` set (op_params op)) operations"
  by code_simp

lemma spread_Nil: "spread kvs [] = kvs"
  by (simp add: spread_def)

lemma spread_one_has: "obj_has (spread kvs [(k, v)]) k' \<longleftrightarrow> k' = k \<or> obj_has kvs k'"
  by (auto simp: spread_def obj_has_def dom_update)



section \<open>What goes wrong\<close>

text \<open>Opening the application signed out, or signing out, empties the storage of the origin.\<close>

lemma signed_out_clears_storage:
  "map_of st name = None \<Longrightarrow> ps_storage (persist_create json_stringify json_parse name st) = []"
  by (simp add: persist_create_def persist_load_def persist_store_def Let_def)

text \<open>The payload of a JSON Web Token is written in the URL alphabet, which \<^verbatim>\<open>atob\<close> does not read.\<close>

lemma values_of_foreign: "c \<in> set s \<Longrightarrow> b64_value c = None \<Longrightarrow> values_of s = None"
  by (induction s) (auto split: option.splits)

lemma url_alphabet_is_expired:
  assumes "c \<in> {CHR ''-'', CHR ''_''}" and "c \<in> set payload" and "CHR ''.'' \<notin> set header \<union> set payload"
  shows "expiresIn json_parse now (Str (join ''.'' [header, payload, signature])) = Num 0"
proof -
  have parts: "split_on (CHR ''.'') (join ''.'' [header, payload, signature]) = header # payload # split_on (CHR ''.'') signature"
    using assms(3) by (simp add: split_on_append)
  let ?t = "filter (\<lambda>c. \<not> is_ascii_space c) payload"
  have c: "c \<in> set ?t" "c \<noteq> CHR ''=''" "b64_value c = None"
    using assms(1,2) by (auto simp: is_ascii_space_def b64_value_def)
  have "c \<in> set (butlast u)" if "c \<in> set u" "last u = CHR ''=''" for u
    using that c(2) by (cases u rule: rev_cases) auto
  with c have "c \<in> set (strip_padding ?t)" by (auto simp: strip_padding_def Let_def)
  then have "atob payload = None" by (simp add: atob_def values_of_foreign [OF _ c(3)])
  then show ?thesis unfolding expiresIn_def js.case parts by simp
qed

text \<open>A signed-in user on the login page is sent to the location still encoded.\<close>

lemma logout_page_keeps_encoding:
  "mustLogon False ''/groups'' = (RenderNothing, Some (ReplacePath ''/login'' [(''redirect_uri'', ''%2Fgroups'')]))"
  "mustLogout True (Some ''%2Fgroups'') = (RenderNothing, Some (ReplaceString ''%2Fgroups''))"
  by code_simp+

text \<open>
  The link after a failed exchange is encoded once, and the router decodes it: the login page
  decodes it again.
\<close>

lemma relogin_decodes_twice:
  "relogin_link (btoa ''/a?b=%2F'') = ''/login?redirect_uri='' @ ''%2Fa%3Fb%3D%252F''"
  "query_decode ''%2Fa%3Fb%3D%252F'' = ''/a?b=%2F''"
  "map_option (\<lambda>state. redirectUri (Some state)) (useAuthState (Some ''/a?b=%2F'')) = Some ''/a?b=/''"
  by code_simp+

end
