(* ===== verification/Pages.thy ===== *)
theory Pages
  imports Auth_Session Group_Env
begin

text \<open>
  Pages of \<^verbatim>\<open>webapp/dashboard/page\<close> that do more than name a component: the guards around the home and
  the login page, the callback of the login (\<^verbatim>\<open>AuthProviderCallback.tsx\<close>), the playground's address, and
  the pages of an environment, which look it up in the environments of the group by the parameter of
  the route. The router keeps a page set up while only its parameters change.
\<close>

section \<open>Texts\<close>

definition authorizing_text :: string where
  "authorizing_text =
     [CHR 0xE8, CHR 0xAE, CHR 0xA4, CHR 0xE8, CHR 0xAF, CHR 0x81, CHR 0xE4, CHR 0xB8, CHR 0xAD] @
     '' ...''"

definition login_again_text :: string where
  "login_again_text =
     [CHR 0xE9, CHR 0x87, CHR 0x8D, CHR 0xE6, CHR 0x96, CHR 0xB0, CHR 0xE7, CHR 0x99, CHR 0xBB,
     CHR 0xE5, CHR 0xBD, CHR 0x95]"

definition admin_title :: string where
  "admin_title =
     [CHR 0xE7, CHR 0xB3, CHR 0xBB, CHR 0xE7, CHR 0xBB, CHR 0x9F, CHR 0xE7, CHR 0xAE, CHR 0xA1,
     CHR 0xE7, CHR 0x90, CHR 0x86]"

definition login_before :: string where
  "login_before =
     [CHR 0xE9, CHR 0x80, CHR 0x9A, CHR 0xE8, CHR 0xBF, CHR 0x87] @ '' ''"

definition login_after :: string where
  "login_after =
     '' '' @ [CHR 0xE7, CHR 0x99, CHR 0xBB, CHR 0xE5, CHR 0xBD, CHR 0x95]"

section \<open>Home, login and the playground\<close>

definition admin_link :: "js \<Rightarrow> (string \<times> string) option" where
  "admin_link user = (if renderMustAdmin user = RenderChildren then Some (admin_title, ''/admin'') else None)"

text \<open>The home page: what its frame offers, when it is shown, and where it sends the browser.\<close>

definition home_page :: "bool \<Rightarrow> string \<Rightarrow> js \<Rightarrow> (string \<times> string) option option \<times> navigation option" where
  "home_page valid fullPath user =
     (case mustLogon valid fullPath of
        (RenderChildren, nav) \<Rightarrow> (Some (admin_link user), nav)
      | (_, nav) \<Rightarrow> (None, nav))"

text \<open>The login page: a link for each provider, which begins the login with the page to return to.\<close>

definition login_buttons :: "string \<Rightarrow> js list \<Rightarrow> (string \<times> call) list" where
  "login_buttons authState providers =
     map (\<lambda>c. (login_before @ to_str (member (snd c) ''name'') @ login_after, c)) (login_links authState providers)"

definition login_page ::
    "bool \<Rightarrow> string option \<Rightarrow> js list \<Rightarrow> ((string \<times> call) list option) option \<times> navigation option" where
  "login_page valid redirect_uri providers =
     (case mustLogout valid redirect_uri of
        (RenderChildren, nav) \<Rightarrow>
          (Some (map_option (\<lambda>s. login_buttons s providers) (useAuthState redirect_uri)), nav)
      | (_, nav) \<Rightarrow> (None, nav))"

definition openapi_page :: "js \<Rightarrow> js" where
  "openapi_page query = member query ''spec''"

section \<open>The callback of the login\<close>

record callback_state =
  cb_session :: persisted
  cb_calls :: "call list"
  cb_requesting :: bool
  cb_error :: "js option"
  cb_nav :: "navigation option"

datatype callback_event =
    CallbackMounted
  | CallbackRequesting bool
  | CallbackExchanged js
  | CallbackFailed js

fun callback_step ::
    "(js \<Rightarrow> string) \<Rightarrow> string \<Rightarrow> string \<Rightarrow> js \<Rightarrow> string option \<Rightarrow> callback_event \<Rightarrow> callback_state \<Rightarrow> callback_state" where
  "callback_step json_stringify store name code query_state CallbackMounted st =
     st\<lparr>cb_calls := cb_calls st @ [exchange_call name code]\<rparr>"
| "callback_step json_stringify store name code query_state (CallbackRequesting b) st = st\<lparr>cb_requesting := b\<rparr>"
| "callback_step json_stringify store name code query_state (CallbackExchanged body) st =
     st\<lparr>cb_session := session_step json_stringify store (Exchanged body) (cb_session st),
        cb_nav := Some (on_exchanged query_state)\<rparr>"
| "callback_step json_stringify store name code query_state (CallbackFailed err) st = st\<lparr>cb_error := Some err\<rparr>"

definition callback_view :: "string option \<Rightarrow> callback_state \<Rightarrow> string option \<times> (string \<times> string \<times> string) option" where
  "callback_view query_state st =
     (if cb_requesting st then Some authorizing_text else None,
      map_option (\<lambda>err. (to_str (member err ''msg''), relogin_link query_state, login_again_text)) (cb_error st))"

text \<open>
  The way back from the login: the page left for the login is the one the callback goes to, whatever
  happens on the way there, and the token it has by then is the one of the answer.
\<close>

lemma callback_nav_fixed:
  "cb_nav (fold (callback_step json_stringify store name code query_state) es st) \<in> {cb_nav st, Some (on_exchanged query_state)}"
proof (induction es arbitrary: st)
  case (Cons e es)
  show ?case
    using Cons.IH [of "callback_step json_stringify store name code query_state e st"] by (cases e) auto
qed simp

lemma callback_token:
  "ps_value (cb_session (callback_step json_stringify store name code query_state (CallbackExchanged body) st))
     = token_of_response body"
  by (simp add: persist_emit_def)

section \<open>The pages of an environment\<close>

text \<open>
  The page of the deployments follows the environments and the parameter; the page that makes a
  deployment only follows the environments, and reads the parameter when they change.
\<close>

record env_pages =
  ep_data :: group_env_data
  ep_group :: string
  ep_env :: string
  ep_list :: js
  ep_create :: js

datatype env_page_event = EnvsEmitted group_env_data | ParamsPassed string string

definition env_of :: "group_env_data \<Rightarrow> string \<Rightarrow> js" where
  "env_of ge env = obj_get (ge_envs ge) env"

definition env_pages_init :: "string \<Rightarrow> string \<Rightarrow> group_env_data \<Rightarrow> env_pages" where
  "env_pages_init g env ge =
     \<lparr>ep_data = ge, ep_group = g, ep_env = env, ep_list = env_of ge env, ep_create = env_of ge env\<rparr>"

fun env_pages_step :: "env_page_event \<Rightarrow> env_pages \<Rightarrow> env_pages" where
  "env_pages_step (EnvsEmitted ge) st =
     st\<lparr>ep_data := ge, ep_list := env_of ge (ep_env st), ep_create := env_of ge (ep_env st)\<rparr>"
| "env_pages_step (ParamsPassed g env) st =
     st\<lparr>ep_group := g, ep_env := env, ep_list := env_of (ep_data st) env\<rparr>"

definition env_pages_run :: "env_page_event list \<Rightarrow> env_pages \<Rightarrow> env_pages" where
  "env_pages_run es st = fold env_pages_step es st"

definition list_page :: "env_pages \<Rightarrow> (string \<times> string \<times> js) option" where
  "list_page st =
     (if truthy (ep_list st) then Some (ep_group st @ ''/'' @ ep_env st, ep_group st, ep_list st) else None)"

definition create_page :: "env_pages \<Rightarrow> (string \<times> js) option" where
  "create_page st =
     (if truthy (ep_create st) then Some (ge_groupName (ep_data st), ep_create st) else None)"

text \<open>Whatever comes, the list is that of the environment the address names, as it is known last.\<close>

fun last_data :: "group_env_data \<Rightarrow> env_page_event list \<Rightarrow> group_env_data" where
  "last_data ge [] = ge"
| "last_data ge (EnvsEmitted ge' # es) = last_data ge' es"
| "last_data ge (e # es) = last_data ge es"

fun last_params :: "string \<times> string \<Rightarrow> env_page_event list \<Rightarrow> string \<times> string" where
  "last_params p [] = p"
| "last_params p (ParamsPassed g env # es) = last_params (g, env) es"
| "last_params p (e # es) = last_params p es"

lemma env_pages_state:
  assumes "ep_list st = env_of (ep_data st) (ep_env st)"
  shows "ep_data (env_pages_run es st) = last_data (ep_data st) es"
    and "(ep_group (env_pages_run es st), ep_env (env_pages_run es st)) = last_params (ep_group st, ep_env st) es"
    and "ep_list (env_pages_run es st) = env_of (ep_data (env_pages_run es st)) (ep_env (env_pages_run es st))"
proof -
  have "ep_data (env_pages_run es st) = last_data (ep_data st) es
      \<and> (ep_group (env_pages_run es st), ep_env (env_pages_run es st)) = last_params (ep_group st, ep_env st) es
      \<and> ep_list (env_pages_run es st) = env_of (ep_data (env_pages_run es st)) (ep_env (env_pages_run es st))"
    using assms
  proof (induction es arbitrary: st)
    case (Cons e es)
    then show ?case using Cons.IH [of "env_pages_step e st"] by (cases e) (simp_all add: env_pages_run_def)
  qed (simp add: env_pages_run_def)
  then show "ep_data (env_pages_run es st) = last_data (ep_data st) es"
    and "(ep_group (env_pages_run es st), ep_env (env_pages_run es st)) = last_params (ep_group st, ep_env st) es"
    and "ep_list (env_pages_run es st) = env_of (ep_data (env_pages_run es st)) (ep_env (env_pages_run es st))"
    by blast+
qed

theorem list_page_follows_address:
  assumes "st = env_pages_run es (env_pages_init g env ge)" and "last_params (g, env) es = (g', env')"
  shows "list_page st =
    (let e = env_of (last_data ge es) env' in if truthy e then Some (g' @ ''/'' @ env', g', e) else None)"
  using env_pages_state [of "env_pages_init g env ge" es] assms
  by (simp add: list_page_def env_pages_init_def Let_def)

text \<open>
  The page that makes a deployment does not: when the address changes to another environment of the
  group, it still deploys into the one before, until the environments change.
\<close>

theorem create_page_keeps_env:
  assumes "truthy (env_of ge a)"
  shows "create_page (env_pages_run [ParamsPassed g b] (env_pages_init g a ge)) = Some (ge_groupName ge, env_of ge a)"
  using assms by (simp add: create_page_def env_pages_run_def env_pages_init_def)

text \<open>The home page offers the administration only to administrators who are signed in.\<close>

lemma admin_link_guarded:
  "home_page valid fullPath user = (Some (Some link), nav) \<Longrightarrow>
   valid \<and> nav = None \<and> truthy (member user ''adminRole'') \<and> \<not> loose_eq (member user ''adminRole'') (Str ''GUEST'')"
  by (auto simp: home_page_def mustLogon_def admin_link_def renderMustAdmin_def split: if_splits)

end
