(* ===== verification/Playground_Page.thy ===== *)
theory Playground_Page
  imports OpenAPI_Request Editor_Context
begin

text \<open>
  The page of the playground: \<^verbatim>\<open>OpenAPIPlayground\<close> (\<^verbatim>\<open>nodepkg/openapi-playground/src/OpenAPI.tsx\<close>), which
  fetches the document its property names, and \<^verbatim>\<open>RequestPlayground\<close>, \<^verbatim>\<open>Playground\<close>, \<^verbatim>\<open>RequestSubmit\<close>
  and \<^verbatim>\<open>Documents\<close> (\<^verbatim>\<open>RequestPlayground.tsx\<close>), which edit an input, send the request made of it and show
  what was answered. The parts are \<^verbatim>\<open>OpenAPI_Schema\<close>, \<^verbatim>\<open>OpenAPI_Request\<close> and \<^verbatim>\<open>Editor_Context\<close>; here they
  are put together with what is kept from one document to the next.
\<close>

section \<open>A playground\<close>

text \<open>
  \<^verbatim>\<open>RequestPlayground\<close> converts the document and makes its editor when it is set up, so both last as
  long as its key. The requests are made with the document of the present property.
\<close>

record playground =
  pl_key :: string
  pl_schema :: "js sres"
  pl_editing :: editing
  pl_docs :: documents
  pl_requests :: "playground_request sres list"
  pl_requesting :: bool
  pl_resp :: js

definition empty_input :: string where
  "empty_input = ''{}''"

definition playground_init :: "lodash \<Rightarrow> nat \<Rightarrow> string \<Rightarrow> js \<Rightarrow> playground" where
  "playground_init L n key openapi =
     \<lparr>pl_key = key, pl_schema = convertToRequestSchema L n openapi,
      pl_editing = \<lparr>eg_doc = empty_input, eg_lints = [], eg_timers = 0, eg_sent = []\<rparr>,
      pl_docs = \<lparr>dc_path = None, dc_crumbs = []\<rparr>, pl_requests = [], pl_requesting = False, pl_resp = Obj []\<rparr>"

datatype playground_event =
    Typed string "lint list"
  | LintRan
  | SubmitKey
  | SubmitClicked
  | TimerFired
  | InDocuments documents_event
  | Requesting bool
  | Responded js

text \<open>
  The package that sends requests reports whether one is under way; the button is disabled while
  one is, the key is not. What the timer emits is turned into a request at once.
\<close>

definition edited ::
    "lodash \<Rightarrow> js \<Rightarrow> linter \<Rightarrow> (string \<Rightarrow> string + js) \<Rightarrow> editing_event \<Rightarrow> playground \<Rightarrow> playground" where
  "edited L openapi lint json_parse e pl =
     (let eg = editing_step lint json_parse (\<lambda>v. v) e (pl_editing pl) in
      pl\<lparr>pl_editing := eg,
         pl_requests := pl_requests pl
           @ map (playground_request L openapi) (drop (length (eg_sent (pl_editing pl))) (eg_sent eg))\<rparr>)"

definition in_documents :: "lodash \<Rightarrow> nat \<Rightarrow> js \<Rightarrow> documents_event \<Rightarrow> playground \<Rightarrow> playground" where
  "in_documents L n schema e pl =
     (case documents_step L n schema e (pl_docs pl) of Inl err \<Rightarrow> pl | Inr ds \<Rightarrow> pl\<lparr>pl_docs := ds\<rparr>)"

fun playground_handle ::
    "lodash \<Rightarrow> nat \<Rightarrow> js \<Rightarrow> js \<Rightarrow> linter \<Rightarrow> (string \<Rightarrow> string + js) \<Rightarrow> playground_event \<Rightarrow> playground \<Rightarrow> playground" where
  "playground_handle L n schema openapi lint json_parse (Typed doc ds) pl = edited L openapi lint json_parse (Changed doc ds) pl"
| "playground_handle L n schema openapi lint json_parse LintRan pl = edited L openapi lint json_parse Linted pl"
| "playground_handle L n schema openapi lint json_parse SubmitKey pl = edited L openapi lint json_parse Executed pl"
| "playground_handle L n schema openapi lint json_parse SubmitClicked pl =
     (if pl_requesting pl then pl else edited L openapi lint json_parse Executed pl)"
| "playground_handle L n schema openapi lint json_parse TimerFired pl = edited L openapi lint json_parse Fired pl"
| "playground_handle L n schema openapi lint json_parse (InDocuments e) pl = in_documents L n schema e pl"
| "playground_handle L n schema openapi lint json_parse (Requesting b) pl = pl\<lparr>pl_requesting := b\<rparr>"
| "playground_handle L n schema openapi lint json_parse (Responded resp) pl = pl\<lparr>pl_resp := resp\<rparr>"

text \<open>A playground whose schema could not be made has nothing in the page. \<open>lints\<close> is the linter of a schema.\<close>

definition playground_step ::
    "lodash \<Rightarrow> nat \<Rightarrow> (js \<Rightarrow> linter) \<Rightarrow> (string \<Rightarrow> string + js) \<Rightarrow> js \<Rightarrow> playground_event \<Rightarrow> playground \<Rightarrow> playground" where
  "playground_step L n lints json_parse openapi e pl =
     (case pl_schema pl of
        Inl err \<Rightarrow> pl
      | Inr schema \<Rightarrow> playground_handle L n schema openapi (lints schema) json_parse e pl)"

text \<open>The answer shown, of a request that failed too; instructions before the first.\<close>

datatype answer_view = TipsView | AnswerView js js

definition answer_view :: "js \<Rightarrow> answer_view" where
  "answer_view resp =
     (if truthy (member resp ''config'') then AnswerView (member resp ''config'') resp else TipsView)"

definition crumb_rows :: "lodash \<Rightarrow> playground \<Rightarrow> (string \<times> bool \<times> bool) list" where
  "crumb_rows L pl =
     (let labels = crumb_labels L (dc_crumbs (pl_docs pl)) in
      map (\<lambda>(i, s). (s, 0 < i, Suc i < length (dc_crumbs (pl_docs pl)))) (enumerate 0 labels))"

section \<open>The page\<close>

text \<open>
  \<^verbatim>\<open>switchMap\<close> leaves one request under way, the one of the last address that was not empty. An error
  ends the stream. \<open>origin\<close> is the origin of an address, None where \<^verbatim>\<open>new URL\<close> raises.
\<close>

record page =
  pg_spec :: string
  pg_pending :: "string option"
  pg_live :: bool
  pg_openapi :: js
  pg_playground :: "playground option"

datatype page_event =
    SpecPassed string
  | DocumentLoaded js
  | DocumentFailed
  | InPlayground playground_event

definition page_init :: page where
  "page_init = \<lparr>pg_spec = [], pg_pending = None, pg_live = True, pg_openapi = Obj [], pg_playground = None\<rparr>"

definition rendered_page :: "lodash \<Rightarrow> nat \<Rightarrow> page \<Rightarrow> page" where
  "rendered_page L n st =
     (case openapi_shown (pg_openapi st) of
        Playground d \<Rightarrow>
          (case pg_playground st of
             Some pl \<Rightarrow>
               if pl_key pl = pg_spec st then st
               else st\<lparr>pg_playground := Some (playground_init L n (pg_spec st) d)\<rparr>
           | None \<Rightarrow> st\<lparr>pg_playground := Some (playground_init L n (pg_spec st) d)\<rparr>)
      | _ \<Rightarrow> st\<lparr>pg_playground := None\<rparr>)"

definition spec_passed :: "string \<Rightarrow> page \<Rightarrow> page" where
  "spec_passed spec st =
     st\<lparr>pg_spec := spec, pg_pending := (if pg_live st \<and> spec \<noteq> [] then Some spec else pg_pending st)\<rparr>"

definition document_loaded :: "(string \<Rightarrow> string option) \<Rightarrow> js \<Rightarrow> page \<Rightarrow> page" where
  "document_loaded origin body st =
     (if \<not> pg_live st \<or> pg_pending st = None then st
      else let st' = st\<lparr>pg_pending := None\<rparr> in
        case origin (pg_spec st) of
          None \<Rightarrow> st'
        | Some url \<Rightarrow> (case patchOpenAPI body url of Inl e \<Rightarrow> st' | Inr d \<Rightarrow> st'\<lparr>pg_openapi := d\<rparr>))"

definition document_failed :: "page \<Rightarrow> page" where
  "document_failed st =
     (if \<not> pg_live st \<or> pg_pending st = None then st else st\<lparr>pg_live := False, pg_pending := None\<rparr>)"

definition in_playground ::
    "lodash \<Rightarrow> nat \<Rightarrow> (js \<Rightarrow> linter) \<Rightarrow> (string \<Rightarrow> string + js) \<Rightarrow> playground_event \<Rightarrow> page \<Rightarrow> page" where
  "in_playground L n lints json_parse e st =
     st\<lparr>pg_playground := map_option (playground_step L n lints json_parse (pg_openapi st) e) (pg_playground st)\<rparr>"

fun page_step ::
    "lodash \<Rightarrow> nat \<Rightarrow> (string \<Rightarrow> string option) \<Rightarrow> (js \<Rightarrow> linter) \<Rightarrow> (string \<Rightarrow> string + js)
     \<Rightarrow> page_event \<Rightarrow> page \<Rightarrow> page" where
  "page_step L n origin lints json_parse (SpecPassed spec) st = rendered_page L n (spec_passed spec st)"
| "page_step L n origin lints json_parse (DocumentLoaded body) st = rendered_page L n (document_loaded origin body st)"
| "page_step L n origin lints json_parse DocumentFailed st = document_failed st"
| "page_step L n origin lints json_parse (InPlayground e) st = in_playground L n lints json_parse e st"

definition page_run ::
    "lodash \<Rightarrow> nat \<Rightarrow> (string \<Rightarrow> string option) \<Rightarrow> (js \<Rightarrow> linter) \<Rightarrow> (string \<Rightarrow> string + js)
     \<Rightarrow> page_event list \<Rightarrow> page \<Rightarrow> page" where
  "page_run L n origin lints json_parse es st = fold (page_step L n origin lints json_parse) es st"

section \<open>What is requested\<close>

fun quiet_event :: "playground_event \<Rightarrow> bool" where
  "quiet_event (Typed doc ds) = False"
| "quiet_event e = True"

lemma edited_editing [simp]:
  "pl_editing (edited L openapi lint json_parse e pl) = editing_step lint json_parse (\<lambda>v. v) e (pl_editing pl)"
  by (simp add: edited_def Let_def)

lemma in_documents_editing [simp]: "pl_editing (in_documents L n schema e pl) = pl_editing pl"
  by (simp add: in_documents_def split: sum.split)

lemma schema_kept [simp]: "pl_schema (playground_step L n lints json_parse openapi e pl) = pl_schema pl"
  by (cases e) (simp_all add: playground_step_def edited_def in_documents_def Let_def split: sum.split)

lemma quiet_keeps_lint:
  assumes "pl_schema pl = Inr schema" and "linted (lints schema) (pl_editing pl)" and "quiet_event e"
  shows "linted (lints schema) (pl_editing (playground_step L n lints json_parse openapi e pl))
    \<and> eg_doc (pl_editing (playground_step L n lints json_parse openapi e pl)) = eg_doc (pl_editing pl)"
proof -
  note quiet = linted_quiet [OF assms(2), of Linted json_parse "\<lambda>v. v", simplified]
    linted_quiet [OF assms(2), of Executed json_parse "\<lambda>v. v", simplified]
    linted_quiet [OF assms(2), of Fired json_parse "\<lambda>v. v", simplified]
  show ?thesis using assms by (cases e) (simp_all add: playground_step_def quiet)
qed

lemma quiet_run:
  assumes "pl_schema pl = Inr schema" and "linted (lints schema) (pl_editing pl)" and "\<forall>e \<in> set es. quiet_event e"
  shows "linted (lints schema) (pl_editing (fold (playground_step L n lints json_parse openapi) es pl))
    \<and> eg_doc (pl_editing (fold (playground_step L n lints json_parse openapi) es pl)) = eg_doc (pl_editing pl)
    \<and> pl_schema (fold (playground_step L n lints json_parse openapi) es pl) = Inr schema"
  using assms
proof (induction es arbitrary: pl)
  case (Cons e es)
  have "quiet_event e" using Cons.prems(3) by simp
  note step = quiet_keeps_lint [where lints = lints, OF Cons.prems(1,2) this, of L n json_parse openapi]
  then show ?case
    using Cons.IH [of "playground_step L n lints json_parse openapi e pl"] Cons.prems by simp
qed simp

text \<open>
  What is requested when the text stays as it was at the key: the request of the document shown,
  in which the linter of the playground's schema finds nothing.
\<close>

theorem requested_is_valid:
  assumes "pl_schema pl = Inr schema" and "\<forall>e \<in> set es. quiet_event e"
    and "pl' = fold (playground_step L n lints json_parse openapi) (SubmitKey # es) pl"
    and "lints schema (eg_doc (pl_editing pl)) = Inr ds"
    and "pl_requests (playground_step L n lints json_parse openapi TimerFired pl') \<noteq> pl_requests pl'"
  shows "ds = [] \<and> (\<exists>v. json_parse (eg_doc (pl_editing pl)) = Inr v
    \<and> pl_requests (playground_step L n lints json_parse openapi TimerFired pl')
        = pl_requests pl' @ [playground_request L openapi v])"
proof -
  let ?key = "playground_step L n lints json_parse openapi SubmitKey pl"
  have key: "pl_editing ?key = execute (lints schema) (pl_editing pl)" "pl_schema ?key = Inr schema"
    by (simp add: assms(1) playground_step_def) (simp add: assms(1))
  have doc: "eg_doc (pl_editing ?key) = eg_doc (pl_editing pl)"
    by (simp add: key(1) execute_def force_lint_def split: sum.split)
  note run = quiet_run [where lints = lints, OF key(2) _ assms(2), of L n json_parse openapi]
  have kept: "linted (lints schema) (pl_editing pl')" "eg_doc (pl_editing pl') = eg_doc (pl_editing pl)"
    "pl_schema pl' = Inr schema"
    using run linted_executed [of "lints schema" "pl_editing pl"] by (simp_all add: assms(3) key(1) doc [symmetric])
  have step: "playground_step L n lints json_parse openapi TimerFired pl' = edited L openapi (lints schema) json_parse Fired pl'"
    using kept(3) by (simp add: playground_step_def)
  have "eg_sent (fire json_parse (\<lambda>v. v) (pl_editing pl')) \<noteq> eg_sent (pl_editing pl')"
    using assms(5) by (auto simp: step edited_def Let_def)
  from fired_sends [OF this] obtain v where "eg_lints (pl_editing pl') = []" "json_parse (eg_doc (pl_editing pl)) = Inr v"
    "eg_sent (fire json_parse (\<lambda>v. v) (pl_editing pl')) = eg_sent (pl_editing pl') @ [v]"
    using kept(2) by auto
  moreover have "eg_lints (pl_editing pl') = ds" using kept(1,2) assms(4) by (simp add: linted_def)
  ultimately show ?thesis by (auto simp: step edited_def Let_def)
qed

section \<open>What is kept too long\<close>

text \<open>
  The document that is under way when the address changes is dropped. But the playground is set up
  anew as soon as the address has changed, from the document before, and its schema stays: it checks
  and completes the inputs of the previous document, while the requests are those of the new one.
\<close>

theorem schema_of_previous_document:
  assumes "a \<noteq> b" and "b \<noteq> []" and "openapi_shown d = Playground d"
    and "st = \<lparr>pg_spec = a, pg_pending = None, pg_live = True, pg_openapi = d, pg_playground = Some pl\<rparr>"
    and "pl_key pl = a" and "origin b = Some url" and "patchOpenAPI body url = Inr d'"
    and "openapi_shown d' = Playground d'"
    and "st' = page_run L n origin lints json_parse [SpecPassed b, DocumentLoaded body] st"
  shows "pg_openapi st' = d'"
    and "map_option pl_schema (pg_playground st') = Some (convertToRequestSchema L n d)"
  using assms
  by (simp_all add: page_run_def rendered_page_def spec_passed_def document_loaded_def playground_init_def Let_def)

text \<open>A failure ends the stream, and no other document is ever loaded.\<close>

lemma dead_step:
  assumes "\<not> pg_live st"
  shows "\<not> pg_live (page_step L n origin lints json_parse e st)
    \<and> pg_openapi (page_step L n origin lints json_parse e st) = pg_openapi st"
  by (cases e)
    (use assms in \<open>auto simp: rendered_page_def spec_passed_def document_loaded_def document_failed_def in_playground_def
       split: openapi_view.split option.split\<close>)

theorem failure_is_final:
  assumes "pg_live st" and "pg_pending st = Some spec"
  shows "pg_openapi (page_run L n origin lints json_parse (DocumentFailed # es) st) = pg_openapi st"
proof -
  have "\<not> pg_live t \<Longrightarrow> pg_openapi (fold (page_step L n origin lints json_parse) es t) = pg_openapi t" for t
    by (induction es arbitrary: t) (use dead_step [of _ L n origin lints json_parse] in auto)
  then show ?thesis using assms by (simp add: page_run_def document_failed_def)
qed

text \<open>The key does not mind that a request is under way.\<close>

lemma key_repeats_request:
  assumes "pl_schema pl = Inr schema" and "pl_requesting pl"
  shows "playground_step L n lints json_parse openapi SubmitClicked pl = pl"
    and "eg_timers (pl_editing (playground_step L n lints json_parse openapi SubmitKey pl)) = Suc (eg_timers (pl_editing pl))"
  using assms by (simp_all add: playground_step_def execute_def force_lint_def split: sum.split)

end
