(* ===== verification/Schema_Flatten.thy ===== *)
theory Schema_Flatten
  imports OpenAPI_Schema
begin

text \<open>
  The \<^verbatim>\<open>SchemaVisitor\<close> of \<^verbatim>\<open>webapp/dashboard/mod/kubepkg/utils.ts\<close>, which flattens a schema: references are
  replaced by what they name and the members of an \<^verbatim>\<open>allOf\<close> are merged into one schema. Unlike that of
  the playground it keeps no definitions, so a schema that contains itself is visited without end,
  which is \<open>Overflow\<close>. A list of required names holds strings.
\<close>

section \<open>Merging members\<close>

definition annotations :: "js \<Rightarrow> obj" where
  "annotations schema = filter (\<lambda>(k, v). starts_with k ''x-'' \<or> k = ''description'') (own_props schema)"

fun uniq :: "js list \<Rightarrow> js list" where
  "uniq [] = []"
| "uniq (x # xs) = x # filter (\<lambda>y. y \<noteq> x) (uniq xs)"

text \<open>\<^verbatim>\<open>(f[k] || []).concat(v)\<close>; what is there already is an array \<^verbatim>\<open>uniq\<close> made.\<close>

definition concat_to :: "js \<Rightarrow> js \<Rightarrow> js list" where
  "concat_to have v = elems_or_none have @ (case v of Arr xs \<Rightarrow> xs | _ \<Rightarrow> [v])"

fun merge_member :: "string \<times> js \<Rightarrow> obj \<Rightarrow> obj" where
  "merge_member (k, v) f =
     (if k = ''properties'' then AList.update k (Obj (spread (own_props (obj_get f k)) (own_props v))) f
      else if k = ''required'' then AList.update k (Arr (uniq (concat_to (obj_get f k) v))) f
      else AList.update k v f)"

fun merge_all :: "(js \<Rightarrow> js sres) \<Rightarrow> js list \<Rightarrow> obj \<Rightarrow> obj sres" where
  "merge_all rec [] final = Inr final"
| "merge_all rec (s # ss) final =
     bindS (rec s) (\<lambda>next. merge_all rec ss (fold merge_member (own_props next) final))"

section \<open>Flattening\<close>

definition flatten_object :: "(js \<Rightarrow> js sres) \<Rightarrow> js \<Rightarrow> js sres" where
  "flatten_object rec schema =
     bindS (mapS (\<lambda>(k, s). bindS (rec s) (\<lambda>s'. Inr (k, s'))) (own_props (member schema ''properties''))) (\<lambda>ps.
       bindS (rec (if truthy (member schema ''propertyNames'') then member schema ''propertyNames''
                   else Obj [(''type'', Str ''string'')])) (\<lambda>names.
         bindS (if truthy (member schema ''additionalProperties'')
                then rec (object_or_empty (member schema ''additionalProperties'')) else Inr (Bool False)) (\<lambda>more.
           Inr (with_key (with_key (with_key schema ''properties'' (Obj ps)) ''propertyNames'' names)
             ''additionalProperties'' more))))"

definition flatten_schema :: "lodash \<Rightarrow> (js \<Rightarrow> js) \<Rightarrow> (js \<Rightarrow> js sres) \<Rightarrow> js \<Rightarrow> js sres" where
  "flatten_schema L resolve rec schema =
     (if \<not> is_object schema then Inl SchemaTypeError
      else if lo_has_str L schema ''oneOf'' then
        bindS (mapS rec (map snd (own_props (member schema ''oneOf'')))) (\<lambda>ss.
          Inr (with_key schema ''oneOf'' (Arr ss)))
      else if lo_has_str L schema ''allOf'' then
        bindS (spread_elems (member schema ''allOf'')) (\<lambda>ms.
          bindS (merge_all rec (ms @ [Obj (annotations schema)]) []) (\<lambda>f. rec (Obj f)))
      else if truthy (member schema ''$ref'') then rec (resolve (member schema ''$ref''))
      else if visitor_is_object L schema then flatten_object rec schema
      else if visitor_is_array L schema then
        bindS (rec (member schema ''items'')) (\<lambda>s. Inr (with_key schema ''items'' s))
      else Inr schema)"

definition flatten_step ::
    "lodash \<Rightarrow> (js \<Rightarrow> js) \<Rightarrow> (js \<Rightarrow> js) list \<Rightarrow> (js \<Rightarrow> js sres) \<Rightarrow> js \<Rightarrow> js sres" where
  "flatten_step L resolve transformers rec schema =
     (if schema = Undef then Inr (Obj [])
      else flatten_schema L resolve rec (assign (fold (\<lambda>t s. t s) transformers schema) ''nullable'' Undef))"

primrec flatten :: "lodash \<Rightarrow> (js \<Rightarrow> js) \<Rightarrow> (js \<Rightarrow> js) list \<Rightarrow> nat \<Rightarrow> js \<Rightarrow> js sres" where
  "flatten L resolve transformers 0 = (\<lambda>schema. Inl Overflow)"
| "flatten L resolve transformers (Suc n) =
     flatten_step L resolve transformers (flatten L resolve transformers n)"

definition simplify :: "lodash \<Rightarrow> (js \<Rightarrow> js) \<Rightarrow> (js \<Rightarrow> js) list \<Rightarrow> nat \<Rightarrow> js \<Rightarrow> js sres" where
  "simplify L resolve transformers n rootSchema =
     bindS (flatten L resolve transformers n rootSchema) (\<lambda>v. Inr (Obj (AList.delete ''$ref'' (own_props v))))"

section \<open>What is flat\<close>

text \<open>
  A flat schema has no reference and no \<^verbatim>\<open>allOf\<close> to follow; beside a \<^verbatim>\<open>oneOf\<close> neither is looked at.
\<close>

fun flat :: "js \<Rightarrow> bool" where
  "flat v \<longleftrightarrow>
     (is_plain_object v \<longrightarrow> has_own v ''oneOf'' \<or> \<not> has_own v ''allOf'' \<and> \<not> truthy (member v ''$ref''))
     \<and> (\<forall>c \<in> set (branch_parts v). flat c)"

declare flat.simps [simp del]

lemma flat_plain: "\<not> is_plain_object v \<Longrightarrow> flat v"
  by (subst flat.simps) (simp add: branch_parts_def)

lemma flat_oneOf:
  "has_own v ''oneOf'' \<Longrightarrow> \<forall>c \<in> snd ` set (own_props (member v ''oneOf'')). flat c \<Longrightarrow> flat v"
  by (subst flat.simps) (auto simp: branch_parts_def)

lemma flat_object:
  assumes "\<not> has_own v ''oneOf''" "\<not> has_own v ''allOf''" "\<not> truthy (member v ''$ref'')" "object_like v"
    and "\<forall>c \<in> snd ` set (own_props (member v ''properties'')). flat c"
    and "flat (member v ''propertyNames'')" "flat (member v ''additionalProperties'')"
  shows "flat v"
  using assms by (subst flat.simps) (auto simp: branch_parts_def)

lemma flat_array:
  assumes "\<not> has_own v ''oneOf''" "\<not> has_own v ''allOf''" "\<not> truthy (member v ''$ref'')" "\<not> object_like v"
    and "flat (member v ''items'')"
  shows "flat v"
  using assms by (subst flat.simps) (auto simp: branch_parts_def)

lemma flat_leaf:
  assumes "\<not> has_own v ''oneOf''" "\<not> has_own v ''allOf''" "\<not> truthy (member v ''$ref'')" "\<not> object_like v"
    "\<not> array_like v"
  shows "flat v"
  using assms by (subst flat.simps) (auto simp: branch_parts_def)

context lodash_api begin

lemma flat_flatten_object:
  assumes rec: "\<And>s v. rec s = Inr v \<Longrightarrow> flat v" and s: "is_plain_object s"
    and branch: "\<not> has_own s ''oneOf''" "\<not> has_own s ''allOf''" "\<not> truthy (member s ''$ref'')" "object_like s"
    and result: "flatten_object rec s = Inr v"
  shows "flat v"
proof -
  let ?more = "if truthy (member s ''additionalProperties'')
    then rec (object_or_empty (member s ''additionalProperties'')) else Inr (Bool False)"
  obtain ps names more where parts:
    "mapS (\<lambda>(k, s). bindS (rec s) (\<lambda>s'. Inr (k, s'))) (own_props (member s ''properties'')) = Inr ps"
    "rec (if truthy (member s ''propertyNames'') then member s ''propertyNames'' else Obj [(''type'', Str ''string'')])
      = Inr names" "?more = Inr more"
    and v: "v = with_key (with_key (with_key s ''properties'' (Obj ps)) ''propertyNames'' names)
      ''additionalProperties'' more"
    using result unfolding flatten_object_def bindS_Inr by blast
  have flats: "flat names" "flat more"
    using rec [OF parts(2)] rec [of _ more] parts(3) by (auto simp: flat_plain split: if_splits)
  have "flat c" if "c \<in> snd ` set ps" for c
  proof -
    obtain k where "(k, c) \<in> set ps" using \<open>c \<in> snd ` set ps\<close> by auto
    from mapS_results [OF parts(1) this] show ?thesis using rec by (auto simp: bindS_Inr)
  qed
  with flats s branch show ?thesis
    unfolding v by - (rule flat_object, simp_all add: with_key_simps object_like_def)
qed

lemma flat_flatten_schema:
  assumes rec: "\<And>s v. rec s = Inr v \<Longrightarrow> flat v" and result: "flatten_schema L resolve rec s = Inr v"
  shows "flat v"
proof -
  have object: "is_object s" using result by (auto simp: flatten_schema_def split: if_splits)
  consider (arr) xs where "s = Arr xs" | (plain) "is_plain_object s" using object by (cases s) auto
  then show ?thesis
  proof cases
    case arr
    then have "v = Arr xs"
      using result array_schema [of xs]
      by (simp add: flatten_schema_def visitor_keys del: member.simps has_own.simps)
    then show ?thesis by (simp add: flat_plain)
  next
    case plain
    consider (oneOf) "has_own s ''oneOf''" | (allOf) "\<not> has_own s ''oneOf''" "has_own s ''allOf''"
      | (ref) "\<not> has_own s ''oneOf''" "\<not> has_own s ''allOf''" "truthy (member s ''$ref'')"
      | (none) "\<not> has_own s ''oneOf''" "\<not> has_own s ''allOf''" "\<not> truthy (member s ''$ref'')"
      by blast
    then show ?thesis
    proof cases
      case oneOf
      then obtain ss where ss: "mapS rec (map snd (own_props (member s ''oneOf''))) = Inr ss"
        "v = with_key s ''oneOf'' (Arr ss)"
        using result object by (auto simp: flatten_schema_def visitor_keys bindS_Inr)
      have "flat c" if "c \<in> set ss" for c using mapS_results [OF ss(1) that] rec by auto
      then show ?thesis
        unfolding ss(2) by - (rule flat_oneOf, auto simp: with_key_simps dest: set_zip_rightD)
    next
      case allOf
      then show ?thesis
        using result object rec by (auto simp: flatten_schema_def visitor_keys bindS_Inr)
    next
      case ref
      then show ?thesis using result object rec by (auto simp: flatten_schema_def visitor_keys)
    next
      case none
      consider "object_like s" | "\<not> object_like s" "array_like s" | "\<not> object_like s" "\<not> array_like s" by blast
      then show ?thesis
      proof cases
        case 1
        then show ?thesis
          using flat_flatten_object [OF rec plain none 1] result none object
          by (auto simp: flatten_schema_def visitor_keys)
      next
        case 2
        then obtain i where "rec (member s ''items'') = Inr i" "v = with_key s ''items'' i"
          using result none object by (auto simp: flatten_schema_def visitor_keys bindS_Inr)
        with rec [of "member s ''items''" i] none plain 2 show ?thesis
          by - (simp, rule flat_array, simp_all add: with_key_simps object_like_def)
      next
        case 3
        then show ?thesis
          using result none object flat_leaf by (auto simp: flatten_schema_def visitor_keys)
      qed
    qed
  qed
qed

lemma flatten_is_flat: "flatten L resolve transformers n s = Inr v \<Longrightarrow> flat v"
proof (induction n arbitrary: s v)
  case (Suc n)
  have "flat (Obj [])"
    by (rule flat_leaf) (simp_all add: obj_has_def obj_get_def object_like_def array_like_def)
  then show ?case
    using Suc.prems flat_flatten_schema [of "flatten L resolve transformers n", OF Suc.IH]
    by (auto simp: flatten_step_def split: if_splits)
qed simp

end

text \<open>A schema that refers to itself overflows, whatever the fuel.\<close>

lemma self_reference_overflows:
  assumes "lodash_ok L" and "resolve (Str ''#/self'') = Obj [(''$ref'', Str ''#/self'')]"
  shows "flatten L resolve [] n (Obj [(''$ref'', Str ''#/self'')]) = Inl Overflow"
proof (induction n)
  case (Suc n)
  note keys = lodash_api.visitor_keys [OF lodash_apiI [OF assms(1)]]
  show ?case
    using Suc assms(2) by (simp add: flatten_step_def flatten_schema_def keys obj_has_def obj_get_def)
qed simp

end
