(* ===== verification/Expression_Messages.thy ===== *)
theory Expression_Messages
  imports Expression
begin

text \<open>
  The message \<^verbatim>\<open>errMsg\<close> each function of an expression carries for the form that shows it, and
  \<^verbatim>\<open>defineExpression\<close>, by which the dashboard writes expressions (\<^verbatim>\<open>nodepkg/runtime/src/expression\<close>).
  \<open>source\<close> is the text of a function where a plain value is expected.
\<close>

text \<open>\<^verbatim>\<open>defineExpression(name, ...)\<close>: the function that writes an expression of that name.\<close>

definition define_expression :: "string \<Rightarrow> js list \<Rightarrow> js" where
  "define_expression name args = Arr (Str name # args)"

section \<open>Messages\<close>

definition msg_equal :: string where
  "msg_equal =
     [CHR 0xE9, CHR 0x9C, CHR 0x80, CHR 0xE8, CHR 0xA6, CHR 0x81, CHR 0xE6, CHR 0x98, CHR 0xAF] @
     '' ''"

definition msg_greater :: string where
  "msg_greater =
     [CHR 0xE9, CHR 0x9C, CHR 0x80, CHR 0xE8, CHR 0xA6, CHR 0x81, CHR 0xE5, CHR 0xA4, CHR 0xA7,
     CHR 0xE4, CHR 0xBA, CHR 0x8E] @ '' ''"

definition msg_at_least :: string where
  "msg_at_least =
     [CHR 0xE4, CHR 0xB8, CHR 0x8D, CHR 0xE5, CHR 0xBE, CHR 0x97, CHR 0xE5, CHR 0xB0, CHR 0x8F,
     CHR 0xE4, CHR 0xBA, CHR 0x8E] @ '' ''"

definition msg_less :: string where
  "msg_less =
     [CHR 0xE9, CHR 0x9C, CHR 0x80, CHR 0xE8, CHR 0xA6, CHR 0x81, CHR 0xE5, CHR 0xB0, CHR 0x8F,
     CHR 0xE4, CHR 0xBA, CHR 0x8E] @ '' ''"

definition msg_at_most :: string where
  "msg_at_most =
     [CHR 0xE4, CHR 0xB8, CHR 0x8D, CHR 0xE5, CHR 0xBE, CHR 0x97, CHR 0xE5, CHR 0xA4, CHR 0xA7,
     CHR 0xE4, CHR 0xBA, CHR 0x8E] @ '' ''"

definition msg_match :: string where
  "msg_match =
     [CHR 0xE5, CHR 0x8A, CHR 0xA1, CHR 0xE5, CHR 0xBF, CHR 0x85, CHR 0xE5, CHR 0x8C, CHR 0xB9,
     CHR 0xE9, CHR 0x85, CHR 0x8D] @ '' ''"

definition msg_required :: string where
  "msg_required =
     [CHR 0xE5, CHR 0x8A, CHR 0xA1, CHR 0xE5, CHR 0xBF, CHR 0x85, CHR 0xE5, CHR 0xA1, CHR 0xAB,
     CHR 0xE5, CHR 0x86, CHR 0x99]"

definition msg_count :: string where
  "msg_count =
     [CHR 0xE5, CHR 0xAD, CHR 0x97, CHR 0xE7, CHR 0xAC, CHR 0xA6, CHR 0xE6, CHR 0x95, CHR 0xB0]"

definition msg_and :: string where
  "msg_and =
     '', '' @ [CHR 0xE4, CHR 0xB8, CHR 0x94]"

definition msg_or :: string where
  "msg_or =
     '', '' @ [CHR 0xE6, CHR 0x88, CHR 0x96]"

definition msg_one_of :: string where
  "msg_one_of =
     '' '' @ [CHR 0xE4, CHR 0xB9, CHR 0x8B, CHR 0xE4, CHR 0xB8, CHR 0x80]"

definition msg_exactly_one :: string where
  "msg_exactly_one =
     [CHR 0xE9, CHR 0x9C, CHR 0x80, CHR 0xE6, CHR 0xBB, CHR 0xA1, CHR 0xE8, CHR 0xB6, CHR 0xB3,
     CHR 0xE4, CHR 0xBB, CHR 0xA5, CHR 0xE4, CHR 0xB8, CHR 0x8B, CHR 0xE4, CHR 0xBB, CHR 0xBB,
     CHR 0xE4, CHR 0xB8, CHR 0x80, CHR 0xE4, CHR 0xB8, CHR 0x94, CHR 0xE5, CHR 0x94, CHR 0xAF,
     CHR 0xE4, CHR 0xB8, CHR 0x80, CHR 0xE6, CHR 0x9D, CHR 0xA1, CHR 0xE4, CHR 0xBB, CHR 0xB6,
     CHR 0xEF, CHR 0xBC, CHR 0x9A]"

fun arg_text :: "(built \<Rightarrow> string) \<Rightarrow> built_arg \<Rightarrow> string" where
  "arg_text source (ArgVal v) = to_str v"
| "arg_text source (ArgExpr b) = source b"

text \<open>An element as \<^verbatim>\<open>join\<close> writes it.\<close>

fun item_text :: "(built \<Rightarrow> string) \<Rightarrow> built_arg \<Rightarrow> string" where
  "item_text source (ArgVal v) = (if nullish v then [] else to_str v)"
| "item_text source (ArgExpr b) = source b"

text \<open>
  \<open>None\<close> is a function without a message. Those of the parts are joined, less the empty ones and
  that of \<^verbatim>\<open>required\<close>.
\<close>

definition joined_messages :: "string \<Rightarrow> (efn \<times> string option) list \<Rightarrow> string" where
  "joined_messages sep ms =
     join sep (concat (map (\<lambda>(f, m). case m of
        None \<Rightarrow> []
      | Some s \<Rightarrow> if efn_type f \<noteq> ''required'' \<and> s \<noteq> [] then [s] else []) ms))"

fun errMsg :: "(built \<Rightarrow> string) \<Rightarrow> efn \<Rightarrow> string option" where
  "errMsg source F_noop = None"
| "errMsg source (F_allOf ctx fs) = Some (joined_messages msg_and (map (\<lambda>f. (f, errMsg source f)) fs))"
| "errMsg source (F_anyOf ctx fs) = Some (joined_messages msg_or (map (\<lambda>f. (f, errMsg source f)) fs))"
| "errMsg source F_charCount = Some msg_count"
| "errMsg source (F_eq a) = Some (msg_equal @ arg_text source a)"
| "errMsg source (F_get ctx a) = None"
| "errMsg source (F_gt a) = Some (msg_greater @ arg_text source a)"
| "errMsg source (F_gte a) = Some (msg_at_least @ arg_text source a)"
| "errMsg source (F_lt a) = Some (msg_less @ arg_text source a)"
| "errMsg source (F_lte a) = Some (msg_at_most @ arg_text source a)"
| "errMsg source (F_match a) = Some (msg_match @ arg_text source a)"
| "errMsg source (F_oneOfEnum as) =
     Some (if length as > 1 then msg_equal @ join '','' (map (item_text source) as) @ msg_one_of
           else msg_equal @ (case as of [] \<Rightarrow> ''undefined'' | a # _ \<Rightarrow> arg_text source a))"
| "errMsg source (F_oneOf ctx fs) =
     Some (msg_exactly_one @ joined_messages '';'' (map (\<lambda>f. (f, errMsg source f)) fs))"
| "errMsg source (F_pipe ctx fs) = Some (joined_messages [] (map (\<lambda>f. (f, errMsg source f)) fs))"
| "errMsg source F_required = Some msg_required"

section \<open>Lemmas\<close>

lemma defined_is_expression [simp]: "isExpression (define_expression name args)"
  by (simp add: define_expression_def)

lemma defined_creates:
  "(\<exists>b. create (define_expression (registered_name b0) args) = Inr b) \<longleftrightarrow> (\<exists>as. create_args args = Inr as)"
  by (cases b0) (auto simp: define_expression_def default_builders_def registered_name_def split: sum.splits)

text \<open>A length rule reads as one sentence: what is counted, then the bound on it.\<close>

lemma length_rule_message:
  "errMsg source (F_pipe ctx [F_charCount, F_lte (ArgVal (Num n))]) = Some (msg_count @ msg_at_most @ int_str n)"
  by (simp add: joined_messages_def msg_count_def msg_at_most_def)

text \<open>
  A conjunction is silent exactly when every part is \<^verbatim>\<open>required\<close> or has nothing to say, so a field that is
  only required shows no rule.
\<close>

lemma join_empty: "join sep ws = [] \<Longrightarrow> \<forall>w \<in> set ws. w \<noteq> [] \<Longrightarrow> ws = []"
  by (cases "(sep, ws)" rule: join.cases) auto

lemma silent_iff:
  "errMsg source (F_allOf ctx fs) = Some [] \<longleftrightarrow>
   (\<forall>f \<in> set fs. efn_type f = ''required'' \<or> errMsg source f = None \<or> errMsg source f = Some [])"
proof
  let ?ws = "concat (map (\<lambda>(f, m). case m of None \<Rightarrow> []
      | Some s \<Rightarrow> if efn_type f \<noteq> ''required'' \<and> s \<noteq> [] then [s] else []) (map (\<lambda>f. (f, errMsg source f)) fs))"
  assume "errMsg source (F_allOf ctx fs) = Some []"
  then have "join msg_and ?ws = []" by (simp add: joined_messages_def)
  moreover have "\<forall>w \<in> set ?ws. w \<noteq> []" by (auto split: option.splits if_splits)
  ultimately have "?ws = []" by (rule join_empty)
  then show "\<forall>f \<in> set fs. efn_type f = ''required'' \<or> errMsg source f = None \<or> errMsg source f = Some []"
    by (auto split: option.splits if_splits) (metis option.exhaust)
next
  assume "\<forall>f \<in> set fs. efn_type f = ''required'' \<or> errMsg source f = None \<or> errMsg source f = Some []"
  then have "concat (map (\<lambda>(f, m). case m of None \<Rightarrow> []
      | Some s \<Rightarrow> if efn_type f \<noteq> ''required'' \<and> s \<noteq> [] then [s] else []) (map (\<lambda>f. (f, errMsg source f)) fs)) = []"
    by (auto split: option.split)
  then show "errMsg source (F_allOf ctx fs) = Some []"
    unfolding errMsg.simps joined_messages_def by (simp only: join.simps)
qed

end
