(* ===== verification/Dashboard_Schemas.thy ===== *)
theory Dashboard_Schemas
  imports Dashboard_Types
begin

text \<open>
  The runtime schemas of \<^verbatim>\<open>webapp/dashboard/client/dashboard.ts\<close>, one definition per exported
  constant, in the order of the file. Descriptions given with \<^verbatim>\<open>annotate\<close> are left out.
\<close>

definition AccountIdSchema :: schema where
  "AccountIdSchema =
    SString"

definition AccountUserDataListSchema :: schema where
  "AccountUserDataListSchema =
    SObject [(''data'', SArray (SRef ''AccountUser'' ''AccountUserSchema'')),
     (''total'', SInteger)]"

definition AccountUserSchema :: schema where
  "AccountUserSchema =
    SIntersection [SRef ''Account'' ''AccountSchema'',
     SRef ''AccountUserInfo'' ''AccountUserInfoSchema'',
     SObject []]"

definition AccountSchema :: schema where
  "AccountSchema =
    SIntersection [SRef ''DatatypesPrimaryId'' ''DatatypesPrimaryIdSchema'',
     SRef ''DatatypesCreationUpdationDeletionTime'' ''DatatypesCreationUpdationDeletionTimeSchema'',
     SObject [(''accountID'', SRef ''AccountId'' ''AccountIdSchema''),
     (''accountType'', SRef ''AccountType'' ''AccountTypeSchema'')]]"

definition DatatypesPrimaryIdSchema :: schema where
  "DatatypesPrimaryIdSchema =
    SObject []"

definition DatatypesCreationUpdationDeletionTimeSchema :: schema where
  "DatatypesCreationUpdationDeletionTimeSchema =
    SIntersection [SRef ''DatatypesCreationUpdationTime'' ''DatatypesCreationUpdationTimeSchema'',
     SObject [(''deletedAt'', SOptional (SRef ''DatatypesTimestamp'' ''DatatypesTimestampSchema''))]]"

definition DatatypesCreationUpdationTimeSchema :: schema where
  "DatatypesCreationUpdationTimeSchema =
    SIntersection [SRef ''DatatypesCreationTime'' ''DatatypesCreationTimeSchema'',
     SObject [(''updatedAt'', SRef ''DatatypesTimestamp'' ''DatatypesTimestampSchema'')]]"

definition DatatypesCreationTimeSchema :: schema where
  "DatatypesCreationTimeSchema =
    SObject [(''createdAt'', SRef ''DatatypesTimestamp'' ''DatatypesTimestampSchema'')]"

definition DatatypesTimestampSchema :: schema where
  "DatatypesTimestampSchema =
    SString"

definition AccountTypeSchema :: schema where
  "AccountTypeSchema =
    SNativeEnum AccountType"

definition AccountUserInfoSchema :: schema where
  "AccountUserInfoSchema =
    SObject [(''email'', SOptional (SString)),
     (''mobile'', SOptional (SString)),
     (''nickname'', SOptional (SString))]"

definition GroupRoleTypeSchema :: schema where
  "GroupRoleTypeSchema =
    SNativeEnum GroupRoleType"

definition GroupUserDataListSchema :: schema where
  "GroupUserDataListSchema =
    SObject [(''data'', SArray (SRef ''GroupUser'' ''GroupUserSchema'')),
     (''total'', SInteger)]"

definition GroupUserSchema :: schema where
  "GroupUserSchema =
    SIntersection [SRef ''GroupAccount'' ''GroupAccountSchema'',
     SRef ''AccountUserInfo'' ''AccountUserInfoSchema'',
     SObject []]"

definition GroupAccountSchema :: schema where
  "GroupAccountSchema =
    SIntersection [SRef ''DatatypesCreationUpdationTime'' ''DatatypesCreationUpdationTimeSchema'',
     SObject [(''accountID'', SRef ''AccountId'' ''AccountIdSchema''),
     (''groupID'', SRef ''GroupId'' ''GroupIdSchema''),
     (''roleType'', SRef ''GroupRoleType'' ''GroupRoleTypeSchema'')]]"

definition GroupIdSchema :: schema where
  "GroupIdSchema =
    SString"

definition GroupRoleInfoSchema :: schema where
  "GroupRoleInfoSchema =
    SObject [(''roleType'', SRef ''GroupRoleType'' ''GroupRoleTypeSchema'')]"

definition AuthProviderInfoSchema :: schema where
  "AuthProviderInfoSchema =
    SObject [(''name'', SString),
     (''type'', SString)]"

definition AuthExchangeTokenDataSchema :: schema where
  "AuthExchangeTokenDataSchema =
    SObject [(''code'', SString)]"

definition AuthTokenSchema :: schema where
  "AuthTokenSchema =
    SObject [(''access_token'', SString),
     (''expires_in'', SInteger),
     (''id'', SOptional (SString)),
     (''issued_at'', SRef ''Time'' ''TimeSchema''),
     (''refresh_token'', SOptional (SString)),
     (''token'', SOptional (SString)),
     (''type'', SString)]"

definition TimeSchema :: schema where
  "TimeSchema =
    SString"

definition AgentSchema :: schema where
  "AgentSchema =
    SObject [(''endpoint'', SString),
     (''labels'', SOptional (SRecord (SString) (SString))),
     (''name'', SString),
     (''otpKeyURL'', SOptional (SString)),
     (''time'', SOptional (SRef ''DatatypesDatetime'' ''DatatypesDatetimeSchema'')),
     (''token'', SOptional (SString))]"

definition DatatypesDatetimeSchema :: schema where
  "DatatypesDatetimeSchema =
    SString"

definition ClusterSchema :: schema where
  "ClusterSchema =
    SIntersection [SRef ''ClusterInfo'' ''ClusterInfoSchema'',
     SRef ''DatatypesCreationUpdationDeletionTime'' ''DatatypesCreationUpdationDeletionTimeSchema'',
     SObject [(''agentInfo'', SOptional (SRef ''ClusterAgentInfo'' ''ClusterAgentInfoSchema'')),
     (''clusterID'', SRef ''ClusterId'' ''ClusterIdSchema''),
     (''name'', SString),
     (''netType'', SRef ''ClusterNetType'' ''ClusterNetTypeSchema'')]]"

definition ClusterInfoSchema :: schema where
  "ClusterInfoSchema =
    SObject [(''desc'', SOptional (SString)),
     (''envType'', SRef ''ClusterEnvType'' ''ClusterEnvTypeSchema'')]"

definition ClusterEnvTypeSchema :: schema where
  "ClusterEnvTypeSchema =
    SNativeEnum ClusterEnvType"

definition ClusterAgentInfoSchema :: schema where
  "ClusterAgentInfoSchema =
    SObject [(''endpoint'', SOptional (SString)),
     (''labels'', SOptional (SRecord (SString) (SString)))]"

definition ClusterIdSchema :: schema where
  "ClusterIdSchema =
    SString"

definition ClusterNetTypeSchema :: schema where
  "ClusterNetTypeSchema =
    SNativeEnum ClusterNetType"

definition ClientObjectSchema :: schema where
  "ClientObjectSchema =
    SAny"

definition ClusterInstanceStatusSchema :: schema where
  "ClusterInstanceStatusSchema =
    SIntersection [SRef ''KubeutilClusterinfoClusterInfo'' ''KubeutilClusterinfoClusterInfoSchema'',
     SObject [(''ping'', SOptional (SRef ''StrfmtDuration'' ''StrfmtDurationSchema''))]]"

definition KubeutilClusterinfoClusterInfoSchema :: schema where
  "KubeutilClusterinfoClusterInfoSchema =
    SObject [(''nodes'', SArray (SRef ''KubeutilClusterinfoClusterNode'' ''KubeutilClusterinfoClusterNodeSchema''))]"

definition KubeutilClusterinfoClusterNodeSchema :: schema where
  "KubeutilClusterinfoClusterNodeSchema =
    SIntersection [SRef ''K8SIoApiCoreV1NodeSystemInfo'' ''K8SIoApiCoreV1NodeSystemInfoSchema'',
     SObject [(''externalIP'', SString),
     (''hostname'', SString),
     (''internalIP'', SString),
     (''role'', SString)]]"

definition K8SIoApiCoreV1NodeSystemInfoSchema :: schema where
  "K8SIoApiCoreV1NodeSystemInfoSchema =
    SObject [(''architecture'', SString),
     (''bootID'', SString),
     (''containerRuntimeVersion'', SString),
     (''kernelVersion'', SString),
     (''kubeProxyVersion'', SString),
     (''kubeletVersion'', SString),
     (''machineID'', SString),
     (''operatingSystem'', SString),
     (''osImage'', SString),
     (''systemUUID'', SString)]"

definition StrfmtDurationSchema :: schema where
  "StrfmtDurationSchema =
    SString"

definition GroupSchema :: schema where
  "GroupSchema =
    SIntersection [SRef ''GroupInfo'' ''GroupInfoSchema'',
     SRef ''DatatypesCreationUpdationDeletionTime'' ''DatatypesCreationUpdationDeletionTimeSchema'',
     SObject [(''groupID'', SRef ''GroupId'' ''GroupIdSchema''),
     (''name'', SString)]]"

definition GroupInfoSchema :: schema where
  "GroupInfoSchema =
    SObject [(''desc'', SOptional (SString)),
     (''type'', SRef ''GroupType'' ''GroupTypeSchema'')]"

definition GroupTypeSchema :: schema where
  "GroupTypeSchema =
    SNativeEnum GroupType"

definition GroupEnvWithClusterSchema :: schema where
  "GroupEnvWithClusterSchema =
    SIntersection [SRef ''GroupEnv'' ''GroupEnvSchema'',
     SObject [(''cluster'', SOptional (SRef ''Cluster'' ''ClusterSchema''))]]"

definition GroupEnvSchema :: schema where
  "GroupEnvSchema =
    SIntersection [SRef ''GroupEnvInfo'' ''GroupEnvInfoSchema'',
     SRef ''GroupEnvCluster'' ''GroupEnvClusterSchema'',
     SRef ''DatatypesCreationUpdationDeletionTime'' ''DatatypesCreationUpdationDeletionTimeSchema'',
     SObject [(''envID'', SRef ''GroupEnvId'' ''GroupEnvIdSchema''),
     (''envName'', SString),
     (''groupID'', SRef ''GroupId'' ''GroupIdSchema'')]]"

definition GroupEnvInfoSchema :: schema where
  "GroupEnvInfoSchema =
    SObject [(''desc'', SString),
     (''envType'', SRef ''GroupEnvType'' ''GroupEnvTypeSchema'')]"

definition GroupEnvTypeSchema :: schema where
  "GroupEnvTypeSchema =
    SNativeEnum GroupEnvType"

definition GroupEnvClusterSchema :: schema where
  "GroupEnvClusterSchema =
    SObject [(''namespace'', SString)]"

definition GroupEnvIdSchema :: schema where
  "GroupEnvIdSchema =
    SString"

definition ApisKubepkgV1Alpha1KubePkgSchema :: schema where
  "ApisKubepkgV1Alpha1KubePkgSchema =
    SIntersection [SRef ''ApisMetaV1TypeMeta'' ''ApisMetaV1TypeMetaSchema'',
     SObject [(''metadata'', SOptional (SRef ''ApisMetaV1ObjectMeta'' ''ApisMetaV1ObjectMetaSchema'')),
     (''spec'', SRef ''ApisKubepkgV1Alpha1Spec'' ''ApisKubepkgV1Alpha1SpecSchema''),
     (''status'', SOptional (SRef ''ApisKubepkgV1Alpha1Status'' ''ApisKubepkgV1Alpha1StatusSchema''))]]"

definition ApisMetaV1TypeMetaSchema :: schema where
  "ApisMetaV1TypeMetaSchema =
    SObject [(''apiVersion'', SOptional (SString)),
     (''kind'', SOptional (SString))]"

definition ApisMetaV1ObjectMetaSchema :: schema where
  "ApisMetaV1ObjectMetaSchema =
    SObject [(''annotations'', SOptional (SRecord (SString) (SString))),
     (''labels'', SOptional (SRecord (SString) (SString))),
     (''name'', SOptional (SString)),
     (''namespace'', SOptional (SString))]"

definition ApisKubepkgV1Alpha1SpecSchema :: schema where
  "ApisKubepkgV1Alpha1SpecSchema =
    SObject [(''config'', SOptional (SRecord (SString) (SRef ''ApisKubepkgV1Alpha1EnvVarValueOrFrom'' ''ApisKubepkgV1Alpha1EnvVarValueOrFromSchema''))),
     (''containers'', SOptional (SRecord (SString) (SRef ''ApisKubepkgV1Alpha1Container'' ''ApisKubepkgV1Alpha1ContainerSchema''))),
     (''deploy'', SOptional (SRef ''ApisKubepkgV1Alpha1Deploy'' ''ApisKubepkgV1Alpha1DeploySchema'')),
     (''manifests'', SOptional (SRef ''ApisKubepkgV1Alpha1Manifests'' ''ApisKubepkgV1Alpha1ManifestsSchema'')),
     (''serviceAccount'', SOptional (SRef ''ApisKubepkgV1Alpha1ServiceAccount'' ''ApisKubepkgV1Alpha1ServiceAccountSchema'')),
     (''services'', SOptional (SRecord (SString) (SRef ''ApisKubepkgV1Alpha1Service'' ''ApisKubepkgV1Alpha1ServiceSchema''))),
     (''version'', SString),
     (''volumes'', SOptional (SRecord (SString) (SRef ''ApisKubepkgV1Alpha1Volume'' ''ApisKubepkgV1Alpha1VolumeSchema'')))]"

definition ApisKubepkgV1Alpha1EnvVarValueOrFromSchema :: schema where
  "ApisKubepkgV1Alpha1EnvVarValueOrFromSchema =
    SString"

definition ApisKubepkgV1Alpha1ContainerSchema :: schema where
  "ApisKubepkgV1Alpha1ContainerSchema =
    SObject [(''args'', SOptional (SArray (SString))),
     (''command'', SOptional (SArray (SString))),
     (''env'', SOptional (SRecord (SString) (SRef ''ApisKubepkgV1Alpha1EnvVarValueOrFrom'' ''ApisKubepkgV1Alpha1EnvVarValueOrFromSchema''))),
     (''image'', SRef ''ApisKubepkgV1Alpha1Image'' ''ApisKubepkgV1Alpha1ImageSchema''),
     (''lifecycle'', SOptional (SRef ''K8SIoApiCoreV1Lifecycle'' ''K8SIoApiCoreV1LifecycleSchema'')),
     (''livenessProbe'', SOptional (SRef ''K8SIoApiCoreV1Probe'' ''K8SIoApiCoreV1ProbeSchema'')),
     (''ports'', SOptional (SRecord (SString) (SInteger))),
     (''readinessProbe'', SOptional (SRef ''K8SIoApiCoreV1Probe'' ''K8SIoApiCoreV1ProbeSchema'')),
     (''resources'', SOptional (SRef ''K8SIoApiCoreV1ResourceRequirements'' ''K8SIoApiCoreV1ResourceRequirementsSchema'')),
     (''securityContext'', SOptional (SRef ''K8SIoApiCoreV1SecurityContext'' ''K8SIoApiCoreV1SecurityContextSchema'')),
     (''startupProbe'', SOptional (SRef ''K8SIoApiCoreV1Probe'' ''K8SIoApiCoreV1ProbeSchema'')),
     (''stdin'', SOptional (SBoolean)),
     (''stdinOnce'', SOptional (SBoolean)),
     (''terminationMessagePath'', SOptional (SString)),
     (''terminationMessagePolicy'', SOptional (SRef ''K8SIoApiCoreV1TerminationMessagePolicy'' ''K8SIoApiCoreV1TerminationMessagePolicySchema'')),
     (''tty'', SOptional (SBoolean)),
     (''workingDir'', SOptional (SString))]"

definition ApisKubepkgV1Alpha1ImageSchema :: schema where
  "ApisKubepkgV1Alpha1ImageSchema =
    SObject [(''digest'', SOptional (SString)),
     (''name'', SString),
     (''platforms'', SOptional (SArray (SString))),
     (''pullPolicy'', SOptional (SRef ''K8SIoApiCoreV1PullPolicy'' ''K8SIoApiCoreV1PullPolicySchema'')),
     (''tag'', SOptional (SString))]"

definition K8SIoApiCoreV1PullPolicySchema :: schema where
  "K8SIoApiCoreV1PullPolicySchema =
    SString"

definition K8SIoApiCoreV1LifecycleSchema :: schema where
  "K8SIoApiCoreV1LifecycleSchema =
    SObject [(''postStart'', SOptional (SRef ''K8SIoApiCoreV1LifecycleHandler'' ''K8SIoApiCoreV1LifecycleHandlerSchema'')),
     (''preStop'', SOptional (SRef ''K8SIoApiCoreV1LifecycleHandler'' ''K8SIoApiCoreV1LifecycleHandlerSchema''))]"

definition K8SIoApiCoreV1LifecycleHandlerSchema :: schema where
  "K8SIoApiCoreV1LifecycleHandlerSchema =
    SObject [(''exec'', SOptional (SRef ''K8SIoApiCoreV1ExecAction'' ''K8SIoApiCoreV1ExecActionSchema'')),
     (''httpGet'', SOptional (SRef ''K8SIoApiCoreV1HttpGetAction'' ''K8SIoApiCoreV1HttpGetActionSchema'')),
     (''tcpSocket'', SOptional (SRef ''K8SIoApiCoreV1TcpSocketAction'' ''K8SIoApiCoreV1TcpSocketActionSchema''))]"

definition K8SIoApiCoreV1ExecActionSchema :: schema where
  "K8SIoApiCoreV1ExecActionSchema =
    SObject [(''command'', SOptional (SArray (SString)))]"

definition K8SIoApiCoreV1HttpGetActionSchema :: schema where
  "K8SIoApiCoreV1HttpGetActionSchema =
    SObject [(''host'', SOptional (SString)),
     (''httpHeaders'', SOptional (SArray (SRef ''K8SIoApiCoreV1HttpHeader'' ''K8SIoApiCoreV1HttpHeaderSchema''))),
     (''path'', SOptional (SString)),
     (''port'', SRef ''UtilIntstrIntOrString'' ''UtilIntstrIntOrStringSchema''),
     (''scheme'', SOptional (SRef ''K8SIoApiCoreV1UriScheme'' ''K8SIoApiCoreV1UriSchemeSchema''))]"

definition K8SIoApiCoreV1HttpHeaderSchema :: schema where
  "K8SIoApiCoreV1HttpHeaderSchema =
    SObject [(''name'', SString),
     (''value'', SString)]"

definition UtilIntstrIntOrStringSchema :: schema where
  "UtilIntstrIntOrStringSchema =
    SUnion [SInteger, SString]"

definition K8SIoApiCoreV1UriSchemeSchema :: schema where
  "K8SIoApiCoreV1UriSchemeSchema =
    SString"

definition K8SIoApiCoreV1TcpSocketActionSchema :: schema where
  "K8SIoApiCoreV1TcpSocketActionSchema =
    SObject [(''host'', SOptional (SString)),
     (''port'', SRef ''UtilIntstrIntOrString'' ''UtilIntstrIntOrStringSchema'')]"

definition K8SIoApiCoreV1ProbeSchema :: schema where
  "K8SIoApiCoreV1ProbeSchema =
    SIntersection [SRef ''K8SIoApiCoreV1ProbeHandler'' ''K8SIoApiCoreV1ProbeHandlerSchema'',
     SObject [(''failureThreshold'', SOptional (SInteger)),
     (''initialDelaySeconds'', SOptional (SInteger)),
     (''periodSeconds'', SOptional (SInteger)),
     (''successThreshold'', SOptional (SInteger)),
     (''terminationGracePeriodSeconds'', SOptional (SInteger)),
     (''timeoutSeconds'', SOptional (SInteger))]]"

definition K8SIoApiCoreV1ProbeHandlerSchema :: schema where
  "K8SIoApiCoreV1ProbeHandlerSchema =
    SObject [(''exec'', SOptional (SRef ''K8SIoApiCoreV1ExecAction'' ''K8SIoApiCoreV1ExecActionSchema'')),
     (''grpc'', SOptional (SRef ''K8SIoApiCoreV1GrpcAction'' ''K8SIoApiCoreV1GrpcActionSchema'')),
     (''httpGet'', SOptional (SRef ''K8SIoApiCoreV1HttpGetAction'' ''K8SIoApiCoreV1HttpGetActionSchema'')),
     (''tcpSocket'', SOptional (SRef ''K8SIoApiCoreV1TcpSocketAction'' ''K8SIoApiCoreV1TcpSocketActionSchema''))]"

definition K8SIoApiCoreV1GrpcActionSchema :: schema where
  "K8SIoApiCoreV1GrpcActionSchema =
    SObject [(''port'', SInteger),
     (''service'', SString)]"

definition K8SIoApiCoreV1ResourceRequirementsSchema :: schema where
  "K8SIoApiCoreV1ResourceRequirementsSchema =
    SObject [(''claims'', SOptional (SArray (SRef ''K8SIoApiCoreV1ResourceClaim'' ''K8SIoApiCoreV1ResourceClaimSchema''))),
     (''limits'', SOptional (SRef ''K8SIoApiCoreV1ResourceList'' ''K8SIoApiCoreV1ResourceListSchema'')),
     (''requests'', SOptional (SRef ''K8SIoApiCoreV1ResourceList'' ''K8SIoApiCoreV1ResourceListSchema''))]"

definition K8SIoApiCoreV1ResourceClaimSchema :: schema where
  "K8SIoApiCoreV1ResourceClaimSchema =
    SObject [(''name'', SString)]"

definition K8SIoApiCoreV1ResourceListSchema :: schema where
  "K8SIoApiCoreV1ResourceListSchema =
    SRecord (SRef ''K8SIoApiCoreV1ResourceName'' ''K8SIoApiCoreV1ResourceNameSchema'') (SRef ''ApiResourceQuantity'' ''ApiResourceQuantitySchema'')"

definition K8SIoApiCoreV1ResourceNameSchema :: schema where
  "K8SIoApiCoreV1ResourceNameSchema =
    SString"

definition ApiResourceQuantitySchema :: schema where
  "ApiResourceQuantitySchema =
    SString"

definition K8SIoApiCoreV1SecurityContextSchema :: schema where
  "K8SIoApiCoreV1SecurityContextSchema =
    SObject [(''allowPrivilegeEscalation'', SOptional (SBoolean)),
     (''capabilities'', SOptional (SRef ''K8SIoApiCoreV1Capabilities'' ''K8SIoApiCoreV1CapabilitiesSchema'')),
     (''privileged'', SOptional (SBoolean)),
     (''procMount'', SOptional (SRef ''K8SIoApiCoreV1ProcMountType'' ''K8SIoApiCoreV1ProcMountTypeSchema'')),
     (''readOnlyRootFilesystem'', SOptional (SBoolean)),
     (''runAsGroup'', SOptional (SInteger)),
     (''runAsNonRoot'', SOptional (SBoolean)),
     (''runAsUser'', SOptional (SInteger)),
     (''seLinuxOptions'', SOptional (SRef ''K8SIoApiCoreV1SeLinuxOptions'' ''K8SIoApiCoreV1SeLinuxOptionsSchema'')),
     (''seccompProfile'', SOptional (SRef ''K8SIoApiCoreV1SeccompProfile'' ''K8SIoApiCoreV1SeccompProfileSchema'')),
     (''windowsOptions'', SOptional (SRef ''K8SIoApiCoreV1WindowsSecurityContextOptions'' ''K8SIoApiCoreV1WindowsSecurityContextOptionsSchema''))]"

definition K8SIoApiCoreV1CapabilitiesSchema :: schema where
  "K8SIoApiCoreV1CapabilitiesSchema =
    SObject [(''add'', SOptional (SArray (SRef ''K8SIoApiCoreV1Capability'' ''K8SIoApiCoreV1CapabilitySchema''))),
     (''drop'', SOptional (SArray (SRef ''K8SIoApiCoreV1Capability'' ''K8SIoApiCoreV1CapabilitySchema'')))]"

definition K8SIoApiCoreV1CapabilitySchema :: schema where
  "K8SIoApiCoreV1CapabilitySchema =
    SString"

definition K8SIoApiCoreV1ProcMountTypeSchema :: schema where
  "K8SIoApiCoreV1ProcMountTypeSchema =
    SString"

definition K8SIoApiCoreV1SeLinuxOptionsSchema :: schema where
  "K8SIoApiCoreV1SeLinuxOptionsSchema =
    SObject [(''level'', SOptional (SString)),
     (''role'', SOptional (SString)),
     (''type'', SOptional (SString)),
     (''user'', SOptional (SString))]"

definition K8SIoApiCoreV1SeccompProfileSchema :: schema where
  "K8SIoApiCoreV1SeccompProfileSchema =
    SObject [(''localhostProfile'', SOptional (SString)),
     (''type'', SRef ''K8SIoApiCoreV1SeccompProfileType'' ''K8SIoApiCoreV1SeccompProfileTypeSchema'')]"

definition K8SIoApiCoreV1SeccompProfileTypeSchema :: schema where
  "K8SIoApiCoreV1SeccompProfileTypeSchema =
    SString"

definition K8SIoApiCoreV1WindowsSecurityContextOptionsSchema :: schema where
  "K8SIoApiCoreV1WindowsSecurityContextOptionsSchema =
    SObject [(''gmsaCredentialSpec'', SOptional (SString)),
     (''gmsaCredentialSpecName'', SOptional (SString)),
     (''hostProcess'', SOptional (SBoolean)),
     (''runAsUserName'', SOptional (SString))]"

definition K8SIoApiCoreV1TerminationMessagePolicySchema :: schema where
  "K8SIoApiCoreV1TerminationMessagePolicySchema =
    SString"

definition ApisKubepkgV1Alpha1DeploySchema :: schema where
  "ApisKubepkgV1Alpha1DeploySchema =
    SDiscriminator ''kind'' [(''ConfigMap'', SObject [(''annotations'', SOptional (SRecord (SString) (SString)))]),
     (''CronJob'', SObject [(''annotations'', SOptional (SRecord (SString) (SString))),
     (''spec'', SOptional (SRef ''K8SIoApiBatchV1CronJobSpec'' ''K8SIoApiBatchV1CronJobSpecSchema''))]),
     (''DaemonSet'', SObject [(''annotations'', SOptional (SRecord (SString) (SString))),
     (''spec'', SOptional (SRef ''K8SIoApiAppsV1DaemonSetSpec'' ''K8SIoApiAppsV1DaemonSetSpecSchema''))]),
     (''Deployment'', SObject [(''annotations'', SOptional (SRecord (SString) (SString))),
     (''spec'', SOptional (SRef ''K8SIoApiAppsV1DeploymentSpec'' ''K8SIoApiAppsV1DeploymentSpecSchema''))]),
     (''Job'', SObject [(''annotations'', SOptional (SRecord (SString) (SString))),
     (''spec'', SOptional (SRef ''K8SIoApiBatchV1JobSpec'' ''K8SIoApiBatchV1JobSpecSchema''))]),
     (''Secret'', SObject [(''annotations'', SOptional (SRecord (SString) (SString)))]),
     (''StatefulSet'', SObject [(''annotations'', SOptional (SRecord (SString) (SString))),
     (''spec'', SOptional (SRef ''K8SIoApiAppsV1StatefulSetSpec'' ''K8SIoApiAppsV1StatefulSetSpecSchema''))])]"

definition K8SIoApiBatchV1CronJobSpecSchema :: schema where
  "K8SIoApiBatchV1CronJobSpecSchema =
    SObject [(''concurrencyPolicy'', SOptional (SRef ''K8SIoApiBatchV1ConcurrencyPolicy'' ''K8SIoApiBatchV1ConcurrencyPolicySchema'')),
     (''failedJobsHistoryLimit'', SOptional (SInteger)),
     (''jobTemplate'', SRef ''K8SIoApiBatchV1JobTemplateSpec'' ''K8SIoApiBatchV1JobTemplateSpecSchema''),
     (''schedule'', SString),
     (''startingDeadlineSeconds'', SOptional (SInteger)),
     (''successfulJobsHistoryLimit'', SOptional (SInteger)),
     (''suspend'', SOptional (SBoolean)),
     (''timeZone'', SOptional (SString))]"

definition K8SIoApiBatchV1ConcurrencyPolicySchema :: schema where
  "K8SIoApiBatchV1ConcurrencyPolicySchema =
    SString"

definition K8SIoApiBatchV1JobTemplateSpecSchema :: schema where
  "K8SIoApiBatchV1JobTemplateSpecSchema =
    SObject [(''metadata'', SOptional (SRef ''ApisMetaV1ObjectMeta'' ''ApisMetaV1ObjectMetaSchema'')),
     (''spec'', SOptional (SRef ''K8SIoApiBatchV1JobSpec'' ''K8SIoApiBatchV1JobSpecSchema''))]"

definition K8SIoApiBatchV1JobSpecSchema :: schema where
  "K8SIoApiBatchV1JobSpecSchema =
    SObject [(''activeDeadlineSeconds'', SOptional (SInteger)),
     (''backoffLimit'', SOptional (SInteger)),
     (''completionMode'', SOptional (SRef ''K8SIoApiBatchV1CompletionMode'' ''K8SIoApiBatchV1CompletionModeSchema'')),
     (''completions'', SOptional (SInteger)),
     (''manualSelector'', SOptional (SBoolean)),
     (''parallelism'', SOptional (SInteger)),
     (''podFailurePolicy'', SOptional (SRef ''K8SIoApiBatchV1PodFailurePolicy'' ''K8SIoApiBatchV1PodFailurePolicySchema'')),
     (''selector'', SOptional (SRef ''ApisMetaV1LabelSelector'' ''ApisMetaV1LabelSelectorSchema'')),
     (''suspend'', SOptional (SBoolean)),
     (''template'', SRef ''K8SIoApiCoreV1PodTemplateSpec'' ''K8SIoApiCoreV1PodTemplateSpecSchema''),
     (''ttlSecondsAfterFinished'', SOptional (SInteger))]"

definition K8SIoApiBatchV1CompletionModeSchema :: schema where
  "K8SIoApiBatchV1CompletionModeSchema =
    SString"

definition K8SIoApiBatchV1PodFailurePolicySchema :: schema where
  "K8SIoApiBatchV1PodFailurePolicySchema =
    SObject [(''rules'', SArray (SRef ''K8SIoApiBatchV1PodFailurePolicyRule'' ''K8SIoApiBatchV1PodFailurePolicyRuleSchema''))]"

definition K8SIoApiBatchV1PodFailurePolicyRuleSchema :: schema where
  "K8SIoApiBatchV1PodFailurePolicyRuleSchema =
    SObject [(''action'', SRef ''K8SIoApiBatchV1PodFailurePolicyAction'' ''K8SIoApiBatchV1PodFailurePolicyActionSchema''),
     (''onExitCodes'', SOptional (SRef ''K8SIoApiBatchV1PodFailurePolicyOnExitCodesRequirement'' ''K8SIoApiBatchV1PodFailurePolicyOnExitCodesRequirementSchema'')),
     (''onPodConditions'', SArray (SRef ''K8SIoApiBatchV1PodFailurePolicyOnPodConditionsPattern'' ''K8SIoApiBatchV1PodFailurePolicyOnPodConditionsPatternSchema''))]"

definition K8SIoApiBatchV1PodFailurePolicyActionSchema :: schema where
  "K8SIoApiBatchV1PodFailurePolicyActionSchema =
    SString"

definition K8SIoApiBatchV1PodFailurePolicyOnExitCodesRequirementSchema :: schema where
  "K8SIoApiBatchV1PodFailurePolicyOnExitCodesRequirementSchema =
    SObject [(''containerName'', SString),
     (''operator'', SRef ''K8SIoApiBatchV1PodFailurePolicyOnExitCodesOperator'' ''K8SIoApiBatchV1PodFailurePolicyOnExitCodesOperatorSchema''),
     (''values'', SArray (SInteger))]"

definition K8SIoApiBatchV1PodFailurePolicyOnExitCodesOperatorSchema :: schema where
  "K8SIoApiBatchV1PodFailurePolicyOnExitCodesOperatorSchema =
    SString"

definition K8SIoApiBatchV1PodFailurePolicyOnPodConditionsPatternSchema :: schema where
  "K8SIoApiBatchV1PodFailurePolicyOnPodConditionsPatternSchema =
    SObject [(''status'', SRef ''K8SIoApiCoreV1ConditionStatus'' ''K8SIoApiCoreV1ConditionStatusSchema''),
     (''type'', SRef ''K8SIoApiCoreV1PodConditionType'' ''K8SIoApiCoreV1PodConditionTypeSchema'')]"

definition K8SIoApiCoreV1ConditionStatusSchema :: schema where
  "K8SIoApiCoreV1ConditionStatusSchema =
    SString"

definition K8SIoApiCoreV1PodConditionTypeSchema :: schema where
  "K8SIoApiCoreV1PodConditionTypeSchema =
    SString"

definition ApisMetaV1LabelSelectorSchema :: schema where
  "ApisMetaV1LabelSelectorSchema =
    SObject [(''matchExpressions'', SOptional (SArray (SRef ''ApisMetaV1LabelSelectorRequirement'' ''ApisMetaV1LabelSelectorRequirementSchema''))),
     (''matchLabels'', SOptional (SRecord (SString) (SString)))]"

definition ApisMetaV1LabelSelectorRequirementSchema :: schema where
  "ApisMetaV1LabelSelectorRequirementSchema =
    SObject [(''key'', SString),
     (''operator'', SRef ''ApisMetaV1LabelSelectorOperator'' ''ApisMetaV1LabelSelectorOperatorSchema''),
     (''values'', SOptional (SArray (SString)))]"

definition ApisMetaV1LabelSelectorOperatorSchema :: schema where
  "ApisMetaV1LabelSelectorOperatorSchema =
    SString"

definition K8SIoApiCoreV1PodTemplateSpecSchema :: schema where
  "K8SIoApiCoreV1PodTemplateSpecSchema =
    SObject [(''metadata'', SOptional (SRef ''ApisMetaV1ObjectMeta'' ''ApisMetaV1ObjectMetaSchema'')),
     (''spec'', SOptional (SRef ''K8SIoApiCoreV1PodSpec'' ''K8SIoApiCoreV1PodSpecSchema''))]"

definition K8SIoApiCoreV1PodSpecSchema :: schema where
  "K8SIoApiCoreV1PodSpecSchema =
    SObject [(''activeDeadlineSeconds'', SOptional (SInteger)),
     (''affinity'', SOptional (SRef ''K8SIoApiCoreV1Affinity'' ''K8SIoApiCoreV1AffinitySchema'')),
     (''automountServiceAccountToken'', SOptional (SBoolean)),
     (''dnsConfig'', SOptional (SRef ''K8SIoApiCoreV1PodDnsConfig'' ''K8SIoApiCoreV1PodDnsConfigSchema'')),
     (''dnsPolicy'', SOptional (SRef ''K8SIoApiCoreV1DnsPolicy'' ''K8SIoApiCoreV1DnsPolicySchema'')),
     (''enableServiceLinks'', SOptional (SBoolean)),
     (''hostAliases'', SOptional (SArray (SRef ''K8SIoApiCoreV1HostAlias'' ''K8SIoApiCoreV1HostAliasSchema''))),
     (''hostIPC'', SOptional (SBoolean)),
     (''hostNetwork'', SOptional (SBoolean)),
     (''hostPID'', SOptional (SBoolean)),
     (''hostUsers'', SOptional (SBoolean)),
     (''hostname'', SOptional (SString)),
     (''imagePullSecrets'', SOptional (SArray (SRef ''K8SIoApiCoreV1LocalObjectReference'' ''K8SIoApiCoreV1LocalObjectReferenceSchema''))),
     (''nodeName'', SOptional (SString)),
     (''nodeSelector'', SOptional (SRecord (SString) (SString))),
     (''os'', SOptional (SRef ''K8SIoApiCoreV1PodOs'' ''K8SIoApiCoreV1PodOsSchema'')),
     (''overhead'', SOptional (SRef ''K8SIoApiCoreV1ResourceList'' ''K8SIoApiCoreV1ResourceListSchema'')),
     (''preemptionPolicy'', SOptional (SRef ''K8SIoApiCoreV1PreemptionPolicy'' ''K8SIoApiCoreV1PreemptionPolicySchema'')),
     (''priority'', SOptional (SInteger)),
     (''priorityClassName'', SOptional (SString)),
     (''readinessGates'', SOptional (SArray (SRef ''K8SIoApiCoreV1PodReadinessGate'' ''K8SIoApiCoreV1PodReadinessGateSchema''))),
     (''resourceClaims'', SOptional (SArray (SRef ''K8SIoApiCoreV1PodResourceClaim'' ''K8SIoApiCoreV1PodResourceClaimSchema''))),
     (''restartPolicy'', SOptional (SRef ''K8SIoApiCoreV1RestartPolicy'' ''K8SIoApiCoreV1RestartPolicySchema'')),
     (''runtimeClassName'', SOptional (SString)),
     (''schedulerName'', SOptional (SString)),
     (''schedulingGates'', SOptional (SArray (SRef ''K8SIoApiCoreV1PodSchedulingGate'' ''K8SIoApiCoreV1PodSchedulingGateSchema''))),
     (''securityContext'', SOptional (SRef ''K8SIoApiCoreV1PodSecurityContext'' ''K8SIoApiCoreV1PodSecurityContextSchema'')),
     (''serviceAccount'', SOptional (SString)),
     (''serviceAccountName'', SOptional (SString)),
     (''setHostnameAsFQDN'', SOptional (SBoolean)),
     (''shareProcessNamespace'', SOptional (SBoolean)),
     (''subdomain'', SOptional (SString)),
     (''terminationGracePeriodSeconds'', SOptional (SInteger)),
     (''tolerations'', SOptional (SArray (SRef ''K8SIoApiCoreV1Toleration'' ''K8SIoApiCoreV1TolerationSchema''))),
     (''topologySpreadConstraints'', SOptional (SArray (SRef ''K8SIoApiCoreV1TopologySpreadConstraint'' ''K8SIoApiCoreV1TopologySpreadConstraintSchema'')))]"

definition K8SIoApiCoreV1AffinitySchema :: schema where
  "K8SIoApiCoreV1AffinitySchema =
    SObject [(''nodeAffinity'', SOptional (SRef ''K8SIoApiCoreV1NodeAffinity'' ''K8SIoApiCoreV1NodeAffinitySchema'')),
     (''podAffinity'', SOptional (SRef ''K8SIoApiCoreV1PodAffinity'' ''K8SIoApiCoreV1PodAffinitySchema'')),
     (''podAntiAffinity'', SOptional (SRef ''K8SIoApiCoreV1PodAntiAffinity'' ''K8SIoApiCoreV1PodAntiAffinitySchema''))]"

definition K8SIoApiCoreV1NodeAffinitySchema :: schema where
  "K8SIoApiCoreV1NodeAffinitySchema =
    SObject [(''preferredDuringSchedulingIgnoredDuringExecution'', SOptional (SArray (SRef ''K8SIoApiCoreV1PreferredSchedulingTerm'' ''K8SIoApiCoreV1PreferredSchedulingTermSchema''))),
     (''requiredDuringSchedulingIgnoredDuringExecution'', SOptional (SRef ''K8SIoApiCoreV1NodeSelector'' ''K8SIoApiCoreV1NodeSelectorSchema''))]"

definition K8SIoApiCoreV1PreferredSchedulingTermSchema :: schema where
  "K8SIoApiCoreV1PreferredSchedulingTermSchema =
    SObject [(''preference'', SRef ''K8SIoApiCoreV1NodeSelectorTerm'' ''K8SIoApiCoreV1NodeSelectorTermSchema''),
     (''weight'', SInteger)]"

definition K8SIoApiCoreV1NodeSelectorTermSchema :: schema where
  "K8SIoApiCoreV1NodeSelectorTermSchema =
    SObject [(''matchExpressions'', SOptional (SArray (SRef ''K8SIoApiCoreV1NodeSelectorRequirement'' ''K8SIoApiCoreV1NodeSelectorRequirementSchema''))),
     (''matchFields'', SOptional (SArray (SRef ''K8SIoApiCoreV1NodeSelectorRequirement'' ''K8SIoApiCoreV1NodeSelectorRequirementSchema'')))]"

definition K8SIoApiCoreV1NodeSelectorRequirementSchema :: schema where
  "K8SIoApiCoreV1NodeSelectorRequirementSchema =
    SObject [(''key'', SString),
     (''operator'', SRef ''K8SIoApiCoreV1NodeSelectorOperator'' ''K8SIoApiCoreV1NodeSelectorOperatorSchema''),
     (''values'', SOptional (SArray (SString)))]"

definition K8SIoApiCoreV1NodeSelectorOperatorSchema :: schema where
  "K8SIoApiCoreV1NodeSelectorOperatorSchema =
    SString"

definition K8SIoApiCoreV1NodeSelectorSchema :: schema where
  "K8SIoApiCoreV1NodeSelectorSchema =
    SObject [(''nodeSelectorTerms'', SArray (SRef ''K8SIoApiCoreV1NodeSelectorTerm'' ''K8SIoApiCoreV1NodeSelectorTermSchema''))]"

definition K8SIoApiCoreV1PodAffinitySchema :: schema where
  "K8SIoApiCoreV1PodAffinitySchema =
    SObject [(''preferredDuringSchedulingIgnoredDuringExecution'', SOptional (SArray (SRef ''K8SIoApiCoreV1WeightedPodAffinityTerm'' ''K8SIoApiCoreV1WeightedPodAffinityTermSchema''))),
     (''requiredDuringSchedulingIgnoredDuringExecution'', SOptional (SArray (SRef ''K8SIoApiCoreV1PodAffinityTerm'' ''K8SIoApiCoreV1PodAffinityTermSchema'')))]"

definition K8SIoApiCoreV1WeightedPodAffinityTermSchema :: schema where
  "K8SIoApiCoreV1WeightedPodAffinityTermSchema =
    SObject [(''podAffinityTerm'', SRef ''K8SIoApiCoreV1PodAffinityTerm'' ''K8SIoApiCoreV1PodAffinityTermSchema''),
     (''weight'', SInteger)]"

definition K8SIoApiCoreV1PodAffinityTermSchema :: schema where
  "K8SIoApiCoreV1PodAffinityTermSchema =
    SObject [(''labelSelector'', SOptional (SRef ''ApisMetaV1LabelSelector'' ''ApisMetaV1LabelSelectorSchema'')),
     (''namespaceSelector'', SOptional (SRef ''ApisMetaV1LabelSelector'' ''ApisMetaV1LabelSelectorSchema'')),
     (''namespaces'', SOptional (SArray (SString))),
     (''topologyKey'', SString)]"

definition K8SIoApiCoreV1PodAntiAffinitySchema :: schema where
  "K8SIoApiCoreV1PodAntiAffinitySchema =
    SObject [(''preferredDuringSchedulingIgnoredDuringExecution'', SOptional (SArray (SRef ''K8SIoApiCoreV1WeightedPodAffinityTerm'' ''K8SIoApiCoreV1WeightedPodAffinityTermSchema''))),
     (''requiredDuringSchedulingIgnoredDuringExecution'', SOptional (SArray (SRef ''K8SIoApiCoreV1PodAffinityTerm'' ''K8SIoApiCoreV1PodAffinityTermSchema'')))]"

definition K8SIoApiCoreV1PodDnsConfigSchema :: schema where
  "K8SIoApiCoreV1PodDnsConfigSchema =
    SObject [(''nameservers'', SOptional (SArray (SString))),
     (''options'', SOptional (SArray (SRef ''K8SIoApiCoreV1PodDnsConfigOption'' ''K8SIoApiCoreV1PodDnsConfigOptionSchema''))),
     (''searches'', SOptional (SArray (SString)))]"

definition K8SIoApiCoreV1PodDnsConfigOptionSchema :: schema where
  "K8SIoApiCoreV1PodDnsConfigOptionSchema =
    SObject [(''name'', SOptional (SString)),
     (''value'', SOptional (SString))]"

definition K8SIoApiCoreV1DnsPolicySchema :: schema where
  "K8SIoApiCoreV1DnsPolicySchema =
    SString"

definition K8SIoApiCoreV1HostAliasSchema :: schema where
  "K8SIoApiCoreV1HostAliasSchema =
    SObject [(''hostnames'', SOptional (SArray (SString))),
     (''ip'', SOptional (SString))]"

definition K8SIoApiCoreV1LocalObjectReferenceSchema :: schema where
  "K8SIoApiCoreV1LocalObjectReferenceSchema =
    SObject [(''name'', SOptional (SString))]"

definition K8SIoApiCoreV1PodOsSchema :: schema where
  "K8SIoApiCoreV1PodOsSchema =
    SObject [(''name'', SRef ''K8SIoApiCoreV1OsName'' ''K8SIoApiCoreV1OsNameSchema'')]"

definition K8SIoApiCoreV1OsNameSchema :: schema where
  "K8SIoApiCoreV1OsNameSchema =
    SString"

definition K8SIoApiCoreV1PreemptionPolicySchema :: schema where
  "K8SIoApiCoreV1PreemptionPolicySchema =
    SNativeEnum K8SIoApiCoreV1PreemptionPolicy"

definition K8SIoApiCoreV1PodReadinessGateSchema :: schema where
  "K8SIoApiCoreV1PodReadinessGateSchema =
    SObject [(''conditionType'', SRef ''K8SIoApiCoreV1PodConditionType'' ''K8SIoApiCoreV1PodConditionTypeSchema'')]"

definition K8SIoApiCoreV1PodResourceClaimSchema :: schema where
  "K8SIoApiCoreV1PodResourceClaimSchema =
    SObject [(''name'', SString),
     (''source'', SOptional (SRef ''K8SIoApiCoreV1ClaimSource'' ''K8SIoApiCoreV1ClaimSourceSchema''))]"

definition K8SIoApiCoreV1ClaimSourceSchema :: schema where
  "K8SIoApiCoreV1ClaimSourceSchema =
    SObject [(''resourceClaimName'', SOptional (SString)),
     (''resourceClaimTemplateName'', SOptional (SString))]"

definition K8SIoApiCoreV1RestartPolicySchema :: schema where
  "K8SIoApiCoreV1RestartPolicySchema =
    SNativeEnum K8SIoApiCoreV1RestartPolicy"

definition K8SIoApiCoreV1PodSchedulingGateSchema :: schema where
  "K8SIoApiCoreV1PodSchedulingGateSchema =
    SObject [(''name'', SString)]"

definition K8SIoApiCoreV1PodSecurityContextSchema :: schema where
  "K8SIoApiCoreV1PodSecurityContextSchema =
    SObject [(''fsGroup'', SOptional (SInteger)),
     (''fsGroupChangePolicy'', SOptional (SRef ''K8SIoApiCoreV1PodFsGroupChangePolicy'' ''K8SIoApiCoreV1PodFsGroupChangePolicySchema'')),
     (''runAsGroup'', SOptional (SInteger)),
     (''runAsNonRoot'', SOptional (SBoolean)),
     (''runAsUser'', SOptional (SInteger)),
     (''seLinuxOptions'', SOptional (SRef ''K8SIoApiCoreV1SeLinuxOptions'' ''K8SIoApiCoreV1SeLinuxOptionsSchema'')),
     (''seccompProfile'', SOptional (SRef ''K8SIoApiCoreV1SeccompProfile'' ''K8SIoApiCoreV1SeccompProfileSchema'')),
     (''supplementalGroups'', SOptional (SArray (SInteger))),
     (''sysctls'', SOptional (SArray (SRef ''K8SIoApiCoreV1Sysctl'' ''K8SIoApiCoreV1SysctlSchema''))),
     (''windowsOptions'', SOptional (SRef ''K8SIoApiCoreV1WindowsSecurityContextOptions'' ''K8SIoApiCoreV1WindowsSecurityContextOptionsSchema''))]"

definition K8SIoApiCoreV1PodFsGroupChangePolicySchema :: schema where
  "K8SIoApiCoreV1PodFsGroupChangePolicySchema =
    SString"

definition K8SIoApiCoreV1SysctlSchema :: schema where
  "K8SIoApiCoreV1SysctlSchema =
    SObject [(''name'', SString),
     (''value'', SString)]"

definition K8SIoApiCoreV1TolerationSchema :: schema where
  "K8SIoApiCoreV1TolerationSchema =
    SObject [(''effect'', SOptional (SRef ''K8SIoApiCoreV1TaintEffect'' ''K8SIoApiCoreV1TaintEffectSchema'')),
     (''key'', SOptional (SString)),
     (''operator'', SOptional (SRef ''K8SIoApiCoreV1TolerationOperator'' ''K8SIoApiCoreV1TolerationOperatorSchema'')),
     (''tolerationSeconds'', SOptional (SInteger)),
     (''value'', SOptional (SString))]"

definition K8SIoApiCoreV1TaintEffectSchema :: schema where
  "K8SIoApiCoreV1TaintEffectSchema =
    SString"

definition K8SIoApiCoreV1TolerationOperatorSchema :: schema where
  "K8SIoApiCoreV1TolerationOperatorSchema =
    SString"

definition K8SIoApiCoreV1TopologySpreadConstraintSchema :: schema where
  "K8SIoApiCoreV1TopologySpreadConstraintSchema =
    SObject [(''labelSelector'', SOptional (SRef ''ApisMetaV1LabelSelector'' ''ApisMetaV1LabelSelectorSchema'')),
     (''matchLabelKeys'', SOptional (SArray (SString))),
     (''maxSkew'', SInteger),
     (''minDomains'', SOptional (SInteger)),
     (''nodeAffinityPolicy'', SOptional (SRef ''K8SIoApiCoreV1NodeInclusionPolicy'' ''K8SIoApiCoreV1NodeInclusionPolicySchema'')),
     (''nodeTaintsPolicy'', SOptional (SRef ''K8SIoApiCoreV1NodeInclusionPolicy'' ''K8SIoApiCoreV1NodeInclusionPolicySchema'')),
     (''topologyKey'', SString),
     (''whenUnsatisfiable'', SRef ''K8SIoApiCoreV1UnsatisfiableConstraintAction'' ''K8SIoApiCoreV1UnsatisfiableConstraintActionSchema'')]"

definition K8SIoApiCoreV1NodeInclusionPolicySchema :: schema where
  "K8SIoApiCoreV1NodeInclusionPolicySchema =
    SString"

definition K8SIoApiCoreV1UnsatisfiableConstraintActionSchema :: schema where
  "K8SIoApiCoreV1UnsatisfiableConstraintActionSchema =
    SString"

definition K8SIoApiAppsV1DaemonSetSpecSchema :: schema where
  "K8SIoApiAppsV1DaemonSetSpecSchema =
    SObject [(''minReadySeconds'', SOptional (SInteger)),
     (''revisionHistoryLimit'', SOptional (SInteger)),
     (''selector'', SOptional (SRef ''ApisMetaV1LabelSelector'' ''ApisMetaV1LabelSelectorSchema'')),
     (''template'', SRef ''K8SIoApiCoreV1PodTemplateSpec'' ''K8SIoApiCoreV1PodTemplateSpecSchema''),
     (''updateStrategy'', SOptional (SRef ''K8SIoApiAppsV1DaemonSetUpdateStrategy'' ''K8SIoApiAppsV1DaemonSetUpdateStrategySchema''))]"

definition K8SIoApiAppsV1DaemonSetUpdateStrategySchema :: schema where
  "K8SIoApiAppsV1DaemonSetUpdateStrategySchema =
    SObject [(''rollingUpdate'', SOptional (SRef ''K8SIoApiAppsV1RollingUpdateDaemonSet'' ''K8SIoApiAppsV1RollingUpdateDaemonSetSchema'')),
     (''type'', SOptional (SRef ''K8SIoApiAppsV1DaemonSetUpdateStrategyType'' ''K8SIoApiAppsV1DaemonSetUpdateStrategyTypeSchema''))]"

definition K8SIoApiAppsV1RollingUpdateDaemonSetSchema :: schema where
  "K8SIoApiAppsV1RollingUpdateDaemonSetSchema =
    SObject [(''maxSurge'', SOptional (SRef ''UtilIntstrIntOrString'' ''UtilIntstrIntOrStringSchema'')),
     (''maxUnavailable'', SOptional (SRef ''UtilIntstrIntOrString'' ''UtilIntstrIntOrStringSchema''))]"

definition K8SIoApiAppsV1DaemonSetUpdateStrategyTypeSchema :: schema where
  "K8SIoApiAppsV1DaemonSetUpdateStrategyTypeSchema =
    SNativeEnum K8SIoApiAppsV1DaemonSetUpdateStrategyType"

definition K8SIoApiAppsV1DeploymentSpecSchema :: schema where
  "K8SIoApiAppsV1DeploymentSpecSchema =
    SObject [(''minReadySeconds'', SOptional (SInteger)),
     (''paused'', SOptional (SBoolean)),
     (''progressDeadlineSeconds'', SOptional (SInteger)),
     (''replicas'', SOptional (SInteger)),
     (''revisionHistoryLimit'', SOptional (SInteger)),
     (''selector'', SOptional (SRef ''ApisMetaV1LabelSelector'' ''ApisMetaV1LabelSelectorSchema'')),
     (''strategy'', SOptional (SRef ''K8SIoApiAppsV1DeploymentStrategy'' ''K8SIoApiAppsV1DeploymentStrategySchema'')),
     (''template'', SRef ''K8SIoApiCoreV1PodTemplateSpec'' ''K8SIoApiCoreV1PodTemplateSpecSchema'')]"

definition K8SIoApiAppsV1DeploymentStrategySchema :: schema where
  "K8SIoApiAppsV1DeploymentStrategySchema =
    SObject [(''rollingUpdate'', SOptional (SRef ''K8SIoApiAppsV1RollingUpdateDeployment'' ''K8SIoApiAppsV1RollingUpdateDeploymentSchema'')),
     (''type'', SOptional (SRef ''K8SIoApiAppsV1DeploymentStrategyType'' ''K8SIoApiAppsV1DeploymentStrategyTypeSchema''))]"

definition K8SIoApiAppsV1RollingUpdateDeploymentSchema :: schema where
  "K8SIoApiAppsV1RollingUpdateDeploymentSchema =
    SObject [(''maxSurge'', SOptional (SRef ''UtilIntstrIntOrString'' ''UtilIntstrIntOrStringSchema'')),
     (''maxUnavailable'', SOptional (SRef ''UtilIntstrIntOrString'' ''UtilIntstrIntOrStringSchema''))]"

definition K8SIoApiAppsV1DeploymentStrategyTypeSchema :: schema where
  "K8SIoApiAppsV1DeploymentStrategyTypeSchema =
    SNativeEnum K8SIoApiAppsV1DeploymentStrategyType"

definition K8SIoApiAppsV1StatefulSetSpecSchema :: schema where
  "K8SIoApiAppsV1StatefulSetSpecSchema =
    SObject [(''minReadySeconds'', SOptional (SInteger)),
     (''ordinals'', SOptional (SRef ''K8SIoApiAppsV1StatefulSetOrdinals'' ''K8SIoApiAppsV1StatefulSetOrdinalsSchema'')),
     (''persistentVolumeClaimRetentionPolicy'', SOptional (SRef ''K8SIoApiAppsV1StatefulSetPersistentVolumeClaimRetentionPolicy'' ''K8SIoApiAppsV1StatefulSetPersistentVolumeClaimRetentionPolicySchema'')),
     (''podManagementPolicy'', SOptional (SRef ''K8SIoApiAppsV1PodManagementPolicyType'' ''K8SIoApiAppsV1PodManagementPolicyTypeSchema'')),
     (''replicas'', SOptional (SInteger)),
     (''revisionHistoryLimit'', SOptional (SInteger)),
     (''selector'', SOptional (SRef ''ApisMetaV1LabelSelector'' ''ApisMetaV1LabelSelectorSchema'')),
     (''serviceName'', SString),
     (''template'', SRef ''K8SIoApiCoreV1PodTemplateSpec'' ''K8SIoApiCoreV1PodTemplateSpecSchema''),
     (''updateStrategy'', SOptional (SRef ''K8SIoApiAppsV1StatefulSetUpdateStrategy'' ''K8SIoApiAppsV1StatefulSetUpdateStrategySchema'')),
     (''volumeClaimTemplates'', SOptional (SArray (SRef ''K8SIoApiCoreV1PersistentVolumeClaim'' ''K8SIoApiCoreV1PersistentVolumeClaimSchema'')))]"

definition K8SIoApiAppsV1StatefulSetOrdinalsSchema :: schema where
  "K8SIoApiAppsV1StatefulSetOrdinalsSchema =
    SObject [(''start'', SInteger)]"

definition K8SIoApiAppsV1StatefulSetPersistentVolumeClaimRetentionPolicySchema :: schema where
  "K8SIoApiAppsV1StatefulSetPersistentVolumeClaimRetentionPolicySchema =
    SObject [(''whenDeleted'', SOptional (SRef ''K8SIoApiAppsV1PersistentVolumeClaimRetentionPolicyType'' ''K8SIoApiAppsV1PersistentVolumeClaimRetentionPolicyTypeSchema'')),
     (''whenScaled'', SOptional (SRef ''K8SIoApiAppsV1PersistentVolumeClaimRetentionPolicyType'' ''K8SIoApiAppsV1PersistentVolumeClaimRetentionPolicyTypeSchema''))]"

definition K8SIoApiAppsV1PersistentVolumeClaimRetentionPolicyTypeSchema :: schema where
  "K8SIoApiAppsV1PersistentVolumeClaimRetentionPolicyTypeSchema =
    SString"

definition K8SIoApiAppsV1PodManagementPolicyTypeSchema :: schema where
  "K8SIoApiAppsV1PodManagementPolicyTypeSchema =
    SString"

definition K8SIoApiAppsV1StatefulSetUpdateStrategySchema :: schema where
  "K8SIoApiAppsV1StatefulSetUpdateStrategySchema =
    SObject [(''rollingUpdate'', SOptional (SRef ''K8SIoApiAppsV1RollingUpdateStatefulSetStrategy'' ''K8SIoApiAppsV1RollingUpdateStatefulSetStrategySchema'')),
     (''type'', SOptional (SRef ''K8SIoApiAppsV1StatefulSetUpdateStrategyType'' ''K8SIoApiAppsV1StatefulSetUpdateStrategyTypeSchema''))]"

definition K8SIoApiAppsV1RollingUpdateStatefulSetStrategySchema :: schema where
  "K8SIoApiAppsV1RollingUpdateStatefulSetStrategySchema =
    SObject [(''maxUnavailable'', SOptional (SRef ''UtilIntstrIntOrString'' ''UtilIntstrIntOrStringSchema'')),
     (''partition'', SOptional (SInteger))]"

definition K8SIoApiAppsV1StatefulSetUpdateStrategyTypeSchema :: schema where
  "K8SIoApiAppsV1StatefulSetUpdateStrategyTypeSchema =
    SString"

definition K8SIoApiCoreV1PersistentVolumeClaimSchema :: schema where
  "K8SIoApiCoreV1PersistentVolumeClaimSchema =
    SIntersection [SRef ''ApisMetaV1TypeMeta'' ''ApisMetaV1TypeMetaSchema'',
     SObject [(''metadata'', SOptional (SRef ''ApisMetaV1ObjectMeta'' ''ApisMetaV1ObjectMetaSchema'')),
     (''spec'', SOptional (SRef ''K8SIoApiCoreV1PersistentVolumeClaimSpec'' ''K8SIoApiCoreV1PersistentVolumeClaimSpecSchema'')),
     (''status'', SOptional (SRef ''K8SIoApiCoreV1PersistentVolumeClaimStatus'' ''K8SIoApiCoreV1PersistentVolumeClaimStatusSchema''))]]"

definition K8SIoApiCoreV1PersistentVolumeClaimSpecSchema :: schema where
  "K8SIoApiCoreV1PersistentVolumeClaimSpecSchema =
    SObject [(''accessModes'', SOptional (SArray (SRef ''K8SIoApiCoreV1PersistentVolumeAccessMode'' ''K8SIoApiCoreV1PersistentVolumeAccessModeSchema''))),
     (''dataSource'', SOptional (SRef ''K8SIoApiCoreV1TypedLocalObjectReference'' ''K8SIoApiCoreV1TypedLocalObjectReferenceSchema'')),
     (''dataSourceRef'', SOptional (SRef ''K8SIoApiCoreV1TypedObjectReference'' ''K8SIoApiCoreV1TypedObjectReferenceSchema'')),
     (''resources'', SOptional (SRef ''K8SIoApiCoreV1ResourceRequirements'' ''K8SIoApiCoreV1ResourceRequirementsSchema'')),
     (''selector'', SOptional (SRef ''ApisMetaV1LabelSelector'' ''ApisMetaV1LabelSelectorSchema'')),
     (''storageClassName'', SOptional (SString)),
     (''volumeMode'', SOptional (SRef ''K8SIoApiCoreV1PersistentVolumeMode'' ''K8SIoApiCoreV1PersistentVolumeModeSchema'')),
     (''volumeName'', SOptional (SString))]"

definition K8SIoApiCoreV1PersistentVolumeAccessModeSchema :: schema where
  "K8SIoApiCoreV1PersistentVolumeAccessModeSchema =
    SString"

definition K8SIoApiCoreV1TypedLocalObjectReferenceSchema :: schema where
  "K8SIoApiCoreV1TypedLocalObjectReferenceSchema =
    SObject [(''apiGroup'', SString),
     (''kind'', SString),
     (''name'', SString)]"

definition K8SIoApiCoreV1TypedObjectReferenceSchema :: schema where
  "K8SIoApiCoreV1TypedObjectReferenceSchema =
    SObject [(''apiGroup'', SString),
     (''kind'', SString),
     (''name'', SString),
     (''namespace'', SOptional (SString))]"

definition K8SIoApiCoreV1PersistentVolumeModeSchema :: schema where
  "K8SIoApiCoreV1PersistentVolumeModeSchema =
    SString"

definition K8SIoApiCoreV1PersistentVolumeClaimStatusSchema :: schema where
  "K8SIoApiCoreV1PersistentVolumeClaimStatusSchema =
    SObject [(''accessModes'', SOptional (SArray (SRef ''K8SIoApiCoreV1PersistentVolumeAccessMode'' ''K8SIoApiCoreV1PersistentVolumeAccessModeSchema''))),
     (''allocatedResources'', SOptional (SRef ''K8SIoApiCoreV1ResourceList'' ''K8SIoApiCoreV1ResourceListSchema'')),
     (''capacity'', SOptional (SRef ''K8SIoApiCoreV1ResourceList'' ''K8SIoApiCoreV1ResourceListSchema'')),
     (''conditions'', SOptional (SArray (SRef ''K8SIoApiCoreV1PersistentVolumeClaimCondition'' ''K8SIoApiCoreV1PersistentVolumeClaimConditionSchema''))),
     (''phase'', SOptional (SRef ''K8SIoApiCoreV1PersistentVolumeClaimPhase'' ''K8SIoApiCoreV1PersistentVolumeClaimPhaseSchema'')),
     (''resizeStatus'', SOptional (SRef ''K8SIoApiCoreV1PersistentVolumeClaimResizeStatus'' ''K8SIoApiCoreV1PersistentVolumeClaimResizeStatusSchema''))]"

definition K8SIoApiCoreV1PersistentVolumeClaimConditionSchema :: schema where
  "K8SIoApiCoreV1PersistentVolumeClaimConditionSchema =
    SObject [(''lastProbeTime'', SOptional (SRef ''ApisMetaV1Time'' ''ApisMetaV1TimeSchema'')),
     (''lastTransitionTime'', SOptional (SRef ''ApisMetaV1Time'' ''ApisMetaV1TimeSchema'')),
     (''message'', SOptional (SString)),
     (''reason'', SOptional (SString)),
     (''status'', SRef ''K8SIoApiCoreV1ConditionStatus'' ''K8SIoApiCoreV1ConditionStatusSchema''),
     (''type'', SRef ''K8SIoApiCoreV1PersistentVolumeClaimConditionType'' ''K8SIoApiCoreV1PersistentVolumeClaimConditionTypeSchema'')]"

definition ApisMetaV1TimeSchema :: schema where
  "ApisMetaV1TimeSchema =
    SString"

definition K8SIoApiCoreV1PersistentVolumeClaimConditionTypeSchema :: schema where
  "K8SIoApiCoreV1PersistentVolumeClaimConditionTypeSchema =
    SString"

definition K8SIoApiCoreV1PersistentVolumeClaimPhaseSchema :: schema where
  "K8SIoApiCoreV1PersistentVolumeClaimPhaseSchema =
    SString"

definition K8SIoApiCoreV1PersistentVolumeClaimResizeStatusSchema :: schema where
  "K8SIoApiCoreV1PersistentVolumeClaimResizeStatusSchema =
    SString"

definition ApisKubepkgV1Alpha1ManifestsSchema :: schema where
  "ApisKubepkgV1Alpha1ManifestsSchema =
    SRecord (SString) (SAny)"

definition ApisKubepkgV1Alpha1ServiceAccountSchema :: schema where
  "ApisKubepkgV1Alpha1ServiceAccountSchema =
    SObject [(''rules'', SArray (SRef ''K8SIoApiRbacV1PolicyRule'' ''K8SIoApiRbacV1PolicyRuleSchema'')),
     (''scope'', SOptional (SRef ''ApisKubepkgV1Alpha1ScopeType'' ''ApisKubepkgV1Alpha1ScopeTypeSchema''))]"

definition K8SIoApiRbacV1PolicyRuleSchema :: schema where
  "K8SIoApiRbacV1PolicyRuleSchema =
    SObject [(''apiGroups'', SOptional (SArray (SString))),
     (''nonResourceURLs'', SOptional (SArray (SString))),
     (''resourceNames'', SOptional (SArray (SString))),
     (''resources'', SOptional (SArray (SString))),
     (''verbs'', SArray (SString))]"

definition ApisKubepkgV1Alpha1ScopeTypeSchema :: schema where
  "ApisKubepkgV1Alpha1ScopeTypeSchema =
    SNativeEnum ApisKubepkgV1Alpha1ScopeType"

definition ApisKubepkgV1Alpha1ServiceSchema :: schema where
  "ApisKubepkgV1Alpha1ServiceSchema =
    SObject [(''clusterIP'', SOptional (SString)),
     (''expose'', SOptional (SRef ''ApisKubepkgV1Alpha1Expose'' ''ApisKubepkgV1Alpha1ExposeSchema'')),
     (''paths'', SOptional (SRecord (SString) (SString))),
     (''ports'', SOptional (SRecord (SString) (SInteger)))]"

definition ApisKubepkgV1Alpha1ExposeSchema :: schema where
  "ApisKubepkgV1Alpha1ExposeSchema =
    SObject [(''gateway'', SOptional (SArray (SString))),
     (''type'', SString)]"

definition ApisKubepkgV1Alpha1VolumeSchema :: schema where
  "ApisKubepkgV1Alpha1VolumeSchema =
    SDiscriminator ''type'' [(''ConfigMap'', SObject [(''mountPath'', SString),
     (''mountPropagation'', SOptional (SEnums [''Bidirectional'', ''HostToContainer''])),
     (''optional'', SOptional (SBoolean)),
     (''prefix'', SOptional (SString)),
     (''readOnly'', SOptional (SBoolean)),
     (''subPath'', SOptional (SString)),
     (''opt'', SOptional (SRef ''K8SIoApiCoreV1ConfigMapVolumeSource'' ''K8SIoApiCoreV1ConfigMapVolumeSourceSchema'')),
     (''spec'', SOptional (SRef ''ApisKubepkgV1Alpha1SpecData'' ''ApisKubepkgV1Alpha1SpecDataSchema''))]),
     (''EmptyDir'', SObject [(''mountPath'', SString),
     (''mountPropagation'', SOptional (SEnums [''Bidirectional'', ''HostToContainer''])),
     (''optional'', SOptional (SBoolean)),
     (''prefix'', SOptional (SString)),
     (''readOnly'', SOptional (SBoolean)),
     (''subPath'', SOptional (SString)),
     (''opt'', SOptional (SRef ''K8SIoApiCoreV1EmptyDirVolumeSource'' ''K8SIoApiCoreV1EmptyDirVolumeSourceSchema''))]),
     (''HostPath'', SObject [(''mountPath'', SString),
     (''mountPropagation'', SOptional (SEnums [''Bidirectional'', ''HostToContainer''])),
     (''optional'', SOptional (SBoolean)),
     (''prefix'', SOptional (SString)),
     (''readOnly'', SOptional (SBoolean)),
     (''subPath'', SOptional (SString)),
     (''opt'', SOptional (SRef ''K8SIoApiCoreV1HostPathVolumeSource'' ''K8SIoApiCoreV1HostPathVolumeSourceSchema''))]),
     (''PersistentVolumeClaim'', SObject [(''mountPath'', SString),
     (''mountPropagation'', SOptional (SEnums [''Bidirectional'', ''HostToContainer''])),
     (''optional'', SOptional (SBoolean)),
     (''prefix'', SOptional (SString)),
     (''readOnly'', SOptional (SBoolean)),
     (''subPath'', SOptional (SString)),
     (''opt'', SOptional (SRef ''K8SIoApiCoreV1PersistentVolumeClaimVolumeSource'' ''K8SIoApiCoreV1PersistentVolumeClaimVolumeSourceSchema'')),
     (''spec'', SRef ''K8SIoApiCoreV1PersistentVolumeClaimSpec'' ''K8SIoApiCoreV1PersistentVolumeClaimSpecSchema'')]),
     (''Secret'', SObject [(''mountPath'', SString),
     (''mountPropagation'', SOptional (SEnums [''Bidirectional'', ''HostToContainer''])),
     (''optional'', SOptional (SBoolean)),
     (''prefix'', SOptional (SString)),
     (''readOnly'', SOptional (SBoolean)),
     (''subPath'', SOptional (SString)),
     (''opt'', SOptional (SRef ''K8SIoApiCoreV1SecretVolumeSource'' ''K8SIoApiCoreV1SecretVolumeSourceSchema'')),
     (''spec'', SOptional (SRef ''ApisKubepkgV1Alpha1SpecData'' ''ApisKubepkgV1Alpha1SpecDataSchema''))])]"

definition K8SIoApiCoreV1ConfigMapVolumeSourceSchema :: schema where
  "K8SIoApiCoreV1ConfigMapVolumeSourceSchema =
    SIntersection [SRef ''K8SIoApiCoreV1LocalObjectReference'' ''K8SIoApiCoreV1LocalObjectReferenceSchema'',
     SObject [(''defaultMode'', SOptional (SInteger)),
     (''items'', SOptional (SArray (SRef ''K8SIoApiCoreV1KeyToPath'' ''K8SIoApiCoreV1KeyToPathSchema''))),
     (''optional'', SOptional (SBoolean))]]"

definition K8SIoApiCoreV1KeyToPathSchema :: schema where
  "K8SIoApiCoreV1KeyToPathSchema =
    SObject [(''key'', SString),
     (''mode'', SOptional (SInteger)),
     (''path'', SString)]"

definition ApisKubepkgV1Alpha1SpecDataSchema :: schema where
  "ApisKubepkgV1Alpha1SpecDataSchema =
    SObject [(''data'', SRecord (SString) (SString))]"

definition K8SIoApiCoreV1EmptyDirVolumeSourceSchema :: schema where
  "K8SIoApiCoreV1EmptyDirVolumeSourceSchema =
    SObject [(''medium'', SOptional (SRef ''K8SIoApiCoreV1StorageMedium'' ''K8SIoApiCoreV1StorageMediumSchema'')),
     (''sizeLimit'', SOptional (SRef ''ApiResourceQuantity'' ''ApiResourceQuantitySchema''))]"

definition K8SIoApiCoreV1StorageMediumSchema :: schema where
  "K8SIoApiCoreV1StorageMediumSchema =
    SString"

definition K8SIoApiCoreV1HostPathVolumeSourceSchema :: schema where
  "K8SIoApiCoreV1HostPathVolumeSourceSchema =
    SObject [(''path'', SString),
     (''type'', SOptional (SRef ''K8SIoApiCoreV1HostPathType'' ''K8SIoApiCoreV1HostPathTypeSchema''))]"

definition K8SIoApiCoreV1HostPathTypeSchema :: schema where
  "K8SIoApiCoreV1HostPathTypeSchema =
    SString"

definition K8SIoApiCoreV1PersistentVolumeClaimVolumeSourceSchema :: schema where
  "K8SIoApiCoreV1PersistentVolumeClaimVolumeSourceSchema =
    SObject [(''claimName'', SString),
     (''readOnly'', SOptional (SBoolean))]"

definition K8SIoApiCoreV1SecretVolumeSourceSchema :: schema where
  "K8SIoApiCoreV1SecretVolumeSourceSchema =
    SObject [(''defaultMode'', SOptional (SInteger)),
     (''items'', SOptional (SArray (SRef ''K8SIoApiCoreV1KeyToPath'' ''K8SIoApiCoreV1KeyToPathSchema''))),
     (''optional'', SOptional (SBoolean)),
     (''secretName'', SOptional (SString))]"

definition ApisKubepkgV1Alpha1StatusSchema :: schema where
  "ApisKubepkgV1Alpha1StatusSchema =
    SObject [(''digests'', SOptional (SArray (SRef ''ApisKubepkgV1Alpha1DigestMeta'' ''ApisKubepkgV1Alpha1DigestMetaSchema''))),
     (''endpoint'', SOptional (SRecord (SString) (SString))),
     (''images'', SOptional (SRecord (SString) (SString))),
     (''resources'', SOptional (SArray (SRecord (SString) (SAny))))]"

definition ApisKubepkgV1Alpha1DigestMetaSchema :: schema where
  "ApisKubepkgV1Alpha1DigestMetaSchema =
    SObject [(''digest'', SString),
     (''name'', SString),
     (''platform'', SOptional (SString)),
     (''size'', SRef ''ApisKubepkgV1Alpha1FileSize'' ''ApisKubepkgV1Alpha1FileSizeSchema''),
     (''tag'', SOptional (SString)),
     (''type'', SRef ''ApisKubepkgV1Alpha1DigestMetaType'' ''ApisKubepkgV1Alpha1DigestMetaTypeSchema'')]"

definition ApisKubepkgV1Alpha1FileSizeSchema :: schema where
  "ApisKubepkgV1Alpha1FileSizeSchema =
    SInteger"

definition ApisKubepkgV1Alpha1DigestMetaTypeSchema :: schema where
  "ApisKubepkgV1Alpha1DigestMetaTypeSchema =
    SNativeEnum ApisKubepkgV1Alpha1DigestMetaType"

definition ApisKubepkgV1Alpha1KubePkgListSchema :: schema where
  "ApisKubepkgV1Alpha1KubePkgListSchema =
    SIntersection [SRef ''ApisMetaV1TypeMeta'' ''ApisMetaV1TypeMetaSchema'',
     SObject [(''items'', SArray (SRef ''ApisKubepkgV1Alpha1KubePkg'' ''ApisKubepkgV1Alpha1KubePkgSchema'')),
     (''metadata'', SOptional (SRef ''ApisMetaV1ListMeta'' ''ApisMetaV1ListMetaSchema''))]]"

definition ApisMetaV1ListMetaSchema :: schema where
  "ApisMetaV1ListMetaSchema =
    SObject [(''continue'', SOptional (SString)),
     (''remainingItemCount'', SOptional (SInteger)),
     (''resourceVersion'', SOptional (SString)),
     (''selfLink'', SOptional (SString))]"

definition GroupDeploymentIdSchema :: schema where
  "GroupDeploymentIdSchema =
    SString"

definition KubepkgSchema :: schema where
  "KubepkgSchema =
    SIntersection [SRef ''DatatypesCreationUpdationDeletionTime'' ''DatatypesCreationUpdationDeletionTimeSchema'',
     SObject [(''group'', SString),
     (''kubepkgID'', SRef ''KubepkgId'' ''KubepkgIdSchema''),
     (''name'', SString)]]"

definition KubepkgIdSchema :: schema where
  "KubepkgIdSchema =
    SString"

definition KubepkgChannelSchema :: schema where
  "KubepkgChannelSchema =
    SNativeEnum KubepkgChannel"

definition KubepkgRevisionIdSchema :: schema where
  "KubepkgRevisionIdSchema =
    SString"

definition KubepkgVersionInfoSchema :: schema where
  "KubepkgVersionInfoSchema =
    SObject [(''revisionID'', SRef ''KubepkgRevisionId'' ''KubepkgRevisionIdSchema''),
     (''version'', SString)]"

definition GroupRobotDataListSchema :: schema where
  "GroupRobotDataListSchema =
    SObject [(''data'', SArray (SRef ''GroupRobot'' ''GroupRobotSchema'')),
     (''total'', SInteger)]"

definition GroupRobotSchema :: schema where
  "GroupRobotSchema =
    SIntersection [SRef ''GroupAccount'' ''GroupAccountSchema'',
     SRef ''AccountRobotInfo'' ''AccountRobotInfoSchema'',
     SObject []]"

definition AccountRobotInfoSchema :: schema where
  "AccountRobotInfoSchema =
    SObject [(''name'', SString)]"

definition AccountRobotSchema :: schema where
  "AccountRobotSchema =
    SIntersection [SRef ''Account'' ''AccountSchema'',
     SRef ''AccountRobotInfo'' ''AccountRobotInfoSchema'',
     SObject []]"

definition GroupRefreshGroupRobotTokenDataSchema :: schema where
  "GroupRefreshGroupRobotTokenDataSchema =
    SIntersection [SRef ''GroupRoleInfo'' ''GroupRoleInfoSchema'',
     SObject [(''expiresIn'', SInteger)]]"

definition AuthOperatorAccountSchema :: schema where
  "AuthOperatorAccountSchema =
    SIntersection [SRef ''AccountUser'' ''AccountUserSchema'',
     SObject [(''accountType'', SRef ''AccountType'' ''AccountTypeSchema''),
     (''adminRole'', SRef ''GroupRoleType'' ''GroupRoleTypeSchema''),
     (''groupRoles'', SOptional (SRecord (SRef ''GroupId'' ''GroupIdSchema'') (SRef ''GroupRoleType'' ''GroupRoleTypeSchema'')))]]"

definition RbacPermissionsSchema :: schema where
  "RbacPermissionsSchema =
    SRecord (SString) (SArray (SAny))"

definition declared_schemas :: "(string \<times> string \<times> schema) list" where
  "declared_schemas =
    [(''AccountId'', ''AccountIdSchema'', AccountIdSchema),
     (''AccountUserDataList'', ''AccountUserDataListSchema'', AccountUserDataListSchema),
     (''AccountUser'', ''AccountUserSchema'', AccountUserSchema),
     (''Account'', ''AccountSchema'', AccountSchema),
     (''DatatypesPrimaryId'', ''DatatypesPrimaryIdSchema'', DatatypesPrimaryIdSchema),
     (''DatatypesCreationUpdationDeletionTime'', ''DatatypesCreationUpdationDeletionTimeSchema'', DatatypesCreationUpdationDeletionTimeSchema),
     (''DatatypesCreationUpdationTime'', ''DatatypesCreationUpdationTimeSchema'', DatatypesCreationUpdationTimeSchema),
     (''DatatypesCreationTime'', ''DatatypesCreationTimeSchema'', DatatypesCreationTimeSchema),
     (''DatatypesTimestamp'', ''DatatypesTimestampSchema'', DatatypesTimestampSchema),
     (''AccountType'', ''AccountTypeSchema'', AccountTypeSchema),
     (''AccountUserInfo'', ''AccountUserInfoSchema'', AccountUserInfoSchema),
     (''GroupRoleType'', ''GroupRoleTypeSchema'', GroupRoleTypeSchema),
     (''GroupUserDataList'', ''GroupUserDataListSchema'', GroupUserDataListSchema),
     (''GroupUser'', ''GroupUserSchema'', GroupUserSchema),
     (''GroupAccount'', ''GroupAccountSchema'', GroupAccountSchema),
     (''GroupId'', ''GroupIdSchema'', GroupIdSchema),
     (''GroupRoleInfo'', ''GroupRoleInfoSchema'', GroupRoleInfoSchema),
     (''AuthProviderInfo'', ''AuthProviderInfoSchema'', AuthProviderInfoSchema),
     (''AuthExchangeTokenData'', ''AuthExchangeTokenDataSchema'', AuthExchangeTokenDataSchema),
     (''AuthToken'', ''AuthTokenSchema'', AuthTokenSchema),
     (''Time'', ''TimeSchema'', TimeSchema),
     (''Agent'', ''AgentSchema'', AgentSchema),
     (''DatatypesDatetime'', ''DatatypesDatetimeSchema'', DatatypesDatetimeSchema),
     (''Cluster'', ''ClusterSchema'', ClusterSchema),
     (''ClusterInfo'', ''ClusterInfoSchema'', ClusterInfoSchema),
     (''ClusterEnvType'', ''ClusterEnvTypeSchema'', ClusterEnvTypeSchema),
     (''ClusterAgentInfo'', ''ClusterAgentInfoSchema'', ClusterAgentInfoSchema),
     (''ClusterId'', ''ClusterIdSchema'', ClusterIdSchema),
     (''ClusterNetType'', ''ClusterNetTypeSchema'', ClusterNetTypeSchema),
     (''ClientObject'', ''ClientObjectSchema'', ClientObjectSchema),
     (''ClusterInstanceStatus'', ''ClusterInstanceStatusSchema'', ClusterInstanceStatusSchema),
     (''KubeutilClusterinfoClusterInfo'', ''KubeutilClusterinfoClusterInfoSchema'', KubeutilClusterinfoClusterInfoSchema),
     (''KubeutilClusterinfoClusterNode'', ''KubeutilClusterinfoClusterNodeSchema'', KubeutilClusterinfoClusterNodeSchema),
     (''K8SIoApiCoreV1NodeSystemInfo'', ''K8SIoApiCoreV1NodeSystemInfoSchema'', K8SIoApiCoreV1NodeSystemInfoSchema),
     (''StrfmtDuration'', ''StrfmtDurationSchema'', StrfmtDurationSchema),
     (''Group'', ''GroupSchema'', GroupSchema),
     (''GroupInfo'', ''GroupInfoSchema'', GroupInfoSchema),
     (''GroupType'', ''GroupTypeSchema'', GroupTypeSchema),
     (''GroupEnvWithCluster'', ''GroupEnvWithClusterSchema'', GroupEnvWithClusterSchema),
     (''GroupEnv'', ''GroupEnvSchema'', GroupEnvSchema),
     (''GroupEnvInfo'', ''GroupEnvInfoSchema'', GroupEnvInfoSchema),
     (''GroupEnvType'', ''GroupEnvTypeSchema'', GroupEnvTypeSchema),
     (''GroupEnvCluster'', ''GroupEnvClusterSchema'', GroupEnvClusterSchema),
     (''GroupEnvId'', ''GroupEnvIdSchema'', GroupEnvIdSchema),
     (''ApisKubepkgV1Alpha1KubePkg'', ''ApisKubepkgV1Alpha1KubePkgSchema'', ApisKubepkgV1Alpha1KubePkgSchema),
     (''ApisMetaV1TypeMeta'', ''ApisMetaV1TypeMetaSchema'', ApisMetaV1TypeMetaSchema),
     (''ApisMetaV1ObjectMeta'', ''ApisMetaV1ObjectMetaSchema'', ApisMetaV1ObjectMetaSchema),
     (''ApisKubepkgV1Alpha1Spec'', ''ApisKubepkgV1Alpha1SpecSchema'', ApisKubepkgV1Alpha1SpecSchema),
     (''ApisKubepkgV1Alpha1EnvVarValueOrFrom'', ''ApisKubepkgV1Alpha1EnvVarValueOrFromSchema'', ApisKubepkgV1Alpha1EnvVarValueOrFromSchema),
     (''ApisKubepkgV1Alpha1Container'', ''ApisKubepkgV1Alpha1ContainerSchema'', ApisKubepkgV1Alpha1ContainerSchema),
     (''ApisKubepkgV1Alpha1Image'', ''ApisKubepkgV1Alpha1ImageSchema'', ApisKubepkgV1Alpha1ImageSchema),
     (''K8SIoApiCoreV1PullPolicy'', ''K8SIoApiCoreV1PullPolicySchema'', K8SIoApiCoreV1PullPolicySchema),
     (''K8SIoApiCoreV1Lifecycle'', ''K8SIoApiCoreV1LifecycleSchema'', K8SIoApiCoreV1LifecycleSchema),
     (''K8SIoApiCoreV1LifecycleHandler'', ''K8SIoApiCoreV1LifecycleHandlerSchema'', K8SIoApiCoreV1LifecycleHandlerSchema),
     (''K8SIoApiCoreV1ExecAction'', ''K8SIoApiCoreV1ExecActionSchema'', K8SIoApiCoreV1ExecActionSchema),
     (''K8SIoApiCoreV1HttpGetAction'', ''K8SIoApiCoreV1HttpGetActionSchema'', K8SIoApiCoreV1HttpGetActionSchema),
     (''K8SIoApiCoreV1HttpHeader'', ''K8SIoApiCoreV1HttpHeaderSchema'', K8SIoApiCoreV1HttpHeaderSchema),
     (''UtilIntstrIntOrString'', ''UtilIntstrIntOrStringSchema'', UtilIntstrIntOrStringSchema),
     (''K8SIoApiCoreV1UriScheme'', ''K8SIoApiCoreV1UriSchemeSchema'', K8SIoApiCoreV1UriSchemeSchema),
     (''K8SIoApiCoreV1TcpSocketAction'', ''K8SIoApiCoreV1TcpSocketActionSchema'', K8SIoApiCoreV1TcpSocketActionSchema),
     (''K8SIoApiCoreV1Probe'', ''K8SIoApiCoreV1ProbeSchema'', K8SIoApiCoreV1ProbeSchema),
     (''K8SIoApiCoreV1ProbeHandler'', ''K8SIoApiCoreV1ProbeHandlerSchema'', K8SIoApiCoreV1ProbeHandlerSchema),
     (''K8SIoApiCoreV1GrpcAction'', ''K8SIoApiCoreV1GrpcActionSchema'', K8SIoApiCoreV1GrpcActionSchema),
     (''K8SIoApiCoreV1ResourceRequirements'', ''K8SIoApiCoreV1ResourceRequirementsSchema'', K8SIoApiCoreV1ResourceRequirementsSchema),
     (''K8SIoApiCoreV1ResourceClaim'', ''K8SIoApiCoreV1ResourceClaimSchema'', K8SIoApiCoreV1ResourceClaimSchema),
     (''K8SIoApiCoreV1ResourceList'', ''K8SIoApiCoreV1ResourceListSchema'', K8SIoApiCoreV1ResourceListSchema),
     (''K8SIoApiCoreV1ResourceName'', ''K8SIoApiCoreV1ResourceNameSchema'', K8SIoApiCoreV1ResourceNameSchema),
     (''ApiResourceQuantity'', ''ApiResourceQuantitySchema'', ApiResourceQuantitySchema),
     (''K8SIoApiCoreV1SecurityContext'', ''K8SIoApiCoreV1SecurityContextSchema'', K8SIoApiCoreV1SecurityContextSchema),
     (''K8SIoApiCoreV1Capabilities'', ''K8SIoApiCoreV1CapabilitiesSchema'', K8SIoApiCoreV1CapabilitiesSchema),
     (''K8SIoApiCoreV1Capability'', ''K8SIoApiCoreV1CapabilitySchema'', K8SIoApiCoreV1CapabilitySchema),
     (''K8SIoApiCoreV1ProcMountType'', ''K8SIoApiCoreV1ProcMountTypeSchema'', K8SIoApiCoreV1ProcMountTypeSchema),
     (''K8SIoApiCoreV1SeLinuxOptions'', ''K8SIoApiCoreV1SeLinuxOptionsSchema'', K8SIoApiCoreV1SeLinuxOptionsSchema),
     (''K8SIoApiCoreV1SeccompProfile'', ''K8SIoApiCoreV1SeccompProfileSchema'', K8SIoApiCoreV1SeccompProfileSchema),
     (''K8SIoApiCoreV1SeccompProfileType'', ''K8SIoApiCoreV1SeccompProfileTypeSchema'', K8SIoApiCoreV1SeccompProfileTypeSchema),
     (''K8SIoApiCoreV1WindowsSecurityContextOptions'', ''K8SIoApiCoreV1WindowsSecurityContextOptionsSchema'', K8SIoApiCoreV1WindowsSecurityContextOptionsSchema),
     (''K8SIoApiCoreV1TerminationMessagePolicy'', ''K8SIoApiCoreV1TerminationMessagePolicySchema'', K8SIoApiCoreV1TerminationMessagePolicySchema),
     (''ApisKubepkgV1Alpha1Deploy'', ''ApisKubepkgV1Alpha1DeploySchema'', ApisKubepkgV1Alpha1DeploySchema),
     (''K8SIoApiBatchV1CronJobSpec'', ''K8SIoApiBatchV1CronJobSpecSchema'', K8SIoApiBatchV1CronJobSpecSchema),
     (''K8SIoApiBatchV1ConcurrencyPolicy'', ''K8SIoApiBatchV1ConcurrencyPolicySchema'', K8SIoApiBatchV1ConcurrencyPolicySchema),
     (''K8SIoApiBatchV1JobTemplateSpec'', ''K8SIoApiBatchV1JobTemplateSpecSchema'', K8SIoApiBatchV1JobTemplateSpecSchema),
     (''K8SIoApiBatchV1JobSpec'', ''K8SIoApiBatchV1JobSpecSchema'', K8SIoApiBatchV1JobSpecSchema),
     (''K8SIoApiBatchV1CompletionMode'', ''K8SIoApiBatchV1CompletionModeSchema'', K8SIoApiBatchV1CompletionModeSchema),
     (''K8SIoApiBatchV1PodFailurePolicy'', ''K8SIoApiBatchV1PodFailurePolicySchema'', K8SIoApiBatchV1PodFailurePolicySchema),
     (''K8SIoApiBatchV1PodFailurePolicyRule'', ''K8SIoApiBatchV1PodFailurePolicyRuleSchema'', K8SIoApiBatchV1PodFailurePolicyRuleSchema),
     (''K8SIoApiBatchV1PodFailurePolicyAction'', ''K8SIoApiBatchV1PodFailurePolicyActionSchema'', K8SIoApiBatchV1PodFailurePolicyActionSchema),
     (''K8SIoApiBatchV1PodFailurePolicyOnExitCodesRequirement'', ''K8SIoApiBatchV1PodFailurePolicyOnExitCodesRequirementSchema'', K8SIoApiBatchV1PodFailurePolicyOnExitCodesRequirementSchema),
     (''K8SIoApiBatchV1PodFailurePolicyOnExitCodesOperator'', ''K8SIoApiBatchV1PodFailurePolicyOnExitCodesOperatorSchema'', K8SIoApiBatchV1PodFailurePolicyOnExitCodesOperatorSchema),
     (''K8SIoApiBatchV1PodFailurePolicyOnPodConditionsPattern'', ''K8SIoApiBatchV1PodFailurePolicyOnPodConditionsPatternSchema'', K8SIoApiBatchV1PodFailurePolicyOnPodConditionsPatternSchema),
     (''K8SIoApiCoreV1ConditionStatus'', ''K8SIoApiCoreV1ConditionStatusSchema'', K8SIoApiCoreV1ConditionStatusSchema),
     (''K8SIoApiCoreV1PodConditionType'', ''K8SIoApiCoreV1PodConditionTypeSchema'', K8SIoApiCoreV1PodConditionTypeSchema),
     (''ApisMetaV1LabelSelector'', ''ApisMetaV1LabelSelectorSchema'', ApisMetaV1LabelSelectorSchema),
     (''ApisMetaV1LabelSelectorRequirement'', ''ApisMetaV1LabelSelectorRequirementSchema'', ApisMetaV1LabelSelectorRequirementSchema),
     (''ApisMetaV1LabelSelectorOperator'', ''ApisMetaV1LabelSelectorOperatorSchema'', ApisMetaV1LabelSelectorOperatorSchema),
     (''K8SIoApiCoreV1PodTemplateSpec'', ''K8SIoApiCoreV1PodTemplateSpecSchema'', K8SIoApiCoreV1PodTemplateSpecSchema),
     (''K8SIoApiCoreV1PodSpec'', ''K8SIoApiCoreV1PodSpecSchema'', K8SIoApiCoreV1PodSpecSchema),
     (''K8SIoApiCoreV1Affinity'', ''K8SIoApiCoreV1AffinitySchema'', K8SIoApiCoreV1AffinitySchema),
     (''K8SIoApiCoreV1NodeAffinity'', ''K8SIoApiCoreV1NodeAffinitySchema'', K8SIoApiCoreV1NodeAffinitySchema),
     (''K8SIoApiCoreV1PreferredSchedulingTerm'', ''K8SIoApiCoreV1PreferredSchedulingTermSchema'', K8SIoApiCoreV1PreferredSchedulingTermSchema),
     (''K8SIoApiCoreV1NodeSelectorTerm'', ''K8SIoApiCoreV1NodeSelectorTermSchema'', K8SIoApiCoreV1NodeSelectorTermSchema),
     (''K8SIoApiCoreV1NodeSelectorRequirement'', ''K8SIoApiCoreV1NodeSelectorRequirementSchema'', K8SIoApiCoreV1NodeSelectorRequirementSchema),
     (''K8SIoApiCoreV1NodeSelectorOperator'', ''K8SIoApiCoreV1NodeSelectorOperatorSchema'', K8SIoApiCoreV1NodeSelectorOperatorSchema),
     (''K8SIoApiCoreV1NodeSelector'', ''K8SIoApiCoreV1NodeSelectorSchema'', K8SIoApiCoreV1NodeSelectorSchema),
     (''K8SIoApiCoreV1PodAffinity'', ''K8SIoApiCoreV1PodAffinitySchema'', K8SIoApiCoreV1PodAffinitySchema),
     (''K8SIoApiCoreV1WeightedPodAffinityTerm'', ''K8SIoApiCoreV1WeightedPodAffinityTermSchema'', K8SIoApiCoreV1WeightedPodAffinityTermSchema),
     (''K8SIoApiCoreV1PodAffinityTerm'', ''K8SIoApiCoreV1PodAffinityTermSchema'', K8SIoApiCoreV1PodAffinityTermSchema),
     (''K8SIoApiCoreV1PodAntiAffinity'', ''K8SIoApiCoreV1PodAntiAffinitySchema'', K8SIoApiCoreV1PodAntiAffinitySchema),
     (''K8SIoApiCoreV1PodDnsConfig'', ''K8SIoApiCoreV1PodDnsConfigSchema'', K8SIoApiCoreV1PodDnsConfigSchema),
     (''K8SIoApiCoreV1PodDnsConfigOption'', ''K8SIoApiCoreV1PodDnsConfigOptionSchema'', K8SIoApiCoreV1PodDnsConfigOptionSchema),
     (''K8SIoApiCoreV1DnsPolicy'', ''K8SIoApiCoreV1DnsPolicySchema'', K8SIoApiCoreV1DnsPolicySchema),
     (''K8SIoApiCoreV1HostAlias'', ''K8SIoApiCoreV1HostAliasSchema'', K8SIoApiCoreV1HostAliasSchema),
     (''K8SIoApiCoreV1LocalObjectReference'', ''K8SIoApiCoreV1LocalObjectReferenceSchema'', K8SIoApiCoreV1LocalObjectReferenceSchema),
     (''K8SIoApiCoreV1PodOs'', ''K8SIoApiCoreV1PodOsSchema'', K8SIoApiCoreV1PodOsSchema),
     (''K8SIoApiCoreV1OsName'', ''K8SIoApiCoreV1OsNameSchema'', K8SIoApiCoreV1OsNameSchema),
     (''K8SIoApiCoreV1PreemptionPolicy'', ''K8SIoApiCoreV1PreemptionPolicySchema'', K8SIoApiCoreV1PreemptionPolicySchema),
     (''K8SIoApiCoreV1PodReadinessGate'', ''K8SIoApiCoreV1PodReadinessGateSchema'', K8SIoApiCoreV1PodReadinessGateSchema),
     (''K8SIoApiCoreV1PodResourceClaim'', ''K8SIoApiCoreV1PodResourceClaimSchema'', K8SIoApiCoreV1PodResourceClaimSchema),
     (''K8SIoApiCoreV1ClaimSource'', ''K8SIoApiCoreV1ClaimSourceSchema'', K8SIoApiCoreV1ClaimSourceSchema),
     (''K8SIoApiCoreV1RestartPolicy'', ''K8SIoApiCoreV1RestartPolicySchema'', K8SIoApiCoreV1RestartPolicySchema),
     (''K8SIoApiCoreV1PodSchedulingGate'', ''K8SIoApiCoreV1PodSchedulingGateSchema'', K8SIoApiCoreV1PodSchedulingGateSchema),
     (''K8SIoApiCoreV1PodSecurityContext'', ''K8SIoApiCoreV1PodSecurityContextSchema'', K8SIoApiCoreV1PodSecurityContextSchema),
     (''K8SIoApiCoreV1PodFsGroupChangePolicy'', ''K8SIoApiCoreV1PodFsGroupChangePolicySchema'', K8SIoApiCoreV1PodFsGroupChangePolicySchema),
     (''K8SIoApiCoreV1Sysctl'', ''K8SIoApiCoreV1SysctlSchema'', K8SIoApiCoreV1SysctlSchema),
     (''K8SIoApiCoreV1Toleration'', ''K8SIoApiCoreV1TolerationSchema'', K8SIoApiCoreV1TolerationSchema),
     (''K8SIoApiCoreV1TaintEffect'', ''K8SIoApiCoreV1TaintEffectSchema'', K8SIoApiCoreV1TaintEffectSchema),
     (''K8SIoApiCoreV1TolerationOperator'', ''K8SIoApiCoreV1TolerationOperatorSchema'', K8SIoApiCoreV1TolerationOperatorSchema),
     (''K8SIoApiCoreV1TopologySpreadConstraint'', ''K8SIoApiCoreV1TopologySpreadConstraintSchema'', K8SIoApiCoreV1TopologySpreadConstraintSchema),
     (''K8SIoApiCoreV1NodeInclusionPolicy'', ''K8SIoApiCoreV1NodeInclusionPolicySchema'', K8SIoApiCoreV1NodeInclusionPolicySchema),
     (''K8SIoApiCoreV1UnsatisfiableConstraintAction'', ''K8SIoApiCoreV1UnsatisfiableConstraintActionSchema'', K8SIoApiCoreV1UnsatisfiableConstraintActionSchema),
     (''K8SIoApiAppsV1DaemonSetSpec'', ''K8SIoApiAppsV1DaemonSetSpecSchema'', K8SIoApiAppsV1DaemonSetSpecSchema),
     (''K8SIoApiAppsV1DaemonSetUpdateStrategy'', ''K8SIoApiAppsV1DaemonSetUpdateStrategySchema'', K8SIoApiAppsV1DaemonSetUpdateStrategySchema),
     (''K8SIoApiAppsV1RollingUpdateDaemonSet'', ''K8SIoApiAppsV1RollingUpdateDaemonSetSchema'', K8SIoApiAppsV1RollingUpdateDaemonSetSchema),
     (''K8SIoApiAppsV1DaemonSetUpdateStrategyType'', ''K8SIoApiAppsV1DaemonSetUpdateStrategyTypeSchema'', K8SIoApiAppsV1DaemonSetUpdateStrategyTypeSchema),
     (''K8SIoApiAppsV1DeploymentSpec'', ''K8SIoApiAppsV1DeploymentSpecSchema'', K8SIoApiAppsV1DeploymentSpecSchema),
     (''K8SIoApiAppsV1DeploymentStrategy'', ''K8SIoApiAppsV1DeploymentStrategySchema'', K8SIoApiAppsV1DeploymentStrategySchema),
     (''K8SIoApiAppsV1RollingUpdateDeployment'', ''K8SIoApiAppsV1RollingUpdateDeploymentSchema'', K8SIoApiAppsV1RollingUpdateDeploymentSchema),
     (''K8SIoApiAppsV1DeploymentStrategyType'', ''K8SIoApiAppsV1DeploymentStrategyTypeSchema'', K8SIoApiAppsV1DeploymentStrategyTypeSchema),
     (''K8SIoApiAppsV1StatefulSetSpec'', ''K8SIoApiAppsV1StatefulSetSpecSchema'', K8SIoApiAppsV1StatefulSetSpecSchema),
     (''K8SIoApiAppsV1StatefulSetOrdinals'', ''K8SIoApiAppsV1StatefulSetOrdinalsSchema'', K8SIoApiAppsV1StatefulSetOrdinalsSchema),
     (''K8SIoApiAppsV1StatefulSetPersistentVolumeClaimRetentionPolicy'', ''K8SIoApiAppsV1StatefulSetPersistentVolumeClaimRetentionPolicySchema'', K8SIoApiAppsV1StatefulSetPersistentVolumeClaimRetentionPolicySchema),
     (''K8SIoApiAppsV1PersistentVolumeClaimRetentionPolicyType'', ''K8SIoApiAppsV1PersistentVolumeClaimRetentionPolicyTypeSchema'', K8SIoApiAppsV1PersistentVolumeClaimRetentionPolicyTypeSchema),
     (''K8SIoApiAppsV1PodManagementPolicyType'', ''K8SIoApiAppsV1PodManagementPolicyTypeSchema'', K8SIoApiAppsV1PodManagementPolicyTypeSchema),
     (''K8SIoApiAppsV1StatefulSetUpdateStrategy'', ''K8SIoApiAppsV1StatefulSetUpdateStrategySchema'', K8SIoApiAppsV1StatefulSetUpdateStrategySchema),
     (''K8SIoApiAppsV1RollingUpdateStatefulSetStrategy'', ''K8SIoApiAppsV1RollingUpdateStatefulSetStrategySchema'', K8SIoApiAppsV1RollingUpdateStatefulSetStrategySchema),
     (''K8SIoApiAppsV1StatefulSetUpdateStrategyType'', ''K8SIoApiAppsV1StatefulSetUpdateStrategyTypeSchema'', K8SIoApiAppsV1StatefulSetUpdateStrategyTypeSchema),
     (''K8SIoApiCoreV1PersistentVolumeClaim'', ''K8SIoApiCoreV1PersistentVolumeClaimSchema'', K8SIoApiCoreV1PersistentVolumeClaimSchema),
     (''K8SIoApiCoreV1PersistentVolumeClaimSpec'', ''K8SIoApiCoreV1PersistentVolumeClaimSpecSchema'', K8SIoApiCoreV1PersistentVolumeClaimSpecSchema),
     (''K8SIoApiCoreV1PersistentVolumeAccessMode'', ''K8SIoApiCoreV1PersistentVolumeAccessModeSchema'', K8SIoApiCoreV1PersistentVolumeAccessModeSchema),
     (''K8SIoApiCoreV1TypedLocalObjectReference'', ''K8SIoApiCoreV1TypedLocalObjectReferenceSchema'', K8SIoApiCoreV1TypedLocalObjectReferenceSchema),
     (''K8SIoApiCoreV1TypedObjectReference'', ''K8SIoApiCoreV1TypedObjectReferenceSchema'', K8SIoApiCoreV1TypedObjectReferenceSchema),
     (''K8SIoApiCoreV1PersistentVolumeMode'', ''K8SIoApiCoreV1PersistentVolumeModeSchema'', K8SIoApiCoreV1PersistentVolumeModeSchema),
     (''K8SIoApiCoreV1PersistentVolumeClaimStatus'', ''K8SIoApiCoreV1PersistentVolumeClaimStatusSchema'', K8SIoApiCoreV1PersistentVolumeClaimStatusSchema),
     (''K8SIoApiCoreV1PersistentVolumeClaimCondition'', ''K8SIoApiCoreV1PersistentVolumeClaimConditionSchema'', K8SIoApiCoreV1PersistentVolumeClaimConditionSchema),
     (''ApisMetaV1Time'', ''ApisMetaV1TimeSchema'', ApisMetaV1TimeSchema),
     (''K8SIoApiCoreV1PersistentVolumeClaimConditionType'', ''K8SIoApiCoreV1PersistentVolumeClaimConditionTypeSchema'', K8SIoApiCoreV1PersistentVolumeClaimConditionTypeSchema),
     (''K8SIoApiCoreV1PersistentVolumeClaimPhase'', ''K8SIoApiCoreV1PersistentVolumeClaimPhaseSchema'', K8SIoApiCoreV1PersistentVolumeClaimPhaseSchema),
     (''K8SIoApiCoreV1PersistentVolumeClaimResizeStatus'', ''K8SIoApiCoreV1PersistentVolumeClaimResizeStatusSchema'', K8SIoApiCoreV1PersistentVolumeClaimResizeStatusSchema),
     (''ApisKubepkgV1Alpha1Manifests'', ''ApisKubepkgV1Alpha1ManifestsSchema'', ApisKubepkgV1Alpha1ManifestsSchema),
     (''ApisKubepkgV1Alpha1ServiceAccount'', ''ApisKubepkgV1Alpha1ServiceAccountSchema'', ApisKubepkgV1Alpha1ServiceAccountSchema),
     (''K8SIoApiRbacV1PolicyRule'', ''K8SIoApiRbacV1PolicyRuleSchema'', K8SIoApiRbacV1PolicyRuleSchema),
     (''ApisKubepkgV1Alpha1ScopeType'', ''ApisKubepkgV1Alpha1ScopeTypeSchema'', ApisKubepkgV1Alpha1ScopeTypeSchema),
     (''ApisKubepkgV1Alpha1Service'', ''ApisKubepkgV1Alpha1ServiceSchema'', ApisKubepkgV1Alpha1ServiceSchema),
     (''ApisKubepkgV1Alpha1Expose'', ''ApisKubepkgV1Alpha1ExposeSchema'', ApisKubepkgV1Alpha1ExposeSchema),
     (''ApisKubepkgV1Alpha1Volume'', ''ApisKubepkgV1Alpha1VolumeSchema'', ApisKubepkgV1Alpha1VolumeSchema),
     (''K8SIoApiCoreV1ConfigMapVolumeSource'', ''K8SIoApiCoreV1ConfigMapVolumeSourceSchema'', K8SIoApiCoreV1ConfigMapVolumeSourceSchema),
     (''K8SIoApiCoreV1KeyToPath'', ''K8SIoApiCoreV1KeyToPathSchema'', K8SIoApiCoreV1KeyToPathSchema),
     (''ApisKubepkgV1Alpha1SpecData'', ''ApisKubepkgV1Alpha1SpecDataSchema'', ApisKubepkgV1Alpha1SpecDataSchema),
     (''K8SIoApiCoreV1EmptyDirVolumeSource'', ''K8SIoApiCoreV1EmptyDirVolumeSourceSchema'', K8SIoApiCoreV1EmptyDirVolumeSourceSchema),
     (''K8SIoApiCoreV1StorageMedium'', ''K8SIoApiCoreV1StorageMediumSchema'', K8SIoApiCoreV1StorageMediumSchema),
     (''K8SIoApiCoreV1HostPathVolumeSource'', ''K8SIoApiCoreV1HostPathVolumeSourceSchema'', K8SIoApiCoreV1HostPathVolumeSourceSchema),
     (''K8SIoApiCoreV1HostPathType'', ''K8SIoApiCoreV1HostPathTypeSchema'', K8SIoApiCoreV1HostPathTypeSchema),
     (''K8SIoApiCoreV1PersistentVolumeClaimVolumeSource'', ''K8SIoApiCoreV1PersistentVolumeClaimVolumeSourceSchema'', K8SIoApiCoreV1PersistentVolumeClaimVolumeSourceSchema),
     (''K8SIoApiCoreV1SecretVolumeSource'', ''K8SIoApiCoreV1SecretVolumeSourceSchema'', K8SIoApiCoreV1SecretVolumeSourceSchema),
     (''ApisKubepkgV1Alpha1Status'', ''ApisKubepkgV1Alpha1StatusSchema'', ApisKubepkgV1Alpha1StatusSchema),
     (''ApisKubepkgV1Alpha1DigestMeta'', ''ApisKubepkgV1Alpha1DigestMetaSchema'', ApisKubepkgV1Alpha1DigestMetaSchema),
     (''ApisKubepkgV1Alpha1FileSize'', ''ApisKubepkgV1Alpha1FileSizeSchema'', ApisKubepkgV1Alpha1FileSizeSchema),
     (''ApisKubepkgV1Alpha1DigestMetaType'', ''ApisKubepkgV1Alpha1DigestMetaTypeSchema'', ApisKubepkgV1Alpha1DigestMetaTypeSchema),
     (''ApisKubepkgV1Alpha1KubePkgList'', ''ApisKubepkgV1Alpha1KubePkgListSchema'', ApisKubepkgV1Alpha1KubePkgListSchema),
     (''ApisMetaV1ListMeta'', ''ApisMetaV1ListMetaSchema'', ApisMetaV1ListMetaSchema),
     (''GroupDeploymentId'', ''GroupDeploymentIdSchema'', GroupDeploymentIdSchema),
     (''Kubepkg'', ''KubepkgSchema'', KubepkgSchema),
     (''KubepkgId'', ''KubepkgIdSchema'', KubepkgIdSchema),
     (''KubepkgChannel'', ''KubepkgChannelSchema'', KubepkgChannelSchema),
     (''KubepkgRevisionId'', ''KubepkgRevisionIdSchema'', KubepkgRevisionIdSchema),
     (''KubepkgVersionInfo'', ''KubepkgVersionInfoSchema'', KubepkgVersionInfoSchema),
     (''GroupRobotDataList'', ''GroupRobotDataListSchema'', GroupRobotDataListSchema),
     (''GroupRobot'', ''GroupRobotSchema'', GroupRobotSchema),
     (''AccountRobotInfo'', ''AccountRobotInfoSchema'', AccountRobotInfoSchema),
     (''AccountRobot'', ''AccountRobotSchema'', AccountRobotSchema),
     (''GroupRefreshGroupRobotTokenData'', ''GroupRefreshGroupRobotTokenDataSchema'', GroupRefreshGroupRobotTokenDataSchema),
     (''AuthOperatorAccount'', ''AuthOperatorAccountSchema'', AuthOperatorAccountSchema),
     (''RbacPermissions'', ''RbacPermissionsSchema'', RbacPermissionsSchema)]"

lemmas schema_defs =
  AccountIdSchema_def
  AccountUserDataListSchema_def
  AccountUserSchema_def
  AccountSchema_def
  DatatypesPrimaryIdSchema_def
  DatatypesCreationUpdationDeletionTimeSchema_def
  DatatypesCreationUpdationTimeSchema_def
  DatatypesCreationTimeSchema_def
  DatatypesTimestampSchema_def
  AccountTypeSchema_def
  AccountUserInfoSchema_def
  GroupRoleTypeSchema_def
  GroupUserDataListSchema_def
  GroupUserSchema_def
  GroupAccountSchema_def
  GroupIdSchema_def
  GroupRoleInfoSchema_def
  AuthProviderInfoSchema_def
  AuthExchangeTokenDataSchema_def
  AuthTokenSchema_def
  TimeSchema_def
  AgentSchema_def
  DatatypesDatetimeSchema_def
  ClusterSchema_def
  ClusterInfoSchema_def
  ClusterEnvTypeSchema_def
  ClusterAgentInfoSchema_def
  ClusterIdSchema_def
  ClusterNetTypeSchema_def
  ClientObjectSchema_def
  ClusterInstanceStatusSchema_def
  KubeutilClusterinfoClusterInfoSchema_def
  KubeutilClusterinfoClusterNodeSchema_def
  K8SIoApiCoreV1NodeSystemInfoSchema_def
  StrfmtDurationSchema_def
  GroupSchema_def
  GroupInfoSchema_def
  GroupTypeSchema_def
  GroupEnvWithClusterSchema_def
  GroupEnvSchema_def
  GroupEnvInfoSchema_def
  GroupEnvTypeSchema_def
  GroupEnvClusterSchema_def
  GroupEnvIdSchema_def
  ApisKubepkgV1Alpha1KubePkgSchema_def
  ApisMetaV1TypeMetaSchema_def
  ApisMetaV1ObjectMetaSchema_def
  ApisKubepkgV1Alpha1SpecSchema_def
  ApisKubepkgV1Alpha1EnvVarValueOrFromSchema_def
  ApisKubepkgV1Alpha1ContainerSchema_def
  ApisKubepkgV1Alpha1ImageSchema_def
  K8SIoApiCoreV1PullPolicySchema_def
  K8SIoApiCoreV1LifecycleSchema_def
  K8SIoApiCoreV1LifecycleHandlerSchema_def
  K8SIoApiCoreV1ExecActionSchema_def
  K8SIoApiCoreV1HttpGetActionSchema_def
  K8SIoApiCoreV1HttpHeaderSchema_def
  UtilIntstrIntOrStringSchema_def
  K8SIoApiCoreV1UriSchemeSchema_def
  K8SIoApiCoreV1TcpSocketActionSchema_def
  K8SIoApiCoreV1ProbeSchema_def
  K8SIoApiCoreV1ProbeHandlerSchema_def
  K8SIoApiCoreV1GrpcActionSchema_def
  K8SIoApiCoreV1ResourceRequirementsSchema_def
  K8SIoApiCoreV1ResourceClaimSchema_def
  K8SIoApiCoreV1ResourceListSchema_def
  K8SIoApiCoreV1ResourceNameSchema_def
  ApiResourceQuantitySchema_def
  K8SIoApiCoreV1SecurityContextSchema_def
  K8SIoApiCoreV1CapabilitiesSchema_def
  K8SIoApiCoreV1CapabilitySchema_def
  K8SIoApiCoreV1ProcMountTypeSchema_def
  K8SIoApiCoreV1SeLinuxOptionsSchema_def
  K8SIoApiCoreV1SeccompProfileSchema_def
  K8SIoApiCoreV1SeccompProfileTypeSchema_def
  K8SIoApiCoreV1WindowsSecurityContextOptionsSchema_def
  K8SIoApiCoreV1TerminationMessagePolicySchema_def
  ApisKubepkgV1Alpha1DeploySchema_def
  K8SIoApiBatchV1CronJobSpecSchema_def
  K8SIoApiBatchV1ConcurrencyPolicySchema_def
  K8SIoApiBatchV1JobTemplateSpecSchema_def
  K8SIoApiBatchV1JobSpecSchema_def
  K8SIoApiBatchV1CompletionModeSchema_def
  K8SIoApiBatchV1PodFailurePolicySchema_def
  K8SIoApiBatchV1PodFailurePolicyRuleSchema_def
  K8SIoApiBatchV1PodFailurePolicyActionSchema_def
  K8SIoApiBatchV1PodFailurePolicyOnExitCodesRequirementSchema_def
  K8SIoApiBatchV1PodFailurePolicyOnExitCodesOperatorSchema_def
  K8SIoApiBatchV1PodFailurePolicyOnPodConditionsPatternSchema_def
  K8SIoApiCoreV1ConditionStatusSchema_def
  K8SIoApiCoreV1PodConditionTypeSchema_def
  ApisMetaV1LabelSelectorSchema_def
  ApisMetaV1LabelSelectorRequirementSchema_def
  ApisMetaV1LabelSelectorOperatorSchema_def
  K8SIoApiCoreV1PodTemplateSpecSchema_def
  K8SIoApiCoreV1PodSpecSchema_def
  K8SIoApiCoreV1AffinitySchema_def
  K8SIoApiCoreV1NodeAffinitySchema_def
  K8SIoApiCoreV1PreferredSchedulingTermSchema_def
  K8SIoApiCoreV1NodeSelectorTermSchema_def
  K8SIoApiCoreV1NodeSelectorRequirementSchema_def
  K8SIoApiCoreV1NodeSelectorOperatorSchema_def
  K8SIoApiCoreV1NodeSelectorSchema_def
  K8SIoApiCoreV1PodAffinitySchema_def
  K8SIoApiCoreV1WeightedPodAffinityTermSchema_def
  K8SIoApiCoreV1PodAffinityTermSchema_def
  K8SIoApiCoreV1PodAntiAffinitySchema_def
  K8SIoApiCoreV1PodDnsConfigSchema_def
  K8SIoApiCoreV1PodDnsConfigOptionSchema_def
  K8SIoApiCoreV1DnsPolicySchema_def
  K8SIoApiCoreV1HostAliasSchema_def
  K8SIoApiCoreV1LocalObjectReferenceSchema_def
  K8SIoApiCoreV1PodOsSchema_def
  K8SIoApiCoreV1OsNameSchema_def
  K8SIoApiCoreV1PreemptionPolicySchema_def
  K8SIoApiCoreV1PodReadinessGateSchema_def
  K8SIoApiCoreV1PodResourceClaimSchema_def
  K8SIoApiCoreV1ClaimSourceSchema_def
  K8SIoApiCoreV1RestartPolicySchema_def
  K8SIoApiCoreV1PodSchedulingGateSchema_def
  K8SIoApiCoreV1PodSecurityContextSchema_def
  K8SIoApiCoreV1PodFsGroupChangePolicySchema_def
  K8SIoApiCoreV1SysctlSchema_def
  K8SIoApiCoreV1TolerationSchema_def
  K8SIoApiCoreV1TaintEffectSchema_def
  K8SIoApiCoreV1TolerationOperatorSchema_def
  K8SIoApiCoreV1TopologySpreadConstraintSchema_def
  K8SIoApiCoreV1NodeInclusionPolicySchema_def
  K8SIoApiCoreV1UnsatisfiableConstraintActionSchema_def
  K8SIoApiAppsV1DaemonSetSpecSchema_def
  K8SIoApiAppsV1DaemonSetUpdateStrategySchema_def
  K8SIoApiAppsV1RollingUpdateDaemonSetSchema_def
  K8SIoApiAppsV1DaemonSetUpdateStrategyTypeSchema_def
  K8SIoApiAppsV1DeploymentSpecSchema_def
  K8SIoApiAppsV1DeploymentStrategySchema_def
  K8SIoApiAppsV1RollingUpdateDeploymentSchema_def
  K8SIoApiAppsV1DeploymentStrategyTypeSchema_def
  K8SIoApiAppsV1StatefulSetSpecSchema_def
  K8SIoApiAppsV1StatefulSetOrdinalsSchema_def
  K8SIoApiAppsV1StatefulSetPersistentVolumeClaimRetentionPolicySchema_def
  K8SIoApiAppsV1PersistentVolumeClaimRetentionPolicyTypeSchema_def
  K8SIoApiAppsV1PodManagementPolicyTypeSchema_def
  K8SIoApiAppsV1StatefulSetUpdateStrategySchema_def
  K8SIoApiAppsV1RollingUpdateStatefulSetStrategySchema_def
  K8SIoApiAppsV1StatefulSetUpdateStrategyTypeSchema_def
  K8SIoApiCoreV1PersistentVolumeClaimSchema_def
  K8SIoApiCoreV1PersistentVolumeClaimSpecSchema_def
  K8SIoApiCoreV1PersistentVolumeAccessModeSchema_def
  K8SIoApiCoreV1TypedLocalObjectReferenceSchema_def
  K8SIoApiCoreV1TypedObjectReferenceSchema_def
  K8SIoApiCoreV1PersistentVolumeModeSchema_def
  K8SIoApiCoreV1PersistentVolumeClaimStatusSchema_def
  K8SIoApiCoreV1PersistentVolumeClaimConditionSchema_def
  ApisMetaV1TimeSchema_def
  K8SIoApiCoreV1PersistentVolumeClaimConditionTypeSchema_def
  K8SIoApiCoreV1PersistentVolumeClaimPhaseSchema_def
  K8SIoApiCoreV1PersistentVolumeClaimResizeStatusSchema_def
  ApisKubepkgV1Alpha1ManifestsSchema_def
  ApisKubepkgV1Alpha1ServiceAccountSchema_def
  K8SIoApiRbacV1PolicyRuleSchema_def
  ApisKubepkgV1Alpha1ScopeTypeSchema_def
  ApisKubepkgV1Alpha1ServiceSchema_def
  ApisKubepkgV1Alpha1ExposeSchema_def
  ApisKubepkgV1Alpha1VolumeSchema_def
  K8SIoApiCoreV1ConfigMapVolumeSourceSchema_def
  K8SIoApiCoreV1KeyToPathSchema_def
  ApisKubepkgV1Alpha1SpecDataSchema_def
  K8SIoApiCoreV1EmptyDirVolumeSourceSchema_def
  K8SIoApiCoreV1StorageMediumSchema_def
  K8SIoApiCoreV1HostPathVolumeSourceSchema_def
  K8SIoApiCoreV1HostPathTypeSchema_def
  K8SIoApiCoreV1PersistentVolumeClaimVolumeSourceSchema_def
  K8SIoApiCoreV1SecretVolumeSourceSchema_def
  ApisKubepkgV1Alpha1StatusSchema_def
  ApisKubepkgV1Alpha1DigestMetaSchema_def
  ApisKubepkgV1Alpha1FileSizeSchema_def
  ApisKubepkgV1Alpha1DigestMetaTypeSchema_def
  ApisKubepkgV1Alpha1KubePkgListSchema_def
  ApisMetaV1ListMetaSchema_def
  GroupDeploymentIdSchema_def
  KubepkgSchema_def
  KubepkgIdSchema_def
  KubepkgChannelSchema_def
  KubepkgRevisionIdSchema_def
  KubepkgVersionInfoSchema_def
  GroupRobotDataListSchema_def
  GroupRobotSchema_def
  AccountRobotInfoSchema_def
  AccountRobotSchema_def
  GroupRefreshGroupRobotTokenDataSchema_def
  AuthOperatorAccountSchema_def
  RbacPermissionsSchema_def

end
