(* ===== verification/Dashboard_Conformance.thy ===== *)
theory Dashboard_Conformance
  imports Dashboard_Schemas
begin

text \<open>
  The generated types, schemas and labels of the client agree: each is generated from the same
  API, and the code of the dashboard relies on a value a schema accepts being one of the
  declared type.
\<close>

definition typed_as :: "string \<times> tsty \<Rightarrow> string \<times> string \<times> schema \<Rightarrow> bool" where
  "typed_as d e =
     (case (d, e) of ((n, T), (n', const, s)) \<Rightarrow> n = n' \<and> const = n @ ''Schema'' \<and> infer s = T)"

lemma schemas_typed: "list_all2 typed_as declared_types declared_schemas"
  by (simp add: declared_types_def declared_schemas_def typed_as_def schema_defs type_defs
     enum_type_def enum_values_def)

lemma refs_named:
  "list_all (\<lambda>(n, c, s). list_all (\<lambda>(r, c). c = r @ ''Schema'') (schema_refs s)) declared_schemas"
  by (simp add: declared_schemas_def schema_defs)

section \<open>Properties\<close>



text \<open>
  The labels shown for the values of an enumeration tell the values apart, and a value that
  is not one of them is shown as it is.
\<close>

theorem labels_tell_values_apart:
  "\<forall>(e, display) \<in> set displays. distinct (map display (enum_values e))
     \<and> (\<forall>v. v \<notin> set (enum_values e) \<longrightarrow> display v = v)"
proof -
  have "\<forall>(e, display) \<in> set displays. \<forall>v. v \<notin> set (enum_values e) \<longrightarrow> display v = v"
    by (simp add: displays_def display_defs display_label_def enum_values_def
        AccountType_def GroupRoleType_def ClusterEnvType_def ClusterNetType_def GroupType_def
        GroupEnvType_def KubepkgChannel_def)
  moreover have "\<forall>(e, display) \<in> set displays. distinct (map display (enum_values e))"
  proof -
    have "list_all (\<lambda>(e, display). distinct (map display (enum_values e))) displays"
      by code_simp
    then show ?thesis by (simp add: list_all_iff)
  qed
  ultimately show ?thesis by blast
qed

theorem labels_tell_values_apart_witness:
  "displayGroupRoleType ''VISITOR'' = ''VISITOR''
   \<and> displayGroupRoleType ''OWNER'' \<noteq> displayGroupRoleType ''ADMIN''"
  using labels_tell_values_apart
  by (simp add: displays_def GroupRoleType_def enum_values_def)

end
