(* ===== verification/Navigation.thy ===== *)
theory Navigation
  imports Auth_Session
begin

text \<open>
  The frame of the pages (\<^verbatim>\<open>webapp/dashboard/layout\<close>): the links of \<^verbatim>\<open>TopNav.tsx\<close>, made from the
  children of the route that matched, and the theme \<^verbatim>\<open>Scaffold.tsx\<close> keeps in the browser's storage,
  which the token of \<^verbatim>\<open>Auth_Session\<close> shares. The routes themselves are made from the files under
  \<^verbatim>\<open>webapp/dashboard/page\<close> by a plugin; here they are an argument. Components are opaque values.
\<close>

section \<open>Routes\<close>

text \<open>
  A member of a route's \<^verbatim>\<open>meta\<close> that may be a component: absent, there, or a function that loads it,
  with what it has loaded (\<^verbatim>\<open>loader.__loaded\<close>).
\<close>

datatype 'c meta_value = Absent | Direct 'c | Loader "'c option"

record 'c route =
  rt_path :: string
  rt_name :: string
  rt_title :: "string option"
  rt_hidden :: bool
  rt_icon :: "'c meta_value"
  rt_menu :: "'c meta_value"

text \<open>
  \<^verbatim>\<open>renderMeta\<close> with its \<^verbatim>\<open>Async\<close>: what is rendered of a loaded value, else the fallback.
\<close>

definition render_meta :: "'c meta_value \<Rightarrow> ('c option \<Rightarrow> 'v option) \<Rightarrow> 'v option \<Rightarrow> 'v option" where
  "render_meta m render fallback =
     (case m of
        Absent \<Rightarrow> render None
      | Direct c \<Rightarrow> render (Some c)
      | Loader None \<Rightarrow> fallback
      | Loader (Some c) \<Rightarrow> (case render (Some c) of None \<Rightarrow> fallback | Some v \<Rightarrow> Some v))"

definition slash :: char where
  "slash = CHR ''/''"

text \<open>The address the links begin with: as much of the current one as the matched route has segments.\<close>

definition nav_base :: "string \<Rightarrow> string option \<Rightarrow> string" where
  "nav_base fullPath matched =
     join [slash] (take (length (split_on slash (case matched of None \<Rightarrow> [slash] | Some p \<Rightarrow> p)))
       (split_on slash fullPath))"

definition full_path :: "string \<Rightarrow> 'c route \<Rightarrow> string" where
  "full_path base r =
     base @ (if starts_with (rt_path r) [slash] then rt_path r else [slash] @ rt_path r)"

definition matched_routes :: "'c route list \<Rightarrow> 'c route list" where
  "matched_routes children = filter (\<lambda>r. rt_path r \<noteq> []) children"

text \<open>
  \<^verbatim>\<open>groupBy(routes, (route) => route.path.split("/")[0])\<close>. A segment is no array index, so the keys
  are in the order of their first routes.
\<close>

definition segment :: "'c route \<Rightarrow> string" where
  "segment r = hd (split_on slash (rt_path r))"

fun first_seen :: "'a list \<Rightarrow> 'a list" where
  "first_seen [] = []"
| "first_seen (x # xs) = x # filter (\<lambda>y. y \<noteq> x) (first_seen xs)"

definition route_groups :: "'c route list \<Rightarrow> (string \<times> 'c route list) list" where
  "route_groups rs = map (\<lambda>k. (k, filter (\<lambda>r. segment r = k) rs)) (first_seen (map segment rs))"

section \<open>The navigation\<close>

datatype 'c icon_view = Icon 'c | EmptyIcon

datatype 'c menu_view = OwnMenu 'c | SubLinks "(string \<times> string) list"

record 'c nav_group =
  ng_key :: string
  ng_link :: "string option"
  ng_label :: string
  ng_icon :: "'c icon_view option"
  ng_menu :: "'c menu_view option"

definition index_routes :: "string \<Rightarrow> string \<Rightarrow> 'c route list \<Rightarrow> 'c route list" where
  "index_routes base grp rs = filter (\<lambda>r. full_path base r = base @ [slash] @ grp) rs"

definition sub_routes :: "string \<Rightarrow> string \<Rightarrow> 'c route list \<Rightarrow> 'c route list" where
  "sub_routes base grp rs =
     filter (\<lambda>r. \<not> rt_hidden r) (filter (\<lambda>r. full_path base r \<noteq> base @ [slash] @ grp) rs)"

definition main_route :: "string \<Rightarrow> string \<Rightarrow> 'c route list \<Rightarrow> 'c route" where
  "main_route base grp rs = hd (index_routes base grp rs @ rs)"

definition title_of :: "'c route \<Rightarrow> string \<Rightarrow> string" where
  "title_of r fallback = (case rt_title r of None \<Rightarrow> fallback | Some t \<Rightarrow> t)"

definition sub_links :: "string \<Rightarrow> 'c route list \<Rightarrow> 'c menu_view option" where
  "sub_links base subs =
     (if subs = [] then None
      else Some (SubLinks (map (\<lambda>r. (full_path base r, title_of r (rt_name r))) subs)))"

definition nav_group :: "string \<Rightarrow> string \<times> 'c route list \<Rightarrow> 'c nav_group" where
  "nav_group base p =
     (case p of (grp, rs) \<Rightarrow>
        let index = index_routes base grp rs; main = main_route base grp rs in
        \<lparr>ng_key = grp,
         ng_link = (case index of [] \<Rightarrow> None | r # _ \<Rightarrow> Some (full_path base r)),
         ng_label = title_of main grp,
         ng_icon = render_meta (rt_icon main) (map_option Icon) (Some EmptyIcon),
         ng_menu = render_meta (rt_menu main)
           (\<lambda>m. case m of Some c \<Rightarrow> Some (OwnMenu c) | None \<Rightarrow> sub_links base (sub_routes base grp rs)) None\<rparr>)"

definition top_nav :: "string \<Rightarrow> (string \<times> 'c route list) option \<Rightarrow> 'c nav_group list" where
  "top_nav fullPath matched =
     (case matched of
        None \<Rightarrow> []
      | Some (path, children) \<Rightarrow>
          map (nav_group (nav_base fullPath (Some path))) (route_groups (matched_routes children)))"

text \<open>The addresses of all links.\<close>

fun menu_links :: "'c menu_view option \<Rightarrow> string list" where
  "menu_links (Some (SubLinks ls)) = map fst ls"
| "menu_links m = []"

definition group_links :: "'c nav_group \<Rightarrow> string list" where
  "group_links g = (case ng_link g of None \<Rightarrow> [] | Some l \<Rightarrow> [l]) @ menu_links (ng_menu g)"

definition nav_links :: "'c nav_group list \<Rightarrow> string list" where
  "nav_links gs = concat (map group_links gs)"

section \<open>What is linked\<close>

lemma set_first_seen [simp]: "set (first_seen xs) = set xs"
  by (induction xs) auto

lemma distinct_first_seen [simp]: "distinct (first_seen xs)"
  by (induction xs) auto

lemma distinct_concat_map:
  assumes "distinct ks" and "\<And>k. k \<in> set ks \<Longrightarrow> distinct (f k)"
    and "\<And>j k x. j \<in> set ks \<Longrightarrow> k \<in> set ks \<Longrightarrow> x \<in> set (f j) \<Longrightarrow> x \<in> set (f k) \<Longrightarrow> j = k"
  shows "distinct (concat (map f ks))"
  using assms
proof (induction ks)
  case (Cons k ks)
  then have "distinct (concat (map f ks))" by (metis distinct.simps(2) list.set_intros(2))
  moreover have "x \<notin> set (f j)" if "x \<in> set (f k)" "j \<in> set ks" for x j
    using Cons.prems(3) [of k j x] Cons.prems(1) that by auto
  ultimately show ?case using Cons.prems(2) by auto
qed simp

text \<open>The heading's link is the index route's, if the group has one.\<close>

definition listed :: "string \<Rightarrow> 'c route list \<Rightarrow> 'c route \<Rightarrow> bool" where
  "listed base rs r \<longleftrightarrow>
     full_path base r = base @ [slash] @ segment r
     \<or> \<not> rt_hidden r \<and> rt_menu (main_route base (segment r) (filter (\<lambda>s. segment s = segment r) rs)) = Absent"

lemma group_links_eq:
  "group_links (nav_group base (k, rs)) =
     (case index_routes base k rs of [] \<Rightarrow> [] | r # _ \<Rightarrow> [full_path base r])
     @ (if rt_menu (main_route base k rs) = Absent then map (full_path base) (sub_routes base k rs) else [])"
  by (auto simp: group_links_def nav_group_def Let_def render_meta_def sub_links_def comp_def
      split: list.splits meta_value.splits option.splits)

lemma index_head: "index_routes base k rs = r # rest \<Longrightarrow> r \<in> set rs \<and> full_path base r = base @ [slash] @ k"
proof -
  assume "index_routes base k rs = r # rest"
  then have "r \<in> set (index_routes base k rs)" by simp
  then show ?thesis by (simp add: index_routes_def)
qed

lemma group_links_set:
  "set (group_links (nav_group base (k, rs))) =
     {full_path base r |r. r \<in> set rs \<and> (full_path base r = base @ [slash] @ k
        \<or> \<not> rt_hidden r \<and> rt_menu (main_route base k rs) = Absent)}"
proof -
  have "set (case index_routes base k rs of [] \<Rightarrow> [] | r # _ \<Rightarrow> [full_path base r])
      = {full_path base r |r. r \<in> set rs \<and> full_path base r = base @ [slash] @ k}"
  proof (cases "index_routes base k rs")
    case Nil
    then show ?thesis by (auto simp: index_routes_def filter_empty_conv)
  next
    case (Cons r rest)
    then have "r \<in> set rs" "full_path base r = base @ [slash] @ k" using index_head by blast+
    then show ?thesis using Cons by (auto intro: exI [of _ r])
  qed
  then show ?thesis by (auto simp: group_links_eq sub_routes_def)
qed

lemma group_links_distinct:
  assumes "distinct (map (full_path base) rs)"
  shows "distinct (group_links (nav_group base (k, rs)))"
proof -
  have "distinct (map (full_path base) (filter P rs))" for P
    using assms by (induction rs) auto
  then have "distinct (map (full_path base) (sub_routes base k rs))"
    by (simp add: sub_routes_def filter_filter)
  moreover have "base @ [slash] @ k \<notin> set (map (full_path base) (sub_routes base k rs))"
    by (auto simp: sub_routes_def)
  ultimately show ?thesis by (auto simp: group_links_eq dest: index_head split: list.split)
qed

text \<open>
  C38. Of the children of a page's route the navigation links exactly the index of each group and, in
  groups without a menu of their own, the others that are not hidden; and each of them once.
\<close>

theorem nav_links_complete:
  assumes "distinct (map (full_path base) (matched_routes children))" and "base = nav_base fullPath (Some path)"
  shows "distinct (nav_links (top_nav fullPath (Some (path, children))))
    \<and> set (nav_links (top_nav fullPath (Some (path, children))))
      = full_path base ` {r \<in> set (matched_routes children). listed base (matched_routes children) r}"
proof -
  let ?rs = "matched_routes children"
  let ?of = "\<lambda>k. filter (\<lambda>r. segment r = k) ?rs"
  let ?f = "\<lambda>k. group_links (nav_group base (k, ?of k))"
  have links: "nav_links (top_nav fullPath (Some (path, children))) = concat (map ?f (first_seen (map segment ?rs)))"
    by (simp add: top_nav_def nav_links_def route_groups_def assms(2) comp_def)
  have inj: "inj_on (full_path base) (set ?rs)" using assms(1) by (simp add: distinct_map)
  have "distinct (map (full_path base) (?of k))" for k
    using assms(1) by (simp add: distinct_map inj_on_def)
  then have "distinct (concat (map ?f (first_seen (map segment ?rs))))"
  proof (intro distinct_concat_map group_links_distinct, simp_all)
    fix j k x assume "x \<in> set (?f j)" "x \<in> set (?f k)"
    then obtain r s where "r \<in> set (?of j)" "s \<in> set (?of k)" "full_path base r = full_path base s"
      by (auto simp: group_links_set)
    with inj show "j = k" by (auto dest: inj_onD)
  qed
  moreover have "set (concat (map ?f (first_seen (map segment ?rs))))
      = full_path base ` {r \<in> set ?rs. listed base ?rs r}"
    by (auto simp: group_links_set listed_def image_iff)
  ultimately show ?thesis by (simp add: links)
qed

section \<open>The pages\<close>

text \<open>
  The children of \<^verbatim>\<open>/groups/:group\<close> and of \<^verbatim>\<open>/admin\<close>, as their files give them: a file's path with
  \<^verbatim>\<open>[name]\<close> for a parameter, and the \<^verbatim>\<open>meta\<close> of its comment. What a \<^verbatim>\<open>meta\<close> names is loaded on demand.
\<close>

definition title_envs :: string where
  "title_envs =
     [CHR 0xE7, CHR 0x8E, CHR 0xAF, CHR 0xE5, CHR 0xA2, CHR 0x83]"

definition title_kubepkgs :: string where
  "title_kubepkgs =
     [CHR 0xE5, CHR 0xBA, CHR 0x94, CHR 0xE7, CHR 0x94, CHR 0xA8]"

definition title_members :: string where
  "title_members =
     [CHR 0xE6, CHR 0x88, CHR 0x90, CHR 0xE5, CHR 0x91, CHR 0x98]"

definition title_robots :: string where
  "title_robots =
     [CHR 0xE6, CHR 0x9C, CHR 0xBA, CHR 0xE5, CHR 0x99, CHR 0xA8, CHR 0xE4, CHR 0xBA, CHR 0xBA]"

definition title_accounts :: string where
  "title_accounts =
     [CHR 0xE7, CHR 0x94, CHR 0xA8, CHR 0xE6, CHR 0x88, CHR 0xB7]"

definition title_sysadmin :: string where
  "title_sysadmin =
     [CHR 0xE7, CHR 0xB3, CHR 0xBB, CHR 0xE7, CHR 0xBB, CHR 0x9F, CHR 0xE7, CHR 0xAE, CHR 0xA1,
     CHR 0xE7, CHR 0x90, CHR 0x86, CHR 0xE5, CHR 0x91, CHR 0x98]"

definition title_clusters :: string where
  "title_clusters =
     [CHR 0xE9, CHR 0x9B, CHR 0x86, CHR 0xE7, CHR 0xBE, CHR 0xA4]"

definition title_groups :: string where
  "title_groups =
     [CHR 0xE7, CHR 0xBB, CHR 0x84, CHR 0xE7, CHR 0xBB, CHR 0x87]"

definition title_to_dark :: string where
  "title_to_dark =
     [CHR 0xE5, CHR 0x88, CHR 0x87, CHR 0xE6, CHR 0x8D, CHR 0xA2, CHR 0xE5, CHR 0x88, CHR 0xB0,
     CHR 0xE6, CHR 0xB7, CHR 0xB1, CHR 0xE8, CHR 0x89, CHR 0xB2, CHR 0xE4, CHR 0xB8, CHR 0xBB,
     CHR 0xE9, CHR 0xA2, CHR 0x98]"

definition title_to_light :: string where
  "title_to_light =
     [CHR 0xE5, CHR 0x88, CHR 0x87, CHR 0xE6, CHR 0x8D, CHR 0xA2, CHR 0xE5, CHR 0x88, CHR 0xB0,
     CHR 0xE6, CHR 0xB5, CHR 0x85, CHR 0xE8, CHR 0x89, CHR 0xB2, CHR 0xE4, CHR 0xB8, CHR 0xBB,
     CHR 0xE9, CHR 0xA2, CHR 0x98]"

definition page :: "string \<Rightarrow> string option \<Rightarrow> bool \<Rightarrow> bool \<Rightarrow> bool \<Rightarrow> string route" where
  "page path title hidden icon menu =
     \<lparr>rt_path = path, rt_name = path, rt_title = title, rt_hidden = hidden,
      rt_icon = (if icon then Loader None else Absent), rt_menu = (if menu then Loader None else Absent)\<rparr>"

definition group_pages :: "string route list" where
  "group_pages =
     [page '''' None False False False,
      page ''envs'' (Some title_envs) False True True,
      page ''envs/:env'' None False False False,
      page ''envs/:env/deployments/create'' None False False False,
      page ''kubepkgs'' (Some title_kubepkgs) False True False,
      page ''kubepkgs/:kubepkg'' None True False False,
      page ''members'' (Some title_members) False True False,
      page ''members/robots'' (Some title_robots) False False False]"

definition admin_pages :: "string route list" where
  "admin_pages =
     [page '''' None False False False,
      page ''accounts'' (Some title_accounts) False True False,
      page ''accounts/sysadmin'' (Some title_sysadmin) False False False,
      page ''clusters'' (Some title_clusters) False True False,
      page ''groups'' (Some title_groups) False True False]"

lemma group_page_links:
  "nav_links (top_nav ''/groups/demo/kubepkgs/demo--web?channel=DEV'' (Some (''/groups/:group'', group_pages)))
     = [''/groups/demo/envs'', ''/groups/demo/kubepkgs'', ''/groups/demo/members'', ''/groups/demo/members/robots'']"
  by code_simp

lemma admin_page_links:
  "nav_links (top_nav ''/admin'' (Some (''/admin'', admin_pages)))
     = [''/admin/accounts'', ''/admin/accounts/sysadmin'', ''/admin/clusters'', ''/admin/groups'']"
  by code_simp

theorem nav_links_complete_witness:
  "distinct [''/admin/accounts'', ''/admin/accounts/sysadmin'', ''/admin/clusters'', ''/admin/groups'']
    \<and> set [''/admin/accounts'', ''/admin/accounts/sysadmin'', ''/admin/clusters'', ''/admin/groups'']
      = full_path ''/admin'' ` {r \<in> set (matched_routes admin_pages). listed ''/admin'' (matched_routes admin_pages) r}"
proof -
  have "distinct (map (full_path ''/admin'') (matched_routes admin_pages))"
    "''/admin'' = nav_base ''/admin'' (Some ''/admin'')" by code_simp+
  from nav_links_complete [OF this] show ?thesis by (simp only: admin_page_links)
qed

text \<open>
  On a group's own page the address may have a query, which becomes part of every link: the links
  then lead to that page again.
\<close>

lemma query_in_links:
  "nav_links (top_nav ''/groups/demo?from=login'' (Some (''/groups/:group'', group_pages)))
     = [''/groups/demo?from=login/envs'', ''/groups/demo?from=login/kubepkgs'', ''/groups/demo?from=login/members'',
        ''/groups/demo?from=login/members/robots'']"
  by code_simp

section \<open>The theme\<close>

text \<open>
  \<^verbatim>\<open>ThemeConfigProvider\<close>: the stored theme, or the light one. The observable emits its value at once,
  which stores it.
\<close>

definition theme_default :: js where
  "theme_default = Obj [(''mode'', Str ''light'')]"

definition theme_key :: string where
  "theme_key = ''theme''"

definition theme_create :: "(js \<Rightarrow> string) \<Rightarrow> (string \<Rightarrow> js option) \<Rightarrow> storage \<Rightarrow> persisted" where
  "theme_create json_stringify json_parse st =
     (let v = coalesce (persist_load json_parse theme_key st) theme_default in
      \<lparr>ps_value = v, ps_storage = persist_store json_stringify theme_key v st\<rparr>)"

definition is_light :: "js \<Rightarrow> bool" where
  "is_light theme = loose_eq (if nullish theme then Undef else member theme ''mode'') (Str ''light'')"

definition toggled :: "js \<Rightarrow> js" where
  "toggled theme = Obj [(''mode'', Str (if is_light theme then ''dark'' else ''light''))]"

definition theme_toggle :: "(js \<Rightarrow> string) \<Rightarrow> persisted \<Rightarrow> persisted" where
  "theme_toggle json_stringify st = persist_emit json_stringify theme_key (toggled (ps_value st)) st"

text \<open>The tooltip and the icon of the button, and the theme of the page.\<close>

definition theme_button :: "js \<Rightarrow> string \<times> string" where
  "theme_button theme =
     (if is_light theme then (title_to_dark, ''mdiWeatherNight'') else (title_to_light, ''mdiWhiteBalanceSunny''))"

definition data_theme :: "js \<Rightarrow> js" where
  "data_theme theme = (if nullish theme then Undef else member theme ''mode'')"

lemma toggled_light [simp]: "is_light (toggled theme) \<longleftrightarrow> \<not> is_light theme"
  by (simp add: toggled_def is_light_def loose_eq_def nullish_def obj_get_def)

lemma toggled_truthy [simp]: "truthy (toggled theme)" "\<not> nullish (toggled theme)" "is_object (toggled theme)"
  by (simp_all add: toggled_def nullish_def)

text \<open>A reload finds the theme that was chosen, and choosing twice is choosing nothing.\<close>

lemma theme_survives_reload:
  assumes "json_codec ok json_stringify json_parse" and "ok (toggled (ps_value st))"
  shows "ps_value (theme_create json_stringify json_parse (ps_storage (theme_toggle json_stringify st))) = toggled (ps_value st)"
  using assms
  by (simp add: theme_create_def theme_toggle_def persist_emit_def load_after_store Let_def coalesce_def)

lemma toggled_twice: "data_theme theme \<in> {Str ''light'', Str ''dark''} \<Longrightarrow> data_theme (toggled (toggled theme)) = data_theme theme"
  by (auto simp: data_theme_def toggled_def is_light_def loose_eq_def nullish_def obj_get_def split: if_splits)

text \<open>
  The theme shares the storage with the token, and \<^verbatim>\<open>persist\<close> clears the whole of it for a value that is
  falsy. So signing out, or opening any page without a token, resets the theme.
\<close>

lemma logout_resets_theme:
  assumes "ps_value session \<noteq> Null"
  shows "ps_value (theme_create json_stringify json_parse
      (ps_storage (session_step json_stringify name LoggedOut session))) = theme_default"
  using assms
  by (simp add: theme_create_def persist_emit_def persist_store_def persist_load_def coalesce_def nullish_def Let_def)

lemma anonymous_visit_resets_theme:
  assumes "map_of st name = None"
  shows "ps_value (theme_create json_stringify json_parse
      (ps_storage (persist_create json_stringify json_parse name st))) = theme_default"
  using assms
  by (simp add: theme_create_def persist_create_def persist_store_def persist_load_def coalesce_def nullish_def Let_def)

end
