(* ===== verification/Deployment_Status.thy ===== *)
theory Deployment_Status
  imports Kubepkg_Overwrites Expression Web_Encoding
begin

text \<open>
  \<^verbatim>\<open>webapp/dashboard/mod/groupenv/components\<close>: what the cluster reports of a deployment.
  \<^verbatim>\<open>DeploymentResources.tsx\<close> shows its resources, pods and containers and decides whether it
  failed; \<^verbatim>\<open>DeploymentEndpoints.tsx\<close> links to its addresses. A status is JSON the cluster sent,
  so a part that is missing or of another type raises where the code reads it.
\<close>

section \<open>Whether a deployment failed\<close>

text \<open>A property of a value: reading one of \<^verbatim>\<open>undefined\<close> or \<^verbatim>\<open>null\<close> raises.\<close>

definition read_member :: "js \<Rightarrow> string \<Rightarrow> js_error + js" where
  "read_member v k = (if nullish v then Inl TypeError else Inr (member v k))"

definition bindE :: "js_error + 'a \<Rightarrow> ('a \<Rightarrow> js_error + 'b) \<Rightarrow> js_error + 'b" where
  "bindE r f = (case r of Inl e \<Rightarrow> Inl e | Inr x \<Rightarrow> f x)"

text \<open>\<^verbatim>\<open>for (const x of v)\<close> that returns as soon as the body does.\<close>

fun some_item :: "(js \<Rightarrow> js_error + bool) \<Rightarrow> js list \<Rightarrow> js_error + bool" where
  "some_item body [] = Inr False"
| "some_item body (x # xs) = bindE (body x) (\<lambda>b. if b then Inr True else some_item body xs)"

definition for_of :: "js \<Rightarrow> (js \<Rightarrow> js_error + bool) \<Rightarrow> js_error + bool" where
  "for_of v body = (case iterate v of None \<Rightarrow> Inl TypeError | Some xs \<Rightarrow> some_item body xs)"

definition container_failed :: "js \<Rightarrow> js_error + bool" where
  "container_failed c =
     bindE (read_member c ''ready'') (\<lambda>ready.
       Inr (\<not> (truthy ready \<and> truthy (member c ''started''))))"

definition pod_failed :: "js \<Rightarrow> js_error + bool" where
  "pod_failed pod =
     bindE (read_member pod ''phase'') (\<lambda>phase.
       if loose_eq phase (Str ''Failed'') then Inr True
       else if truthy (member pod ''containerStatuses'')
         then for_of (member pod ''containerStatuses'') container_failed
       else Inr False)"

definition resource_failed :: "js \<Rightarrow> js_error + bool" where
  "resource_failed r =
     bindE (read_member r ''apiVersion'') (\<lambda>v.
       if loose_eq v (Str ''apps/v1'')
       then bindE (read_member (member r ''status'') ''podStatuses'') (\<lambda>pods. for_of pods pod_failed)
       else Inr False)"

definition isDeployFailed :: "js \<Rightarrow> js_error + bool" where
  "isDeployFailed kubepkg =
     (let resources = member (member kubepkg ''status'') ''resources'' in
      if truthy resources then for_of resources resource_failed else Inr False)"

section \<open>What is shown of the resources\<close>

definition displayGroupVersionKind :: "string \<Rightarrow> string \<Rightarrow> string" where
  "displayGroupVersionKind apiVersion kind =
     (if CHR ''/'' \<in> set apiVersion then kind @ ''.'' @ apiVersion
      else kind @ ''.core/'' @ apiVersion)"

record container_view =
  cv_image :: string
  cv_reasons :: "(string \<times> js \<times> js) list"

record pod_view =
  pv_error :: bool
  pv_warning :: bool
  pv_podIP :: js
  pv_phase :: js
  pv_hostIP :: js
  pv_containers :: "container_view list"

text \<open>\<^verbatim>\<open>ContainerInfo\<close>: the image split at its colons, and the tag at its at-signs.\<close>

definition container_info :: "string \<Rightarrow> string \<Rightarrow> string" where
  "container_info img imageID =
     (let parts = split_on (CHR '':'') img;
          name = hd parts;
          tagAndDigest = (case parts of _ # t # _ \<Rightarrow> t | _ \<Rightarrow> ''latest'');
          tagParts = split_on (CHR ''@'') tagAndDigest;
          digest =
            (case tagParts of
               _ # d # _ \<Rightarrow> d
             | _ \<Rightarrow> (case split_on (CHR ''@'') imageID of _ # d # _ \<Rightarrow> d | _ \<Rightarrow> ''''))
      in name @ '':'' @ hd tagParts @ ''@'' @ digest)"

text \<open>\<^verbatim>\<open>map(v, f)\<close> over the values of an object or array, of which the first to raise raises.\<close>

fun mapE :: "('a \<Rightarrow> js_error + 'b) \<Rightarrow> 'a list \<Rightarrow> js_error + 'b list" where
  "mapE f [] = Inr []"
| "mapE f (x # xs) = bindE (f x) (\<lambda>y. bindE (mapE f xs) (\<lambda>ys. Inr (y # ys)))"

definition string_of :: "js \<Rightarrow> js_error + string" where
  "string_of v = (case v of Str s \<Rightarrow> Inr s | _ \<Rightarrow> Inl TypeError)"

definition state_reason :: "string \<times> js \<Rightarrow> js_error + (string \<times> js \<times> js) list" where
  "state_reason p =
     (case p of (k, v) \<Rightarrow>
        bindE (read_member v ''reason'') (\<lambda>reason.
          Inr (if truthy reason then [(k, reason, member v ''message'')] else [])))"

definition container_row :: "js \<Rightarrow> js_error + container_view" where
  "container_row c =
     bindE (read_member c ''image'') (\<lambda>i.
       bindE (string_of i) (\<lambda>img.
         bindE (case split_on (CHR '':'') img of
                  _ # t # _ \<Rightarrow> if CHR ''@'' \<in> set t then Inr '''' else string_of (member c ''imageID'')
                | _ \<Rightarrow> string_of (member c ''imageID'')) (\<lambda>imageID.
           bindE (mapE state_reason (own_props (member c ''state''))) (\<lambda>reasons.
             Inr \<lparr>cv_image = container_info img imageID, cv_reasons = concat reasons\<rparr>))))"

definition pod_row :: "js \<Rightarrow> js_error + pod_view" where
  "pod_row pod =
     bindE (read_member pod ''phase'') (\<lambda>phase.
       bindE (mapE (\<lambda>p. container_row (snd p)) (own_props (member pod ''containerStatuses''))) (\<lambda>cs.
         Inr \<lparr>pv_error = (phase = Str ''Evicted'' \<or> phase = Str ''Failed''),
              pv_warning = (phase = Str ''Pending''),
              pv_podIP = member pod ''podIP'', pv_phase = phase, pv_hostIP = member pod ''hostIP'',
              pv_containers = cs\<rparr>))"

definition resource_row :: "js \<Rightarrow> js_error + (string \<times> pod_view list option)" where
  "resource_row r =
     bindE (read_member r ''metadata'') (\<lambda>metadata.
       bindE (read_member metadata ''name'') (\<lambda>name.
         bindE (string_of (member r ''apiVersion'')) (\<lambda>apiVersion.
           bindE (if apiVersion = ''apps/v1''
                  then bindE (read_member (member r ''status'') ''podStatuses'') (\<lambda>pods.
                         bindE (mapE (\<lambda>p. pod_row (snd p)) (own_props (coalesce pods (Arr [])))) (\<lambda>rows.
                           Inr (Some rows)))
                  else Inr None) (\<lambda>rows.
             Inr (to_str name @ ''.'' @ displayGroupVersionKind apiVersion (to_str (member r ''kind'')), rows)))))"

definition resources_view :: "js \<Rightarrow> js_error + (string \<times> pod_view list option) list" where
  "resources_view kubepkg =
     mapE (\<lambda>p. resource_row (snd p)) (own_props (member (member kubepkg ''status'') ''resources''))"

section \<open>Links to the endpoints\<close>

definition pathToOpenAPISpecDoc :: "string \<Rightarrow> string" where
  "pathToOpenAPISpecDoc spec = ''/openapi?spec='' @ form_encode spec"

record endpoint_view =
  ev_name :: string
  ev_href :: string
  ev_doc :: "string option"

definition endpoints_view :: "lodash \<Rightarrow> js \<Rightarrow> endpoint_view list" where
  "endpoints_view L kubepkg =
     (let openAPISpec = openAPISpecPath L kubepkg in
      map (\<lambda>(name, address).
             \<lparr>ev_name = name, ev_href = to_str address,
              ev_doc = (if truthy openAPISpec
                        then Some (pathToOpenAPISpecDoc (to_str address @ to_str openAPISpec)) else None)\<rparr>)
        (filter (\<lambda>(name, address). name \<noteq> ''default'') (own_props (member (member kubepkg ''status'') ''endpoint''))))"

text \<open>\<^verbatim>\<open>DeploymentExpandable\<close>: a click toggles; the content is there only when expanded.\<close>

definition expandable_clicks :: "bool \<Rightarrow> nat \<Rightarrow> bool" where
  "expandable_clicks expanded n = ((\<lambda>e. \<not> e) ^^ n) expanded"

section \<open>Well-formed reports\<close>

text \<open>Where the reads of \<^verbatim>\<open>isDeployFailed\<close> find objects and arrays.\<close>

definition objects_in :: "js \<Rightarrow> js list option" where
  "objects_in v = (case v of Arr xs \<Rightarrow> if list_all is_plain_object xs then Some xs else None | _ \<Rightarrow> None)"

definition wf_pod :: "js \<Rightarrow> bool" where
  "wf_pod pod \<longleftrightarrow> (truthy (member pod ''containerStatuses'') \<longrightarrow> objects_in (member pod ''containerStatuses'') \<noteq> None)"

definition wf_resource :: "js \<Rightarrow> bool" where
  "wf_resource r \<longleftrightarrow>
     (member r ''apiVersion'' = Str ''apps/v1'' \<longrightarrow>
        is_plain_object (member r ''status'') \<and>
        (\<exists>pods. objects_in (member (member r ''status'') ''podStatuses'') = Some pods \<and> list_all wf_pod pods))
     \<and> is_string (member r ''apiVersion'')"

definition unready :: "js \<Rightarrow> bool" where
  "unready c \<longleftrightarrow> \<not> (truthy (member c ''ready'') \<and> truthy (member c ''started''))"

definition elements_of :: "js \<Rightarrow> js list" where
  "elements_of v = (case v of Arr xs \<Rightarrow> xs | _ \<Rightarrow> [])"

definition bad_pod :: "js \<Rightarrow> bool" where
  "bad_pod pod \<longleftrightarrow> loose_eq (member pod ''phase'') (Str ''Failed'')
     \<or> list_ex unready (elements_of (member pod ''containerStatuses''))"

lemma some_item_total: "(\<And>x. x \<in> set xs \<Longrightarrow> body x = Inr (P x)) \<Longrightarrow> some_item body xs = Inr (list_ex P xs)"
  by (induction xs) (auto simp: bindE_def)

lemma for_of_total:
  "objects_in v = Some xs \<Longrightarrow> (\<And>x. x \<in> set xs \<Longrightarrow> is_plain_object x \<Longrightarrow> body x = Inr (P x)) \<Longrightarrow>
   for_of v body = Inr (list_ex P xs)"
  by (auto simp: objects_in_def for_of_def list_all_iff split: js.splits if_splits intro!: some_item_total)

lemma objects_in_elements: "objects_in v = Some xs \<Longrightarrow> elements_of v = xs"
  by (auto simp: objects_in_def elements_of_def split: js.splits if_splits)

lemma plain_not_nullish [simp]: "is_plain_object v \<Longrightarrow> \<not> nullish v"
  by (auto simp: nullish_def)

lemma container_failed_plain: "is_plain_object c \<Longrightarrow> container_failed c = Inr (unready c)"
  by (simp add: container_failed_def read_member_def bindE_def unready_def)

lemma falsy_elements: "\<not> truthy v \<Longrightarrow> elements_of v = []"
  by (cases v) (simp_all add: elements_of_def)

lemma pod_failed_plain:
  assumes "is_plain_object pod" and "wf_pod pod"
  shows "pod_failed pod = Inr (bad_pod pod)"
proof (cases "truthy (member pod ''containerStatuses'')")
  case True
  then obtain cs where cs: "objects_in (member pod ''containerStatuses'') = Some cs"
    using assms(2) by (auto simp: wf_pod_def)
  from for_of_total [OF cs container_failed_plain] cs True assms(1) show ?thesis
    by (simp add: pod_failed_def read_member_def bindE_def bad_pod_def objects_in_elements)
next
  case False
  with assms(1) show ?thesis
    by (simp add: pod_failed_def read_member_def bindE_def bad_pod_def falsy_elements)
qed

lemma loose_eq_Str [simp]: "loose_eq (Str s) (Str t) \<longleftrightarrow> s = t"
  by (simp add: loose_eq_def nullish_def)

lemma resource_failed_plain:
  assumes "is_plain_object r" and "wf_resource r"
  shows "resource_failed r = Inr (member r ''apiVersion'' = Str ''apps/v1''
    \<and> list_ex bad_pod (elements_of (member (member r ''status'') ''podStatuses'')))"
proof -
  obtain s where s: "member r ''apiVersion'' = Str s"
    using assms(2) by (auto simp: wf_resource_def elim: is_string.elims)
  show ?thesis
  proof (cases "s = ''apps/v1''")
    case True
    then obtain pods where pods: "objects_in (member (member r ''status'') ''podStatuses'') = Some pods"
      "list_all wf_pod pods" "is_plain_object (member r ''status'')"
      using assms(2) s by (auto simp: wf_resource_def)
    then have "for_of (member (member r ''status'') ''podStatuses'') pod_failed = Inr (list_ex bad_pod pods)"
      by (intro for_of_total [OF pods(1)] pod_failed_plain) (auto simp: list_all_iff)
    with True s pods assms(1) show ?thesis
      by (simp add: resource_failed_def read_member_def bindE_def objects_in_elements)
  qed (use s assms(1) in \<open>simp add: resource_failed_def read_member_def bindE_def\<close>)
qed

section \<open>Properties\<close>

text \<open>
  C24. On a well-formed report a deployment counts as failed exactly when one of its workloads has
  a pod that failed, or a container that is not both ready and started.
\<close>

theorem isDeployFailed_iff:
  assumes "objects_in (member (member kubepkg ''status'') ''resources'') = Some rs" and "list_all wf_resource rs"
  shows "isDeployFailed kubepkg = Inr (list_ex (\<lambda>r. member r ''apiVersion'' = Str ''apps/v1''
    \<and> list_ex bad_pod (elements_of (member (member r ''status'') ''podStatuses''))) rs)"
proof -
  have "truthy (member (member kubepkg ''status'') ''resources'')"
    using assms(1) by (auto simp: objects_in_def split: js.splits)
  moreover have "for_of (member (member kubepkg ''status'') ''resources'') resource_failed
    = Inr (list_ex (\<lambda>r. member r ''apiVersion'' = Str ''apps/v1''
        \<and> list_ex bad_pod (elements_of (member (member r ''status'') ''podStatuses''))) rs)"
    using assms(2) by (intro for_of_total [OF assms(1)] resource_failed_plain) (auto simp: list_all_iff)
  ultimately show ?thesis by (simp add: isDeployFailed_def)
qed

definition demo_workload :: "js \<Rightarrow> js" where
  "demo_workload pods = Obj [(''apiVersion'', Str ''apps/v1''), (''kind'', Str ''Deployment''),
     (''metadata'', Obj [(''name'', Str ''web'')]), (''status'', Obj [(''podStatuses'', pods)])]"

definition demo_report :: "js \<Rightarrow> js" where
  "demo_report pods = Obj [(''status'', Obj [(''resources'', Arr [demo_workload pods])])]"

definition demo_pod :: "bool \<Rightarrow> js" where
  "demo_pod ready = Obj [(''phase'', Str ''Running''),
     (''containerStatuses'', Arr [Obj [(''ready'', Bool ready), (''started'', Bool True)]])]"

lemma demo_pod_wf: "wf_pod (demo_pod b) \<and> is_plain_object (demo_pod b)"
  by (simp add: wf_pod_def objects_in_def demo_pod_def obj_get_def)

theorem isDeployFailed_iff_witness: "isDeployFailed (demo_report (Arr [demo_pod True, demo_pod False])) = Inr True"
proof -
  let ?pods = "Arr [demo_pod True, demo_pod False]"
  have resources: "member (member (demo_report ?pods) ''status'') ''resources'' = Arr [demo_workload ?pods]"
    and pods: "member (member (demo_workload ?pods) ''status'') ''podStatuses'' = ?pods"
    by (simp_all add: demo_report_def demo_workload_def obj_get_def)
  have "objects_in (member (member (demo_report ?pods) ''status'') ''resources'') = Some [demo_workload ?pods]"
    unfolding resources by (simp add: objects_in_def demo_workload_def)
  moreover have "list_all wf_resource [demo_workload ?pods]"
    using demo_pod_wf [of True] demo_pod_wf [of False]
    by (simp add: wf_resource_def pods objects_in_def) (simp add: demo_workload_def obj_get_def)
  note isDeployFailed_iff [OF calculation this]
  then show ?thesis
    by (simp add: pods elements_of_def bad_pod_def unready_def demo_pod_def obj_get_def demo_workload_def)
qed

lemma form_encode_plain: "c \<in> set (form_encode s) \<Longrightarrow> c \<noteq> CHR ''&'' \<and> c \<noteq> CHR ''#''"
proof -
  have hex: "hex_digit n \<noteq> CHR ''&'' \<and> hex_digit n \<noteq> CHR ''#''" if "n < 16" for n
    using hex_value_digit [OF that] by (auto simp: hex_value_def)
  have small: "(of_char c :: nat) div 16 < 16" for c :: char
  proof -
    have "(of_char c :: nat) < 256" by simp
    then show ?thesis by linarith
  qed
  show "c \<in> set (form_encode s) \<Longrightarrow> c \<noteq> CHR ''&'' \<and> c \<noteq> CHR ''#''"
    using hex small by (auto simp: form_encode_def percent_byte_def form_keep_def is_alnum_def split: if_splits)
qed

text \<open>
  The page an endpoint's documentation link opens reads from its query exactly the address of
  the endpoint followed by the path of the specification, whatever characters they have.
\<close>

theorem doc_link_roundtrip:
  assumes "v \<in> set (endpoints_view L kubepkg)" and "ev_doc v = Some link"
    and "utf8 (ev_href v @ to_str (openAPISpecPath L kubepkg))"
  shows "\<exists>q. link = ''/openapi?spec='' @ q \<and> CHR ''&'' \<notin> set q \<and> CHR ''#'' \<notin> set q
    \<and> query_decode q = ev_href v @ to_str (openAPISpecPath L kubepkg)"
proof -
  have "link = ''/openapi?spec='' @ form_encode (ev_href v @ to_str (openAPISpecPath L kubepkg))"
    using assms(1,2) by (auto simp: endpoints_view_def Let_def pathToOpenAPISpecDoc_def split: if_splits)
  then show ?thesis using query_decode_form [OF assms(3)] form_encode_plain by blast
qed

definition demo_endpoints :: js where
  "demo_endpoints = Obj [
     (''spec'', Obj [(''deploy'', Obj [(''annotations'', Obj [(''octohelm.tech/openAPISpecPath'', Str ''/api?x=1&y'')])])]),
     (''status'', Obj [(''endpoint'', Obj [(''default'', Str ''http://d''), (''main'', Str ''http://a b'')])])]"

lemma demo_endpoint:
  "endpoints_view lodash_ref demo_endpoints
     = [\<lparr>ev_name = ''main'', ev_href = ''http://a b'',
         ev_doc = Some ''/openapi?spec=http%3A%2F%2Fa+b%2Fapi%3Fx%3D1%26y''\<rparr>]"
  by code_simp

theorem doc_link_roundtrip_witness:
  "\<exists>q. ''/openapi?spec=http%3A%2F%2Fa+b%2Fapi%3Fx%3D1%26y'' = ''/openapi?spec='' @ q \<and> CHR ''&'' \<notin> set q
    \<and> CHR ''#'' \<notin> set q \<and> query_decode q = ''http://a b/api?x=1&y''"
proof -
  have path: "to_str (openAPISpecPath lodash_ref demo_endpoints) = ''/api?x=1&y''" by code_simp
  show ?thesis
    using doc_link_roundtrip [of "\<lparr>ev_name = ''main'', ev_href = ''http://a b'',
        ev_doc = Some ''/openapi?spec=http%3A%2F%2Fa+b%2Fapi%3Fx%3D1%26y''\<rparr>" lodash_ref demo_endpoints
        "''/openapi?spec=http%3A%2F%2Fa+b%2Fapi%3Fx%3D1%26y''"]
    unfolding demo_endpoint path by (simp add: ascii_utf8 ascii_def)
qed

text \<open>A tagged image is shown with the digest of what runs.\<close>

lemma container_info_tagged:
  assumes "CHR '':'' \<notin> set name \<union> set tag" and "CHR ''@'' \<notin> set tag \<union> set repo"
  shows "container_info (name @ '':'' @ tag) (repo @ ''@'' @ digest)
    = name @ '':'' @ tag @ ''@'' @ hd (split_on (CHR ''@'') digest)"
proof -
  have "split_on (CHR '':'') (name @ '':'' @ tag) = [name, tag]"
    using assms(1) by (simp add: split_on_append split_on_no_delim)
  moreover have "split_on (CHR ''@'') tag = [tag]" using assms(2) by (simp add: split_on_no_delim)
  moreover have "split_on (CHR ''@'') (repo @ ''@'' @ digest) = repo # split_on (CHR ''@'') digest"
    using assms(2) by (simp add: split_on_append)
  ultimately show ?thesis by (cases "split_on (CHR ''@'') digest") (simp_all add: container_info_def Let_def)
qed

section \<open>What goes wrong\<close>

text \<open>
  A registry with a port, and a digest, have colons too: the tag is taken from between the first
  two.
\<close>

lemma image_with_port:
  "container_info ''reg:5000/app:v1'' ''reg:5000/app@sha256:ab'' = ''reg:5000/app@sha256:ab''"
  by code_simp

lemma image_with_digest:
  "container_info ''app:v1@sha256:ab'' ''app@sha256:ab'' = ''app:v1@sha256''"
  by code_simp

text \<open>The list of resources allows a workload without pods; the decision whether it failed raises.\<close>

lemma workload_without_pods:
  "resources_view (demo_report Undef) = Inr [(''web.Deployment.apps/v1'', Some [])]"
  "isDeployFailed (demo_report Undef) = Inl TypeError"
  by code_simp+

text \<open>An evicted pod is shown as an error, but its deployment has not failed.\<close>

lemma evicted_is_not_failed:
  "map_option (map pv_error) (snd (hd (case resources_view (demo_report (Arr [Obj [(''phase'', Str ''Evicted'')]])) of
     Inr rows \<Rightarrow> rows | Inl e \<Rightarrow> []))) = Some [True]"
  "isDeployFailed (demo_report (Arr [Obj [(''phase'', Str ''Evicted'')]])) = Inr False"
  by code_simp+

lemma expandable_parity: "expandable_clicks e n = (if even n then e else \<not> e)"
  by (induction n) (auto simp: expandable_clicks_def)

end
