(* ===== verification/OpenAPI_View.thy ===== *)
theory OpenAPI_View
  imports OpenAPI_Request
begin

text \<open>
  How the playground shows a schema: \<^verbatim>\<open>nodepkg/openapi-playground/src/RequestSchemaView.tsx\<close>. A
  view is a tree of what is written; styling is left out. Two fuels: \<open>m\<close> for what the schema
  types look up, \<open>n\<close> for the views inside views, which a reference from an array to itself
  never ends. The text of a number beyond the integers a double holds exactly, and
  \<^verbatim>\<open>JSON.stringify\<close>, are parameters.
\<close>

section \<open>Bounds and enumerations\<close>

text \<open>\<^verbatim>\<open>enumMap[value] = get(schema, [..., i, ...], ...)\<close>, for the values in turn.\<close>

definition toEnumMap :: "lodash \<Rightarrow> js \<Rightarrow> obj" where
  "toEnumMap L schema =
     foldl (\<lambda>acc (i, v). AList.update (to_str v)
        (lo_get L schema [''x-enum-options'', i, ''label'']
          (lo_get L schema [''x-enum-labels'', i] v)) acc)
       [] (own_props (member schema ''enum''))"

definition validated_keys :: "string list" where
  "validated_keys =
     [''enum'', ''maximum'', ''exclusiveMaximum'', ''minimum'', ''exclusiveMinimum'', ''maxLength'', ''minLength'',
      ''pattern'', ''maxItems'', ''minItems'', ''maxProperties'', ''minProperties'']"

text \<open>
  \<^verbatim>\<open>hasValidate\<close> is asked of the instance of a schema type, not of its schema: of the keys, only
  strings, numbers and booleans have one as a field of their own, \<^verbatim>\<open>enum\<close>.
\<close>

fun own_fields :: "sty \<Rightarrow> string list" where
  "own_fields (T_any s) = [''schema'']"
| "own_fields (T_array s i) = [''schema'', ''items'', ''ctx'']"
| "own_fields (T_object s ps r a) = [''schema'', ''extends'', ''properties'', ''required'', ''additionalProperties'', ''ctx'']"
| "own_fields (T_extended s es) = [''schema'', ''extends'', ''properties'', ''required'', ''additionalProperties'', ''ctx'']"
| "own_fields (T_number s) = [''schema'', ''enum'', ''type'']"
| "own_fields (T_string s) = [''schema'', ''enum'']"
| "own_fields (T_boolean s) = [''schema'', ''enum'']"
| "own_fields (T_ref s) = [''schema'', ''ctx'']"
| "own_fields (T_intersection s ts) = [''schema'', ''allOf'']"
| "own_fields (T_union s ts) = [''schema'', ''oneOf'', ''discriminator'']"

definition hasValidate :: "sty \<Rightarrow> bool" where
  "hasValidate t \<longleftrightarrow> (\<exists>k \<in> set validated_keys. k \<in> set (own_fields t))"

text \<open>\<^verbatim>\<open>Math.pow(2, Number(...) - 1) - 1\<close> as text; without a number in the format it is -0.5.\<close>

definition format_bound :: "(int \<Rightarrow> string) \<Rightarrow> js \<Rightarrow> string" where
  "format_bound double_text format =
     (let bits = digits_value (filter is_digit (to_str format)) in
      if bits = 0 then ''-0.5'' else double_text (2 ^ (bits - 1) - 1))"

definition numeric_type :: "js \<Rightarrow> bool" where
  "numeric_type schema \<longleftrightarrow> member schema ''type'' = Str ''number'' \<or> member schema ''type'' = Str ''integer''"

definition infinity_text :: string where
  "infinity_text = [CHR 0xE2, CHR 0x88, CHR 0x9E]"

definition getMax :: "lodash \<Rightarrow> (int \<Rightarrow> string) \<Rightarrow> js \<Rightarrow> js" where
  "getMax L double_text schema =
     (if lo_has_str L schema ''maxProperties'' then member schema ''maxProperties''
      else if lo_has_str L schema ''maxItems'' then member schema ''maxItems''
      else if lo_has_str L schema ''maximum'' then member schema ''maximum''
      else if lo_has_str L schema ''maxLength'' then member schema ''maxLength''
      else if member schema ''type'' = Str ''string'' \<and> member schema ''format'' = Str ''uint64'' then Str ''19''
      else if numeric_type schema \<and> truthy (member schema ''format'')
        then Str (format_bound double_text (member schema ''format''))
      else Str (''+'' @ infinity_text))"

definition getMin :: "lodash \<Rightarrow> (int \<Rightarrow> string) \<Rightarrow> js \<Rightarrow> js" where
  "getMin L double_text schema =
     (if lo_has_str L schema ''minProperties'' then member schema ''minProperties''
      else if lo_has_str L schema ''minItems'' then member schema ''minItems''
      else if lo_has_str L schema ''minimum'' then member schema ''minimum''
      else if lo_has_str L schema ''minLength'' then member schema ''minLength''
      else if member schema ''type'' = Str ''string'' then Str ''0''
      else if numeric_type schema \<and> truthy (member schema ''format'')
        then Str (format_bound double_text (member schema ''format''))
      else Str (''-'' @ infinity_text))"

definition type_meta :: "lodash \<Rightarrow> sty \<Rightarrow> string \<Rightarrow> js" where
  "type_meta L t k = lo_get_str L (schema_of t) k Undef"

definition displayValidate :: "lodash \<Rightarrow> (int \<Rightarrow> string) \<Rightarrow> sty \<Rightarrow> string" where
  "displayValidate L double_text t =
     (if truthy (type_meta L t ''x-tag-validate'') then to_str (type_meta L t ''x-tag-validate'')
      else if \<not> hasValidate t then ''''
      else if truthy (type_meta L t ''pattern'') then ''@r/'' @ to_str (type_meta L t ''pattern'') @ ''/''
      else CHR ''@'' # to_str (type_meta L t ''exclusiveMinimum'') @ '' ? '' @ quote @ ''('' @ quote @ '' : '' @ quote
        @ ''['' @ quote @ [CHR 0x7D] @ to_str (getMin L double_text (schema_of t)) @ '',''
        @ to_str (getMax L double_text (schema_of t))
        @ (if truthy (type_meta L t ''exclusiveMaximum'') then '')'' else '']''))"

section \<open>Views\<close>

definition description_text :: "lodash \<Rightarrow> sty \<Rightarrow> string option" where
  "description_text L t =
     (let m = type_meta L t;
          ls = filter (\<lambda>s. s \<noteq> [])
            [if truthy (m ''x-method'')
             then CHR 0x60 # to_str (m ''x-method'') @ '' '' @ to_str (m ''x-path'') @ [CHR 0x60] else '''',
             if truthy (m ''x-param-in'') then ''**@param_in** '' @ to_str (m ''x-param-in'') else '''',
             if truthy (m ''x-content-type'') then ''**@content_type** '' @ to_str (m ''x-content-type'') else '''',
             if truthy (m ''description'') then to_str (m ''description'') else '''']
      in if ls = [] then None else Some (join newline2 ls))"

record prop_heading =
  ph_name :: string
  ph_description :: "string option"
  ph_nullable :: bool
  ph_deprecated :: bool
  ph_optional :: bool

datatype tview =
    TV_link string sty
  | TV_union "tview list"
  | TV_intersection "tview list"
  | TV_array tview
  | TV_object "(prop_heading \<times> tview) list" "tview option"
  | TV_constant js
  | TV_leaf string "(string \<times> string) list"

text \<open>\<^verbatim>\<open>Annotation\<close>: nothing is shown of a value that loosely equals the empty string.\<close>

definition annotation :: "string \<Rightarrow> js \<Rightarrow> (string \<times> string) list" where
  "annotation name v = (if loose_eq v (Str '''') then [] else [(name, to_str v)])"

definition leaf_view :: "lodash \<Rightarrow> (js \<Rightarrow> string) \<Rightarrow> (int \<Rightarrow> string) \<Rightarrow> sty \<Rightarrow> tview" where
  "leaf_view L json_stringify double_text t =
     (let m = type_meta L t; values = m ''enum'' in
      if truthy values \<and> loose_eq (member values ''length'') (Num 1) then TV_constant (member values ''0'')
      else TV_leaf (to_str (js_or (m ''type'') (Str ''any'')))
        ((if truthy (m ''format'') then annotation ''format'' (m ''format'') else [])
         @ (if m ''default'' \<noteq> Undef then annotation ''default'' (m ''default'') else [])
         @ (if \<not> hasValidate t then annotation ''validate'' (Str (displayValidate L double_text t)) else [])
         @ (if truthy values
            then concat (map (\<lambda>v. annotation ''enum'' (Str (to_str v @ '','' @ json_stringify v))) (elements_js values))
            else [])))"

fun is_any_type :: "sty \<Rightarrow> bool" where
  "is_any_type (T_any s) = True"
| "is_any_type t = False"

fun required_of :: "sty \<Rightarrow> js" where
  "required_of (T_object s ps required a) = required"
| "required_of t = Arr []"

fun additional_of :: "sty \<Rightarrow> sty option" where
  "additional_of (T_object s ps required a) = a"
| "additional_of t = None"

definition prop_heading_of :: "lodash \<Rightarrow> js \<Rightarrow> string \<Rightarrow> sty \<Rightarrow> prop_heading" where
  "prop_heading_of L required name p =
     \<lparr>ph_name = name, ph_description = description_text L p, ph_nullable = truthy (type_meta L p ''nullable''),
      ph_deprecated = truthy (type_meta L p ''deprecated''), ph_optional = \<not> required_name required name\<rparr>"

definition object_view ::
    "lodash \<Rightarrow> (string \<Rightarrow> js) \<Rightarrow> nat \<Rightarrow> (sty \<Rightarrow> tview sres) \<Rightarrow> sty \<Rightarrow> tview sres" where
  "object_view L resolve m rec t =
     bindS (propNames L resolve m t) (\<lambda>names.
       bindS (mapS (\<lambda>name.
           bindS (obj_prop L resolve m name t) (\<lambda>q.
             let p = (case q of None \<Rightarrow> T_any (Obj []) | Some p \<Rightarrow> p) in
             bindS (rec p) (\<lambda>v. Inr (prop_heading_of L (required_of t) name p, v)))) names) (\<lambda>ps.
         case additional_of t of
           None \<Rightarrow> Inr (TV_object ps None)
         | Some a \<Rightarrow> bindS (rec a) (\<lambda>v. Inr (TV_object ps (Some v)))))"

definition view_step ::
    "lodash \<Rightarrow> (js \<Rightarrow> string) \<Rightarrow> (int \<Rightarrow> string) \<Rightarrow> (string \<Rightarrow> js) \<Rightarrow> nat \<Rightarrow> (sty \<Rightarrow> tview sres) \<Rightarrow> sty \<Rightarrow> tview sres" where
  "view_step L json_stringify double_text resolve m rec t =
     (case t of
        T_ref s \<Rightarrow>
          bindS (underlying L resolve m t) (\<lambda>u.
            if is_object_type u \<or> is_union_type u then Inr (TV_link (ref_name s) u) else rec u)
      | T_union s ts \<Rightarrow> bindS (mapS rec ts) (\<lambda>vs. Inr (TV_union vs))
      | T_intersection s ts \<Rightarrow> bindS (mapS rec (filter (\<lambda>t. \<not> is_any_type t) ts)) (\<lambda>vs. Inr (TV_intersection vs))
      | T_array s items \<Rightarrow>
          bindS (rec (case items of None \<Rightarrow> T_any (Obj []) | Some i \<Rightarrow> i)) (\<lambda>v. Inr (TV_array v))
      | T_object s ps required a \<Rightarrow> object_view L resolve m rec t
      | T_extended s es \<Rightarrow> object_view L resolve m rec t
      | _ \<Rightarrow> Inr (leaf_view L json_stringify double_text t))"

primrec schema_view ::
    "lodash \<Rightarrow> (js \<Rightarrow> string) \<Rightarrow> (int \<Rightarrow> string) \<Rightarrow> (string \<Rightarrow> js) \<Rightarrow> nat \<Rightarrow> nat \<Rightarrow> sty \<Rightarrow> tview sres" where
  "schema_view L json_stringify double_text resolve m 0 = (\<lambda>t. Inl Overflow)"
| "schema_view L json_stringify double_text resolve m (Suc n) =
     view_step L json_stringify double_text resolve m (schema_view L json_stringify double_text resolve m n)"

definition request_schema_view ::
    "lodash \<Rightarrow> (js \<Rightarrow> string) \<Rightarrow> (int \<Rightarrow> string) \<Rightarrow> (string \<Rightarrow> js) \<Rightarrow> nat \<Rightarrow> nat \<Rightarrow> sty option
     \<Rightarrow> (string option \<times> tview) option sres" where
  "request_schema_view L json_stringify double_text resolve m n t =
     (case t of
        None \<Rightarrow> Inr None
      | Some t \<Rightarrow> bindS (schema_view L json_stringify double_text resolve m n t) (\<lambda>v. Inr (Some (description_text L t, v))))"

section \<open>Views end\<close>

text \<open>Types without \<^verbatim>\<open>extends\<close> whose references are strings.\<close>

fun simple_type :: "sty \<Rightarrow> bool" where
  "simple_type (T_array s i) = (case i of None \<Rightarrow> True | Some t \<Rightarrow> simple_type t)"
| "simple_type (T_object s ps r a) =
     (list_all (\<lambda>p. simple_type (snd p)) ps \<and> (case a of None \<Rightarrow> True | Some t \<Rightarrow> simple_type t))"
| "simple_type (T_extended s es) = False"
| "simple_type (T_ref s) = is_string (member s ''$ref'')"
| "simple_type (T_intersection s ts) = list_all simple_type ts"
| "simple_type (T_union s ts) = list_all simple_type ts"
| "simple_type t = True"

lemma mapS_total: "(\<And>x. x \<in> set xs \<Longrightarrow> \<exists>y. f x = Inr y) \<Longrightarrow> \<exists>ys. mapS f xs = Inr ys"
proof (induction xs)
  case (Cons x xs)
  then obtain y ys where "f x = Inr y" "mapS f xs = Inr ys" by (meson list.set_intros)
  then show ?case by simp
qed simp

lemma view_any: "0 < n \<Longrightarrow> \<exists>v. schema_view L json_stringify double_text resolve m n (T_any s) = Inr v"
  by (cases n) (simp_all add: view_step_def)

lemma size_sub_type: "t \<in> set ts \<Longrightarrow> size t < size (T_union s ts)" "t \<in> set ts \<Longrightarrow> size t < size (T_intersection s ts)"
  using size_list_estimation' [of t ts "size t" size] by simp_all

lemma size_prop_type: "(k, t) \<in> set ps \<Longrightarrow> size t < size (T_object s ps r a)"
  by (induction ps) auto

lemma object_view_ends:
  assumes rec: "\<And>c. simple_type c \<Longrightarrow> size c < size (T_object s ps r a) \<Longrightarrow> \<exists>v. rec c = Inr v"
    and any: "\<exists>v. rec (T_any (Obj [])) = Inr v"
    and simple: "simple_type (T_object s ps r a)" and m: "0 < m"
  shows "\<exists>v. object_view L resolve m rec (T_object s ps r a) = Inr v"
proof -
  obtain m' where m': "m = Suc m'" using m by (cases m) auto
  have more: "\<exists>v. rec t = Inr v" if "a = Some t" for t
    using that simple by (intro rec) auto
  have field: "\<exists>v. rec t = Inr v" if "map_of ps k = Some t" for k t
  proof (rule rec)
    have kt: "(k, t) \<in> set ps" using that by (rule map_of_SomeD)
    show "simple_type t" using simple kt by (auto simp: list_all_iff)
    show "size t < size (T_object s ps r a)" by (rule size_prop_type) (rule kt)
  qed
  have "\<exists>y. bindS (obj_prop L resolve m name (T_object s ps r a)) (\<lambda>q.
      let p = (case q of None \<Rightarrow> T_any (Obj []) | Some p \<Rightarrow> p) in
      bindS (rec p) (\<lambda>v. Inr (prop_heading_of L (required_of (T_object s ps r a)) name p, v))) = Inr y" (is "\<exists>y. ?f name = Inr y") for name
  proof (cases "map_of ps name")
    case None
    have "\<exists>v. rec (case a of None \<Rightarrow> T_any (Obj []) | Some t \<Rightarrow> t) = Inr v" using more any by (cases a) auto
    then show ?thesis using None by (auto simp: m')
  next
    case (Some t)
    then show ?thesis using field [OF Some] by (auto simp: m')
  qed
  then have "\<exists>ys. mapS ?f (map fst ps) = Inr ys" by (rule mapS_total)
  moreover have "propNames L resolve m (T_object s ps r a) = Inr (map fst ps)" by (simp add: m')
  ultimately show ?thesis using more by (cases a) (auto simp: object_view_def)
qed

section \<open>Properties\<close>

text \<open>
  A schema is shown with fuel just above its size when what references lead to are objects or
  unions, however they refer to each other: those are shown as links.
\<close>

theorem schema_view_ends:
  assumes "\<forall>r. \<exists>u. of_schema L resolve m (resolve r) = Inr u \<and> (is_object_type u \<or> is_union_type u)"
    and "0 < m" and "simple_type t" and "size t + 1 < n"
  shows "\<exists>v. schema_view L json_stringify double_text resolve m n t = Inr v"
  using assms(3,4)
proof (induction n arbitrary: t)
  case (Suc n)
  let ?rec = "schema_view L json_stringify double_text resolve m n"
  have any: "\<exists>v. ?rec (T_any (Obj [])) = Inr v" using Suc.prems(2) by (intro view_any) simp
  have sub: "\<exists>v. ?rec c = Inr v" if "simple_type c" "size c < size t" for c
    using that Suc.prems(2) by (intro Suc.IH) auto
  show ?case
  proof (cases t)
    case (T_array s i)
    have "\<exists>v. ?rec (case i of None \<Rightarrow> T_any (Obj []) | Some i \<Rightarrow> i) = Inr v"
      using any sub Suc.prems(1) T_array by (cases i) auto
    then show ?thesis using T_array by (auto simp: view_step_def)
  next
    case (T_object s ps r a)
    have "\<exists>v. object_view L resolve m ?rec (T_object s ps r a) = Inr v"
      using Suc.prems(1) T_object sub any assms(2) by (intro object_view_ends) auto
    then show ?thesis using T_object by (simp add: view_step_def)
  next
    case (T_ref s)
    obtain r where "member s ''$ref'' = Str r" using Suc.prems(1) T_ref by (auto elim: is_string.elims)
    moreover obtain u where "of_schema L resolve m (resolve r) = Inr u" "is_object_type u \<or> is_union_type u"
      using assms(1) by blast
    ultimately show ?thesis using T_ref by (simp add: view_step_def underlying_def look_through_def ref_of_def)
  next
    case (T_intersection s ts)
    have "\<exists>vs. mapS ?rec (filter (\<lambda>t. \<not> is_any_type t) ts) = Inr vs"
      using Suc.prems(1) T_intersection sub size_sub_type(2) [of _ ts s] by (intro mapS_total) (auto simp: list_all_iff)
    then show ?thesis using T_intersection by (auto simp: view_step_def)
  next
    case (T_union s ts)
    have "\<exists>vs. mapS ?rec ts = Inr vs"
      using Suc.prems(1) T_union sub size_sub_type(1) [of _ ts s] by (intro mapS_total) (auto simp: list_all_iff)
    then show ?thesis using T_union by (auto simp: view_step_def)
  qed (use Suc.prems(1) in \<open>simp_all add: view_step_def\<close>)
qed simp

definition demo_pet_schema :: js where
  "demo_pet_schema = Obj [(''type'', Str ''object''), (''required'', Arr [Str ''name'']),
     (''properties'', Obj [(''name'', Obj [(''type'', Str ''string'')]),
        (''friend'', Obj [(''$ref'', Str ''#/definitions/Pet'')])])]"

definition demo_pet :: sty where
  "demo_pet = T_object demo_pet_schema
     [(''name'', T_string (Obj [(''type'', Str ''string'')])), (''friend'', T_ref (Obj [(''$ref'', Str ''#/definitions/Pet'')]))]
     (Arr [Str ''name'']) None"

lemma demo_pet_built: "of_schema lodash_ref (\<lambda>r. demo_pet_schema) 3 demo_pet_schema = Inr demo_pet"
  by code_simp

theorem schema_view_ends_witness:
  "\<exists>v. schema_view lodash_ref to_str int_str (\<lambda>r. demo_pet_schema) 3 20 demo_pet = Inr v"
proof (rule schema_view_ends)
  show "\<forall>r :: string. \<exists>u. of_schema lodash_ref (\<lambda>r. demo_pet_schema) 3 demo_pet_schema = Inr u \<and> (is_object_type u \<or> is_union_type u)"
    using demo_pet_built by (auto simp: demo_pet_def)
  show "simple_type demo_pet" "size demo_pet + 1 < 20"
    by (simp_all add: demo_pet_def obj_get_def)
qed simp

lemma demo_pet_view:
  "schema_view lodash_ref to_str int_str (\<lambda>r. demo_pet_schema) 3 5 demo_pet = Inr (TV_object
     [(\<lparr>ph_name = ''name'', ph_description = None, ph_nullable = False, ph_deprecated = False, ph_optional = False\<rparr>,
       TV_leaf ''string'' []),
      (\<lparr>ph_name = ''friend'', ph_description = None, ph_nullable = False, ph_deprecated = False, ph_optional = True\<rparr>,
       TV_link ''Pet'' demo_pet)] None)"
  by code_simp

section \<open>Where the view does not do what it means to\<close>

text \<open>The least value of an integer of a size is shown as its greatest.\<close>

lemma least_shown_as_greatest:
  "getMin lodash_ref double_text (Obj [(''type'', Str ''integer''), (''format'', Str ''int32'')]) = Str (double_text 2147483647)
   \<and> getMax lodash_ref double_text (Obj [(''type'', Str ''integer''), (''format'', Str ''int32'')]) = Str (double_text 2147483647)"
  by (simp add: getMin_def getMax_def numeric_type_def format_bound_def lodash_ref_def key_path_def obj_has_def obj_get_def
      is_digit_def digits_value_def digit_value_def)

text \<open>A number without a size, such as a double, is said to be at most -0.5.\<close>

lemma double_at_most:
  "getMax lodash_ref double_text (Obj [(''type'', Str ''number''), (''format'', Str ''double'')]) = Str ''-0.5''"
  by (simp add: getMax_def numeric_type_def format_bound_def lodash_ref_def key_path_def obj_has_def obj_get_def
      is_digit_def digits_value_def)

text \<open>
  The test whether a type is validated is negated, so what is validated is never told of a
  string, number or boolean; and of anything else there is nothing to tell.
\<close>

lemma validation_never_shown:
  assumes "leaf_view L json_stringify double_text t = TV_leaf w annotations"
    and "lodash_ok L" and "t = T_any (Obj []) \<or> t = T_string s \<or> t = T_number s \<or> t = T_boolean s"
  shows "''validate'' \<notin> fst ` set annotations"
proof -
  have names: "k = name" if "(k, x) \<in> set (annotation name v)" for k x name v
    using that by (simp add: annotation_def split: if_splits)
  have "(if \<not> hasValidate t then annotation ''validate'' (Str (displayValidate L double_text t)) else []) = []"
    using assms(3)
  proof
    assume t: "t = T_any (Obj [])"
    have "type_meta L t ''x-tag-validate'' = Undef"
      using lodash_api.get_str_eq [OF lodash_apiI [OF assms(2)], of "''x-tag-validate''"]
      by (simp add: type_meta_def t no_brackets_def key_path_def ref_get_def obj_has_def obj_get_def Let_def)
    then show ?thesis by (simp add: annotation_def displayValidate_def hasValidate_def t loose_eq_def validated_keys_def)
  qed (auto simp: hasValidate_def validated_keys_def)
  then show ?thesis
    using assms(1) by (auto simp: leaf_view_def Let_def split: if_splits dest: names)
qed

text \<open>A default of 0 or false loosely equals the empty string and is not shown.\<close>

lemma falsy_default_hidden: "annotation ''default'' (Num 0) = [] \<and> annotation ''default'' (Bool False) = []"
  by code_simp

end
