(* ===== verification/Deployment_Create.thy ===== *)
theory Deployment_Create
  imports Deployment_Put Web_Encoding
begin

text \<open>
  \<^verbatim>\<open>nodepkg/runtime/src/router/index.ts\<close>: values kept in the query of the page's address, and
  \<^verbatim>\<open>webapp/dashboard/mod/groupenv/GroupEnvDeploymentCreate.tsx\<close>: the page that creates a deployment
  from a revision, whose filters are such values. The query of the route is what the router has
  decoded: a text, or a list of texts, by name. \<^verbatim>\<open>parseFloat\<close> is a parameter.
\<close>

section \<open>Values in the address\<close>

definition parse_text :: "(string \<Rightarrow> js) \<Rightarrow> js \<Rightarrow> string \<Rightarrow> js option" where
  "parse_text parse_float defaultValue v =
     (case decodeURIComponent v of
        None \<Rightarrow> None
      | Some t \<Rightarrow> Some
          (if is_number defaultValue then parse_float t
           else case defaultValue of Bool b \<Rightarrow> Bool (t \<noteq> []) | _ \<Rightarrow> Str t))"

fun all_some :: "'a option list \<Rightarrow> 'a list option" where
  "all_some [] = Some []"
| "all_some (None # xs) = None"
| "all_some (Some x # xs) = map_option ((#) x) (all_some xs)"

text \<open>\<^verbatim>\<open>parseQuery\<close>; no result is the \<^verbatim>\<open>URIError\<close> of a text that cannot be decoded.\<close>

definition parseQuery :: "(string \<Rightarrow> js) \<Rightarrow> js \<Rightarrow> js \<Rightarrow> js option" where
  "parseQuery parse_float v defaultValue =
     (case v of
        Arr vs \<Rightarrow>
          (if is_array defaultValue
           then map_option Arr (all_some (map (\<lambda>x. parse_text parse_float defaultValue (to_str x)) vs))
           else parse_text parse_float defaultValue (case vs of [] \<Rightarrow> ''undefined'' | x # _ \<Rightarrow> to_str x))
      | _ \<Rightarrow> parse_text parse_float defaultValue (to_str v))"

text \<open>\<^verbatim>\<open>mapValues(defaults, (v, k) => parseQuery(route.query[k] ?? `${v}`, v))\<close>.\<close>

definition url_values :: "(string \<Rightarrow> js) \<Rightarrow> obj \<Rightarrow> obj \<Rightarrow> obj option" where
  "url_values parse_float query defaults =
     all_some (map (\<lambda>(k, v). map_option (Pair k) (parseQuery parse_float (coalesce (obj_get query k) (Str (to_str v))) v)) defaults)"

definition encode_value :: "js \<Rightarrow> js" where
  "encode_value v =
     (case v of
        Arr xs \<Rightarrow> Arr (map (\<lambda>x. Str (encodeURIComponent (to_str x))) xs)
      | _ \<Rightarrow> Str (encodeURIComponent (to_str v)))"

text \<open>The query the route is replaced with when the values change.\<close>

definition sync_query :: "obj \<Rightarrow> obj \<Rightarrow> obj" where
  "sync_query values query = spread query (map (\<lambda>(k, v). (k, encode_value v)) values)"

section \<open>The page\<close>

record create_page =
  cp_mounted :: bool
  cp_filters :: put_filters
  cp_kubepkg :: js
  cp_query :: obj
  cp_calls :: "call list"

datatype create_event =
    CreateMounted
  | KubepkgChosen string
  | ChannelChosen js
  | RevisionChosen js
  | TemplateLoaded js

definition filters_obj :: "put_filters \<Rightarrow> obj" where
  "filters_obj fs =
     [(''groupName'', pf_groupName fs), (''kubepkgName'', pf_kubepkgName fs), (''channel'', pf_channel fs),
      (''revisionID'', pf_revisionID fs)]"

definition obj_filters :: "obj \<Rightarrow> put_filters" where
  "obj_filters kvs =
     \<lparr>pf_groupName = obj_get kvs ''groupName'', pf_kubepkgName = obj_get kvs ''kubepkgName'',
      pf_channel = obj_get kvs ''channel'', pf_revisionID = obj_get kvs ''revisionID''\<rparr>"

text \<open>Each emission of the filters is written to the address, if they are kept there, and asks for the revision.\<close>

definition create_emit :: "bool \<Rightarrow> put_filters \<Rightarrow> create_page \<Rightarrow> create_page" where
  "create_emit sync fs st =
     st\<lparr>cp_filters := fs,
        cp_query := (if sync then sync_query (filters_obj fs) (cp_query st) else cp_query st),
        cp_calls := cp_calls st @ (if cp_mounted st then revision_call fs else [])\<rparr>"

definition create_init :: "(string \<Rightarrow> js) \<Rightarrow> bool \<Rightarrow> obj \<Rightarrow> create_page option" where
  "create_init parse_float sync query =
     (case url_values parse_float query (filters_obj default_filters) of
        None \<Rightarrow> None
      | Some kvs \<Rightarrow> Some (create_emit sync (obj_filters kvs)
          \<lparr>cp_mounted = False, cp_filters = default_filters, cp_kubepkg = empty_template, cp_query = query, cp_calls = []\<rparr>))"

fun create_step :: "bool \<Rightarrow> create_event \<Rightarrow> create_page \<Rightarrow> create_page" where
  "create_step sync CreateMounted st =
     st\<lparr>cp_mounted := True, cp_calls := cp_calls st @ revision_call (cp_filters st)\<rparr>"
| "create_step sync (KubepkgChosen s) st = create_emit sync (select_kubepkg s (cp_filters st)) st"
| "create_step sync (ChannelChosen c) st = create_emit sync (cp_filters st\<lparr>pf_channel := c\<rparr>) st"
| "create_step sync (RevisionChosen v) st = create_emit sync (cp_filters st\<lparr>pf_revisionID := v\<rparr>) st"
| "create_step sync (TemplateLoaded body) st = st\<lparr>cp_kubepkg := body\<rparr>"

text \<open>The name in the toolbar, and whether versions are offered.\<close>

definition create_name :: "create_page \<Rightarrow> string" where
  "create_name st =
     join ''/'' (map to_str (filter truthy [pf_groupName (cp_filters st), pf_kubepkgName (cp_filters st)]))"

definition create_versions :: "create_page \<Rightarrow> bool" where
  "create_versions st \<longleftrightarrow> truthy (pf_groupName (cp_filters st)) \<and> truthy (pf_kubepkgName (cp_filters st))"

section \<open>What survives a reload\<close>

text \<open>A value that is read back: a text over a default text, or a number over a default number.\<close>

definition storable :: "(string \<Rightarrow> js) \<Rightarrow> js \<Rightarrow> js \<Rightarrow> bool" where
  "storable parse_float defaultValue v \<longleftrightarrow>
     (case v of
        Str s \<Rightarrow> is_string defaultValue \<and> utf8 s
      | Num n \<Rightarrow> is_number defaultValue \<and> utf8 (int_str n) \<and> parse_float (int_str n) = Num n
      | Bool b \<Rightarrow> b \<and> (\<exists>d. defaultValue = Bool d)
      | _ \<Rightarrow> False)"

lemma utf8_true: "utf8 ''true''"
  by code_simp

lemma parse_encoded:
  assumes "storable pf d v"
  shows "parseQuery pf (encode_value v) d = Some v"
  using assms
  by (cases v; cases d)
    (auto simp: storable_def encode_value_def parseQuery_def parse_text_def decode_encode_component utf8_true)

lemma all_some_Cons: "all_some (x # xs) = Some ys \<longleftrightarrow> (\<exists>y zs. x = Some y \<and> all_some xs = Some zs \<and> ys = y # zs)"
  by (cases x) auto

lemma all_some_map: "(\<And>x. x \<in> set xs \<Longrightarrow> f x = Some (g x)) \<Longrightarrow> all_some (map f xs) = Some (map g xs)"
  by (induction xs) simp_all

lemma spread_get:
  assumes "distinct (map fst kvs)" and "(k, v) \<in> set kvs"
  shows "obj_get (spread base kvs) k = v"
  using assms
proof (induction kvs rule: rev_induct)
  case (snoc p kvs)
  then show ?case by (cases p) (force simp: spread_def assoc_simps)
qed simp

text \<open>Whatever else is in the address, what is written there is read back.\<close>

lemma url_values_sync:
  assumes keys: "distinct (map fst defaults)" "map fst vals = map fst defaults"
    and ok: "list_all2 (\<lambda>p q. storable pf (snd p) (snd q)) defaults vals"
  shows "url_values pf (sync_query vals query) defaults = Some vals"
proof -
  define enc where "enc = map (\<lambda>(k, v). (k, encode_value v)) vals"
  have enc: "map fst enc = map fst defaults" using keys(2) by (simp add: enc_def comp_def split_beta)
  have "map (\<lambda>(k, d). map_option (Pair k) (parseQuery pf (coalesce (obj_get (sync_query vals query) k) (Str (to_str d))) d)) defaults
      = map Some vals"
  proof (rule nth_equalityI)
    show "length (map (\<lambda>(k, d). map_option (Pair k) (parseQuery pf (coalesce (obj_get (sync_query vals query) k) (Str (to_str d))) d)) defaults)
      = length (map Some vals)" using keys(2) by (metis length_map)
    fix i assume "i < length (map (\<lambda>(k, d). map_option (Pair k) (parseQuery pf (coalesce (obj_get (sync_query vals query) k) (Str (to_str d))) d)) defaults)"
    then have i: "i < length defaults" "i < length vals" using keys(2) by (simp, metis length_map)
    obtain k d v where kd: "defaults ! i = (k, d)" "vals ! i = (k, v)"
      using i keys(2) by (metis nth_map prod.collapse)
    have st: "storable pf d v" using ok i kd by (auto simp: list_all2_conv_all_nth dest: spec[of _ i])
    have "(k, encode_value v) \<in> set enc" using i kd by (force simp: enc_def in_set_conv_nth)
    then have "obj_get (sync_query vals query) k = encode_value v"
      unfolding sync_query_def enc_def[symmetric] using keys(1) enc by (intro spread_get) simp_all
    moreover have "\<not> nullish (encode_value v)" by (cases v) (simp_all add: encode_value_def nullish_def)
    ultimately show "map (\<lambda>(k, d). map_option (Pair k) (parseQuery pf (coalesce (obj_get (sync_query vals query) k) (Str (to_str d))) d)) defaults ! i
        = map Some vals ! i"
      using i kd parse_encoded[OF st] by (simp add: coalesce_def)
  qed
  then show ?thesis
    unfolding url_values_def using all_some_map[of vals Some id] by (simp add: comp_def)
qed

section \<open>The page after a reload\<close>

definition text_ok :: "js \<Rightarrow> bool" where
  "text_ok v \<longleftrightarrow> (case v of Str s \<Rightarrow> utf8 s | _ \<Rightarrow> False)"

definition filters_ok :: "put_filters \<Rightarrow> bool" where
  "filters_ok fs \<longleftrightarrow>
     text_ok (pf_groupName fs) \<and> text_ok (pf_kubepkgName fs) \<and> text_ok (pf_channel fs) \<and> text_ok (pf_revisionID fs)"

text \<open>Choices as the components of the page make them: a kubepkg is chosen as \<^verbatim>\<open>group/name\<close>.\<close>

fun choice_ok :: "create_event \<Rightarrow> bool" where
  "choice_ok (KubepkgChosen s) = (CHR ''/'' \<in> set s \<and> list_all utf8 (split_on (CHR ''/'') s))"
| "choice_ok (ChannelChosen c) = text_ok c"
| "choice_ok (RevisionChosen v) = text_ok v"
| "choice_ok _ = True"

definition kept :: "create_page \<Rightarrow> bool" where
  "kept st \<longleftrightarrow> filters_ok (cp_filters st) \<and> (\<exists>q. cp_query st = sync_query (filters_obj (cp_filters st)) q)"

lemma kept_emit: "filters_ok fs \<Longrightarrow> kept (create_emit True fs st)"
  by (auto simp: kept_def create_emit_def)

lemma split_on_parts: "CHR ''/'' \<in> set s \<Longrightarrow> \<exists>a b rest. split_on (CHR ''/'') s = a # b # rest"
proof (induction s)
  case (Cons c s)
  show ?case
  proof (cases "c = CHR ''/''")
    case True
    then show ?thesis using split_on_ne[of "CHR ''/''" s] by (cases "split_on (CHR ''/'') s") auto
  next
    case False
    then show ?thesis using Cons by auto
  qed
qed simp

lemma filters_ok_select:
  assumes "filters_ok fs" and "choice_ok (KubepkgChosen s)"
  shows "filters_ok (select_kubepkg s fs)"
  using assms split_on_parts[of s] by (auto simp: select_kubepkg_def Let_def filters_ok_def text_ok_def)

lemma kept_step: "kept st \<Longrightarrow> choice_ok e \<Longrightarrow> kept (create_step True e st)"
  using filters_ok_select[of "cp_filters st"]
  by (cases e) (auto simp del: choice_ok.simps(1) intro!: kept_emit, auto simp: kept_def filters_ok_def)

lemma decode_utf8: "decodeURIComponent s = Some t \<Longrightarrow> utf8 t"
  by (auto simp: decodeURIComponent_def split: option.splits if_splits)

lemma parse_text_ok: "parse_text pf (Str d) s = Some v \<Longrightarrow> text_ok v"
  by (auto simp: parse_text_def text_ok_def split: option.splits dest: decode_utf8)

lemma parse_ok: "parseQuery pf v (Str d) = Some w \<Longrightarrow> text_ok w"
  by (cases v) (auto simp: parseQuery_def split: list.splits dest: parse_text_ok)

lemma url_filters_ok:
  assumes "url_values pf query (filters_obj default_filters) = Some kvs"
  shows "filters_ok (obj_filters kvs)"
proof -
  obtain a b c d where abcd:
    "parseQuery pf (coalesce (obj_get query ''groupName'') (Str (to_str (Str [])))) (Str []) = Some a"
    "parseQuery pf (coalesce (obj_get query ''kubepkgName'') (Str (to_str (Str [])))) (Str []) = Some b"
    "parseQuery pf (coalesce (obj_get query ''channel'') (Str (to_str (Str ''DEV'')))) (Str ''DEV'') = Some c"
    "parseQuery pf (coalesce (obj_get query ''revisionID'') (Str (to_str (Str [])))) (Str []) = Some d"
    and kvs: "kvs = [(''groupName'', a), (''kubepkgName'', b), (''channel'', c), (''revisionID'', d)]"
    using assms unfolding url_values_def filters_obj_def default_filters_def
    by (auto simp: all_some_Cons simp del: to_str.simps all_some.simps(2,3))
  then show ?thesis
    by (auto simp: obj_filters_def obj_get_def filters_ok_def dest: parse_ok)
qed

lemma kept_init: "create_init pf True query = Some st \<Longrightarrow> kept st"
  by (auto simp: create_init_def kept_emit url_filters_ok split: option.splits)

lemma filters_storable:
  assumes "filters_ok fs"
  shows "list_all2 (\<lambda>p q. storable pf (snd p) (snd q)) (filters_obj default_filters) (filters_obj fs)"
  using assms by (auto simp: filters_obj_def default_filters_def filters_ok_def text_ok_def storable_def split: js.splits)

lemma obj_filters_obj [simp]: "obj_filters (filters_obj fs) = fs"
  by (simp add: obj_filters_def filters_obj_def obj_get_def)

text \<open>
  C34. However the filters of the page have come about, from the address it was opened with or by
  choices on the page, a reload of the address finds the very same filters, and asks again for the
  revision they name.
\<close>

theorem create_page_survives_reload:
  assumes "create_init pf True query = Some st" and "list_all choice_ok es"
  shows "\<exists>st'. create_init pf True (cp_query (fold (create_step True) es st)) = Some st' \<and>
    cp_filters st' = cp_filters (fold (create_step True) es st) \<and>
    cp_calls (create_step True CreateMounted st') = revision_call (cp_filters (fold (create_step True) es st))"
proof -
  have "kept (fold (create_step True) es st)"
    using assms(2)
  proof (induction es rule: rev_induct)
    case Nil
    show ?case using kept_init[OF assms(1)] by simp
  qed (simp add: kept_step)
  then obtain fs q where fs: "fs = cp_filters (fold (create_step True) es st)" "filters_ok fs"
    "cp_query (fold (create_step True) es st) = sync_query (filters_obj fs) q"
    by (auto simp: kept_def)
  have "url_values pf (sync_query (filters_obj fs) q) (filters_obj default_filters) = Some (filters_obj fs)"
    by (rule url_values_sync[OF _ _ filters_storable[OF fs(2)]]) (simp_all add: filters_obj_def)
  then show ?thesis using fs(1,3) by (simp add: create_init_def create_emit_def)
qed

definition demo_choices :: "create_event list" where
  "demo_choices = [CreateMounted, KubepkgChosen ''team/app'', RevisionChosen (Str ''a b'')]"

theorem create_page_survives_reload_witness:
  "\<exists>st st'. create_init Str True [] = Some st \<and>
    create_init Str True (cp_query (fold (create_step True) demo_choices st)) = Some st' \<and>
    pf_revisionID (cp_filters st') = Str ''a b'' \<and>
    cp_calls (create_step True CreateMounted st') =
      [call getKubepkgRevision
         [(''groupName'', Str ''team''), (''name'', Str ''app''), (''channel'', Str ''DEV''), (''revisionID'', Str ''a b'')]]"
proof -
  have u: "url_values Str [] (filters_obj default_filters) = Some (filters_obj default_filters)" by code_simp
  have st: "create_init Str True [] = Some (create_emit True default_filters
      \<lparr>cp_mounted = False, cp_filters = default_filters, cp_kubepkg = empty_template, cp_query = [], cp_calls = []\<rparr>)"
    by (simp add: create_init_def u)
  have ok: "list_all choice_ok demo_choices" by code_simp
  have fs: "cp_filters (fold (create_step True) demo_choices (create_emit True default_filters
      \<lparr>cp_mounted = False, cp_filters = default_filters, cp_kubepkg = empty_template, cp_query = [], cp_calls = []\<rparr>))
    = \<lparr>pf_groupName = Str ''team'', pf_kubepkgName = Str ''app'', pf_channel = Str ''DEV'', pf_revisionID = Str ''a b''\<rparr>"
    by (simp add: demo_choices_def create_emit_def default_filters_def select_kubepkg_def)
  show ?thesis
    using create_page_survives_reload[OF st ok] st unfolding fs by (auto simp: revision_call_def)
qed

section \<open>What does not\<close>

text \<open>A flag that is off by default is on when the address does not name it.\<close>

lemma flag_off_reads_on: "url_values pf [] [(k, Bool False)] = Some [(k, Bool True)]"
  by (simp add: url_values_def obj_get_def coalesce_def nullish_def parseQuery_def parse_text_def, code_simp)

text \<open>A list that the address does not name, or names once, becomes a text.\<close>

lemma list_reads_text:
  "url_values pf [] [(k, Arr [])] = Some [(k, Str [])]"
  "url_values pf [(''k'', Str ''a'')] [(''k'', Arr [])] = Some [(''k'', Str ''a'')]"
  by (simp_all add: url_values_def obj_get_def coalesce_def nullish_def parseQuery_def parse_text_def, code_simp+)

text \<open>The router has decoded the query already, so a percent sign in a value written by hand raises.\<close>

lemma percent_raises: "url_values pf [(''k'', Str ''100%'')] [(''k'', Str [])] = None"
  by (simp add: url_values_def obj_get_def coalesce_def nullish_def parseQuery_def parse_text_def, code_simp)

text \<open>As in the dialog, another kubepkg keeps the revision of the one before.\<close>

lemma choice_keeps_revision:
  "pf_revisionID (cp_filters (create_step sync (KubepkgChosen s) st)) = pf_revisionID (cp_filters st)"
  by (simp add: create_emit_def select_kubepkg_def Let_def)

end
