(* ===== verification/Spec2Isabelle.thy ===== *)
theory Spec2Isabelle
  imports Playground_Views Form_Fields Deployment_History Kubepkg_Pickers Account_Pages Template_Editor Pages Playground_Page Action_Buttons Schema_Flatten Access_Control Expression_Messages Dashboard_Client Dashboard_Conformance Editor_Context
    Env_Deployments Navigation Deployment_Status Deployment_Put OpenAPI_View
    OpenAPI_Request Kubepkg_Versions UI_Overlays
    Group_Env Group_Members Clusters Deployment_Create
begin

text \<open>
  KubePkg: the dashboard and the libraries it is made of, as TypeScript under
  \<^verbatim>\<open>nodepkg/\<close> and \<^verbatim>\<open>webapp/dashboard/\<close>.

  A kubepkg is a package of a Kubernetes application: a template (version, containers, volumes,
  config) with overwrites an environment gives it. The dashboard signs a user in, lists groups
  with their members, environments and kubepkgs, and deploys a version of a kubepkg into an
  environment: the user edits the template as a JSON document, the dashboard computes what
  differs from the template and stores only that, as an annotation. A playground shows the OpenAPI
  document of a deployed service and sends requests to it. The pages are made of observables:
  a request is an event stream, and what is shown is what the answers so far have accumulated to.
  The model has therefore one state per stream, one function per operator that changes it, and
  properties over every sequence of answers and clicks.

  All definitions compute (\<^verbatim>\<open>fun\<close>, \<^verbatim>\<open>primrec\<close>, \<^verbatim>\<open>definition\<close>; step relations are given by a
  function with an inductive relation over it where reachability matters), so each property with
  a hypothesis is applied at a concrete input by its witness.

  \<^bold>\<open>Foundations.\<close>
  \<^verbatim>\<open>KP_Prelude\<close> has the collections of rules and the string operations of JavaScript (split,
  join, replace), \<^verbatim>\<open>JS_Value\<close> the values the code handles (JSON trees with undefined, objects as
  association lists in insertion order, equality up to key order as lodash isEqual has it),
  \<^verbatim>\<open>Lodash_Collections\<close> groupBy, orderBy, sortBy, partition and the maps they give,
  \<^verbatim>\<open>Web_Encoding\<close> encodeURIComponent, URLSearchParams and base64, with their round trips, and
  \<^verbatim>\<open>Fair_Runs\<close> runs of a labelled step relation with weak fairness and the rule for
  leads-to properties.

  \<^bold>\<open>Documents.\<close>
  \<^verbatim>\<open>Json_Pointer\<close> (\<^verbatim>\<open>nodepkg/codemirror/src/json/JSONPointer.ts\<close>): parse and compile, inverse to
  each other. \<^verbatim>\<open>Json_Diff\<close> (\<^verbatim>\<open>JSONDiff.ts\<close> beside it): the changes diff reports, which applied
  to the old document give the new one, and a path-indexed specification it refines.
  \<^verbatim>\<open>Json_Editor\<close> (\<^verbatim>\<open>JSONDiff.ts\<close>, \<^verbatim>\<open>JSONCue.ts\<close>, \<^verbatim>\<open>useJSONEditor.ts\<close>): walking the syntax tree of
  the document, decorations of changed lines, diagnostics and completions; the parser and the
  view are a tree and a list of effects. \<^verbatim>\<open>Json_Lint\<close> (\<^verbatim>\<open>LSP.ts\<close>, \<^verbatim>\<open>useJSONEditor.ts\<close>): the failures of
  a document and where they are shown; \<^verbatim>\<open>Editor_Context\<close> (\<^verbatim>\<open>EditorContextProvider.tsx\<close>,
  \<^verbatim>\<open>EditorContainer.tsx\<close>, \<^verbatim>\<open>KubePkgEditor.tsx\<close>): extensions, the life of the view and what is submitted; \<^verbatim>\<open>Template_Editor\<close> (\<^verbatim>\<open>KubePkgEditor.tsx\<close>, with \<^verbatim>\<open>Deployment_Put\<close>):
  the way from a deployment through its dialog and the editor to the request; \<^verbatim>\<open>Deployment_History\<close>
  (\<^verbatim>\<open>GroupEnvDeploymentHistoryPut.tsx\<close>) the way from an earlier version to it. \<^verbatim>\<open>Schema_Type\<close>
  (\<^verbatim>\<open>nodepkg/jsonschema/src/SchemaType.ts\<close>, \<^verbatim>\<open>LSP.ts\<close>, \<^verbatim>\<open>JSONSchema.ts\<close>): schema types built from
  JSON schemas (with \<^verbatim>\<open>$ref\<close>, allOf, discriminators), their members, and the node at a key path. \<^verbatim>\<open>Schema_Flatten\<close>
  (\<^verbatim>\<open>webapp/dashboard/mod/kubepkg/utils.ts\<close>): schemas with references resolved and allOf merged.
  \<^verbatim>\<open>Kubepkg_Overwrites\<close> (\<^verbatim>\<open>webapp/dashboard/mod/kubepkg/KubePkgEditor.tsx\<close>, \<^verbatim>\<open>helpers.ts\<close>):
  annotations, the overwrites computed from an edited document, and the document the editor is
  given from template and overwrites; the two are inverse up to key order.

  \<^bold>\<open>Expressions and permissions.\<close>
  \<^verbatim>\<open>Expression\<close> (\<^verbatim>\<open>nodepkg/runtime/src/expression\<close>): the factory, the registered expressions and
  their evaluation with switched contexts, equal to the plain meaning; \<^verbatim>\<open>Expression_Messages\<close> what
  each says when it does not hold. \<^verbatim>\<open>Access_Control\<close>
  (\<^verbatim>\<open>webapp/dashboard/mod/auth\<close>): the current user from the responses of the two requests, and
  the decision whether an operation is open, which is an expression read from the client.

  \<^bold>\<open>The generated client.\<close>
  \<^verbatim>\<open>Dashboard_Types\<close>, \<^verbatim>\<open>Dashboard_Schema\<close>, \<^verbatim>\<open>Dashboard_Schemas\<close> and \<^verbatim>\<open>Dashboard_Client\<close> hold the
  declarations of \<^verbatim>\<open>webapp/dashboard/client/dashboard.ts\<close>: types, runtime schemas, enumerations
  and one request builder per operation; \<^verbatim>\<open>Dashboard_Request\<close> is the plumbing of \<^verbatim>\<open>client.tsx\<close>.
  \<^verbatim>\<open>Dashboard_Conformance\<close> shows that types, schemas and labels agree. \<^verbatim>\<open>Dashboard_Calls\<close> names
  requests by operation, so that the components below only issue calls the client has.

  \<^bold>\<open>Sessions.\<close>
  \<^verbatim>\<open>Auth_Session\<close> (\<^verbatim>\<open>nodepkg/runtime/src/persist\<close>, \<^verbatim>\<open>webapp/dashboard/mod/auth\<close>): the token with its
  storage across reloads, the guards of pages, the login with its callback, the refreshing of
  tokens ahead of requests. \<^verbatim>\<open>Navigation\<close> (\<^verbatim>\<open>webapp/dashboard/layout\<close>) has the links made of the routes
  and the theme, \<^verbatim>\<open>Pages\<close> (\<^verbatim>\<open>webapp/dashboard/page\<close>) the pages that combine guards, parameters and stores.

  \<^bold>\<open>Groups, environments and deployments.\<close>
  \<^verbatim>\<open>Group_Members\<close> (\<^verbatim>\<open>mod/group\<close>, \<^verbatim>\<open>mod/account\<close>), with the pages and the dialog that adds an account in
  \<^verbatim>\<open>Account_Pages\<close>, \<^verbatim>\<open>Clusters\<close> (\<^verbatim>\<open>mod/cluster\<close>) and \<^verbatim>\<open>Group_Env\<close>
  (\<^verbatim>\<open>mod/groupenv\<close>) have the stores behind the lists, the requests of their actions and what is
  shown; \<^verbatim>\<open>Group_Env\<close> refines the contract of which environment is bound to which cluster.
  \<^verbatim>\<open>Env_Deployments\<close> (\<^verbatim>\<open>mod/groupenv/GroupEnvDeploymentList.tsx\<close>) merges the answers of three requests
  into the list of deployments, \<^verbatim>\<open>Deployment_Status\<close> (\<^verbatim>\<open>mod/groupenv/components\<close>) has the resources
  and endpoints of one, \<^verbatim>\<open>Deployment_Create\<close> the page whose filters are kept in its address
  (\<^verbatim>\<open>nodepkg/runtime/src/router\<close>), \<^verbatim>\<open>Deployment_Put\<close> (\<^verbatim>\<open>mod/groupenv/actions\<close>) the dialogs that edit a
  deployment, with the editor's input made from template and overwrites. \<^verbatim>\<open>Kubepkg_Versions\<close>
  (\<^verbatim>\<open>mod/groupkubepkg\<close>) has the versions of a kubepkg: bases, order, filter, selection; \<^verbatim>\<open>Kubepkg_Pickers\<close> the selection as
  it runs, with its groups that expand, and the loading indicator.
  \<^verbatim>\<open>Action_Buttons\<close> (every file of \<^verbatim>\<open>mod/*/actions\<close>) puts access control, dialogs, forms and requests
  together: each button is a function of the properties it was set up with and the present ones, and
  one step function runs them all.

  \<^bold>\<open>Playground.\<close>
  \<^verbatim>\<open>OpenAPI_Schema\<close>, \<^verbatim>\<open>OpenAPI_Request\<close> and \<^verbatim>\<open>OpenAPI_View\<close> (\<^verbatim>\<open>nodepkg/openapi-playground/src\<close>): the
  schema of all requests made from an OpenAPI document, the request made from an input that
  meets it, and what is shown of a schema. \<^verbatim>\<open>Playground_Page\<close> (\<^verbatim>\<open>OpenAPI.tsx\<close>, \<^verbatim>\<open>RequestPlayground.tsx\<close>)
  is the page: which document is loaded, the playground set up from it, and what it sends;
  \<^verbatim>\<open>Playground_Views\<close> what it shows of the last answer.

  \<^bold>\<open>User interface.\<close>
  \<^verbatim>\<open>UI_Overlays\<close> (\<^verbatim>\<open>nodepkg/ui/src/Overlays\<close>): dialogs, prompts, snakebars, notifications, menus
  and tooltips as state machines, with the liveness of dialogs under weak fairness.
  \<^verbatim>\<open>Form_Controls\<close> (\<^verbatim>\<open>nodepkg/ui/src/FormControls\<close>): fields, selects, errors of a response and the
  dialog with a form around a request. \<^verbatim>\<open>Form_Fields\<close> has the inputs as they are used.

  \<^bold>\<open>Fuel and bounds.\<close>
  Recursion that follows references of a schema may not end, so it has fuel, and None is the
  value of a run that ends short of it. \<^verbatim>\<open>of_schema_terminates\<close>, \<^verbatim>\<open>request_schema_ends\<close> and
  \<^verbatim>\<open>schema_view_ends\<close> give the fuel that is enough: above the size of the schema for each rank of a
  reference, the ranks being the order among references that allOf follows. That it is needed is
  shown too: \<^verbatim>\<open>recursive_schema_overflows\<close> is a document for which no fuel is enough. Numbers of
  JSON are integers in the model except where the code divides or parses them; times are
  milliseconds as integers.

  \<^bold>\<open>Parameters.\<close>
  Code outside the repository is an argument of the definitions that call it: the validator of
  superstruct, parseFloat, the date functions, the comparison of semantic versions, regular
  expressions given by a caller, the JSON parser and the view of the editor. What is relied on is a
  named hypothesis, and a locale where several operations rely on it.

  \<^bold>\<open>Not modelled.\<close>
  The Go sources (\<^verbatim>\<open>cmd\<close>, \<^verbatim>\<open>internal\<close>, \<^verbatim>\<open>pkg\<close>), the cue packages and build files: another language
  than the one modelled. Styling: the style objects of every component, and the components of
  \<^verbatim>\<open>nodepkg/ui/src/Buttons\<close>, \<^verbatim>\<open>Icons\<close>, \<^verbatim>\<open>Lists\<close>, \<^verbatim>\<open>Shapes\<close> and \<^verbatim>\<open>layout/Container.tsx\<close>, which hold no
  state and make no decision but which CSS is sent. \<^verbatim>\<open>nodepkg/vuemarkdown\<close> connects packages, the
  \<^verbatim>\<open>index.ts\<close> files only export, \<^verbatim>\<open>vite.config.ts\<close> and \<^verbatim>\<open>nodedevpkg\<close> are the build. Pages that only name
  a component are known by their metadata, in \<^verbatim>\<open>Navigation\<close>. The types of \<^verbatim>\<open>JSONSchema.ts\<close> and of
  OpenAPI documents describe JSON the code does not check; the model takes any JSON in their place.
\<close>

end
